(* ===== verification/Aif_Prelude.thy ===== *)
theory Aif_Prelude
  imports Complex_Main "HOL-Library.Sublist"
begin

text \<open>
  Shared ground of the development: the JavaScript values the sources compute with, the
  string methods they call, insertion-ordered maps, and the generic lemmas on lists and
  options that the component theories use.

  Conventions.
  \<^item> A JavaScript string is a \<^typ>\<open>string\<close>, one \<^typ>\<open>char\<close> per code unit; code units above
    255 are outside the model. \<open>js_lower\<close> and \<open>js_trim\<close> are exact on that alphabet.
  \<^item> \<open>null\<close> and \<open>undefined\<close> of an optional string or number are both \<^term>\<open>None\<close>; where the
    code distinguishes an absent key from a null one, the model has a separate field.
  \<^item> A finite JavaScript number is a rational (\<open>Fin\<close>), so rounding of doubles is not modelled;
    \<open>NaN\<close> and the infinities are separate constructors, because the sources test for them.
  \<^item> An instant (\<open>Date.now()\<close>, or a column that holds \<open>toISOString()\<close> text) is the number
    of milliseconds since the epoch, an \<^typ>\<open>int\<close>: the fixed-width ISO text the sources store
    compares like the instants it denotes. One operation reads the clock once (argument \<open>now\<close>).
\<close>

named_theorems aif_defs \<open>definitions unfolded when a component lemma is proved\<close>
named_theorems aif_frame \<open>what an operation leaves unchanged\<close>

section \<open>JavaScript strings\<close>

definition js_lower_char :: "char \<Rightarrow> char" where
  "js_lower_char c =
     (let n = (of_char c :: nat) in
      if (65 \<le> n \<and> n \<le> 90) \<or> (192 \<le> n \<and> n \<le> 222 \<and> n \<noteq> 215) then char_of (n + 32) else c)"

definition js_lower :: "string \<Rightarrow> string" where
  "js_lower s = map js_lower_char s"

fun startsWith :: "string \<Rightarrow> string \<Rightarrow> bool" where
  "startsWith s [] = True"
| "startsWith [] (p # ps) = False"
| "startsWith (c # s) (p # ps) = (c = p \<and> startsWith s ps)"

fun js_includes :: "string \<Rightarrow> string \<Rightarrow> bool" where
  "js_includes [] p = (p = [])"
| "js_includes (c # s) p = (startsWith (c # s) p \<or> js_includes s p)"

definition js_space :: "char \<Rightarrow> bool" where
  "js_space c \<longleftrightarrow> (let n = (of_char c :: nat) in (9 \<le> n \<and> n \<le> 13) \<or> n = 32 \<or> n = 160)"

definition js_trim :: "string \<Rightarrow> string" where
  "js_trim s = rev (dropWhile js_space (rev (dropWhile js_space s)))"

text \<open>Truthiness of an optional string: \<open>null\<close>, \<open>undefined\<close> and the empty string are falsy.\<close>

definition truthy :: "string option \<Rightarrow> bool" where
  "truthy v = (case v of None \<Rightarrow> False | Some s \<Rightarrow> s \<noteq> [])"

fun digit_char :: "nat \<Rightarrow> char" where
  "digit_char n = char_of (48 + n)"

fun string_of_nat :: "nat \<Rightarrow> string" where
  "string_of_nat n =
     (if n < 10 then [digit_char n] else string_of_nat (n div 10) @ [digit_char (n mod 10)])"

declare string_of_nat.simps [simp del]

definition string_of_int :: "int \<Rightarrow> string" where
  "string_of_int i =
     (if i < 0 then ''-'' @ string_of_nat (nat (- i)) else string_of_nat (nat i))"

fun js_join :: "string \<Rightarrow> string list \<Rightarrow> string" where
  "js_join sep [] = []"
| "js_join sep [x] = x"
| "js_join sep (x # y # xs) = x @ sep @ js_join sep (y # xs)"

lemma startsWith_iff_prefix: "startsWith s p \<longleftrightarrow> prefix p s"
  by (induction s p rule: startsWith.induct) auto

lemma startsWith_append [simp]: "startsWith (p @ s) p"
  by (simp add: startsWith_iff_prefix)

lemma js_includes_iff_sublist: "js_includes s p \<longleftrightarrow> sublist p s"
  by (induction s) (auto simp: startsWith_iff_prefix sublist_Cons_right)

lemma startsWith_length: "startsWith s p \<Longrightarrow> length p \<le> length s"
  by (auto simp: startsWith_iff_prefix dest: prefix_length_le)

lemma startsWith_trans: "startsWith s p \<Longrightarrow> startsWith p q \<Longrightarrow> startsWith s q"
  by (auto simp: startsWith_iff_prefix)

lemma js_lower_append [simp]: "js_lower (a @ b) = js_lower a @ js_lower b"
  by (simp add: js_lower_def)

lemma length_js_lower [simp]: "length (js_lower s) = length s"
  by (simp add: js_lower_def)

lemma js_lower_take: "js_lower (take n s) = take n (js_lower s)"
  by (simp add: js_lower_def take_map)

lemma truthy_simps [simp]:
  "truthy None = False"
  "truthy (Some s) = (s \<noteq> [])"
  by (simp_all add: truthy_def)

lemma dropWhile_hd_neg: "dropWhile P xs = y # ys \<Longrightarrow> \<not> P y"
  using hd_dropWhile [of P xs] by auto

lemma js_trim_ends:
  assumes "js_trim s \<noteq> []"
  shows "\<not> js_space (hd (js_trim s))" and "\<not> js_space (last (js_trim s))"
proof -
  let ?t = "dropWhile js_space s"
  let ?u = "dropWhile js_space (rev ?t)"
  have u: "?u \<noteq> []" using assms by (simp add: js_trim_def)
  then have "\<not> js_space (hd ?u)" by (rule hd_dropWhile)
  then show "\<not> js_space (last (js_trim s))"
    using u by (simp add: js_trim_def last_rev)
  obtain v where v: "rev ?t = v @ ?u"
    by (metis takeWhile_dropWhile_id)
  then have t: "?t = rev ?u @ rev v"
    by (metis rev_append rev_rev_ident)
  have "?t \<noteq> []" using u by (metis dropWhile.simps(1) rev.simps(1))
  then have "\<not> js_space (hd ?t)" by (rule hd_dropWhile)
  moreover have "hd ?t = hd (rev ?u)" using t u by (metis hd_append rev_is_Nil_conv)
  ultimately show "\<not> js_space (hd (js_trim s))" by (simp add: js_trim_def)
qed

section \<open>JavaScript numbers and JSON values\<close>

datatype jsnum = Fin rat | NaN | PosInf | NegInf

datatype json =
    JNull
  | JBool bool
  | JNum jsnum
  | JStr string
  | JArr "json list"
  | JObj "(string \<times> json) list"

text \<open>\<open>Number.isFinite\<close> and \<open>Math.trunc\<close>, \<open>Math.floor\<close>, \<open>Math.ceil\<close> on finite values.\<close>

fun isFinite :: "jsnum \<Rightarrow> bool" where
  "isFinite (Fin _) = True"
| "isFinite _ = False"

definition js_trunc :: "rat \<Rightarrow> int" where
  "js_trunc q = (if q < 0 then \<lceil>q\<rceil> else \<lfloor>q\<rfloor>)"

fun toFiniteNumber :: "jsnum option \<Rightarrow> rat option" where
  "toFiniteNumber (Some (Fin q)) = Some q"
| "toFiniteNumber _ = None"

lemma js_trunc_bounds:
  "\<bar>of_int (js_trunc q)\<bar> \<le> \<bar>q\<bar>" and "0 \<le> q \<Longrightarrow> 0 \<le> js_trunc q"
proof -
  show "\<bar>of_int (js_trunc q)\<bar> \<le> \<bar>q\<bar>"
  proof (cases "q < 0")
    case True
    then have "\<lceil>q\<rceil> \<le> 0" by (simp add: ceiling_le_iff)
    moreover have "q \<le> of_int \<lceil>q\<rceil>" by (rule le_of_int_ceiling)
    ultimately show ?thesis using True by (simp add: js_trunc_def)
  next
    case False
    then have "0 \<le> \<lfloor>q\<rfloor>" by (simp add: le_floor_iff)
    moreover have "of_int \<lfloor>q\<rfloor> \<le> q" by (rule of_int_floor_le)
    ultimately show ?thesis using False by (simp add: js_trunc_def)
  qed
  show "0 \<le> q \<Longrightarrow> 0 \<le> js_trunc q"
    by (simp add: js_trunc_def le_floor_iff)
qed

section \<open>Insertion-ordered maps\<close>

text \<open>
  A JavaScript \<open>Map\<close> is an association list in insertion order: setting an existing key keeps
  its place, deleting removes it, a new key goes to the end.
\<close>

fun map_set :: "'k \<Rightarrow> 'v \<Rightarrow> ('k \<times> 'v) list \<Rightarrow> ('k \<times> 'v) list" where
  "map_set k v [] = [(k, v)]"
| "map_set k v ((k', v') # m) = (if k' = k then (k, v) # m else (k', v') # map_set k v m)"

definition map_delete :: "'k \<Rightarrow> ('k \<times> 'v) list \<Rightarrow> ('k \<times> 'v) list" where
  "map_delete k m = filter (\<lambda>p. fst p \<noteq> k) m"

abbreviation map_keys :: "('k \<times> 'v) list \<Rightarrow> 'k list" where
  "map_keys m \<equiv> map fst m"

lemma map_of_map_set [simp]: "map_of (map_set k v m) = (map_of m)(k \<mapsto> v)"
  by (induction m) (auto simp: fun_eq_iff)

lemma set_keys_map_set [simp]: "fst ` set (map_set k v m) = insert k (fst ` set m)"
  by (induction k v m rule: map_set.induct) (simp_all add: insert_commute)

lemma distinct_map_set: "distinct (map_keys m) \<Longrightarrow> distinct (map_keys (map_set k v m))"
  by (induction m) auto

lemma length_map_set:
  "length (map_set k v m) = (if k \<in> fst ` set m then length m else Suc (length m))"
  by (induction k v m rule: map_set.induct) simp_all

lemma map_of_map_delete [simp]: "map_of (map_delete k m) = (map_of m)(k := None)"
  by (induction m) (auto simp: map_delete_def fun_eq_iff)

lemma set_keys_map_delete [simp]: "fst ` set (map_delete k m) = fst ` set m - {k}"
  by (auto simp: map_delete_def)

lemma distinct_map_delete: "distinct (map_keys m) \<Longrightarrow> distinct (map_keys (map_delete k m))"
  by (induction m) (auto simp: map_delete_def)

lemma map_delete_absent: "k \<notin> fst ` set m \<Longrightarrow> map_delete k m = m"
  by (force simp: map_delete_def filter_id_conv)

lemma length_map_delete:
  assumes "distinct (map_keys m)"
  shows "length (map_delete k m) = (if k \<in> fst ` set m then length m - 1 else length m)"
proof -
  have "length (map_delete k m) = card (fst ` set (map_delete k m))"
    using distinct_map_delete [OF assms, of k] by (metis distinct_card length_map list.set_map)
  also have "\<dots> = card (fst ` set m - {k})" by simp
  also have "\<dots> = (if k \<in> fst ` set m then card (fst ` set m) - 1 else card (fst ` set m))"
    by simp
  also have "card (fst ` set m) = length m"
    using assms by (metis distinct_card length_map list.set_map)
  finally show ?thesis .
qed

section \<open>Lists and options\<close>

lemma find_Some_iff_filter: "List.find P xs = Some x \<Longrightarrow> x \<in> set xs \<and> P x"
  by (auto simp: find_Some_iff)

lemma find_None_filter: "List.find P xs = None \<longleftrightarrow> filter P xs = []"
  by (induction xs) auto

lemma filter_map_if_same:
  assumes "\<And>x. Q (f x) = Q x"
  shows "length (filter Q (map (\<lambda>x. if P x then f x else x) xs)) = length (filter Q xs)"
  using assms by (induction xs) auto

lemma distinct_map_sort_key [simp]: "distinct (map f (sort_key k xs)) = distinct (map f xs)"
  by (metis distinct_map distinct_sort set_sort)

lemma map_if_id: "(\<And>x. x \<in> set xs \<Longrightarrow> \<not> P x) \<Longrightarrow> map (\<lambda>x. if P x then f x else x) xs = xs"
  by (induction xs) auto

end
