(* ===== verification/Aif_Types.thy ===== *)
theory Aif_Types
  imports Aif_Prelude "HOL-Library.Char_ord" "HOL-Library.List_Lexorder" "HOL-Library.Product_Lexorder"
begin

text \<open>
  The data the components share, from \<open>packages/shared/src/types.ts\<close> and
  \<open>packages/shared/src/schema.ts\<close>: the enumerations, the rows of the SQLite tables and the
  database as a record of row lists in \<open>rowid\<close> order. Columns that no modelled operation reads
  or writes are left out of the records. A JSON text column holds its parsed value
  (\<open>JNull\<close> where \<open>JSON.parse\<close> throws, as the readers of these columns do).
\<close>

section \<open>Enumerations\<close>

datatype task_status =
    Backlog | Requirements_Analysis | Needs_Input | Research | Design | Planning | Plan_Ready
  | Implementing | Review | Qa | Blocked_External | Done | Verified

fun status_text :: "task_status \<Rightarrow> string" where
  "status_text Backlog = ''backlog''"
| "status_text Requirements_Analysis = ''requirements_analysis''"
| "status_text Needs_Input = ''needs_input''"
| "status_text Research = ''research''"
| "status_text Design = ''design''"
| "status_text Planning = ''planning''"
| "status_text Plan_Ready = ''plan_ready''"
| "status_text Implementing = ''implementing''"
| "status_text Review = ''review''"
| "status_text Qa = ''qa''"
| "status_text Blocked_External = ''blocked_external''"
| "status_text Done = ''done''"
| "status_text Verified = ''verified''"

datatype hierarchy_role = Executable | Container

datatype closeout_policy = All_Children_Done | All_Children_Verified | Synthesis_Child_Verified

datatype coordinator_stage =
    Requirements_Analyst | Researcher | Designer | Planner | Plan_Checker | Implementer | Reviewer
  | Qa_Stage

datatype task_event =
    Start_Ai | Accept_Existing_Plan | Request_Requirements_Reanalysis | Approve_Requirements
  | Start_Implementation | Request_Replanning | Fast_Fix | Approve_Done | Request_Changes
  | Manual_Exception | Cancel_Task | Retry_From_Blocked

datatype finding_source =
    Code_Review | Security_Audit | Review_Gate | Correctness | Security_Data_Loss
  | Regression_Api_Contract | Audit_Evidence

datatype finding_status =
    Resolved | Still_Blocking | New_Blocker | Not_Reproducible | Needs_Manual_Review

datatype finding_severity = Low_Severity | Medium_Severity | High_Severity | Critical_Severity

datatype coverage_area =
    Secret_Leaks | Permissions_Sandbox | Unsafe_Shell_Network_File | Dependency_Config

datatype coverage_status = Covered | Issue_Found | Not_Applicable_Here | Not_Checked

datatype review_strategy = Full_Re_Review | Closure_First

datatype artifact_state =
    Expected | Valid | Invalid | Missing | Synthesis_Not_Ready | External_Blocked
  | Source_Inconclusive | Terminal_Inconclusive | Manual_Exception_State

datatype rework_status =
    Accepted | Rework_Requested | Manual_Review_Required | Terminal_Inconclusive_Rework
  | Manual_Exception_Rework | Not_Applicable

datatype limit_status = Limit_Ok | Limit_Warning | Limit_Blocked | Limit_Unknown

datatype limit_precision = Exact | Heuristic

datatype limit_scope =
    Requests | Tokens | Time_Scope | Spend | Turn_Usage | Model_Usage | Tool_Usage | Other_Scope

datatype runtime_transport = SDK | CLI | APP_SERVER | API

text \<open>
  A timestamp text that comes from a provider: either the \<open>toISOString()\<close> text of an instant or
  any other text, whose \<open>Date.parse\<close> value is left to a parameter (implementation-defined in
  the language standard).
\<close>

datatype stamp = Iso int | Text string

fun date_parse :: "(string \<Rightarrow> int option) \<Rightarrow> stamp \<Rightarrow> int option" where
  "date_parse other (Iso t) = Some t"
| "date_parse other (Text s) = other s"

fun stamp_truthy :: "stamp \<Rightarrow> bool" where
  "stamp_truthy (Iso t) = True"
| "stamp_truthy (Text s) = (s \<noteq> [])"

section \<open>Values stored in rows\<close>

record review_finding =
  findingId :: string
  findingText :: string
  findingSource :: finding_source
  findingStatus :: "finding_status option"
  findingSeverity :: "finding_severity option"
  findingLocation :: "string option"
  findingClaim :: "string option"
  findingRequiredFix :: "string option"
  findingVerification :: "string option"
  findingClosureEvidence :: "string option"
  firstSeenIteration :: "jsnum option"
  lastSeenIteration :: "jsnum option"
  streak :: "jsnum option"

record security_coverage =
  coverageArea :: coverage_area
  coverageStatus :: coverage_status
  coverageNote :: string

record blocker_history_entry =
  historyId :: string
  historySource :: finding_source
  historyStatus :: finding_status
  historyNote :: string
  historyIteration :: "int option"
  historyClosureEvidence :: "string option"

record rework_snapshot =
  snapIteration :: int
  snapArtifactPath :: string
  snapArtifactContentSha :: "string option"
  snapFindingIds :: "string list"
  snapBaselineHeadSha :: "string option"
  snapChangedFilesDigest :: "string option"
  snapChangedFilesSummary :: "string list option"
  snapRequiredEvidence :: "(string \<times> string) list option"
  snapForbiddenChanges :: "string list option"

record auto_review_state =
  reviewStrategy :: review_strategy
  reviewIteration :: int
  findings :: "review_finding list"
  securityCoverage :: "security_coverage list option"
  blockerHistory :: "blocker_history_entry list option"
  reworkSnapshot :: "rework_snapshot option"

record limit_window =
  windowScope :: limit_scope
  percentRemaining :: "jsnum option"
  windowResetAt :: "stamp option"
  windowRetryAfterSeconds :: "jsnum option"
  windowWarningThreshold :: "jsnum option"

record limit_snapshot =
  limitStatus :: limit_status
  limitPrecision :: limit_precision
  limitProviderId :: string
  limitProfileId :: "string option"
  primaryScope :: "limit_scope option"
  limitResetAt :: "stamp option"
  limitRetryAfterSeconds :: "jsnum option"
  limitWarningThreshold :: "jsnum option"
  windows :: "limit_window list"
  providerMeta :: json

section \<open>Rows and tables\<close>

record task_row =
  taskId :: string
  projectId :: string
  title :: string
  autoMode :: bool
  taskIntent :: string
  status :: task_status
  position :: rat
  parentTaskId :: "string option"
  rootTaskId :: "string option"
  hierarchyDepth :: int
  hierarchyRole :: hierarchy_role
  hierarchyPosition :: rat
  parentCloseoutPolicy :: "closeout_policy option"
  reviewComments :: "string option"
  blockedReason :: "string option"
  blockedFromStatus :: "task_status option"
  retryAfter :: "int option"
  retryCount :: int
  reworkRequested :: bool
  reviewIterationCount :: int
  maxReviewIterations :: int
  manualReviewRequired :: bool
  autoReviewState :: "auto_review_state option"
  paused :: bool
  lastHeartbeatAt :: "int option"
  runtimeProfileId :: "string option"
  sessionId :: "string option"
  runtimeLimitSnapshot :: "limit_snapshot option"
  runtimeLimitUpdatedAt :: "int option"
  lockedBy :: "string option"
  lockedUntil :: "int option"
  lockStage :: "coordinator_stage option"
  coordinatorId :: "string option"
  scheduledAt :: "int option"
  branchName :: "string option"
  worktreePath :: "string option"
  requirementsSnapshotId :: "string option"
  createdAt :: int
  updatedAt :: int

record project_row =
  prId :: string
  parallelEnabled :: bool
  autoQueueMode :: bool
  defaultTaskRuntimeProfileId :: "string option"
  defaultPlanRuntimeProfileId :: "string option"
  defaultReviewRuntimeProfileId :: "string option"
  defaultChatRuntimeProfileId :: "string option"
  prUpdatedAt :: int

record artifact_row =
  artifactId :: string
  artifactBatchId :: string
  artifactTaskId :: string
  artifactRole :: string
  artifactPath :: string
  artifactState :: artifact_state
  artifactFailureFamily :: "string option"
  artifactValidationDetails :: json
  artifactContentSha :: "string option"
  artifactAttemptNumber :: int
  artifactCreatedAt :: int
  artifactBranchName :: "string option"
  artifactWorktreePath :: "string option"
  artifactProjectRoot :: "string option"
  artifactAttemptBoundaryId :: "string option"
  artifactValidatedAt :: "int option"
  artifactUpdatedAt :: int

record attempt_row =
  attemptArtifactId :: string
  attemptTaskId :: string
  attemptRole :: string
  attemptNumber :: int
  attemptState :: artifact_state
  attemptClassification :: "string option"
  attemptFailureFamily :: "string option"
  attemptReworkStatus :: rework_status
  attemptValidationDetails :: json
  attemptBoundaryId :: "string option"
  attemptContentSha :: "string option"

text \<open>An attempt at a stage of a task, as far as failure fingerprints need it: its metadata's fingerprint
  and whether an operator overrode it.\<close>

record stage_attempt_row =
  stageAttemptTaskId :: string
  stageAttemptStage :: string
  stageAttemptKind :: string
  stageAttemptFingerprint :: "string option"
  stageAttemptOverride :: bool

record batch_row =
  batchId :: string
  batchProjectId :: string
  roadmapAlias :: string
  batchTaskIntent :: string
  batchStatus :: string
  synthesisTaskId :: "string option"
  validArtifactCount :: nat
  invalidArtifactCount :: nat
  missingArtifactCount :: nat
  externalBlockedArtifactCount :: nat
  batchSynthesisReady :: bool
  batchFailureFamily :: "string option"
  createdTaskIds :: "string list"
  batchUpdatedAt :: int

record lease_row =
  endpointKey :: string
  leaseProfileId :: "string option"
  leaseBaseUrl :: "string option"
  leaseRuntimeId :: "string option"
  leaseProviderId :: "string option"
  holderId :: "string option"
  leaseTaskId :: "string option"
  leaseToken :: "string option"
  heartbeatAt :: "int option"
  leaseTtlMs :: "int option"
  leaseExpiresAt :: "int option"
  cooldownUntil :: "int option"
  cooldownFailureCount :: int
  cooldownReason :: "string option"
  leaseCreatedAt :: int
  leaseUpdatedAt :: int

record comment_row =
  commentTaskId :: string
  commentAuthor :: string
  commentMessage :: string

text \<open>
  The database. \<open>activity\<close> is the sequence of \<open>logActivity\<close> calls (task, category, detail)
  in order; how \<open>hooks.ts\<close> writes them out (at once or in batches) is not part of it.
\<close>

record db =
  tasks :: "task_row list"
  projects :: "project_row list"
  artifacts :: "artifact_row list"
  attempts :: "attempt_row list"
  batches :: "batch_row list"
  leases :: "lease_row list"
  comments :: "comment_row list"
  activity :: "(string \<times> string \<times> string) list"
  stageAttempts :: "stage_attempt_row list"

section \<open>Reading and updating the task table\<close>

definition findTaskById :: "string \<Rightarrow> db \<Rightarrow> task_row option" where
  "findTaskById i d = List.find (\<lambda>r. taskId r = i) (tasks d)"

text \<open>
  \<open>UPDATE tasks SET f WHERE p\<close>: the new database and the number of changed rows
  (\<open>result.changes\<close>).
\<close>

definition update_tasks :: "(task_row \<Rightarrow> bool) \<Rightarrow> (task_row \<Rightarrow> task_row) \<Rightarrow> db \<Rightarrow> db \<times> nat" where
  "update_tasks p f d =
     (d\<lparr>tasks := map (\<lambda>r. if p r then f r else r) (tasks d)\<rparr>, length (filter p (tasks d)))"

abbreviation task_ids :: "db \<Rightarrow> string set" where
  "task_ids d \<equiv> taskId ` set (tasks d)"

definition ids_distinct :: "db \<Rightarrow> bool" where
  "ids_distinct d \<longleftrightarrow> distinct (map taskId (tasks d))"

lemma update_tasks_simps [simp]:
  "tasks (fst (update_tasks p f d)) = map (\<lambda>r. if p r then f r else r) (tasks d)"
  "projects (fst (update_tasks p f d)) = projects d"
  "artifacts (fst (update_tasks p f d)) = artifacts d"
  "attempts (fst (update_tasks p f d)) = attempts d"
  "batches (fst (update_tasks p f d)) = batches d"
  "leases (fst (update_tasks p f d)) = leases d"
  "comments (fst (update_tasks p f d)) = comments d"
  "activity (fst (update_tasks p f d)) = activity d"
  "stageAttempts (fst (update_tasks p f d)) = stageAttempts d"
  "snd (update_tasks p f d) = length (filter p (tasks d))"
  by (simp_all add: update_tasks_def)

lemma update_tasks_none: "(\<And>r. r \<in> set (tasks d) \<Longrightarrow> \<not> p r) \<Longrightarrow> update_tasks p f d = (d, 0)"
proof -
  assume none: "\<And>r. r \<in> set (tasks d) \<Longrightarrow> \<not> p r"
  then have "map (\<lambda>r. if p r then f r else r) (tasks d) = tasks d" by (rule map_if_id)
  moreover have "filter p (tasks d) = []" using none by (simp add: filter_empty_conv)
  ultimately show ?thesis by (simp add: update_tasks_def)
qed

lemma findTaskById_Some: "findTaskById i d = Some r \<Longrightarrow> taskId r = i \<and> r \<in> set (tasks d)"
  by (auto simp: findTaskById_def find_Some_iff)

lemma findTaskById_None: "findTaskById i d = None \<longleftrightarrow> i \<notin> task_ids d"
  by (auto simp: findTaskById_def find_None_iff)

lemma findTaskById_iff:
  assumes "ids_distinct d"
  shows "findTaskById i d = Some r \<longleftrightarrow> r \<in> set (tasks d) \<and> taskId r = i"
proof
  assume r: "r \<in> set (tasks d) \<and> taskId r = i"
  then have "findTaskById i d \<noteq> None" by (auto simp: findTaskById_None)
  then obtain r' where r': "findTaskById i d = Some r'" by auto
  then have "r' = r"
    using r findTaskById_Some [OF r'] assms
    by (auto simp: ids_distinct_def distinct_map dest: inj_onD)
  with r' show "findTaskById i d = Some r" by simp
qed (use findTaskById_Some in blast)

lemma find_map_pred: "(\<And>x. P (g x) = P x) \<Longrightarrow> List.find P (map g xs) = map_option g (List.find P xs)"
  by (induction xs) auto

lemma findTaskById_update:
  assumes "\<And>r. taskId (f r) = taskId r"
  shows "findTaskById i (fst (update_tasks p f d)) =
    map_option (\<lambda>r. if p r then f r else r) (findTaskById i d)"
  using find_map_pred [of "\<lambda>r. taskId r = i" "\<lambda>r. if p r then f r else r" "tasks d"] assms
  by (simp add: findTaskById_def)

lemma task_ids_update [aif_frame]:
  assumes "\<And>r. taskId (f r) = taskId r"
  shows "map taskId (tasks (fst (update_tasks p f d))) = map taskId (tasks d)"
  using assms by simp

lemma task_ids_map: "task_ids d = set (map taskId (tasks d))"
  by simp

text \<open>A row and a database to build concrete inputs from.\<close>

definition blank_task :: "string \<Rightarrow> task_row" where
  "blank_task i = \<lparr>taskId = i, projectId = ''p'', title = ''t'', autoMode = True,
     taskIntent = ''general'', status = Backlog, position = 1000, parentTaskId = None,
     rootTaskId = None, hierarchyDepth = 0, hierarchyRole = Executable, hierarchyPosition = 1000,
     parentCloseoutPolicy = None, reviewComments = None, blockedReason = None,
     blockedFromStatus = None, retryAfter = None, retryCount = 0, reworkRequested = False,
     reviewIterationCount = 0, maxReviewIterations = 100, manualReviewRequired = False,
     autoReviewState = None, paused = False, lastHeartbeatAt = None, runtimeProfileId = None,
     sessionId = None, runtimeLimitSnapshot = None, runtimeLimitUpdatedAt = None, lockedBy = None,
     lockedUntil = None, lockStage = None, coordinatorId = None, scheduledAt = None,
     branchName = None, worktreePath = None, requirementsSnapshotId = None, createdAt = 0, updatedAt = 0\<rparr>"

definition empty_db :: db where
  "empty_db = \<lparr>tasks = [], projects = [], artifacts = [], attempts = [], batches = [],
     leases = [], comments = [], activity = [], stageAttempts = []\<rparr>"

end
