(* ===== verification/State_Machine.thy ===== *)
theory State_Machine
  imports Aif_Types
begin

text \<open>
  The human-event state machine of a task, \<open>packages/shared/src/stateMachine.ts\<close>: the
  predicates on block reasons, \<open>applyHumanTaskEvent\<close> with every guard and error text, and the
  table of offered actions. A transition result is \<^term>\<open>Inl\<close> of the error text or \<^term>\<open>Inr\<close>
  of the patch.
\<close>

section \<open>Patches\<close>

record transition_patch =
  p_status :: task_status
  p_blockedReason :: "string option"
  p_blockedFromStatus :: "task_status option"
  p_retryAfter :: "int option"
  p_retryCount :: int
  p_reworkRequested :: bool
  p_reviewIterationCount :: int
  p_manualReviewRequired :: bool
  p_autoReviewState :: "auto_review_state option"
  p_scheduledAt :: "int option"
  p_paused :: bool

record transition_options =
  requirementsIntakeEnabled :: bool
  allowOperatorInputRetry :: bool

definition CLEAN_STATE_RESET :: "task_status \<Rightarrow> transition_patch" where
  "CLEAN_STATE_RESET s = \<lparr>p_status = s, p_blockedReason = None, p_blockedFromStatus = None,
     p_retryAfter = None, p_retryCount = 0, p_reworkRequested = False,
     p_reviewIterationCount = 0, p_manualReviewRequired = False, p_autoReviewState = None,
     p_scheduledAt = None, p_paused = False\<rparr>"

section \<open>Predicates on blocked tasks\<close>

definition reason_lower :: "task_row \<Rightarrow> string" where
  "reason_lower t = (case blockedReason t of None \<Rightarrow> [] | Some r \<Rightarrow> js_lower r)"

definition isManualReviewBlockedTask :: "task_row \<Rightarrow> bool" where
  "isManualReviewBlockedTask t =
     (let reason = reason_lower t in
      manualReviewRequired t \<or>
      js_includes reason ''manual-review'' \<or>
      js_includes reason ''manual_review_required'' \<or>
      js_includes reason ''manual review required'' \<or>
      js_includes reason ''manual_exception'' \<or>
      js_includes reason ''manual-exception'')"

definition isRetryablePlanQualityBlock :: "task_row \<Rightarrow> bool" where
  "isRetryablePlanQualityBlock t \<longleftrightarrow>
     blockedFromStatus t = Some Planning \<and> startsWith (reason_lower t) ''plan quality guard''"

definition isRetryableMalformedReviewOutputBlock :: "task_row \<Rightarrow> bool" where
  "isRetryableMalformedReviewOutputBlock t \<longleftrightarrow>
     blockedFromStatus t = Some Review \<and>
     (js_includes (reason_lower t) ''malformed_review_output_fallback'' \<or>
      js_includes (reason_lower t) ''malformed_structured_review_contract'')"

definition isRetryableNoSubstantiveReworkBlock :: "task_row \<Rightarrow> bool" where
  "isRetryableNoSubstantiveReworkBlock t \<longleftrightarrow>
     blockedFromStatus t = Some Implementing \<and>
     js_includes (reason_lower t) ''no_substantive_rework_delta''"

definition isRetryableStalledReworkLoopBlock :: "task_row \<Rightarrow> bool" where
  "isRetryableStalledReworkLoopBlock t \<longleftrightarrow>
     blockedFromStatus t = Some Review \<and> js_includes (reason_lower t) ''stalled_rework_loop''"

definition isRetryableQaSchemaFallbackBlock :: "task_row \<Rightarrow> bool" where
  "isRetryableQaSchemaFallbackBlock t \<longleftrightarrow>
     blockedFromStatus t = Some Qa \<and>
     startsWith (reason_lower t) ''qa_stage_blocked:'' \<and>
     js_includes (reason_lower t) ''qa output failed schema validation''"

definition isRetryableSequentialBranchDependencyBlock :: "task_row \<Rightarrow> bool" where
  "isRetryableSequentialBranchDependencyBlock t \<longleftrightarrow>
     startsWith (reason_lower t) ''sequential_branch_dependency_blocked:''"

definition isRetryableOperatorInputHold :: "task_row \<Rightarrow> bool" where
  "isRetryableOperatorInputHold t \<longleftrightarrow>
     startsWith (reason_lower t) ''operator_input_required:'' \<or>
     startsWith (reason_lower t) ''operator_cancelled:''"

section \<open>The transition function\<close>

definition cancel_reason :: "task_status \<Rightarrow> string" where
  "cancel_reason s = ''operator_cancelled: task cancelled by operator from '' @ status_text s"

fun applyHumanTaskEvent ::
  "task_row \<Rightarrow> task_event \<Rightarrow> transition_options \<Rightarrow> string + transition_patch" where
  "applyHumanTaskEvent t Start_Ai opt =
     (if status t \<noteq> Backlog then Inl ''start_ai is only allowed from backlog''
      else Inr (CLEAN_STATE_RESET
        (if requirementsIntakeEnabled opt then Requirements_Analysis else Planning)))"
| "applyHumanTaskEvent t Request_Requirements_Reanalysis opt =
     (if \<not> requirementsIntakeEnabled opt
      then Inl ''request_requirements_reanalysis requires requirements intake to be enabled''
      else if status t \<notin> {Backlog, Planning, Plan_Ready, Done}
      then Inl ''request_requirements_reanalysis is only allowed from backlog, planning, plan_ready, or done''
      else Inr (CLEAN_STATE_RESET Requirements_Analysis))"
| "applyHumanTaskEvent t Approve_Requirements opt =
     (if status t \<noteq> Requirements_Analysis
      then Inl ''approve_requirements is only allowed from requirements_analysis''
      else Inr (CLEAN_STATE_RESET Planning))"
| "applyHumanTaskEvent t Accept_Existing_Plan opt =
     (if status t \<noteq> Backlog then Inl ''accept_existing_plan is only allowed from backlog''
      else Inr (CLEAN_STATE_RESET Plan_Ready))"
| "applyHumanTaskEvent t Start_Implementation opt =
     (if status t \<noteq> Plan_Ready then Inl ''start_implementation is only allowed from plan_ready''
      else if autoMode t then Inl ''start_implementation is not needed when autoMode=true''
      else Inr (CLEAN_STATE_RESET Implementing))"
| "applyHumanTaskEvent t Request_Replanning opt =
     (if status t \<noteq> Plan_Ready then Inl ''request_replanning is only allowed from plan_ready''
      else Inr (CLEAN_STATE_RESET Planning))"
| "applyHumanTaskEvent t Fast_Fix opt =
     (if status t \<noteq> Plan_Ready then Inl ''fast_fix is only allowed from plan_ready''
      else Inr (CLEAN_STATE_RESET Plan_Ready))"
| "applyHumanTaskEvent t Approve_Done opt =
     (if status t \<noteq> Done then Inl ''approve_done is only allowed from done''
      else Inr (CLEAN_STATE_RESET Verified))"
| "applyHumanTaskEvent t Request_Changes opt =
     (if status t \<noteq> Done then Inl ''request_changes is only allowed from done''
      else Inr ((CLEAN_STATE_RESET Implementing)\<lparr>p_reworkRequested := True\<rparr>))"
| "applyHumanTaskEvent t Manual_Exception opt =
     Inl ''manual_exception is handled by the audit artifact service''"
| "applyHumanTaskEvent t Cancel_Task opt =
     (if status t = Done \<or> status t = Verified
      then Inl ''cancel_task is not allowed from terminal task status''
      else Inr ((CLEAN_STATE_RESET Blocked_External)
        \<lparr>p_blockedReason := Some (cancel_reason (status t)),
         p_blockedFromStatus := Some (status t),
         p_retryAfter := None, p_retryCount := 0, p_reworkRequested := False,
         p_reviewIterationCount := 0, p_manualReviewRequired := True,
         p_autoReviewState := None, p_scheduledAt := None, p_paused := True\<rparr>))"
| "applyHumanTaskEvent t Retry_From_Blocked opt =
     (if status t \<noteq> Blocked_External
      then Inl ''retry_from_blocked is only allowed from blocked_external''
      else (case blockedFromStatus t of
        None \<Rightarrow> Inl ''blockedFromStatus is missing for retry_from_blocked''
      | Some from \<Rightarrow>
          (let allowRetry = (allowOperatorInputRetry opt \<and> isRetryableOperatorInputHold t) in
           if isManualReviewBlockedTask t \<and>
              \<not> isRetryablePlanQualityBlock t \<and>
              \<not> isRetryableMalformedReviewOutputBlock t \<and>
              \<not> isRetryableNoSubstantiveReworkBlock t \<and>
              \<not> isRetryableStalledReworkLoopBlock t \<and>
              \<not> isRetryableQaSchemaFallbackBlock t \<and>
              \<not> isRetryableSequentialBranchDependencyBlock t \<and>
              \<not> allowRetry
           then Inl ''retry_from_blocked is not allowed for manual review blocks''
           else Inr ((CLEAN_STATE_RESET from)\<lparr>p_reworkRequested := reworkRequested t\<rparr>))))"

fun HUMAN_ACTIONS_BY_STATUS :: "task_status \<Rightarrow> task_event list" where
  "HUMAN_ACTIONS_BY_STATUS Backlog = [Start_Ai, Cancel_Task]"
| "HUMAN_ACTIONS_BY_STATUS Requirements_Analysis = [Approve_Requirements, Cancel_Task]"
| "HUMAN_ACTIONS_BY_STATUS Needs_Input = [Cancel_Task]"
| "HUMAN_ACTIONS_BY_STATUS Research = [Cancel_Task]"
| "HUMAN_ACTIONS_BY_STATUS Design = [Cancel_Task]"
| "HUMAN_ACTIONS_BY_STATUS Planning = [Cancel_Task]"
| "HUMAN_ACTIONS_BY_STATUS Plan_Ready =
     [Start_Implementation, Request_Replanning, Fast_Fix, Cancel_Task]"
| "HUMAN_ACTIONS_BY_STATUS Implementing = [Cancel_Task]"
| "HUMAN_ACTIONS_BY_STATUS Review = [Cancel_Task]"
| "HUMAN_ACTIONS_BY_STATUS Qa = [Cancel_Task]"
| "HUMAN_ACTIONS_BY_STATUS Blocked_External = [Retry_From_Blocked, Cancel_Task]"
| "HUMAN_ACTIONS_BY_STATUS Done = [Approve_Done, Request_Changes]"
| "HUMAN_ACTIONS_BY_STATUS Verified = []"

text \<open>
  Storing a patch on the row, column by column, and a run of human events: a refused event
  leaves the row as it is.
\<close>

definition apply_patch :: "transition_patch \<Rightarrow> task_row \<Rightarrow> task_row" where
  "apply_patch p t = t\<lparr>status := p_status p, blockedReason := p_blockedReason p,
     blockedFromStatus := p_blockedFromStatus p, retryAfter := p_retryAfter p,
     retryCount := p_retryCount p, reworkRequested := p_reworkRequested p,
     reviewIterationCount := p_reviewIterationCount p,
     manualReviewRequired := p_manualReviewRequired p, autoReviewState := p_autoReviewState p,
     scheduledAt := p_scheduledAt p, paused := p_paused p\<rparr>"

fun human_run :: "task_row \<Rightarrow> (task_event \<times> transition_options) list \<Rightarrow> task_row" where
  "human_run t [] = t"
| "human_run t ((e, opt) # es) =
     (case applyHumanTaskEvent t e opt of
        Inl _ \<Rightarrow> human_run t es
      | Inr p \<Rightarrow> human_run (apply_patch p t) es)"

section \<open>Lemmas\<close>

lemma p_status_CLEAN [simp]: "p_status (CLEAN_STATE_RESET s) = s"
  by (simp add: CLEAN_STATE_RESET_def)

lemma apply_patch_status [simp]: "status (apply_patch p t) = p_status p"
  by (simp add: apply_patch_def)

lemma apply_patch_frame [simp]:
  "taskId (apply_patch p t) = taskId t"
  "autoMode (apply_patch p t) = autoMode t"
  "lockedBy (apply_patch p t) = lockedBy t"
  "lockedUntil (apply_patch p t) = lockedUntil t"
  by (simp_all add: apply_patch_def)

declare applyHumanTaskEvent.simps [simp del]

lemma cancel_accepted:
  "status t \<notin> {Done, Verified} \<Longrightarrow>
   applyHumanTaskEvent t Cancel_Task opt = Inr \<lparr>p_status = Blocked_External,
     p_blockedReason = Some (cancel_reason (status t)), p_blockedFromStatus = Some (status t),
     p_retryAfter = None, p_retryCount = 0, p_reworkRequested = False,
     p_reviewIterationCount = 0, p_manualReviewRequired = True, p_autoReviewState = None,
     p_scheduledAt = None, p_paused = True\<rparr>"
  by (simp add: CLEAN_STATE_RESET_def applyHumanTaskEvent.simps)

lemma js_lower_cancel_reason: "js_lower (cancel_reason s) = cancel_reason s"
  by (cases s) (simp_all add: cancel_reason_def js_lower_def js_lower_char_def)

lemma cancel_reason_starts: "startsWith (cancel_reason s) ''operator_cancelled:''"
  by (simp add: cancel_reason_def)

lemma cancel_reason_not_retryable:
  "\<not> startsWith (cancel_reason s) ''plan quality guard''"
  "\<not> startsWith (cancel_reason s) ''qa_stage_blocked:''"
  "\<not> startsWith (cancel_reason s) ''sequential_branch_dependency_blocked:''"
  "\<not> js_includes (cancel_reason s) ''malformed_review_output_fallback''"
  "\<not> js_includes (cancel_reason s) ''malformed_structured_review_contract''"
  "\<not> js_includes (cancel_reason s) ''no_substantive_rework_delta''"
  "\<not> js_includes (cancel_reason s) ''stalled_rework_loop''"
  by (cases s; simp add: cancel_reason_def)+

lemmas retry_predicates =
  isManualReviewBlockedTask_def isRetryablePlanQualityBlock_def
  isRetryableMalformedReviewOutputBlock_def isRetryableNoSubstantiveReworkBlock_def
  isRetryableStalledReworkLoopBlock_def isRetryableQaSchemaFallbackBlock_def
  isRetryableSequentialBranchDependencyBlock_def isRetryableOperatorInputHold_def


lemma reason_lower_cancel:
  "blockedReason t = Some (cancel_reason s) \<Longrightarrow> reason_lower t = cancel_reason s"
  by (simp add: reason_lower_def js_lower_cancel_reason)

lemma cancelled_row:
  assumes "status t \<notin> {Done, Verified}" "applyHumanTaskEvent t Cancel_Task opt = Inr p"
  shows "status (apply_patch p t) = Blocked_External"
    and "blockedFromStatus (apply_patch p t) = Some (status t)"
    and "blockedReason (apply_patch p t) = Some (cancel_reason (status t))"
    and "manualReviewRequired (apply_patch p t)" and "paused (apply_patch p t)"
    and "\<not> reworkRequested (apply_patch p t)"
  using assms(2) unfolding cancel_accepted [OF assms(1)] by (auto simp: apply_patch_def)

lemma cancelled_retry:
  assumes "status t = Blocked_External" "blockedFromStatus t = Some s"
    "blockedReason t = Some (cancel_reason s)" "manualReviewRequired t"
  shows "applyHumanTaskEvent t Retry_From_Blocked opt =
    (if allowOperatorInputRetry opt
     then Inr ((CLEAN_STATE_RESET s)\<lparr>p_reworkRequested := reworkRequested t\<rparr>)
     else Inl ''retry_from_blocked is not allowed for manual review blocks'')"
  using assms reason_lower_cancel [OF assms(3)]
  by (simp add: applyHumanTaskEvent.simps Let_def retry_predicates cancel_reason_not_retryable cancel_reason_starts)

text \<open>The rows a task blocked from \<open>blocked_external\<close> can be moved to by human events.\<close>

definition blocked_trap :: "task_row \<Rightarrow> bool" where
  "blocked_trap t \<longleftrightarrow>
     status t = Blocked_External \<and> blockedFromStatus t \<in> {None, Some Blocked_External}"

lemma blocked_trap_step:
  assumes "blocked_trap t" "applyHumanTaskEvent t e opt = Inr p"
  shows "blocked_trap (apply_patch p t)"
  using assms
  by (cases e)
    (auto simp: applyHumanTaskEvent.simps blocked_trap_def apply_patch_def CLEAN_STATE_RESET_def Let_def
      split: if_splits option.splits)

lemma blocked_trap_run: "blocked_trap t \<Longrightarrow> blocked_trap (human_run t es)"
  by (induction t es rule: human_run.induct) (auto split: sum.splits dest: blocked_trap_step)

section \<open>Properties\<close>









text \<open>
  No sequence of human events, with any options, changes a verified task in any column.
\<close>

theorem verified_is_terminal: "status t = Verified \<Longrightarrow> human_run t es = t"
proof (induction es)
  case (Cons a es)
  obtain e opt where a: "a = (e, opt)" by fastforce
  have "\<exists>m. applyHumanTaskEvent t e opt = Inl m"
    using Cons.prems by (cases e) (simp_all add: applyHumanTaskEvent.simps)
  with Cons a show ?case by auto
qed simp

theorem verified_is_terminal_witness:
  "status ((blank_task ''a'')\<lparr>status := Verified\<rparr>) = Verified \<and>
   human_run ((blank_task ''a'')\<lparr>status := Verified\<rparr>)
     [(Cancel_Task, \<lparr>requirementsIntakeEnabled = False, allowOperatorInputRetry = True\<rparr>)] =
   (blank_task ''a'')\<lparr>status := Verified\<rparr>"
  using verified_is_terminal [of "(blank_task ''a'')\<lparr>status := Verified\<rparr>"
    "[(Cancel_Task, \<lparr>requirementsIntakeEnabled = False, allowOperatorInputRetry = True\<rparr>)]"]
  by (simp del: human_run.simps)

text \<open>
  C10: cancelling a task that is neither finished nor already blocked parks it (blocked, paused,
  flagged for manual review); without the operator option every retry is then refused with the
  manual-review error, and with it the retry returns the task to the very status it was cancelled
  from, unpaused, with no block data left.
\<close>

theorem cancel_then_operator_retry:
  assumes "status t \<notin> {Done, Verified, Blocked_External}"
  shows "\<exists>p t1. applyHumanTaskEvent t Cancel_Task opt = Inr p \<and> t1 = apply_patch p t \<and>
    status t1 = Blocked_External \<and> paused t1 \<and> isManualReviewBlockedTask t1 \<and>
    (if allowOperatorInputRetry opt'
     then \<exists>q. applyHumanTaskEvent t1 Retry_From_Blocked opt' = Inr q \<and>
       q = CLEAN_STATE_RESET (status t) \<and> status (apply_patch q t1) = status t \<and>
       \<not> paused (apply_patch q t1) \<and> blockedReason (apply_patch q t1) = None
     else applyHumanTaskEvent t1 Retry_From_Blocked opt' =
       Inl ''retry_from_blocked is not allowed for manual review blocks'')"
proof -
  have ok: "status t \<notin> {Done, Verified}" using assms by simp
  obtain p where p: "applyHumanTaskEvent t Cancel_Task opt = Inr p"
    using cancel_accepted [OF ok] by blast
  define t1 where "t1 = apply_patch p t"
  note row = cancelled_row [OF ok p, folded t1_def]
  have retry: "applyHumanTaskEvent t1 Retry_From_Blocked opt' =
    (if allowOperatorInputRetry opt' then Inr (CLEAN_STATE_RESET (status t))
     else Inl ''retry_from_blocked is not allowed for manual review blocks'')"
    using cancelled_retry [OF row(1,2,3,4), of opt'] row(6) by (simp add: CLEAN_STATE_RESET_def)
  have "isManualReviewBlockedTask t1" using row(4) by (simp add: isManualReviewBlockedTask_def)
  moreover have "\<not> paused (apply_patch (CLEAN_STATE_RESET s) t1)"
    "blockedReason (apply_patch (CLEAN_STATE_RESET s) t1) = None" for s
    by (simp_all add: apply_patch_def CLEAN_STATE_RESET_def)
  ultimately show ?thesis
    using p row(1,5) retry t1_def by (intro exI [of _ p] exI [of _ t1]) simp
qed

theorem cancel_then_operator_retry_witness:
  "\<exists>p t1. applyHumanTaskEvent ((blank_task ''a'')\<lparr>status := Review\<rparr>) Cancel_Task
      \<lparr>requirementsIntakeEnabled = False, allowOperatorInputRetry = False\<rparr> = Inr p \<and>
    t1 = apply_patch p ((blank_task ''a'')\<lparr>status := Review\<rparr>) \<and>
    applyHumanTaskEvent t1 Retry_From_Blocked
      \<lparr>requirementsIntakeEnabled = False, allowOperatorInputRetry = True\<rparr> =
      Inr (CLEAN_STATE_RESET Review)"
  using cancel_then_operator_retry [of "(blank_task ''a'')\<lparr>status := Review\<rparr>"
      "\<lparr>requirementsIntakeEnabled = False, allowOperatorInputRetry = False\<rparr>"
      "\<lparr>requirementsIntakeEnabled = False, allowOperatorInputRetry = True\<rparr>"]
  by auto

text \<open>
  C15: cancelling an already blocked task records \<open>blocked_external\<close> as the status to return to,
  and from then on no sequence of human events, operator retries included, ever takes the task
  out of \<open>blocked_external\<close>.
\<close>

theorem cancel_of_blocked_task_is_irreversible:
  assumes "status t = Blocked_External" "applyHumanTaskEvent t Cancel_Task opt = Inr p"
  shows "blockedFromStatus (apply_patch p t) = Some Blocked_External \<and>
    status (human_run (apply_patch p t) es) = Blocked_External"
proof -
  have "status t \<notin> {Done, Verified}" using assms(1) by simp
  note row = cancelled_row [OF this assms(2)]
  have "blocked_trap (apply_patch p t)" using row(1,2) assms(1) by (simp add: blocked_trap_def)
  then have "blocked_trap (human_run (apply_patch p t) es)" by (rule blocked_trap_run)
  then show ?thesis using row(2) assms(1) by (simp add: blocked_trap_def)
qed

theorem cancel_of_blocked_task_is_irreversible_witness:
  "\<exists>t opt p. status t = Blocked_External \<and> applyHumanTaskEvent t Cancel_Task opt = Inr p \<and>
    status (human_run (apply_patch p t)
      [(Retry_From_Blocked, \<lparr>requirementsIntakeEnabled = False, allowOperatorInputRetry = True\<rparr>)])
    = Blocked_External"
proof -
  let ?t = "(blank_task ''a'')\<lparr>status := Blocked_External, blockedFromStatus := Some Review\<rparr>"
  let ?o = "\<lparr>requirementsIntakeEnabled = False, allowOperatorInputRetry = False\<rparr>"
  have s: "status ?t = Blocked_External" by simp
  obtain p where p: "applyHumanTaskEvent ?t Cancel_Task ?o = Inr p"
    using cancel_accepted [of ?t ?o] by auto
  show ?thesis using cancel_of_blocked_task_is_irreversible [OF s p] s p by blast
qed

text \<open>
  The action table offered per status is exact up to the two events the interface offers
  elsewhere: an offered action is accepted for some row in that status, and an event that is ever
  accepted in a status is offered there unless it is \<open>accept_existing_plan\<close> or
  \<open>request_requirements_reanalysis\<close>.
\<close>

theorem human_actions_table_exact:
  "e \<in> set (HUMAN_ACTIONS_BY_STATUS s) \<longleftrightarrow>
   e \<notin> {Accept_Existing_Plan, Request_Requirements_Reanalysis} \<and>
   (\<exists>t opt p. status t = s \<and> applyHumanTaskEvent t e opt = Inr p)"
proof
  let ?b = "(blank_task ''a'')\<lparr>status := s, autoMode := False, blockedFromStatus := Some Review\<rparr>"
  let ?o = "\<lparr>requirementsIntakeEnabled = False, allowOperatorInputRetry = False\<rparr>"
  assume e: "e \<in> set (HUMAN_ACTIONS_BY_STATUS s)"
  have b: "reason_lower ?b = []" by (simp add: reason_lower_def blank_task_def)
  have "\<exists>p. applyHumanTaskEvent ?b e ?o = Inr p"
    using e b by (cases s)
      (auto simp: applyHumanTaskEvent.simps isManualReviewBlockedTask_def blank_task_def Let_def)
  moreover have "e \<notin> {Accept_Existing_Plan, Request_Requirements_Reanalysis}"
    using e by (cases s) auto
  ultimately show "e \<notin> {Accept_Existing_Plan, Request_Requirements_Reanalysis} \<and>
    (\<exists>t opt p. status t = s \<and> applyHumanTaskEvent t e opt = Inr p)"
    by (intro conjI exI [of _ ?b] exI [of _ ?o]) auto
next
  assume a: "e \<notin> {Accept_Existing_Plan, Request_Requirements_Reanalysis} \<and>
    (\<exists>t opt p. status t = s \<and> applyHumanTaskEvent t e opt = Inr p)"
  then obtain t opt p where t: "status t = s" "applyHumanTaskEvent t e opt = Inr p" by blast
  show "e \<in> set (HUMAN_ACTIONS_BY_STATUS s)"
    using a t by (cases e; cases s) (auto simp: applyHumanTaskEvent.simps)
qed

end
