(* ===== verification/Audit_Release.thy ===== *)
theory Audit_Release
  imports Aif_Types
begin

text \<open>
  Trust and release of audit artifacts, from \<open>packages/data/src/index.ts\<close>,
  \<open>packages/shared/src/auditCardDecision.ts\<close> and \<open>auditRoadmapContract.ts\<close>: reading the stored
  validation details, when an artifact counts as valid, when a report is ready to release the
  tasks after it, the order in which the tasks of an audit batch are released, and the status of
  a batch. Validation details are parsed JSON values; \<open>JNull\<close> stands for an unparsable column.
\<close>

section \<open>Reading JSON values\<close>

fun isObjectRecord :: "json \<Rightarrow> bool" where
  "isObjectRecord (JObj _) = True"
| "isObjectRecord _ = False"

fun jget :: "string \<Rightarrow> json \<Rightarrow> json option" where
  "jget k (JObj fs) = map_of fs k"
| "jget k _ = None"

fun jstring :: "json option \<Rightarrow> string option" where
  "jstring (Some (JStr s)) = Some s"
| "jstring _ = None"

fun jobject :: "json option \<Rightarrow> json option" where
  "jobject (Some (JObj fs)) = Some (JObj fs)"
| "jobject _ = None"

fun empty_array :: "json option \<Rightarrow> bool" where
  "empty_array (Some (JArr [])) = True"
| "empty_array _ = False"

fun readStringList :: "json option \<Rightarrow> string list" where
  "readStringList (Some (JArr xs)) = concat (map (\<lambda>x. case x of JStr s \<Rightarrow> [s] | _ \<Rightarrow> []) xs)"
| "readStringList _ = []"

fun readNonNegativeInteger :: "json option \<Rightarrow> int" where
  "readNonNegativeInteger (Some (JNum (Fin q))) =
     (if of_int \<lfloor>q\<rfloor> = q \<and> 0 \<le> q then \<lfloor>q\<rfloor> else 0)"
| "readNonNegativeInteger _ = 0"

lemma map_of_size: "map_of fs k = Some v \<Longrightarrow> size v < size (JObj fs)"
proof (induction fs)
  case (Cons f fs)
  then show ?case by (cases f) (auto split: if_splits)
qed simp

lemma jobject_jget_size [termination_simp]:
  "jobject (jget k v) = Some e \<Longrightarrow> size e < size v"
proof -
  assume e: "jobject (jget k v) = Some e"
  then obtain fs where "jget k v = Some (JObj fs)" "e = JObj fs"
    by (cases "jget k v" rule: jobject.cases) auto
  then show ?thesis using map_of_size by (cases v) fastforce+
qed

section \<open>Card decisions\<close>

datatype card_final_status = Closed_Verified | Closed_With_Residual_Risk | Rework_Required | Audit_Inconclusive

datatype verification_strength = V_Verified | V_Missing_Production | V_Missing | V_Inaccessible

datatype requirement_completion = Satisfied | Not_Satisfied | Not_Verifiable

record card_decision =
  otzRequirement :: string
  acceptanceCriteria :: "string list"
  implementationEvidence :: "string list"
  verificationEvidence :: "string list"
  requirementCompletion :: requirement_completion
  verificationStrength :: verification_strength
  validFindings :: int
  weakFindings :: int
  discardedFindings :: int
  residualRisks :: "string list"
  finalStatus :: card_final_status

record card_input =
  in_otzRequirement :: string
  in_acceptanceCriteria :: "string list"
  in_otzAcceptanceSatisfied :: bool
  in_implementationEvidence :: "string list"
  in_verificationEvidence :: "string list"
  in_verificationStrength :: verification_strength
  in_validFindingCount :: int
  in_weakFindingCount :: int
  in_discardedFindingCount :: int
  in_residualRisks :: "string list"

definition classifyAuditCardDecision :: "card_input \<Rightarrow> card_decision" where
  "classifyAuditCardDecision i =
     (let verificationInaccessible = (in_verificationStrength i = V_Inaccessible);
          hasImplementationEvidence = list_ex (\<lambda>e. js_trim e \<noteq> []) (in_implementationEvidence i);
          hasVerificationEvidence = list_ex (\<lambda>e. js_trim e \<noteq> []) (in_verificationEvidence i);
          hasRequiredEvidence = (hasImplementationEvidence \<and> hasVerificationEvidence)
      in \<lparr>otzRequirement = in_otzRequirement i, acceptanceCriteria = in_acceptanceCriteria i,
          implementationEvidence = in_implementationEvidence i,
          verificationEvidence = in_verificationEvidence i,
          requirementCompletion =
            (if verificationInaccessible then Not_Verifiable
             else if in_otzAcceptanceSatisfied i then Satisfied else Not_Satisfied),
          verificationStrength = in_verificationStrength i,
          validFindings = in_validFindingCount i, weakFindings = in_weakFindingCount i,
          discardedFindings = in_discardedFindingCount i, residualRisks = in_residualRisks i,
          finalStatus =
            (if verificationInaccessible then Audit_Inconclusive
             else if \<not> in_otzAcceptanceSatisfied i then Rework_Required
             else if in_verificationStrength i = V_Verified \<and> hasRequiredEvidence
             then Closed_Verified
             else if in_verificationStrength i = V_Missing_Production
             then Closed_With_Residual_Risk
             else Rework_Required)\<rparr>)"

text \<open>A strength that is no string of the set reads as \<open>missing\<close>.\<close>

definition read_strength :: "json option \<Rightarrow> verification_strength" where
  "read_strength v =
     (if v = Some (JStr ''verified'') then V_Verified
      else if v = Some (JStr ''missing_production'') then V_Missing_Production
      else if v = Some (JStr ''inaccessible'') then V_Inaccessible
      else V_Missing)"

definition normalizePersistedAuditCardDecision :: "json option \<Rightarrow> card_decision option" where
  "normalizePersistedAuditCardDecision v =
     (case jobject v of
        None \<Rightarrow> None
      | Some c \<Rightarrow>
          (let validity = (case jobject (jget ''auditFindingValidity'' c) of
                             None \<Rightarrow> JObj [] | Some o1 \<Rightarrow> o1);
               otz = jstring (jget ''otzRequirement'' c)
           in Some (classifyAuditCardDecision
             \<lparr>in_otzRequirement =
                (case otz of
                   Some s \<Rightarrow> (if js_trim s \<noteq> [] then s
                     else ''Produce an accepted audit artifact for the scoped OTZ card.'')
                 | None \<Rightarrow> ''Produce an accepted audit artifact for the scoped OTZ card.''),
              in_acceptanceCriteria = readStringList (jget ''acceptanceCriteria'' c),
              in_otzAcceptanceSatisfied =
                (jstring (jget ''requirementCompletion'' c) = Some ''satisfied''),
              in_implementationEvidence = readStringList (jget ''implementationEvidence'' c),
              in_verificationEvidence = readStringList (jget ''verificationEvidence'' c),
              in_verificationStrength = read_strength (jget ''verificationStrength'' c),
              in_validFindingCount = readNonNegativeInteger (jget ''validFindings'' validity),
              in_weakFindingCount = readNonNegativeInteger (jget ''weakFindings'' validity),
              in_discardedFindingCount =
                readNonNegativeInteger (jget ''discardedFindings'' validity),
              in_residualRisks = readStringList (jget ''residualRisks'' c)\<rparr>)))"

fun readAuditCardDecision :: "json \<Rightarrow> card_decision option" where
  "readAuditCardDecision v =
     (case normalizePersistedAuditCardDecision (jget ''auditCardDecision'' v) of
        Some d \<Rightarrow> Some d
      | None \<Rightarrow>
          (case jobject (jget ''evidence'' v) of
             Some e \<Rightarrow> readAuditCardDecision e
           | None \<Rightarrow> None))"

declare readAuditCardDecision.simps [simp del]

definition final_inconclusive :: "json \<Rightarrow> bool" where
  "final_inconclusive v =
     (case readAuditCardDecision v of None \<Rightarrow> False | Some d \<Rightarrow> finalStatus d = Audit_Inconclusive)"

section \<open>Source classification, manifest and evidence depth\<close>

fun readAuditSourceClassification :: "json \<Rightarrow> string option" where
  "readAuditSourceClassification v =
     (case jstring (jget ''sourceClassification'' v) of
        Some s \<Rightarrow> Some s
      | None \<Rightarrow>
          (case (case jobject (jget ''auditReportValidation'' v) of
                   Some a \<Rightarrow> jstring (jget ''sourceClassification'' a) | None \<Rightarrow> None) of
             Some s \<Rightarrow> Some s
           | None \<Rightarrow>
               (case jobject (jget ''evidence'' v) of
                  Some e \<Rightarrow> readAuditSourceClassification e
                | None \<Rightarrow> None)))"

fun hasValidAuditManifestStatus :: "json \<Rightarrow> bool" where
  "hasValidAuditManifestStatus v =
     ((case jobject (jget ''auditReportValidation'' v) of
         Some a \<Rightarrow> jget ''manifestStatus'' a = Some (JStr ''valid'') | None \<Rightarrow> False) \<or>
      jget ''manifestStatus'' v = Some (JStr ''valid'') \<or>
      (case jobject (jget ''evidence'' v) of
         Some e \<Rightarrow> hasValidAuditManifestStatus e | None \<Rightarrow> False))"

fun hasTrustedAuditEvidenceDepth :: "json \<Rightarrow> bool" where
  "hasTrustedAuditEvidenceDepth v =
     (case jobject (jget ''evidenceDepth'' v) of
        Some d \<Rightarrow> jget ''trustedNoFindingsSupported'' d = Some (JBool True)
      | None \<Rightarrow>
          (case jobject (jget ''auditReportValidation'' v) of
             Some a \<Rightarrow> hasTrustedAuditEvidenceDepth a | None \<Rightarrow> False) \<or>
          (case jobject (jget ''evidence'' v) of
             Some e \<Rightarrow> hasTrustedAuditEvidenceDepth e | None \<Rightarrow> False))"

declare readAuditSourceClassification.simps [simp del]
declare hasValidAuditManifestStatus.simps [simp del]
declare hasTrustedAuditEvidenceDepth.simps [simp del]

section \<open>The artifact life cycle record\<close>

definition hex_char :: "char \<Rightarrow> bool" where
  "hex_char c \<longleftrightarrow> (let n = (of_char c :: nat) in
     (48 \<le> n \<and> n \<le> 57) \<or> (97 \<le> n \<and> n \<le> 102) \<or> (65 \<le> n \<and> n \<le> 70))"

definition SHA256_PATTERN :: "string \<Rightarrow> bool" where
  "SHA256_PATTERN s \<longleftrightarrow> length s = 64 \<and> list_all hex_char s"

definition readLifecycleSha :: "json option \<Rightarrow> string option" where
  "readLifecycleSha v =
     (case jstring v of Some s \<Rightarrow> (if SHA256_PATTERN s then Some s else None) | None \<Rightarrow> None)"

definition AUDIT_ARTIFACT_LIFECYCLE_STATES :: "string list" where
  "AUDIT_ARTIFACT_LIFECYCLE_STATES =
     [''draft_written'', ''manifest_finalized'', ''validator_passed'', ''git_committed'',
      ''committed_blob_revalidated'', ''artifact_state_valid'']"

definition nonblank :: "json option \<Rightarrow> bool" where
  "nonblank v = (case jstring v of Some s \<Rightarrow> js_trim s \<noteq> [] | None \<Rightarrow> False)"

definition lifecycle_ok :: "json \<Rightarrow> bool" where
  "lifecycle_ok lc =
     (let worktreeArtifactSha256 = readLifecycleSha (jget ''worktreeArtifactSha256'' lc);
          committedArtifactSha256 = readLifecycleSha (jget ''committedArtifactSha256'' lc);
          worktreeContentSha256 = readLifecycleSha (jget ''worktreeContentSha256'' lc);
          committedContentSha256 = readLifecycleSha (jget ''committedContentSha256'' lc)
      in jget ''ok'' lc = Some (JBool True) \<and>
         nonblank (jget ''artifactPath'' lc) \<and>
         nonblank (jget ''committedRef'' lc) \<and>
         (case jobject (jget ''states'' lc) of
            Some st \<Rightarrow> list_all (\<lambda>k. jget k st = Some (JBool True)) AUDIT_ARTIFACT_LIFECYCLE_STATES
          | None \<Rightarrow> False) \<and>
         empty_array (jget ''issues'' lc) \<and>
         worktreeArtifactSha256 \<noteq> None \<and>
         committedArtifactSha256 \<noteq> None \<and>
         worktreeArtifactSha256 = committedArtifactSha256 \<and>
         worktreeContentSha256 \<noteq> None \<and>
         committedContentSha256 \<noteq> None \<and>
         worktreeContentSha256 = committedContentSha256 \<and>
         (case jobject (jget ''committedValidation'' lc) of
            Some cv \<Rightarrow>
              jget ''ok'' cv = Some (JBool True) \<and>
              empty_array (jget ''issueCodes'' cv) \<and>
              jget ''artifactSha256'' cv = map_option JStr committedArtifactSha256 \<and>
              jget ''contentSha256'' cv = map_option JStr committedContentSha256 \<and>
              jget ''manifestStatus'' cv = Some (JStr ''valid'')
          | None \<Rightarrow> False))"

fun validationDetailsHaveValidAuditArtifactLifecycle :: "json \<Rightarrow> bool" where
  "validationDetailsHaveValidAuditArtifactLifecycle v =
     ((case jobject (jget ''auditArtifactLifecycle'' v) of
         Some lc \<Rightarrow> lifecycle_ok lc | None \<Rightarrow> False) \<or>
      (case jobject (jget ''evidence'' v) of
         Some e \<Rightarrow> validationDetailsHaveValidAuditArtifactLifecycle e | None \<Rightarrow> False))"

declare validationDetailsHaveValidAuditArtifactLifecycle.simps [simp del]

definition validationDetailsHaveTrustedAuditSourceClassification :: "json \<Rightarrow> bool" where
  "validationDetailsHaveTrustedAuditSourceClassification v =
     (if \<not> validationDetailsHaveValidAuditArtifactLifecycle v then False
      else (case readAuditSourceClassification v of
        None \<Rightarrow> False
      | Some c \<Rightarrow>
          if c \<notin> {''validated_findings_present'', ''validated_no_findings''} then False
          else if c = ''validated_findings_present'' then True
          else hasValidAuditManifestStatus v \<and> hasTrustedAuditEvidenceDepth v))"

definition hasTrustedAuditSourceClassification :: "artifact_row \<Rightarrow> bool" where
  "hasTrustedAuditSourceClassification a =
     validationDetailsHaveTrustedAuditSourceClassification (artifactValidationDetails a)"

definition attemptTrustedForSynthesisInput :: "attempt_row \<Rightarrow> json \<Rightarrow> bool" where
  "attemptTrustedForSynthesisInput t v =
     (if attemptRole t = ''report'' then validationDetailsHaveTrustedAuditSourceClassification v
      else attemptState t = Valid \<and> \<not> truthy (attemptFailureFamily t) \<and>
           validationDetailsHaveValidAuditArtifactLifecycle v)"

definition roadmapArtifactCountsAsValid :: "artifact_row \<Rightarrow> bool" where
  "roadmapArtifactCountsAsValid a =
     (if artifactState a \<noteq> Valid then False
      else if artifactRole a = ''synthesis''
      then validationDetailsHaveValidAuditArtifactLifecycle (artifactValidationDetails a) \<and>
           \<not> final_inconclusive (artifactValidationDetails a)
      else if artifactRole a = ''report'' then hasTrustedAuditSourceClassification a
      else False)"

section \<open>Queries\<close>

definition listRoadmapBatchArtifacts :: "string \<Rightarrow> db \<Rightarrow> artifact_row list" where
  "listRoadmapBatchArtifacts b d =
     sort_key (\<lambda>a. (artifactRole a, artifactCreatedAt a))
       (filter (\<lambda>a. artifactBatchId a = b) (artifacts d))"

definition findRoadmapBatchArtifactByTaskId :: "string \<Rightarrow> db \<Rightarrow> artifact_row option" where
  "findRoadmapBatchArtifactByTaskId i d =
     (case sort_key (\<lambda>a. - artifactCreatedAt a)
             (filter (\<lambda>a. artifactTaskId a = i) (artifacts d)) of
        [] \<Rightarrow> None | a # _ \<Rightarrow> Some a)"

definition listRoadmapBatchArtifactAttempts :: "string \<Rightarrow> db \<Rightarrow> attempt_row list" where
  "listRoadmapBatchArtifactAttempts i d =
     sort_key attemptNumber (filter (\<lambda>t. attemptArtifactId t = i) (attempts d))"

definition last_attempt :: "string \<Rightarrow> db \<Rightarrow> attempt_row option" where
  "last_attempt i d =
     (let xs = listRoadmapBatchArtifactAttempts i d in if xs = [] then None else Some (last xs))"

definition findRoadmapBatchById :: "string \<Rightarrow> db \<Rightarrow> batch_row option" where
  "findRoadmapBatchById b d = List.find (\<lambda>r. batchId r = b) (batches d)"

definition isTerminalAuditArtifactState :: "artifact_state option \<Rightarrow> bool" where
  "isTerminalAuditArtifactState s \<longleftrightarrow> s \<in>
     {Some Invalid, Some Missing, Some Source_Inconclusive, Some Terminal_Inconclusive,
      Some Manual_Exception_State}"

definition isTerminalAuditReworkStatus :: "rework_status option \<Rightarrow> bool" where
  "isTerminalAuditReworkStatus s \<longleftrightarrow> s \<in>
     {Some Manual_Review_Required, Some Terminal_Inconclusive_Rework,
      Some Manual_Exception_Rework}"

section \<open>Readiness of sources and the batch summary\<close>

definition roadmapSourceArtifactTerminalForSynthesis :: "db \<Rightarrow> artifact_row \<Rightarrow> bool" where
  "roadmapSourceArtifactTerminalForSynthesis d a =
     (if artifactRole a \<noteq> ''report'' then False
      else if \<not> isTerminalAuditArtifactState (Some (artifactState a)) then False
      else if artifactState a = External_Blocked then False
      else let latest = map_option attemptReworkStatus (last_attempt (artifactId a) d) in
           if artifactState a = Manual_Exception_State then latest = Some Manual_Exception_Rework
           else latest = Some Terminal_Inconclusive_Rework)"

definition roadmapSourceArtifactReadyForSynthesis :: "db \<Rightarrow> artifact_row \<Rightarrow> bool" where
  "roadmapSourceArtifactReadyForSynthesis d a =
     (if artifactRole a = ''synthesis'' then True
      else roadmapArtifactCountsAsValid a \<or> roadmapSourceArtifactTerminalForSynthesis d a)"

record batch_summary =
  s_batchId :: string
  s_synthesisTaskId :: "string option"
  s_synthesisReady :: bool
  s_failureFamily :: "string option"
  s_expected :: nat
  s_valid :: nat
  s_invalid :: nat
  s_missing :: nat
  s_synthesisNotReady :: nat
  s_externalBlocked :: nat
  s_total :: nat
  s_message :: "string option"

definition count_state :: "artifact_state \<Rightarrow> artifact_row list \<Rightarrow> nat" where
  "count_state st as = length (filter (\<lambda>a. artifactState a = st) as)"

definition family_of :: "artifact_row option \<Rightarrow> string option" where
  "family_of a = Option.bind a artifactFailureFamily"

definition orelse :: "'a option \<Rightarrow> 'a option \<Rightarrow> 'a option" where
  "orelse a b = (case a of Some x \<Rightarrow> Some x | None \<Rightarrow> b)"

definition synthesisReady_of :: "db \<Rightarrow> artifact_row list \<Rightarrow> bool" where
  "synthesisReady_of d as =
     (let nonSynthesis = filter (\<lambda>a. artifactRole a \<noteq> ''synthesis'') as in
      nonSynthesis \<noteq> [] \<and> list_all (roadmapSourceArtifactReadyForSynthesis d) nonSynthesis)"

definition summarizeRoadmapArtifacts :: "db \<Rightarrow> batch_row \<Rightarrow> artifact_row list \<Rightarrow> batch_summary" where
  "summarizeRoadmapArtifacts d b as =
     (let ready = synthesisReady_of d as;
          artifactFailureFamily1 =
            (if ready
             then family_of (List.find (\<lambda>a. artifactRole a = ''synthesis'' \<and>
                    truthy (artifactFailureFamily a) \<and>
                    artifactFailureFamily a \<noteq> Some ''synthesis_not_ready'') as)
             else orelse
                    (family_of (List.find
                       (\<lambda>a. artifactFailureFamily a = Some ''external_blocker'') as))
                    (family_of (List.find (\<lambda>a. truthy (artifactFailureFamily a) \<and>
                       \<not> (artifactRole a = ''synthesis'' \<and>
                          artifactFailureFamily a = Some ''synthesis_not_ready'')) as)));
          fam = orelse artifactFailureFamily1 (batchFailureFamily b);
          message =
            (if truthy fam
             then Some (''Audit batch '' @ roadmapAlias b @ '': '' @ the fam)
             else if ready then Some (''Audit batch '' @ roadmapAlias b @ '': synthesis ready'')
             else None)
      in \<lparr>s_batchId = batchId b, s_synthesisTaskId = synthesisTaskId b, s_synthesisReady = ready,
          s_failureFamily = fam, s_expected = count_state Expected as,
          s_valid = length (filter roadmapArtifactCountsAsValid as),
          s_invalid = count_state Invalid as, s_missing = count_state Missing as,
          s_synthesisNotReady = count_state Synthesis_Not_Ready as,
          s_externalBlocked = count_state External_Blocked as, s_total = length as,
          s_message = message\<rparr>)"

definition summarizeRoadmapBatch :: "db \<Rightarrow> string \<Rightarrow> batch_summary option" where
  "summarizeRoadmapBatch d i =
     (case findRoadmapBatchById i d of
        None \<Rightarrow> None
      | Some b \<Rightarrow> Some (summarizeRoadmapArtifacts d b (listRoadmapBatchArtifacts i d)))"

record trust_counts =
  trustedValid :: nat
  inconclusive :: nat
  rejected :: nat
  missing_count :: nat
  externalBlocked :: nat
  synthesisPending :: nat
  total :: nat

definition buildArtifactTrustBatchCounts :: "artifact_row list \<Rightarrow> trust_counts" where
  "buildArtifactTrustBatchCounts as =
     (let sourceArtifacts = filter (\<lambda>a. artifactRole a = ''report'') as;
          synthesisArtifacts = filter (\<lambda>a. artifactRole a = ''synthesis'') as
      in \<lparr>trustedValid = length (filter roadmapArtifactCountsAsValid sourceArtifacts),
          inconclusive = length (filter (\<lambda>a. artifactState a \<in>
            {Source_Inconclusive, Terminal_Inconclusive}) sourceArtifacts),
          rejected = count_state Invalid sourceArtifacts,
          missing_count = count_state Missing sourceArtifacts,
          externalBlocked = count_state External_Blocked sourceArtifacts,
          synthesisPending = length (filter (\<lambda>a. artifactState a \<in>
            {Expected, Synthesis_Not_Ready, Missing}) synthesisArtifacts),
          total = length sourceArtifacts\<rparr>)"

definition computeRoadmapBatchStatus :: "artifact_row list \<Rightarrow> bool \<Rightarrow> string \<times> string option" where
  "computeRoadmapBatchStatus as ready =
     (let synthesisArtifact = List.find (\<lambda>a. artifactRole a = ''synthesis'') as;
          firstFailure = family_of (List.find (\<lambda>a. truthy (artifactFailureFamily a)) as)
      in if ready \<and> (case synthesisArtifact of Some a \<Rightarrow> roadmapArtifactCountsAsValid a | None \<Rightarrow> False)
         then (''complete'', None)
         else if ready \<and> (case synthesisArtifact of
                Some a \<Rightarrow> artifactState a = Expected \<or> artifactState a = Synthesis_Not_Ready
              | None \<Rightarrow> False)
         then (''synthesis_ready'', None)
         else if list_ex (\<lambda>a. artifactFailureFamily a = Some ''external_blocker'') as
         then (''external_blocked'', Some ''external_blocker'')
         else if list_ex (\<lambda>a. artifactState a = Terminal_Inconclusive) as
         then (''rework_needed'', orelse firstFailure (Some ''inconclusive_batch_evidence''))
         else if list_ex (\<lambda>a. artifactState a = Invalid) as
         then (''rework_needed'', orelse firstFailure (Some ''invalid_artifact_content''))
         else if list_ex (\<lambda>a. artifactState a = Missing) as
         then (''rework_needed'', orelse firstFailure (Some ''missing_artifact''))
         else if as \<noteq> [] \<and> list_all roadmapArtifactCountsAsValid as
         then (''complete'', None)
         else if list_ex (\<lambda>a. artifactState a = Synthesis_Not_Ready) as
         then (''synthesis_not_ready'', Some ''synthesis_not_ready'')
         else (''expected'', None))"

section \<open>Reason codes\<close>

fun artifact_state_text :: "artifact_state \<Rightarrow> string" where
  "artifact_state_text Expected = ''expected''"
| "artifact_state_text Valid = ''valid''"
| "artifact_state_text Invalid = ''invalid''"
| "artifact_state_text Missing = ''missing''"
| "artifact_state_text Synthesis_Not_Ready = ''synthesis_not_ready''"
| "artifact_state_text External_Blocked = ''external_blocked''"
| "artifact_state_text Source_Inconclusive = ''source_inconclusive''"
| "artifact_state_text Terminal_Inconclusive = ''terminal_inconclusive''"
| "artifact_state_text Manual_Exception_State = ''manual_exception''"

fun rework_text :: "rework_status \<Rightarrow> string" where
  "rework_text Accepted = ''accepted''"
| "rework_text Rework_Requested = ''rework_requested''"
| "rework_text Manual_Review_Required = ''manual_review_required''"
| "rework_text Terminal_Inconclusive_Rework = ''terminal_inconclusive''"
| "rework_text Manual_Exception_Rework = ''manual_exception''"
| "rework_text Not_Applicable = ''not_applicable''"

definition own_codes :: "string \<Rightarrow> json \<Rightarrow> string list" where
  "own_codes key nested =
     (case nested of
        JStr s \<Rightarrow>
          (if key \<in> {''reason'', ''code'', ''kind'', ''category'', ''failureFamily''} \<and>
              js_trim s \<noteq> [] then [js_trim s] else [])
      | JArr xs \<Rightarrow>
          (if key = ''reasonCodes''
           then concat (map (\<lambda>x. case x of
                  JStr s \<Rightarrow> (if js_trim s \<noteq> [] then [js_trim s] else []) | _ \<Rightarrow> []) xs)
           else [])
      | _ \<Rightarrow> [])"

fun visit_codes :: "json \<Rightarrow> string list"
  and visit_items :: "json list \<Rightarrow> string list"
  and visit_fields :: "(string \<times> json) list \<Rightarrow> string list" where
  "visit_codes (JArr xs) = visit_items xs"
| "visit_codes (JObj fs) = visit_fields fs"
| "visit_codes _ = []"
| "visit_items [] = []"
| "visit_items (x # xs) = visit_codes x @ visit_items xs"
| "visit_fields [] = []"
| "visit_fields ((k, v) # fs) = own_codes k v @ visit_codes v @ visit_fields fs"

text \<open>A JavaScript \<open>Set\<close> spread and sorted: sorted, without duplicates.\<close>

definition sorted_set :: "string list \<Rightarrow> string list" where
  "sorted_set xs = sort (remdups xs)"

definition collectValidationReasonCodes :: "json \<Rightarrow> string list" where
  "collectValidationReasonCodes v = sorted_set (visit_codes v)"

definition opt_code :: "string option \<Rightarrow> string list" where
  "opt_code c = (if truthy c then [the c] else [])"

section \<open>Releasing the tasks of an audit batch\<close>

definition latestCurrentRoadmapArtifactAttempt :: "db \<Rightarrow> artifact_row \<Rightarrow> attempt_row option" where
  "latestCurrentRoadmapArtifactAttempt d a =
     (case last_attempt (artifactId a) d of
        None \<Rightarrow> None
      | Some t \<Rightarrow>
          if attemptNumber t \<noteq> artifactAttemptNumber a \<or> attemptState t \<noteq> artifactState a
          then None else Some t)"

definition terminalReportArtifactHasMachineReadableDisposition ::
    "artifact_row \<Rightarrow> attempt_row \<Rightarrow> bool" where
  "terminalReportArtifactHasMachineReadableDisposition a t =
     (let reasonCodes = filter (\<lambda>c. c \<noteq> [])
        (opt_code (Some (artifact_state_text (artifactState a))) @
         opt_code (artifactFailureFamily a) @
         opt_code (attemptClassification t) @
         opt_code (attemptFailureFamily t) @
         opt_code (Some (rework_text (attemptReworkStatus t))) @
         collectValidationReasonCodes (attemptValidationDetails t))
      in 0 < length reasonCodes)"

definition roadmapReportArtifactReleaseReady :: "db \<Rightarrow> artifact_row \<Rightarrow> bool" where
  "roadmapReportArtifactReleaseReady d a =
     (if artifactRole a \<noteq> ''report'' then False
      else case latestCurrentRoadmapArtifactAttempt d a of
        None \<Rightarrow> False
      | Some t \<Rightarrow>
          if artifactState a = Valid \<and> attemptReworkStatus t = Accepted \<and>
             roadmapArtifactCountsAsValid a \<and>
             attemptTrustedForSynthesisInput t (attemptValidationDetails t)
          then True
          else if \<not> terminalReportArtifactHasMachineReadableDisposition a t then False
          else if (artifactState a = Source_Inconclusive \<or> artifactState a = Terminal_Inconclusive) \<and>
                  attemptReworkStatus t = Terminal_Inconclusive_Rework
          then True
          else artifactState a = Manual_Exception_State \<and>
               attemptReworkStatus t = Manual_Exception_Rework)"

definition auditRoadmapBatchTaskOrder :: "batch_row \<Rightarrow> string \<Rightarrow> nat option" where
  "auditRoadmapBatchTaskOrder b =
     map_of (rev (zip (createdTaskIds b) [0..<length (createdTaskIds b)]))"

text \<open>
  The comparator of the sort: tasks the batch lists come first, by their index there, then by
  creation and task id (task ids are lower-case UUIDs, which \<open>localeCompare\<close> orders like code
  units).
\<close>

definition release_key :: "batch_row \<Rightarrow> artifact_row \<Rightarrow> bool \<times> nat \<times> int \<times> string" where
  "release_key b a =
     (let ord = auditRoadmapBatchTaskOrder b (artifactTaskId a) in
      (ord = None, case ord of None \<Rightarrow> 0 | Some n \<Rightarrow> n, artifactCreatedAt a, artifactTaskId a))"

definition orderedReportArtifacts :: "db \<Rightarrow> batch_row \<Rightarrow> artifact_row list" where
  "orderedReportArtifacts d b =
     sort_key (release_key b)
       (filter (\<lambda>a. artifactRole a = ''report'') (listRoadmapBatchArtifacts (batchId b) d))"

fun find_index :: "('a \<Rightarrow> bool) \<Rightarrow> 'a list \<Rightarrow> nat option" where
  "find_index p [] = None"
| "find_index p (x # xs) = (if p x then Some 0 else map_option Suc (find_index p xs))"

definition auditRoadmapTaskDependenciesReleaseReady :: "db \<Rightarrow> string \<Rightarrow> bool" where
  "auditRoadmapTaskDependenciesReleaseReady d i =
     (case findRoadmapBatchArtifactByTaskId i d of
        None \<Rightarrow> True
      | Some c \<Rightarrow>
          if artifactRole c \<noteq> ''report'' \<and> artifactRole c \<noteq> ''synthesis'' then True
          else (case findRoadmapBatchById (artifactBatchId c) d of
            None \<Rightarrow> True
          | Some b \<Rightarrow>
              if batchTaskIntent b \<noteq> ''audit'' then True
              else
                let reports = orderedReportArtifacts d b;
                    candidateIndex = find_index (\<lambda>a. artifactId a = artifactId c) reports
                in if artifactRole c = ''synthesis''
                   then reports \<noteq> [] \<and> list_all (roadmapReportArtifactReleaseReady d) reports
                   else (case candidateIndex of
                     None \<Rightarrow> True
                   | Some n \<Rightarrow> n = 0 \<or>
                       list_all (roadmapReportArtifactReleaseReady d) (take n reports))))"

section \<open>Trust shown to the operator\<close>

definition artifactTrustedForSynthesisInput :: "artifact_row \<Rightarrow> bool" where
  "artifactTrustedForSynthesisInput a =
     (if artifactRole a = ''report'' then roadmapArtifactCountsAsValid a
      else if artifactRole a \<noteq> ''synthesis'' \<or> artifactState a \<noteq> Valid \<or>
              truthy (artifactFailureFamily a) then False
      else validationDetailsHaveValidAuditArtifactLifecycle (artifactValidationDetails a) \<and>
           \<not> final_inconclusive (artifactValidationDetails a))"

datatype trust_level = Trusted | Weak | Untrusted

definition mapArtifactTrustLevel :: "artifact_row \<Rightarrow> trust_level" where
  "mapArtifactTrustLevel a =
     (if artifactTrustedForSynthesisInput a then Trusted
      else if artifactState a = Expected \<or> artifactState a = Synthesis_Not_Ready then Weak
      else if artifactState a = Manual_Exception_State then Weak
      else Untrusted)"

definition artifactHasSynthesisPlanFixReason :: "artifact_row \<Rightarrow> bool" where
  "artifactHasSynthesisPlanFixReason a =
     (if artifactRole a \<noteq> ''synthesis'' then False
      else let codes = opt_code (artifactFailureFamily a) @
                 collectValidationReasonCodes (artifactValidationDetails a)
           in list_ex (\<lambda>c. c \<in> set codes)
                [''generic_plan'', ''plan_quality'', ''plan_quality_exhausted''])"

datatype trust_action =
    None_Action | Retry_Synthesis | Provide_Operator_Input | Inspect_Untrusted_Source
  | Wait_For_Source_Artifacts | Retry_Source_Rework

definition buildArtifactTrustNextAction :: "artifact_row \<Rightarrow> bool \<Rightarrow> bool \<Rightarrow> trust_action" where
  "buildArtifactTrustNextAction a ready trusted =
     (if trusted then None_Action
      else if artifactHasSynthesisPlanFixReason a then Retry_Synthesis
      else if artifactState a = External_Blocked \<or>
              artifactFailureFamily a = Some ''external_blocker'' then Provide_Operator_Input
      else if artifactState a = Source_Inconclusive \<or> artifactState a = Terminal_Inconclusive
      then Inspect_Untrusted_Source
      else if \<not> ready \<and> artifactRole a = ''synthesis'' then Wait_For_Source_Artifacts
      else if \<not> ready \<and> artifactState a = Synthesis_Not_Ready then Wait_For_Source_Artifacts
      else if artifactRole a = ''synthesis'' then Retry_Synthesis
      else if artifactState a = Invalid \<or> artifactState a = Missing then Retry_Source_Rework
      else if artifactFailureFamily a = Some ''manual_review_required''
      then Provide_Operator_Input
      else Inspect_Untrusted_Source)"

section \<open>Lemmas\<close>

lemma find_index_Some:
  "find_index p xs = Some n \<Longrightarrow> n < length xs \<and> p (xs ! n) \<and> (\<forall>m < n. \<not> p (xs ! m))"
  by (induction xs arbitrary: n) (auto simp: less_Suc_eq_0_disj split: if_splits)

lemma find_index_None: "find_index p xs = None \<longleftrightarrow> (\<forall>x \<in> set xs. \<not> p x)"
  by (induction xs) auto

lemma find_index_distinct:
  assumes "distinct (map f xs)" "n < length xs"
  shows "find_index (\<lambda>x. f x = f (xs ! n)) xs = Some n"
proof (cases "find_index (\<lambda>x. f x = f (xs ! n)) xs")
  case None
  then show ?thesis using assms(2) by (auto simp: find_index_None)
next
  case (Some m)
  then have "m < length xs" "f (xs ! m) = f (xs ! n)" using find_index_Some by fastforce+
  then have "m = n" using assms by (metis distinct_conv_nth length_map nth_map)
  with Some show ?thesis by simp
qed

lemma set_listRoadmapBatchArtifacts [simp]:
  "set (listRoadmapBatchArtifacts i d) = {a \<in> set (artifacts d). artifactBatchId a = i}"
  by (auto simp: listRoadmapBatchArtifacts_def)

lemma set_orderedReportArtifacts [simp]:
  "set (orderedReportArtifacts d b) =
     {a \<in> set (artifacts d). artifactBatchId a = batchId b \<and> artifactRole a = ''report''}"
  by (auto simp: orderedReportArtifacts_def)

lemma distinct_orderedReportArtifacts:
  "distinct (map artifactId (artifacts d)) \<Longrightarrow>
   distinct (map artifactId (orderedReportArtifacts d b))"
  by (simp add: orderedReportArtifacts_def listRoadmapBatchArtifacts_def distinct_map_filter)

lemma dependencies_of_report:
  assumes "findRoadmapBatchArtifactByTaskId i d = Some (orderedReportArtifacts d b ! n)"
    "n < length (orderedReportArtifacts d b)"
    "findRoadmapBatchById (batchId b) d = Some b" "batchTaskIntent b = ''audit''"
    "distinct (map artifactId (artifacts d))"
  shows "auditRoadmapTaskDependenciesReleaseReady d i \<longleftrightarrow>
    (\<forall>m < n. roadmapReportArtifactReleaseReady d (orderedReportArtifacts d b ! m))"
proof -
  let ?r = "orderedReportArtifacts d b"
  have "?r ! n \<in> set ?r" using assms(2) by (rule nth_mem)
  then have c: "artifactRole (?r ! n) = ''report''" "artifactBatchId (?r ! n) = batchId b" by auto
  have "find_index (\<lambda>a. artifactId a = artifactId (?r ! n)) ?r = Some n"
    by (rule find_index_distinct [OF distinct_orderedReportArtifacts [OF assms(5)] assms(2)])
  then have "auditRoadmapTaskDependenciesReleaseReady d i \<longleftrightarrow>
      n = 0 \<or> list_all (roadmapReportArtifactReleaseReady d) (take n ?r)"
    using assms c by (simp add: auditRoadmapTaskDependenciesReleaseReady_def Let_def)
  also have "\<dots> \<longleftrightarrow> (\<forall>m < n. roadmapReportArtifactReleaseReady d (?r ! m))"
    using assms(2) by (auto simp: list_all_length)
  finally show ?thesis .
qed

lemma dependencies_of_synthesis:
  assumes "findRoadmapBatchArtifactByTaskId i d = Some c" "artifactRole c = ''synthesis''"
    "findRoadmapBatchById (artifactBatchId c) d = Some b" "batchTaskIntent b = ''audit''"
  shows "auditRoadmapTaskDependenciesReleaseReady d i \<longleftrightarrow>
    orderedReportArtifacts d b \<noteq> [] \<and>
    (\<forall>a \<in> set (orderedReportArtifacts d b). roadmapReportArtifactReleaseReady d a)"
  using assms
  by (simp add: auditRoadmapTaskDependenciesReleaseReady_def Let_def list_all_iff)

lemma release_ready_is_synthesis_ready:
  assumes "roadmapReportArtifactReleaseReady d a"
  shows "roadmapSourceArtifactReadyForSynthesis d a"
  using assms
  by (auto simp: roadmapReportArtifactReleaseReady_def roadmapSourceArtifactReadyForSynthesis_def
      roadmapSourceArtifactTerminalForSynthesis_def latestCurrentRoadmapArtifactAttempt_def
      isTerminalAuditArtifactState_def Let_def
      split: if_splits option.splits)

text \<open>The objects reached from the validation details through \<open>evidence\<close>.\<close>

inductive evidence_reaches :: "json \<Rightarrow> json \<Rightarrow> bool" where
  here: "evidence_reaches v v"
| deeper: "jget ''evidence'' v = Some e \<Longrightarrow> evidence_reaches e w \<Longrightarrow> evidence_reaches v w"

lemma jobject_Some: "jobject v = Some e \<longleftrightarrow> v = Some e \<and> isObjectRecord e"
  by (cases v rule: jobject.cases) (auto elim: isObjectRecord.elims)

lemma lifecycle_located:
  "validationDetailsHaveValidAuditArtifactLifecycle v \<Longrightarrow>
   \<exists>w lc. evidence_reaches v w \<and> jget ''auditArtifactLifecycle'' w = Some lc \<and> lifecycle_ok lc"
proof (induction v rule: validationDetailsHaveValidAuditArtifactLifecycle.induct)
  case (1 v)
  show ?case
  proof (cases "case jobject (jget ''auditArtifactLifecycle'' v) of
      Some lc \<Rightarrow> lifecycle_ok lc | None \<Rightarrow> False")
    case True
    then show ?thesis
      by (auto split: option.splits simp: jobject_Some intro: evidence_reaches.here)
  next
    case False
    then obtain e where e: "jobject (jget ''evidence'' v) = Some e"
      "validationDetailsHaveValidAuditArtifactLifecycle e"
      using 1(2) validationDetailsHaveValidAuditArtifactLifecycle.simps [of v]
      by (auto split: option.splits)
    from 1(1) [OF e(1) e(2)] e(1) show ?thesis
      by (auto simp: jobject_Some intro: evidence_reaches.deeper)
  qed
qed

lemma readLifecycleSha_Some:
  "readLifecycleSha v = Some s \<longleftrightarrow> v = Some (JStr s) \<and> SHA256_PATTERN s"
  by (cases v rule: jstring.cases) (auto simp: readLifecycleSha_def)

lemma lifecycle_ok_bytes:
  assumes "lifecycle_ok lc"
  shows "\<exists>s. SHA256_PATTERN s \<and> jget ''worktreeArtifactSha256'' lc = Some (JStr s) \<and>
    jget ''committedArtifactSha256'' lc = Some (JStr s)"
proof -
  obtain s where "readLifecycleSha (jget ''committedArtifactSha256'' lc) = Some s"
    "readLifecycleSha (jget ''worktreeArtifactSha256'' lc) = Some s"
    using assms unfolding lifecycle_ok_def Let_def by auto
  then show ?thesis by (auto simp: readLifecycleSha_Some)
qed

lemma counts_as_valid_lifecycle:
  "roadmapArtifactCountsAsValid a \<Longrightarrow>
   validationDetailsHaveValidAuditArtifactLifecycle (artifactValidationDetails a)"
  by (auto simp: roadmapArtifactCountsAsValid_def hasTrustedAuditSourceClassification_def
      validationDetailsHaveTrustedAuditSourceClassification_def split: if_splits)

section \<open>Properties\<close>

text \<open>A batch of two reports and a synthesis to evaluate the properties on.\<close>

definition demo_artifact :: "string \<Rightarrow> string \<Rightarrow> string \<Rightarrow> artifact_state \<Rightarrow> int \<Rightarrow> artifact_row" where
  "demo_artifact i t r s c = \<lparr>artifactId = i, artifactBatchId = ''b'', artifactTaskId = t,
     artifactRole = r, artifactPath = ''docs/a.md'', artifactState = s,
     artifactFailureFamily = None, artifactValidationDetails = JNull, artifactContentSha = None,
     artifactAttemptNumber = 1, artifactCreatedAt = c, artifactBranchName = None,
     artifactWorktreePath = None, artifactProjectRoot = None, artifactAttemptBoundaryId = None,
     artifactValidatedAt = None, artifactUpdatedAt = c\<rparr>"

definition demo_attempt :: "string \<Rightarrow> string \<Rightarrow> attempt_row" where
  "demo_attempt i t = \<lparr>attemptArtifactId = i, attemptTaskId = t, attemptRole = ''report'',
     attemptNumber = 1, attemptState = Terminal_Inconclusive, attemptClassification = None,
     attemptFailureFamily = None, attemptReworkStatus = Terminal_Inconclusive_Rework,
     attemptValidationDetails = JNull, attemptBoundaryId = None, attemptContentSha = None\<rparr>"

definition demo_batch :: batch_row where
  "demo_batch = \<lparr>batchId = ''b'', batchProjectId = ''p'', roadmapAlias = ''r'',
     batchTaskIntent = ''audit'', batchStatus = ''expected'', synthesisTaskId = Some ''s'',
     validArtifactCount = 0, invalidArtifactCount = 0, missingArtifactCount = 0,
     externalBlockedArtifactCount = 0, batchSynthesisReady = False, batchFailureFamily = None,
     createdTaskIds = [''t1'', ''t2'', ''s''], batchUpdatedAt = 0\<rparr>"

definition demo_audit_db :: db where
  "demo_audit_db = empty_db\<lparr>
     artifacts := [demo_artifact ''a2'' ''t2'' ''report'' Terminal_Inconclusive 1,
                   demo_artifact ''a1'' ''t1'' ''report'' Terminal_Inconclusive 2,
                   demo_artifact ''as'' ''s'' ''synthesis'' Expected 3],
     attempts := [demo_attempt ''a1'' ''t1'', demo_attempt ''a2'' ''t2''],
     batches := [demo_batch]\<rparr>"

lemmas demo_defs = demo_artifact_def demo_attempt_def demo_batch_def demo_audit_db_def empty_db_def

lemma demo_order: "map artifactId (orderedReportArtifacts demo_audit_db demo_batch) = [''a1'', ''a2'']"
  by code_simp

text \<open>
  C21: in an audit batch the reports are released strictly in batch order. When the task of the
  report at place \<open>n\<close> may be advanced, the task of every earlier report may be advanced too and
  that earlier report is itself release-ready.
\<close>

theorem audit_reports_release_in_order:
  assumes "distinct (map artifactId (artifacts d))"
    "findRoadmapBatchById (batchId b) d = Some b" "batchTaskIntent b = ''audit''"
    "m < n" "n < length (orderedReportArtifacts d b)"
    "findRoadmapBatchArtifactByTaskId i d = Some (orderedReportArtifacts d b ! n)"
    "findRoadmapBatchArtifactByTaskId j d = Some (orderedReportArtifacts d b ! m)"
    "auditRoadmapTaskDependenciesReleaseReady d i"
  shows "auditRoadmapTaskDependenciesReleaseReady d j \<and>
    roadmapReportArtifactReleaseReady d (orderedReportArtifacts d b ! m)"
  using dependencies_of_report [OF assms(6,5,2,3,1)]
    dependencies_of_report [OF assms(7) _ assms(2,3,1)] assms(4,5,8)
  by auto

theorem audit_reports_release_in_order_witness:
  "auditRoadmapTaskDependenciesReleaseReady demo_audit_db ''t1'' \<and>
   roadmapReportArtifactReleaseReady demo_audit_db
     (orderedReportArtifacts demo_audit_db demo_batch ! 0)"
proof (rule audit_reports_release_in_order [where i = "''t2''" and n = 1])
  show "distinct (map artifactId (artifacts demo_audit_db))" by (simp add: demo_defs)
  show "findRoadmapBatchById (batchId demo_batch) demo_audit_db = Some demo_batch"
    by (simp add: findRoadmapBatchById_def demo_defs)
  show "batchTaskIntent demo_batch = ''audit''" by (simp add: demo_defs)
  show "(0::nat) < 1" by simp
  show "1 < length (orderedReportArtifacts demo_audit_db demo_batch)" by code_simp
  show "findRoadmapBatchArtifactByTaskId ''t2'' demo_audit_db =
    Some (orderedReportArtifacts demo_audit_db demo_batch ! 1)" by code_simp
  show "findRoadmapBatchArtifactByTaskId ''t1'' demo_audit_db =
    Some (orderedReportArtifacts demo_audit_db demo_batch ! 0)" by code_simp
  show "auditRoadmapTaskDependenciesReleaseReady demo_audit_db ''t2''" by code_simp
qed

text \<open>
  C24: the synthesis task of an audit batch is released only when the batch itself is ready for
  synthesis: every report is release-ready, and the readiness the batch summary computes holds.
\<close>

theorem synthesis_released_only_when_batch_ready:
  assumes "findRoadmapBatchArtifactByTaskId i d = Some c" "artifactRole c = ''synthesis''"
    "findRoadmapBatchById (artifactBatchId c) d = Some b" "batchTaskIntent b = ''audit''"
    "\<And>a. a \<in> set (artifacts d) \<Longrightarrow> artifactRole a \<in> {''report'', ''synthesis''}"
    "auditRoadmapTaskDependenciesReleaseReady d i"
  shows "s_synthesisReady (summarizeRoadmapArtifacts d b (listRoadmapBatchArtifacts (batchId b) d))
    \<and> (\<forall>a \<in> set (artifacts d). artifactBatchId a = batchId b \<and> artifactRole a = ''report'' \<longrightarrow>
        roadmapReportArtifactReleaseReady d a)"
proof -
  have r: "orderedReportArtifacts d b \<noteq> []"
    "\<forall>a \<in> set (orderedReportArtifacts d b). roadmapReportArtifactReleaseReady d a"
    using dependencies_of_synthesis [OF assms(1-4)] assms(6) by auto
  let ?ns = "filter (\<lambda>a. artifactRole a \<noteq> ''synthesis'') (listRoadmapBatchArtifacts (batchId b) d)"
  have ns: "set ?ns = set (orderedReportArtifacts d b)" using assms(5) by auto
  then have "?ns \<noteq> []" using r(1) by (metis set_empty)
  moreover have "\<forall>a \<in> set ?ns. roadmapSourceArtifactReadyForSynthesis d a"
    using r(2) ns release_ready_is_synthesis_ready by blast
  ultimately show ?thesis
    using r(2) by (auto simp: summarizeRoadmapArtifacts_def synthesisReady_of_def Let_def list_all_iff)
qed

theorem synthesis_released_only_when_batch_ready_witness:
  "s_synthesisReady (summarizeRoadmapArtifacts demo_audit_db demo_batch
     (listRoadmapBatchArtifacts (batchId demo_batch) demo_audit_db)) \<and>
   roadmapReportArtifactReleaseReady demo_audit_db
     (demo_artifact ''a1'' ''t1'' ''report'' Terminal_Inconclusive 2)"
proof -
  let ?s = "demo_artifact ''as'' ''s'' ''synthesis'' Expected 3"
  let ?r = "demo_artifact ''a1'' ''t1'' ''report'' Terminal_Inconclusive 2"
  have 1: "findRoadmapBatchArtifactByTaskId ''s'' demo_audit_db = Some ?s" by code_simp
  have 2: "artifactRole ?s = ''synthesis''" "findRoadmapBatchById (artifactBatchId ?s) demo_audit_db = Some demo_batch"
    "batchTaskIntent demo_batch = ''audit''" by code_simp+
  have 3: "artifactRole a \<in> {''report'', ''synthesis''}" if "a \<in> set (artifacts demo_audit_db)" for a
    using that by (auto simp: demo_defs)
  have 4: "auditRoadmapTaskDependenciesReleaseReady demo_audit_db ''s''" by code_simp
  have 5: "?r \<in> set (artifacts demo_audit_db)" by (simp add: demo_audit_db_def)
  have 6: "artifactBatchId ?r = batchId demo_batch" "artifactRole ?r = ''report''" by code_simp+
  show ?thesis using synthesis_released_only_when_batch_ready [OF 1 2 3 4] 5 6 by blast
qed

text \<open>
  C28: an artifact counts as valid only with a committed-bytes proof: somewhere along the
  \<open>evidence\<close> chain of its validation details there is a life cycle record whose worktree and
  committed SHA-256 are the same 64-digit hexadecimal text.
\<close>

theorem valid_artifact_has_committed_bytes:
  assumes "roadmapArtifactCountsAsValid a"
  shows "\<exists>w lc s. evidence_reaches (artifactValidationDetails a) w \<and>
    jget ''auditArtifactLifecycle'' w = Some lc \<and> SHA256_PATTERN s \<and>
    jget ''worktreeArtifactSha256'' lc = Some (JStr s) \<and>
    jget ''committedArtifactSha256'' lc = Some (JStr s)"
  using lifecycle_located [OF counts_as_valid_lifecycle [OF assms]] lifecycle_ok_bytes by blast

definition demo_lifecycle :: json where
  "demo_lifecycle = (let h = JStr (replicate 64 CHR ''a'') in
     JObj [(''sourceClassification'', JStr ''validated_findings_present''),
       (''auditArtifactLifecycle'', JObj [(''ok'', JBool True), (''artifactPath'', JStr ''a''),
         (''committedRef'', JStr ''HEAD''),
         (''states'', JObj (map (\<lambda>k. (k, JBool True)) AUDIT_ARTIFACT_LIFECYCLE_STATES)),
         (''issues'', JArr []), (''worktreeArtifactSha256'', h), (''committedArtifactSha256'', h),
         (''worktreeContentSha256'', h), (''committedContentSha256'', h),
         (''committedValidation'', JObj [(''ok'', JBool True), (''issueCodes'', JArr []),
           (''artifactSha256'', h), (''contentSha256'', h),
           (''manifestStatus'', JStr ''valid'')])])])"

theorem valid_artifact_has_committed_bytes_witness:
  "\<exists>w lc s. evidence_reaches demo_lifecycle w \<and>
    jget ''auditArtifactLifecycle'' w = Some lc \<and> SHA256_PATTERN s \<and>
    jget ''worktreeArtifactSha256'' lc = Some (JStr s) \<and>
    jget ''committedArtifactSha256'' lc = Some (JStr s)"
proof -
  let ?a = "(demo_artifact ''a'' ''t'' ''report'' Valid 1)\<lparr>artifactValidationDetails := demo_lifecycle\<rparr>"
  have "roadmapArtifactCountsAsValid ?a" by code_simp
  from valid_artifact_has_committed_bytes [OF this] show ?thesis by simp
qed

text \<open>
  A batch reported as \<open>complete\<close> is complete: it has artifacts, and every source artifact
  either counts as valid or has a terminal disposition recorded by its latest attempt.
\<close>

theorem complete_batch_has_settled_sources:
  assumes "fst (computeRoadmapBatchStatus as (synthesisReady_of d as)) = ''complete''"
  shows "as \<noteq> [] \<and> (\<forall>a \<in> set as. artifactRole a \<noteq> ''synthesis'' \<longrightarrow>
    roadmapArtifactCountsAsValid a \<or> roadmapSourceArtifactTerminalForSynthesis d a)"
proof (cases "synthesisReady_of d as")
  case True
  then show ?thesis
    by (auto simp: synthesisReady_of_def Let_def list_all_iff roadmapSourceArtifactReadyForSynthesis_def)
next
  case False
  then have "as \<noteq> [] \<and> list_all roadmapArtifactCountsAsValid as"
    using assms by (auto simp: computeRoadmapBatchStatus_def Let_def split: if_splits)
  then show ?thesis by (auto simp: list_all_iff)
qed

theorem complete_batch_has_settled_sources_witness:
  "let a = (demo_artifact ''a'' ''t'' ''report'' Valid 1)\<lparr>artifactValidationDetails := demo_lifecycle\<rparr> in
   fst (computeRoadmapBatchStatus [a] (synthesisReady_of empty_db [a])) = ''complete'' \<and>
   (roadmapArtifactCountsAsValid a \<or> roadmapSourceArtifactTerminalForSynthesis empty_db a)"
proof -
  let ?a = "(demo_artifact ''a'' ''t'' ''report'' Valid 1)\<lparr>artifactValidationDetails := demo_lifecycle\<rparr>"
  have 1: "fst (computeRoadmapBatchStatus [?a] (synthesisReady_of empty_db [?a])) = ''complete''"
    by code_simp
  have 2: "artifactRole ?a \<noteq> ''synthesis''" by code_simp
  show ?thesis using complete_batch_has_settled_sources [OF 1] 1 2 by (simp only: Let_def) simp
qed

text \<open>
  The requirement of a machine-readable disposition never refuses anything. Its list of reason
  codes always contains the artifact's own state, so the check holds for every artifact and
  attempt, and release of an inconclusive or excepted report depends only on the two states.
\<close>

theorem disposition_check_is_vacuous:
  "terminalReportArtifactHasMachineReadableDisposition a t \<and>
   (roadmapReportArtifactReleaseReady d a \<longleftrightarrow> artifactRole a = ''report'' \<and>
     (\<exists>t. latestCurrentRoadmapArtifactAttempt d a = Some t \<and>
       (artifactState a = Valid \<and> attemptReworkStatus t = Accepted \<and>
          roadmapArtifactCountsAsValid a \<and>
          attemptTrustedForSynthesisInput t (attemptValidationDetails t)
        \<or> artifactState a \<in> {Source_Inconclusive, Terminal_Inconclusive} \<and>
          attemptReworkStatus t = Terminal_Inconclusive_Rework
        \<or> artifactState a = Manual_Exception_State \<and>
          attemptReworkStatus t = Manual_Exception_Rework)))"
proof -
  have "artifact_state_text s \<noteq> []" for s by (cases s) auto
  then have v: "terminalReportArtifactHasMachineReadableDisposition a t" for a t
    by (simp add: terminalReportArtifactHasMachineReadableDisposition_def opt_code_def)
  then show ?thesis by (auto simp: roadmapReportArtifactReleaseReady_def split: option.splits)
qed

end
