(* ===== verification/Task_Hierarchy.thy ===== *)
theory Task_Hierarchy
  imports Audit_Release
begin

text \<open>
  The task hierarchy of \<open>packages/data/src/index.ts\<close>: children and descendants, the checks on
  creating and re-parenting a task, the roll-up of children into their container, and the three
  operations that change the hierarchy, \<open>createTask\<close>, \<open>updateTask\<close> and \<open>deleteTask\<close>, with the
  refresh of a roadmap batch that a deletion triggers. An operation that throws returns
  \<^term>\<open>Inl\<close> of the message. The two unguarded loops of the source (\<open>collectDescendantRows\<close>,
  \<open>isTaskDescendant\<close>) are partial functions whose value is \<^term>\<open>None\<close> when the loop does not end.
\<close>

section \<open>Operator input holds\<close>

definition isOperatorInputRequiredReason :: "string option \<Rightarrow> bool" where
  "isOperatorInputRequiredReason r =
     (case r of Some s \<Rightarrow> startsWith s ''operator_input_required:'' | None \<Rightarrow> False)"

text \<open>
  The patch is normalised against the row it is written to: the row after the patch is what the
  condition reads and what the three columns are overwritten in.
\<close>

definition normalizeOperatorInputHoldPatch :: "task_row \<Rightarrow> task_row" where
  "normalizeOperatorInputHoldPatch r =
     (if status r = Blocked_External \<and> isOperatorInputRequiredReason (blockedReason r)
      then r\<lparr>paused := True, retryAfter := None, manualReviewRequired := False\<rparr> else r)"

section \<open>Reading the hierarchy\<close>

definition MAX_TASK_HIERARCHY_DEPTH :: int where "MAX_TASK_HIERARCHY_DEPTH = 2"

definition DEFAULT_HIERARCHY_POSITION :: rat where "DEFAULT_HIERARCHY_POSITION = 1000"

definition ACTIVE_CHILD_STATUSES :: "task_status set" where
  "ACTIVE_CHILD_STATUSES = {Requirements_Analysis, Needs_Input, Research, Design, Planning,
     Plan_Ready, Implementing, Review, Qa}"

definition effectiveCloseoutPolicy :: "task_row \<Rightarrow> closeout_policy option" where
  "effectiveCloseoutPolicy r =
     (if hierarchyRole r = Container
      then Some (case parentCloseoutPolicy r of None \<Rightarrow> All_Children_Verified | Some p \<Rightarrow> p)
      else None)"

definition directChildrenOf :: "string \<Rightarrow> db \<Rightarrow> task_row list" where
  "directChildrenOf i d =
     sort_key (\<lambda>r. (hierarchyPosition r, position r, createdAt r))
       (filter (\<lambda>r. parentTaskId r = Some i) (tasks d))"

definition directChildCount :: "string \<Rightarrow> db \<Rightarrow> nat" where
  "directChildCount i d = length (filter (\<lambda>r. parentTaskId r = Some i) (tasks d))"

definition computeNextHierarchyPosition :: "string \<Rightarrow> db \<Rightarrow> rat" where
  "computeNextHierarchyPosition i d =
     (case map hierarchyPosition (filter (\<lambda>r. parentTaskId r = Some i) (tasks d)) of
        [] \<Rightarrow> DEFAULT_HIERARCHY_POSITION
      | p # ps \<Rightarrow> foldr max ps p + 100)"

partial_function (option) descendants_loop ::
    "db \<Rightarrow> task_row list \<Rightarrow> task_row list \<Rightarrow> task_row list option" where
  "descendants_loop d queue descendants =
     (case queue of
        [] \<Rightarrow> Some descendants
      | child # rest \<Rightarrow>
          descendants_loop d (rest @ directChildrenOf (taskId child) d) (descendants @ [child]))"

definition collectDescendantRows :: "string \<Rightarrow> db \<Rightarrow> task_row list option" where
  "collectDescendantRows i d = descendants_loop d (directChildrenOf i d) []"

partial_function (option) ancestor_loop :: "db \<Rightarrow> string \<Rightarrow> task_row option \<Rightarrow> bool option" where
  "ancestor_loop d ancestorId cursor =
     (case cursor of
        None \<Rightarrow> Some False
      | Some c \<Rightarrow>
          (if truthy (parentTaskId c)
           then (if parentTaskId c = Some ancestorId then Some True
                 else ancestor_loop d ancestorId (findTaskById (the (parentTaskId c)) d))
           else Some False))"

declare descendants_loop.simps [code]
declare ancestor_loop.simps [code]

definition isTaskDescendant :: "string \<Rightarrow> string \<Rightarrow> db \<Rightarrow> bool option" where
  "isTaskDescendant candidateId ancestorId d =
     ancestor_loop d ancestorId (findTaskById candidateId d)"

definition childBlocksHierarchyRollup :: "db \<Rightarrow> task_row \<Rightarrow> bool" where
  "childBlocksHierarchyRollup d child =
     (if status child \<noteq> Blocked_External \<and> \<not> manualReviewRequired child then False
      else if taskIntent child \<noteq> ''audit'' then True
      else (case findRoadmapBatchArtifactByTaskId (taskId child) d of
              None \<Rightarrow> True | Some a \<Rightarrow> \<not> roadmapReportArtifactReleaseReady d a))"

record child_summary =
  childCount :: nat
  blockedChildCount :: nat
  activeChildCount :: nat
  verifiedChildCount :: nat

definition getTaskChildSummary :: "string \<Rightarrow> db \<Rightarrow> child_summary" where
  "getTaskChildSummary i d =
     (let children = directChildrenOf i d in
      \<lparr>childCount = length children,
       blockedChildCount = length (filter (childBlocksHierarchyRollup d) children),
       activeChildCount = length (filter (\<lambda>c. status c \<in> ACTIVE_CHILD_STATUSES) children),
       verifiedChildCount = length (filter (\<lambda>c. status c = Verified) children)\<rparr>)"

section \<open>Roll-up\<close>

definition findAuthoritativeSynthesisChild ::
    "db \<Rightarrow> task_row \<Rightarrow> task_row list \<Rightarrow> task_row option" where
  "findAuthoritativeSynthesisChild d parent children =
     (if effectiveCloseoutPolicy parent \<noteq> Some Synthesis_Child_Verified then None
      else let childIds = map taskId children in
        if childIds = [] \<or> taskIntent parent \<noteq> ''audit'' then None
        else
          let bs = filter (\<lambda>b. batchProjectId b = projectId parent \<and> batchTaskIntent b = ''audit'' \<and>
                     (case synthesisTaskId b of Some s \<Rightarrow> s \<in> set childIds | None \<Rightarrow> False))
                   (batches d);
              uniqueSynthesisIds =
                remdups (filter (\<lambda>s. s \<noteq> []) (map (\<lambda>b. the (synthesisTaskId b)) bs))
          in if length bs \<noteq> 1 \<or> length uniqueSynthesisIds \<noteq> 1 then None
             else List.find (\<lambda>c. taskId c = hd uniqueSynthesisIds) children)"

definition computeParentRollupStatus :: "db \<Rightarrow> task_row \<Rightarrow> task_row list \<Rightarrow> task_status" where
  "computeParentRollupStatus d parent children =
     (if children = [] then (if status parent = Verified then Verified else Backlog)
      else if list_ex (childBlocksHierarchyRollup d) children then Blocked_External
      else if list_ex (\<lambda>c. status c \<in> ACTIVE_CHILD_STATUSES) children then Implementing
      else
        (case (case effectiveCloseoutPolicy parent of None \<Rightarrow> All_Children_Verified | Some p \<Rightarrow> p) of
           All_Children_Done \<Rightarrow>
             (if list_all (\<lambda>c. status c = Done \<or> status c = Verified) children
              then Done else Backlog)
         | All_Children_Verified \<Rightarrow>
             (if list_all (\<lambda>c. status c = Verified) children then Done else Backlog)
         | Synthesis_Child_Verified \<Rightarrow>
             (if map_option status (findAuthoritativeSynthesisChild d parent children) = Some Verified
              then Done else Backlog)))"

definition hasSatisfiedContainerParentCloseout :: "string \<Rightarrow> db \<Rightarrow> bool" where
  "hasSatisfiedContainerParentCloseout i d =
     (case findTaskById i d of
        None \<Rightarrow> False
      | Some parent \<Rightarrow>
          if hierarchyRole parent \<noteq> Container then False
          else let children = directChildrenOf (taskId parent) d in
            if children = [] then False
            else if list_ex (\<lambda>c. hierarchyRole c \<noteq> Executable) children then False
            else computeParentRollupStatus d parent children = Done)"

definition computeParentRollupBlockedReason :: "db \<Rightarrow> task_row list \<Rightarrow> string" where
  "computeParentRollupBlockedReason d children =
     (let blockedChildren = filter (childBlocksHierarchyRollup d) children in
      if list_ex (\<lambda>c. case blockedReason c of
             Some r \<Rightarrow> startsWith r ''implementation_runtime_exhausted_requires_split:''
           | None \<Rightarrow> False) blockedChildren
      then ''hierarchy_rollup: child blocked by implementation_runtime_exhausted_requires_split''
      else ''hierarchy_rollup: child task is blocked'')"

definition shouldUpdateHierarchyRollupBlockedReason :: "string option \<Rightarrow> bool" where
  "shouldUpdateHierarchyRollupBlockedReason r =
     (\<not> truthy r \<or> startsWith (the r) ''hierarchy_rollup:'')"

definition rollup_patch :: "int \<Rightarrow> db \<Rightarrow> task_row \<Rightarrow> task_row \<Rightarrow> task_row" where
  "rollup_patch now d parent r =
     (let children = directChildrenOf (taskId parent) d;
          nextStatus = computeParentRollupStatus d parent children;
          r1 = r\<lparr>status := nextStatus,
                 parentCloseoutPolicy := effectiveCloseoutPolicy parent, updatedAt := now\<rparr>
      in if nextStatus \<noteq> Blocked_External
         then r1\<lparr>blockedReason := None, blockedFromStatus := None, retryAfter := None,
                 manualReviewRequired := False\<rparr>
         else if shouldUpdateHierarchyRollupBlockedReason (blockedReason parent)
         then r1\<lparr>blockedReason := Some (computeParentRollupBlockedReason d children),
                 blockedFromStatus := Some (status parent), retryAfter := None\<rparr>
         else r1)"

definition refreshParentRollup :: "string \<Rightarrow> int \<Rightarrow> db \<Rightarrow> db" where
  "refreshParentRollup parentId now d =
     (case findTaskById parentId d of
        None \<Rightarrow> d
      | Some parent \<Rightarrow>
          if hierarchyRole parent \<noteq> Container then d
          else if status parent = Verified then d
          else fst (update_tasks (\<lambda>r. taskId r = taskId parent) (rollup_patch now d parent) d))"

lemma rollup_patch_frame [simp]:
  "taskId (rollup_patch now d p r) = taskId r"
  "projectId (rollup_patch now d p r) = projectId r"
  "taskIntent (rollup_patch now d p r) = taskIntent r"
  "parentTaskId (rollup_patch now d p r) = parentTaskId r"
  "rootTaskId (rollup_patch now d p r) = rootTaskId r"
  "hierarchyDepth (rollup_patch now d p r) = hierarchyDepth r"
  "hierarchyRole (rollup_patch now d p r) = hierarchyRole r"
  "hierarchyPosition (rollup_patch now d p r) = hierarchyPosition r"
  "position (rollup_patch now d p r) = position r"
  "createdAt (rollup_patch now d p r) = createdAt r"
  "lockedBy (rollup_patch now d p r) = lockedBy r"
  "lockedUntil (rollup_patch now d p r) = lockedUntil r"
  "lockStage (rollup_patch now d p r) = lockStage r"
  "coordinatorId (rollup_patch now d p r) = coordinatorId r"
  "autoMode (rollup_patch now d p r) = autoMode r"
  "paused (rollup_patch now d p r) = paused r"
  "lastHeartbeatAt (rollup_patch now d p r) = lastHeartbeatAt r"
  by (simp_all add: rollup_patch_def Let_def)

lemma map_taskId_refreshParentRollup [simp]:
  "map taskId (tasks (refreshParentRollup i now d)) = map taskId (tasks d)"
  by (auto simp: refreshParentRollup_def comp_def split: option.splits)

lemma task_ids_refreshParentRollup [simp]:
  "taskId ` set (tasks (refreshParentRollup i now d)) = taskId ` set (tasks d)"
  by (metis list.set_map map_taskId_refreshParentRollup)

function climb_rollups :: "int \<Rightarrow> string list \<Rightarrow> task_row option \<Rightarrow> db \<Rightarrow> db" where
  "climb_rollups now visited cursor d =
     (case cursor of
        None \<Rightarrow> d
      | Some c \<Rightarrow>
          (if truthy (parentTaskId c) \<and> the (parentTaskId c) \<notin> set visited
           then let p = the (parentTaskId c); d' = refreshParentRollup p now d in
                climb_rollups now (p # visited) (findTaskById p d') d'
           else d))"
  by pat_completeness auto

termination
proof (relation "measures [\<lambda>(now, visited, cursor, d). card (task_ids d - set visited),
    \<lambda>(now, visited, cursor, d). (case cursor of None \<Rightarrow> 0 | Some c \<Rightarrow> 1)]")
  fix now visited d and c :: task_row and cursor p d'
  assume c: "cursor = Some c" and g: "truthy (parentTaskId c) \<and> the (parentTaskId c) \<notin> set visited"
    and p: "p = the (parentTaskId c)" and d': "d' = refreshParentRollup p now d"
  have ids: "task_ids d' = task_ids d" by (simp add: d')
  show "((now, p # visited, findTaskById p d', d'), now, visited, cursor, d) \<in>
    measures [\<lambda>(now, visited, cursor, d). card (task_ids d - set visited),
      \<lambda>(now, visited, cursor, d). (case cursor of None \<Rightarrow> 0 | Some c \<Rightarrow> 1)]"
  proof (cases "p \<in> task_ids d")
    case True
    then have "p \<in> task_ids d - set visited" using g p by simp
    then have "card (task_ids d - set (p # visited)) < card (task_ids d - set visited)"
      by (intro psubset_card_mono) auto
    then show ?thesis by (simp add: ids)
  next
    case False
    then have "findTaskById p d' = None" using ids by (simp add: findTaskById_None)
    moreover have "task_ids d - set (p # visited) = task_ids d - set visited" using False by auto
    ultimately show ?thesis by (simp add: ids c)
  qed
qed simp

declare climb_rollups.simps [simp del]

definition refreshAncestorRollups :: "string option \<Rightarrow> int \<Rightarrow> db \<Rightarrow> db" where
  "refreshAncestorRollups i now d =
     climb_rollups now [] (if truthy i then findTaskById (the i) d else None) d"

definition refreshRollupsForParents :: "string option list \<Rightarrow> int \<Rightarrow> db \<Rightarrow> db" where
  "refreshRollupsForParents parentIds now d =
     (let uniqueParentIds = rev (remdups (rev (map the (filter truthy parentIds)))) in
      foldl (\<lambda>d p. refreshAncestorRollups (Some p) now (refreshParentRollup p now d))
        d uniqueParentIds)"

section \<open>Writing a task row\<close>

text \<open>
  A \<open>TaskFieldsPatch\<close> is the function on rows that writes the patch's columns;
  \<open>setTaskFields\<close> normalises it, writes it, and refreshes the ancestors.
\<close>

definition setTaskFields :: "string \<Rightarrow> (task_row \<Rightarrow> task_row) \<Rightarrow> int \<Rightarrow> db \<Rightarrow> db" where
  "setTaskFields i f now d =
     refreshAncestorRollups (Some i) now
       (fst (update_tasks (\<lambda>r. taskId r = i) (\<lambda>r. normalizeOperatorInputHoldPatch (f r)) d))"

definition updateTaskPositionOnly :: "string \<Rightarrow> rat \<Rightarrow> db \<Rightarrow> db" where
  "updateTaskPositionOnly i p d = fst (update_tasks (\<lambda>r. taskId r = i) (\<lambda>r. r\<lparr>position := p\<rparr>) d)"

definition promoteParentToContainer :: "string \<Rightarrow> int \<Rightarrow> db \<Rightarrow> db" where
  "promoteParentToContainer parentId now d =
     (case findTaskById parentId d of
        None \<Rightarrow> d
      | Some parent \<Rightarrow>
          if hierarchyRole parent = Container \<and> parentCloseoutPolicy parent \<noteq> None then d
          else fst (update_tasks (\<lambda>r. taskId r = parentId)
            (\<lambda>r. r\<lparr>hierarchyRole := Container,
                   parentCloseoutPolicy := Some (case parentCloseoutPolicy parent of
                     None \<Rightarrow> All_Children_Verified | Some p \<Rightarrow> p),
                   updatedAt := now\<rparr>) d))"

section \<open>Creating a task\<close>

record hierarchy_fields =
  h_parentTaskId :: "string option"
  h_rootTaskId :: "string option"
  h_depth :: int
  h_role :: hierarchy_role
  h_position :: rat
  h_policy :: "closeout_policy option"

definition created_policy :: "hierarchy_role \<Rightarrow> closeout_policy option \<Rightarrow> closeout_policy option" where
  "created_policy role requested =
     (if role = Container
      then Some (case requested of None \<Rightarrow> All_Children_Verified | Some p \<Rightarrow> p) else None)"

definition depth_error :: string where
  "depth_error = ''Task hierarchy depth cannot exceed 2''"

definition resolveCreateHierarchy ::
    "string \<Rightarrow> string option \<Rightarrow> hierarchy_role option \<Rightarrow> closeout_policy option \<Rightarrow> db \<Rightarrow>
     string + hierarchy_fields" where
  "resolveCreateHierarchy pid parentId roleOpt requestedPolicy d =
     (let role = (case roleOpt of None \<Rightarrow> Executable | Some r \<Rightarrow> r) in
      if truthy parentId then
        (case findTaskById (the parentId) d of
           None \<Rightarrow> Inl (''Parent task not found: '' @ the parentId)
         | Some parent \<Rightarrow>
             if projectId parent \<noteq> pid then Inl ''Parent task must belong to the same project''
             else let depth = hierarchyDepth parent + 1 in
               if depth > MAX_TASK_HIERARCHY_DEPTH then Inl depth_error
               else if role \<noteq> Container \<and> requestedPolicy \<noteq> None
               then Inl ''parentCloseoutPolicy requires hierarchyRole=container''
               else Inr \<lparr>h_parentTaskId = Some (taskId parent),
                 h_rootTaskId = Some (case rootTaskId parent of None \<Rightarrow> taskId parent | Some r \<Rightarrow> r),
                 h_depth = depth, h_role = role,
                 h_position = computeNextHierarchyPosition (taskId parent) d,
                 h_policy = created_policy role requestedPolicy\<rparr>)
      else if role \<noteq> Container \<and> requestedPolicy \<noteq> None
      then Inl ''parentCloseoutPolicy requires hierarchyRole=container''
      else Inr \<lparr>h_parentTaskId = None, h_rootTaskId = None, h_depth = 0, h_role = role,
        h_position = DEFAULT_HIERARCHY_POSITION, h_policy = created_policy role requestedPolicy\<rparr>)"

text \<open>
  The new row takes its id from \<open>crypto.randomUUID()\<close> (argument \<open>i\<close>), its intent from the
  intent resolution and its review limit from the environment; \<open>autoMode\<close> and \<open>paused\<close> fall back
  to the column defaults. The planning-option columns are not part of the row model.
\<close>

record create_input =
  c_projectId :: string
  c_title :: string
  c_intent :: string
  c_autoMode :: "bool option"
  c_maxReviewIterations :: int
  c_paused :: "bool option"
  c_runtimeProfileId :: "string option"
  c_scheduledAt :: "int option"
  c_position :: "rat option"
  c_parentTaskId :: "string option"
  c_hierarchyRole :: "hierarchy_role option"
  c_parentCloseoutPolicy :: "closeout_policy option"

definition new_position :: "rat option \<Rightarrow> db \<Rightarrow> rat" where
  "new_position p d =
     (case p of
        Some q \<Rightarrow> q
      | None \<Rightarrow>
          (case map position (filter (\<lambda>r. status r = Backlog) (tasks d)) of
             [] \<Rightarrow> 1000 | q # qs \<Rightarrow> foldr min qs q) - 100)"

definition new_task_row :: "create_input \<Rightarrow> hierarchy_fields \<Rightarrow> string \<Rightarrow> int \<Rightarrow> db \<Rightarrow> task_row" where
  "new_task_row inp h i now d = \<lparr>taskId = i, projectId = c_projectId inp, title = c_title inp,
     autoMode = (case c_autoMode inp of None \<Rightarrow> True | Some b \<Rightarrow> b), taskIntent = c_intent inp,
     status = Backlog, position = new_position (c_position inp) d,
     parentTaskId = h_parentTaskId h, rootTaskId = h_rootTaskId h, hierarchyDepth = h_depth h,
     hierarchyRole = h_role h, hierarchyPosition = h_position h,
     parentCloseoutPolicy = h_policy h, reviewComments = None, blockedReason = None,
     blockedFromStatus = None, retryAfter = None, retryCount = 0, reworkRequested = False,
     reviewIterationCount = 0, maxReviewIterations = c_maxReviewIterations inp,
     manualReviewRequired = False, autoReviewState = None,
     paused = (case c_paused inp of None \<Rightarrow> False | Some b \<Rightarrow> b), lastHeartbeatAt = Some now,
     runtimeProfileId = c_runtimeProfileId inp, sessionId = None, runtimeLimitSnapshot = None,
     runtimeLimitUpdatedAt = None, lockedBy = None, lockedUntil = None, lockStage = None,
     coordinatorId = None, scheduledAt = c_scheduledAt inp, branchName = None,
     worktreePath = None, requirementsSnapshotId = None, createdAt = now, updatedAt = now\<rparr>"

definition createTask :: "create_input \<Rightarrow> string \<Rightarrow> int \<Rightarrow> db \<Rightarrow> string + db" where
  "createTask inp i now d =
     (case resolveCreateHierarchy (c_projectId inp) (c_parentTaskId inp) (c_hierarchyRole inp)
             (c_parentCloseoutPolicy inp) d of
        Inl e \<Rightarrow> Inl e
      | Inr h \<Rightarrow>
          let d1 = d\<lparr>tasks := tasks d @ [new_task_row inp h i now d]\<rparr> in
          Inr (if truthy (h_parentTaskId h)
               then refreshRollupsForParents [h_parentTaskId h] now
                      (promoteParentToContainer (the (h_parentTaskId h)) now d1)
               else d1))"

section \<open>Re-parenting a task\<close>

record update_fields =
  u_rest :: "task_row \<Rightarrow> task_row"
  u_parent :: "string option option"
  u_role :: "hierarchy_role option"
  u_policy :: "closeout_policy option option"

record hierarchy_update =
  hu_parent :: "hierarchy_fields option"
  hu_role :: "hierarchy_role option"
  hu_policy :: "closeout_policy option option"
  hu_oldParent :: "string option"
  hu_newParent :: "string option"
  hu_depthDelta :: int

text \<open>
  The part of \<open>resolveUpdateHierarchy\<close> under \<open>hasParentUpdate\<close>: next depth, root and position,
  then the depth check on the task and on its descendants.
\<close>

definition next_parent_place ::
    "task_row \<Rightarrow> string option \<Rightarrow> db \<Rightarrow> (string + int \<times> string option \<times> rat) option" where
  "next_parent_place ex next d =
     (if next = Some (taskId ex) then Some (Inl ''A task cannot be its own parent'')
      else if truthy next then
        (case findTaskById (the next) d of
           None \<Rightarrow> Some (Inl (''Parent task not found: '' @ the next))
         | Some parent \<Rightarrow>
             if projectId parent \<noteq> projectId ex
             then Some (Inl ''Parent task must belong to the same project'')
             else (case isTaskDescendant (taskId parent) (taskId ex) d of
               None \<Rightarrow> None
             | Some True \<Rightarrow> Some (Inl ''Task hierarchy cannot contain cycles'')
             | Some False \<Rightarrow> Some (Inr (hierarchyDepth parent + 1,
                 Some (case rootTaskId parent of None \<Rightarrow> taskId parent | Some r \<Rightarrow> r),
                 if next = parentTaskId ex then hierarchyPosition ex
                 else computeNextHierarchyPosition (the next) d))))
      else Some (Inr (0, None, DEFAULT_HIERARCHY_POSITION)))"

definition resolve_parent_update ::
    "task_row \<Rightarrow> string option \<Rightarrow> db \<Rightarrow> (string + hierarchy_fields) option" where
  "resolve_parent_update ex next d =
     (case next_parent_place ex next d of
        None \<Rightarrow> None
      | Some (Inl e) \<Rightarrow> Some (Inl e)
      | Some (Inr (depth, rt, pos)) \<Rightarrow>
          if depth > MAX_TASK_HIERARCHY_DEPTH then Some (Inl depth_error)
          else let depthDelta = depth - hierarchyDepth ex in
            (case collectDescendantRows (taskId ex) d of
               None \<Rightarrow> None
             | Some ds \<Rightarrow>
                 if list_ex (\<lambda>r. hierarchyDepth r + depthDelta > MAX_TASK_HIERARCHY_DEPTH) ds
                 then Some (Inl depth_error)
                 else Some (Inr \<lparr>h_parentTaskId = next, h_rootTaskId = rt, h_depth = depth,
                   h_role = hierarchyRole ex, h_position = pos,
                   h_policy = parentCloseoutPolicy ex\<rparr>)))"

definition update_role_policy ::
    "task_row \<Rightarrow> update_fields \<Rightarrow> db \<Rightarrow> hierarchy_fields option \<Rightarrow> string + hierarchy_update" where
  "update_role_policy ex u d hp =
     (let nextRole = (case u_role u of None \<Rightarrow> hierarchyRole ex | Some r \<Rightarrow> r);
          nextPolicy = (case u_policy u of None \<Rightarrow> parentCloseoutPolicy ex | Some p \<Rightarrow> p)
      in if nextRole = Executable \<and> directChildCount (taskId ex) d > 0
         then Inl ''Tasks with children must remain hierarchyRole=container''
         else if nextRole \<noteq> Container \<and> nextPolicy \<noteq> None
         then Inl ''parentCloseoutPolicy requires hierarchyRole=container''
         else Inr \<lparr>hu_parent = hp,
           hu_role = (if u_role u \<noteq> None then Some nextRole else None),
           hu_policy = (if u_policy u \<noteq> None \<or> u_role u \<noteq> None
                        then Some (created_policy nextRole nextPolicy) else None),
           hu_oldParent = parentTaskId ex,
           hu_newParent = (case u_parent u of None \<Rightarrow> parentTaskId ex | Some n \<Rightarrow> n),
           hu_depthDelta = (case hp of None \<Rightarrow> 0 | Some h \<Rightarrow> h_depth h - hierarchyDepth ex)\<rparr>)"

definition resolveUpdateHierarchy ::
    "task_row \<Rightarrow> update_fields \<Rightarrow> db \<Rightarrow> (string + hierarchy_update) option" where
  "resolveUpdateHierarchy ex u d =
     (case u_parent u of
        None \<Rightarrow> Some (update_role_policy ex u d None)
      | Some next \<Rightarrow>
          (case resolve_parent_update ex next d of
             None \<Rightarrow> None
           | Some (Inl e) \<Rightarrow> Some (Inl e)
           | Some (Inr h) \<Rightarrow> Some (update_role_policy ex u d (Some h))))"

definition apply_hierarchy_update :: "hierarchy_update \<Rightarrow> task_row \<Rightarrow> task_row" where
  "apply_hierarchy_update hu r =
     (let r1 = (case hu_parent hu of
                  None \<Rightarrow> r
                | Some h \<Rightarrow> r\<lparr>parentTaskId := h_parentTaskId h, rootTaskId := h_rootTaskId h,
                    hierarchyDepth := h_depth h, hierarchyPosition := h_position h\<rparr>);
          r2 = (case hu_role hu of None \<Rightarrow> r1 | Some x \<Rightarrow> r1\<lparr>hierarchyRole := x\<rparr>)
      in (case hu_policy hu of None \<Rightarrow> r2 | Some x \<Rightarrow> r2\<lparr>parentCloseoutPolicy := x\<rparr>))"

definition shift_row :: "string option \<Rightarrow> int \<Rightarrow> int \<Rightarrow> task_row \<Rightarrow> db \<Rightarrow> db" where
  "shift_row rt depthDelta now r d =
     fst (update_tasks (\<lambda>x. taskId x = taskId r)
       (\<lambda>x. x\<lparr>rootTaskId := rt, hierarchyDepth := hierarchyDepth r + depthDelta,
              updatedAt := now\<rparr>) d)"

definition applyDescendantHierarchyShift ::
    "string \<Rightarrow> string option \<Rightarrow> int \<Rightarrow> int \<Rightarrow> db \<Rightarrow> db option" where
  "applyDescendantHierarchyShift i rt depthDelta now d =
     (if depthDelta = 0 then Some d
      else map_option (\<lambda>ds. foldl (\<lambda>d r. shift_row rt depthDelta now r d) d ds)
             (collectDescendantRows i d))"

text \<open>The three writes of \<open>updateTask\<close>: the row, the new parent's role, the rows below.\<close>

definition written_db :: "string \<Rightarrow> update_fields \<Rightarrow> hierarchy_update \<Rightarrow> int \<Rightarrow> db \<Rightarrow> db" where
  "written_db i u hu now d = fst (update_tasks (\<lambda>r. taskId r = i)
     (\<lambda>r. normalizeOperatorInputHoldPatch
       ((apply_hierarchy_update hu (u_rest u r))\<lparr>updatedAt := now\<rparr>)) d)"

definition promoted_db :: "string \<Rightarrow> update_fields \<Rightarrow> hierarchy_update \<Rightarrow> int \<Rightarrow> db \<Rightarrow> db" where
  "promoted_db i u hu now d =
     (if truthy (hu_newParent hu)
      then promoteParentToContainer (the (hu_newParent hu)) now (written_db i u hu now d)
      else written_db i u hu now d)"

definition shifted_db :: "string \<Rightarrow> update_fields \<Rightarrow> hierarchy_update \<Rightarrow> int \<Rightarrow> db \<Rightarrow> db option" where
  "shifted_db i u hu now d =
     (case hu_parent hu of
        None \<Rightarrow> Some (promoted_db i u hu now d)
      | Some h \<Rightarrow> applyDescendantHierarchyShift i
          (Some (case h_rootTaskId h of None \<Rightarrow> i | Some r \<Rightarrow> r))
          (hu_depthDelta hu) now (promoted_db i u hu now d))"

definition updateTask :: "string \<Rightarrow> update_fields \<Rightarrow> int \<Rightarrow> db \<Rightarrow> (string + db) option" where
  "updateTask i u now d =
     (case findTaskById i d of
        None \<Rightarrow> Some (Inr d)
      | Some ex \<Rightarrow>
          (case resolveUpdateHierarchy ex u d of
             None \<Rightarrow> None
           | Some (Inl e) \<Rightarrow> Some (Inl e)
           | Some (Inr hu) \<Rightarrow>
               map_option (\<lambda>d3. Inr (refreshAncestorRollups (Some i) now
                 (refreshRollupsForParents [hu_oldParent hu, hu_newParent hu] now d3)))
               (shifted_db i u hu now d)))"

section \<open>Refreshing a roadmap batch and deleting a task\<close>

text \<open>
  SQLite's \<open>LIKE\<close>: \<open>%\<close> matches any text, \<open>_\<close> any one character, letters compare without
  regard to ASCII case.
\<close>

definition ascii_lower :: "char \<Rightarrow> char" where
  "ascii_lower c =
     (let n = (of_char c :: nat) in if 65 \<le> n \<and> n \<le> 90 then char_of (n + 32) else c)"

fun sql_like :: "string \<Rightarrow> string \<Rightarrow> bool" where
  "sql_like [] s = (s = [])"
| "sql_like (p # ps) [] = (p = CHR ''%'' \<and> sql_like ps [])"
| "sql_like (p # ps) (c # s) =
     (if p = CHR ''%'' then sql_like ps (c # s) \<or> sql_like (p # ps) s
      else (p = CHR ''_'' \<or> ascii_lower p = ascii_lower c) \<and> sql_like ps s)"

definition waiting_reason :: "string option \<Rightarrow> bool" where
  "waiting_reason r =
     (case r of Some s \<Rightarrow> sql_like ''synthesis_not_ready:%'' s | None \<Rightarrow> False)"

definition synthesis_hold :: "bool \<Rightarrow> int \<Rightarrow> task_row \<Rightarrow> task_row" where
  "synthesis_hold ready now r =
     (if ready
      then r\<lparr>paused := (if blockedReason r = None \<or> waiting_reason (blockedReason r)
                         then False else paused r),
             blockedReason := (if waiting_reason (blockedReason r) then None else blockedReason r),
             updatedAt := now\<rparr>
      else r\<lparr>paused := True,
             blockedReason := (if blockedReason r = None \<or> waiting_reason (blockedReason r)
               then Some ''synthesis_not_ready: waiting for validated audit batch artifacts''
               else blockedReason r),
             updatedAt := now\<rparr>)"

definition update_batches :: "(batch_row \<Rightarrow> bool) \<Rightarrow> (batch_row \<Rightarrow> batch_row) \<Rightarrow> db \<Rightarrow> db" where
  "update_batches p f d = d\<lparr>batches := map (\<lambda>b. if p b then f b else b) (batches d)\<rparr>"

definition refreshRoadmapBatchSummary :: "string \<Rightarrow> int \<Rightarrow> db \<Rightarrow> db \<times> batch_summary option" where
  "refreshRoadmapBatchSummary bid now d =
     (case findRoadmapBatchById bid d of
        None \<Rightarrow> (d, None)
      | Some b \<Rightarrow>
          let as = listRoadmapBatchArtifacts bid d;
              summary = summarizeRoadmapArtifacts d b as;
              st = computeRoadmapBatchStatus as (s_synthesisReady summary);
              d1 = update_batches (\<lambda>x. batchId x = bid)
                (\<lambda>x. x\<lparr>batchStatus := fst st, validArtifactCount := s_valid summary,
                   invalidArtifactCount := s_invalid summary,
                   missingArtifactCount := s_missing summary,
                   externalBlockedArtifactCount := s_externalBlocked summary,
                   batchSynthesisReady := s_synthesisReady summary,
                   batchFailureFamily := snd st, batchUpdatedAt := now\<rparr>) d;
              d2 = (if truthy (synthesisTaskId b)
                    then fst (update_tasks (\<lambda>r. Some (taskId r) = synthesisTaskId b)
                           (synthesis_hold (s_synthesisReady summary) now) d1)
                    else d1);
              d3 = (if truthy (synthesisTaskId b)
                    then refreshAncestorRollups (synthesisTaskId b) now d2 else d2)
          in (d3, map_option (\<lambda>u. summarizeRoadmapArtifacts d3 u as) (findRoadmapBatchById bid d3)))"

definition delete_from_batch :: "string \<Rightarrow> int \<Rightarrow> string \<Rightarrow> db \<times> string list \<Rightarrow> db \<times> string list" where
  "delete_from_batch i now bid s =
     (let d = fst s in
      case findRoadmapBatchById bid d of
        None \<Rightarrow> s
      | Some b \<Rightarrow>
          let remainingArtifactCount =
                length (filter (\<lambda>a. artifactBatchId a = bid) (artifacts d));
              remainingTaskIds = filter (\<lambda>t. t \<noteq> i) (createdTaskIds b)
          in if remainingArtifactCount = 0 \<and> remainingTaskIds = []
             then (d\<lparr>batches := filter (\<lambda>x. batchId x \<noteq> bid) (batches d)\<rparr>, snd s)
             else (update_batches (\<lambda>x. batchId x = bid)
                     (\<lambda>x. x\<lparr>createdTaskIds := remainingTaskIds,
                        synthesisTaskId :=
                          (if synthesisTaskId b = Some i then None else synthesisTaskId b),
                        batchUpdatedAt := now\<rparr>) d, snd s @ [bid]))"

definition linked_batches :: "string \<Rightarrow> db \<Rightarrow> string list" where
  "linked_batches i d =
     rev (remdups (rev
       (map artifactBatchId (filter (\<lambda>a. artifactTaskId a = i) (artifacts d)) @
        map batchId (filter (\<lambda>b. synthesisTaskId b = Some i \<or> i \<in> set (createdTaskIds b))
          (batches d)))))"

definition delete_rows :: "string \<Rightarrow> db \<Rightarrow> db" where
  "delete_rows i d = d\<lparr>tasks := filter (\<lambda>r. taskId r \<noteq> i) (tasks d),
     comments := filter (\<lambda>c. commentTaskId c \<noteq> i) (comments d),
     attempts := filter (\<lambda>t. attemptTaskId t \<noteq> i) (attempts d),
     artifacts := filter (\<lambda>a. artifactTaskId a \<noteq> i) (artifacts d)\<rparr>"

definition deleteTask :: "string \<Rightarrow> bool \<Rightarrow> int \<Rightarrow> db \<Rightarrow> string + db" where
  "deleteTask i allowAttachedChild now d =
     (case findTaskById i d of
        None \<Rightarrow> Inr d
      | Some ex \<Rightarrow>
          if directChildCount i d > 0 then Inl ''Cannot delete a task that has child tasks''
          else if truthy (parentTaskId ex) \<and> \<not> allowAttachedChild \<and>
                  (case findTaskById (the (parentTaskId ex)) d of
                     None \<Rightarrow> False
                   | Some parent \<Rightarrow> status parent \<noteq> Done \<and> status parent \<noteq> Verified)
          then Inl ''Cannot delete an attached child while its parent is open''
          else
            let tx = foldl (\<lambda>s bid. delete_from_batch i now bid s) (delete_rows i d, [])
                       (linked_batches i d);
                d1 = foldl (\<lambda>d bid. fst (refreshRoadmapBatchSummary bid now d)) (fst tx) (snd tx)
            in Inr (refreshRollupsForParents [parentTaskId ex] now d1))"

section \<open>What a roll-up leaves alone\<close>

text \<open>
  A roll-up keeps every reading \<open>g\<close> of a row that \<open>rollup_patch\<close> keeps, in row order, and all
  other tables.
\<close>

lemma refreshParentRollup_map:
  assumes "\<And>d p r. g (rollup_patch now d p r) = g r"
  shows "map g (tasks (refreshParentRollup i now d)) = map g (tasks d)"
  using assms by (auto simp: refreshParentRollup_def split: option.splits)

lemma refreshParentRollup_tables [simp, aif_frame]:
  "projects (refreshParentRollup i now d) = projects d"
  "artifacts (refreshParentRollup i now d) = artifacts d"
  "attempts (refreshParentRollup i now d) = attempts d"
  "batches (refreshParentRollup i now d) = batches d"
  "leases (refreshParentRollup i now d) = leases d"
  "comments (refreshParentRollup i now d) = comments d"
  "activity (refreshParentRollup i now d) = activity d"
  "stageAttempts (refreshParentRollup i now d) = stageAttempts d"
  by (auto simp: refreshParentRollup_def split: option.splits)

text \<open>One induction over the climb carries every such invariant.\<close>

lemma climb_rollups_invariant:
  assumes "\<And>p d. P d \<Longrightarrow> P (refreshParentRollup p now d)" "P d"
  shows "P (climb_rollups now visited cursor d)"
  using assms
proof (induction now visited cursor d rule: climb_rollups.induct)
  case (1 now visited cursor d)
  show ?case
  proof (cases "\<exists>c. cursor = Some c \<and> truthy (parentTaskId c) \<and> the (parentTaskId c) \<notin> set visited")
    case True
    then obtain c where c: "cursor = Some c"
      "truthy (parentTaskId c) \<and> the (parentTaskId c) \<notin> set visited" by blast
    from 1(1) [OF c refl refl 1(2)] 1(2) [OF 1(3)] c show ?thesis
      by (subst climb_rollups.simps) (simp add: Let_def)
  next
    case False
    then show ?thesis
      using 1(3) by (subst climb_rollups.simps) (auto split: option.split)
  qed
qed

lemma refreshAncestorRollups_invariant:
  assumes "\<And>p d. P d \<Longrightarrow> P (refreshParentRollup p now d)" "P d"
  shows "P (refreshAncestorRollups i now d)"
  unfolding refreshAncestorRollups_def by (rule climb_rollups_invariant [OF assms])

lemma refreshRollupsForParents_invariant:
  assumes "\<And>p d. P d \<Longrightarrow> P (refreshParentRollup p now d)" "P d"
  shows "P (refreshRollupsForParents ps now d)"
proof -
  have step: "P e \<Longrightarrow> P (refreshAncestorRollups (Some p) now (refreshParentRollup p now e))" for p e
    using refreshAncestorRollups_invariant [of P] assms(1) by blast
  have "P e \<Longrightarrow>
      P (foldl (\<lambda>d p. refreshAncestorRollups (Some p) now (refreshParentRollup p now d)) e xs)"
    for e xs
    by (induction xs arbitrary: e) (auto intro: step)
  then show ?thesis by (simp add: refreshRollupsForParents_def Let_def assms(2))
qed

lemma refreshAncestorRollups_map:
  assumes "\<And>d p r. g (rollup_patch now d p r) = g r"
  shows "map g (tasks (refreshAncestorRollups i now d)) = map g (tasks d)"
  by (rule refreshAncestorRollups_invariant [where P = "\<lambda>e. map g (tasks e) = map g (tasks d)"])
    (auto simp: refreshParentRollup_map [where g = g, OF assms])

lemma refreshRollupsForParents_map:
  assumes "\<And>d p r. g (rollup_patch now d p r) = g r"
  shows "map g (tasks (refreshRollupsForParents ps now d)) = map g (tasks d)"
  by (rule refreshRollupsForParents_invariant [where P = "\<lambda>e. map g (tasks e) = map g (tasks d)"])
    (auto simp: refreshParentRollup_map [where g = g, OF assms])

lemma refreshAncestorRollups_tables [simp, aif_frame]:
  "projects (refreshAncestorRollups i now d) = projects d"
  "artifacts (refreshAncestorRollups i now d) = artifacts d"
  "attempts (refreshAncestorRollups i now d) = attempts d"
  "batches (refreshAncestorRollups i now d) = batches d"
  "leases (refreshAncestorRollups i now d) = leases d"
  "comments (refreshAncestorRollups i now d) = comments d"
  "activity (refreshAncestorRollups i now d) = activity d"
  "stageAttempts (refreshAncestorRollups i now d) = stageAttempts d"
  by (rule refreshAncestorRollups_invariant; simp)+

lemma ids_distinct_refresh [simp]:
  "ids_distinct (refreshParentRollup i now d) = ids_distinct d"
  "ids_distinct (refreshAncestorRollups j now d) = ids_distinct d"
  "ids_distinct (refreshRollupsForParents ps now d) = ids_distinct d"
  by (simp_all add: ids_distinct_def refreshAncestorRollups_map refreshRollupsForParents_map)

lemma rollup_status_not_verified:
  "status parent \<noteq> Verified \<Longrightarrow> computeParentRollupStatus d parent children \<noteq> Verified"
  by (auto simp: computeParentRollupStatus_def split: closeout_policy.splits option.splits)

lemma status_rollup_patch:
  "status (rollup_patch now d parent r) =
     computeParentRollupStatus d parent (directChildrenOf (taskId parent) d)"
  by (simp add: rollup_patch_def Let_def)

definition verified_ids :: "db \<Rightarrow> (string \<times> bool) list" where
  "verified_ids d = map (\<lambda>r. (taskId r, status r = Verified)) (tasks d)"

lemma verified_ids_refreshParentRollup:
  assumes "ids_distinct d"
  shows "verified_ids (refreshParentRollup i now d) = verified_ids d"
proof (cases "findTaskById i d")
  case None
  then show ?thesis by (simp add: refreshParentRollup_def)
next
  case (Some parent)
  have "r = parent" if "r \<in> set (tasks d)" "taskId r = taskId parent" for r
    using that Some assms findTaskById_iff [OF assms] by (metis option.inject)
  then show ?thesis
    using Some rollup_status_not_verified
    by (auto simp: refreshParentRollup_def verified_ids_def status_rollup_patch)
qed

lemma verified_ids_refreshAncestorRollups:
  assumes "ids_distinct d"
  shows "verified_ids (refreshAncestorRollups i now d) = verified_ids d"
proof -
  have "ids_distinct (refreshAncestorRollups i now d) \<and>
    verified_ids (refreshAncestorRollups i now d) = verified_ids d"
    by (rule refreshAncestorRollups_invariant
        [where P = "\<lambda>e. ids_distinct e \<and> verified_ids e = verified_ids d"])
      (auto simp: verified_ids_refreshParentRollup assms)
  then show ?thesis by simp
qed

text \<open>A roll-up changes no executable task.\<close>

definition executable_rows :: "db \<Rightarrow> task_row list" where
  "executable_rows d = filter (\<lambda>r. hierarchyRole r \<noteq> Container) (tasks d)"

lemma executable_rows_refreshParentRollup:
  assumes "ids_distinct d"
  shows "executable_rows (refreshParentRollup i now d) = executable_rows d"
proof (cases "\<exists>p. findTaskById i d = Some p \<and> hierarchyRole p = Container \<and> status p \<noteq> Verified")
  case True
  then obtain p where p: "findTaskById i d = Some p" "hierarchyRole p = Container"
    "status p \<noteq> Verified" by blast
  have "hierarchyRole r = Container" if "r \<in> set (tasks d)" "taskId r = taskId p" for r
    using that p findTaskById_iff [OF assms] by (metis option.inject)
  then have "filter (\<lambda>r. hierarchyRole r \<noteq> Container)
      (map (\<lambda>r. if taskId r = taskId p then rollup_patch now d p r else r) ts) =
    filter (\<lambda>r. hierarchyRole r \<noteq> Container) ts" if "set ts \<subseteq> set (tasks d)" for ts
    using that by (induction ts) auto
  then show ?thesis using p by (simp add: executable_rows_def refreshParentRollup_def)
next
  case False
  then show ?thesis by (auto simp: refreshParentRollup_def split: option.split)
qed

lemma executable_rows_refreshAncestorRollups:
  assumes "ids_distinct d"
  shows "executable_rows (refreshAncestorRollups i now d) = executable_rows d"
proof -
  have "ids_distinct (refreshAncestorRollups i now d) \<and>
    executable_rows (refreshAncestorRollups i now d) = executable_rows d"
    by (rule refreshAncestorRollups_invariant
        [where P = "\<lambda>e. ids_distinct e \<and> executable_rows e = executable_rows d"])
      (auto simp: executable_rows_refreshParentRollup assms)
  then show ?thesis by simp
qed

end
