(* ===== verification/Hierarchy_Invariant.thy ===== *)
theory Hierarchy_Invariant
  imports Task_Hierarchy
begin

text \<open>
  The invariant of the task hierarchy and its preservation by \<open>createTask\<close>, \<open>updateTask\<close>,
  \<open>deleteTask\<close> and the roll-ups, the termination of the descendant and ancestor loops under it,
  and what the roll-ups establish.
\<close>

section \<open>The invariant\<close>

text \<open>
  The place of a row is what the hierarchy says of it. A place is in order when its depth is
  between 0 and the maximum, a row without a parent has depth 0, and a parent exists, is a
  container of the same project, and lies one level up.
\<close>

type_synonym place = "string \<times> string \<times> string option \<times> int \<times> hierarchy_role"

definition place :: "task_row \<Rightarrow> place" where
  "place r = (taskId r, projectId r, parentTaskId r, hierarchyDepth r, hierarchyRole r)"

fun place_ok :: "place list \<Rightarrow> place \<Rightarrow> bool" where
  "place_ok ps (i, pr, par, dep, role) \<longleftrightarrow>
     0 \<le> dep \<and> dep \<le> MAX_TASK_HIERARCHY_DEPTH \<and>
     (case par of
        None \<Rightarrow> dep = 0
      | Some p \<Rightarrow> p \<noteq> [] \<and>
          list_ex (\<lambda>(i', pr', par', dep', role').
            i' = p \<and> pr' = pr \<and> dep = dep' + 1 \<and> role' = Container) ps)"

definition places_ok :: "place list \<Rightarrow> bool" where
  "places_ok ps \<longleftrightarrow> distinct (map fst ps) \<and> list_all (place_ok ps) ps"

definition hier_wf :: "db \<Rightarrow> bool" where
  "hier_wf d = places_ok (map place (tasks d))"

lemma fst_place [simp]: "fst (place r) = taskId r"
  by (simp add: place_def)

lemma map_fst_place: "map fst (map place rs) = map taskId rs"
  by simp

lemma hier_wf_cong: "map place (tasks d) = map place (tasks e) \<Longrightarrow> hier_wf d = hier_wf e"
  by (simp add: hier_wf_def)

lemma hier_wf_ids: "hier_wf d \<Longrightarrow> ids_distinct d"
  by (simp add: hier_wf_def places_ok_def ids_distinct_def comp_def)

lemma hier_wf_iff:
  "hier_wf d \<longleftrightarrow> ids_distinct d \<and>
    (\<forall>r \<in> set (tasks d). 0 \<le> hierarchyDepth r \<and> hierarchyDepth r \<le> 2 \<and>
      (case parentTaskId r of
         None \<Rightarrow> hierarchyDepth r = 0
       | Some p \<Rightarrow> p \<noteq> [] \<and> (\<exists>q \<in> set (tasks d). taskId q = p \<and> projectId q = projectId r \<and>
           hierarchyDepth r = hierarchyDepth q + 1 \<and> hierarchyRole q = Container)))"
proof -
  have fst: "fst \<circ> place = taskId" by (simp add: fun_eq_iff)
  have ex: "list_ex P (map place rs) \<longleftrightarrow> (\<exists>q \<in> set rs. P (place q))" for P rs
    by (auto simp: list_ex_iff)
  show ?thesis
    unfolding hier_wf_def places_ok_def ids_distinct_def list_all_iff
    by (simp add: fst ex place_def MAX_TASK_HIERARCHY_DEPTH_def cong: option.case_cong)
qed

lemma hier_wf_parent:
  assumes "hier_wf d" "r \<in> set (tasks d)" "parentTaskId r = Some p"
  obtains q where "q \<in> set (tasks d)" "taskId q = p" "findTaskById p d = Some q" "p \<noteq> []"
    "projectId q = projectId r" "hierarchyDepth r = hierarchyDepth q + 1"
    "hierarchyRole q = Container"
proof -
  have "case parentTaskId r of
         None \<Rightarrow> hierarchyDepth r = 0
       | Some p \<Rightarrow> p \<noteq> [] \<and> (\<exists>q \<in> set (tasks d). taskId q = p \<and> projectId q = projectId r \<and>
           hierarchyDepth r = hierarchyDepth q + 1 \<and> hierarchyRole q = Container)"
    using assms(1,2) unfolding hier_wf_iff by blast
  then obtain q where q: "q \<in> set (tasks d)" "taskId q = p" "p \<noteq> []"
    "projectId q = projectId r" "hierarchyDepth r = hierarchyDepth q + 1"
    "hierarchyRole q = Container"
    using assms(3) by auto
  moreover have "findTaskById p d = Some q"
    using findTaskById_iff [OF hier_wf_ids [OF assms(1)]] q by blast
  ultimately show ?thesis using that by blast
qed

lemma hier_wf_depth:
  "hier_wf d \<Longrightarrow> r \<in> set (tasks d) \<Longrightarrow> 0 \<le> hierarchyDepth r \<and> hierarchyDepth r \<le> 2"
  by (simp add: hier_wf_iff)

lemma set_directChildrenOf [simp]:
  "set (directChildrenOf i d) = {r \<in> set (tasks d). parentTaskId r = Some i}"
  by (auto simp: directChildrenOf_def)

lemma directChildrenOf_Nil: "directChildrenOf i d = [] \<longleftrightarrow> (\<forall>r \<in> set (tasks d). parentTaskId r \<noteq> Some i)"
  using set_directChildrenOf [of i d] by (metis (mono_tags, lifting) empty_Collect_eq set_empty)

lemma directChildCount_0: "directChildCount i d = 0 \<longleftrightarrow> (\<forall>r \<in> set (tasks d). parentTaskId r \<noteq> Some i)"
  by (auto simp: directChildCount_def filter_empty_conv)

section \<open>The descendant and ancestor loops end\<close>

text \<open>Every grandchild of the task is a leaf: the two levels the maximum depth leaves room for.\<close>

definition two_levels :: "string \<Rightarrow> db \<Rightarrow> bool" where
  "two_levels i d \<longleftrightarrow> (\<forall>c \<in> set (tasks d). \<forall>g \<in> set (tasks d). \<forall>x \<in> set (tasks d).
     parentTaskId c = Some i \<and> parentTaskId g = Some (taskId c) \<longrightarrow> parentTaskId x \<noteq> Some (taskId g))"

definition two_level_rows :: "string \<Rightarrow> db \<Rightarrow> task_row list" where
  "two_level_rows i d =
     directChildrenOf i d @ concat (map (\<lambda>c. directChildrenOf (taskId c) d) (directChildrenOf i d))"

lemma descendants_loop_leaves:
  "(\<And>b. b \<in> set bs \<Longrightarrow> directChildrenOf (taskId b) d = []) \<Longrightarrow>
   descendants_loop d bs acc = Some (acc @ bs)"
proof (induction bs arbitrary: acc)
  case Nil
  then show ?case by (simp add: descendants_loop.simps)
next
  case (Cons b bs)
  then show ?case by (subst descendants_loop.simps) simp
qed

lemma descendants_loop_two_levels:
  assumes "\<And>a c. a \<in> set as \<Longrightarrow> c \<in> set (directChildrenOf (taskId a) d) \<Longrightarrow>
      directChildrenOf (taskId c) d = []"
    "\<And>b. b \<in> set bs \<Longrightarrow> directChildrenOf (taskId b) d = []"
  shows "descendants_loop d (as @ bs) acc =
    Some (acc @ as @ bs @ concat (map (\<lambda>a. directChildrenOf (taskId a) d) as))"
  using assms
proof (induction as arbitrary: bs acc)
  case Nil
  then show ?case by (simp add: descendants_loop_leaves)
next
  case (Cons a as)
  have "descendants_loop d ((a # as) @ bs) acc =
      descendants_loop d (as @ (bs @ directChildrenOf (taskId a) d)) (acc @ [a])"
    by (subst descendants_loop.simps) simp
  also have "\<dots> = Some ((acc @ [a]) @ as @ (bs @ directChildrenOf (taskId a) d) @
      concat (map (\<lambda>a. directChildrenOf (taskId a) d) as))"
    by (rule Cons.IH) (use Cons.prems in auto)
  finally show ?case by simp
qed

lemma collectDescendantRows_two_levels:
  assumes "two_levels i d"
  shows "collectDescendantRows i d = Some (two_level_rows i d)"
proof -
  have "descendants_loop d (directChildrenOf i d @ []) [] = Some ([] @ directChildrenOf i d @ [] @
      concat (map (\<lambda>a. directChildrenOf (taskId a) d) (directChildrenOf i d)))"
    by (rule descendants_loop_two_levels)
      (use assms in \<open>auto simp: two_levels_def directChildrenOf_Nil\<close>)
  then show ?thesis by (simp add: collectDescendantRows_def two_level_rows_def)
qed

lemma hier_wf_two_levels:
  assumes "hier_wf d" "i \<in> task_ids d"
  shows "two_levels i d"
  unfolding two_levels_def
proof (intro ballI impI notI)
  fix c g x
  assume m: "c \<in> set (tasks d)" "g \<in> set (tasks d)" "x \<in> set (tasks d)"
    and l: "parentTaskId c = Some i \<and> parentTaskId g = Some (taskId c)"
    and x: "parentTaskId x = Some (taskId g)"
  note find = findTaskById_iff [OF hier_wf_ids [OF assms(1)]]
  obtain q where q: "q \<in> set (tasks d)" "hierarchyDepth c = hierarchyDepth q + 1"
    using hier_wf_parent [OF assms(1) m(1)] l by blast
  obtain c' where c': "findTaskById (taskId c) d = Some c'" "hierarchyDepth g = hierarchyDepth c' + 1"
    using hier_wf_parent [OF assms(1) m(2)] l by blast
  obtain g' where g': "findTaskById (taskId g) d = Some g'" "hierarchyDepth x = hierarchyDepth g' + 1"
    using hier_wf_parent [OF assms(1) m(3)] x by blast
  have "c' = c" "g' = g" using c'(1) g'(1) m find by (metis option.inject)+
  then show False
    using q c'(2) g'(2) hier_wf_depth [OF assms(1) m(3)] hier_wf_depth [OF assms(1) q(1)] by simp
qed

text \<open>Rows below a task: children and grandchildren.\<close>

definition below :: "string \<Rightarrow> db \<Rightarrow> task_row \<Rightarrow> bool" where
  "below i d r \<longleftrightarrow> r \<in> set (tasks d) \<and>
     (parentTaskId r = Some i \<or>
      (\<exists>c \<in> set (tasks d). parentTaskId c = Some i \<and> parentTaskId r = Some (taskId c)))"

lemma set_two_level_rows: "set (two_level_rows i d) = {r. below i d r}"
  by (auto simp: two_level_rows_def below_def)

lemma ancestor_loop_ends:
  assumes "hier_wf d" "c \<in> set (tasks d)"
  shows "\<exists>b. ancestor_loop d a (Some c) = Some b"
  using assms(2)
proof (induction "nat (hierarchyDepth c)" arbitrary: c)
  case 0
  have "parentTaskId c = None"
  proof (rule ccontr)
    assume "parentTaskId c \<noteq> None"
    then obtain p where p: "parentTaskId c = Some p" by auto
    obtain q where "q \<in> set (tasks d)" "hierarchyDepth c = hierarchyDepth q + 1"
      using hier_wf_parent [OF assms(1) 0(2) p] by blast
    then show False using 0(1) hier_wf_depth [OF assms(1)] by fastforce
  qed
  then have "ancestor_loop d a (Some c) = Some False" by (simp add: ancestor_loop.simps)
  then show ?case by blast
next
  case (Suc n)
  show ?case
  proof (cases "parentTaskId c")
    case None
    then have "ancestor_loop d a (Some c) = Some False" by (simp add: ancestor_loop.simps)
    then show ?thesis by blast
  next
    case (Some p)
    obtain q where q: "q \<in> set (tasks d)" "findTaskById p d = Some q" "p \<noteq> []"
      "hierarchyDepth c = hierarchyDepth q + 1"
      using hier_wf_parent [OF assms(1) Suc(3) Some] by blast
    have "n = nat (hierarchyDepth q)" using q(4) Suc(2) by simp
    from Suc(1) [OF this q(1)] Some q show ?thesis by (subst ancestor_loop.simps) auto
  qed
qed

lemma isTaskDescendant_below:
  assumes "hier_wf d" "c \<in> set (tasks d)" "below i d c"
  shows "isTaskDescendant (taskId c) i d = Some True"
proof -
  note find = findTaskById_iff [OF hier_wf_ids [OF assms(1)]]
  have c: "findTaskById (taskId c) d = Some c" using assms(2) find by blast
  show ?thesis
  proof (cases "parentTaskId c = Some i")
    case True
    then have "i \<noteq> []" using hier_wf_parent [OF assms(1,2)] by blast
    then show ?thesis using True by (simp add: isTaskDescendant_def c ancestor_loop.simps)
  next
    case False
    then obtain p where p: "p \<in> set (tasks d)" "parentTaskId p = Some i"
      "parentTaskId c = Some (taskId p)" using assms(3) by (auto simp: below_def)
    have ne: "i \<noteq> []" "taskId p \<noteq> []"
      using hier_wf_parent [OF assms(1) p(1,2)] hier_wf_parent [OF assms(1,2) p(3)] by blast+
    have fp: "findTaskById (taskId p) d = Some p" using p(1) find by blast
    have "ancestor_loop d i (Some p) = Some True"
      using p(2) ne by (simp add: ancestor_loop.simps)
    then show ?thesis
      unfolding isTaskDescendant_def c
      using p(3) ne fp False by (subst ancestor_loop.simps) simp
  qed
qed

section \<open>Preservation\<close>

lemma place_rollup_patch [simp]: "place (rollup_patch now d p r) = place r"
  by (simp add: place_def)

lemma hier_wf_refresh [simp]:
  "hier_wf (refreshParentRollup i now d) = hier_wf d"
  "hier_wf (refreshAncestorRollups j now d) = hier_wf d"
  "hier_wf (refreshRollupsForParents ps now d) = hier_wf d"
  by (intro hier_wf_cong refreshParentRollup_map refreshAncestorRollups_map
      refreshRollupsForParents_map; simp)+

lemma below_depth:
  assumes "hier_wf d" "ex \<in> set (tasks d)" "below (taskId ex) d r"
  shows "hierarchyDepth ex < hierarchyDepth r"
proof -
  note find = findTaskById_iff [OF hier_wf_ids [OF assms(1)]]
  have step: "hierarchyDepth c = hierarchyDepth q + 1"
    if "q \<in> set (tasks d)" "c \<in> set (tasks d)" "parentTaskId c = Some (taskId q)" for q c
    using hier_wf_parent [OF assms(1) that(2,3)] that(1) find by (metis option.inject)
  have r: "r \<in> set (tasks d)" using assms(3) by (simp add: below_def)
  show ?thesis
    using assms(3) step [OF assms(2) r] step [OF assms(2)] step [OF _ r] unfolding below_def by force
qed

lemma below_parent:
  assumes "hier_wf d" "r \<in> set (tasks d)" "parentTaskId r = Some (taskId q)" "q \<in> set (tasks d)"
    "below i d q" "i \<in> task_ids d"
  shows "below i d r"
proof (cases "parentTaskId q = Some i")
  case True
  then show ?thesis using assms by (auto simp: below_def)
next
  case False
  then show ?thesis
    using hier_wf_two_levels [OF assms(1,6)] assms unfolding below_def two_levels_def by blast
qed

text \<open>
  A new parent and depth for a row are in order when they fit the invariant, the rows below it
  can follow, and the parent is neither the row itself nor below it.
\<close>

definition new_place_ok :: "db \<Rightarrow> task_row \<Rightarrow> string option \<Rightarrow> int \<Rightarrow> bool" where
  "new_place_ok d ex np nd \<longleftrightarrow> 0 \<le> nd \<and> nd \<le> 2 \<and>
     (\<forall>r. below (taskId ex) d r \<longrightarrow> hierarchyDepth r + (nd - hierarchyDepth ex) \<le> 2) \<and>
     (case np of None \<Rightarrow> nd = 0
      | Some p \<Rightarrow> p \<noteq> [] \<and> (\<exists>q \<in> set (tasks d). taskId q = p \<and> q \<noteq> ex \<and>
          \<not> below (taskId ex) d q \<and> projectId q = projectId ex \<and> nd = hierarchyDepth q + 1))"

lemma current_place_ok:
  assumes "hier_wf d" "ex \<in> set (tasks d)"
  shows "new_place_ok d ex (parentTaskId ex) (hierarchyDepth ex)"
proof (cases "parentTaskId ex")
  case None
  then show ?thesis
    using assms hier_wf_depth [OF assms(1)] by (auto simp: new_place_ok_def hier_wf_iff below_def)
next
  case (Some p)
  obtain q where q: "q \<in> set (tasks d)" "taskId q = p" "p \<noteq> []" "projectId q = projectId ex"
    "hierarchyDepth ex = hierarchyDepth q + 1" using hier_wf_parent [OF assms Some] by blast
  moreover have "\<not> below (taskId ex) d q" using below_depth [OF assms, of q] q by auto
  ultimately show ?thesis
    using Some hier_wf_depth [OF assms(1,2)] hier_wf_depth [OF assms(1)] below_def [of "taskId ex" d]
    by (auto simp: new_place_ok_def)
qed

text \<open>
  A map over the rows that re-parents one row, moves the rows below it by the same number of
  levels and demotes no container keeps the invariant.
\<close>

lemma hier_wf_reparent:
  assumes wf: "hier_wf d" and ex: "ex \<in> set (tasks d)" and t: "tasks e = map U (tasks d)"
    and idn: "\<And>r. r \<in> set (tasks d) \<Longrightarrow> taskId (U r) = taskId r \<and> projectId (U r) = projectId r"
    and par: "\<And>r. r \<in> set (tasks d) \<Longrightarrow>
      parentTaskId (U r) = (if r = ex then newpar else parentTaskId r)"
    and dep: "\<And>r. r \<in> set (tasks d) \<Longrightarrow> hierarchyDepth (U r) =
      (if r = ex then newdepth
       else if below (taskId ex) d r then hierarchyDepth r + (newdepth - hierarchyDepth ex)
       else hierarchyDepth r)"
    and role: "\<And>r. r \<in> set (tasks d) \<Longrightarrow> r \<noteq> ex \<Longrightarrow> hierarchyRole r = Container \<Longrightarrow>
      hierarchyRole (U r) = Container"
    and role_ex: "\<And>r. r \<in> set (tasks d) \<Longrightarrow> parentTaskId r = Some (taskId ex) \<Longrightarrow>
      hierarchyRole (U ex) = Container"
    and new: "new_place_ok d ex newpar newdepth"
    and role_new: "\<And>q. q \<in> set (tasks d) \<Longrightarrow> newpar = Some (taskId q) \<Longrightarrow>
      hierarchyRole (U q) = Container"
  shows "hier_wf e"
proof -
  note find = findTaskById_iff [OF hier_wf_ids [OF wf]]
  have bound: "0 \<le> newdepth" "newdepth \<le> 2"
    "\<And>r. below (taskId ex) d r \<Longrightarrow> hierarchyDepth r + (newdepth - hierarchyDepth ex) \<le> 2"
    using new by (auto simp: new_place_ok_def)
  have ids: "ids_distinct e"
    using hier_wf_ids [OF wf] idn by (simp add: ids_distinct_def t comp_def cong: map_cong)
  have same: "a = b" if "a \<in> set (tasks d)" "b \<in> set (tasks d)" "taskId a = taskId b" for a b
    using that find by (metis option.inject)
  define ok where "ok r \<longleftrightarrow> 0 \<le> hierarchyDepth (U r) \<and> hierarchyDepth (U r) \<le> 2 \<and>
      (case parentTaskId (U r) of
         None \<Rightarrow> hierarchyDepth (U r) = 0
       | Some p \<Rightarrow> p \<noteq> [] \<and> (\<exists>q \<in> set (tasks e). taskId q = p \<and> projectId q = projectId (U r) \<and>
           hierarchyDepth (U r) = hierarchyDepth q + 1 \<and> hierarchyRole q = Container))" for r
  have okI: "ok r" if r: "r \<in> set (tasks d)" and q: "q \<in> set (tasks d)"
    and b: "0 \<le> hierarchyDepth (U r)" "hierarchyDepth (U r) \<le> 2"
    and p: "parentTaskId (U r) = Some (taskId q)" "taskId q \<noteq> []" "projectId q = projectId r"
      "hierarchyDepth (U r) = hierarchyDepth (U q) + 1" "hierarchyRole (U q) = Container" for r q
    unfolding ok_def using b p idn [OF r] idn [OF q] q
    by (auto simp: t intro!: bexI [of _ q])
  have "ok r" if r: "r \<in> set (tasks d)" for r
  proof (cases "r = ex")
    case True
    show ?thesis
    proof (cases newpar)
      case None
      then show ?thesis
        using True new bound par [OF r] dep [OF r] by (simp add: ok_def new_place_ok_def)
    next
      case (Some p)
      then obtain q where q: "q \<in> set (tasks d)" "taskId q = p" "p \<noteq> []" "q \<noteq> ex"
        "\<not> below (taskId ex) d q" "projectId q = projectId ex" "newdepth = hierarchyDepth q + 1"
        "hierarchyRole (U q) = Container"
        using new role_new by (auto simp: new_place_ok_def)
      show ?thesis
        by (rule okI [OF r q(1)])
          (use q True Some bound par [OF r] dep [OF r] dep [OF q(1)] in auto)
    qed
  next
    case False
    show ?thesis
    proof (cases "parentTaskId r")
      case None
      moreover have "hierarchyDepth r = 0" using wf r None by (auto simp: hier_wf_iff)
      moreover have "\<not> below (taskId ex) d r" using None by (simp add: below_def)
      ultimately show ?thesis using False par [OF r] dep [OF r] by (simp add: ok_def)
    next
      case (Some p)
      obtain q where q: "q \<in> set (tasks d)" "taskId q = p" "findTaskById p d = Some q" "p \<noteq> []"
        "projectId q = projectId r" "hierarchyDepth r = hierarchyDepth q + 1"
        "hierarchyRole q = Container"
        using hier_wf_parent [OF wf r Some] by blast
      have br: "below (taskId ex) d r \<longleftrightarrow> q = ex \<or> below (taskId ex) d q"
      proof
        assume "below (taskId ex) d r"
        then consider "p = taskId ex" | c where "c \<in> set (tasks d)"
          "parentTaskId c = Some (taskId ex)" "p = taskId c"
          using Some by (auto simp: below_def)
        then show "q = ex \<or> below (taskId ex) d q"
        proof cases
          case 1
          then show ?thesis using same [OF q(1) ex] q(2) by blast
        next
          case 2
          then have "q = c" using same [OF q(1)] q(2) by blast
          then show ?thesis using 2 by (auto simp: below_def)
        qed
      next
        assume "q = ex \<or> below (taskId ex) d q"
        then show "below (taskId ex) d r"
          using below_parent [OF wf r _ q(1), of "taskId ex"] Some q(2) ex r
          by (auto simp: below_def)
      qed
      have depth: "hierarchyDepth (U r) = hierarchyDepth (U q) + 1"
        using dep [OF r] dep [OF q(1)] False br q(6) by auto
      have nonneg: "0 \<le> hierarchyDepth (U q)"
        using dep [OF q(1)] bound(1) hier_wf_depth [OF wf q(1)]
          below_depth [OF wf ex, of q] by auto
      have "hierarchyDepth (U r) \<le> 2"
        using dep [OF r] False bound(3) hier_wf_depth [OF wf r] by auto
      moreover have "hierarchyRole (U q) = Container"
        using role [OF q(1)] role_ex [OF r] q(2,7) Some by (cases "q = ex") auto
      ultimately show ?thesis
        using okI [OF r q(1)] depth nonneg par [OF r] False Some q by auto
    qed
  qed
  then show ?thesis using ids by (simp add: hier_wf_iff t ok_def)
qed

lemma promoteParentToContainer_map:
  assumes "ids_distinct d"
  obtains F where "tasks (promoteParentToContainer p now d) = map F (tasks d)"
    "\<And>r. taskId (F r) = taskId r" "\<And>r. projectId (F r) = projectId r"
    "\<And>r. parentTaskId (F r) = parentTaskId r" "\<And>r. hierarchyDepth (F r) = hierarchyDepth r"
    "\<And>r. hierarchyRole r = Container \<Longrightarrow> hierarchyRole (F r) = Container"
    "\<And>r. r \<in> set (tasks d) \<Longrightarrow> taskId r = p \<Longrightarrow> hierarchyRole (F r) = Container"
proof (cases "\<exists>parent. findTaskById p d = Some parent \<and>
    \<not> (hierarchyRole parent = Container \<and> parentCloseoutPolicy parent \<noteq> None)")
  case True
  then obtain parent where parent: "findTaskById p d = Some parent"
    "\<not> (hierarchyRole parent = Container \<and> parentCloseoutPolicy parent \<noteq> None)" by blast
  let ?F = "\<lambda>r. if taskId r = p then r\<lparr>hierarchyRole := Container,
      parentCloseoutPolicy := Some (case parentCloseoutPolicy parent of
        None \<Rightarrow> All_Children_Verified | Some p \<Rightarrow> p), updatedAt := now\<rparr> else r"
  show ?thesis
    by (rule that [of ?F]) (use parent in \<open>auto simp: promoteParentToContainer_def\<close>)
next
  case False
  have "hierarchyRole r = Container" if "r \<in> set (tasks d)" "taskId r = p" for r
    using that False findTaskById_iff [OF assms] by blast
  then show ?thesis
    using False that [of id] by (auto simp: promoteParentToContainer_def split: option.splits)
qed

fun shift_in :: "string option \<Rightarrow> int \<Rightarrow> int \<Rightarrow> task_row list \<Rightarrow> task_row \<Rightarrow> task_row" where
  "shift_in rt dl now [] x = x"
| "shift_in rt dl now (r # rs) x = shift_in rt dl now rs
     (if taskId x = taskId r
      then x\<lparr>rootTaskId := rt, hierarchyDepth := hierarchyDepth r + dl, updatedAt := now\<rparr> else x)"

lemma foldl_shift_row:
  "tasks (foldl (\<lambda>d r. shift_row rt dl now r d) d rs) = map (shift_in rt dl now rs) (tasks d)"
  by (induction rs arbitrary: d) (simp_all add: shift_row_def comp_def cong: map_cong)

lemma shift_in_frame [simp]:
  "taskId (shift_in rt dl now rs x) = taskId x"
  "projectId (shift_in rt dl now rs x) = projectId x"
  "parentTaskId (shift_in rt dl now rs x) = parentTaskId x"
  "hierarchyRole (shift_in rt dl now rs x) = hierarchyRole x"
  by (induction rs arbitrary: x) auto

lemma shift_in_depth:
  assumes "\<And>r. r \<in> set rs \<Longrightarrow> taskId r = taskId x \<Longrightarrow> hierarchyDepth r = k"
  shows "hierarchyDepth (shift_in rt dl now rs x) =
    (if taskId x \<in> taskId ` set rs then k + dl else hierarchyDepth x)"
  using assms by (induction rs arbitrary: x) auto

lemma normalize_hold_frame [simp]:
  "taskId (normalizeOperatorInputHoldPatch r) = taskId r"
  "projectId (normalizeOperatorInputHoldPatch r) = projectId r"
  "parentTaskId (normalizeOperatorInputHoldPatch r) = parentTaskId r"
  "rootTaskId (normalizeOperatorInputHoldPatch r) = rootTaskId r"
  "hierarchyDepth (normalizeOperatorInputHoldPatch r) = hierarchyDepth r"
  "hierarchyRole (normalizeOperatorInputHoldPatch r) = hierarchyRole r"
  "status (normalizeOperatorInputHoldPatch r) = status r"
  "lockedBy (normalizeOperatorInputHoldPatch r) = lockedBy r"
  "lockedUntil (normalizeOperatorInputHoldPatch r) = lockedUntil r"
  by (simp_all add: normalizeOperatorInputHoldPatch_def)

lemma apply_hierarchy_update_frame [simp]:
  "taskId (apply_hierarchy_update hu r) = taskId r"
  "projectId (apply_hierarchy_update hu r) = projectId r"
  "parentTaskId (apply_hierarchy_update hu r) =
     (case hu_parent hu of None \<Rightarrow> parentTaskId r | Some h \<Rightarrow> h_parentTaskId h)"
  "hierarchyDepth (apply_hierarchy_update hu r) =
     (case hu_parent hu of None \<Rightarrow> hierarchyDepth r | Some h \<Rightarrow> h_depth h)"
  "hierarchyRole (apply_hierarchy_update hu r) =
     (case hu_role hu of None \<Rightarrow> hierarchyRole r | Some x \<Rightarrow> x)"
  by (simp_all add: apply_hierarchy_update_def Let_def split: option.split)

text \<open>What a successful resolution guarantees, and that the resolution ends.\<close>

lemma resolve_parent_update_total:
  assumes "hier_wf d" "ex \<in> set (tasks d)"
  shows "resolve_parent_update ex next d \<noteq> None"
proof -
  have "taskId ex \<in> task_ids d" using assms(2) by simp
  note c = collectDescendantRows_two_levels [OF hier_wf_two_levels [OF assms(1) this]]
  have ends: "\<exists>b. isTaskDescendant (taskId q) (taskId ex) d = Some b"
    if "findTaskById p d = Some q" for p q
  proof -
    have "q \<in> set (tasks d)" using findTaskById_Some [OF that] by simp
    moreover from this have "findTaskById (taskId q) d = Some q"
      using findTaskById_iff [OF hier_wf_ids [OF assms(1)]] by blast
    ultimately show ?thesis
      using ancestor_loop_ends [OF assms(1), of q "taskId ex"] by (simp add: isTaskDescendant_def)
  qed
  have "next_parent_place ex next d \<noteq> None"
  proof (cases "findTaskById (the next) d")
    case None
    then show ?thesis by (simp add: next_parent_place_def)
  next
    case (Some q)
    from ends [OF Some] obtain b where "isTaskDescendant (taskId q) (taskId ex) d = Some b" ..
    then show ?thesis using Some by (cases b) (simp_all add: next_parent_place_def)
  qed
  then show ?thesis
    by (auto simp: resolve_parent_update_def c Let_def split: option.splits sum.splits)
qed

lemma resolve_parent_update_ok:
  assumes "hier_wf d" "ex \<in> set (tasks d)" "next \<noteq> Some []"
    "resolve_parent_update ex next d = Some (Inr h)"
  shows "h_parentTaskId h = next" "new_place_ok d ex next (h_depth h)"
proof -
  have "taskId ex \<in> task_ids d" using assms(2) by simp
  note c = collectDescendantRows_two_levels [OF hier_wf_two_levels [OF assms(1) this]]
  obtain rt pos where pl: "next_parent_place ex next d = Some (Inr (h_depth h, rt, pos))"
    and b: "h_depth h \<le> 2" and np: "h_parentTaskId h = next"
    and ds: "\<forall>r \<in> set (two_level_rows (taskId ex) d).
      hierarchyDepth r + (h_depth h - hierarchyDepth ex) \<le> 2"
    using assms(4)
    by (auto simp: resolve_parent_update_def c Let_def MAX_TASK_HIERARCHY_DEPTH_def list_ex_iff
        not_less split: option.splits sum.splits if_splits)
  show "h_parentTaskId h = next" by fact
  show "new_place_ok d ex next (h_depth h)"
  proof (cases "next")
    case None
    then show ?thesis
      using pl b ds by (simp add: next_parent_place_def new_place_ok_def set_two_level_rows)
  next
    case (Some p)
    then have p: "p \<noteq> []" "p \<noteq> taskId ex" using assms(3) pl by (auto simp: next_parent_place_def)
    then obtain q where q: "findTaskById p d = Some q" "projectId q = projectId ex"
      "isTaskDescendant (taskId q) (taskId ex) d = Some False" "h_depth h = hierarchyDepth q + 1"
      using pl Some
      by (auto simp: next_parent_place_def split: option.splits if_splits bool.splits)
    have m: "taskId q = p" "q \<in> set (tasks d)" using findTaskById_Some [OF q(1)] by auto
    then have "\<not> below (taskId ex) d q"
      using isTaskDescendant_below [OF assms(1) m(2), of "taskId ex"] q(3) by auto
    then show ?thesis
      using Some p m q b ds hier_wf_depth [OF assms(1) m(2)]
      by (auto simp: new_place_ok_def set_two_level_rows)
  qed
qed

lemma same_row:
  assumes "hier_wf d" "a \<in> set (tasks d)" "b \<in> set (tasks d)" "taskId a = taskId b"
  shows "a = b"
  using assms findTaskById_iff [OF hier_wf_ids [OF assms(1)]] by (metis option.inject)

lemma not_below_self: "hier_wf d \<Longrightarrow> ex \<in> set (tasks d) \<Longrightarrow> \<not> below (taskId ex) d ex"
  using below_depth by blast

text \<open>Re-parenting a row outside its own subtree keeps the rows below it.\<close>

lemma reparent_below:
  assumes wf: "hier_wf d" and ex: "ex \<in> set (tasks d)" and t: "tasks e = map V (tasks d)"
    and idn: "\<And>r. r \<in> set (tasks d) \<Longrightarrow> taskId (V r) = taskId r"
    and par: "\<And>r. r \<in> set (tasks d) \<Longrightarrow>
      parentTaskId (V r) = (if r = ex then newpar else parentTaskId r)"
    and newp: "\<And>q. q \<in> set (tasks d) \<Longrightarrow> newpar = Some (taskId q) \<Longrightarrow>
      q \<noteq> ex \<and> \<not> below (taskId ex) d q"
  shows "r \<in> set (tasks d) \<Longrightarrow> below (taskId ex) e (V r) \<longleftrightarrow> below (taskId ex) d r"
    and "two_levels (taskId ex) e"
proof -
  have child: "parentTaskId (V c) = Some (taskId ex) \<longleftrightarrow> parentTaskId c = Some (taskId ex)"
    if "c \<in> set (tasks d)" for c
    using par [OF that] newp [OF ex] not_below_self [OF wf ex] ex by (auto simp: below_def)
  have link: "parentTaskId (V r) = Some (taskId c) \<longleftrightarrow> parentTaskId r = Some (taskId c)"
    if "r \<in> set (tasks d)" "c \<in> set (tasks d)" "below (taskId ex) d c" for r c
  proof (cases "r = ex")
    case True
    have "parentTaskId ex \<noteq> Some (taskId c)"
      using below_parent [OF wf ex _ that(2,3)] not_below_self [OF wf ex] ex by auto
    then show ?thesis using True par [OF ex] newp [OF that(2)] that(3) by auto
  qed (simp add: par [OF that(1)])
  show b: "below (taskId ex) e (V r) \<longleftrightarrow> below (taskId ex) d r" if r: "r \<in> set (tasks d)" for r
  proof -
    have "(\<exists>c \<in> set (tasks d). parentTaskId (V c) = Some (taskId ex) \<and>
        parentTaskId (V r) = Some (taskId (V c))) \<longleftrightarrow>
      (\<exists>c \<in> set (tasks d). parentTaskId c = Some (taskId ex) \<and> parentTaskId r = Some (taskId c))"
      using child link [OF r] idn by (auto simp: below_def)
    then show ?thesis using child [OF r] r by (auto simp: below_def t)
  qed
  have tl: "two_levels (taskId ex) d" by (rule hier_wf_two_levels [OF wf]) (use ex in simp)
  show "two_levels (taskId ex) e"
    unfolding two_levels_def t
  proof (clarsimp simp: idn)
    fix c g x
    assume m: "c \<in> set (tasks d)" "g \<in> set (tasks d)" "x \<in> set (tasks d)"
      and l: "parentTaskId (V c) = Some (taskId ex)" "parentTaskId (V g) = Some (taskId c)"
      "parentTaskId (V x) = Some (taskId g)"
    have c: "parentTaskId c = Some (taskId ex)" using child [OF m(1)] l(1) by simp
    then have bc: "below (taskId ex) d c" using m by (simp add: below_def)
    have g: "parentTaskId g = Some (taskId c)" using link [OF m(2,1) bc] l(2) by simp
    then have bg: "below (taskId ex) d g" using m c by (auto simp: below_def)
    have "parentTaskId x = Some (taskId g)" using link [OF m(3,2) bg] l(3) by simp
    then show False using tl m c g unfolding two_levels_def by blast
  qed
qed

definition rest_ok :: "update_fields \<Rightarrow> bool" where
  "rest_ok u \<longleftrightarrow> (\<forall>r. place (u_rest u r) = place r) \<and> u_parent u \<noteq> Some (Some [])"

lemma rest_ok_frame:
  assumes "rest_ok u"
  shows "taskId (u_rest u r) = taskId r" "projectId (u_rest u r) = projectId r"
    "parentTaskId (u_rest u r) = parentTaskId r" "hierarchyDepth (u_rest u r) = hierarchyDepth r"
    "hierarchyRole (u_rest u r) = hierarchyRole r"
  using assms by (auto simp: rest_ok_def place_def)

lemma resolveUpdateHierarchy_total:
  assumes "hier_wf d" "ex \<in> set (tasks d)"
  shows "resolveUpdateHierarchy ex u d \<noteq> None"
proof (cases "u_parent u")
  case None
  then show ?thesis by (simp add: resolveUpdateHierarchy_def)
next
  case (Some n)
  obtain s where "resolve_parent_update ex n d = Some s"
    using resolve_parent_update_total [OF assms, of n] by blast
  with Some show ?thesis by (simp add: resolveUpdateHierarchy_def split: sum.split)
qed

lemma update_role_policy_ok:
  assumes "update_role_policy ex u d hp = Inr hu"
  shows "hu_parent hu = hp"
    "hu_newParent hu = (case u_parent u of None \<Rightarrow> parentTaskId ex | Some n \<Rightarrow> n)"
    "hu_depthDelta hu = (case hp of None \<Rightarrow> 0 | Some h \<Rightarrow> h_depth h - hierarchyDepth ex)"
    "directChildCount (taskId ex) d = 0 \<or>
      (case hu_role hu of None \<Rightarrow> hierarchyRole ex | Some x \<Rightarrow> x) = Container"
proof -
  define role where "role = (case u_role u of None \<Rightarrow> hierarchyRole ex | Some r \<Rightarrow> r)"
  note hu = assms [unfolded update_role_policy_def Let_def, folded role_def]
  have c: "\<not> (role = Executable \<and> directChildCount (taskId ex) d > 0)"
    using hu by (auto split: if_splits)
  show "hu_parent hu = hp"
    "hu_newParent hu = (case u_parent u of None \<Rightarrow> parentTaskId ex | Some n \<Rightarrow> n)"
    "hu_depthDelta hu = (case hp of None \<Rightarrow> 0 | Some h \<Rightarrow> h_depth h - hierarchyDepth ex)"
    using hu by (auto split: if_splits)
  have "(case hu_role hu of None \<Rightarrow> hierarchyRole ex | Some x \<Rightarrow> x) = role"
    using hu by (auto simp: role_def split: if_splits)
  then show "directChildCount (taskId ex) d = 0 \<or>
      (case hu_role hu of None \<Rightarrow> hierarchyRole ex | Some x \<Rightarrow> x) = Container"
    using c by (cases role) auto
qed

lemma resolveUpdateHierarchy_cases:
  assumes "resolveUpdateHierarchy ex u d = Some (Inr hu)"
  obtains (same) "update_role_policy ex u d None = Inr hu" "u_parent u = None"
  | (moved) n h where "u_parent u = Some n" "resolve_parent_update ex n d = Some (Inr h)"
      "update_role_policy ex u d (Some h) = Inr hu"
  using assms by (auto simp: resolveUpdateHierarchy_def split: option.splits sum.splits)

text \<open>The new parent and depth a resolution settles on.\<close>

definition settled_parent :: "task_row \<Rightarrow> hierarchy_update \<Rightarrow> string option" where
  "settled_parent ex hu =
     (case hu_parent hu of None \<Rightarrow> parentTaskId ex | Some h \<Rightarrow> h_parentTaskId h)"

definition settled_depth :: "task_row \<Rightarrow> hierarchy_update \<Rightarrow> int" where
  "settled_depth ex hu =
     (case hu_parent hu of None \<Rightarrow> hierarchyDepth ex | Some h \<Rightarrow> h_depth h)"

lemma resolveUpdateHierarchy_ok:
  assumes "hier_wf d" "ex \<in> set (tasks d)" "rest_ok u"
    "resolveUpdateHierarchy ex u d = Some (Inr hu)"
  shows "hu_newParent hu = settled_parent ex hu"
    "hu_depthDelta hu = settled_depth ex hu - hierarchyDepth ex"
    "new_place_ok d ex (settled_parent ex hu) (settled_depth ex hu)"
    "\<And>r. r \<in> set (tasks d) \<Longrightarrow> parentTaskId r = Some (taskId ex) \<Longrightarrow>
      (case hu_role hu of None \<Rightarrow> hierarchyRole ex | Some x \<Rightarrow> x) = Container"
proof -
  have all: "hu_newParent hu = settled_parent ex hu \<and>
    hu_depthDelta hu = settled_depth ex hu - hierarchyDepth ex \<and>
    new_place_ok d ex (settled_parent ex hu) (settled_depth ex hu) \<and>
    (directChildCount (taskId ex) d = 0 \<or>
      (case hu_role hu of None \<Rightarrow> hierarchyRole ex | Some x \<Rightarrow> x) = Container)"
    using assms(4)
  proof (cases rule: resolveUpdateHierarchy_cases)
    case same
    then show ?thesis
      using update_role_policy_ok [OF same(1)] current_place_ok [OF assms(1,2)]
      by (simp add: settled_parent_def settled_depth_def)
  next
    case (moved n h)
    have "n \<noteq> Some []" using assms(3) moved(1) by (simp add: rest_ok_def)
    from resolve_parent_update_ok [OF assms(1,2) this moved(2)] show ?thesis
      using update_role_policy_ok [OF moved(3)] moved(1)
      by (simp add: settled_parent_def settled_depth_def)
  qed
  show "hu_newParent hu = settled_parent ex hu"
    "hu_depthDelta hu = settled_depth ex hu - hierarchyDepth ex"
    "new_place_ok d ex (settled_parent ex hu) (settled_depth ex hu)" using all by blast+
  show "(case hu_role hu of None \<Rightarrow> hierarchyRole ex | Some x \<Rightarrow> x) = Container"
    if "r \<in> set (tasks d)" "parentTaskId r = Some (taskId ex)" for r
    using all that by (auto simp: directChildCount_0)
qed

text \<open>
  The row map of an accepted update before the rows below are shifted: only the task itself moves,
  its new parent is a container, and it is one itself when it has children.
\<close>

definition moves_row ::
    "db \<Rightarrow> task_row \<Rightarrow> string option \<Rightarrow> int \<Rightarrow> (task_row \<Rightarrow> task_row) \<Rightarrow> bool" where
  "moves_row d ex np nd V \<longleftrightarrow> (\<forall>r \<in> set (tasks d).
     taskId (V r) = taskId r \<and> projectId (V r) = projectId r \<and>
     parentTaskId (V r) = (if r = ex then np else parentTaskId r) \<and>
     hierarchyDepth (V r) = (if r = ex then nd else hierarchyDepth r) \<and>
     (r \<noteq> ex \<and> hierarchyRole r = Container \<longrightarrow> hierarchyRole (V r) = Container) \<and>
     (np = Some (taskId r) \<longrightarrow> hierarchyRole (V r) = Container) \<and>
     (parentTaskId r = Some (taskId ex) \<longrightarrow> hierarchyRole (V ex) = Container))"

lemma moves_rowD:
  assumes "moves_row d ex np nd V" "r \<in> set (tasks d)"
  shows "taskId (V r) = taskId r" "projectId (V r) = projectId r"
    "parentTaskId (V r) = (if r = ex then np else parentTaskId r)"
    "hierarchyDepth (V r) = (if r = ex then nd else hierarchyDepth r)"
    "r \<noteq> ex \<Longrightarrow> hierarchyRole r = Container \<Longrightarrow> hierarchyRole (V r) = Container"
    "np = Some (taskId r) \<Longrightarrow> hierarchyRole (V r) = Container"
    "parentTaskId r = Some (taskId ex) \<Longrightarrow> hierarchyRole (V ex) = Container"
  using assms by (auto simp: moves_row_def)

lemma promoted_db_moves:
  assumes "hier_wf d" "rest_ok u" "ex \<in> set (tasks d)"
    "resolveUpdateHierarchy ex u d = Some (Inr hu)"
  obtains V where "tasks (promoted_db (taskId ex) u hu now d) = map V (tasks d)"
    "moves_row d ex (settled_parent ex hu) (settled_depth ex hu) V"
proof -
  note ok = resolveUpdateHierarchy_ok [OF assms(1,3,2,4)]
  note rf = rest_ok_frame [OF assms(2)]
  let ?np = "settled_parent ex hu" and ?nd = "settled_depth ex hu"
  define N where "N = (\<lambda>r. if taskId r = taskId ex then normalizeOperatorInputHoldPatch
    ((apply_hierarchy_update hu (u_rest u r))\<lparr>updatedAt := now\<rparr>) else r)"
  define d1 where "d1 = written_db (taskId ex) u hu now d"
  have t1: "tasks d1 = map N (tasks d)" by (simp add: d1_def written_db_def N_def)
  have N: "taskId (N r) = taskId r" "projectId (N r) = projectId r"
    "parentTaskId (N r) = (if r = ex then ?np else parentTaskId r)"
    "hierarchyDepth (N r) = (if r = ex then ?nd else hierarchyDepth r)"
    "hierarchyRole (N r) = (if r = ex then (case hu_role hu of None \<Rightarrow> hierarchyRole ex | Some x \<Rightarrow> x)
      else hierarchyRole r)" if "r \<in> set (tasks d)" for r
    using same_row [OF assms(1) that assms(3)] rf
    by (auto simp: N_def settled_parent_def settled_depth_def split: option.split)
  have ids1: "ids_distinct d1"
    using hier_wf_ids [OF assms(1)] N(1) by (simp add: ids_distinct_def t1 comp_def cong: map_cong)
  obtain F where t2: "tasks (promoted_db (taskId ex) u hu now d) = map F (tasks d1)"
    and F: "\<And>r. taskId (F r) = taskId r" "\<And>r. projectId (F r) = projectId r"
      "\<And>r. parentTaskId (F r) = parentTaskId r" "\<And>r. hierarchyDepth (F r) = hierarchyDepth r"
      "\<And>r. hierarchyRole r = Container \<Longrightarrow> hierarchyRole (F r) = Container"
    and Fp: "\<And>r. r \<in> set (tasks d1) \<Longrightarrow> ?np = Some (taskId r) \<Longrightarrow> hierarchyRole (F r) = Container"
  proof (cases "truthy (hu_newParent hu)")
    case True
    then obtain p where p: "?np = Some p" using ok(1) by (cases ?np) auto
    obtain F where "tasks (promoteParentToContainer p now d1) = map F (tasks d1)"
      "\<And>r. taskId (F r) = taskId r" "\<And>r. projectId (F r) = projectId r"
      "\<And>r. parentTaskId (F r) = parentTaskId r" "\<And>r. hierarchyDepth (F r) = hierarchyDepth r"
      "\<And>r. hierarchyRole r = Container \<Longrightarrow> hierarchyRole (F r) = Container"
      "\<And>r. r \<in> set (tasks d1) \<Longrightarrow> taskId r = p \<Longrightarrow> hierarchyRole (F r) = Container"
      using promoteParentToContainer_map [OF ids1, of p now] by blast
    then show ?thesis using that [of F] True ok(1) p by (auto simp: promoted_db_def d1_def)
  next
    case False
    have "?np \<noteq> Some (taskId r)" for r using False ok(1,3) by (auto simp: new_place_ok_def)
    then show ?thesis using that [of id] False by (auto simp: promoted_db_def d1_def)
  qed
  have "moves_row d ex ?np ?nd (F \<circ> N)"
    unfolding moves_row_def
  proof (intro ballI)
    fix r assume r: "r \<in> set (tasks d)"
    have "parentTaskId r = Some (taskId ex) \<Longrightarrow> hierarchyRole (F (N ex)) = Container"
      using ok(4) [OF r] N(5) [OF assms(3)] F(5) by simp
    then show "taskId ((F \<circ> N) r) = taskId r \<and> projectId ((F \<circ> N) r) = projectId r \<and>
     parentTaskId ((F \<circ> N) r) = (if r = ex then ?np else parentTaskId r) \<and>
     hierarchyDepth ((F \<circ> N) r) = (if r = ex then ?nd else hierarchyDepth r) \<and>
     (r \<noteq> ex \<and> hierarchyRole r = Container \<longrightarrow> hierarchyRole ((F \<circ> N) r) = Container) \<and>
     (?np = Some (taskId r) \<longrightarrow> hierarchyRole ((F \<circ> N) r) = Container) \<and>
     (parentTaskId r = Some (taskId ex) \<longrightarrow> hierarchyRole ((F \<circ> N) ex) = Container)"
      using N [OF r] F Fp [of "N r"] r by (simp add: t1)
  qed
  then show ?thesis using that [of "F \<circ> N"] by (simp add: t1 t2)
qed

lemma moved_rows_below:
  assumes "hier_wf d" "ex \<in> set (tasks d)" "tasks e = map V (tasks d)"
    "moves_row d ex np nd V" "new_place_ok d ex np nd"
  shows "r \<in> set (tasks d) \<Longrightarrow> below (taskId ex) e (V r) \<longleftrightarrow> below (taskId ex) d r"
    and "two_levels (taskId ex) e"
proof -
  have np: "q \<noteq> ex \<and> \<not> below (taskId ex) d q"
    if q: "q \<in> set (tasks d)" "np = Some (taskId q)" for q
  proof -
    obtain q' where "q' \<in> set (tasks d)" "taskId q' = taskId q" "q' \<noteq> ex" "\<not> below (taskId ex) d q'"
      using assms(5) q(2) by (auto simp: new_place_ok_def)
    then show ?thesis using same_row [OF assms(1) _ q(1)] by blast
  qed
  show "below (taskId ex) e (V r) \<longleftrightarrow> below (taskId ex) d r" if "r \<in> set (tasks d)" for r
    by (rule reparent_below(1) [OF assms(1-3) moves_rowD(1) [OF assms(4)]
          moves_rowD(3) [OF assms(4)] np that])
  show "two_levels (taskId ex) e"
    by (rule reparent_below(2) [OF assms(1-3) moves_rowD(1) [OF assms(4)]
          moves_rowD(3) [OF assms(4)] np])
qed

text \<open>Shifting the rows below by the depth change of the task restores the invariant.\<close>

lemma shifted_hier_wf:
  assumes wf: "hier_wf d" and ex: "ex \<in> set (tasks d)" and t: "tasks e = map V (tasks d)"
    and V: "moves_row d ex np nd V" and new: "new_place_ok d ex np nd"
    and tS: "tasks e' = map (shift_in rt (nd - hierarchyDepth ex) now rows) (tasks e)"
    and rows: "set rows = {r. below (taskId ex) e r} \<or> nd = hierarchyDepth ex \<and> rows = []"
  shows "hier_wf e'"
proof -
  let ?S = "shift_in rt (nd - hierarchyDepth ex) now rows"
  note mb = moved_rows_below [OF wf ex t V new]
  have te: "tasks e' = map (?S \<circ> V) (tasks d)" by (simp add: t tS)
  have depth: "hierarchyDepth (?S (V r)) = (if r = ex then nd
      else if below (taskId ex) d r then hierarchyDepth r + (nd - hierarchyDepth ex)
      else hierarchyDepth r)" if r: "r \<in> set (tasks d)" for r
  proof (cases "nd = hierarchyDepth ex \<and> rows = []")
    case True
    then show ?thesis using moves_rowD(4) [OF V r] by simp
  next
    case False
    then have rows': "set rows = {r. below (taskId ex) e r}" using rows by blast
    have uniq: "x = V r" if x: "x \<in> set rows" "taskId x = taskId (V r)" for x
    proof -
      obtain y where y: "y \<in> set (tasks d)" "x = V y" using x(1) t by (auto simp: rows' below_def)
      then have "taskId y = taskId r" using x(2) moves_rowD(1) [OF V] r by simp
      then show ?thesis using y same_row [OF wf y(1) r] by simp
    qed
    have "taskId (V r) \<in> taskId ` set rows \<longleftrightarrow> below (taskId ex) d r"
      using mb(1) [OF r] uniq by (auto simp: rows')
    moreover have "hierarchyDepth (?S (V r)) = (if taskId (V r) \<in> taskId ` set rows
        then hierarchyDepth (V r) + (nd - hierarchyDepth ex) else hierarchyDepth (V r))"
      by (rule shift_in_depth) (use uniq in auto)
    ultimately show ?thesis
      using moves_rowD(4) [OF V r] not_below_self [OF wf ex] by auto
  qed
  show ?thesis
    by (rule hier_wf_reparent [OF wf ex te, where newpar = np and newdepth = nd])
      (use moves_rowD [OF V] depth new in auto)
qed

lemma shifted_db_hier_wf:
  assumes "hier_wf d" "rest_ok u" "ex \<in> set (tasks d)"
    "resolveUpdateHierarchy ex u d = Some (Inr hu)"
  shows "\<exists>e. shifted_db (taskId ex) u hu now d = Some e \<and> hier_wf e"
proof -
  note ok = resolveUpdateHierarchy_ok [OF assms(1,3,2,4)]
  let ?i = "taskId ex" and ?e = "promoted_db (taskId ex) u hu now d"
  obtain V where V: "tasks ?e = map V (tasks d)"
    "moves_row d ex (settled_parent ex hu) (settled_depth ex hu) V"
    using promoted_db_moves [OF assms] by blast
  have step: "hier_wf e'" if "tasks e' = map (shift_in rt (hu_depthDelta hu) now rows) (tasks ?e)"
    "set rows = {r. below ?i ?e r} \<or> hu_depthDelta hu = 0 \<and> rows = []" for e' rt rows
    using shifted_hier_wf [OF assms(1,3) V ok(3), of e' rt now rows] that ok(2) by auto
  show ?thesis
  proof (cases "hu_depthDelta hu = 0")
    case True
    then have "shifted_db ?i u hu now d = Some ?e"
      by (simp add: shifted_db_def applyDescendantHierarchyShift_def split: option.split)
    moreover have "map (shift_in None (hu_depthDelta hu) now []) (tasks ?e) = tasks ?e"
      by (simp cong: map_cong)
    then have "hier_wf ?e" using step [of ?e None "[]"] True by simp
    ultimately show ?thesis by simp
  next
    case False
    then obtain h where h: "hu_parent hu = Some h"
      using ok(2) by (cases "hu_parent hu") (auto simp: settled_depth_def)
    let ?rt = "Some (case h_rootTaskId h of None \<Rightarrow> ?i | Some r \<Rightarrow> r)"
    let ?f = "foldl (\<lambda>d r. shift_row ?rt (hu_depthDelta hu) now r d) ?e (two_level_rows ?i ?e)"
    have "shifted_db ?i u hu now d = Some ?f"
      using False h
        collectDescendantRows_two_levels [OF moved_rows_below(2) [OF assms(1,3) V ok(3)]]
      by (simp add: shifted_db_def applyDescendantHierarchyShift_def)
    moreover have "hier_wf ?f"
      by (rule step [of ?f ?rt "two_level_rows ?i ?e"])
        (simp_all add: foldl_shift_row set_two_level_rows)
    ultimately show ?thesis by simp
  qed
qed

lemma updateTask_total:
  assumes "hier_wf d" "rest_ok u"
  shows "\<exists>res. updateTask i u now d = Some res \<and> (\<forall>d'. res = Inr d' \<longrightarrow> hier_wf d')"
proof (cases "findTaskById i d")
  case None
  then show ?thesis using assms by (simp add: updateTask_def)
next
  case (Some ex)
  then have ex: "ex \<in> set (tasks d)" "taskId ex = i" using findTaskById_Some by auto
  obtain s where s: "resolveUpdateHierarchy ex u d = Some s"
    using resolveUpdateHierarchy_total [OF assms(1) ex(1)] by blast
  show ?thesis
  proof (cases s)
    case (Inl m)
    then show ?thesis using Some s by (simp add: updateTask_def)
  next
    case (Inr hu)
    then obtain e where "shifted_db i u hu now d = Some e" "hier_wf e"
      using shifted_db_hier_wf [OF assms ex(1)] s ex(2) by blast
    then show ?thesis using Some s Inr by (simp add: updateTask_def)
  qed
qed

lemma resolveCreateHierarchy_ok:
  assumes "resolveCreateHierarchy pid par role pol d = Inr h"
  shows "h_parentTaskId h = None \<and> h_depth h = 0 \<or>
    (\<exists>q \<in> set (tasks d). h_parentTaskId h = Some (taskId q) \<and> taskId q \<noteq> [] \<and> projectId q = pid \<and>
       h_depth h = hierarchyDepth q + 1 \<and> h_depth h \<le> 2)"
proof (cases "truthy par")
  case False
  then show ?thesis
    using assms by (auto simp: resolveCreateHierarchy_def Let_def split: if_splits)
next
  case True
  then obtain q where q: "findTaskById (the par) d = Some q"
    using assms by (auto simp: resolveCreateHierarchy_def Let_def split: option.splits)
  have "h_parentTaskId h = Some (taskId q) \<and> projectId q = pid \<and>
      h_depth h = hierarchyDepth q + 1 \<and> h_depth h \<le> 2"
    using assms True q
    by (auto simp: resolveCreateHierarchy_def Let_def MAX_TASK_HIERARCHY_DEPTH_def split: if_splits)
  moreover have "the par \<noteq> []" using True by (cases par) auto
  ultimately show ?thesis using findTaskById_Some [OF q] by (intro disjI2 bexI [of _ q]) auto
qed

lemma hier_wf_append:
  assumes wf: "hier_wf d" and new: "taskId n \<notin> task_ids d"
    and t: "tasks e = map F (tasks d @ [n])"
    and F: "\<And>r. taskId (F r) = taskId r" "\<And>r. projectId (F r) = projectId r"
      "\<And>r. parentTaskId (F r) = parentTaskId r" "\<And>r. hierarchyDepth (F r) = hierarchyDepth r"
      "\<And>r. hierarchyRole r = Container \<Longrightarrow> hierarchyRole (F r) = Container"
    and place: "parentTaskId n = None \<and> hierarchyDepth n = 0 \<or>
      (\<exists>q \<in> set (tasks d). parentTaskId n = Some (taskId q) \<and> taskId q \<noteq> [] \<and>
        projectId q = projectId n \<and> hierarchyDepth n = hierarchyDepth q + 1 \<and>
        hierarchyDepth n \<le> 2 \<and> hierarchyRole (F q) = Container)"
  shows "hier_wf e"
proof -
  have ids: "ids_distinct e"
    using hier_wf_ids [OF wf] new F(1) by (simp add: ids_distinct_def t comp_def)
  define ok where "ok x \<longleftrightarrow> 0 \<le> hierarchyDepth x \<and> hierarchyDepth x \<le> 2 \<and>
      (case parentTaskId x of
         None \<Rightarrow> hierarchyDepth x = 0
       | Some p \<Rightarrow> p \<noteq> [] \<and> (\<exists>q \<in> set (tasks e). taskId q = p \<and> projectId q = projectId x \<and>
           hierarchyDepth x = hierarchyDepth q + 1 \<and> hierarchyRole q = Container))" for x :: task_row
  have old: "ok (F r)" if r: "r \<in> set (tasks d)" for r
  proof (cases "parentTaskId r")
    case None
    then show ?thesis using wf r F by (auto simp: hier_wf_iff ok_def)
  next
    case (Some p)
    obtain q where q: "q \<in> set (tasks d)" "taskId q = p" "p \<noteq> []" "projectId q = projectId r"
      "hierarchyDepth r = hierarchyDepth q + 1" "hierarchyRole q = Container"
      using hier_wf_parent [OF wf r Some] by blast
    then have "\<exists>x \<in> set (tasks e). taskId x = p \<and> projectId x = projectId r \<and>
        hierarchyDepth r = hierarchyDepth x + 1 \<and> hierarchyRole x = Container"
      using F by (intro bexI [of _ "F q"]) (auto simp: t)
    then show ?thesis using Some q(3) F hier_wf_depth [OF wf r] by (simp add: ok_def)
  qed
  have "ok (F n)"
    using place
  proof (elim disjE bexE)
    fix q assume q: "q \<in> set (tasks d)" "parentTaskId n = Some (taskId q) \<and> taskId q \<noteq> [] \<and>
      projectId q = projectId n \<and> hierarchyDepth n = hierarchyDepth q + 1 \<and>
      hierarchyDepth n \<le> 2 \<and> hierarchyRole (F q) = Container"
    then have "\<exists>x \<in> set (tasks e). taskId x = taskId q \<and> projectId x = projectId n \<and>
        hierarchyDepth n = hierarchyDepth x + 1 \<and> hierarchyRole x = Container"
      using F by (intro bexI [of _ "F q"]) (auto simp: t)
    then show ?thesis using q F hier_wf_depth [OF wf q(1)] by (simp add: ok_def)
  qed (use F in \<open>simp add: ok_def\<close>)
  with old show ?thesis using ids by (auto simp: hier_wf_iff t ok_def)
qed

lemma createTask_hier_wf:
  assumes "hier_wf d" "i \<notin> task_ids d" "createTask inp i now d = Inr d'"
  shows "hier_wf d'"
proof -
  obtain h where h: "resolveCreateHierarchy (c_projectId inp) (c_parentTaskId inp)
      (c_hierarchyRole inp) (c_parentCloseoutPolicy inp) d = Inr h"
    using assms(3) by (auto simp: createTask_def split: sum.splits)
  let ?n = "new_task_row inp h i now d" and ?d1 = "d\<lparr>tasks := tasks d @ [new_task_row inp h i now d]\<rparr>"
  have n: "taskId ?n = i" "projectId ?n = c_projectId inp" "parentTaskId ?n = h_parentTaskId h"
    "hierarchyDepth ?n = h_depth h" by (simp_all add: new_task_row_def)
  note ok = resolveCreateHierarchy_ok [OF h]
  show ?thesis
  proof (cases "truthy (h_parentTaskId h)")
    case False
    have "parentTaskId ?n = None \<and> hierarchyDepth ?n = 0" using ok False n by force
    then have "hier_wf ?d1"
      by (intro hier_wf_append [OF assms(1), where F = id and n = ?n]) (use n assms(2) in auto)
    then show ?thesis using assms(3) h False by (simp add: createTask_def)
  next
    case True
    then obtain p where p: "h_parentTaskId h = Some p" "p \<noteq> []" by (cases "h_parentTaskId h") auto
    have "ids_distinct ?d1" using hier_wf_ids [OF assms(1)] assms(2) n by (simp add: ids_distinct_def)
    then obtain F where F: "tasks (promoteParentToContainer p now ?d1) = map F (tasks ?d1)"
      "\<And>r. taskId (F r) = taskId r" "\<And>r. projectId (F r) = projectId r"
      "\<And>r. parentTaskId (F r) = parentTaskId r" "\<And>r. hierarchyDepth (F r) = hierarchyDepth r"
      "\<And>r. hierarchyRole r = Container \<Longrightarrow> hierarchyRole (F r) = Container"
      "\<And>r. r \<in> set (tasks ?d1) \<Longrightarrow> taskId r = p \<Longrightarrow> hierarchyRole (F r) = Container"
      using promoteParentToContainer_map [of ?d1 p now] by blast
    have "hier_wf (promoteParentToContainer p now ?d1)"
      by (rule hier_wf_append [OF assms(1), where F = F and n = ?n]) (use F n ok p assms(2) in auto)
    then have "hier_wf (refreshRollupsForParents [Some p] now (promoteParentToContainer p now ?d1))"
      by simp
    then show ?thesis using assms(3) h True p by (auto simp: createTask_def Let_def)
  qed
qed

lemma map_place_synthesis_hold [simp]: "place (synthesis_hold b now r) = place r"
  by (simp add: synthesis_hold_def place_def)

lemma map_place_update:
  "(\<And>r. place (f r) = place r) \<Longrightarrow>
   map place (tasks (fst (update_tasks p f d))) = map place (tasks d)"
  by simp

lemma hier_wf_refreshRoadmapBatchSummary [simp]:
  "hier_wf (fst (refreshRoadmapBatchSummary b now d)) = hier_wf d"
proof -
  have "hier_wf (fst (update_tasks p (synthesis_hold x now) (update_batches q f d))) = hier_wf d"
    for p x q f
    by (rule hier_wf_cong) (simp add: update_batches_def)
  moreover have "hier_wf (update_batches q f d) = hier_wf d" for q f
    by (rule hier_wf_cong) (simp add: update_batches_def)
  ultimately show ?thesis
    by (simp add: refreshRoadmapBatchSummary_def Let_def split: option.split)
qed

lemma tasks_delete_from_batch [simp]: "tasks (fst (delete_from_batch i now b s)) = tasks (fst s)"
  by (simp add: delete_from_batch_def Let_def update_batches_def split: option.split)

lemma hier_wf_delete_rows:
  assumes "hier_wf d" "directChildCount i d = 0"
  shows "hier_wf (delete_rows i d)"
proof -
  have "ids_distinct (delete_rows i d)"
    using hier_wf_ids [OF assms(1)] by (simp add: ids_distinct_def delete_rows_def distinct_map_filter)
  moreover have "\<exists>q \<in> set (tasks (delete_rows i d)). taskId q = p \<and> projectId q = projectId r \<and>
      hierarchyDepth r = hierarchyDepth q + 1 \<and> hierarchyRole q = Container"
    if r: "r \<in> set (tasks d)" "parentTaskId r = Some p" for r p
  proof -
    have "p \<noteq> i" using assms(2) r by (auto simp: directChildCount_0)
    then show ?thesis using hier_wf_parent [OF assms(1) r] by (force simp: delete_rows_def)
  qed
  ultimately show ?thesis
    using assms(1) unfolding hier_wf_iff by (force simp: delete_rows_def split: option.splits)
qed

lemma deleteTask_hier_wf:
  assumes "hier_wf d" "deleteTask i b now d = Inr d'"
  shows "hier_wf d'"
proof (cases "findTaskById i d")
  case None
  then show ?thesis using assms by (simp add: deleteTask_def)
next
  case (Some ex)
  have "tasks (fst (foldl (\<lambda>s bid. delete_from_batch i now bid s) s bs)) = tasks (fst s)" for s bs
    by (induction bs arbitrary: s) simp_all
  then have tx: "hier_wf (fst (foldl (\<lambda>s bid. delete_from_batch i now bid s) s bs)) = hier_wf (fst s)"
    for s bs by (intro hier_wf_cong) simp
  have rf: "hier_wf (foldl (\<lambda>d bid. fst (refreshRoadmapBatchSummary bid now d)) e bs) = hier_wf e"
    for e bs by (induction bs arbitrary: e) simp_all
  show ?thesis
    using assms Some hier_wf_delete_rows [OF assms(1), of i]
    by (auto simp: deleteTask_def Let_def tx rf split: if_splits)
qed

section \<open>What the roll-ups establish\<close>

text \<open>A container that is not verified shows the status its children roll up to.\<close>

definition rollup_ok :: "db \<Rightarrow> string \<Rightarrow> bool" where
  "rollup_ok d p = (case findTaskById p d of
     None \<Rightarrow> True
   | Some r \<Rightarrow> hierarchyRole r = Container \<and> status r \<noteq> Verified \<longrightarrow>
       status r = computeParentRollupStatus d r (directChildrenOf p d))"

lemma release_ready_cong:
  assumes "attempts e = attempts d"
  shows "roadmapReportArtifactReleaseReady e a = roadmapReportArtifactReleaseReady d a"
  by (simp add: roadmapReportArtifactReleaseReady_def latestCurrentRoadmapArtifactAttempt_def
      last_attempt_def listRoadmapBatchArtifactAttempts_def assms)

lemma computeParentRollupStatus_cong:
  assumes "artifacts e = artifacts d" "attempts e = attempts d" "batches e = batches d"
    "effectiveCloseoutPolicy p' = effectiveCloseoutPolicy p" "projectId p' = projectId p"
    "taskIntent p' = taskIntent p" "status p' = Verified \<longleftrightarrow> status p = Verified"
  shows "computeParentRollupStatus e p' cs = computeParentRollupStatus d p cs"
proof -
  have "childBlocksHierarchyRollup e = childBlocksHierarchyRollup d"
    by (simp add: fun_eq_iff childBlocksHierarchyRollup_def findRoadmapBatchArtifactByTaskId_def
        assms(1) release_ready_cong [OF assms(2)] split: option.split)
  moreover have "findAuthoritativeSynthesisChild e p' cs = findAuthoritativeSynthesisChild d p cs"
    unfolding findAuthoritativeSynthesisChild_def assms ..
  ultimately show ?thesis by (simp only: computeParentRollupStatus_def assms)
qed

lemma directChildrenOf_refresh_other:
  assumes "hier_wf d" "\<And>r. findTaskById q d = Some r \<Longrightarrow> parentTaskId r \<noteq> Some p"
  shows "directChildrenOf p (refreshParentRollup q now d) = directChildrenOf p d"
proof -
  have *: "filter (\<lambda>r. parentTaskId r = Some p) (map (\<lambda>r. if taskId r = q then f r else r) ts) =
      filter (\<lambda>r. parentTaskId r = Some p) ts"
    if "\<forall>r \<in> set ts. taskId r = q \<longrightarrow> parentTaskId r \<noteq> Some p"
      "\<And>r. parentTaskId (f r) = parentTaskId r" for f ts
    using that by (induction ts) auto
  have "\<forall>r \<in> set (tasks d). taskId r = q \<longrightarrow> parentTaskId r \<noteq> Some p"
    using assms findTaskById_iff [OF hier_wf_ids [OF assms(1)]] by blast
  then have ch: "filter (\<lambda>r. parentTaskId r = Some p)
      (map (\<lambda>r. if taskId r = q then rollup_patch now d x r else r) (tasks d)) =
    filter (\<lambda>r. parentTaskId r = Some p) (tasks d)" for x
    by (simp add: *)
  show ?thesis
  proof (cases "findTaskById q d")
    case None
    then show ?thesis by (simp add: refreshParentRollup_def)
  next
    case (Some x)
    then have "taskId x = q" using findTaskById_Some by blast
    then show ?thesis using Some ch [of x] by (simp add: refreshParentRollup_def directChildrenOf_def)
  qed
qed

lemma findTaskById_refresh:
  "findTaskById p (refreshParentRollup q now d) = (case findTaskById p d of
     None \<Rightarrow> None
   | Some r \<Rightarrow> Some (if p = q \<and> hierarchyRole r = Container \<and> status r \<noteq> Verified
       then rollup_patch now d r r else r))"
proof (cases "findTaskById q d")
  case None
  then show ?thesis by (auto simp: refreshParentRollup_def split: option.split)
next
  case (Some q')
  then have "taskId q' = q" using findTaskById_Some by blast
  moreover have "taskId r = p" if "findTaskById p d = Some r" for r
    using findTaskById_Some [OF that] by simp
  ultimately show ?thesis
    using Some
    by (cases "p = q"; cases "findTaskById p d")
      (auto simp: refreshParentRollup_def findTaskById_update)
qed

lemma not_own_child:
  "hier_wf d \<Longrightarrow> r \<in> set (tasks d) \<Longrightarrow> parentTaskId r \<noteq> Some (taskId r)"
  using not_below_self [of d r] by (auto simp: below_def)

lemma effectiveCloseoutPolicy_rollup_patch:
  "hierarchyRole r = Container \<Longrightarrow>
   effectiveCloseoutPolicy (rollup_patch now d r r) = effectiveCloseoutPolicy r"
  by (simp add: effectiveCloseoutPolicy_def rollup_patch_def Let_def split: option.split)

lemma rollup_ok_refresh_same:
  assumes "hier_wf d"
  shows "rollup_ok (refreshParentRollup p now d) p"
proof (cases "\<exists>r. findTaskById p d = Some r \<and> hierarchyRole r = Container \<and> status r \<noteq> Verified")
  case True
  then obtain r where r: "findTaskById p d = Some r" "hierarchyRole r = Container"
    "status r \<noteq> Verified" by blast
  then have m: "r \<in> set (tasks d)" "taskId r = p" using findTaskById_Some by auto
  have ch: "directChildrenOf p (refreshParentRollup p now d) = directChildrenOf p d"
    by (rule directChildrenOf_refresh_other [OF assms]) (use not_own_child [OF assms m(1)] m r in auto)
  have "computeParentRollupStatus (refreshParentRollup p now d) (rollup_patch now d r r)
      (directChildrenOf p d) = computeParentRollupStatus d r (directChildrenOf p d)"
    by (rule computeParentRollupStatus_cong)
      (use r effectiveCloseoutPolicy_rollup_patch rollup_status_not_verified in
        \<open>auto simp: status_rollup_patch\<close>)
  then show ?thesis using r m ch by (simp add: rollup_ok_def findTaskById_refresh status_rollup_patch)
next
  case False
  then show ?thesis by (auto simp: rollup_ok_def findTaskById_refresh split: option.split)
qed

lemma rollup_ok_refresh_other:
  assumes "hier_wf d" "rollup_ok d p" "q \<noteq> p"
    "\<And>r. findTaskById q d = Some r \<Longrightarrow> parentTaskId r \<noteq> Some p"
  shows "rollup_ok (refreshParentRollup q now d) p"
proof -
  have "computeParentRollupStatus (refreshParentRollup q now d) r cs =
      computeParentRollupStatus d r cs" for r cs
    by (rule computeParentRollupStatus_cong) simp_all
  then show ?thesis
    using assms directChildrenOf_refresh_other [OF assms(1,4)]
    by (auto simp: rollup_ok_def findTaskById_refresh split: option.splits)
qed

text \<open>Climbing from a row no deeper than a consistent container keeps that container consistent.\<close>

lemma climb_keeps_rollup_ok:
  assumes "hier_wf d" "rollup_ok d p" "findTaskById p d = Some pr" "cursor = Some c"
    "c \<in> set (tasks d)" "hierarchyDepth c \<le> hierarchyDepth pr"
  shows "rollup_ok (climb_rollups now visited cursor d) p"
  using assms
proof (induction now visited cursor d arbitrary: c pr rule: climb_rollups.induct)
  case (1 now visited cursor d)
  show ?case
  proof (cases "truthy (parentTaskId c) \<and> the (parentTaskId c) \<notin> set visited")
    case False
    then show ?thesis using 1(3,5) by (subst climb_rollups.simps) auto
  next
    case True
    then obtain q where q: "parentTaskId c = Some q" by (cases "parentTaskId c") auto
    obtain qr where qr: "findTaskById q d = Some qr" "hierarchyDepth c = hierarchyDepth qr + 1"
      using hier_wf_parent [OF 1(2) 1(6) q] by blast
    let ?d' = "refreshParentRollup q now d"
    have pq: "q \<noteq> p" using qr 1(4,7) by auto
    have "parentTaskId qr \<noteq> Some p"
    proof
      assume "parentTaskId qr = Some p"
      then obtain p' where "findTaskById p d = Some p'" "hierarchyDepth qr = hierarchyDepth p' + 1"
        using hier_wf_parent [OF 1(2)] findTaskById_Some [OF qr(1)] by blast
      then show False using 1(4,7) qr(2) by simp
    qed
    then have ok: "rollup_ok ?d' p"
      by (intro rollup_ok_refresh_other [OF 1(2,3) pq]) (simp add: qr)
    have p': "findTaskById p ?d' = Some pr" using 1(4) pq by (simp add: findTaskById_refresh)
    obtain c' where c': "findTaskById q ?d' = Some c'" "hierarchyDepth c' = hierarchyDepth qr"
      using qr(1) by (simp add: findTaskById_refresh)
    have "rollup_ok (climb_rollups now (q # visited) (findTaskById q ?d') ?d') p"
      using 1(1) [OF 1(5) True, of q ?d' pr c'] q 1(2,7) ok p' c' qr(2)
        findTaskById_Some [OF c'(1)] by simp
    then show ?thesis using 1(5) True q by (subst climb_rollups.simps) (simp add: Let_def)
  qed
qed

lemma climb_parent_rollup_ok:
  assumes "hier_wf d" "c \<in> set (tasks d)" "parentTaskId c = Some p" "p \<notin> set visited"
  shows "rollup_ok (climb_rollups now visited (Some c) d) p"
proof -
  obtain pr where pr: "findTaskById p d = Some pr" "p \<noteq> []"
    using hier_wf_parent [OF assms(1-3)] by blast
  let ?d' = "refreshParentRollup p now d"
  obtain c' where c': "findTaskById p ?d' = Some c'" using pr by (simp add: findTaskById_refresh)
  have "rollup_ok (climb_rollups now (p # visited) (Some c') ?d') p"
    by (rule climb_keeps_rollup_ok [OF _ rollup_ok_refresh_same [OF assms(1)] c' refl])
      (use assms findTaskById_Some [OF c'] in auto)
  then show ?thesis using assms(3,4) pr c' by (subst climb_rollups.simps) (simp add: Let_def)
qed

lemma ancestors_rolled_up:
  assumes "hier_wf d" "r \<in> set (tasks d)" "below p d r" "taskId r \<noteq> []"
  shows "rollup_ok (refreshAncestorRollups (Some (taskId r)) now d) p"
proof -
  have f: "findTaskById (taskId r) d = Some r"
    using findTaskById_iff [OF hier_wf_ids [OF assms(1)]] assms(2) by blast
  have start: "refreshAncestorRollups (Some (taskId r)) now d = climb_rollups now [] (Some r) d"
    using f assms(4) by (simp add: refreshAncestorRollups_def)
  show ?thesis
  proof (cases "parentTaskId r = Some p")
    case True
    then show ?thesis unfolding start by (intro climb_parent_rollup_ok [OF assms(1,2)]) simp_all
  next
    case False
    then obtain c where c: "c \<in> set (tasks d)" "parentTaskId c = Some p"
      "parentTaskId r = Some (taskId c)" using assms(3) by (auto simp: below_def)
    have fc: "findTaskById (taskId c) d = Some c" "taskId c \<noteq> []"
      using hier_wf_parent [OF assms(1,2) c(3)] findTaskById_iff [OF hier_wf_ids [OF assms(1)]] c(1)
      by blast+
    let ?d' = "refreshParentRollup (taskId c) now d"
    obtain c' where c': "findTaskById (taskId c) ?d' = Some c'" "parentTaskId c' = Some p"
      using fc(1) c(2) by (simp add: findTaskById_refresh)
    have "p \<noteq> taskId c" using not_own_child [OF assms(1) c(1)] c(2) by auto
    then have "rollup_ok (climb_rollups now [taskId c] (Some c') ?d') p"
      using findTaskById_Some [OF c'(1)] c'(2) assms(1)
      by (intro climb_parent_rollup_ok) simp_all
    then show ?thesis
      unfolding start using c(3) fc(2) c' by (subst climb_rollups.simps) (simp add: Let_def)
  qed
qed

section \<open>Reachable databases\<close>

text \<open>
  The databases the hierarchy operations and the row writes produce from an empty task table,
  whatever they leave in the other tables. A write through \<open>setTaskFields\<close> or the rest of an
  \<open>updateTask\<close> patch does not name the columns that make up the place of a row.
\<close>

inductive hier_reachable :: "db \<Rightarrow> bool" where
  start: "tasks d = [] \<Longrightarrow> hier_reachable d"
| create: "hier_reachable d \<Longrightarrow> i \<notin> task_ids d \<Longrightarrow> createTask inp i now d = Inr d' \<Longrightarrow>
    hier_reachable d'"
| update: "hier_reachable d \<Longrightarrow> rest_ok u \<Longrightarrow> updateTask i u now d = Some (Inr d') \<Longrightarrow>
    hier_reachable d'"
| delete: "hier_reachable d \<Longrightarrow> deleteTask i b now d = Inr d' \<Longrightarrow> hier_reachable d'"
| set_fields: "hier_reachable d \<Longrightarrow> (\<And>r. place (f r) = place r) \<Longrightarrow>
    hier_reachable (setTaskFields i f now d)"
| batch: "hier_reachable d \<Longrightarrow> hier_reachable (fst (refreshRoadmapBatchSummary b now d))"

lemma place_normalize [simp]: "place (normalizeOperatorInputHoldPatch r) = place r"
  by (simp add: place_def)

lemma hier_wf_setTaskFields:
  assumes "\<And>r. place (f r) = place r"
  shows "hier_wf (setTaskFields i f now d) = hier_wf d"
proof -
  have "hier_wf (fst (update_tasks p (\<lambda>r. normalizeOperatorInputHoldPatch (f r)) d)) = hier_wf d" for p
    by (rule hier_wf_cong) (simp add: assms)
  then show ?thesis by (simp add: setTaskFields_def)
qed

lemma hier_reachable_wf: "hier_reachable d \<Longrightarrow> hier_wf d"
proof (induction rule: hier_reachable.induct)
  case (start d)
  then show ?case by (simp add: hier_wf_iff ids_distinct_def)
next
  case (update d u i now d')
  then show ?case using updateTask_total [of d u i now] by auto
qed (auto simp: hier_wf_setTaskFields dest: createTask_hier_wf deleteTask_hier_wf)

lemma below_map:
  assumes "tasks e = map V (tasks d)"
    "\<And>r. taskId (V r) = taskId r" "\<And>r. parentTaskId (V r) = parentTaskId r" "r \<in> set (tasks d)"
  shows "below p e (V r) \<longleftrightarrow> below p d r"
  using assms by (auto simp: below_def)

section \<open>Properties\<close>

text \<open>
  C1: in every database the task operations can produce, task ids are unique, depths stay between
  0 and 2, every parent exists, is a container of the same project and lies exactly one level up;
  so the hierarchy has no cycle, and re-parenting always ends with an error or a new database.
\<close>

theorem reachable_hierarchy_is_wellformed:
  assumes "hier_reachable d"
  shows "hier_wf d \<and> (rest_ok u \<longrightarrow> (\<exists>res. updateTask i u now d = Some res))"
  using hier_reachable_wf [OF assms] updateTask_total by blast

definition demo_create :: "string option \<Rightarrow> create_input" where
  "demo_create par = \<lparr>c_projectId = ''p'', c_title = ''t'', c_intent = ''general'',
     c_autoMode = None, c_maxReviewIterations = 3, c_paused = None, c_runtimeProfileId = None,
     c_scheduledAt = None, c_position = None, c_parentTaskId = par, c_hierarchyRole = None,
     c_parentCloseoutPolicy = None\<rparr>"

definition demo_update :: "string option \<Rightarrow> update_fields" where
  "demo_update par = \<lparr>u_rest = (\<lambda>r. r), u_parent = Some par, u_role = None, u_policy = None\<rparr>"

lemma demo_update_rest_ok: "rest_ok (demo_update (Some ''b''))"
  by (simp add: rest_ok_def demo_update_def)

theorem reachable_hierarchy_is_wellformed_witness:
  "\<exists>d. hier_reachable d \<and> length (tasks d) = 2 \<and> hier_wf d \<and>
     (\<exists>res. updateTask ''a'' (demo_update (Some ''b'')) 9 d = Some res)"
proof -
  let ?d1 = "projr (createTask (demo_create None) ''a'' 1 empty_db)"
  let ?d2 = "projr (createTask (demo_create (Some ''a'')) ''b'' 2 ?d1)"
  have 0: "hier_reachable empty_db" by (rule hier_reachable.start) (simp add: empty_db_def)
  have 1: "createTask (demo_create None) ''a'' 1 empty_db = Inr ?d1" by code_simp
  have r1: "hier_reachable ?d1"
    by (rule hier_reachable.create [OF 0 _ 1]) (simp add: empty_db_def)
  have 2: "createTask (demo_create (Some ''a'')) ''b'' 2 ?d1 = Inr ?d2" by code_simp
  have r2: "hier_reachable ?d2" by (rule hier_reachable.create [OF r1 _ 2]) code_simp
  have "length (tasks ?d2) = 2" by code_simp
  then show ?thesis
    using reachable_hierarchy_is_wellformed [OF r2, of "demo_update (Some ''b'')" "''a''" 9]
      demo_update_rest_ok r2 by blast
qed

text \<open>
  C3: writing a task row leaves every ancestor of the task consistent: a container above it that is
  not verified shows exactly the status its own children roll up to in the resulting database.
\<close>

theorem ancestors_consistent_after_write:
  assumes "hier_wf d" "\<And>r. place (f r) = place r" "findTaskById i d = Some r" "i \<noteq> []"
    "below p d r"
  shows "rollup_ok (setTaskFields i f now d) p"
proof -
  let ?V = "\<lambda>r. if taskId r = i then normalizeOperatorInputHoldPatch (f r) else r"
  let ?e = "fst (update_tasks (\<lambda>r. taskId r = i) (\<lambda>r. normalizeOperatorInputHoldPatch (f r)) d)"
  have r: "r \<in> set (tasks d)" "taskId r = i" using findTaskById_Some [OF assms(3)] by auto
  have V: "place (?V x) = place x" for x by (simp add: assms(2))
  have wf: "hier_wf ?e" using assms(1) hier_wf_cong [of ?e d] V by simp
  have fr: "taskId (?V x) = taskId x" "parentTaskId (?V x) = parentTaskId x" for x
    using V [of x] unfolding place_def by blast+
  have "below p ?e (?V r)" using below_map [of ?e ?V d r p] fr r(1) assms(5) by simp
  moreover have "?V r \<in> set (tasks ?e)" using r(1) by auto
  ultimately show ?thesis
    using ancestors_rolled_up [OF wf, of "?V r" p now] fr [of r] r(2) assms(4)
    by (simp add: setTaskFields_def)
qed

text \<open>
  Roll-ups neither verify nor un-verify a task. Writing one task row leaves the verified flag of
  every other task as it was.
\<close>

theorem rollups_keep_verified:
  assumes "ids_distinct d" "\<And>r. taskId (f r) = taskId r" "findTaskById j d = Some r" "j \<noteq> i"
  shows "\<exists>r'. findTaskById j (setTaskFields i f now d) = Some r' \<and>
    (status r' = Verified \<longleftrightarrow> status r = Verified)"
proof -
  let ?e = "fst (update_tasks (\<lambda>r. taskId r = i) (\<lambda>r. normalizeOperatorInputHoldPatch (f r)) d)"
  let ?s = "setTaskFields i f now d"
  have "map taskId (tasks ?e) = map taskId (tasks d)" by (rule task_ids_update) (simp add: assms(2))
  then have ide: "ids_distinct ?e" using assms(1) by (simp only: ids_distinct_def)
  have fe: "findTaskById j ?e = Some r"
    using assms(3,4) findTaskById_Some [OF assms(3)] assms(2) by (simp add: findTaskById_update)
  have v: "verified_ids ?s = verified_ids ?e"
    unfolding setTaskFields_def by (rule verified_ids_refreshAncestorRollups [OF ide])
  have "(j, status r = Verified) \<in> set (verified_ids ?e)"
    using findTaskById_Some [OF fe] by (auto simp: verified_ids_def)
  then obtain r' where r': "r' \<in> set (tasks ?s)" "taskId r' = j"
    "(status r' = Verified) = (status r = Verified)" unfolding v [symmetric]
    by (auto simp: verified_ids_def)
  moreover have "ids_distinct ?s" using ide by (simp add: setTaskFields_def)
  ultimately show ?thesis using findTaskById_iff by blast
qed

text \<open>
  A container rolls up to \<open>done\<close> exactly when it has children, none of them blocks it, none is
  in progress, and its close-out policy is met.
\<close>

theorem container_done_iff_policy_met:
  "computeParentRollupStatus d parent children = Done \<longleftrightarrow>
   children \<noteq> [] \<and>
   (\<exists>policy. policy = (case effectiveCloseoutPolicy parent of
       None \<Rightarrow> All_Children_Verified | Some p \<Rightarrow> p) \<and>
     \<not> (\<exists>c \<in> set children. childBlocksHierarchyRollup d c \<or> status c \<in> ACTIVE_CHILD_STATUSES) \<and>
     (case policy of
        All_Children_Done \<Rightarrow> status ` set children \<subseteq> {Done, Verified}
      | All_Children_Verified \<Rightarrow> status ` set children \<subseteq> {Verified}
      | Synthesis_Child_Verified \<Rightarrow>
          (\<exists>c \<in> set children. findAuthoritativeSynthesisChild d parent children = Some c \<and>
             status c = Verified)))"
proof -
  have mem: "c \<in> set children" if "findAuthoritativeSynthesisChild d parent children = Some c" for c
    using that
    by (auto simp: findAuthoritativeSynthesisChild_def Let_def find_Some_iff split: if_splits)
  show ?thesis
    by (cases "case effectiveCloseoutPolicy parent of None \<Rightarrow> All_Children_Verified | Some p \<Rightarrow> p")
      (use mem in \<open>auto simp: computeParentRollupStatus_def list_ex_iff list_all_iff\<close>)
qed

text \<open>Concrete rows for the remaining properties: two containers, a task and its child.\<close>

definition demo_row :: "string \<Rightarrow> string option \<Rightarrow> string option \<Rightarrow> int \<Rightarrow> hierarchy_role \<Rightarrow> task_row" where
  "demo_row i par rt dep role = (blank_task i)\<lparr>parentTaskId := par, rootTaskId := rt,
     hierarchyDepth := dep, hierarchyRole := role\<rparr>"

definition demo_tree :: db where
  "demo_tree = empty_db\<lparr>tasks :=
     [demo_row ''a'' None None 0 Container, demo_row ''b'' None None 0 Container,
      demo_row ''m'' (Some ''a'') (Some ''a'') 1 Container,
      demo_row ''x'' (Some ''m'') (Some ''a'') 2 Executable]\<rparr>"

lemma demo_tree_wf: "hier_wf demo_tree" by code_simp

theorem ancestors_consistent_after_write_witness:
  "rollup_ok (setTaskFields ''x'' (\<lambda>r. r\<lparr>status := Implementing\<rparr>) 5 demo_tree) ''a'' \<and>
   rollup_ok (setTaskFields ''x'' (\<lambda>r. r\<lparr>status := Implementing\<rparr>) 5 demo_tree) ''m''"
proof -
  let ?x = "demo_row ''x'' (Some ''m'') (Some ''a'') 2 Executable"
  have f: "findTaskById ''x'' demo_tree = Some ?x" by code_simp
  have b: "below ''a'' demo_tree ?x" "below ''m'' demo_tree ?x"
    by (simp_all add: below_def demo_tree_def demo_row_def blank_task_def)
  show ?thesis
    using ancestors_consistent_after_write [OF demo_tree_wf _ f _ b(1),
        of "\<lambda>r. r\<lparr>status := Implementing\<rparr>" 5]
      ancestors_consistent_after_write [OF demo_tree_wf _ f _ b(2),
        of "\<lambda>r. r\<lparr>status := Implementing\<rparr>" 5]
    by (simp add: place_def)
qed

theorem rollups_keep_verified_witness:
  "\<exists>r'. findTaskById ''m'' (setTaskFields ''x'' (\<lambda>r. r\<lparr>status := Verified\<rparr>) 5 demo_tree) = Some r' \<and>
    (status r' = Verified \<longleftrightarrow> False)"
proof -
  let ?m = "demo_row ''m'' (Some ''a'') (Some ''a'') 1 Container"
  have "findTaskById ''m'' demo_tree = Some ?m" by code_simp
  moreover have "status ?m \<noteq> Verified" by (simp add: demo_row_def blank_task_def)
  ultimately show ?thesis
    using rollups_keep_verified [OF hier_wf_ids [OF demo_tree_wf],
        of "\<lambda>r. r\<lparr>status := Verified\<rparr>" "''m''" ?m "''x''" 5] by simp
qed

text \<open>
  Re-parenting a subtree between two roots at the same depth leaves a stale root below it. The
  update is accepted, the moved task carries the new root, and its child still carries the old one.
\<close>

theorem same_depth_move_keeps_stale_root:
  "\<exists>d' m x. hier_wf demo_tree \<and>
     updateTask ''m'' (demo_update (Some ''b'')) 9 demo_tree = Some (Inr d') \<and>
     findTaskById ''m'' d' = Some m \<and> parentTaskId m = Some ''b'' \<and> rootTaskId m = Some ''b'' \<and>
     findTaskById ''x'' d' = Some x \<and> parentTaskId x = Some ''m'' \<and> rootTaskId x = Some ''a''"
proof -
  let ?r = "updateTask ''m'' (demo_update (Some ''b'')) 9 demo_tree"
  let ?d = "projr (the ?r)"
  have "?r = Some (Inr ?d)" by code_simp
  moreover have "map_option (\<lambda>m. (parentTaskId m, rootTaskId m)) (findTaskById ''m'' ?d) =
    Some (Some ''b'', Some ''b'')" by code_simp
  moreover have "map_option (\<lambda>m. (parentTaskId m, rootTaskId m)) (findTaskById ''x'' ?d) =
    Some (Some ''m'', Some ''a'')" by code_simp
  ultimately show ?thesis using demo_tree_wf by auto
qed

text \<open>
  A container that is blocked through its children forgets what it was blocked from. When a
  child blocks it and its reason is empty or a roll-up reason, the second refresh in a row records
  \<open>blocked_external\<close> itself as the status it was blocked from.
\<close>

theorem second_refresh_overwrites_blocked_from:
  assumes "hier_wf d" "findTaskById p d = Some r" "hierarchyRole r = Container"
    "status r \<noteq> Verified" "shouldUpdateHierarchyRollupBlockedReason (blockedReason r)"
    "c \<in> set (directChildrenOf p d)" "childBlocksHierarchyRollup d c"
  shows "\<exists>r1 r2. findTaskById p (refreshParentRollup p now d) = Some r1 \<and>
    blockedFromStatus r1 = Some (status r) \<and> status r1 = Blocked_External \<and>
    findTaskById p (refreshParentRollup p later (refreshParentRollup p now d)) = Some r2 \<and>
    blockedFromStatus r2 = Some Blocked_External"
proof -
  let ?e = "refreshParentRollup p now d"
  let ?cs = "directChildrenOf p d"
  have m: "r \<in> set (tasks d)" "taskId r = p" using findTaskById_Some [OF assms(2)] by auto
  define r1 where "r1 = rollup_patch now d r r"
  have f1: "findTaskById p ?e = Some r1" using assms(2-4) by (simp add: findTaskById_refresh r1_def)
  have st: "computeParentRollupStatus d r ?cs = Blocked_External"
  proof -
    have "?cs \<noteq> []" "list_ex (childBlocksHierarchyRollup d) ?cs"
      using assms(6,7) directChildrenOf_Nil [of p d] by (auto simp: list_ex_iff)
    then show ?thesis by (simp add: computeParentRollupStatus_def)
  qed
  have r1: "status r1 = Blocked_External" "blockedFromStatus r1 = Some (status r)"
    "blockedReason r1 = Some (computeParentRollupBlockedReason d ?cs)"
    "hierarchyRole r1 = Container" "taskId r1 = p"
    using assms(3,5) st m(2) by (simp_all add: r1_def rollup_patch_def Let_def)
  have upd: "shouldUpdateHierarchyRollupBlockedReason (blockedReason r1)"
    by (simp add: r1(3) shouldUpdateHierarchyRollupBlockedReason_def
        computeParentRollupBlockedReason_def Let_def)
  have "rollup_ok ?e p" by (rule rollup_ok_refresh_same [OF assms(1)])
  then have "computeParentRollupStatus ?e r1 (directChildrenOf p ?e) = Blocked_External"
    using f1 r1 by (simp add: rollup_ok_def)
  then have "blockedFromStatus (rollup_patch later ?e r1 r1) = Some Blocked_External"
    using upd r1 by (simp add: rollup_patch_def Let_def)
  then show ?thesis using f1 r1 by (simp add: findTaskById_refresh)
qed

theorem second_refresh_overwrites_blocked_from_witness:
  "\<exists>d p r. findTaskById p d = Some r \<and> status r = Backlog \<and>
     (\<exists>r2. findTaskById p (refreshParentRollup p 2 (refreshParentRollup p 1 d)) = Some r2 \<and>
       blockedFromStatus r2 = Some Blocked_External)"
proof -
  let ?a = "demo_row ''a'' None None 0 Container"
  let ?c = "(demo_row ''c'' (Some ''a'') (Some ''a'') 1 Executable)\<lparr>status := Blocked_External\<rparr>"
  let ?d = "empty_db\<lparr>tasks := [?a, ?c]\<rparr>"
  have w: "hier_wf ?d" by code_simp
  have f: "findTaskById ''a'' ?d = Some ?a" by code_simp
  have c: "?c \<in> set (directChildrenOf ''a'' ?d)" by (simp add: demo_row_def blank_task_def)
  have b: "childBlocksHierarchyRollup ?d ?c" by code_simp
  have u: "shouldUpdateHierarchyRollupBlockedReason (blockedReason ?a)" by code_simp
  have s: "status ?a = Backlog" "hierarchyRole ?a = Container" by (simp_all add: demo_row_def blank_task_def)
  show ?thesis
    using second_refresh_overwrites_blocked_from [OF w f s(2) _ u c b, of 1 2] f s(1) by auto
qed

end
