(* ===== verification/Lock_Table.thy ===== *)
theory Lock_Table
  imports Aif_Prelude
begin

text \<open>
  The contract of a table of expiring locks, shared by the task claims of the coordinator and the
  runtime endpoint leases: an operation at an instant is a step with a success flag; \<open>owns\<close> says
  that an actor holds a key and that the hold is protected before an instant; \<open>available\<close> says
  that a key can be taken now; \<open>inv\<close> is the table's own invariant. The lemmas are proved once from the laws, for any table.
\<close>

locale lock_table =
  fixes inv :: "'s \<Rightarrow> bool"
    and step :: "'op \<Rightarrow> int \<Rightarrow> 's \<Rightarrow> 's \<times> bool"
    and actor :: "'op \<Rightarrow> 'h option"
    and takes :: "'op \<Rightarrow> 'k option"
    and span :: "'op \<Rightarrow> int"
    and owns :: "'s \<Rightarrow> 'k \<Rightarrow> 'h \<Rightarrow> int \<Rightarrow> bool"
    and available :: "'s \<Rightarrow> 'k \<Rightarrow> int \<Rightarrow> bool"
  assumes inv_step: "inv s \<Longrightarrow> inv (fst (step op now s))"
    and take_iff: "inv s \<Longrightarrow> takes op = Some k \<Longrightarrow> snd (step op now s) = available s k now"
    and take_owns: "inv s \<Longrightarrow> takes op = Some k \<Longrightarrow> actor op = Some h \<Longrightarrow> available s k now \<Longrightarrow>
      owns (fst (step op now s)) k h (now + span op)"
    and owns_blocks: "inv s \<Longrightarrow> owns s k h until \<Longrightarrow> now < until \<Longrightarrow> \<not> available s k now"
    and owns_keep: "inv s \<Longrightarrow> owns s k h until \<Longrightarrow> now < until \<Longrightarrow> actor op \<noteq> Some h \<Longrightarrow>
      owns (fst (step op now s)) k h until"
begin

text \<open>A run of operations, each at its instant, and the success flags it returns.\<close>

fun run :: "('op \<times> int) list \<Rightarrow> 's \<Rightarrow> 's \<times> bool list" where
  "run [] s = (s, [])"
| "run ((op, now) # ops) s =
     (let (s1, ok) = step op now s; (s2, oks) = run ops s1 in (s2, ok # oks))"

lemma run_length: "length (snd (run ops s)) = length ops"
  by (induction ops arbitrary: s) (auto simp: split_beta Let_def)

text \<open>
  While a hold is protected, nobody else's operations end it, and no operation takes the key.
\<close>

lemma exclusive_run:
  assumes "inv s" "owns s k h until"
    "\<And>op now. (op, now) \<in> set ops \<Longrightarrow> now < until \<and> actor op \<noteq> Some h"
  shows "owns (fst (run ops s)) k h until \<and>
    (\<forall>n < length ops. takes (fst (ops ! n)) = Some k \<longrightarrow> \<not> snd (run ops s) ! n)"
  using assms
proof (induction ops arbitrary: s)
  case (Cons a ops)
  obtain op now where a: "a = (op, now)" by fastforce
  have ob: "now < until" "actor op \<noteq> Some h" using Cons.prems(3) a by auto
  let ?s = "fst (step op now s)"
  have own: "owns ?s k h until" by (rule owns_keep [OF Cons.prems(1,2) ob])
  have IH: "owns (fst (run ops ?s)) k h until \<and>
      (\<forall>n < length ops. takes (fst (ops ! n)) = Some k \<longrightarrow> \<not> snd (run ops ?s) ! n)"
    by (rule Cons.IH [OF inv_step [OF Cons.prems(1)] own]) (use Cons.prems(3) in auto)
  have refused: "takes op = Some k \<Longrightarrow> \<not> snd (step op now s)"
    using take_iff [OF Cons.prems(1)] owns_blocks [OF Cons.prems(1,2) ob(1)] by simp
  have "\<not> snd (run (a # ops) s) ! n" if "n < length (a # ops)" "takes (fst ((a # ops) ! n)) = Some k" for n
    using that IH refused by (cases n) (auto simp: a split_beta Let_def)
  then show ?case using IH by (simp add: a split_beta Let_def)
qed simp

text \<open>The same from the operation that took the key.\<close>

lemma exclusive_after_take:
  assumes "inv s" "takes op = Some k" "actor op = Some h" "snd (step op now s)"
    "\<And>op' t. (op', t) \<in> set ops \<Longrightarrow> t < now + span op \<and> actor op' \<noteq> Some h"
  shows "owns (fst (run ops (fst (step op now s)))) k h (now + span op) \<and>
    (\<forall>n < length ops. takes (fst (ops ! n)) = Some k \<longrightarrow>
       \<not> snd (run ops (fst (step op now s))) ! n)"
proof -
  have "available s k now" using take_iff [OF assms(1,2)] assms(4) by simp
  from inv_step [OF assms(1)] take_owns [OF assms(1-3) this] assms(5) show ?thesis
    by (rule exclusive_run)
qed

end

end
