(* ===== verification/Task_Claims.thy ===== *)
theory Task_Claims
  imports Hierarchy_Invariant State_Machine Lock_Table
begin

text \<open>
  The coordinator's task claims and the queries that pick its work, from
  \<open>packages/data/src/index.ts\<close>: candidates per stage, claiming, renewing and releasing a task,
  the release of stale claims, the conditional writes (runtime gate, backlog advance), the due and
  stale lists, and the small status writes. A conditional \<open>UPDATE\<close> is one atomic step with its
  number of changed rows; \<open>ORDER BY\<close> is a stable sort of the rows in \<open>rowid\<close> order.
\<close>

section \<open>Candidates\<close>

definition lock_free :: "int \<Rightarrow> task_row \<Rightarrow> bool" where
  "lock_free now r \<longleftrightarrow>
     lockedBy r = None \<or> (case lockedUntil r of Some u \<Rightarrow> u \<le> now | None \<Rightarrow> False)"

fun stageFilter :: "coordinator_stage \<Rightarrow> task_row \<Rightarrow> bool" where
  "stageFilter Requirements_Analyst r = (status r = Requirements_Analysis)"
| "stageFilter Researcher r = (status r = Research)"
| "stageFilter Designer r = (status r = Design)"
| "stageFilter Qa_Stage r = (status r = Qa)"
| "stageFilter Implementer r =
     (status r = Implementing \<or> (status r = Plan_Ready \<and> autoMode r))"
| "stageFilter Plan_Checker r = (status r = Plan_Ready \<and> autoMode r)"
| "stageFilter Planner r = (status r = Planning)"
| "stageFilter Reviewer r = (status r = Review)"

definition findCoordinatorTaskCandidates ::
    "coordinator_stage \<Rightarrow> nat \<Rightarrow> int \<Rightarrow> db \<Rightarrow> task_row list" where
  "findCoordinatorTaskCandidates stage limit now d =
     take limit (sort_key (\<lambda>r. (position r, createdAt r))
       (filter (\<lambda>r. stageFilter stage r \<and> hierarchyRole r \<noteq> Container \<and> \<not> paused r \<and>
          lock_free now r) (tasks d)))"

definition findCoordinatorTaskCandidate ::
    "coordinator_stage \<Rightarrow> int \<Rightarrow> db \<Rightarrow> task_row option" where
  "findCoordinatorTaskCandidate stage now d =
     (case findCoordinatorTaskCandidates stage 1 now d of [] \<Rightarrow> None | r # _ \<Rightarrow> Some r)"

section \<open>Claims\<close>

definition claimTask ::
    "string \<Rightarrow> string \<Rightarrow> int \<Rightarrow> coordinator_stage \<Rightarrow> int \<Rightarrow> db \<Rightarrow> db \<times> bool" where
  "claimTask i coordinator lockDurationMs stage now d =
     (let (d', n) = update_tasks
        (\<lambda>r. taskId r = i \<and> hierarchyRole r \<noteq> Container \<and> lock_free now r)
        (\<lambda>r. r\<lparr>lockedBy := Some coordinator, lockedUntil := Some (now + lockDurationMs),
               coordinatorId := Some coordinator, lockStage := Some stage,
               lastHeartbeatAt := Some now, updatedAt := now\<rparr>) d
      in (d', 0 < n))"

definition renewTaskClaim :: "string \<Rightarrow> string \<Rightarrow> int \<Rightarrow> int \<Rightarrow> db \<Rightarrow> db" where
  "renewTaskClaim i coordinator lockDurationMs now d =
     fst (update_tasks (\<lambda>r. taskId r = i \<and> lockedBy r = Some coordinator)
       (\<lambda>r. r\<lparr>lockedUntil := Some (now + lockDurationMs), lastHeartbeatAt := Some now,
              updatedAt := now\<rparr>) d)"

definition unlock :: "int \<Rightarrow> task_row \<Rightarrow> task_row" where
  "unlock now r = r\<lparr>lockedBy := None, lockedUntil := None, coordinatorId := None,
     lockStage := None, updatedAt := now\<rparr>"

definition releaseTaskClaim :: "string \<Rightarrow> string \<Rightarrow> int \<Rightarrow> db \<Rightarrow> db \<times> bool" where
  "releaseTaskClaim i coordinator now d =
     (let (d', n) = update_tasks (\<lambda>r. taskId r = i \<and> lockedBy r = Some coordinator) (unlock now) d
      in (d', 0 < n))"

definition releaseTaskClaimsForCoordinator :: "string \<Rightarrow> int \<Rightarrow> db \<Rightarrow> db \<times> nat" where
  "releaseTaskClaimsForCoordinator coordinator now d =
     update_tasks (\<lambda>r. lockedBy r = Some coordinator) (unlock now) d"

definition STALE_MS :: int where "STALE_MS = 5 * 60 * 1000"

definition IN_PROGRESS :: "task_status set" where
  "IN_PROGRESS = {Requirements_Analysis, Research, Design, Planning, Implementing, Review, Qa}"

definition stale_claim :: "int \<Rightarrow> task_row \<Rightarrow> bool" where
  "stale_claim now r \<longleftrightarrow>
     lockedBy r \<noteq> None \<and>
     ((case lockedUntil r of Some u \<Rightarrow> u \<le> now | None \<Rightarrow> False) \<or>
      (status r \<in> IN_PROGRESS \<and> updatedAt r \<le> now - STALE_MS \<and>
       (case lastHeartbeatAt r of None \<Rightarrow> True | Some h \<Rightarrow> h \<le> now - STALE_MS)))"

definition releaseStaleTaskClaims :: "int \<Rightarrow> db \<Rightarrow> db \<times> nat" where
  "releaseStaleTaskClaims now d = update_tasks (stale_claim now) (unlock now) d"

definition hasActiveLockedTaskForProject :: "string \<Rightarrow> int \<Rightarrow> db \<Rightarrow> bool" where
  "hasActiveLockedTaskForProject pid now d =
     (0 < length (filter (\<lambda>r. projectId r = pid \<and> lockedBy r \<noteq> None \<and>
        (case lockedUntil r of Some u \<Rightarrow> now < u | None \<Rightarrow> False)) (tasks d)))"

section \<open>Conditional writes\<close>

record gate_input =
  g_taskId :: string
  g_expectedProjectId :: "string option"
  g_expectedStatus :: task_status
  g_expectedAutoMode :: "bool option"
  g_blockedFromStatus :: task_status
  g_blockedReason :: string
  g_retryAfter :: "int option"
  g_retryCount :: int
  g_snapshot :: "limit_snapshot option"

text \<open>The snapshot argument is the already normalised one; \<open>now\<close> is \<open>persistedAt\<close>.\<close>

definition blockTaskForRuntimeGateIfEligible :: "gate_input \<Rightarrow> int \<Rightarrow> db \<Rightarrow> db \<times> bool" where
  "blockTaskForRuntimeGateIfEligible g now d =
     (let (d', n) = update_tasks
        (\<lambda>r. taskId r = g_taskId g \<and> status r = g_expectedStatus g \<and>
             hierarchyRole r \<noteq> Container \<and> \<not> paused r \<and> lock_free now r \<and>
             (case g_expectedProjectId g of None \<Rightarrow> True | Some p \<Rightarrow> projectId r = p) \<and>
             (case g_expectedAutoMode g of None \<Rightarrow> True | Some a \<Rightarrow> autoMode r = a))
        (\<lambda>r. r\<lparr>status := Blocked_External, blockedFromStatus := Some (g_blockedFromStatus g),
               blockedReason := Some (g_blockedReason g), retryAfter := g_retryAfter g,
               retryCount := g_retryCount g, runtimeLimitSnapshot := g_snapshot g,
               runtimeLimitUpdatedAt := Some now, updatedAt := now\<rparr>) d
      in (if 0 < n then refreshAncestorRollups (Some (g_taskId g)) now d' else d', 0 < n))"

definition advanceable :: "string \<Rightarrow> task_row \<Rightarrow> bool" where
  "advanceable i r \<longleftrightarrow>
     taskId r = i \<and> status r = Backlog \<and> hierarchyRole r \<noteq> Container \<and> \<not> paused r"

definition advance_row :: "task_status \<Rightarrow> int \<Rightarrow> task_row \<Rightarrow> task_row" where
  "advance_row target now r = r\<lparr>status := target, scheduledAt := None, blockedReason := None,
     blockedFromStatus := None, retryAfter := None, retryCount := 0, reworkRequested := False,
     reviewIterationCount := 0, manualReviewRequired := False, autoReviewState := None,
     lastHeartbeatAt := Some now, updatedAt := now\<rparr>"

definition claimBacklogTaskForAdvance :: "string \<Rightarrow> task_status \<Rightarrow> int \<Rightarrow> db \<Rightarrow> db \<times> bool" where
  "claimBacklogTaskForAdvance i target now d =
     (case findTaskById i d of
        None \<Rightarrow> (d, False)
      | Some t \<Rightarrow>
          if \<not> auditRoadmapTaskDependenciesReleaseReady d (taskId t) then (d, False)
          else
            let (d', n) = update_tasks (advanceable i) (advance_row target now) d
            in (if 0 < n then refreshAncestorRollups (Some i) now d' else d', 0 < n))"

section \<open>Pipeline counts and due lists\<close>

text \<open>The rows of \<open>tasks LEFT JOIN roadmap_batch_artifacts\<close>.\<close>

definition join_artifacts :: "db \<Rightarrow> task_row list \<Rightarrow> (task_row \<times> artifact_row option) list" where
  "join_artifacts d ts = concat (map (\<lambda>t.
     case filter (\<lambda>a. artifactTaskId a = taskId t) (artifacts d) of
       [] \<Rightarrow> [(t, None)]
     | as \<Rightarrow> map (\<lambda>a. (t, Some a)) as) ts)"

definition terminalManualAuditArtifactBlock :: "db \<Rightarrow> task_row \<times> artifact_row option \<Rightarrow> bool" where
  "terminalManualAuditArtifactBlock d row =
     (let t = fst row; st = map_option artifactState (snd row);
          latest = (case snd row of None \<Rightarrow> None
                    | Some a \<Rightarrow> map_option attemptReworkStatus (last_attempt (artifactId a) d))
      in status t = Blocked_External \<and> retryAfter t = None \<and> \<not> reworkRequested t \<and>
         map_option artifactRole (snd row) \<in> {Some ''report'', Some ''synthesis''} \<and>
         isTerminalAuditArtifactState st \<and>
         (isTerminalAuditReworkStatus latest \<or> manualReviewRequired t \<or>
          st \<in> {Some Source_Inconclusive, Some Terminal_Inconclusive, Some Manual_Exception_State}))"

definition countActivePipelineTasksForProject :: "bool \<Rightarrow> string \<Rightarrow> db \<Rightarrow> nat" where
  "countActivePipelineTasksForProject countNeedsInput pid d =
     (let activeStatuses = {Requirements_Analysis, Research, Design, Planning, Plan_Ready,
            Implementing, Review, Qa, Blocked_External} \<union>
            (if countNeedsInput then {Needs_Input} else {});
          rows = join_artifacts d (filter (\<lambda>r. projectId r = pid \<and> hierarchyRole r \<noteq> Container \<and>
            status r \<in> activeStatuses) (tasks d))
      in length (filter (\<lambda>row. \<not> terminalManualAuditArtifactBlock d row) rows))"

definition hasActiveBranchBoundTasksForProject :: "string \<Rightarrow> db \<Rightarrow> bool" where
  "hasActiveBranchBoundTasksForProject pid d =
     (0 < length (filter (\<lambda>r. projectId r = pid \<and> branchName r \<noteq> None \<and> worktreePath r = None \<and>
        status r \<in> {Backlog, Requirements_Analysis, Needs_Input, Research, Design, Planning,
          Plan_Ready, Implementing, Review, Qa, Blocked_External}) (tasks d)))"

definition listDueBlockedExternalTasks :: "int \<Rightarrow> db \<Rightarrow> task_row list" where
  "listDueBlockedExternalTasks now d = filter (\<lambda>r. status r = Blocked_External \<and>
     hierarchyRole r \<noteq> Container \<and> \<not> paused r \<and>
     (case retryAfter r of Some t \<Rightarrow> t \<le> now | None \<Rightarrow> False) \<and>
     blockedFromStatus r \<noteq> None) (tasks d)"

definition listDueScheduledTasks :: "int \<Rightarrow> db \<Rightarrow> task_row list" where
  "listDueScheduledTasks now d =
     filter (\<lambda>r. auditRoadmapTaskDependenciesReleaseReady d (taskId r))
       (sort_key (\<lambda>r. (the (scheduledAt r), position r, createdAt r, taskId r))
         (filter (\<lambda>r. status r = Backlog \<and> hierarchyRole r \<noteq> Container \<and> \<not> paused r \<and>
            (case scheduledAt r of Some t \<Rightarrow> t \<le> now | None \<Rightarrow> False)) (tasks d)))"

definition nextBacklogTaskByPosition :: "string \<Rightarrow> int \<Rightarrow> db \<Rightarrow> task_row option" where
  "nextBacklogTaskByPosition pid now d =
     List.find (\<lambda>r. auditRoadmapTaskDependenciesReleaseReady d (taskId r))
       (sort_key (\<lambda>r. (position r, createdAt r, taskId r))
         (filter (\<lambda>r. projectId r = pid \<and> status r = Backlog \<and> hierarchyRole r \<noteq> Container \<and>
            \<not> paused r \<and> (case scheduledAt r of Some t \<Rightarrow> t \<le> now | None \<Rightarrow> True)) (tasks d)))"

definition listStaleInProgressTasks :: "int \<Rightarrow> db \<Rightarrow> task_row list" where
  "listStaleInProgressTasks now d = filter (\<lambda>r. status r \<in> IN_PROGRESS \<and>
     hierarchyRole r \<noteq> Container \<and> \<not> paused r \<and> lock_free now r) (tasks d)"

section \<open>Small writes\<close>

definition clearScheduledAt :: "string \<Rightarrow> int \<Rightarrow> db \<Rightarrow> db" where
  "clearScheduledAt i now d =
     fst (update_tasks (\<lambda>r. taskId r = i) (\<lambda>r. r\<lparr>scheduledAt := None, updatedAt := now\<rparr>) d)"

definition updateScheduledAt :: "string \<Rightarrow> int option \<Rightarrow> int \<Rightarrow> db \<Rightarrow> db" where
  "updateScheduledAt i t now d =
     fst (update_tasks (\<lambda>r. taskId r = i) (\<lambda>r. r\<lparr>scheduledAt := t, updatedAt := now\<rparr>) d)"

definition getAutoQueueMode :: "string \<Rightarrow> db \<Rightarrow> bool" where
  "getAutoQueueMode pid d =
     (case List.find (\<lambda>p. prId p = pid) (projects d) of None \<Rightarrow> False | Some p \<Rightarrow> autoQueueMode p)"

definition listAutoQueueProjects :: "db \<Rightarrow> project_row list" where
  "listAutoQueueProjects d = filter autoQueueMode (projects d)"

definition setAutoQueueMode :: "string \<Rightarrow> bool \<Rightarrow> int \<Rightarrow> db \<Rightarrow> db" where
  "setAutoQueueMode pid enabled now d = d\<lparr>projects := map (\<lambda>p. if prId p = pid
     then p\<lparr>autoQueueMode := enabled, prUpdatedAt := now\<rparr> else p) (projects d)\<rparr>"

definition updateTaskHeartbeat :: "string \<Rightarrow> int \<Rightarrow> db \<Rightarrow> db" where
  "updateTaskHeartbeat i now d =
     setTaskFields i (\<lambda>r. r\<lparr>lastHeartbeatAt := Some now, updatedAt := now\<rparr>) now d"

text \<open>The \<open>extra\<close> fields are written over the four fixed ones, as the spread does.\<close>

definition updateTaskStatus ::
    "string \<Rightarrow> task_status \<Rightarrow> (task_row \<Rightarrow> task_row) \<Rightarrow> int \<Rightarrow> db \<Rightarrow> db" where
  "updateTaskStatus i st extra now d =
     setTaskFields i (\<lambda>r. extra (r\<lparr>status := st, sessionId := None,
       lastHeartbeatAt := Some now, updatedAt := now\<rparr>)) now d"

definition saveTaskSessionId :: "string \<Rightarrow> string \<Rightarrow> int \<Rightarrow> db \<Rightarrow> db" where
  "saveTaskSessionId i s now d = setTaskFields i (\<lambda>r. r\<lparr>sessionId := Some s\<rparr>) now d"

definition getTaskSessionId :: "string \<Rightarrow> db \<Rightarrow> string option" where
  "getTaskSessionId i d = Option.bind (findTaskById i d) sessionId"

definition clearTaskRuntimeLimitSnapshot :: "string \<Rightarrow> int \<Rightarrow> db \<Rightarrow> db" where
  "clearTaskRuntimeLimitSnapshot i now d =
     fst (update_tasks (\<lambda>r. taskId r = i)
       (\<lambda>r. r\<lparr>runtimeLimitSnapshot := None, runtimeLimitUpdatedAt := Some now\<rparr>) d)"

section \<open>Task claims as a lock table\<close>

datatype claim_op =
    Claim string string int coordinator_stage
  | Renew string string int
  | Release_Claim string string
  | Release_All string
  | Sweep_Claims
  | Gate_Block gate_input

fun claim_step :: "claim_op \<Rightarrow> int \<Rightarrow> db \<Rightarrow> db \<times> bool" where
  "claim_step (Claim i c dur st) now d = claimTask i c dur st now d"
| "claim_step (Renew i c dur) now d = (renewTaskClaim i c dur now d, True)"
| "claim_step (Release_Claim i c) now d = releaseTaskClaim i c now d"
| "claim_step (Release_All c) now d =
     (let (d', n) = releaseTaskClaimsForCoordinator c now d in (d', 0 < n))"
| "claim_step Sweep_Claims now d = (let (d', n) = releaseStaleTaskClaims now d in (d', 0 < n))"
| "claim_step (Gate_Block g) now d = blockTaskForRuntimeGateIfEligible g now d"

fun claim_actor :: "claim_op \<Rightarrow> string option" where
  "claim_actor (Claim i c dur st) = Some c"
| "claim_actor (Renew i c dur) = Some c"
| "claim_actor (Release_Claim i c) = Some c"
| "claim_actor (Release_All c) = Some c"
| "claim_actor _ = None"

fun claim_takes :: "claim_op \<Rightarrow> string option" where
  "claim_takes (Claim i c dur st) = Some i"
| "claim_takes _ = None"

text \<open>A claim is protected for its duration, but no longer than a heartbeat stays fresh.\<close>

fun claim_span :: "claim_op \<Rightarrow> int" where
  "claim_span (Claim i c dur st) = min dur STALE_MS"
| "claim_span _ = 0"

definition lock_view :: "task_row \<Rightarrow> string \<times> string option \<times> int option \<times> int option" where
  "lock_view r = (taskId r, lockedBy r, lockedUntil r, lastHeartbeatAt r)"

definition claim_owns :: "db \<Rightarrow> string \<Rightarrow> string \<Rightarrow> int \<Rightarrow> bool" where
  "claim_owns d i c until \<longleftrightarrow>
     (\<exists>r \<in> set (tasks d). \<exists>u h. lock_view r = (i, Some c, Some u, Some h) \<and>
        until \<le> u \<and> until \<le> h + STALE_MS)"

definition claim_available :: "db \<Rightarrow> string \<Rightarrow> int \<Rightarrow> bool" where
  "claim_available d i now \<longleftrightarrow>
     (\<exists>r \<in> set (tasks d). taskId r = i \<and> hierarchyRole r \<noteq> Container \<and> lock_free now r)"

lemma lock_view_rollup_patch [simp]: "lock_view (rollup_patch now d p r) = lock_view r"
  by (simp add: lock_view_def)

lemma claim_owns_update:
  assumes "claim_owns d i c until"
    "\<And>r u h. r \<in> set (tasks d) \<Longrightarrow> lock_view r = (i, Some c, Some u, Some h) \<Longrightarrow> until \<le> u \<Longrightarrow>
       until \<le> h + STALE_MS \<Longrightarrow> p r \<Longrightarrow> lock_view (f r) = lock_view r"
  shows "claim_owns (fst (update_tasks p f d)) i c until"
proof -
  obtain r u h where r: "r \<in> set (tasks d)" "lock_view r = (i, Some c, Some u, Some h)"
    "until \<le> u" "until \<le> h + STALE_MS" using assms(1) by (auto simp: claim_owns_def)
  let ?r = "if p r then f r else r"
  have "lock_view ?r = (i, Some c, Some u, Some h)" using assms(2) [OF r] r(2) by simp
  moreover have "?r \<in> set (tasks (fst (update_tasks p f d)))" using r(1) by force
  ultimately show ?thesis using r(3,4) unfolding claim_owns_def by blast
qed

lemma claim_owns_view:
  "claim_owns d i c until \<longleftrightarrow> (\<exists>u h. (i, Some c, Some u, Some h) \<in> set (map lock_view (tasks d)) \<and>
     until \<le> u \<and> until \<le> h + STALE_MS)"
proof -
  have "(i, Some c, Some u, Some h) \<in> set (map lock_view (tasks d)) \<longleftrightarrow>
      (\<exists>r \<in> set (tasks d). lock_view r = (i, Some c, Some u, Some h))" for u h
    by (simp add: image_iff eq_commute)
  then show ?thesis unfolding claim_owns_def by auto
qed

lemma claim_owns_cong:
  "map lock_view (tasks d) = map lock_view (tasks e) \<Longrightarrow> claim_owns d i c until = claim_owns e i c until"
  by (simp only: claim_owns_view)

lemma ids_distinct_update:
  "(\<And>r. taskId (f r) = taskId r) \<Longrightarrow> ids_distinct (fst (update_tasks p f d)) = ids_distinct d"
  unfolding ids_distinct_def by (subst task_ids_update) simp_all

lemma claim_step_ids: "ids_distinct d \<Longrightarrow> ids_distinct (fst (claim_step op now d))"
  by (cases op)
    (simp_all add: claimTask_def renewTaskClaim_def releaseTaskClaim_def
      releaseTaskClaimsForCoordinator_def releaseStaleTaskClaims_def unlock_def
      blockTaskForRuntimeGateIfEligible_def Let_def split_beta ids_distinct_update)

lemma claimTask_success: "snd (claimTask i c dur st now d) = claim_available d i now"
  by (auto simp: claimTask_def claim_available_def Let_def split_beta filter_empty_conv)

lemma claimTask_owns:
  assumes "claim_available d i now"
  shows "claim_owns (fst (claimTask i c dur st now d)) i c (now + min dur STALE_MS)"
proof -
  obtain r where r: "r \<in> set (tasks d)" "taskId r = i" "hierarchyRole r \<noteq> Container" "lock_free now r"
    using assms by (auto simp: claim_available_def)
  let ?f = "\<lambda>r. r\<lparr>lockedBy := Some c, lockedUntil := Some (now + dur),
    coordinatorId := Some c, lockStage := Some st, lastHeartbeatAt := Some now, updatedAt := now\<rparr>"
  have "?f r \<in> set (tasks (fst (claimTask i c dur st now d)))"
    using r by (force simp: claimTask_def Let_def split_beta)
  moreover have "lock_view (?f r) = (i, Some c, Some (now + dur), Some now)"
    using r by (simp add: lock_view_def)
  ultimately show ?thesis
    unfolding claim_owns_def by (intro bexI [of _ "?f r"] exI conjI) auto
qed

lemma claim_owns_blocks:
  assumes "ids_distinct d" "claim_owns d i c until" "now < until"
  shows "\<not> claim_available d i now"
proof
  assume "claim_available d i now"
  then obtain r where r: "r \<in> set (tasks d)" "taskId r = i" "lock_free now r"
    by (auto simp: claim_available_def)
  obtain q u where q: "q \<in> set (tasks d)" "taskId q = i" "lockedBy q = Some c"
    "lockedUntil q = Some u" "until \<le> u" using assms(2) by (auto simp: claim_owns_def lock_view_def)
  have "r = q" using findTaskById_iff [OF assms(1)] r q by (metis option.inject)
  then show False using r q assms(3) by (auto simp: lock_free_def)
qed

lemma claim_owns_keep:
  assumes "claim_owns d i c until" "now < until" "claim_actor op \<noteq> Some c"
  shows "claim_owns (fst (claim_step op now d)) i c until"
proof (cases op)
  case (Claim j c' dur st)
  have "claim_owns (fst (update_tasks
      (\<lambda>r. taskId r = j \<and> hierarchyRole r \<noteq> Container \<and> lock_free now r) f d)) i c until" for f
    by (rule claim_owns_update [OF assms(1)]) (use assms(2) in \<open>auto simp: lock_view_def lock_free_def\<close>)
  then show ?thesis by (simp add: Claim claimTask_def Let_def split_beta)
next
  case (Renew j c' dur)
  then show ?thesis
    using assms by (auto simp: renewTaskClaim_def lock_view_def intro!: claim_owns_update)
next
  case (Release_Claim j c')
  then show ?thesis
    using assms
    by (auto simp: releaseTaskClaim_def lock_view_def Let_def split_beta intro!: claim_owns_update)
next
  case (Release_All c')
  then show ?thesis
    using assms
    by (auto simp: releaseTaskClaimsForCoordinator_def lock_view_def Let_def split_beta
        intro!: claim_owns_update)
next
  case Sweep_Claims
  then show ?thesis
    using assms(1,2)
    by (auto simp: releaseStaleTaskClaims_def lock_view_def stale_claim_def Let_def split_beta
        intro!: claim_owns_update)
next
  case (Gate_Block g)
  let ?f = "\<lambda>r. r\<lparr>status := Blocked_External, blockedFromStatus := Some (g_blockedFromStatus g),
               blockedReason := Some (g_blockedReason g), retryAfter := g_retryAfter g,
               retryCount := g_retryCount g, runtimeLimitSnapshot := g_snapshot g,
               runtimeLimitUpdatedAt := Some now, updatedAt := now\<rparr>"
  have "claim_owns (fst (update_tasks p ?f d)) i c until" for p
    by (rule claim_owns_update [OF assms(1)]) (simp add: lock_view_def)
  moreover have "claim_owns (refreshAncestorRollups j now e) i c until = claim_owns e i c until" for j e
    by (rule claim_owns_cong) (rule refreshAncestorRollups_map, simp)
  ultimately show ?thesis
    by (simp add: Gate_Block blockTaskForRuntimeGateIfEligible_def Let_def split_beta)
qed

interpretation claims: lock_table ids_distinct claim_step claim_actor claim_takes claim_span
  claim_owns claim_available
proof
  fix s op now k h until
  show "ids_distinct s \<Longrightarrow> ids_distinct (fst (claim_step op now s))" by (rule claim_step_ids)
  show "claim_takes op = Some k \<Longrightarrow> snd (claim_step op now s) = claim_available s k now"
    by (cases op) (simp_all add: claimTask_success)
  show "claim_takes op = Some k \<Longrightarrow> claim_actor op = Some h \<Longrightarrow> claim_available s k now \<Longrightarrow>
      claim_owns (fst (claim_step op now s)) k h (now + claim_span op)"
    by (cases op) (simp_all add: claimTask_owns)
  show "ids_distinct s \<Longrightarrow> claim_owns s k h until \<Longrightarrow> now < until \<Longrightarrow> \<not> claim_available s k now"
    by (rule claim_owns_blocks)
  show "claim_owns s k h until \<Longrightarrow> now < until \<Longrightarrow> claim_actor op \<noteq> Some h \<Longrightarrow>
      claim_owns (fst (claim_step op now s)) k h until" by (rule claim_owns_keep)
qed

section \<open>Lemmas on candidates and the backlog\<close>

lemma candidate_row:
  "r \<in> set (findCoordinatorTaskCandidates stage limit now d) \<Longrightarrow>
   r \<in> set (tasks d) \<and> stageFilter stage r \<and> hierarchyRole r \<noteq> Container \<and> \<not> paused r \<and> lock_free now r"
  by (auto simp: findCoordinatorTaskCandidates_def dest!: in_set_takeD)

lemma sorted_find_least:
  assumes "List.find P (sort_key k xs) = Some x"
  shows "x \<in> set xs \<and> P x \<and> (\<forall>y \<in> set xs. P y \<longrightarrow> k x \<le> k y)"
proof -
  let ?s = "sort_key k xs"
  obtain n where n: "n < length ?s" "P (?s ! n)" "x = ?s ! n" "\<forall>m < n. \<not> P (?s ! m)"
    using assms by (auto simp: find_Some_iff)
  have "k x \<le> k y" if y: "y \<in> set xs" "P y" for y
  proof -
    obtain m where m: "m < length ?s" "?s ! m = y" using y(1)
      by (metis in_set_conv_nth set_sort)
    have "n \<le> m" using n(4) m(2) y(2) by (metis not_le)
    have "sorted (map k ?s)" by (rule sorted_sort_key)
    then have "map k ?s ! n \<le> map k ?s ! m"
      by (rule sorted_nth_mono) (use \<open>n \<le> m\<close> m(1) in simp_all)
    then show ?thesis using n(1,3) m by (simp only: nth_map length_sort)
  qed
  moreover have "x \<in> set xs" using n(1,3) by (metis nth_mem set_sort)
  ultimately show ?thesis using n by blast
qed

lemma advance_success:
  "snd (claimBacklogTaskForAdvance i target now d) \<longleftrightarrow>
   auditRoadmapTaskDependenciesReleaseReady d i \<and> (\<exists>r \<in> set (tasks d). advanceable i r)"
proof (cases "findTaskById i d")
  case None
  then have "i \<notin> task_ids d" by (simp add: findTaskById_None)
  then have "\<not> (\<exists>r \<in> set (tasks d). advanceable i r)" by (auto simp: advanceable_def)
  then show ?thesis using None by (simp add: claimBacklogTaskForAdvance_def)
next
  case (Some t)
  then have "taskId t = i" using findTaskById_Some by blast
  then show ?thesis
    using Some by (simp add: claimBacklogTaskForAdvance_def Let_def split_beta filter_empty_conv)
qed

lemma advance_refused:
  assumes "\<And>r. r \<in> set (tasks d) \<Longrightarrow> \<not> advanceable i r"
  shows "claimBacklogTaskForAdvance i target now d = (d, False)"
  using update_tasks_none [OF assms]
  by (simp add: claimBacklogTaskForAdvance_def Let_def split: option.split)

lemma advance_result:
  assumes "snd (claimBacklogTaskForAdvance i target now d)"
  shows "fst (claimBacklogTaskForAdvance i target now d) =
    refreshAncestorRollups (Some i) now (fst (update_tasks (advanceable i) (advance_row target now) d))"
  using assms
  by (auto simp: claimBacklogTaskForAdvance_def Let_def split_beta split: option.splits if_splits)

section \<open>Properties\<close>

text \<open>
  C5: a claimed task is exclusive. From the instant a claim succeeds until its duration (at most the
  heartbeat limit of five minutes) has passed, no sequence of claims, renewals and releases by other
  coordinators, stale-claim sweeps and runtime-gate blocks takes the task away or lets another claim
  of it succeed.
\<close>

theorem claimed_task_is_exclusive:
  assumes "ids_distinct d" "snd (claimTask i c dur st now d)"
    "\<And>op t. (op, t) \<in> set ops \<Longrightarrow> t < now + min dur STALE_MS \<and> claim_actor op \<noteq> Some c"
  shows "claim_owns (fst (claims.run ops (fst (claimTask i c dur st now d)))) i c
      (now + min dur STALE_MS) \<and>
    (\<forall>n < length ops. claim_takes (fst (ops ! n)) = Some i \<longrightarrow>
      \<not> snd (claims.run ops (fst (claimTask i c dur st now d))) ! n)"
  using claims.exclusive_after_take [OF assms(1), of "Claim i c dur st" i c now ops] assms(2,3) by simp

definition demo_claims :: db where
  "demo_claims = empty_db\<lparr>tasks := [(blank_task ''t'')\<lparr>status := Planning\<rparr>]\<rparr>"

definition demo_ops :: "(claim_op \<times> int) list" where
  "demo_ops = [(Claim ''t'' ''c2'' 60000 Planner, 1001), (Sweep_Claims, 2000),
     (Release_All ''c2'', 3000), (Claim ''t'' ''c3'' 9 Reviewer, 60999)]"

theorem claimed_task_is_exclusive_witness:
  "claim_owns (fst (claims.run demo_ops
      (fst (claimTask ''t'' ''c1'' 60000 Planner 1000 demo_claims)))) ''t'' ''c1'' (1000 + min 60000 STALE_MS) \<and>
   \<not> snd (claims.run demo_ops (fst (claimTask ''t'' ''c1'' 60000 Planner 1000 demo_claims))) ! 3"
proof -
  have 1: "ids_distinct demo_claims" by code_simp
  have 2: "snd (claimTask ''t'' ''c1'' 60000 Planner 1000 demo_claims)" by code_simp
  have 3: "t < 1000 + min 60000 STALE_MS \<and> claim_actor op \<noteq> Some ''c1''"
    if "(op, t) \<in> set demo_ops" for op t
    using that by (auto simp: demo_ops_def STALE_MS_def)
  have 4: "3 < length demo_ops" "claim_takes (fst (demo_ops ! 3)) = Some ''t''" by code_simp+
  show ?thesis using claimed_task_is_exclusive [OF 1 2 3] 4 by blast
qed

text \<open>
  The candidate list and the claim agree. Every task offered for a stage can be claimed at the
  same instant, and once claimed for a positive duration it is offered for no stage until the claim
  has expired.
\<close>

theorem candidates_are_claimable:
  assumes "ids_distinct d" "r \<in> set (findCoordinatorTaskCandidates stage limit now d)"
  shows "snd (claimTask (taskId r) c dur st now d) \<and>
    (later < now + dur \<longrightarrow> taskId r \<notin> taskId `
      set (findCoordinatorTaskCandidates stage' limit' later
        (fst (claimTask (taskId r) c dur st now d))))"
proof -
  note r = candidate_row [OF assms(2)]
  have a: "claim_available d (taskId r) now" using r by (auto simp: claim_available_def)
  have "taskId x \<noteq> taskId r" if late: "later < now + dur"
    and x: "x \<in> set (findCoordinatorTaskCandidates stage' limit' later
        (fst (claimTask (taskId r) c dur st now d)))" for x
  proof
    assume id: "taskId x = taskId r"
    note xr = candidate_row [OF x]
    then obtain y where y: "y \<in> set (tasks d)" "x = (if taskId y = taskId r \<and>
        hierarchyRole y \<noteq> Container \<and> lock_free now y then
        y\<lparr>lockedBy := Some c, lockedUntil := Some (now + dur), coordinatorId := Some c,
          lockStage := Some st, lastHeartbeatAt := Some now, updatedAt := now\<rparr> else y)"
      by (auto simp: claimTask_def Let_def split_beta)
    then have "taskId y = taskId r" using id by (simp split: if_splits)
    then have "y = r" using findTaskById_iff [OF assms(1)] y(1) r by (metis option.inject)
    then have "lockedBy x = Some c" "lockedUntil x = Some (now + dur)" using y(2) r by auto
    then show False using xr late by (auto simp: lock_free_def)
  qed
  then show ?thesis using claimTask_success a by fastforce
qed

theorem candidates_are_claimable_witness:
  "snd (claimTask ''t'' ''c1'' 60000 Planner 1000 demo_claims) \<and>
   ''t'' \<notin> taskId ` set (findCoordinatorTaskCandidates Planner 5 2000
     (fst (claimTask ''t'' ''c1'' 60000 Planner 1000 demo_claims)))"
proof -
  let ?r = "(blank_task ''t'')\<lparr>status := Planning\<rparr>"
  have "findCoordinatorTaskCandidates Planner 1 1000 demo_claims = [?r]" by code_simp
  then have "?r \<in> set (findCoordinatorTaskCandidates Planner 1 1000 demo_claims)" by simp
  moreover have "ids_distinct demo_claims" by code_simp
  ultimately show ?thesis
    using candidates_are_claimable [of demo_claims ?r Planner 1 1000 "''c1''" 60000 Planner 2000 Planner 5]
    by (simp add: blank_task_def)
qed

text \<open>
  C16: a backlog task is advanced at most once. After an advance to any status but backlog succeeds,
  a second advance of the same task from the resulting database, at any time and to any status, is
  refused and changes nothing.
\<close>

theorem backlog_advance_is_exactly_once:
  assumes "ids_distinct d" "snd (claimBacklogTaskForAdvance i target now d)" "target \<noteq> Backlog"
  shows "claimBacklogTaskForAdvance i target' later
      (fst (claimBacklogTaskForAdvance i target now d)) =
    (fst (claimBacklogTaskForAdvance i target now d), False)"
proof -
  let ?e = "fst (update_tasks (advanceable i) (advance_row target now) d)"
  let ?d' = "fst (claimBacklogTaskForAdvance i target now d)"
  have d': "?d' = refreshAncestorRollups (Some i) now ?e" by (rule advance_result [OF assms(2)])
  have "ids_distinct ?e" using assms(1) by (simp add: ids_distinct_update advance_row_def)
  then have ex: "executable_rows ?d' = executable_rows ?e"
    unfolding d' by (rule executable_rows_refreshAncestorRollups)
  have "\<not> advanceable i x" if x: "x \<in> set (tasks ?d')" for x
  proof
    assume a: "advanceable i x"
    then have "x \<in> set (executable_rows ?d')" using x by (simp add: executable_rows_def advanceable_def)
    then have "x \<in> set (tasks ?e)" unfolding ex by (simp add: executable_rows_def)
    then obtain y where "x = (if advanceable i y then advance_row target now y else y)"
      by (simp only: update_tasks_simps set_map) blast
    then show False using a assms(3) by (auto simp: advanceable_def advance_row_def split: if_splits)
  qed
  then show ?thesis by (rule advance_refused)
qed

theorem backlog_advance_is_exactly_once_witness:
  "let d = empty_db\<lparr>tasks := [blank_task ''t'']\<rparr> in
   snd (claimBacklogTaskForAdvance ''t'' Planning 5 d) \<and>
   claimBacklogTaskForAdvance ''t'' Planning 6 (fst (claimBacklogTaskForAdvance ''t'' Planning 5 d)) =
     (fst (claimBacklogTaskForAdvance ''t'' Planning 5 d), False)"
proof -
  let ?d = "empty_db\<lparr>tasks := [blank_task ''t'']\<rparr>"
  have 1: "ids_distinct ?d" by code_simp
  have 2: "snd (claimBacklogTaskForAdvance ''t'' Planning 5 ?d)" by code_simp
  show ?thesis
    using backlog_advance_is_exactly_once [OF 1 2, of Planning 6] 2 by (simp only: Let_def) simp
qed

text \<open>
  The auto-queue takes the first task that may start. The task it returns is an unpaused
  executable backlog task of the project that is due and whose audit dependencies are released, and
  no other such task of the project comes before it by position, creation time and id.
\<close>

theorem next_backlog_task_is_first_ready:
  assumes "nextBacklogTaskByPosition pid now d = Some r"
  shows "r \<in> set (tasks d) \<and> projectId r = pid \<and> advanceable (taskId r) r \<and>
    auditRoadmapTaskDependenciesReleaseReady d (taskId r) \<and>
    (\<forall>t. scheduledAt r = Some t \<longrightarrow> t \<le> now) \<and>
    (\<forall>q \<in> set (tasks d). projectId q = pid \<and> advanceable (taskId q) q \<and>
       (\<forall>t. scheduledAt q = Some t \<longrightarrow> t \<le> now) \<and>
       auditRoadmapTaskDependenciesReleaseReady d (taskId q) \<longrightarrow>
       (position r, createdAt r, taskId r) \<le> (position q, createdAt q, taskId q))"
  using sorted_find_least [OF assms [unfolded nextBacklogTaskByPosition_def]]
  by (auto simp: advanceable_def split: option.splits)

theorem next_backlog_task_is_first_ready_witness:
  "\<exists>d r. length (tasks d) = 2 \<and> nextBacklogTaskByPosition ''p'' 0 d = Some r \<and> taskId r = ''b'' \<and>
     auditRoadmapTaskDependenciesReleaseReady d (taskId r)"
proof -
  let ?b = "(blank_task ''b'')\<lparr>position := 1\<rparr>"
  let ?d = "empty_db\<lparr>tasks := [blank_task ''a'', ?b]\<rparr>"
  have n: "nextBacklogTaskByPosition ''p'' 0 ?d = Some ?b" by code_simp
  have "length (tasks ?d) = 2" "taskId ?b = ''b''" by (simp_all add: blank_task_def)
  then show ?thesis using next_backlog_task_is_first_ready [OF n] n by blast
qed

end
