(* ===== verification/Endpoint_Leases.thy ===== *)
theory Endpoint_Leases
  imports Aif_Types Lock_Table
begin

text \<open>
  The leases on runtime endpoints, \<open>createDbRuntimeEndpointLeaseStore\<close> and
  \<open>releaseStaleRuntimeEndpointLeases\<close> of \<open>packages/data/src/index.ts\<close>: one row per endpoint
  with a holder, a token, an expiry and a failure cool-down. An \<open>INSERT ... ON CONFLICT DO
  UPDATE ... WHERE\<close> is one atomic step. Lease tokens come from \<open>crypto.randomUUID()\<close> and are
  arguments. The endpoint key is the primary key, so keys are distinct.
\<close>

section \<open>The store\<close>

definition retryAfterMs :: "int option \<Rightarrow> int \<Rightarrow> int option" where
  "retryAfterMs target nowMs = map_option (\<lambda>t. max 0 (t - nowMs)) target"

definition findRuntimeEndpointLease :: "string \<Rightarrow> db \<Rightarrow> lease_row option" where
  "findRuntimeEndpointLease k d = List.find (\<lambda>l. endpointKey l = k) (leases d)"

definition update_leases :: "(lease_row \<Rightarrow> bool) \<Rightarrow> (lease_row \<Rightarrow> lease_row) \<Rightarrow> db \<Rightarrow> db \<times> nat" where
  "update_leases p f d =
     (d\<lparr>leases := map (\<lambda>l. if p l then f l else l) (leases d)\<rparr>, length (filter p (leases d)))"

definition clear_lease :: "int \<Rightarrow> lease_row \<Rightarrow> lease_row" where
  "clear_lease now l = l\<lparr>holderId := None, leaseTaskId := None, leaseToken := None,
     heartbeatAt := None, leaseTtlMs := None, leaseExpiresAt := None, leaseUpdatedAt := now\<rparr>"

definition releaseStaleRuntimeEndpointLeases :: "int \<Rightarrow> db \<Rightarrow> db \<times> nat" where
  "releaseStaleRuntimeEndpointLeases now d =
     update_leases (\<lambda>l. holderId l \<noteq> None \<and>
       (case leaseExpiresAt l of Some u \<Rightarrow> u \<le> now | None \<Rightarrow> False)) (clear_lease now) d"

record acquire_input =
  a_endpointKey :: string
  a_profileId :: "string option"
  a_baseUrl :: "string option"
  a_runtimeId :: "string option"
  a_providerId :: "string option"
  a_taskId :: "string option"
  a_leaseTtlMs :: int

datatype acquire_result =
    Acquired string string int int
  | Cooling "int option" "int option"
  | Held "string option" "int option" "int option"

definition new_lease :: "acquire_input \<Rightarrow> string \<Rightarrow> string \<Rightarrow> int \<Rightarrow> lease_row" where
  "new_lease a h tok now = \<lparr>endpointKey = a_endpointKey a, leaseProfileId = a_profileId a,
     leaseBaseUrl = a_baseUrl a, leaseRuntimeId = a_runtimeId a, leaseProviderId = a_providerId a,
     holderId = Some h, leaseTaskId = a_taskId a, leaseToken = Some tok, heartbeatAt = Some now,
     leaseTtlMs = Some (a_leaseTtlMs a), leaseExpiresAt = Some (now + a_leaseTtlMs a),
     cooldownUntil = None, cooldownFailureCount = 0, cooldownReason = None,
     leaseCreatedAt = now, leaseUpdatedAt = now\<rparr>"

definition take_lease :: "acquire_input \<Rightarrow> string \<Rightarrow> string \<Rightarrow> int \<Rightarrow> lease_row \<Rightarrow> lease_row" where
  "take_lease a h tok now l = l\<lparr>leaseProfileId := a_profileId a, leaseBaseUrl := a_baseUrl a,
     leaseRuntimeId := a_runtimeId a, leaseProviderId := a_providerId a, holderId := Some h,
     leaseTaskId := a_taskId a, leaseToken := Some tok, heartbeatAt := Some now,
     leaseTtlMs := Some (a_leaseTtlMs a), leaseExpiresAt := Some (now + a_leaseTtlMs a),
     leaseUpdatedAt := now\<rparr>"

definition takeable :: "int \<Rightarrow> lease_row \<Rightarrow> bool" where
  "takeable now l \<longleftrightarrow>
     (case cooldownUntil l of None \<Rightarrow> True | Some c \<Rightarrow> c \<le> now) \<and>
     (holderId l = None \<or> leaseToken l = None \<or> leaseExpiresAt l = None \<or>
      the (leaseExpiresAt l) \<le> now)"

definition upsert_lease :: "acquire_input \<Rightarrow> string \<Rightarrow> string \<Rightarrow> int \<Rightarrow> db \<Rightarrow> db \<times> nat" where
  "upsert_lease a h tok now d =
     (case findRuntimeEndpointLease (a_endpointKey a) d of
        None \<Rightarrow> (d\<lparr>leases := leases d @ [new_lease a h tok now]\<rparr>, 1)
      | Some _ \<Rightarrow> update_leases (\<lambda>l. endpointKey l = a_endpointKey a \<and> takeable now l)
          (take_lease a h tok now) d)"

definition acquire :: "acquire_input \<Rightarrow> string \<Rightarrow> string \<Rightarrow> int \<Rightarrow> db \<Rightarrow> string + db \<times> acquire_result" where
  "acquire a h tok now d =
     (if a_leaseTtlMs a \<le> 0 then Inl ''leaseTtlMs must be greater than 0''
      else
        let (d', n) = upsert_lease a h tok now d in
        if 0 < n then Inr (d', Acquired tok h (now + a_leaseTtlMs a) now)
        else
          let current = findRuntimeEndpointLease (a_endpointKey a) d' in
          Inr (d',
            if (case Option.bind current cooldownUntil of Some c \<Rightarrow> now < c | None \<Rightarrow> False)
            then Cooling (Option.bind current cooldownUntil)
                   (retryAfterMs (Option.bind current cooldownUntil) now)
            else Held (Option.bind current holderId) (Option.bind current leaseExpiresAt)
                   (retryAfterMs (Option.bind current leaseExpiresAt) now)))"

definition heartbeat :: "string \<Rightarrow> string \<Rightarrow> string \<Rightarrow> int \<Rightarrow> int \<Rightarrow> db \<Rightarrow> string + db \<times> bool" where
  "heartbeat k h tok ttl now d =
     (if ttl \<le> 0 then Inl ''leaseTtlMs must be greater than 0''
      else
        let (d', n) = update_leases
          (\<lambda>l. endpointKey l = k \<and> holderId l = Some h \<and> leaseToken l = Some tok)
          (\<lambda>l. l\<lparr>heartbeatAt := Some now, leaseTtlMs := Some ttl,
                 leaseExpiresAt := Some (now + ttl), leaseUpdatedAt := now\<rparr>) d
        in Inr (d', 0 < n))"

definition release :: "string \<Rightarrow> string \<Rightarrow> string \<Rightarrow> int \<Rightarrow> db \<Rightarrow> db \<times> bool" where
  "release k h tok now d =
     (let (d', n) = update_leases
        (\<lambda>l. endpointKey l = k \<and> holderId l = Some h \<and> leaseToken l = Some tok) (clear_lease now) d
      in (d', 0 < n))"

definition cancel_lease ::
    "string \<Rightarrow> string \<Rightarrow> string option \<Rightarrow> string option \<Rightarrow> int \<Rightarrow> db \<Rightarrow> db \<times> nat" where
  "cancel_lease k h tok task now d =
     update_leases (\<lambda>l. endpointKey l = k \<and> holderId l = Some h \<and>
       (tok \<noteq> None \<longrightarrow> leaseToken l = tok) \<and> (task \<noteq> None \<longrightarrow> leaseTaskId l = task))
       (clear_lease now) d"

definition readCooldown :: "string \<Rightarrow> db \<Rightarrow> (int option \<times> int \<times> string option) option" where
  "readCooldown k d =
     map_option (\<lambda>l. (cooldownUntil l, cooldownFailureCount l, cooldownReason l))
       (findRuntimeEndpointLease k d)"

definition cooldown_row :: "string \<Rightarrow> int option \<Rightarrow> string option \<Rightarrow> int \<Rightarrow> lease_row" where
  "cooldown_row k until reason now = \<lparr>endpointKey = k, leaseProfileId = None,
     leaseBaseUrl = None, leaseRuntimeId = None, leaseProviderId = None, holderId = None,
     leaseTaskId = None, leaseToken = None, heartbeatAt = None, leaseTtlMs = None,
     leaseExpiresAt = None, cooldownUntil = until, cooldownFailureCount = 1,
     cooldownReason = reason, leaseCreatedAt = now, leaseUpdatedAt = now\<rparr>"

definition setCooldown :: "string \<Rightarrow> int option \<Rightarrow> string option \<Rightarrow> int \<Rightarrow> db \<Rightarrow> db" where
  "setCooldown k until reason now d =
     (case findRuntimeEndpointLease k d of
        None \<Rightarrow> d\<lparr>leases := leases d @ [cooldown_row k until reason now]\<rparr>
      | Some _ \<Rightarrow> fst (update_leases (\<lambda>l. endpointKey l = k)
          (\<lambda>l. l\<lparr>cooldownUntil := until, cooldownFailureCount := cooldownFailureCount l + 1,
                 cooldownReason := reason, leaseUpdatedAt := now\<rparr>) d))"

section \<open>The store as a lock table\<close>

datatype lease_op =
    Acquire acquire_input string string
  | Heartbeat string string string int
  | Release_Lease string string string
  | Cancel_Lease string string "string option" "string option"
  | Sweep_Leases
  | Cool string "int option" "string option"

fun lease_step :: "lease_op \<Rightarrow> int \<Rightarrow> db \<Rightarrow> db \<times> bool" where
  "lease_step (Acquire a h tok) now d =
     (case acquire a h tok now d of
        Inr (d', Acquired _ _ _ _) \<Rightarrow> (d', True) | Inr (d', _) \<Rightarrow> (d', False) | Inl _ \<Rightarrow> (d, False))"
| "lease_step (Heartbeat k h tok ttl) now d =
     (case heartbeat k h tok ttl now d of Inr r \<Rightarrow> r | Inl _ \<Rightarrow> (d, False))"
| "lease_step (Release_Lease k h tok) now d = release k h tok now d"
| "lease_step (Cancel_Lease k h tok task) now d =
     (let (d', n) = cancel_lease k h tok task now d in (d', 0 < n))"
| "lease_step Sweep_Leases now d =
     (let (d', n) = releaseStaleRuntimeEndpointLeases now d in (d', 0 < n))"
| "lease_step (Cool k until reason) now d = (setCooldown k until reason now d, True)"

fun lease_actor :: "lease_op \<Rightarrow> string option" where
  "lease_actor (Acquire a h tok) = Some h"
| "lease_actor (Heartbeat k h tok ttl) = Some h"
| "lease_actor (Release_Lease k h tok) = Some h"
| "lease_actor (Cancel_Lease k h tok task) = Some h"
| "lease_actor _ = None"

text \<open>An acquisition with a lifetime that is not positive takes nothing: it throws.\<close>

fun lease_takes :: "lease_op \<Rightarrow> string option" where
  "lease_takes (Acquire a h tok) = (if 0 < a_leaseTtlMs a then Some (a_endpointKey a) else None)"
| "lease_takes _ = None"

fun lease_span :: "lease_op \<Rightarrow> int" where
  "lease_span (Acquire a h tok) = a_leaseTtlMs a"
| "lease_span _ = 0"

definition keys_distinct :: "db \<Rightarrow> bool" where
  "keys_distinct d \<longleftrightarrow> distinct (map endpointKey (leases d))"

definition holds :: "string \<Rightarrow> string \<Rightarrow> int \<Rightarrow> lease_row \<Rightarrow> bool" where
  "holds k h until l \<longleftrightarrow> endpointKey l = k \<and> holderId l = Some h \<and> leaseToken l \<noteq> None \<and>
     (\<exists>u. leaseExpiresAt l = Some u \<and> until \<le> u)"

definition lease_owns :: "db \<Rightarrow> string \<Rightarrow> string \<Rightarrow> int \<Rightarrow> bool" where
  "lease_owns d k h until \<longleftrightarrow> (\<exists>l \<in> set (leases d). holds k h until l)"

definition lease_available :: "db \<Rightarrow> string \<Rightarrow> int \<Rightarrow> bool" where
  "lease_available d k now \<longleftrightarrow> (\<forall>l \<in> set (leases d). endpointKey l = k \<longrightarrow> takeable now l)"

lemma update_leases_simps [simp]:
  "leases (fst (update_leases p f d)) = map (\<lambda>l. if p l then f l else l) (leases d)"
  "snd (update_leases p f d) = length (filter p (leases d))"
  by (simp_all add: update_leases_def)

lemma lease_none: "findRuntimeEndpointLease k d = None \<longleftrightarrow> (\<forall>l \<in> set (leases d). endpointKey l \<noteq> k)"
  by (auto simp: findRuntimeEndpointLease_def find_None_iff)

lemma lease_unique:
  "keys_distinct d \<Longrightarrow> l \<in> set (leases d) \<Longrightarrow> m \<in> set (leases d) \<Longrightarrow> endpointKey l = endpointKey m \<Longrightarrow>
   l = m"
  by (auto simp: keys_distinct_def distinct_map dest: inj_onD)

lemma keys_distinct_update:
  "(\<And>l. endpointKey (f l) = endpointKey l) \<Longrightarrow>
   keys_distinct (fst (update_leases p f d)) = keys_distinct d"
proof -
  assume f: "\<And>l. endpointKey (f l) = endpointKey l"
  have "map endpointKey (leases (fst (update_leases p f d))) = map endpointKey (leases d)"
    using f by simp
  then show ?thesis by (simp only: keys_distinct_def)
qed

lemma clear_lease_key [simp]: "endpointKey (clear_lease now l) = endpointKey l"
  by (simp add: clear_lease_def)

lemma take_lease_key [simp]: "endpointKey (take_lease a h tok now l) = endpointKey l"
  by (simp add: take_lease_def)

lemma upsert_success:
  "keys_distinct d \<Longrightarrow> 0 < snd (upsert_lease a h tok now d) \<longleftrightarrow> lease_available d (a_endpointKey a) now"
proof (cases "findRuntimeEndpointLease (a_endpointKey a) d")
  case None
  then have "\<forall>l \<in> set (leases d). endpointKey l \<noteq> a_endpointKey a" by (simp add: lease_none)
  then show ?thesis using None by (simp add: upsert_lease_def lease_available_def)
next
  case (Some l)
  assume kd: "keys_distinct d"
  have l: "l \<in> set (leases d)" "endpointKey l = a_endpointKey a"
    using Some by (auto simp: findRuntimeEndpointLease_def find_Some_iff)
  have "(\<exists>m \<in> set (leases d). endpointKey m = a_endpointKey a \<and> takeable now m) \<longleftrightarrow>
      lease_available d (a_endpointKey a) now"
    using l lease_unique [OF kd l(1)] unfolding lease_available_def by metis
  then show ?thesis using Some by (simp add: upsert_lease_def filter_empty_conv)
qed

lemma acquire_step:
  "lease_step (Acquire a h tok) now d =
     (if a_leaseTtlMs a \<le> 0 then (d, False)
      else (fst (upsert_lease a h tok now d), 0 < snd (upsert_lease a h tok now d)))"
  by (auto simp: acquire_def Let_def split_beta split: if_splits)

lemma lease_step_keys: "keys_distinct d \<Longrightarrow> keys_distinct (fst (lease_step op now d))"
proof (cases op)
  case (Acquire a h tok)
  assume kd: "keys_distinct d"
  have "keys_distinct (fst (upsert_lease a h tok now d))"
    using kd by (auto simp: upsert_lease_def keys_distinct_update split: option.split)
      (auto simp: keys_distinct_def lease_none new_lease_def)
  then show ?thesis using kd by (simp add: Acquire acquire_step del: lease_step.simps)
next
  case (Cool k until reason)
  assume kd: "keys_distinct d"
  then show ?thesis
    by (auto simp: Cool setCooldown_def keys_distinct_update split: option.split)
      (auto simp: keys_distinct_def lease_none cooldown_row_def)
qed (auto simp: heartbeat_def release_def cancel_lease_def releaseStaleRuntimeEndpointLeases_def
    keys_distinct_update Let_def split_beta)

lemma lease_owns_update:
  assumes "lease_owns d k h until"
    "\<And>l. l \<in> set (leases d) \<Longrightarrow> holds k h until l \<Longrightarrow> p l \<Longrightarrow> holds k h until (f l)"
  shows "lease_owns (fst (update_leases p f d)) k h until"
proof -
  obtain l where l: "l \<in> set (leases d)" "holds k h until l" using assms(1) by (auto simp: lease_owns_def)
  let ?l = "if p l then f l else l"
  have "?l \<in> set (leases (fst (update_leases p f d)))" using l(1) by auto
  moreover have "holds k h until ?l" using l assms(2) by simp
  ultimately show ?thesis unfolding lease_owns_def by blast
qed

lemma lease_owns_keep:
  assumes "lease_owns d k h until" "now < until" "lease_actor op \<noteq> Some h"
  shows "lease_owns (fst (lease_step op now d)) k h until"
proof (cases op)
  case (Acquire a h' tok)
  have "lease_owns (fst (update_leases (\<lambda>l. endpointKey l = a_endpointKey a \<and> takeable now l) f d)) k h until"
    for f
    by (rule lease_owns_update [OF assms(1)]) (use assms(2) in \<open>auto simp: holds_def takeable_def\<close>)
  moreover have "lease_owns (d\<lparr>leases := leases d @ xs\<rparr>) k h until" for xs
    using assms(1) by (auto simp: lease_owns_def)
  ultimately have "lease_owns (fst (upsert_lease a h' tok now d)) k h until"
    by (simp add: upsert_lease_def split: option.split)
  then show ?thesis using assms(1) by (simp add: Acquire acquire_step del: lease_step.simps)
next
  case (Heartbeat k' h' tok ttl)
  then show ?thesis
    using assms by (auto simp: heartbeat_def holds_def Let_def split_beta intro!: lease_owns_update)
next
  case (Release_Lease k' h' tok)
  then show ?thesis
    using assms by (auto simp: release_def holds_def Let_def split_beta intro!: lease_owns_update)
next
  case (Cancel_Lease k' h' tok task)
  then show ?thesis
    using assms by (auto simp: cancel_lease_def holds_def Let_def split_beta intro!: lease_owns_update)
next
  case Sweep_Leases
  then show ?thesis
    using assms
    by (auto simp: releaseStaleRuntimeEndpointLeases_def holds_def Let_def split_beta
        intro!: lease_owns_update)
next
  case (Cool k' u reason)
  have "lease_owns (fst (update_leases (\<lambda>l. endpointKey l = k')
      (\<lambda>l. l\<lparr>cooldownUntil := u, cooldownFailureCount := cooldownFailureCount l + 1,
        cooldownReason := reason, leaseUpdatedAt := now\<rparr>) d)) k h until"
    by (rule lease_owns_update [OF assms(1)]) (simp add: holds_def)
  moreover have "lease_owns (d\<lparr>leases := leases d @ xs\<rparr>) k h until" for xs
    using assms(1) by (auto simp: lease_owns_def)
  ultimately show ?thesis by (simp add: Cool setCooldown_def split: option.split)
qed

lemma acquire_owns:
  assumes "lease_available d (a_endpointKey a) now" "0 < a_leaseTtlMs a"
  shows "lease_owns (fst (lease_step (Acquire a h tok) now d)) (a_endpointKey a) h (now + a_leaseTtlMs a)"
proof (cases "findRuntimeEndpointLease (a_endpointKey a) d")
  case None
  then show ?thesis
    using assms(2)
    by (simp add: acquire_step upsert_lease_def lease_owns_def holds_def new_lease_def
        del: lease_step.simps)
next
  case (Some l)
  have l: "l \<in> set (leases d)" "endpointKey l = a_endpointKey a"
    using Some by (auto simp: findRuntimeEndpointLease_def find_Some_iff)
  then have t: "takeable now l" using assms(1) by (simp add: lease_available_def)
  let ?l = "take_lease a h tok now l"
  have "?l \<in> set (leases (fst (upsert_lease a h tok now d)))"
    using Some l t by (force simp: upsert_lease_def)
  moreover have "holds (a_endpointKey a) h (now + a_leaseTtlMs a) ?l"
    using l by (simp add: holds_def take_lease_def)
  ultimately show ?thesis
    using assms(2) by (auto simp: acquire_step lease_owns_def simp del: lease_step.simps)
qed

interpretation endpoint: lock_table keys_distinct lease_step lease_actor lease_takes lease_span
  lease_owns lease_available
proof
  fix s op now k h until
  show "keys_distinct s \<Longrightarrow> keys_distinct (fst (lease_step op now s))" by (rule lease_step_keys)
  show "keys_distinct s \<Longrightarrow> lease_takes op = Some k \<Longrightarrow>
      snd (lease_step op now s) = lease_available s k now"
    by (cases op) (auto simp: acquire_step upsert_success simp del: lease_step.simps(1) split: if_splits)
  show "lease_takes op = Some k \<Longrightarrow> lease_actor op = Some h \<Longrightarrow> lease_available s k now \<Longrightarrow>
      lease_owns (fst (lease_step op now s)) k h (now + lease_span op)"
    by (cases op) (auto simp: acquire_owns simp del: lease_step.simps(1) split: if_splits)
  show "lease_owns s k h until \<Longrightarrow> now < until \<Longrightarrow> \<not> lease_available s k now"
    by (auto simp: lease_owns_def lease_available_def holds_def takeable_def)
  show "lease_owns s k h until \<Longrightarrow> now < until \<Longrightarrow> lease_actor op \<noteq> Some h \<Longrightarrow>
      lease_owns (fst (lease_step op now s)) k h until" by (rule lease_owns_keep)
qed

section \<open>Properties\<close>

lemma lease_found: "findRuntimeEndpointLease k d = Some l \<Longrightarrow> l \<in> set (leases d) \<and> endpointKey l = k"
  by (auto simp: findRuntimeEndpointLease_def find_Some_iff)

lemma find_snoc: "List.find P (xs @ [x]) = (case List.find P xs of Some y \<Rightarrow> Some y | None \<Rightarrow> if P x then Some x else None)"
  by (induction xs) auto

lemma find_lease_map:
  assumes "\<And>l. endpointKey (f l) = endpointKey l"
  shows "findRuntimeEndpointLease k (fst (update_leases p f d)) =
    map_option (\<lambda>l. if p l then f l else l) (findRuntimeEndpointLease k d)"
  unfolding findRuntimeEndpointLease_def update_leases_simps by (rule find_map_pred) (simp add: assms)

text \<open>What an acquisition returns, by the row it finds.\<close>

lemma available_found:
  "keys_distinct d \<Longrightarrow> lease_available d k now \<longleftrightarrow>
     (case findRuntimeEndpointLease k d of None \<Rightarrow> True | Some l \<Rightarrow> takeable now l)"
  by (auto simp: lease_available_def lease_none split: option.split dest: lease_found lease_unique)

lemma upsert_refused:
  assumes "snd (upsert_lease a h tok now d) = 0"
  shows "fst (upsert_lease a h tok now d) = d"
proof (cases "findRuntimeEndpointLease (a_endpointKey a) d")
  case None
  then show ?thesis using assms by (simp add: upsert_lease_def)
next
  case (Some l)
  then have "\<forall>m \<in> set (leases d). \<not> (endpointKey m = a_endpointKey a \<and> takeable now m)"
    using assms by (simp add: upsert_lease_def filter_empty_conv)
  then have "map (\<lambda>m. if endpointKey m = a_endpointKey a \<and> takeable now m
      then take_lease a h tok now m else m) (leases d) = leases d"
    by (intro map_if_id) blast
  then show ?thesis using Some by (simp add: upsert_lease_def update_leases_def)
qed

lemma acquire_outcome:
  assumes "keys_distinct d" "0 < a_leaseTtlMs a"
  shows "acquire a h tok now d =
    (if lease_available d (a_endpointKey a) now
     then Inr (fst (upsert_lease a h tok now d), Acquired tok h (now + a_leaseTtlMs a) now)
     else (case findRuntimeEndpointLease (a_endpointKey a) d of
         None \<Rightarrow> Inr (d, Held None None None)
       | Some l \<Rightarrow> (case cooldownUntil l of
            Some c \<Rightarrow> if now < c then Inr (d, Cooling (Some c) (Some (c - now)))
              else Inr (d, Held (holderId l) (leaseExpiresAt l) (retryAfterMs (leaseExpiresAt l) now))
          | None \<Rightarrow> Inr (d, Held (holderId l) (leaseExpiresAt l) (retryAfterMs (leaseExpiresAt l) now)))))"
  using upsert_success [OF assms(1), of a h tok now] upsert_refused [of a h tok now d] assms(2)
  by (auto simp: acquire_def Let_def split_beta retryAfterMs_def split: option.split)

lemma acquired_row:
  assumes "keys_distinct d" "lease_available d (a_endpointKey a) now"
  shows "\<exists>l. findRuntimeEndpointLease (a_endpointKey a) (fst (upsert_lease a h tok now d)) = Some l \<and>
    holderId l = Some h \<and> leaseToken l = Some tok \<and> (cooldownUntil l = None \<or> the (cooldownUntil l) \<le> now)"
proof (cases "findRuntimeEndpointLease (a_endpointKey a) d")
  case None
  then show ?thesis
    by (simp add: upsert_lease_def) (simp add: findRuntimeEndpointLease_def find_snoc new_lease_def)
next
  case (Some l)
  have "takeable now l" using assms Some by (simp add: available_found)
  moreover note lease_found [OF Some]
  ultimately show ?thesis
    using Some by (auto simp: upsert_lease_def find_lease_map takeable_def take_lease_def split: option.splits)
qed

text \<open>
  C22: a leased endpoint is exclusive. After a successful acquisition for a holder, until the
  lease's lifetime has passed, no sequence of acquisitions, heartbeats, releases and
  cancellations by other holders, stale sweeps and cool-downs takes the endpoint away, and no
  acquisition of it by another holder succeeds.
\<close>

theorem leased_endpoint_is_exclusive:
  assumes "keys_distinct d" "acquire a h tok now d = Inr (d', Acquired tok' h' e hb)"
    "\<And>op t. (op, t) \<in> set ops \<Longrightarrow> t < now + a_leaseTtlMs a \<and> lease_actor op \<noteq> Some h"
  shows "lease_owns (fst (endpoint.run ops d')) (a_endpointKey a) h (now + a_leaseTtlMs a) \<and>
    (\<forall>n < length ops. lease_takes (fst (ops ! n)) = Some (a_endpointKey a) \<longrightarrow>
      \<not> snd (endpoint.run ops d') ! n)"
proof -
  have "0 < a_leaseTtlMs a" using assms(2) by (simp add: acquire_def split: if_splits)
  then show ?thesis
    using endpoint.exclusive_after_take [OF assms(1), of "Acquire a h tok" "a_endpointKey a" h now ops]
      assms(2,3) by simp
qed

definition demo_acquire :: acquire_input where
  "demo_acquire = \<lparr>a_endpointKey = ''e'', a_profileId = None, a_baseUrl = None, a_runtimeId = None,
     a_providerId = None, a_taskId = Some ''t'', a_leaseTtlMs = 1000\<rparr>"

definition demo_lease_ops :: "(lease_op \<times> int) list" where
  "demo_lease_ops = [(Acquire demo_acquire ''h2'' ''k2'', 100), (Sweep_Leases, 500),
     (Release_Lease ''e'' ''h2'' ''k1'', 600), (Acquire demo_acquire ''h3'' ''k3'', 999)]"

theorem leased_endpoint_is_exclusive_witness:
  "\<exists>d'. acquire demo_acquire ''h1'' ''k1'' 0 empty_db = Inr (d', Acquired ''k1'' ''h1'' 1000 0) \<and>
     lease_owns (fst (endpoint.run demo_lease_ops d')) ''e'' ''h1'' 1000 \<and>
     \<not> snd (endpoint.run demo_lease_ops d') ! 3"
proof -
  let ?d = "fst (upsert_lease demo_acquire ''h1'' ''k1'' 0 empty_db)"
  have 1: "keys_distinct empty_db" by code_simp
  have 2: "acquire demo_acquire ''h1'' ''k1'' 0 empty_db = Inr (?d, Acquired ''k1'' ''h1'' 1000 0)"
    by code_simp
  have 3: "t < 0 + a_leaseTtlMs demo_acquire \<and> lease_actor op \<noteq> Some ''h1''"
    if "(op, t) \<in> set demo_lease_ops" for op t
    using that by (auto simp: demo_lease_ops_def demo_acquire_def)
  have 4: "3 < length demo_lease_ops" "lease_takes (fst (demo_lease_ops ! 3)) = Some ''e''" by code_simp+
  have 5: "a_endpointKey demo_acquire = ''e''" "a_leaseTtlMs demo_acquire = 1000"
    by (simp_all add: demo_acquire_def)
  show ?thesis using leased_endpoint_is_exclusive [OF 1 2 3] 2 4 by (auto simp: 5)
qed

text \<open>
  The retry hint of a refusal is exact. When an acquisition is refused because the endpoint is
  held, the hint is positive, and on the unchanged store a later acquisition by anyone succeeds
  exactly when the hinted time has passed.
\<close>

theorem held_retry_hint_is_exact:
  assumes "keys_distinct d" "acquire a h tok now d = Inr (d', Held h' e r)" "now \<le> t"
    "a_endpointKey b = a_endpointKey a" "0 < a_leaseTtlMs b"
  shows "d' = d \<and> (\<exists>w. r = Some w \<and> 0 < w \<and>
    ((\<exists>d2 x hb. acquire b g tok2 t d' = Inr (d2, Acquired tok2 g x hb)) \<longleftrightarrow> now + w \<le> t))"
proof -
  have ttl: "0 < a_leaseTtlMs a" using assms(2) by (simp add: acquire_def split: if_splits)
  note out = acquire_outcome [OF assms(1) ttl, of h tok now]
  have na: "\<not> lease_available d (a_endpointKey a) now" using assms(2) out by (auto split: if_splits)
  then obtain l where l: "findRuntimeEndpointLease (a_endpointKey a) d = Some l" "\<not> takeable now l"
    by (auto simp: available_found [OF assms(1)] split: option.splits)
  have cd: "cooldownUntil l = None \<or> the (cooldownUntil l) \<le> now"
    and d': "d' = d" and r: "r = retryAfterMs (leaseExpiresAt l) now"
    using assms(2) out na l by (auto split: option.splits if_splits)
  then obtain x where x: "leaseExpiresAt l = Some x" "now < x" "holderId l \<noteq> None" "leaseToken l \<noteq> None"
    using l(2) by (auto simp: takeable_def split: option.splits)
  have "takeable t l \<longleftrightarrow> x \<le> t" using x cd assms(3) by (auto simp: takeable_def split: option.split)
  moreover have "(\<exists>d2 x hb. acquire b g tok2 t d = Inr (d2, Acquired tok2 g x hb)) \<longleftrightarrow> takeable t l"
    using acquire_outcome [OF assms(1,5), of g tok2 t] l(1)
    by (auto simp: available_found [OF assms(1)] assms(4) split: option.splits)
  ultimately show ?thesis using x d' r by (simp add: retryAfterMs_def)
qed

theorem held_retry_hint_is_exact_witness:
  "\<exists>d. acquire demo_acquire ''h2'' ''k2'' 400 d = Inr (d, Held (Some ''h1'') (Some 1000) (Some 600)) \<and>
     \<not> (\<exists>d2 x hb. acquire demo_acquire ''h3'' ''k3'' 999 d = Inr (d2, Acquired ''k3'' ''h3'' x hb)) \<and>
     (\<exists>d2 x hb. acquire demo_acquire ''h3'' ''k3'' 1000 d = Inr (d2, Acquired ''k3'' ''h3'' x hb))"
proof -
  let ?d = "fst (upsert_lease demo_acquire ''h1'' ''k1'' 0 empty_db)"
  have 1: "keys_distinct ?d" by code_simp
  have 2: "acquire demo_acquire ''h2'' ''k2'' 400 ?d = Inr (?d, Held (Some ''h1'') (Some 1000) (Some 600))"
    by code_simp
  have 3: "0 < a_leaseTtlMs demo_acquire" by (simp add: demo_acquire_def)
  show ?thesis
    using held_retry_hint_is_exact [OF 1 2 _ refl 3, of 999 "''h3''" "''k3''"]
      held_retry_hint_is_exact [OF 1 2 _ refl 3, of 1000 "''h3''" "''k3''"] 2
    by (intro exI [of _ ?d]) simp
qed

text \<open>
  Only the holder's token releases a lease. After a successful acquisition a release with the
  returned token succeeds and the endpoint can be acquired again at once, while a release with
  another token or by another holder reports failure and leaves the store unchanged.
\<close>

theorem release_needs_the_token:
  assumes "keys_distinct d" "acquire a h tok now d = Inr (d', Acquired tok h e hb)" "now \<le> t"
  shows "snd (release (a_endpointKey a) h tok t d') \<and>
    lease_available (fst (release (a_endpointKey a) h tok t d')) (a_endpointKey a) t \<and>
    ((g, tok2) \<noteq> (h, tok) \<longrightarrow> release (a_endpointKey a) g tok2 t d' = (d', False))"
proof -
  let ?k = "a_endpointKey a"
  have ttl: "0 < a_leaseTtlMs a" using assms(2) by (simp add: acquire_def split: if_splits)
  have av: "lease_available d ?k now" and d': "d' = fst (upsert_lease a h tok now d)"
    using assms(2) acquire_outcome [OF assms(1) ttl, of h tok now] by (auto split: option.splits if_splits)
  have kd: "keys_distinct d'"
    using lease_step_keys [OF assms(1), of "Acquire a h tok" now] assms(2) by simp
  obtain l where l: "findRuntimeEndpointLease ?k d' = Some l" "holderId l = Some h" "leaseToken l = Some tok"
      "cooldownUntil l = None \<or> the (cooldownUntil l) \<le> t"
    using av assms(3) acquired_row [OF assms(1) av, of h tok] d' by fastforce
  note lk = lease_found [OF l(1)]
  have only: "m = l" if "m \<in> set (leases d')" "endpointKey m = ?k" for m
    using lease_unique [OF kd] lk that by metis
  have "filter (\<lambda>l. endpointKey l = ?k \<and> holderId l = Some h \<and> leaseToken l = Some tok) (leases d') \<noteq> []"
    using lk l by (auto simp: filter_empty_conv)
  then have 1: "snd (release ?k h tok t d')" by (simp add: release_def Let_def split_beta)
  have "x = clear_lease t l" if "x \<in> set (leases (fst (release ?k h tok t d')))" "endpointKey x = ?k" for x
    using that only l by (auto simp: release_def Let_def split_beta split: if_splits)
  moreover have "takeable t (clear_lease t l)"
    using l(4) by (auto simp: takeable_def clear_lease_def split: option.split)
  ultimately have 2: "lease_available (fst (release ?k h tok t d')) ?k t"
    unfolding lease_available_def by metis
  have "release ?k g tok2 t d' = (d', False)" if "(g, tok2) \<noteq> (h, tok)"
  proof -
    have "\<not> (endpointKey m = ?k \<and> holderId m = Some g \<and> leaseToken m = Some tok2)"
      if "m \<in> set (leases d')" for m using only [OF that] l \<open>(g, tok2) \<noteq> (h, tok)\<close> by auto
    then show ?thesis by (simp add: release_def update_leases_def map_if_id filter_empty_conv Let_def)
  qed
  with 1 2 show ?thesis by blast
qed

theorem release_needs_the_token_witness:
  "\<exists>d'. acquire demo_acquire ''h1'' ''k1'' 0 empty_db = Inr (d', Acquired ''k1'' ''h1'' 1000 0) \<and>
     snd (release ''e'' ''h1'' ''k1'' 5 d') \<and> release ''e'' ''h1'' ''k2'' 5 d' = (d', False)"
proof -
  let ?d = "fst (upsert_lease demo_acquire ''h1'' ''k1'' 0 empty_db)"
  have 1: "keys_distinct empty_db" by code_simp
  have 2: "acquire demo_acquire ''h1'' ''k1'' 0 empty_db = Inr (?d, Acquired ''k1'' ''h1'' 1000 0)"
    by code_simp
  have 3: "a_endpointKey demo_acquire = ''e''" by (simp add: demo_acquire_def)
  show ?thesis
    using release_needs_the_token [OF 1 2, of 5 "''h1''" "''k2''"] 2 by (intro exI [of _ ?d]) (simp add: 3)
qed

end
