(* ===== verification/Js_Date.thy ===== *)
theory Js_Date
  imports Aif_Prelude
begin

text \<open>
  \<open>Date.prototype.toISOString\<close> of the language, for the texts the sources build from instants: the
  proleptic Gregorian date of a number of days since the epoch, and the padded fields. Division
  and remainder on \<^typ>\<open>int\<close> round down, as the standard's \<open>Day\<close> and \<open>TimeWithinDay\<close> do.
\<close>

definition civil :: "int \<Rightarrow> int \<times> int \<times> int" where
  "civil days =
     (let z = days + 719468;
          doe = z mod 146097;
          yoe = (doe - doe div 1460 + doe div 36524 - doe div 146096) div 365;
          doy = doe - (365 * yoe + yoe div 4 - yoe div 100);
          mp = (5 * doy + 2) div 153;
          day = doy - (153 * mp + 2) div 5 + 1;
          month = (if mp < 10 then mp + 3 else mp - 9)
      in (yoe + z div 146097 * 400 + (if month \<le> 2 then 1 else 0), month, day))"

definition padStart :: "nat \<Rightarrow> char \<Rightarrow> string \<Rightarrow> string" where
  "padStart w c s = replicate (w - length s) c @ s"

definition pad_int :: "nat \<Rightarrow> int \<Rightarrow> string" where
  "pad_int w n = padStart w (CHR ''0'') (string_of_int n)"

definition year_text :: "int \<Rightarrow> string" where
  "year_text y =
     (if 0 \<le> y \<and> y \<le> 9999 then pad_int 4 y
      else (if y < 0 then ''-'' else ''+'') @ pad_int 6 \<bar>y\<bar>)"

definition toISOString :: "int \<Rightarrow> string" where
  "toISOString t =
     (let (y, m, d) = civil (t div 86400000); r = t mod 86400000 in
      year_text y @ ''-'' @ pad_int 2 m @ ''-'' @ pad_int 2 d @ ''T'' @ pad_int 2 (r div 3600000) @
      '':'' @ pad_int 2 (r div 60000 mod 60) @ '':'' @ pad_int 2 (r div 1000 mod 60) @ ''.'' @
      pad_int 3 (r mod 1000) @ ''Z'')"

lemma toISOString_samples:
  "toISOString 0 = ''1970-01-01T00:00:00.000Z''"
  "toISOString 951827696789 = ''2000-02-29T12:34:56.789Z''"
  "toISOString (-1) = ''1969-12-31T23:59:59.999Z''"
  by code_simp+

end
