(* ===== verification/Watchdog.thy ===== *)
theory Watchdog
  imports Task_Claims Js_Date
begin

text \<open>
  The task watchdog, \<open>packages/agent/src/taskWatchdog.ts\<close>: releasing tasks whose retry time has
  come and blocking tasks that stopped making progress. The two limits come from the environment
  and are arguments. A \<open>notifyTaskBroadcast\<close> call is recorded as a \<open>moved\<close> value in the order of
  the calls; \<open>logActivity\<close> appends to the activity sequence of the database. Log lines are left
  out. The columns the watchdog parses with \<open>parseUpdatedAtMs\<close> hold instants in the model, so the
  parse never fails.
\<close>

record moved =
  movedTaskId :: string
  movedTitle :: string
  fromStatus :: task_status
  toStatus :: task_status

definition logActivity :: "string \<Rightarrow> string \<Rightarrow> string \<Rightarrow> db \<Rightarrow> db" where
  "logActivity i category detail d = d\<lparr>activity := activity d @ [(i, category, detail)]\<rparr>"

definition STALE_TIMEOUT_MS :: "int \<Rightarrow> int" where "STALE_TIMEOUT_MS env = max env 60000"

definition STALE_MAX_RETRY :: "int \<Rightarrow> int" where "STALE_MAX_RETRY env = max env 1"

definition getDeterministicBackoffMinutes :: "int \<Rightarrow> int" where
  "getDeterministicBackoffMinutes n =
     (let attempt = max 0 n; sequence = [5, 10, 15, 30, 60] in
      sequence ! min (nat attempt) (length sequence - 1))"

definition getResumeStatusForStaleTask :: "task_status \<Rightarrow> task_status" where
  "getResumeStatusForStaleTask s = s"

section \<open>Releasing blocked tasks\<close>

definition release_patch :: "task_row \<Rightarrow> task_status \<Rightarrow> int \<Rightarrow> task_row \<Rightarrow> task_row" where
  "release_patch t s now r = r\<lparr>status := s, blockedReason := None, blockedFromStatus := None,
     retryAfter := None, retryCount := retryCount t, paused := False, manualReviewRequired := False,
     lastHeartbeatAt := Some now, updatedAt := now\<rparr>"

definition release_one :: "int \<Rightarrow> db \<times> moved list \<Rightarrow> task_row \<Rightarrow> db \<times> moved list" where
  "release_one now = (\<lambda>(d, ms) t.
     (case blockedFromStatus t of
        None \<Rightarrow> (d, ms)
      | Some s \<Rightarrow>
          (logActivity (taskId t) ''Agent''
             (''coordinator released blocked_external -> '' @ status_text s @
              '' after retry window elapsed'')
             (clearTaskRuntimeLimitSnapshot (taskId t) now
               (setTaskFields (taskId t) (release_patch t s now) now d)),
           ms @ [\<lparr>movedTaskId = taskId t, movedTitle = title t, fromStatus = Blocked_External,
                  toStatus = s\<rparr>])))"

definition releaseDueBlockedTasks :: "int \<Rightarrow> db \<Rightarrow> db \<times> moved list" where
  "releaseDueBlockedTasks now d =
     foldl (release_one now) (d, []) (listDueBlockedExternalTasks now d)"

section \<open>Recovering stale tasks\<close>

definition referenceMs :: "task_row \<Rightarrow> int" where
  "referenceMs t =
     (case lastHeartbeatAt t of Some h \<Rightarrow> max h (updatedAt t) | None \<Rightarrow> updatedAt t)"

definition reasonBase :: "int \<Rightarrow> task_row \<Rightarrow> string" where
  "reasonBase now t = ''Watchdog: task stale in '' @ status_text (status t) @ '' for '' @
     string_of_int ((now - referenceMs t) div 60000) @ ''m''"

definition quarantine_patch :: "int \<Rightarrow> task_row \<Rightarrow> int \<Rightarrow> task_row \<Rightarrow> task_row" where
  "quarantine_patch maxRetry t now r = r\<lparr>status := Blocked_External,
     blockedReason := Some (reasonBase now t @ ''; auto-retry limit reached ('' @
       string_of_int maxRetry @ '')''),
     blockedFromStatus := Some (getResumeStatusForStaleTask (status t)), retryAfter := None,
     lastHeartbeatAt := Some now, updatedAt := now\<rparr>"

definition stale_retry_at :: "int \<Rightarrow> task_row \<Rightarrow> int" where
  "stale_retry_at now t = now + getDeterministicBackoffMinutes (retryCount t) * 60000"

definition reschedule_patch :: "task_row \<Rightarrow> int \<Rightarrow> task_row \<Rightarrow> task_row" where
  "reschedule_patch t now r = r\<lparr>status := Blocked_External,
     blockedReason := Some (reasonBase now t @ ''; auto-recover scheduled''),
     blockedFromStatus := Some (getResumeStatusForStaleTask (status t)),
     retryAfter := Some (stale_retry_at now t), retryCount := retryCount t + 1,
     lastHeartbeatAt := Some now, updatedAt := now\<rparr>"

definition recover_one :: "int \<Rightarrow> int \<Rightarrow> int \<Rightarrow> db \<times> moved list \<Rightarrow> task_row \<Rightarrow> db \<times> moved list" where
  "recover_one timeout maxRetry now = (\<lambda>(d, ms) t.
     if now - referenceMs t < timeout then (d, ms)
     else
       let resume = status_text (getResumeStatusForStaleTask (status t));
           move = \<lparr>movedTaskId = taskId t, movedTitle = title t, fromStatus = status t,
                   toStatus = Blocked_External\<rparr>
       in if maxRetry \<le> retryCount t then
            (logActivity (taskId t) ''Agent''
               (''coordinator moved to blocked_external (watchdog max retry reached, resume='' @
                resume @ '')'')
               (clearTaskRuntimeLimitSnapshot (taskId t) now
                 (setTaskFields (taskId t) (quarantine_patch maxRetry t now) now d)),
             ms @ [move])
          else
            (logActivity (taskId t) ''Agent''
               (''coordinator moved to blocked_external (watchdog stale recovery, resume='' @ resume @
                '', retryAfter='' @ toISOString (stale_retry_at now t) @ '')'')
               (clearTaskRuntimeLimitSnapshot (taskId t) now
                 (setTaskFields (taskId t) (reschedule_patch t now) now d)),
             ms @ [move]))"

definition recoverStaleInProgressTasks :: "int \<Rightarrow> int \<Rightarrow> int \<Rightarrow> db \<Rightarrow> db \<times> moved list" where
  "recoverStaleInProgressTasks envTimeout envMaxRetry now d =
     foldl (recover_one (STALE_TIMEOUT_MS envTimeout) (STALE_MAX_RETRY envMaxRetry) now) (d, [])
       (listStaleInProgressTasks now d)"

section \<open>Both passes as maps over the executable rows\<close>

text \<open>
  A pass writes the listed tasks one after the other. On the executable rows the writes are
  independent, because the rows listed are executable and roll-ups only write containers.
\<close>

lemma filter_map_keep: "(\<And>r. P (f r) = P r) \<Longrightarrow> filter P (map f rs) = map f (filter P rs)"
  by (induction rs) auto

lemma executable_update:
  assumes "\<And>r. hierarchyRole (f r) = hierarchyRole r"
  shows "executable_rows (fst (update_tasks p f d)) = map (\<lambda>r. if p r then f r else r) (executable_rows d)"
  unfolding executable_rows_def update_tasks_simps
  by (rule filter_map_keep) (simp add: assms)

lemma normalize_frame:
  "taskId (normalizeOperatorInputHoldPatch r) = taskId r"
  "hierarchyRole (normalizeOperatorInputHoldPatch r) = hierarchyRole r"
  by (simp_all add: normalizeOperatorInputHoldPatch_def)

lemma executable_setTaskFields:
  assumes "ids_distinct d" "\<And>r. taskId (f r) = taskId r" "\<And>r. hierarchyRole (f r) = hierarchyRole r"
  shows "executable_rows (setTaskFields i f now d) =
      map (\<lambda>r. if taskId r = i then normalizeOperatorInputHoldPatch (f r) else r) (executable_rows d)"
    and "ids_distinct (setTaskFields i f now d)"
proof -
  let ?e = "fst (update_tasks (\<lambda>r. taskId r = i) (\<lambda>r. normalizeOperatorInputHoldPatch (f r)) d)"
  have e: "ids_distinct ?e" using assms(1,2) by (simp add: ids_distinct_update normalize_frame)
  then show "executable_rows (setTaskFields i f now d) =
      map (\<lambda>r. if taskId r = i then normalizeOperatorInputHoldPatch (f r) else r) (executable_rows d)"
    by (simp add: setTaskFields_def executable_rows_refreshAncestorRollups executable_update
        normalize_frame assms(3))
  show "ids_distinct (setTaskFields i f now d)" using e by (simp add: setTaskFields_def)
qed

definition cleared :: "int \<Rightarrow> task_row \<Rightarrow> task_row" where
  "cleared now r = (normalizeOperatorInputHoldPatch r)\<lparr>runtimeLimitSnapshot := None,
     runtimeLimitUpdatedAt := Some now\<rparr>"

lemma cleared_frame [simp]: "taskId (cleared now r) = taskId r" "hierarchyRole (cleared now r) = hierarchyRole r"
  by (simp_all add: cleared_def normalize_frame)

lemma executable_write:
  assumes "ids_distinct d" "\<And>r. taskId (f r) = taskId r" "\<And>r. hierarchyRole (f r) = hierarchyRole r"
  shows "executable_rows (logActivity i c t (clearTaskRuntimeLimitSnapshot i now (setTaskFields i f now d))) =
      map (\<lambda>r. if taskId r = i then cleared now (f r) else r) (executable_rows d)"
    and "ids_distinct (logActivity i c t (clearTaskRuntimeLimitSnapshot i now (setTaskFields i f now d)))"
proof -
  have l: "executable_rows (logActivity i c t e) = executable_rows e" for e
    by (simp add: logActivity_def executable_rows_def)
  show "executable_rows (logActivity i c t (clearTaskRuntimeLimitSnapshot i now (setTaskFields i f now d))) =
      map (\<lambda>r. if taskId r = i then cleared now (f r) else r) (executable_rows d)"
    unfolding l using assms
    by (simp add: clearTaskRuntimeLimitSnapshot_def executable_update executable_setTaskFields
        comp_def cleared_def normalize_frame cong: if_cong)
  have "ids_distinct (clearTaskRuntimeLimitSnapshot i now (setTaskFields i f now d))"
    using executable_setTaskFields(2) [OF assms]
    by (simp add: clearTaskRuntimeLimitSnapshot_def ids_distinct_update)
  then show "ids_distinct (logActivity i c t (clearTaskRuntimeLimitSnapshot i now (setTaskFields i f now d)))"
    by (simp add: logActivity_def ids_distinct_def)
qed

text \<open>One pass, given what each step does to the executable rows.\<close>

lemma pass_rows:
  fixes step :: "db \<times> moved list \<Rightarrow> task_row \<Rightarrow> db \<times> moved list"
  assumes "ids_distinct d" "distinct (map taskId ts)"
    "\<And>e ms t. ids_distinct e \<Longrightarrow> ids_distinct (fst (step (e, ms) t)) \<and>
      executable_rows (fst (step (e, ms) t)) =
        map (\<lambda>r. if taskId r = taskId t then g t r else r) (executable_rows e)"
    "\<And>t r. taskId (g t r) = taskId r"
  shows "ids_distinct (fst (foldl step (d, ms) ts)) \<and>
    executable_rows (fst (foldl step (d, ms) ts)) =
      map (\<lambda>r. case List.find (\<lambda>t. taskId t = taskId r) ts of None \<Rightarrow> r | Some t \<Rightarrow> g t r)
        (executable_rows d)"
  using assms(1,2)
proof (induction ts arbitrary: d ms)
  case (Cons t ts)
  obtain e ms' where e: "step (d, ms) t = (e, ms')" by fastforce
  have s: "ids_distinct e" "executable_rows e =
      map (\<lambda>r. if taskId r = taskId t then g t r else r) (executable_rows d)"
    using assms(3) [OF Cons.prems(1), of ms t] by (simp_all add: e)
  have "List.find (\<lambda>u. taskId u = taskId t) ts = None"
    using Cons.prems(2) by (auto simp: find_None_iff image_iff)
  then show ?case
    using Cons.IH [OF s(1), of ms'] Cons.prems(2) s(2) assms(4)
    by (auto simp: e intro!: map_cong split: option.split)
qed simp

lemma find_own_row:
  assumes "ids_distinct d" "r \<in> set (executable_rows d)" "\<And>x. P x \<Longrightarrow> hierarchyRole x \<noteq> Container"
  shows "List.find (\<lambda>t. taskId t = taskId r) (filter P (tasks d)) = (if P r then Some r else None)"
proof -
  have r: "r \<in> set (tasks d)" using assms(2) by (simp add: executable_rows_def)
  have u: "x = r" if "x \<in> set (tasks d)" "taskId x = taskId r" for x
    using assms(1) that r by (auto simp: ids_distinct_def distinct_map dest: inj_onD)
  show ?thesis
  proof (cases "List.find (\<lambda>t. taskId t = taskId r) (filter P (tasks d))")
    case None
    then show ?thesis using r by (auto simp: find_None_iff)
  next
    case (Some x)
    then have "x \<in> set (tasks d)" "P x" "taskId x = taskId r" using find_Some_iff_filter by fastforce+
    then show ?thesis using u Some by auto
  qed
qed

lemma distinct_listed: "ids_distinct d \<Longrightarrow> distinct (map taskId (filter P (tasks d)))"
  by (simp add: ids_distinct_def distinct_map_filter)

definition due :: "int \<Rightarrow> task_row \<Rightarrow> bool" where
  "due now r \<longleftrightarrow> status r = Blocked_External \<and> \<not> paused r \<and>
     (\<exists>t. retryAfter r = Some t \<and> t \<le> now) \<and> blockedFromStatus r \<noteq> None"

definition released :: "int \<Rightarrow> task_row \<Rightarrow> task_row" where
  "released now r = cleared now (release_patch r (the (blockedFromStatus r)) now r)"

definition stale :: "int \<Rightarrow> int \<Rightarrow> task_row \<Rightarrow> bool" where
  "stale timeout now r \<longleftrightarrow> status r \<in> IN_PROGRESS \<and> \<not> paused r \<and> lock_free now r \<and>
     timeout \<le> now - referenceMs r"

definition recovered :: "int \<Rightarrow> int \<Rightarrow> task_row \<Rightarrow> task_row" where
  "recovered maxRetry now r = cleared now
     (if maxRetry \<le> retryCount r then quarantine_patch maxRetry r now r else reschedule_patch r now r)"

lemma listDue_executable: "listDueBlockedExternalTasks now e = filter (due now) (executable_rows e)"
  unfolding listDueBlockedExternalTasks_def executable_rows_def filter_filter
  by (rule filter_cong) (auto simp: due_def split: option.split)

lemma release_rows:
  assumes "ids_distinct d"
  shows "ids_distinct (fst (releaseDueBlockedTasks now d)) \<and>
    executable_rows (fst (releaseDueBlockedTasks now d)) =
      map (\<lambda>r. if due now r then released now r else r) (executable_rows d)"
proof -
  let ?P = "\<lambda>r. status r = Blocked_External \<and> hierarchyRole r \<noteq> Container \<and> \<not> paused r \<and>
     (case retryAfter r of Some t \<Rightarrow> t \<le> now | None \<Rightarrow> False) \<and> blockedFromStatus r \<noteq> None"
  let ?g = "\<lambda>t r. case blockedFromStatus t of None \<Rightarrow> r | Some s \<Rightarrow> cleared now (release_patch t s now r)"
  have "ids_distinct (fst (release_one now (e, ms) t)) \<and>
      executable_rows (fst (release_one now (e, ms) t)) =
        map (\<lambda>r. if taskId r = taskId t then ?g t r else r) (executable_rows e)"
    if "ids_distinct e" for e ms t
    using that by (auto simp: release_one_def executable_write release_patch_def map_idI split: option.split)
  then have "ids_distinct (fst (releaseDueBlockedTasks now d)) \<and>
    executable_rows (fst (releaseDueBlockedTasks now d)) =
      map (\<lambda>r. case List.find (\<lambda>t. taskId t = taskId r) (filter ?P (tasks d)) of None \<Rightarrow> r | Some t \<Rightarrow> ?g t r)
        (executable_rows d)"
    unfolding releaseDueBlockedTasks_def listDueBlockedExternalTasks_def
    by (intro pass_rows [OF assms distinct_listed [OF assms]])
      (auto simp: release_patch_def split: option.split)
  moreover have "(case List.find (\<lambda>t. taskId t = taskId r) (filter ?P (tasks d)) of None \<Rightarrow> r | Some t \<Rightarrow> ?g t r) =
      (if due now r then released now r else r)" if "r \<in> set (executable_rows d)" for r
  proof -
    have "List.find (\<lambda>t. taskId t = taskId r) (filter ?P (tasks d)) = (if ?P r then Some r else None)"
      by (rule find_own_row [OF assms that]) simp
    moreover have "hierarchyRole r \<noteq> Container" using that by (simp add: executable_rows_def)
    ultimately show ?thesis by (auto simp: due_def released_def split: option.splits)
  qed
  ultimately show ?thesis by simp
qed

lemma recover_rows:
  assumes "ids_distinct d"
  shows "ids_distinct (fst (recoverStaleInProgressTasks env1 env2 now d)) \<and>
    executable_rows (fst (recoverStaleInProgressTasks env1 env2 now d)) =
      map (\<lambda>r. if stale (STALE_TIMEOUT_MS env1) now r then recovered (STALE_MAX_RETRY env2) now r else r)
        (executable_rows d)"
proof -
  let ?T = "STALE_TIMEOUT_MS env1" and ?M = "STALE_MAX_RETRY env2"
  let ?P = "\<lambda>r. status r \<in> IN_PROGRESS \<and> hierarchyRole r \<noteq> Container \<and> \<not> paused r \<and> lock_free now r"
  let ?g = "\<lambda>t r. if now - referenceMs t < ?T then r else cleared now
     (if ?M \<le> retryCount t then quarantine_patch ?M t now r else reschedule_patch t now r)"
  have "ids_distinct (fst (recover_one ?T ?M now (e, ms) t)) \<and>
      executable_rows (fst (recover_one ?T ?M now (e, ms) t)) =
        map (\<lambda>r. if taskId r = taskId t then ?g t r else r) (executable_rows e)"
    if "ids_distinct e" for e ms t
    using that
    by (auto simp: recover_one_def Let_def executable_write quarantine_patch_def reschedule_patch_def
        map_idI)
  then have "ids_distinct (fst (recoverStaleInProgressTasks env1 env2 now d)) \<and>
    executable_rows (fst (recoverStaleInProgressTasks env1 env2 now d)) =
      map (\<lambda>r. case List.find (\<lambda>t. taskId t = taskId r) (filter ?P (tasks d)) of None \<Rightarrow> r | Some t \<Rightarrow> ?g t r)
        (executable_rows d)"
    unfolding recoverStaleInProgressTasks_def listStaleInProgressTasks_def
    by (intro pass_rows [OF assms distinct_listed [OF assms]])
      (auto simp: quarantine_patch_def reschedule_patch_def)
  moreover have "(case List.find (\<lambda>t. taskId t = taskId r) (filter ?P (tasks d)) of None \<Rightarrow> r | Some t \<Rightarrow> ?g t r) =
      (if stale ?T now r then recovered ?M now r else r)" if "r \<in> set (executable_rows d)" for r
  proof -
    have "List.find (\<lambda>t. taskId t = taskId r) (filter ?P (tasks d)) = (if ?P r then Some r else None)"
      by (rule find_own_row [OF assms that]) simp
    moreover have "hierarchyRole r \<noteq> Container" using that by (simp add: executable_rows_def)
    ultimately show ?thesis by (auto simp: stale_def recovered_def)
  qed
  ultimately show ?thesis by simp
qed

section \<open>Properties\<close>

lemma released_due:
  assumes "due now r"
  shows "released now r = r\<lparr>status := the (blockedFromStatus r), blockedReason := None, blockedFromStatus := None,
    retryAfter := None, manualReviewRequired := False, lastHeartbeatAt := Some now,
    runtimeLimitSnapshot := None, runtimeLimitUpdatedAt := Some now, updatedAt := now\<rparr>"
  using assms by (cases r) (simp add: released_def cleared_def release_patch_def due_def
      normalizeOperatorInputHoldPatch_def isOperatorInputRequiredReason_def)

text \<open>
  Releasing due tasks does exactly that. A pass turns every executable task that is blocked,
  not paused, past its retry time and knows the status it was blocked from into that status with
  the block cleared, leaves every other executable task as it was, and leaves nothing due.
\<close>

theorem release_pass_is_exact:
  assumes "ids_distinct d"
  shows "executable_rows (fst (releaseDueBlockedTasks now d)) =
      map (\<lambda>r. if due now r then
          r\<lparr>status := the (blockedFromStatus r), blockedReason := None, blockedFromStatus := None,
            retryAfter := None, manualReviewRequired := False, lastHeartbeatAt := Some now,
            runtimeLimitSnapshot := None, runtimeLimitUpdatedAt := Some now, updatedAt := now\<rparr>
        else r) (executable_rows d) \<and>
    listDueBlockedExternalTasks now (fst (releaseDueBlockedTasks now d)) = []"
proof -
  let ?e = "fst (releaseDueBlockedTasks now d)"
  let ?f = "\<lambda>r. r\<lparr>status := the (blockedFromStatus r), blockedReason := None, blockedFromStatus := None,
    retryAfter := None, manualReviewRequired := False, lastHeartbeatAt := Some now,
    runtimeLimitSnapshot := None, runtimeLimitUpdatedAt := Some now, updatedAt := now\<rparr>"
  have 1: "executable_rows ?e = map (\<lambda>r. if due now r then ?f r else r) (executable_rows d)"
    using release_rows [OF assms] released_due by (auto cong: map_cong)
  have "listDueBlockedExternalTasks now ?e = []"
    unfolding listDue_executable 1 by (auto simp: filter_empty_conv due_def)
  with 1 show ?thesis by blast
qed

definition demo_blocked :: task_row where
  "demo_blocked = (blank_task ''b'')\<lparr>status := Blocked_External, blockedFromStatus := Some Review,
     blockedReason := Some ''429'', retryAfter := Some 50, retryCount := 1\<rparr>"

theorem release_pass_is_exact_witness:
  "map (\<lambda>r. (taskId r, status r, retryCount r))
     (executable_rows (fst (releaseDueBlockedTasks 60 (empty_db\<lparr>tasks := [blank_task ''a'', demo_blocked]\<rparr>)))) =
     [(''a'', Backlog, 0), (''b'', Review, 1)] \<and>
   listDueBlockedExternalTasks 60
     (fst (releaseDueBlockedTasks 60 (empty_db\<lparr>tasks := [blank_task ''a'', demo_blocked]\<rparr>))) = []"
proof -
  let ?d = "empty_db\<lparr>tasks := [blank_task ''a'', demo_blocked]\<rparr>"
  have "ids_distinct ?d" by code_simp
  from release_pass_is_exact [OF this, of 60] show ?thesis
    by (simp add: executable_rows_def due_def demo_blocked_def blank_task_def)
qed

lemma backoff_bounds:
  "5 \<le> getDeterministicBackoffMinutes n \<and> getDeterministicBackoffMinutes n \<le> 60"
proof -
  have "min (nat (max 0 n)) 4 \<in> {0, 1, 2, 3, 4}" by auto
  then show ?thesis by (auto simp: getDeterministicBackoffMinutes_def Let_def)
qed

lemma watchdog_reason_is_no_operator_hold: "\<not> isOperatorInputRequiredReason (Some (reasonBase now t @ x))"
  by (simp add: reasonBase_def isOperatorInputRequiredReason_def)

lemma recovered_fields:
  "status (recovered m now r) = Blocked_External"
  "blockedFromStatus (recovered m now r) = Some (status r)"
  "paused (recovered m now r) = paused r"
  "taskId (recovered m now r) = taskId r"
  "retryAfter (recovered m now r) = (if m \<le> retryCount r then None else Some (stale_retry_at now r))"
  "retryCount (recovered m now r) = (if m \<le> retryCount r then retryCount r else retryCount r + 1)"
  using watchdog_reason_is_no_operator_hold
  by (auto simp: recovered_def cleared_def quarantine_patch_def reschedule_patch_def
      normalizeOperatorInputHoldPatch_def getResumeStatusForStaleTask_def)

text \<open>
  C25: a stale task gets a bounded number of automatic retries and then waits for a human. A
  recovery pass blocks every executable in-progress task that nobody holds and whose last sign of
  life is older than the limit, and changes no other executable task. While retries remain the
  block has a retry time, 5 to 60 minutes ahead, at which a release pass returns the task to the
  status it had, with one retry more; when the limit is reached there is no retry time and no
  release pass, however late, touches the task.
\<close>

theorem stale_task_is_retried_then_quarantined:
  assumes "ids_distinct d" "r \<in> set (executable_rows d)" "stale (STALE_TIMEOUT_MS env1) now r"
  shows "\<exists>b. List.find (\<lambda>x. taskId x = taskId r)
      (executable_rows (fst (recoverStaleInProgressTasks env1 env2 now d))) = Some b \<and>
    status b = Blocked_External \<and> blockedFromStatus b = Some (status r) \<and>
    (if retryCount r < STALE_MAX_RETRY env2 then
       (\<exists>w. retryAfter b = Some (now + w) \<and> 5 * 60000 \<le> w \<and> w \<le> 60 * 60000 \<and>
         (\<forall>t. List.find (\<lambda>x. taskId x = taskId r) (executable_rows (fst (releaseDueBlockedTasks t
             (fst (recoverStaleInProgressTasks env1 env2 now d))))) =
           Some (if now + w \<le> t then b\<lparr>status := status r, retryCount := retryCount r + 1,
               blockedReason := None, blockedFromStatus := None, retryAfter := None, manualReviewRequired := False,
               runtimeLimitSnapshot := None, runtimeLimitUpdatedAt := Some t, lastHeartbeatAt := Some t, updatedAt := t\<rparr>
             else b))) \<and>
       retryCount b = retryCount r + 1
     else \<forall>t. List.find (\<lambda>x. taskId x = taskId r) (executable_rows (fst (releaseDueBlockedTasks t
         (fst (recoverStaleInProgressTasks env1 env2 now d))))) = Some b)"
proof -
  let ?M = "STALE_MAX_RETRY env2" and ?e = "fst (recoverStaleInProgressTasks env1 env2 now d)"
  let ?b = "recovered ?M now r"
  let ?returned = "\<lambda>t. ?b\<lparr>status := status r, retryCount := retryCount r + 1,
    blockedReason := None, blockedFromStatus := None, retryAfter := None, manualReviewRequired := False,
    runtimeLimitSnapshot := None, runtimeLimitUpdatedAt := Some t, lastHeartbeatAt := Some t, updatedAt := t\<rparr>"
  have e: "ids_distinct ?e" "executable_rows ?e =
      map (\<lambda>r. if stale (STALE_TIMEOUT_MS env1) now r then recovered ?M now r else r) (executable_rows d)"
    using recover_rows [OF assms(1)] by auto
  have own: "List.find (\<lambda>x. taskId x = taskId r) (executable_rows d) = Some r"
    unfolding executable_rows_def
    using find_own_row [OF assms(1,2), of "\<lambda>r. hierarchyRole r \<noteq> Container"] assms(2)
    by (simp add: executable_rows_def)
  have b: "List.find (\<lambda>x. taskId x = taskId r) (executable_rows ?e) = Some ?b"
    unfolding e(2) using own assms(3) by (subst find_map_pred) (auto simp: recovered_fields)
  have rel: "List.find (\<lambda>x. taskId x = taskId r) (executable_rows (fst (releaseDueBlockedTasks t ?e))) =
      Some (if due t ?b then released t ?b else ?b)" for t
    unfolding release_rows [OF e(1), THEN conjunct2] using b
    by (subst find_map_pred) (auto simp: released_def release_patch_def)
  have p: "\<not> paused r" using assms(3) by (simp add: stale_def)
  have returned: "released t ?b = ?returned t" if "due t ?b" "retryCount r < ?M" for t
  proof -
    have "retryCount ?b = retryCount r + 1" "blockedFromStatus ?b = Some (status r)"
      using that(2) by (simp_all add: recovered_fields)
    then show ?thesis unfolding released_due [OF that(1)] by (cases ?b) simp
  qed
  show ?thesis
  proof (intro exI [of _ ?b] conjI)
    show "if retryCount r < ?M then (\<exists>w. retryAfter ?b = Some (now + w) \<and> 5 * 60000 \<le> w \<and> w \<le> 60 * 60000 \<and>
         (\<forall>t. List.find (\<lambda>x. taskId x = taskId r) (executable_rows (fst (releaseDueBlockedTasks t ?e))) =
           Some (if now + w \<le> t then ?returned t else ?b))) \<and> retryCount ?b = retryCount r + 1
      else \<forall>t. List.find (\<lambda>x. taskId x = taskId r) (executable_rows (fst (releaseDueBlockedTasks t ?e))) = Some ?b"
      using backoff_bounds [of "retryCount r"] p returned
      by (auto simp: rel due_def recovered_fields stale_retry_at_def)
  qed (use b in \<open>simp_all add: recovered_fields\<close>)
qed

definition demo_stale :: "int \<Rightarrow> db" where
  "demo_stale n = empty_db\<lparr>tasks := [(blank_task ''t'')\<lparr>status := Implementing, retryCount := n\<rparr>]\<rparr>"

theorem stale_task_is_retried_then_quarantined_witness:
  "(\<exists>b. List.find (\<lambda>x. taskId x = ''t'') (executable_rows (fst (releaseDueBlockedTasks 9999999
      (fst (recoverStaleInProgressTasks 60000 3 100000 (demo_stale 1)))))) = Some b \<and>
     status b = Implementing \<and> retryCount b = 2 \<and> blockedReason b = None) \<and>
   List.find (\<lambda>x. taskId x = ''t'') (executable_rows (fst (releaseDueBlockedTasks 9999999
      (fst (recoverStaleInProgressTasks 60000 3 100000 (demo_stale 3)))))) \<noteq> None"
proof -
  let ?r = "\<lambda>n. (blank_task ''t'')\<lparr>status := Implementing, retryCount := n\<rparr>"
  have 1: "ids_distinct (demo_stale n)" "?r n \<in> set (executable_rows (demo_stale n))"
    "stale (STALE_TIMEOUT_MS 60000) 100000 (?r n)" "taskId (?r n) = ''t''" "retryCount (?r n) = n" for n
    by (simp_all add: demo_stale_def ids_distinct_def executable_rows_def blank_task_def stale_def
        IN_PROGRESS_def lock_free_def STALE_TIMEOUT_MS_def referenceMs_def)
  have 2: "STALE_MAX_RETRY 3 = 3" by (simp add: STALE_MAX_RETRY_def)
  show ?thesis
    using stale_task_is_retried_then_quarantined [OF 1(1-3) [of 1], of 3]
      stale_task_is_retried_then_quarantined [OF 1(1-3) [of 3], of 3] 2 1(4,5)
    by (fastforce simp: 2)
qed

text \<open>
  The watchdog never counts past its limit. Over any sequence of recovery and release passes at
  any times the retry counter of an executable task does not decrease, and it exceeds the limit
  only where it did so before.
\<close>

datatype watchdog_pass = Recover | Release_Due

fun watchdog_passes :: "int \<Rightarrow> int \<Rightarrow> (watchdog_pass \<times> int) list \<Rightarrow> db \<Rightarrow> db" where
  "watchdog_passes env1 env2 [] d = d"
| "watchdog_passes env1 env2 ((Recover, now) # ps) d =
     watchdog_passes env1 env2 ps (fst (recoverStaleInProgressTasks env1 env2 now d))"
| "watchdog_passes env1 env2 ((Release_Due, now) # ps) d =
     watchdog_passes env1 env2 ps (fst (releaseDueBlockedTasks now d))"

lemma released_count: "retryCount (released now r) = retryCount r" "taskId (released now r) = taskId r"
  by (simp_all add: released_def cleared_def release_patch_def normalizeOperatorInputHoldPatch_def)

theorem watchdog_retries_are_bounded:
  assumes "ids_distinct d"
  shows "list_all2 (\<lambda>r q. taskId q = taskId r \<and> retryCount r \<le> retryCount q \<and>
      retryCount q \<le> max (retryCount r) (STALE_MAX_RETRY env2))
    (executable_rows d) (executable_rows (watchdog_passes env1 env2 ps d))"
  using assms
proof (induction env1 env2 ps d rule: watchdog_passes.induct)
  case (1 env1 env2 d)
  then show ?case by (simp add: list.rel_refl)
next
  case (2 env1 env2 now ps d)
  let ?e = "fst (recoverStaleInProgressTasks env1 env2 now d)"
  have e: "ids_distinct ?e" "executable_rows ?e = map (\<lambda>r. if stale (STALE_TIMEOUT_MS env1) now r
      then recovered (STALE_MAX_RETRY env2) now r else r) (executable_rows d)"
    using recover_rows [OF 2(2)] by auto
  have "list_all2 (\<lambda>r q. taskId q = taskId r \<and> retryCount r \<le> retryCount q \<and>
      retryCount q \<le> max (retryCount r) (STALE_MAX_RETRY env2)) (executable_rows d)
      (executable_rows (watchdog_passes env1 env2 ps ?e))"
    using 2(1) [OF e(1)] unfolding e(2) list.rel_map
    by (rule list.rel_mono_strong) (auto simp: recovered_fields split: if_splits)
  then show ?case by simp
next
  case (3 env1 env2 now ps d)
  let ?e = "fst (releaseDueBlockedTasks now d)"
  have e: "ids_distinct ?e" "executable_rows ?e =
      map (\<lambda>r. if due now r then released now r else r) (executable_rows d)"
    using release_rows [OF 3(2)] by auto
  have "list_all2 (\<lambda>r q. taskId q = taskId r \<and> retryCount r \<le> retryCount q \<and>
      retryCount q \<le> max (retryCount r) (STALE_MAX_RETRY env2)) (executable_rows d)
      (executable_rows (watchdog_passes env1 env2 ps ?e))"
    using 3(1) [OF e(1)] unfolding e(2) list.rel_map
    by (rule list.rel_mono_strong) (auto simp: released_count split: if_splits)
  then show ?case by simp
qed

theorem watchdog_retries_are_bounded_witness:
  "\<exists>q. executable_rows (watchdog_passes 60000 2 [(Recover, 100000), (Release_Due, 9999999),
     (Recover, 99999999), (Release_Due, 199999999), (Recover, 999999999)] (demo_stale 0)) = [q] \<and>
     retryCount q \<le> 2"
proof -
  let ?ps = "[(Recover, 100000), (Release_Due, 9999999), (Recover, 99999999),
     (Release_Due, 199999999), (Recover, 999999999)]"
  have 1: "ids_distinct (demo_stale 0)" by code_simp
  have 2: "executable_rows (demo_stale 0) = [(blank_task ''t'')\<lparr>status := Implementing, retryCount := 0\<rparr>]"
    by (simp add: demo_stale_def executable_rows_def blank_task_def)
  from watchdog_retries_are_bounded [OF 1, of 2 60000 ?ps] show ?thesis
    unfolding 2 list_all2_Cons1 by (auto simp: STALE_MAX_RETRY_def)
qed

end
