(* ===== verification/Js_Regex.thy ===== *)
theory Js_Regex
  imports Aif_Prelude
begin

text \<open>
  Regular expressions of the language as the sources use them: backtracking matching, where the
  list of successes is in the order in which the standard's matcher tries the alternatives, so
  that its first element is the match. A state is the text already consumed (reversed), the text
  that remains, and the captures.
\<close>

type_synonym rx_state = "string \<times> string \<times> (nat \<times> string) list"

datatype rx =
    One "char \<Rightarrow> bool"
  | Eps
  | Seq rx rx
  | Alt rx rx
  | Greedy rx
  | Lazy rx
  | Cap nat rx
  | At_Start
  | At_End
  | Line_Start
  | Line_End
  | Word_Boundary
  | Ahead rx

definition word_char :: "char \<Rightarrow> bool" where
  "word_char c \<longleftrightarrow> (let n = (of_char c :: nat) in
     (48 \<le> n \<and> n \<le> 57) \<or> (65 \<le> n \<and> n \<le> 90) \<or> n = 95 \<or> (97 \<le> n \<and> n \<le> 122))"

definition digit :: "char \<Rightarrow> bool" where
  "digit c \<longleftrightarrow> (let n = (of_char c :: nat) in 48 \<le> n \<and> n \<le> 57)"

definition line_break :: "char \<Rightarrow> bool" where
  "line_break c \<longleftrightarrow> (let n = (of_char c :: nat) in n = 10 \<or> n = 13)"

definition at_line_edge :: "string \<Rightarrow> bool" where
  "at_line_edge s = (case s of [] \<Rightarrow> True | c # _ \<Rightarrow> line_break c)"

definition at_word :: "string \<Rightarrow> bool" where
  "at_word s = (case s of [] \<Rightarrow> False | c # _ \<Rightarrow> word_char c)"

fun star_greedy :: "nat \<Rightarrow> (rx_state \<Rightarrow> rx_state list) \<Rightarrow> rx_state \<Rightarrow> rx_state list" where
  "star_greedy 0 m s = [s]"
| "star_greedy (Suc n) m s =
     concat (map (star_greedy n m) (filter (\<lambda>t. length (fst (snd t)) < length (fst (snd s))) (m s))) @ [s]"

fun star_lazy :: "nat \<Rightarrow> (rx_state \<Rightarrow> rx_state list) \<Rightarrow> rx_state \<Rightarrow> rx_state list" where
  "star_lazy 0 m s = [s]"
| "star_lazy (Suc n) m s =
     s # concat (map (star_lazy n m) (filter (\<lambda>t. length (fst (snd t)) < length (fst (snd s))) (m s)))"

fun rmatch :: "rx \<Rightarrow> rx_state \<Rightarrow> rx_state list" where
  "rmatch (One p) (b, r, m) = (case r of [] \<Rightarrow> [] | c # cs \<Rightarrow> if p c then [(c # b, cs, m)] else [])"
| "rmatch Eps s = [s]"
| "rmatch (Seq x y) s = concat (map (rmatch y) (rmatch x s))"
| "rmatch (Alt x y) s = rmatch x s @ rmatch y s"
| "rmatch (Greedy x) s = star_greedy (length (fst (snd s))) (rmatch x) s"
| "rmatch (Lazy x) s = star_lazy (length (fst (snd s))) (rmatch x) s"
| "rmatch (Cap n x) s =
     map (\<lambda>(b, r, m). (b, r, map_set n (rev (take (length b - length (fst s)) b)) m)) (rmatch x s)"
| "rmatch At_Start (b, r, m) = (if b = [] then [(b, r, m)] else [])"
| "rmatch At_End (b, r, m) = (if r = [] then [(b, r, m)] else [])"
| "rmatch Line_Start (b, r, m) = (if at_line_edge b then [(b, r, m)] else [])"
| "rmatch Line_End (b, r, m) = (if at_line_edge r then [(b, r, m)] else [])"
| "rmatch Word_Boundary (b, r, m) = (if at_word b \<noteq> at_word r then [(b, r, m)] else [])"
| "rmatch (Ahead x) (b, r, m) = (case rmatch x (b, r, m) of [] \<Rightarrow> [] | (_, _, m') # _ \<Rightarrow> [(b, r, m')])"

text \<open>The leftmost match: the text before it (reversed), and the state after it.\<close>

fun search :: "rx \<Rightarrow> string \<Rightarrow> string \<Rightarrow> (string \<times> rx_state) option" where
  "search x b r = (case rmatch x (b, r, []) of
       s # _ \<Rightarrow> Some (b, s)
     | [] \<Rightarrow> (case r of [] \<Rightarrow> None | c # cs \<Rightarrow> search x (c # b) cs))"

declare search.simps [simp del]

definition js_test :: "rx \<Rightarrow> string \<Rightarrow> bool" where
  "js_test x s = (search x [] s \<noteq> None)"

definition js_match :: "rx \<Rightarrow> string \<Rightarrow> (nat \<times> string) list option" where
  "js_match x s = map_option (\<lambda>(_, _, _, m). m) (search x [] s)"

definition capture :: "nat \<Rightarrow> (nat \<times> string) list \<Rightarrow> string" where
  "capture n m = (case map_of m n of Some t \<Rightarrow> t | None \<Rightarrow> [])"

text \<open>\<open>s.replace(x, "")\<close> without the global flag.\<close>

definition remove_first :: "rx \<Rightarrow> string \<Rightarrow> string" where
  "remove_first x s = (case search x [] s of None \<Rightarrow> s | Some (b, _, r, _) \<Rightarrow> rev b @ r)"

text \<open>
  \<open>s.replace(x, f)\<close> with the global flag: the matches from left to right, none overlapping. After
  an empty match the next character is kept.
\<close>

function replace_from :: "rx \<Rightarrow> ((nat \<times> string) list \<Rightarrow> string) \<Rightarrow> string \<Rightarrow> string \<Rightarrow> string" where
  "replace_from x f b r =
     (case rmatch x (b, r, []) of
        (b', r', m) # _ \<Rightarrow>
          if length r' < length r then f m @ replace_from x f b' r'
          else (case r of [] \<Rightarrow> f m | c # cs \<Rightarrow> f m @ c # replace_from x f (c # b) cs)
      | [] \<Rightarrow> (case r of [] \<Rightarrow> [] | c # cs \<Rightarrow> c # replace_from x f (c # b) cs))"
  by pat_completeness auto

termination replace_from
  by (relation "measure (\<lambda>(x, f, b, r). length r)") auto

declare replace_from.simps [simp del]

definition replace_all :: "rx \<Rightarrow> ((nat \<times> string) list \<Rightarrow> string) \<Rightarrow> string \<Rightarrow> string" where
  "replace_all x f s = replace_from x f [] s"

text \<open>Building blocks: literals (exact or ignoring case), classes and bounded repetition.\<close>

definition same_letter :: "char \<Rightarrow> char \<Rightarrow> bool" where
  "same_letter c x \<longleftrightarrow> js_lower_char c = js_lower_char x"

definition lit :: "string \<Rightarrow> rx" where
  "lit s = foldr (\<lambda>c. Seq (One (\<lambda>x. x = c))) s Eps"

definition lit_i :: "string \<Rightarrow> rx" where
  "lit_i s = foldr (\<lambda>c. Seq (One (same_letter c))) s Eps"

definition dot :: "char \<Rightarrow> bool" where
  "dot c \<longleftrightarrow> (let n = (of_char c :: nat) in n \<noteq> 10 \<and> n \<noteq> 13)"

definition rx_plus :: "rx \<Rightarrow> rx" where "rx_plus x = Seq x (Greedy x)"

definition rx_opt :: "rx \<Rightarrow> rx" where "rx_opt x = Alt x Eps"

fun upto_times :: "nat \<Rightarrow> rx \<Rightarrow> rx" where
  "upto_times 0 x = Eps"
| "upto_times (Suc n) x = rx_opt (Seq x (upto_times n x))"

fun exactly :: "nat \<Rightarrow> rx \<Rightarrow> rx" where
  "exactly 0 x = Eps"
| "exactly (Suc n) x = Seq x (exactly n x)"

definition at_least :: "nat \<Rightarrow> rx \<Rightarrow> rx" where "at_least n x = Seq (exactly n x) (Greedy x)"

definition rseq :: "rx list \<Rightarrow> rx" where "rseq xs = foldr Seq xs Eps"

text \<open>A match consumes a piece of the text and nothing else.\<close>

definition consumes :: "rx_state \<Rightarrow> rx_state \<Rightarrow> bool" where
  "consumes s t \<longleftrightarrow> (\<exists>w. fst t = rev w @ fst s \<and> fst (snd s) = w @ fst (snd t))"

lemma consumes_refl [simp]: "consumes s s"
  by (simp add: consumes_def)

lemma consumes_trans: "consumes s t \<Longrightarrow> consumes t u \<Longrightarrow> consumes s u"
  unfolding consumes_def by (metis append.assoc rev_append)

lemma star_greedy_consumes:
  assumes m: "\<And>s t. t \<in> set (m s) \<Longrightarrow> consumes s t" and "t \<in> set (star_greedy n m s)"
  shows "consumes s t"
  using assms(2)
proof (induction n arbitrary: s)
  case (Suc n)
  then consider "t = s" | u where "u \<in> set (m s)" "t \<in> set (star_greedy n m u)" by auto
  then show ?case by cases (use Suc.IH m consumes_trans in \<open>simp, blast\<close>)
qed simp

lemma star_lazy_consumes:
  assumes m: "\<And>s t. t \<in> set (m s) \<Longrightarrow> consumes s t" and "t \<in> set (star_lazy n m s)"
  shows "consumes s t"
  using assms(2)
proof (induction n arbitrary: s)
  case (Suc n)
  then consider "t = s" | u where "u \<in> set (m s)" "t \<in> set (star_lazy n m u)" by auto
  then show ?case by cases (use Suc.IH m consumes_trans in \<open>simp, blast\<close>)
qed simp

lemma rmatch_consumes: "t \<in> set (rmatch x s) \<Longrightarrow> consumes s t"
proof (induction x arbitrary: s t)
  case (One p)
  then show ?case by (cases s) (auto simp: consumes_def split: list.splits if_splits)
next
  case (Seq x y)
  then obtain u where "u \<in> set (rmatch x s)" "t \<in> set (rmatch y u)" by auto
  then show ?case using Seq.IH consumes_trans by blast
next
  case (Greedy x)
  from Greedy.prems have "t \<in> set (star_greedy (length (fst (snd s))) (rmatch x) s)" by simp
  from star_greedy_consumes [of "rmatch x", OF Greedy.IH this] show ?case .
next
  case (Lazy x)
  from Lazy.prems have "t \<in> set (star_lazy (length (fst (snd s))) (rmatch x) s)" by simp
  from star_lazy_consumes [of "rmatch x", OF Lazy.IH this] show ?case .
next
  case (Cap n x)
  then obtain u where "u \<in> set (rmatch x s)" "fst t = fst u" "fst (snd t) = fst (snd u)" by auto
  then show ?case using Cap.IH [of u s] by (simp add: consumes_def)
next
  case At_Start
  then show ?case by (cases s) (auto split: if_splits)
next
  case At_End
  then show ?case by (cases s) (auto split: if_splits)
next
  case Line_Start
  then show ?case by (cases s) (auto split: if_splits)
next
  case Line_End
  then show ?case by (cases s) (auto split: if_splits)
next
  case Word_Boundary
  then show ?case by (cases s) (auto split: if_splits)
next
  case (Ahead x)
  then show ?case by (cases s) (auto simp: consumes_def split: list.splits)
qed auto

end
