(* ===== verification/Plan_Layers.thy ===== *)
theory Plan_Layers
  imports Js_Regex
begin

text \<open>
  The execution layers of a plan, \<open>packages/agent/src/planLayers.ts\<close>: the task lines and
  \<open>Depends on\<close> lines of a Markdown plan become numbered nodes, and the nodes are grouped into
  layers that may run in parallel. Task numbers are \<^typ>\<open>nat\<close>: the sources build them from digit
  runs. A JavaScript \<open>Set\<close> is a distinct list in insertion order.
\<close>

section \<open>Nodes\<close>

record plan_task_node =
  number :: nat
  description :: string
  phase :: nat
  explicitDependencies :: "nat list"
  completed :: bool

definition js_set :: "'a list \<Rightarrow> 'a list" where
  "js_set xs = rev (remdups (rev xs))"

fun digit_value :: "char \<Rightarrow> nat" where
  "digit_value c = of_char c - 48"

definition number_of :: "string \<Rightarrow> nat" where
  "number_of s = foldl (\<lambda>n c. 10 * n + digit_value c) 0 s"

fun digit_runs :: "string \<Rightarrow> string \<Rightarrow> string list" where
  "digit_runs [] run = (if run = [] then [] else [rev run])"
| "digit_runs (c # cs) run =
     (if digit c then digit_runs cs (c # run)
      else if run = [] then digit_runs cs [] else rev run # digit_runs cs [])"

text \<open>A numeral from here on rounds to infinity, and \<open>Number.isFinite\<close> drops it; a smaller one stands for itself.\<close>

definition finite_number :: "nat \<Rightarrow> bool" where
  "finite_number n \<longleftrightarrow> int n < 2 ^ 1024 - 2 ^ 970"

definition extractDependencyNumbers :: "string \<Rightarrow> nat list" where
  "extractDependencyNumbers raw = sort (js_set (filter finite_number (map number_of (digit_runs raw []))))"

section \<open>Task lines\<close>

definition sp :: rx where "sp = Greedy (One js_space)"

definition sp1 :: rx where "sp1 = rx_plus (One js_space)"

definition chr :: "string \<Rightarrow> rx" where "chr cs = One (\<lambda>c. c \<in> set cs)"

definition heading_prefix :: rx where
  "heading_prefix = rseq [At_Start, sp, Seq (chr ''#'') (upto_times 5 (chr ''#'')), sp]"

definition checkbox :: rx where
  "checkbox = rseq [rx_opt (Seq (chr ''-*'') sp), chr ''['', Cap 1 (chr '' xX~!''), chr '']'', sp1]"

definition trailing_parens :: rx where
  "trailing_parens = rseq
     [rx_opt (rseq [chr ''('', Cap 4 (Greedy (One (\<lambda>c. c \<noteq> CHR '')''))), chr '')'']), sp, At_End]"

definition boldCheckboxTask :: rx where
  "boldCheckboxTask = rseq [At_Start, checkbox, lit ''**'', lit_i ''Task'', sp1,
     Cap 2 (rx_plus (One digit)), sp, chr '':'', sp, Cap 3 (Seq (One dot) (Lazy (One dot))),
     lit ''**'', sp, trailing_parens]"

definition plainCheckboxTask :: rx where
  "plainCheckboxTask = rseq [At_Start, checkbox, lit_i ''Task'', sp1,
     Cap 2 (rx_plus (One digit)), sp, chr '':'', sp, Cap 3 (Seq (One dot) (Lazy (One dot))),
     sp, trailing_parens]"

record inline_task =
  it_number :: nat
  it_description :: string
  inlineDeps :: "nat list"
  it_completed :: bool

definition task_of_match :: "(nat \<times> string) list \<Rightarrow> inline_task" where
  "task_of_match m = \<lparr>it_number = number_of (capture 2 m), it_description = js_trim (capture 3 m),
     inlineDeps = extractDependencyNumbers (capture 4 m),
     it_completed = (js_lower (capture 1 m) = ''x'')\<rparr>"

definition parseInlineTask :: "string \<Rightarrow> inline_task option" where
  "parseInlineTask line =
     (let normalizedLine = js_trim (remove_first heading_prefix line) in
      case js_match boldCheckboxTask normalizedLine of
        Some m \<Rightarrow> Some (task_of_match m)
      | None \<Rightarrow> map_option task_of_match (js_match plainCheckboxTask normalizedLine))"

section \<open>Plans\<close>

definition phaseHeading :: "string \<Rightarrow> rx" where
  "phaseHeading hashes = rseq [At_Start, sp, lit hashes, sp1, lit_i ''Phase'', Word_Boundary]"

definition is_phase :: "string \<Rightarrow> bool" where
  "is_phase line \<longleftrightarrow> js_test (phaseHeading ''###'') line \<or> js_test (phaseHeading ''##'') line"

definition dependsOn :: rx where
  "dependsOn = rseq [lit_i ''depends on'', sp, rx_opt (chr '':''), sp, Cap 1 (rx_plus (One dot)), At_End]"

record parse_state =
  tasksByNumber :: "(nat \<times> plan_task_node) list"
  phaseOrder :: "nat list"
  currentPhase :: nat
  currentTaskNumber :: "nat option"

definition add_task :: "inline_task \<Rightarrow> parse_state \<Rightarrow> parse_state" where
  "add_task t st =
     (let existing = map_of (tasksByNumber st) (it_number t);
          deps = js_set (js_set (inlineDeps t) @
            (case existing of Some n \<Rightarrow> explicitDependencies n | None \<Rightarrow> []))
      in st\<lparr>tasksByNumber := map_set (it_number t)
              \<lparr>number = it_number t, description = it_description t, phase = currentPhase st,
               explicitDependencies = sort deps, completed = it_completed t\<rparr> (tasksByNumber st),
            currentTaskNumber := Some (it_number t),
            phaseOrder := phaseOrder st @ [currentPhase st]\<rparr>)"

definition add_dependencies :: "string \<Rightarrow> parse_state \<Rightarrow> parse_state" where
  "add_dependencies line st =
     (case currentTaskNumber st of
        None \<Rightarrow> st
      | Some cur \<Rightarrow>
          (case js_match dependsOn (filter (\<lambda>c. c \<noteq> CHR ''*'') line) of
             None \<Rightarrow> st
           | Some m \<Rightarrow>
               let deps = extractDependencyNumbers (capture 1 m) in
               if deps = [] then st
               else (case map_of (tasksByNumber st) cur of
                   None \<Rightarrow> st
                 | Some node \<Rightarrow> st\<lparr>tasksByNumber := map_set cur
                     (node\<lparr>explicitDependencies := sort (js_set (explicitDependencies node @ deps))\<rparr>)
                     (tasksByNumber st)\<rparr>)))"

definition parse_line :: "parse_state \<Rightarrow> string \<Rightarrow> parse_state" where
  "parse_line st line =
     (if is_phase line then st\<lparr>currentPhase := currentPhase st + 1\<rparr>
      else (case parseInlineTask line of
          Some t \<Rightarrow> add_task t st
        | None \<Rightarrow> add_dependencies line st))"

fun split_lines :: "string \<Rightarrow> string list" where
  "split_lines [] = [[]]"
| "split_lines (c # cs) =
     (if c = CHR 0x0A then [] # split_lines cs
      else (case split_lines cs of l # ls \<Rightarrow> (c # l) # ls | [] \<Rightarrow> [[c]]))"

definition normalize_nodes :: "parse_state \<Rightarrow> plan_task_node list" where
  "normalize_nodes st =
     (let tasks = sort_key number (map snd (tasksByNumber st));
          knownNumbers = map number tasks;
          hasPhases = (\<exists>p \<in> set (phaseOrder st). 0 < p)
      in map (\<lambda>t. t\<lparr>phase := (if hasPhases then phase t else 0),
           explicitDependencies := filter (\<lambda>dep. dep \<noteq> number t \<and> dep \<in> set knownNumbers)
             (explicitDependencies t)\<rparr>) tasks)"

definition parsePlanTasks :: "string \<Rightarrow> plan_task_node list" where
  "parsePlanTasks planText =
     normalize_nodes (foldl parse_line
       \<lparr>tasksByNumber = [], phaseOrder = [], currentPhase = 0, currentTaskNumber = None\<rparr>
       (split_lines planText))"

section \<open>Layers\<close>

definition by_phase :: "plan_task_node list \<Rightarrow> (nat \<times> nat list) list" where
  "by_phase tasks = foldl (\<lambda>m t.
     map_set (phase t) ((case map_of m (phase t) of Some l \<Rightarrow> l | None \<Rightarrow> []) @ [number t]) m) [] tasks"

definition resolve_task ::
    "plan_task_node list \<Rightarrow> nat list \<Rightarrow> (nat \<times> nat list) list \<Rightarrow> nat \<Rightarrow> (nat \<times> nat list) list" where
  "resolve_task tasks prior deps n =
     (case List.find (\<lambda>t. number t = n) tasks of
        None \<Rightarrow> deps
      | Some t \<Rightarrow>
          if explicitDependencies t \<noteq> [] then map_set (number t) (js_set (explicitDependencies t)) deps
          else map_set (number t) (js_set prior) deps)"

definition buildResolvedDependencies :: "plan_task_node list \<Rightarrow> (nat \<times> nat list) list" where
  "buildResolvedDependencies tasks =
     (let byPhase = by_phase tasks in
      fst (foldl (\<lambda>(deps, prior) p.
          let taskNumbers = (case map_of byPhase p of Some l \<Rightarrow> l | None \<Rightarrow> []) in
          (foldl (resolve_task tasks prior) deps taskNumbers, prior @ taskNumbers))
        ([], []) (sort (map fst byPhase))))"

definition deps_of :: "(nat \<times> nat list) list \<Rightarrow> nat \<Rightarrow> nat list" where
  "deps_of depsByTask n = (case map_of depsByTask n of Some l \<Rightarrow> l | None \<Rightarrow> [])"

definition ready_tasks :: "(nat \<times> nat list) list \<Rightarrow> nat list \<Rightarrow> nat list" where
  "ready_tasks depsByTask remaining =
     filter (\<lambda>n. \<forall>dep \<in> set (deps_of depsByTask n). dep \<notin> set remaining) remaining"

function layer_loop :: "(nat \<times> nat list) list \<Rightarrow> nat list \<Rightarrow> nat list list" where
  "layer_loop depsByTask remaining =
     (if remaining = [] then []
      else
        let ready = ready_tasks depsByTask remaining in
        if ready = [] then
          let fallback = hd (sort remaining) in
          [fallback] # layer_loop depsByTask (filter (\<lambda>n. n \<noteq> fallback) remaining)
        else sort ready # layer_loop depsByTask (filter (\<lambda>n. n \<notin> set ready) remaining))"
  by pat_completeness auto

lemma ready_sub: "set (ready_tasks deps remaining) \<subseteq> set remaining"
  by (auto simp: ready_tasks_def)

lemma filter_shorter: "x \<in> set xs \<Longrightarrow> \<not> P x \<Longrightarrow> length (filter P xs) < length xs"
  by (induction xs) (auto simp: le_imp_less_Suc)

termination layer_loop
proof (relation "measure (\<lambda>(d, r). length r)")
  fix deps remaining fallback
  assume "remaining \<noteq> []" "fallback = hd (sort remaining)"
  then have "fallback \<in> set remaining" by (metis hd_in_set set_sort sort_key_simps(1) set_empty)
  then show "((deps, filter (\<lambda>n. n \<noteq> fallback) remaining), deps, remaining) \<in> measure (\<lambda>(d, r). length r)"
    by (auto intro: filter_shorter)
next
  fix deps remaining ready
  assume "ready = ready_tasks deps remaining" "ready \<noteq> []"
  then have "hd ready \<in> set remaining" "hd ready \<in> set ready"
    using ready_sub [of deps remaining] by auto
  then show "((deps, filter (\<lambda>n. n \<notin> set ready) remaining), deps, remaining) \<in> measure (\<lambda>(d, r). length r)"
    by (auto intro: filter_shorter)
qed auto

declare layer_loop.simps [simp del]

definition computeExecutionLayers :: "plan_task_node list \<Rightarrow> nat list list" where
  "computeExecutionLayers tasks =
     (if tasks = [] then []
      else layer_loop (buildResolvedDependencies tasks) (js_set (map number tasks)))"

definition computePlanLayers :: "string \<Rightarrow> plan_task_node list \<times> nat list list" where
  "computePlanLayers planText =
     (let tasks = parsePlanTasks planText in (tasks, computeExecutionLayers tasks))"

definition pending_tasks :: "plan_task_node list \<Rightarrow> plan_task_node list" where
  "pending_tasks allTasks =
     (let completedNumbers = map number (filter completed allTasks) in
      map (\<lambda>t. t\<lparr>explicitDependencies :=
          filter (\<lambda>dep. dep \<notin> set completedNumbers) (explicitDependencies t)\<rparr>)
        (filter (\<lambda>t. \<not> completed t) allTasks))"

definition computePendingPlanLayers :: "string \<Rightarrow> plan_task_node list \<times> nat list list" where
  "computePendingPlanLayers planText =
     (let pendingTasks = pending_tasks (parsePlanTasks planText) in
      (pendingTasks, computeExecutionLayers pendingTasks))"

fun layer_lines :: "nat \<Rightarrow> nat list list \<Rightarrow> string list" where
  "layer_lines i [] = []"
| "layer_lines i (l # ls) =
     (''Layer '' @ string_of_nat (i + 1) @ '' ('' @ (if 1 < length l then ''parallel'' else ''sequential'') @
      ''): tasks '' @ js_join '', '' (map string_of_nat l)) # layer_lines (i + 1) ls"

definition formatLayerSummary :: "nat list list \<Rightarrow> string" where
  "formatLayerSummary layers =
     (if layers = [] then ''No parsed execution layers were detected.''
      else js_join [CHR 0x0A] (layer_lines 0 layers))"

section \<open>Parsed nodes\<close>

lemma set_js_set [simp]: "set (js_set xs) = set xs" by (simp add: js_set_def)

lemma distinct_js_set [simp]: "distinct (js_set xs)" by (simp add: js_set_def)

lemma js_set_distinct: "distinct xs \<Longrightarrow> js_set xs = xs" by (simp add: js_set_def distinct_remdups_id)

definition parse_ok :: "parse_state \<Rightarrow> bool" where
  "parse_ok st \<longleftrightarrow> distinct (map fst (tasksByNumber st)) \<and>
     (\<forall>(k, t) \<in> set (tasksByNumber st). number t = k \<and> sorted_wrt (<) (explicitDependencies t))"

lemma set_map_set: "(k', v') \<in> set (map_set k v m) \<Longrightarrow> (k', v') = (k, v) \<or> (k', v') \<in> set m"
  by (induction k v m rule: map_set.induct) (auto split: if_splits)

lemma strict_sorted_sort: "distinct xs \<Longrightarrow> sorted_wrt (<) (sort xs :: nat list)"
  by (simp add: strict_sorted_iff)

lemma parse_ok_map_set:
  "parse_ok st \<Longrightarrow> number t = k \<Longrightarrow> sorted_wrt (<) (explicitDependencies t) \<Longrightarrow>
   parse_ok (st\<lparr>tasksByNumber := map_set k t (tasksByNumber st)\<rparr>)"
  by (auto simp: parse_ok_def distinct_map_set dest: set_map_set)

lemma parse_ok_frame:
  "tasksByNumber st = tasksByNumber st' \<Longrightarrow> parse_ok st = parse_ok st'"
  by (simp add: parse_ok_def)

lemma parse_ok_add_task: "parse_ok st \<Longrightarrow> parse_ok (add_task t st)"
proof -
  assume ok: "parse_ok st"
  let ?deps = "js_set (js_set (inlineDeps t) @
    (case map_of (tasksByNumber st) (it_number t) of Some n \<Rightarrow> explicitDependencies n | None \<Rightarrow> []))"
  let ?n = "\<lparr>number = it_number t, description = it_description t, phase = currentPhase st,
               explicitDependencies = sort ?deps, completed = it_completed t\<rparr>"
  have "parse_ok (st\<lparr>tasksByNumber := map_set (it_number t) ?n (tasksByNumber st)\<rparr>)"
    by (rule parse_ok_map_set [OF ok]) (simp_all add: strict_sorted_sort del: set_js_set)
  then show ?thesis by (simp add: add_task_def Let_def parse_ok_def)
qed

lemma parse_ok_add_dependencies:
  assumes "parse_ok st"
  shows "parse_ok (add_dependencies line st)"
proof -
  have "parse_ok (st\<lparr>tasksByNumber := map_set cur
      (node\<lparr>explicitDependencies := sort (js_set (explicitDependencies node @ deps))\<rparr>) (tasksByNumber st)\<rparr>)"
    if "map_of (tasksByNumber st) cur = Some node" for cur node deps
  proof (rule parse_ok_map_set [OF assms])
    show "number (node\<lparr>explicitDependencies := sort (js_set (explicitDependencies node @ deps))\<rparr>) = cur"
      using map_of_SomeD [OF that] assms by (auto simp: parse_ok_def)
  qed (simp add: strict_sorted_sort)
  then show ?thesis using assms by (simp add: add_dependencies_def Let_def split: option.split)
qed

lemma parse_ok_parse_line: "parse_ok st \<Longrightarrow> parse_ok (parse_line st line)"
  using parse_ok_frame [of "st\<lparr>currentPhase := currentPhase st + 1\<rparr>" st]
  by (simp add: parse_line_def parse_ok_add_task parse_ok_add_dependencies split: option.split)

lemma parse_ok_foldl: "parse_ok st \<Longrightarrow> parse_ok (foldl parse_line st ls)"
  by (induction ls arbitrary: st) (auto intro: parse_ok_parse_line)

definition plan_ok :: "plan_task_node list \<Rightarrow> bool" where
  "plan_ok ts \<longleftrightarrow> sorted_wrt (<) (map number ts) \<and>
     (\<forall>t \<in> set ts. sorted_wrt (<) (explicitDependencies t) \<and>
        set (explicitDependencies t) \<subseteq> number ` set ts - {number t})"

lemma plan_ok_normalize:
  assumes "parse_ok st"
  shows "plan_ok (normalize_nodes st)"
proof -
  let ?ts = "map snd (tasksByNumber st)"
  have keys: "map number ?ts = map fst (tasksByNumber st)" using assms by (auto simp: parse_ok_def)
  have "sorted_wrt (<) (map number (sort_key number ?ts))"
    unfolding strict_sorted_iff
  proof
    have "distinct (map number ?ts)" unfolding keys using assms by (simp add: parse_ok_def)
    then show "distinct (map number (sort_key number ?ts))" by (simp only: distinct_map_sort_key)
  qed simp
  moreover have "sorted_wrt (<) (explicitDependencies (snd x))" if "x \<in> set (tasksByNumber st)" for x
    using assms that by (cases x) (auto simp: parse_ok_def)
  ultimately show ?thesis
    by (auto simp: plan_ok_def normalize_nodes_def Let_def comp_def image_image
        intro!: sorted_wrt_filter)
qed

lemma plan_ok_pending:
  assumes "plan_ok ts"
  shows "plan_ok (pending_tasks ts)"
proof -
  have nums: "map number (pending_tasks ts) = map number (filter (\<lambda>t. \<not> completed t) ts)"
    by (simp add: pending_tasks_def Let_def)
  have "sorted_wrt (<) (map number (pending_tasks ts))"
    unfolding nums using assms sorted_wrt_filter [of "\<lambda>a b. number a < number b" ts]
    by (simp add: plan_ok_def sorted_wrt_map)
  moreover have "number ` set (pending_tasks ts) = {number t | t. t \<in> set ts \<and> \<not> completed t}"
    using arg_cong [OF nums, of set] by (simp, blast)
  moreover have "sorted_wrt (<) (explicitDependencies t) \<and>
      set (explicitDependencies t) \<subseteq> {number t | t. t \<in> set ts \<and> \<not> completed t} - {number t}"
    if t: "t \<in> set (pending_tasks ts)" for t
  proof -
    obtain u where u: "u \<in> set ts" "number t = number u" "explicitDependencies t =
        filter (\<lambda>dep. dep \<notin> number ` set (filter completed ts)) (explicitDependencies u)"
      using t by (auto simp: pending_tasks_def Let_def)
    have "sorted_wrt (<) (explicitDependencies u)" "set (explicitDependencies u) \<subseteq> number ` set ts - {number u}"
      using assms u(1) by (auto simp: plan_ok_def)
    then show ?thesis using u(2,3) by (auto intro: sorted_wrt_filter)
  qed
  ultimately show ?thesis by (simp add: plan_ok_def)
qed

section \<open>What the layers mean\<close>

text \<open>
  The resolved dependencies: a task with explicit dependencies depends on those, any other on all
  tasks of the earlier phases.
\<close>

definition depends_on :: "plan_task_node list \<Rightarrow> nat \<Rightarrow> nat \<Rightarrow> bool" where
  "depends_on ts n m \<longleftrightarrow> (\<exists>t \<in> set ts. number t = n \<and>
     (if explicitDependencies t \<noteq> [] then m \<in> set (explicitDependencies t)
      else \<exists>u \<in> set ts. phase u < phase t \<and> number u = m))"

lemma by_phase_snoc:
  "by_phase (ts @ [t]) = map_set (phase t)
     ((case map_of (by_phase ts) (phase t) of Some l \<Rightarrow> l | None \<Rightarrow> []) @ [number t]) (by_phase ts)"
  by (simp add: by_phase_def)

lemma by_phase_keys: "set (map fst (by_phase ts)) = phase ` set ts \<and> distinct (map fst (by_phase ts))"
proof (induction ts rule: rev_induct)
  case (snoc t ts)
  then show ?case by (auto simp: by_phase_snoc distinct_map_set)
qed (simp add: by_phase_def)

lemma by_phase_numbers:
  "(case map_of (by_phase ts) p of Some l \<Rightarrow> l | None \<Rightarrow> []) = map number (filter (\<lambda>t. phase t = p) ts)"
proof (induction ts rule: rev_induct)
  case (snoc t ts)
  then show ?case by (auto simp: by_phase_snoc)
qed (simp add: by_phase_def)

lemma resolve_all:
  assumes "distinct (map number ts)" "t \<in> set ts"
  shows "set (deps_of (foldl (resolve_task ts prior) deps ns) (number t)) =
    (if number t \<in> set ns then
       (if explicitDependencies t \<noteq> [] then set (explicitDependencies t) else set prior)
     else set (deps_of deps (number t)))"
proof (induction ns arbitrary: deps)
  case (Cons n ns)
  have f: "List.find (\<lambda>u. number u = number t) ts = Some t"
    using assms by (induction ts) auto
  have "set (deps_of (resolve_task ts prior deps n) (number t)) = (if n = number t then
      (if explicitDependencies t \<noteq> [] then set (explicitDependencies t) else set prior)
     else set (deps_of deps (number t)))"
  proof (cases "List.find (\<lambda>u. number u = n) ts")
    case None
    then have "n \<noteq> number t" using f by auto
    then show ?thesis using None by (simp add: resolve_task_def)
  next
    case (Some u)
    then have "number u = n" using find_Some_iff_filter by fastforce
    moreover have "n = number t \<Longrightarrow> u = t" using f Some by simp
    ultimately show ?thesis using Some by (auto simp: resolve_task_def deps_of_def)
  qed
  then show ?case using Cons by auto
qed simp

definition phase_step ::
    "plan_task_node list \<Rightarrow> (nat \<times> nat list) list \<times> nat list \<Rightarrow> nat \<Rightarrow> (nat \<times> nat list) list \<times> nat list" where
  "phase_step ts = (\<lambda>(deps, prior) p.
     let ns = map number (filter (\<lambda>t. phase t = p) ts) in
     (foldl (resolve_task ts prior) deps ns, prior @ ns))"

lemma phases_resolved:
  assumes "distinct (map number ts)" "t \<in> set ts" "sorted_wrt (<) ps"
  shows "set (deps_of (fst (foldl (phase_step ts) (deps, prior) ps)) (number t)) =
    (if phase t \<in> set ps then
       (if explicitDependencies t \<noteq> [] then set (explicitDependencies t)
        else set prior \<union> {number u | u. u \<in> set ts \<and> phase u \<in> set ps \<and> phase u < phase t})
     else set (deps_of deps (number t)))"
  using assms(3)
proof (induction ps arbitrary: deps prior)
  case (Cons p ps)
  let ?ns = "map number (filter (\<lambda>t. phase t = p) ts)"
  have ns: "number t \<in> set ?ns \<longleftrightarrow> phase t = p"
    using assms(1,2) by (auto simp: distinct_map dest: inj_onD)
  have p: "p < q" if "q \<in> set ps" for q using Cons.prems that by simp
  note IH = Cons.IH [of "foldl (resolve_task ts prior) deps ?ns" "prior @ ?ns"]
  have fold: "foldl (phase_step ts) (deps, prior) (p # ps) =
      foldl (phase_step ts) (foldl (resolve_task ts prior) deps ?ns, prior @ ?ns) ps"
    by (simp add: phase_step_def Let_def)
  note ra = resolve_all [OF assms(1,2), of prior deps ?ns]
  show ?case
  proof (cases "phase t = p")
    case True
    then have "phase t \<notin> set ps" using p by auto
    moreover have "{number u | u. u \<in> set ts \<and> phase u \<in> set (p # ps) \<and> phase u < phase t} = {}"
      using True p by force
    ultimately show ?thesis unfolding fold using IH Cons.prems True ns ra by (simp only: sorted_wrt.simps) auto
  next
    case False
    have "set (prior @ ?ns) \<union> {number u | u. u \<in> set ts \<and> phase u \<in> set ps \<and> phase u < phase t} =
        set prior \<union> {number u | u. u \<in> set ts \<and> phase u \<in> set (p # ps) \<and> phase u < phase t}"
      if "phase t \<in> set ps" using p [OF that] by auto
    moreover have "number t \<notin> set ?ns" using ns False by blast
    ultimately show ?thesis unfolding fold using IH Cons.prems False ra by (simp only: sorted_wrt.simps) simp
  qed
qed simp

lemma resolved_dependencies:
  assumes "distinct (map number ts)" "n \<in> number ` set ts"
  shows "m \<in> set (deps_of (buildResolvedDependencies ts) n) \<longleftrightarrow> depends_on ts n m"
proof -
  obtain t where t: "t \<in> set ts" "n = number t" using assms(2) by auto
  have u: "v = t" if "v \<in> set ts" "number v = n" for v
    using assms(1) t that by (auto simp: distinct_map dest: inj_onD)
  let ?ps = "sort (map fst (by_phase ts))"
  have ps: "sorted_wrt (<) ?ps" "set ?ps = phase ` set ts"
    using by_phase_keys [of ts] by (simp_all add: strict_sorted_iff)
  have "buildResolvedDependencies ts = fst (foldl (phase_step ts) ([], []) ?ps)"
    by (simp add: buildResolvedDependencies_def phase_step_def by_phase_numbers Let_def)
  then have "set (deps_of (buildResolvedDependencies ts) n) =
      (if explicitDependencies t \<noteq> [] then set (explicitDependencies t)
       else {number u | u. u \<in> set ts \<and> phase u \<in> set ?ps \<and> phase u < phase t})"
    using phases_resolved [OF assms(1) t(1) ps(1), of "[]" "[]"] t unfolding ps(2) by simp
  moreover have "depends_on ts n m \<longleftrightarrow> (if explicitDependencies t \<noteq> [] then m \<in> set (explicitDependencies t)
      else \<exists>u \<in> set ts. phase u < phase t \<and> number u = m)"
    unfolding depends_on_def using t u by metis
  ultimately show ?thesis unfolding ps(2) by auto
qed

text \<open>The loop over the remaining tasks.\<close>

lemma hd_sort_Min: "xs \<noteq> [] \<Longrightarrow> hd (sort xs) = Min (set (xs :: nat list))"
proof -
  assume "xs \<noteq> []"
  then obtain y ys where y: "sort xs = y # ys" by (metis list.exhaust set_empty set_sort)
  then have "y \<in> set xs" "\<forall>z \<in> set xs. y \<le> z"
    using sorted_sort [of xs] by (metis list.set_intros(1) set_sort, metis set_ConsD set_sort sorted_simps(2) order_refl)
  then show ?thesis using y by (auto intro: Min_eqI [symmetric])
qed

lemma layer_loop_Cons:
  assumes "remaining \<noteq> []"
  shows "\<exists>l. layer_loop deps remaining = l # layer_loop deps (filter (\<lambda>n. n \<notin> set l) remaining) \<and>
    l \<noteq> [] \<and> sorted l \<and> set l \<subseteq> set remaining \<and> (distinct remaining \<longrightarrow> distinct l) \<and>
    (if ready_tasks deps remaining = [] then l = [Min (set remaining)]
     else set l = set (ready_tasks deps remaining))"
proof (cases "ready_tasks deps remaining = []")
  case True
  have "hd (sort remaining) = Min (set remaining)"
    using assms by (rule hd_sort_Min)
  then show ?thesis
    using True assms by (subst layer_loop.simps) (auto simp: Let_def)
next
  case False
  moreover have "sort (ready_tasks deps remaining) \<noteq> []" using False by (metis set_empty set_sort)
  moreover have "distinct remaining \<Longrightarrow> distinct (ready_tasks deps remaining)" by (simp add: ready_tasks_def)
  ultimately show ?thesis
    using assms ready_sub [of deps remaining]
    by (subst layer_loop.simps) (intro exI [of _ "sort (ready_tasks deps remaining)"], simp add: Let_def)
qed

lemma layer_loop_partition:
  "distinct R \<Longrightarrow> distinct (concat (layer_loop deps R)) \<and> set (concat (layer_loop deps R)) = set R \<and>
     list_all (\<lambda>l. l \<noteq> [] \<and> sorted l) (layer_loop deps R)"
proof (induction R rule: length_induct)
  case (1 R)
  show ?case
  proof (cases "R = []")
    case True
    then show ?thesis by (simp add: layer_loop.simps)
  next
    case False
    obtain l where l: "layer_loop deps R = l # layer_loop deps (filter (\<lambda>n. n \<notin> set l) R)" "l \<noteq> []"
      "sorted l" "set l \<subseteq> set R" "distinct l"
      using layer_loop_Cons [OF False, of deps] 1(2) by blast
    then have "length (filter (\<lambda>n. n \<notin> set l) R) < length R"
      using filter_shorter [of "hd l" R "\<lambda>n. n \<notin> set l"] by (simp add: subset_iff)
    then show ?thesis using 1 l by auto
  qed
qed

text \<open>
  When the dependencies between the remaining tasks have no cycle, some task is always ready and
  each layer is the set of all tasks that wait for nothing else.
\<close>

lemma layer_loop_layers:
  assumes "\<And>n m. n \<in> set R \<Longrightarrow> m \<in> set R \<Longrightarrow> m \<in> set (deps_of deps n) \<Longrightarrow> rank m < (rank n :: nat)"
    "layer_loop deps R = A @ l # B"
  shows "set l = {n \<in> set R. n \<notin> set (concat A) \<and>
    (\<forall>m \<in> set R. m \<in> set (deps_of deps n) \<longrightarrow> m \<in> set (concat A))}"
  using assms
proof (induction A arbitrary: R)
  case Nil
  then have ne: "R \<noteq> []" by (auto simp: layer_loop.simps)
  obtain n where n: "n \<in> set R" "\<forall>m \<in> set R. rank n \<le> rank m"
    using ne ex_has_least_nat [of "\<lambda>n. n \<in> set R" "hd R" rank] by auto
  then have "n \<in> set (ready_tasks deps R)" using Nil.prems(1) by (fastforce simp: ready_tasks_def)
  then have "set l = set (ready_tasks deps R)"
    using layer_loop_Cons [OF ne, of deps] Nil.prems(2) by (auto split: if_splits)
  then show ?case by (auto simp: ready_tasks_def)
next
  case (Cons a A)
  then have ne: "R \<noteq> []" by (auto simp: layer_loop.simps)
  let ?R = "filter (\<lambda>n. n \<notin> set a) R"
  have "layer_loop deps ?R = A @ l # B"
    using layer_loop_Cons [OF ne, of deps] Cons.prems(2) by auto
  then have "set l = {n \<in> set ?R. n \<notin> set (concat A) \<and>
      (\<forall>m \<in> set ?R. m \<in> set (deps_of deps n) \<longrightarrow> m \<in> set (concat A))}"
    by (intro Cons.IH) (use Cons.prems(1) in auto)
  then show ?case by auto
qed

section \<open>Properties\<close>

text \<open>
  C38: a parsed plan is well formed, whatever its text. Task numbers are strictly increasing, so
  each occurs once, and the explicit dependencies of a task are strictly increasing numbers of
  other tasks of the plan.
\<close>

theorem parsed_plan_is_wellformed: "plan_ok (parsePlanTasks planText)"
  unfolding parsePlanTasks_def
  by (intro plan_ok_normalize parse_ok_foldl) (simp add: parse_ok_def)

text \<open>
  The layers are a partition. Whatever the dependencies are, cyclic ones included, the loop
  ends, every task number occurs in exactly one layer and nothing else does, and no layer is
  empty or out of order.
\<close>

theorem layers_partition_the_tasks:
  "distinct (concat (computeExecutionLayers ts)) \<and>
   set (concat (computeExecutionLayers ts)) = number ` set ts \<and>
   list_all (\<lambda>l. l \<noteq> [] \<and> sorted l) (computeExecutionLayers ts)"
proof (cases "ts = []")
  case False
  then show ?thesis
    using layer_loop_partition [of "js_set (map number ts)" "buildResolvedDependencies ts"]
    by (simp add: computeExecutionLayers_def)
qed (simp add: computeExecutionLayers_def)

text \<open>
  C29: the layers follow the dependencies. Where these have no cycle (some rank grows along them),
  each layer holds exactly the tasks that are in no earlier layer and whose dependencies within the
  plan all are: nothing starts before what it waits for, and nothing waits longer than that.
\<close>

theorem layers_follow_dependencies:
  assumes "distinct (map number ts)"
    "\<And>n m. n \<in> number ` set ts \<Longrightarrow> m \<in> number ` set ts \<Longrightarrow> depends_on ts n m \<Longrightarrow> rank m < (rank n :: nat)"
    "computeExecutionLayers ts = A @ l # B"
  shows "set l = {n \<in> number ` set ts. n \<notin> set (concat A) \<and>
    (\<forall>m \<in> number ` set ts. depends_on ts n m \<longrightarrow> m \<in> set (concat A))}"
proof -
  let ?R = "js_set (map number ts)" and ?D = "buildResolvedDependencies ts"
  have R: "set ?R = number ` set ts" by simp
  have loop: "layer_loop ?D ?R = A @ l # B" using assms(3) by (simp add: computeExecutionLayers_def split: if_splits)
  have "set l = {n \<in> set ?R. n \<notin> set (concat A) \<and>
      (\<forall>m \<in> set ?R. m \<in> set (deps_of ?D n) \<longrightarrow> m \<in> set (concat A))}"
    by (rule layer_loop_layers [OF _ loop, of rank])
      (use assms(2) resolved_dependencies [OF assms(1)] in \<open>unfold R, blast\<close>)
  also have "\<dots> = {n \<in> number ` set ts. n \<notin> set (concat A) \<and>
      (\<forall>m \<in> number ` set ts. depends_on ts n m \<longrightarrow> m \<in> set (concat A))}"
    unfolding R using resolved_dependencies [OF assms(1)] by blast
  finally show ?thesis .
qed

definition demo_node :: "nat \<Rightarrow> nat \<Rightarrow> nat list \<Rightarrow> bool \<Rightarrow> plan_task_node" where
  "demo_node n p deps c = \<lparr>number = n, description = ''d'', phase = p, explicitDependencies = deps, completed = c\<rparr>"

definition demo_plan :: "plan_task_node list" where
  "demo_plan = [demo_node 1 1 [] False, demo_node 2 1 [1] False, demo_node 3 2 [] False]"

lemma demo_plan_facts:
  "number ` set demo_plan = {1, 2, 3}" "distinct (map number demo_plan)"
  "depends_on demo_plan a b \<longleftrightarrow> (a, b) \<in> {(2, 1), (3, 1), (3, 2)}"
  by (auto simp: demo_plan_def demo_node_def depends_on_def)

theorem layers_follow_dependencies_witness:
  "computeExecutionLayers demo_plan = [[1], [2], [3]] \<and> depends_on demo_plan 3 2 \<and>
   (2::nat) \<in> set (concat [[1], [2]])"
proof -
  have 1: "computeExecutionLayers demo_plan = [[1], [2]] @ [3] # []" by code_simp
  have "set [3] = {n \<in> number ` set demo_plan. n \<notin> set (concat [[1], [2]]) \<and>
      (\<forall>m \<in> number ` set demo_plan. depends_on demo_plan n m \<longrightarrow> m \<in> set (concat [[1], [2]]))}"
    by (rule layers_follow_dependencies [OF demo_plan_facts(2) _ 1, of "\<lambda>n. n"])
      (auto simp: demo_plan_facts(3))
  then have "3 \<in> {n \<in> number ` set demo_plan. n \<notin> set (concat [[1], [2]]) \<and>
      (\<forall>m \<in> number ` set demo_plan. depends_on demo_plan n m \<longrightarrow> m \<in> set (concat [[1], [2]]))}"
    by (metis list.set_intros(1))
  then show ?thesis using 1 by (simp add: demo_plan_facts)
qed

text \<open>
  The pending plan is the open part of the plan. Its layers hold exactly the tasks that are not
  completed, each once, and no open task keeps an explicit dependency on a completed one.
\<close>

theorem pending_layers_cover_open_tasks:
  "plan_ok (fst (computePendingPlanLayers planText)) \<and>
   distinct (concat (snd (computePendingPlanLayers planText))) \<and>
   set (concat (snd (computePendingPlanLayers planText))) =
     {number t | t. t \<in> set (parsePlanTasks planText) \<and> \<not> completed t}"
proof -
  let ?ts = "parsePlanTasks planText"
  have ok: "plan_ok ?ts"
    unfolding parsePlanTasks_def
    by (intro plan_ok_normalize parse_ok_foldl) (simp add: parse_ok_def)
  have nums: "map number (pending_tasks ?ts) = map number (filter (\<lambda>t. \<not> completed t) ?ts)"
    by (simp add: pending_tasks_def Let_def)
  have "plan_ok (pending_tasks ?ts)" by (rule plan_ok_pending [OF ok])
  moreover have "number ` set (pending_tasks ?ts) = {number t | t. t \<in> set ?ts \<and> \<not> completed t}"
    using arg_cong [OF nums, of set] by (simp, blast)
  moreover have "distinct (concat (computeExecutionLayers ts)) \<and>
      set (concat (computeExecutionLayers ts)) = number ` set ts" for ts
    using layer_loop_partition [of "js_set (map number ts)" "buildResolvedDependencies ts"]
    by (simp add: computeExecutionLayers_def)
  ultimately show ?thesis by (simp add: computePendingPlanLayers_def Let_def)
qed

text \<open>
  Two surprises. A plan with carriage returns loses its \<open>Depends on\<close> lines, since the dot of the
  pattern does not match the carriage return before the end. And a task whose explicit
  dependencies are all completed falls back to the phase rule, so that completing a dependency can
  delay it: below, task 3 waits for task 2 once task 1 is done.
\<close>

definition two_task_plan :: "string \<Rightarrow> string" where
  "two_task_plan eol = ''- [ ] Task 1: a'' @ eol @ ''- [ ] Task 2: b'' @ eol @ ''Depends on: 1'' @ eol"

lemma crlf_plan_loses_dependencies:
  "snd (computePlanLayers (two_task_plan [CHR 0x0A])) = [[1], [2]]"
  "snd (computePlanLayers (two_task_plan [CHR 0x0D, CHR 0x0A])) = [[1, 2]]"
  by code_simp+

lemma completed_dependency_becomes_phase_dependency:
  "computeExecutionLayers [demo_node 1 1 [] True, demo_node 2 1 [] False, demo_node 3 2 [1] False] = [[1, 2], [3]]"
  "computeExecutionLayers (pending_tasks
     [demo_node 1 1 [] True, demo_node 2 1 [] False, demo_node 3 2 [1] False]) = [[2], [3]]"
  "computeExecutionLayers (pending_tasks
     [demo_node 1 1 [] True, demo_node 2 1 [] False, demo_node 3 1 [1] False]) = [[2, 3]]"
  by code_simp+

end
