(* ===== verification/Js_Json.thy ===== *)
theory Js_Json
  imports Aif_Prelude
begin

text \<open>
  \<open>JSON.stringify\<close>, the text of a number, and the UTF-8 length of a text. The text of a number is
  exact for numbers with at most 17 digits after the point and below \<open>10 ^ 21\<close>.
\<close>

fun frac_digits :: "nat \<Rightarrow> rat \<Rightarrow> string" where
  "frac_digits 0 q = []"
| "frac_digits (Suc n) q =
     (if q = 0 then [] else digit_char (nat \<lfloor>10 * q\<rfloor>) # frac_digits n (10 * q - of_int \<lfloor>10 * q\<rfloor>))"

definition js_number_text :: "rat \<Rightarrow> string" where
  "js_number_text q =
     (if of_int \<lfloor>q\<rfloor> = q then string_of_int \<lfloor>q\<rfloor>
      else (if q < 0 then ''-'' else []) @ string_of_int \<lfloor>\<bar>q\<bar>\<rfloor> @ ''.'' @
        frac_digits 17 (\<bar>q\<bar> - of_int \<lfloor>\<bar>q\<bar>\<rfloor>))"

definition hex_digit :: "nat \<Rightarrow> char" where
  "hex_digit n = (if n < 10 then char_of (48 + n) else char_of (87 + n))"

definition json_char :: "char \<Rightarrow> string" where
  "json_char c = (let n = (of_char c :: nat) in
     if n = 34 then [CHR 0x5C, c] else if n = 92 then [CHR 0x5C, c]
     else if n = 8 then [CHR 0x5C, CHR ''b''] else if n = 9 then [CHR 0x5C, CHR ''t'']
     else if n = 10 then [CHR 0x5C, CHR ''n''] else if n = 12 then [CHR 0x5C, CHR ''f'']
     else if n = 13 then [CHR 0x5C, CHR ''r'']
     else if n < 32 then [CHR 0x5C, CHR ''u'', CHR ''0'', CHR ''0'', hex_digit (n div 16), hex_digit (n mod 16)]
     else [c])"

definition json_string :: "string \<Rightarrow> string" where
  "json_string s = [CHR 0x22] @ concat (map json_char s) @ [CHR 0x22]"

fun json_text :: "json \<Rightarrow> string" where
  "json_text JNull = ''null''"
| "json_text (JBool b) = (if b then ''true'' else ''false'')"
| "json_text (JNum (Fin q)) = js_number_text q"
| "json_text (JNum _) = ''null''"
| "json_text (JStr s) = json_string s"
| "json_text (JArr xs) = ''['' @ js_join '','' (map json_text xs) @ '']''"
| "json_text (JObj kvs) =
     ''{'' @ js_join '','' (map (\<lambda>kv. json_string (fst kv) @ '':'' @ json_text (snd kv)) kvs) @ ''}''"

definition utf8_length :: "string \<Rightarrow> nat" where
  "utf8_length s = sum_list (map (\<lambda>c. if (of_char c :: nat) < 128 then 1 else 2) s)"

lemma utf8_length_simps [simp]:
  "utf8_length [] = 0"
  "utf8_length (c # s) = (if (of_char c :: nat) < 128 then 1 else 2) + utf8_length s"
  "utf8_length (s @ t) = utf8_length s + utf8_length t"
  by (simp_all add: utf8_length_def)

lemma hex_digit_ascii: "n < 16 \<Longrightarrow> (of_char (hex_digit n) :: nat) < 128"
  by (simp add: hex_digit_def)

lemma utf8_length_char: "utf8_length (json_char c) \<le> 6"
proof -
  have "(of_char c :: nat) div 16 < 16" if "(of_char c :: nat) < 32" using that by simp
  then show ?thesis by (simp add: json_char_def Let_def hex_digit_ascii)
qed

lemma utf8_length_string: "utf8_length (json_string s) \<le> 6 * length s + 2"
proof -
  have "utf8_length (concat (map json_char s)) \<le> 6 * length s"
  proof (induction s)
    case (Cons c s)
    then show ?case using utf8_length_char [of c] by simp
  qed simp
  then show ?thesis by (simp add: json_string_def)
qed

lemma json_text_samples:
  "json_text (JObj [(''a'', JArr [JNum (Fin (5/2)), JBool True, JNull]), (''b'', JStr [CHR 0x22, CHR 0x0A])]) =
     ''{'' @ [CHR 0x22] @ ''a'' @ [CHR 0x22] @ '':[2.5,true,null],'' @ [CHR 0x22] @ ''b'' @ [CHR 0x22] @ '':'' @
     [CHR 0x22, CHR 0x5C, CHR 0x22, CHR 0x5C, CHR ''n'', CHR 0x22] @ ''}''"
  by code_simp

end
