(* ===== verification/Provider_Meta.thy ===== *)
theory Provider_Meta
  imports Aif_Types Js_Regex Js_Json
begin

text \<open>
  What the product keeps of a provider's metadata, \<open>packages/shared/src/runtimeLimitUtils.ts\<close>:
  redaction of secrets in texts with the source's patterns, the allow-list of keys, the schemas of
  nested values, the size limit, and the exposures to clients. Metadata is a JSON value with
  distinct keys per object. The keys are sorted with \<open>localeCompare\<close> before the size is measured;
  the order of keys does not change the size and is not modelled.
\<close>

section \<open>Key sets\<close>

definition REDACTED_VALUE :: string where "REDACTED_VALUE = ''[REDACTED]''"

definition MAX_PROVIDER_META_BYTES :: nat where "MAX_PROVIDER_META_BYTES = 4096"
definition MAX_PROVIDER_META_DEPTH :: nat where "MAX_PROVIDER_META_DEPTH = 4"
definition MAX_PROVIDER_META_OBJECT_KEYS :: nat where "MAX_PROVIDER_META_OBJECT_KEYS = 24"
definition MAX_PROVIDER_META_ARRAY_ITEMS :: nat where "MAX_PROVIDER_META_ARRAY_ITEMS = 24"
definition MAX_PROVIDER_META_STRING_LENGTH :: nat where "MAX_PROVIDER_META_STRING_LENGTH = 256"

definition normalizeMetaKey :: "string \<Rightarrow> string" where
  "normalizeMetaKey v = js_lower (js_trim v)"

definition toNormalizedKeySet :: "string list \<Rightarrow> string list" where
  "toNormalizedKeySet vs = map normalizeMetaKey vs"

definition GENERIC_ALLOWED_PROVIDER_META_KEYS :: "string list" where
  "GENERIC_ALLOWED_PROVIDER_META_KEYS = toNormalizedKeySet [''status'', ''reason'', ''category'',
     ''providerFamily'', ''providerLabel'', ''quotaSource'', ''limitId'', ''planType'', ''accountId'',
     ''accountName'', ''accountLabel'', ''accountFingerprint'', ''isUsingOverage'',
     ''surpassedThreshold'', ''rateLimitType'', ''retryAfterSeconds'', ''resetAt'', ''windowHours'',
     ''modelUsageSummary'', ''toolUsageSummary'']"

definition anthropic_keys :: "string list" where
  "anthropic_keys = toNormalizedKeySet [''providerFamily'', ''providerLabel'', ''quotaSource'',
     ''planType'', ''accountId'', ''accountName'', ''accountLabel'', ''accountFingerprint'',
     ''isUsingOverage'', ''surpassedThreshold'', ''rateLimitType'', ''retryAfterSeconds'', ''resetAt'',
     ''modelUsageSummary'', ''toolUsageSummary'']"

definition openai_keys :: "string list" where
  "openai_keys = toNormalizedKeySet [''status'', ''reason'', ''category'', ''retryAfterSeconds'',
     ''resetAt'', ''rateLimitType'']"

definition codex_keys :: "string list" where
  "codex_keys = toNormalizedKeySet [''status'', ''reason'', ''category'', ''retryAfterSeconds'',
     ''resetAt'', ''rateLimitType'', ''limitId'', ''accountLabel'', ''accountFingerprint'',
     ''providerLabel'', ''planType'', ''modelUsageSummary'', ''toolUsageSummary'']"

definition PROVIDER_META_ALLOWLIST :: "(string \<times> string list) list" where
  "PROVIDER_META_ALLOWLIST = [(''anthropic'', anthropic_keys), (''claude'', anthropic_keys),
     (''openai'', openai_keys), (''openrouter'', openai_keys), (''codex'', codex_keys)]"

definition FORBIDDEN_PROVIDER_META_KEYS :: "string list" where
  "FORBIDDEN_PROVIDER_META_KEYS = toNormalizedKeySet [''headers'', ''header'', ''body'', ''raw'',
     ''response'', ''request'', ''payload'', ''stderr'', ''stdout'', ''stack'', ''trace'',
     ''traceback'', ''dump'', ''diagnostics'', ''debug'', ''authorization'', ''cookie'',
     ''set-cookie'', ''token'', ''apiKey'', ''api_key'', ''secret'', ''secret_token'', ''password'',
     ''credentials'']"

definition EXTERNAL_PROVIDER_META_KEYS :: "string list" where
  "EXTERNAL_PROVIDER_META_KEYS = toNormalizedKeySet [''accountId'', ''accountName'', ''accountLabel'',
     ''accountFingerprint'']"

section \<open>Redaction\<close>

definition alnum :: "char \<Rightarrow> bool" where
  "alnum c \<longleftrightarrow> word_char c \<and> c \<noteq> CHR ''_''"

definition upper_alnum :: "char \<Rightarrow> bool" where
  "upper_alnum c \<longleftrightarrow> (let n = (of_char c :: nat) in (48 \<le> n \<and> n \<le> 57) \<or> (65 \<le> n \<and> n \<le> 90))"

definition letter :: "char \<Rightarrow> bool" where
  "letter c \<longleftrightarrow> alnum c \<and> \<not> digit c"

definition alnum_or :: "string \<Rightarrow> char \<Rightarrow> bool" where
  "alnum_or cs c \<longleftrightarrow> alnum c \<or> c \<in> set cs"

definition one_of :: "string \<Rightarrow> rx" where "one_of cs = One (\<lambda>c. c \<in> set cs)"

definition one_of_i :: "string \<Rightarrow> rx" where "one_of_i cs = One (\<lambda>c. js_lower_char c \<in> set cs)"

definition SECRET_VALUE_PATTERNS :: "rx list" where
  "SECRET_VALUE_PATTERNS =
    [rseq [Word_Boundary, lit_i ''sk-'', at_least 6 (One (alnum_or ''_-'')), Word_Boundary],
     rseq [Word_Boundary, lit_i ''gh'', one_of_i ''pousr'', lit ''_'',
       at_least 20 (One (alnum_or ''_'')), Word_Boundary],
     rseq [Word_Boundary, lit_i ''github_pat_'', at_least 20 (One (alnum_or ''_'')), Word_Boundary],
     rseq [Word_Boundary, lit ''AIza'', at_least 20 (One (alnum_or ''-_'')), Word_Boundary],
     rseq [Word_Boundary, lit ''ya29.'', rx_plus (One (alnum_or ''._-'')), Word_Boundary],
     rseq [Word_Boundary, Alt (lit ''AKIA'') (lit ''ASIA''), exactly 16 (One upper_alnum), Word_Boundary],
     rseq [Word_Boundary, lit ''xox'', one_of ''abpors'', lit ''-'', at_least 10 (One (alnum_or ''-'')),
       Word_Boundary],
     rseq [Word_Boundary, lit ''eyJ'', rx_plus (One (alnum_or ''_-'')), lit ''.'',
       rx_plus (One (alnum_or ''_-'')), lit ''.'', rx_plus (One (alnum_or ''_-'')), Word_Boundary],
     rseq [Word_Boundary, lit_i ''bearer'', rx_plus (One js_space), rx_plus (One (alnum_or ''-._~+/'')),
       Greedy (lit ''='')]]"

definition CONTACT_VALUE_PATTERNS :: "rx list" where
  "CONTACT_VALUE_PATTERNS =
    [rseq [Word_Boundary, rx_plus (One (alnum_or ''._%+-'')), lit ''@'', rx_plus (One (alnum_or ''.-'')),
       lit ''.'', at_least 2 (One letter), Word_Boundary],
     rseq [Word_Boundary, lit_i ''http'', rx_opt (lit_i ''s''), lit ''://'',
       rx_plus (One (\<lambda>c. \<not> js_space c \<and> c \<noteq> CHR 0x22 \<and> c \<noteq> CHR 0x27))]]"

definition STRICT_TOKEN_PATTERNS :: "rx list" where
  "STRICT_TOKEN_PATTERNS = SECRET_VALUE_PATTERNS @ CONTACT_VALUE_PATTERNS"

definition joint :: rx where "joint = rx_opt (one_of ''_-'')"

definition SENSITIVE_VALUE_KEYS :: "rx list" where
  "SENSITIVE_VALUE_KEYS =
    [rseq [lit_i ''access'', joint, lit_i ''token''], rseq [lit_i ''refresh'', joint, lit_i ''token''],
     rseq [lit_i ''client'', joint, lit_i ''secret''], rseq [lit_i ''id'', joint, lit_i ''token''],
     rseq [lit_i ''secret'', rx_opt (rseq [joint, lit_i ''token''])],
     rseq [lit_i ''api'', joint, lit_i ''key''], lit_i ''authorization'', lit_i ''password'',
     lit_i ''token'']"

definition rx_any :: "rx list \<Rightarrow> rx" where
  "rx_any xs = (case xs of [] \<Rightarrow> Eps | y # ys \<Rightarrow> foldl Alt y ys)"

definition quote_mark :: rx where "quote_mark = rx_opt (one_of [CHR 0x22, CHR 0x27])"

definition SENSITIVE_VALUE_KEY_PATTERN :: rx where
  "SENSITIVE_VALUE_KEY_PATTERN = rseq
    [Cap 1 (rseq [quote_mark, rx_any SENSITIVE_VALUE_KEYS, quote_mark, Greedy (One js_space),
       one_of '':='', Greedy (One js_space)]),
     rx_any [rseq [lit [CHR 0x22], Cap 2 (Greedy (One (\<lambda>c. c \<noteq> CHR 0x22))), lit [CHR 0x22]],
       rseq [lit [CHR 0x27], Cap 3 (Greedy (One (\<lambda>c. c \<noteq> CHR 0x27))), lit [CHR 0x27]],
       Cap 4 (rx_plus (One (\<lambda>c. \<not> js_space c \<and> c \<notin> set '',{}]'' \<and> c \<noteq> CHR 0x22 \<and> c \<noteq> CHR 0x27)))]]"

definition redact_key_value :: "(nat \<times> string) list \<Rightarrow> string" where
  "redact_key_value m =
     (if map_of m 2 \<noteq> None then capture 1 m @ [CHR 0x22] @ REDACTED_VALUE @ [CHR 0x22]
      else if map_of m 3 \<noteq> None then capture 1 m @ [CHR 0x27] @ REDACTED_VALUE @ [CHR 0x27]
      else capture 1 m @ REDACTED_VALUE)"

definition redactProviderTextWithPatterns :: "string \<Rightarrow> rx list \<Rightarrow> nat option \<Rightarrow> string" where
  "redactProviderTextWithPatterns raw patterns maxLength =
     (let redacted = foldl (\<lambda>s x. replace_all x (\<lambda>_. REDACTED_VALUE) s)
            (replace_all SENSITIVE_VALUE_KEY_PATTERN redact_key_value raw) patterns
      in case maxLength of
           Some n \<Rightarrow> if n < length redacted then take n redacted @ ''...'' else redacted
         | None \<Rightarrow> redacted)"

text \<open>With the options left out, the length limit is the default of 256.\<close>

definition redactProviderText :: "string \<Rightarrow> string" where
  "redactProviderText raw =
     redactProviderTextWithPatterns raw STRICT_TOKEN_PATTERNS (Some MAX_PROVIDER_META_STRING_LENGTH)"

definition redactProviderTextForLogs :: "string \<Rightarrow> string" where
  "redactProviderTextForLogs raw =
     redactProviderTextWithPatterns raw SECRET_VALUE_PATTERNS (Some MAX_PROVIDER_META_STRING_LENGTH)"

lemma redaction_sample:
  "replace_all SENSITIVE_VALUE_KEY_PATTERN redact_key_value ''a token=xy'' = ''a token=[REDACTED]''"
  by code_simp

section \<open>Sanitising values\<close>

datatype meta_schema =
    Array_Schema "meta_schema option"
  | Object_Schema "string list" "(string \<times> meta_schema) list"

definition normalizeSchemaRecord :: "(string \<times> meta_schema) list \<Rightarrow> (string \<times> meta_schema) list" where
  "normalizeSchemaRecord vs = map (\<lambda>(k, v). (normalizeMetaKey k, v)) vs"

definition MODEL_USAGE_ITEM_SCHEMA :: meta_schema where
  "MODEL_USAGE_ITEM_SCHEMA = Object_Schema (toNormalizedKeySet [''modelName'', ''totalTokens'']) []"

definition TOOL_USAGE_ITEM_SCHEMA :: meta_schema where
  "TOOL_USAGE_ITEM_SCHEMA = Object_Schema (toNormalizedKeySet [''toolName'', ''totalCount'']) []"

definition PROVIDER_META_NESTED_SCHEMAS :: "(string \<times> meta_schema) list" where
  "PROVIDER_META_NESTED_SCHEMAS = normalizeSchemaRecord
    [(''modelUsageSummary'', Object_Schema (toNormalizedKeySet [''granularity'', ''sampledAt'',
        ''totalModelCallCount'', ''totalTokensUsage'', ''topModels'', ''windowHours''])
        (normalizeSchemaRecord [(''topModels'', Array_Schema (Some MODEL_USAGE_ITEM_SCHEMA))])),
     (''toolUsageSummary'', Object_Schema (toNormalizedKeySet [''granularity'', ''sampledAt'',
        ''totalNetworkSearchCount'', ''totalWebReadMcpCount'', ''totalZreadMcpCount'',
        ''totalSearchMcpCount'', ''tools'', ''windowHours''])
        (normalizeSchemaRecord [(''tools'', Array_Schema (Some TOOL_USAGE_ITEM_SCHEMA))]))]"

definition sanitizeOpaqueProviderMetaContainer :: "json \<Rightarrow> string" where
  "sanitizeOpaqueProviderMetaContainer v =
     redactProviderTextWithPatterns (json_text v) STRICT_TOKEN_PATTERNS None"

definition mark_truncated :: "bool \<Rightarrow> (string \<times> json) list \<Rightarrow> (string \<times> json) list" where
  "mark_truncated b kvs = (if b then map_set ''_truncated'' (JBool True) kvs else kvs)"

lemma size_json_entry: "(k, v) \<in> set kvs \<Longrightarrow> size v < size (JObj kvs)"
proof (induction kvs)
  case (Cons a kvs)
  then show ?case by (cases a) auto
qed simp

lemma size_json_item: "x \<in> set xs \<Longrightarrow> size x < size (JArr xs)"
  by (induction xs) auto

lemma size_json_item_take: "x \<in> set (take n xs) \<Longrightarrow> size x < size (JArr xs)"
  by (rule size_json_item) (rule in_set_takeD)

lemma size_json_entry_take: "(k, v) \<in> set (take n kvs) \<Longrightarrow> size v < size (JObj kvs)"
  by (rule size_json_entry) (rule in_set_takeD)

function sanitizeStructuredProviderMetaValue :: "json \<Rightarrow> meta_schema \<Rightarrow> nat \<Rightarrow> json"
  and sanitizeProviderMetaValue :: "json \<Rightarrow> nat \<Rightarrow> meta_schema option \<Rightarrow> json" where
  "sanitizeStructuredProviderMetaValue v (Array_Schema item) depth =
     (case v of
        JArr xs \<Rightarrow> JArr (map (\<lambda>x. case item of
              Some s \<Rightarrow> sanitizeStructuredProviderMetaValue x s (depth + 1) | None \<Rightarrow> JNull)
            (take MAX_PROVIDER_META_ARRAY_ITEMS xs) @
            (if MAX_PROVIDER_META_ARRAY_ITEMS < length xs then [JStr ''[TRUNCATED_ARRAY]''] else []))
      | _ \<Rightarrow> JNull)"
| "sanitizeStructuredProviderMetaValue v (Object_Schema allowedKeys nested) depth =
     (case v of
        JObj entries \<Rightarrow>
          (let sanitizedObject = mark_truncated (MAX_PROVIDER_META_OBJECT_KEYS < length entries)
             (map (\<lambda>(k, x). (k, sanitizeProviderMetaValue x (depth + 1) (map_of nested (normalizeMetaKey k))))
               (filter (\<lambda>(k, x). normalizeMetaKey k \<in> set allowedKeys \<and>
                  normalizeMetaKey k \<notin> set FORBIDDEN_PROVIDER_META_KEYS)
                 (take MAX_PROVIDER_META_OBJECT_KEYS entries)))
           in if sanitizedObject \<noteq> [] then JObj sanitizedObject else JNull)
      | _ \<Rightarrow> JNull)"
| "sanitizeProviderMetaValue v depth schema =
     (if MAX_PROVIDER_META_DEPTH < depth then JStr ''[TRUNCATED_DEPTH]''
      else (case v of
          JStr s \<Rightarrow> JStr (redactProviderText s)
        | JNum n \<Rightarrow> if isFinite n then JNum n else JNull
        | JBool b \<Rightarrow> JBool b
        | JNull \<Rightarrow> JNull
        | _ \<Rightarrow> (case schema of
              Some s \<Rightarrow> sanitizeStructuredProviderMetaValue v s depth
            | None \<Rightarrow> JStr (sanitizeOpaqueProviderMetaContainer v))))"
  by pat_completeness auto

termination
proof (relation "measure (\<lambda>x. case x of Inl (v, s, d) \<Rightarrow> 2 * size v | Inr (v, d, s) \<Rightarrow> Suc (2 * size v))")
qed (auto dest!: size_json_item_take size_json_entry_take)

section \<open>Sanitising metadata\<close>

text \<open>
  The allow-list is read from a plain object, so the provider ids \<open>constructor\<close> and \<open>__proto__\<close> find
  an inherited value that is not iterable, and spreading it throws a \<open>TypeError\<close>.
\<close>

definition inherited_property :: "string \<Rightarrow> bool" where
  "inherited_property k \<longleftrightarrow> k = ''constructor'' \<or> k = ''__proto__''"

definition normalizeProviderId :: "string option \<Rightarrow> string" where
  "normalizeProviderId v = js_lower (js_trim (case v of Some s \<Rightarrow> s | None \<Rightarrow> []))"

definition allowed_keys :: "string option \<Rightarrow> string list" where
  "allowed_keys pid = GENERIC_ALLOWED_PROVIDER_META_KEYS @
     (case map_of PROVIDER_META_ALLOWLIST (normalizeProviderId pid) of Some ks \<Rightarrow> ks | None \<Rightarrow> [])"

definition sanitized_entries :: "string list \<Rightarrow> (string \<times> json) list \<Rightarrow> (string \<times> json) list" where
  "sanitized_entries allowed kvs =
     map (\<lambda>(k, v). (k, sanitizeProviderMetaValue v 0 (map_of PROVIDER_META_NESTED_SCHEMAS (normalizeMetaKey k))))
       (filter (\<lambda>(k, v). normalizeMetaKey k \<in> set allowed \<and>
          normalizeMetaKey k \<notin> set FORBIDDEN_PROVIDER_META_KEYS) kvs)"

definition truncated_meta :: "(string \<times> json) list \<Rightarrow> (string \<times> json) list" where
  "truncated_meta sanitized = [(''_truncated'', JBool True),
     (''status'', case map_of sanitized ''status'' of
        Some (JStr s) \<Rightarrow> JStr s | _ \<Rightarrow> JStr ''provider_meta_truncated'')]"

definition sanitizeProviderMeta :: "string option \<Rightarrow> json \<Rightarrow> string + (string \<times> json) list option" where
  "sanitizeProviderMeta pid meta =
     (case meta of
        JObj kvs \<Rightarrow>
          if inherited_property (normalizeProviderId pid) then Inl ''TypeError: not iterable''
          else
            let sanitized = sanitized_entries (allowed_keys pid) kvs in
            Inr (if sanitized = [] then None
              else if MAX_PROVIDER_META_BYTES < utf8_length (json_text (JObj sanitized))
              then Some (truncated_meta sanitized)
              else Some sanitized)
      | _ \<Rightarrow> Inr None)"

definition meta_json :: "(string \<times> json) list option \<Rightarrow> json" where
  "meta_json m = (case m of Some kvs \<Rightarrow> JObj kvs | None \<Rightarrow> JNull)"

definition normalizeRuntimeLimitSnapshot :: "limit_snapshot \<Rightarrow> string + limit_snapshot" where
  "normalizeRuntimeLimitSnapshot s =
     (case sanitizeProviderMeta (Some (limitProviderId s)) (providerMeta s) of
        Inl e \<Rightarrow> Inl e
      | Inr m \<Rightarrow> Inr (s\<lparr>providerMeta := meta_json m\<rparr>))"

datatype limit_exposure = Internal | Task_Exposure | Chat_Exposure | Runtime_Profile_Exposure

definition sanitizeProviderMetaForExposure :: "json \<Rightarrow> limit_exposure \<Rightarrow> (string \<times> json) list option" where
  "sanitizeProviderMetaForExposure m exposure =
     (case m of
        JObj kvs \<Rightarrow>
          if exposure = Internal \<or> exposure = Runtime_Profile_Exposure then Some kvs
          else
            let sanitized = filter (\<lambda>(k, v). normalizeMetaKey k \<notin> set EXTERNAL_PROVIDER_META_KEYS) kvs in
            if sanitized \<noteq> [] then Some sanitized else None
      | _ \<Rightarrow> None)"

definition sanitizeRuntimeLimitSnapshotForExposure ::
    "limit_snapshot \<Rightarrow> limit_exposure \<Rightarrow> string + limit_snapshot" where
  "sanitizeRuntimeLimitSnapshotForExposure s exposure =
     (case normalizeRuntimeLimitSnapshot s of
        Inl e \<Rightarrow> Inl e
      | Inr n \<Rightarrow> Inr (n\<lparr>providerMeta := meta_json (sanitizeProviderMetaForExposure (providerMeta n) exposure)\<rparr>))"

definition persistTaskRuntimeLimitSnapshot :: "string \<Rightarrow> limit_snapshot \<Rightarrow> int \<Rightarrow> db \<Rightarrow> string + db" where
  "persistTaskRuntimeLimitSnapshot i s now d =
     (case normalizeRuntimeLimitSnapshot s of
        Inl e \<Rightarrow> Inl e
      | Inr n \<Rightarrow> Inr (fst (update_tasks (\<lambda>r. taskId r = i)
          (\<lambda>r. r\<lparr>runtimeLimitSnapshot := Some n, runtimeLimitUpdatedAt := Some now\<rparr>) d)))"

section \<open>Properties\<close>

lemma redacted_length: "length (redactProviderText s) \<le> 259"
  by (simp add: redactProviderText_def redactProviderTextWithPatterns_def Let_def
      MAX_PROVIDER_META_STRING_LENGTH_def)

lemma sanitized_entries_keys:
  "(k, v) \<in> set (sanitized_entries allowed kvs) \<Longrightarrow>
   normalizeMetaKey k \<in> set allowed \<and> normalizeMetaKey k \<notin> set FORBIDDEN_PROVIDER_META_KEYS \<and> k \<in> fst ` set kvs"
  by (force simp: sanitized_entries_def)

text \<open>
  C37: metadata is kept by an allow-list. Every key of a sanitised object is a key of the input that
  the generic list or the provider's list allows and the list of forbidden names does not contain,
  or the whole object is the truncation marker with a status text.
\<close>

theorem sanitized_meta_is_allowlisted:
  assumes "sanitizeProviderMeta pid (JObj kvs) = Inr (Some out)" "(k, v) \<in> set out"
  shows "(\<exists>s. out = [(''_truncated'', JBool True), (''status'', JStr s)]) \<or>
    (k \<in> fst ` set kvs \<and> normalizeMetaKey k \<in> set (allowed_keys pid) \<and>
     normalizeMetaKey k \<notin> set FORBIDDEN_PROVIDER_META_KEYS)"
proof -
  have "\<exists>s. truncated_meta e = [(''_truncated'', JBool True), (''status'', JStr s)]" for e
    by (auto simp: truncated_meta_def split: option.split json.split)
  then show ?thesis
    using assms sanitized_entries_keys [of k v "allowed_keys pid" kvs]
    by (auto simp: sanitizeProviderMeta_def Let_def split: if_splits)
qed

lemma status_key:
  "''status'' \<in> set (allowed_keys pid)" "normalizeMetaKey ''status'' = ''status''"
  "''status'' \<notin> set FORBIDDEN_PROVIDER_META_KEYS" "map_of PROVIDER_META_NESTED_SCHEMAS ''status'' = None"
proof -
  show n: "normalizeMetaKey ''status'' = ''status''" by code_simp
  have "normalizeMetaKey ''status'' \<in> set GENERIC_ALLOWED_PROVIDER_META_KEYS"
    by (simp add: GENERIC_ALLOWED_PROVIDER_META_KEYS_def toNormalizedKeySet_def)
  then show "''status'' \<in> set (allowed_keys pid)" by (simp add: allowed_keys_def n)
  show "''status'' \<notin> set FORBIDDEN_PROVIDER_META_KEYS" by code_simp
  show "map_of PROVIDER_META_NESTED_SCHEMAS ''status'' = None" by code_simp
qed

definition demo_meta :: "(string \<times> json) list" where
  "demo_meta = [(''status'', JBool True), (''raw'', JNull)]"

lemma demo_meta_sanitized:
  "sanitizeProviderMeta (Some ''OpenAI'') (JObj demo_meta) = Inr (Some [(''status'', JBool True)])"
proof -
  have "normalizeMetaKey ''raw'' \<in> set FORBIDDEN_PROVIDER_META_KEYS"
    by (simp add: FORBIDDEN_PROVIDER_META_KEYS_def toNormalizedKeySet_def)
  then have 1: "sanitized_entries (allowed_keys (Some ''OpenAI'')) demo_meta = [(''status'', JBool True)]"
    by (simp add: sanitized_entries_def demo_meta_def status_key MAX_PROVIDER_META_DEPTH_def)
  have 2: "utf8_length (json_text (JObj [(''status'', JBool True)])) = 15" by code_simp
  have 3: "normalizeProviderId (Some ''OpenAI'') = ''openai''" by code_simp
  show ?thesis
    using 1 2 by (simp add: sanitizeProviderMeta_def inherited_property_def 3 MAX_PROVIDER_META_BYTES_def
        del: json_text.simps)
qed

theorem sanitized_meta_is_allowlisted_witness:
  "sanitizeProviderMeta (Some ''OpenAI'') (JObj demo_meta) = Inr (Some [(''status'', JBool True)]) \<and>
   normalizeMetaKey ''status'' \<in> set (allowed_keys (Some ''OpenAI''))"
  using sanitized_meta_is_allowlisted [OF demo_meta_sanitized, of "''status''" "JBool True"]
    demo_meta_sanitized by simp

text \<open>
  Sanitised metadata is small. Unless the value under the exact key \<open>status\<close> is itself an array
  or object, the kept metadata serialises to at most 4096 bytes.
\<close>

lemma truncated_status_length:
  assumes "\<And>v. map_of kvs ''status'' = Some v \<Longrightarrow> (\<forall>xs. v \<noteq> JArr xs) \<and> (\<forall>es. v \<noteq> JObj es)"
  shows "\<exists>s. truncated_meta (sanitized_entries allowed kvs) =
    [(''_truncated'', JBool True), (''status'', JStr s)] \<and> length s \<le> 259"
proof (cases "map_of (sanitized_entries allowed kvs) ''status''")
  case None
  then show ?thesis by (simp add: truncated_meta_def)
next
  case (Some w)
  let ?P = "\<lambda>k. normalizeMetaKey k \<in> set allowed \<and> normalizeMetaKey k \<notin> set FORBIDDEN_PROVIDER_META_KEYS"
  have "map_of (map (\<lambda>(k, v). (k, g k v)) (filter (\<lambda>(k, v). P k) es)) c =
      (if P c then map_option (g c) (map_of es c) else None)" for g P es and c :: string
    by (induction es) auto
  from this [of "\<lambda>k v. sanitizeProviderMetaValue v 0 (map_of PROVIDER_META_NESTED_SCHEMAS (normalizeMetaKey k))" ?P kvs "''status''"]
  obtain v where v: "map_of kvs ''status'' = Some v"
      "w = sanitizeProviderMetaValue v 0 (map_of PROVIDER_META_NESTED_SCHEMAS (normalizeMetaKey ''status''))"
    using Some by (auto simp: sanitized_entries_def split: if_splits)
  then show ?thesis
    using assms [OF v(1)] Some redacted_length
    by (cases v) (auto simp: truncated_meta_def MAX_PROVIDER_META_DEPTH_def)
qed

theorem sanitized_meta_is_small:
  assumes "sanitizeProviderMeta pid (JObj kvs) = Inr (Some out)"
    "\<And>v. map_of kvs ''status'' = Some v \<Longrightarrow> (\<forall>xs. v \<noteq> JArr xs) \<and> (\<forall>es. v \<noteq> JObj es)"
  shows "utf8_length (json_text (JObj out)) \<le> MAX_PROVIDER_META_BYTES"
proof (cases "out = sanitized_entries (allowed_keys pid) kvs \<and>
    utf8_length (json_text (JObj out)) \<le> MAX_PROVIDER_META_BYTES")
  case False
  then have "out = truncated_meta (sanitized_entries (allowed_keys pid) kvs)"
    using assms(1) by (auto simp: sanitizeProviderMeta_def Let_def split: if_splits)
  then obtain s where s: "out = [(''_truncated'', JBool True), (''status'', JStr s)]" "length s \<le> 259"
    using truncated_status_length [OF assms(2)] by metis
  have "utf8_length (json_string ''_truncated'') = 12" "utf8_length (json_string ''status'') = 8" by code_simp+
  then show ?thesis
    using s utf8_length_string [of s] by (simp add: MAX_PROVIDER_META_BYTES_def)
next
  case True
  then show ?thesis by blast
qed

theorem sanitized_meta_is_small_witness:
  "\<exists>out. sanitizeProviderMeta (Some ''OpenAI'') (JObj demo_meta) = Inr (Some out) \<and>
     utf8_length (json_text (JObj out)) \<le> MAX_PROVIDER_META_BYTES"
  using sanitized_meta_is_small [OF demo_meta_sanitized] demo_meta_sanitized
  by (auto simp: demo_meta_def simp del: json_text.simps)

text \<open>
  Clients never see account data. A snapshot sanitised for a task or a chat has no metadata key
  that normalises to an account field, whatever the provider sent.
\<close>

theorem client_snapshot_hides_account:
  assumes "sanitizeRuntimeLimitSnapshotForExposure s e = Inr n" "e \<in> {Task_Exposure, Chat_Exposure}"
  shows "providerMeta n = JNull \<or> (\<exists>kvs. providerMeta n = JObj kvs \<and> kvs \<noteq> [] \<and>
    list_all (\<lambda>kv. normalizeMetaKey (fst kv) \<notin> set EXTERNAL_PROVIDER_META_KEYS) kvs)"
proof -
  obtain m where "providerMeta n = meta_json (sanitizeProviderMetaForExposure m e)"
    using assms(1) by (auto simp: sanitizeRuntimeLimitSnapshotForExposure_def split: sum.splits)
  then show ?thesis
    using assms(2)
    by (auto simp: meta_json_def sanitizeProviderMetaForExposure_def Let_def list_all_iff
        split: json.splits option.splits if_splits)
qed

definition demo_snapshot :: limit_snapshot where
  "demo_snapshot = \<lparr>limitStatus = Limit_Blocked, limitPrecision = Exact, limitProviderId = ''OpenAI'',
     limitProfileId = None, primaryScope = None, limitResetAt = None, limitRetryAfterSeconds = None,
     limitWarningThreshold = None, windows = [], providerMeta = JObj demo_meta\<rparr>"

theorem client_snapshot_hides_account_witness:
  "\<exists>n. sanitizeRuntimeLimitSnapshotForExposure demo_snapshot Task_Exposure = Inr n \<and>
     providerMeta n = JObj [(''status'', JBool True)] \<and>
     normalizeMetaKey ''status'' \<notin> set EXTERNAL_PROVIDER_META_KEYS"
proof -
  let ?n = "demo_snapshot\<lparr>providerMeta := JObj [(''status'', JBool True)]\<rparr>"
  have "sanitizeProviderMetaForExposure (JObj [(''status'', JBool True)]) Task_Exposure =
      Some [(''status'', JBool True)]" by code_simp
  then have 1: "sanitizeRuntimeLimitSnapshotForExposure demo_snapshot Task_Exposure = Inr ?n"
    using demo_meta_sanitized
    by (simp add: sanitizeRuntimeLimitSnapshotForExposure_def normalizeRuntimeLimitSnapshot_def
        demo_snapshot_def meta_json_def)
  show ?thesis using client_snapshot_hides_account [OF 1] 1 by simp
qed

text \<open>
  The only failure of the sanitiser is a provider id that names an inherited property. It throws
  exactly when the metadata is an object and the normalised provider id is \<open>constructor\<close> or
  \<open>__proto__\<close>; storing such a snapshot on a task fails with the same error and writes nothing.
\<close>

theorem sanitizer_fails_on_inherited_ids:
  "((\<exists>e. sanitizeProviderMeta pid m = Inl e) \<longleftrightarrow>
     (\<exists>kvs. m = JObj kvs) \<and> js_lower (js_trim (case pid of Some s \<Rightarrow> s | None \<Rightarrow> [])) \<in> {''constructor'', ''__proto__''}) \<and>
   ((\<exists>e. persistTaskRuntimeLimitSnapshot i s now d = Inl e) \<longleftrightarrow>
     (\<exists>e. sanitizeProviderMeta (Some (limitProviderId s)) (providerMeta s) = Inl e))"
  by (auto simp: sanitizeProviderMeta_def normalizeProviderId_def inherited_property_def Let_def
      persistTaskRuntimeLimitSnapshot_def normalizeRuntimeLimitSnapshot_def split: json.split sum.split)

text \<open>
  The value under \<open>status\<close> escapes the size limit when it is a container: its text is redacted but
  not shortened, and the truncated form keeps it whole.
\<close>

lemma container_status_is_not_shortened:
  assumes "\<not> inherited_property (normalizeProviderId pid)"
    "MAX_PROVIDER_META_BYTES < utf8_length (json_text (JObj [(''status'', JStr (sanitizeOpaqueProviderMetaContainer (JArr xs)))]))"
  shows "sanitizeProviderMeta pid (JObj [(''status'', JArr xs)]) = Inr (Some
    [(''_truncated'', JBool True), (''status'', JStr (sanitizeOpaqueProviderMetaContainer (JArr xs)))])"
proof -
  have "sanitized_entries (allowed_keys pid) [(''status'', JArr xs)] =
      [(''status'', JStr (sanitizeOpaqueProviderMetaContainer (JArr xs)))]"
    by (simp add: sanitized_entries_def status_key MAX_PROVIDER_META_DEPTH_def)
  then show ?thesis using assms by (simp add: sanitizeProviderMeta_def truncated_meta_def)
qed

end
