(* ===== verification/Runtime_Limits.thy ===== *)
theory Runtime_Limits
  imports Provider_Meta
begin

text \<open>
  When a runtime profile is held back by its usage limits: \<open>choosePrimaryWindow\<close>,
  \<open>selectViolatedWindowForExactThreshold\<close> and \<open>resolveRuntimeLimitFutureHint\<close> of
  \<open>packages/shared/src/runtimeLimitUtils.ts\<close> and \<open>evaluateRuntimeLimitGate\<close> of
  \<open>packages/data/src/index.ts\<close>. \<open>Date.parse\<close> of a text that is no \<open>toISOString\<close> text is the
  argument \<open>dp\<close> (its result is left to the implementation by the language standard). A time
  outside the range of dates makes \<open>toISOString\<close> throw a \<open>RangeError\<close>. Of the signature of a
  snapshot, a label for log lines, only the sanitiser's error is modelled.
\<close>

section \<open>Reading a snapshot\<close>

definition MAX_TIME :: int where "MAX_TIME = 8640000000000000"

definition parseTimestampMs :: "(string \<Rightarrow> int option) \<Rightarrow> stamp option \<Rightarrow> int option" where
  "parseTimestampMs dp v =
     (case v of None \<Rightarrow> None | Some s \<Rightarrow> if stamp_truthy s then date_parse dp s else None)"

text \<open>The second argument of the test is the number itself when it is finite and not negative.\<close>

definition finite_non_negative :: "jsnum option \<Rightarrow> rat option" where
  "finite_non_negative v =
     (case toFiniteNumber v of Some q \<Rightarrow> if 0 \<le> q then Some q else None | None \<Rightarrow> None)"

definition choosePrimaryWindow :: "limit_snapshot \<Rightarrow> limit_window option" where
  "choosePrimaryWindow s =
     (case windows s of
        [] \<Rightarrow> None
      | w # _ \<Rightarrow>
          let scoped = (case primaryScope s of
                None \<Rightarrow> None
              | Some sc \<Rightarrow> List.find (\<lambda>w. windowScope w = sc) (windows s))
          in case scoped of
               Some w' \<Rightarrow> Some w'
             | None \<Rightarrow>
                 (case List.find (\<lambda>w. windowResetAt w \<noteq> None \<or>
                      finite_non_negative (windowRetryAfterSeconds w) \<noteq> None \<or>
                      toFiniteNumber (percentRemaining w) \<noteq> None) (windows s) of
                    Some w' \<Rightarrow> Some w'
                  | None \<Rightarrow> Some w))"

definition violates :: "jsnum option \<Rightarrow> limit_window \<Rightarrow> bool" where
  "violates fallbackThreshold w =
     (case (toFiniteNumber (percentRemaining w),
            toFiniteNumber (case windowWarningThreshold w of Some t \<Rightarrow> Some t | None \<Rightarrow> fallbackThreshold)) of
        (Some p, Some t) \<Rightarrow> p \<le> t
      | _ \<Rightarrow> False)"

text \<open>The reset time of a window in milliseconds; \<^term>\<open>None\<close> is negative infinity.\<close>

definition window_score :: "(string \<Rightarrow> int option) \<Rightarrow> int \<Rightarrow> limit_window \<Rightarrow> rat option" where
  "window_score dp now w =
     (case parseTimestampMs dp (windowResetAt w) of
        Some t \<Rightarrow> Some (of_int t)
      | None \<Rightarrow> (case finite_non_negative (windowRetryAfterSeconds w) of
            Some q \<Rightarrow> Some (of_int now + q * 1000) | None \<Rightarrow> None))"

fun score_less :: "rat option \<Rightarrow> rat option \<Rightarrow> bool" where
  "score_less None None = False"
| "score_less None (Some b) = True"
| "score_less (Some a) None = False"
| "score_less (Some a) (Some b) = (a < b)"

definition remaining_less :: "limit_window \<Rightarrow> limit_window \<Rightarrow> bool" where
  "remaining_less a b =
     (case (toFiniteNumber (percentRemaining a), toFiniteNumber (percentRemaining b)) of
        (Some p, Some q) \<Rightarrow> p < q | (Some p, None) \<Rightarrow> True | _ \<Rightarrow> False)"

definition better_window ::
    "(string \<Rightarrow> int option) \<Rightarrow> int \<Rightarrow> limit_window option \<Rightarrow> limit_window \<Rightarrow> limit_window option" where
  "better_window dp now best c =
     (case best of
        None \<Rightarrow> Some c
      | Some b \<Rightarrow>
          if score_less (window_score dp now b) (window_score dp now c) then Some c
          else if score_less (window_score dp now c) (window_score dp now b) then Some b
          else if remaining_less c b then Some c else Some b)"

definition selectViolatedWindowForExactThreshold ::
    "(string \<Rightarrow> int option) \<Rightarrow> limit_snapshot option \<Rightarrow> jsnum option \<Rightarrow> int \<Rightarrow> limit_window option" where
  "selectViolatedWindowForExactThreshold dp s thresholdOverride now =
     (case s of
        None \<Rightarrow> None
      | Some s \<Rightarrow>
          if limitPrecision s \<noteq> Exact then None
          else
            let fallbackThreshold = map_option Fin (toFiniteNumber (case thresholdOverride of
                  Some t \<Rightarrow> Some t | None \<Rightarrow> limitWarningThreshold s))
            in foldl (better_window dp now) None (filter (violates fallbackThreshold) (windows s)))"

section \<open>Hints\<close>

datatype hint_source =
    Snapshot_Reset_At | Snapshot_Retry_After | Window_Reset_At | Window_Retry_After | No_Hint

record hint_candidate =
  candSource :: hint_source
  candResetAt :: stamp
  candRetryAfterSeconds :: "rat option"
  candWindowScope :: "limit_scope option"

record future_hint =
  hintSource :: hint_source
  hintResetAt :: "stamp option"
  hintRetryAfterSeconds :: "rat option"
  resetAtMs :: "int option"
  isFuture :: bool
  hintWindowScope :: "limit_scope option"

definition no_hint :: future_hint where
  "no_hint = \<lparr>hintSource = No_Hint, hintResetAt = None, hintRetryAfterSeconds = None,
     resetAtMs = None, isFuture = False, hintWindowScope = None\<rparr>"

definition candidateFromResetAt ::
    "hint_source \<Rightarrow> stamp option \<Rightarrow> limit_scope option \<Rightarrow> hint_candidate option" where
  "candidateFromResetAt src v scope =
     (case v of
        None \<Rightarrow> None
      | Some r \<Rightarrow> if stamp_truthy r then Some \<lparr>candSource = src, candResetAt = r,
            candRetryAfterSeconds = None, candWindowScope = scope\<rparr> else None)"

text \<open>\<open>new Date(x).toISOString()\<close>: the time is cut to whole milliseconds and must be in range.\<close>

definition date_text :: "rat \<Rightarrow> string + stamp" where
  "date_text x = (if \<bar>js_trunc x\<bar> \<le> MAX_TIME then Inr (Iso (js_trunc x)) else Inl ''RangeError: Invalid time value'')"

definition candidateFromRetryAfter ::
    "hint_source \<Rightarrow> jsnum option \<Rightarrow> limit_scope option \<Rightarrow> int \<Rightarrow> string + hint_candidate option" where
  "candidateFromRetryAfter src v scope now =
     (case finite_non_negative v of
        None \<Rightarrow> Inr None
      | Some q \<Rightarrow> (case date_text (of_int now + q * 1000) of
            Inl e \<Rightarrow> Inl e
          | Inr r \<Rightarrow> Inr (Some \<lparr>candSource = src, candResetAt = r, candRetryAfterSeconds = Some q,
              candWindowScope = scope\<rparr>)))"

definition cand_ms :: "(string \<Rightarrow> int option) \<Rightarrow> hint_candidate \<Rightarrow> int option" where
  "cand_ms dp c = parseTimestampMs dp (Some (candResetAt c))"

definition select_hint :: "(string \<Rightarrow> int option) \<Rightarrow> int \<Rightarrow> hint_candidate list \<Rightarrow> hint_candidate option" where
  "select_hint dp now cs =
     (case List.find (\<lambda>c. case cand_ms dp c of Some t \<Rightarrow> now < t | None \<Rightarrow> False) cs of
        Some c \<Rightarrow> Some c
      | None \<Rightarrow> List.find (\<lambda>c. cand_ms dp c \<noteq> None) cs)"

definition hint_of :: "(string \<Rightarrow> int option) \<Rightarrow> int \<Rightarrow> hint_candidate option \<Rightarrow> future_hint" where
  "hint_of dp now selected =
     (case selected of
        None \<Rightarrow> no_hint
      | Some c \<Rightarrow> \<lparr>hintSource = candSource c, hintResetAt = Some (candResetAt c),
          hintRetryAfterSeconds = candRetryAfterSeconds c, resetAtMs = cand_ms dp c,
          isFuture = (case cand_ms dp c of Some t \<Rightarrow> now < t | None \<Rightarrow> False),
          hintWindowScope = candWindowScope c\<rparr>)"

definition opt_list :: "'a option \<Rightarrow> 'a list" where
  "opt_list v = (case v of Some x \<Rightarrow> [x] | None \<Rightarrow> [])"

definition resolveRuntimeLimitFutureHint ::
    "(string \<Rightarrow> int option) \<Rightarrow> limit_snapshot option \<Rightarrow> int \<Rightarrow> limit_window option \<Rightarrow> bool option \<Rightarrow>
     string + future_hint" where
  "resolveRuntimeLimitFutureHint dp snapshot now preferred windowFirst =
     (case snapshot of
        None \<Rightarrow> Inr no_hint
      | Some s \<Rightarrow>
          let preferredWindow = (case preferred of Some w \<Rightarrow> Some w | None \<Rightarrow> choosePrimaryWindow s);
              scope = map_option windowScope preferredWindow;
              preferWindowHints = (case windowFirst of Some b \<Rightarrow> b | None \<Rightarrow> preferred \<noteq> None);
              s1 = candidateFromResetAt Snapshot_Reset_At (limitResetAt s) None;
              w1 = candidateFromResetAt Window_Reset_At (Option.bind preferredWindow windowResetAt) scope
          in case candidateFromRetryAfter Snapshot_Retry_After (limitRetryAfterSeconds s) None now of
               Inl e \<Rightarrow> Inl e
             | Inr s2 \<Rightarrow>
                 (case candidateFromRetryAfter Window_Retry_After
                     (Option.bind preferredWindow windowRetryAfterSeconds) scope now of
                    Inl e \<Rightarrow> Inl e
                  | Inr w2 \<Rightarrow>
                      let snapshotCandidates = opt_list s1 @ opt_list s2;
                          windowCandidates = opt_list w1 @ opt_list w2;
                          ordered = (if preferWindowHints then windowCandidates @ snapshotCandidates
                            else snapshotCandidates @ windowCandidates)
                      in Inr (hint_of dp now (select_hint dp now ordered))))"

section \<open>The gate\<close>

datatype gate_reason = Gate_None | Provider_Blocked | Exact_Threshold

record runtime_profile =
  profileId :: string
  profileLimitSnapshot :: "limit_snapshot option"

record gate_decision =
  gateBlocked :: bool
  gateReason :: gate_reason
  gateProfileId :: "string option"
  gateSnapshot :: "limit_snapshot option"
  futureHint :: future_hint
  violatedWindow :: "limit_window option"

definition open_gate :: "runtime_profile option \<Rightarrow> gate_decision" where
  "open_gate p = \<lparr>gateBlocked = False, gateReason = Gate_None, gateProfileId = map_option profileId p,
     gateSnapshot = None, futureHint = no_hint, violatedWindow = None\<rparr>"

definition gate_of_snapshot ::
    "(string \<Rightarrow> int option) \<Rightarrow> runtime_profile option \<Rightarrow> limit_snapshot \<Rightarrow> int \<Rightarrow> string + gate_decision" where
  "gate_of_snapshot dp p s now =
     (case sanitizeRuntimeLimitSnapshotForExposure s Internal of Inl e \<Rightarrow> Inl e | Inr _ \<Rightarrow>
     (case resolveRuntimeLimitFutureHint dp (Some s) now None None of
        Inl e \<Rightarrow> Inl e
      | Inr providerBlockedHint \<Rightarrow>
          if limitStatus s = Limit_Blocked \<and> isFuture providerBlockedHint then
            Inr \<lparr>gateBlocked = True, gateReason = Provider_Blocked, gateProfileId = map_option profileId p,
              gateSnapshot = Some s, futureHint = providerBlockedHint, violatedWindow = None\<rparr>
          else
            let vw = selectViolatedWindowForExactThreshold dp (Some s) None now;
                exactThresholdReached =
                  (limitPrecision s = Exact \<and> limitStatus s = Limit_Warning \<and> vw \<noteq> None)
            in case resolveRuntimeLimitFutureHint dp (Some s) now vw (Some True) of
                 Inl e \<Rightarrow> Inl e
               | Inr exactThresholdHint \<Rightarrow>
                   if exactThresholdReached \<and> isFuture exactThresholdHint then
                     Inr \<lparr>gateBlocked = True, gateReason = Exact_Threshold,
                       gateProfileId = map_option profileId p, gateSnapshot = Some s,
                       futureHint = exactThresholdHint, violatedWindow = vw\<rparr>
                   else
                     Inr \<lparr>gateBlocked = False, gateReason = Gate_None,
                       gateProfileId = map_option profileId p, gateSnapshot = Some s,
                       futureHint = providerBlockedHint, violatedWindow = vw\<rparr>))"

definition evaluateRuntimeLimitGate ::
    "(string \<Rightarrow> int option) \<Rightarrow> bool \<Rightarrow> runtime_profile option \<Rightarrow> int \<Rightarrow> string + gate_decision" where
  "evaluateRuntimeLimitGate dp usageLimitsEnabled p now =
     (if \<not> usageLimitsEnabled then Inr (open_gate p)
      else (case Option.bind p profileLimitSnapshot of
          None \<Rightarrow> Inr (open_gate p)
        | Some s \<Rightarrow> gate_of_snapshot dp p s now))"

section \<open>Properties\<close>

lemma score_less_irrefl [simp]: "\<not> score_less a a"
  by (cases a) auto

lemma score_less_asym: "score_less a b \<Longrightarrow> \<not> score_less b a"
  by (cases a; cases b) auto

lemma score_not_less_trans: "\<not> score_less b a \<Longrightarrow> \<not> score_less c b \<Longrightarrow> \<not> score_less c a"
  by (cases a; cases b; cases c) auto

lemma better_window_step:
  assumes "better_window dp now best c = Some b"
  shows "b = c \<or> best = Some b" "\<not> score_less (window_score dp now b) (window_score dp now c)"
    "best = Some v \<Longrightarrow> \<not> score_less (window_score dp now b) (window_score dp now v)"
  using assms by (auto simp: better_window_def score_less_asym split: option.splits if_splits)

text \<open>The window a fold with \<open>better_window\<close> ends with is one of those seen, with the latest reset.\<close>

lemma better_window_fold:
  assumes "foldl (better_window dp now) best ws = Some w"
  shows "(w \<in> set ws \<or> best = Some w) \<and> (\<forall>v. v \<in> set ws \<or> best = Some v \<longrightarrow>
    \<not> score_less (window_score dp now w) (window_score dp now v))"
  using assms
proof (induction ws arbitrary: best)
  case Nil
  then show ?case by (cases "window_score dp now w") auto
next
  case (Cons c ws)
  let ?sc = "window_score dp now"
  have "better_window dp now best c \<noteq> None" by (simp add: better_window_def split: option.split)
  then obtain b where b: "better_window dp now best c = Some b" by blast
  note step = better_window_step [OF b]
  have IH: "w \<in> set ws \<or> b = w" "\<And>v. v \<in> set ws \<or> b = v \<Longrightarrow> \<not> score_less (?sc w) (?sc v)"
    using Cons.IH [of "Some b"] Cons.prems b by auto
  then have "\<not> score_less (?sc w) (?sc b)" by blast
  then have "\<not> score_less (?sc w) (?sc v)" if "v = c \<or> best = Some v" for v
    using that step(2,3) score_not_less_trans by blast
  then show ?case using IH step(1) by auto
qed

lemma select_violated:
  assumes "selectViolatedWindowForExactThreshold dp (Some s) th now = Some w"
  shows "limitPrecision s = Exact \<and> w \<in> set (windows s) \<and>
    (\<forall>v \<in> set (windows s). violates (map_option Fin (toFiniteNumber (case th of Some t \<Rightarrow> Some t |
        None \<Rightarrow> limitWarningThreshold s))) v \<longrightarrow> \<not> score_less (window_score dp now w) (window_score dp now v)) \<and>
    violates (map_option Fin (toFiniteNumber (case th of Some t \<Rightarrow> Some t | None \<Rightarrow> limitWarningThreshold s))) w"
  using assms better_window_fold
  by (fastforce simp: selectViolatedWindowForExactThreshold_def Let_def split: if_splits)

text \<open>Where a hint that lies in the future comes from.\<close>

definition hint_time :: "(string \<Rightarrow> int option) \<Rightarrow> int \<Rightarrow> stamp option \<Rightarrow> jsnum option \<Rightarrow> int \<Rightarrow> bool" where
  "hint_time dp now reset retry t \<longleftrightarrow> parseTimestampMs dp reset = Some t \<or>
     (\<exists>q. finite_non_negative retry = Some q \<and> t = js_trunc (of_int now + q * 1000))"

lemma cand_reset_ms:
  "candidateFromResetAt src v scope = Some c \<Longrightarrow> cand_ms dp c = Some t \<Longrightarrow> parseTimestampMs dp v = Some t"
  by (auto simp: candidateFromResetAt_def cand_ms_def split: option.splits if_splits)

lemma cand_retry_ms:
  "candidateFromRetryAfter src v scope now = Inr (Some c) \<Longrightarrow> cand_ms dp c = Some t \<Longrightarrow>
   \<exists>q. finite_non_negative v = Some q \<and> t = js_trunc (of_int now + q * 1000)"
  by (auto simp: candidateFromRetryAfter_def date_text_def cand_ms_def parseTimestampMs_def
      split: option.splits sum.splits if_splits)

lemma select_hint_future:
  assumes "isFuture (hint_of dp now (select_hint dp now cs))"
  shows "\<exists>c \<in> set cs. \<exists>t. cand_ms dp c = Some t \<and> now < t \<and>
    resetAtMs (hint_of dp now (select_hint dp now cs)) = Some t"
proof -
  obtain c where c: "select_hint dp now cs = Some c"
    using assms by (cases "select_hint dp now cs") (auto simp: hint_of_def no_hint_def)
  then have "c \<in> set cs"
    by (auto simp: select_hint_def split: option.splits dest: find_Some_iff_filter)
  then show ?thesis using assms c by (auto simp: hint_of_def split: option.splits)
qed

lemma hint_future_source:
  assumes "resolveRuntimeLimitFutureHint dp (Some s) now pw first = Inr h" "isFuture h"
  shows "\<exists>t. resetAtMs h = Some t \<and> now < t \<and> (hint_time dp now (limitResetAt s) (limitRetryAfterSeconds s) t \<or>
    (\<exists>w. (pw = Some w \<or> choosePrimaryWindow s = Some w) \<and>
      hint_time dp now (windowResetAt w) (windowRetryAfterSeconds w) t))"
proof -
  let ?pw = "case pw of Some w \<Rightarrow> Some w | None \<Rightarrow> choosePrimaryWindow s"
  let ?sc = "map_option windowScope ?pw"
  let ?s1 = "candidateFromResetAt Snapshot_Reset_At (limitResetAt s) None"
  let ?w1 = "candidateFromResetAt Window_Reset_At (Option.bind ?pw windowResetAt) ?sc"
  let ?rs = "candidateFromRetryAfter Snapshot_Retry_After (limitRetryAfterSeconds s) None now"
  let ?rw = "candidateFromRetryAfter Window_Retry_After (Option.bind ?pw windowRetryAfterSeconds) ?sc now"
  obtain s2 where s2: "?rs = Inr s2"
    using assms(1) by (cases ?rs) (simp_all add: resolveRuntimeLimitFutureHint_def Let_def)
  obtain w2 where w2: "?rw = Inr w2"
    using assms(1) s2 by (cases ?rw) (simp_all add: resolveRuntimeLimitFutureHint_def Let_def)
  define cs where "cs = (if (case first of Some b \<Rightarrow> b | None \<Rightarrow> pw \<noteq> None)
    then (opt_list ?w1 @ opt_list w2) @ opt_list ?s1 @ opt_list s2
    else (opt_list ?s1 @ opt_list s2) @ opt_list ?w1 @ opt_list w2)"
  have h: "h = hint_of dp now (select_hint dp now cs)"
    using assms(1) s2 w2 by (simp add: resolveRuntimeLimitFutureHint_def Let_def cs_def)
  have cs: "set cs = set (opt_list ?s1) \<union> set (opt_list s2) \<union> set (opt_list ?w1) \<union> set (opt_list w2)"
    by (auto simp: cs_def)
  obtain x t where x: "x \<in> set cs" "cand_ms dp x = Some t" "now < t" "resetAtMs h = Some t"
    using select_hint_future assms(2) unfolding h by blast
  have "hint_time dp now (limitResetAt s) (limitRetryAfterSeconds s) t \<or>
      hint_time dp now (Option.bind ?pw windowResetAt) (Option.bind ?pw windowRetryAfterSeconds) t"
  proof -
    consider "?s1 = Some x" | "s2 = Some x" | "?w1 = Some x" | "w2 = Some x"
      using x(1) unfolding cs by (auto simp: opt_list_def split: option.splits)
    then show ?thesis
    proof cases
      case 1
      from cand_reset_ms [OF 1 x(2)] show ?thesis by (simp add: hint_time_def)
    next
      case 2
      from cand_retry_ms [OF s2 [unfolded 2] x(2)] show ?thesis by (simp add: hint_time_def)
    next
      case 3
      from cand_reset_ms [OF 3 x(2)] show ?thesis by (simp add: hint_time_def)
    next
      case 4
      from cand_retry_ms [OF w2 [unfolded 4] x(2)] show ?thesis by (simp add: hint_time_def)
    qed
  qed
  moreover have "\<not> hint_time dp now None None t"
    by (simp add: hint_time_def parseTimestampMs_def finite_non_negative_def)
  ultimately show ?thesis using x(3,4) by (cases ?pw) (auto split: option.splits)
qed

lemma primary_in_windows: "choosePrimaryWindow s = Some w \<Longrightarrow> w \<in> set (windows s)"
  by (auto simp: choosePrimaryWindow_def Let_def split: list.splits option.splits if_splits
      dest: find_Some_iff_filter)

text \<open>
  The window that decides an exact threshold is a violated one with the latest reset. Whatever
  window is selected belongs to an exact snapshot, has no more left than the threshold that applies
  to it, and no other violated window resets later.
\<close>

theorem violated_window_resets_last:
  assumes "selectViolatedWindowForExactThreshold dp (Some s) th now = Some w"
  shows "limitPrecision s = Exact \<and> w \<in> set (windows s) \<and>
    (\<exists>p t. percentRemaining w = Some (Fin p) \<and> p \<le> t \<and>
       (windowWarningThreshold w = Some (Fin t) \<or> windowWarningThreshold w = None)) \<and>
    (\<forall>v \<in> set (windows s). violates (map_option Fin (toFiniteNumber (case th of Some t \<Rightarrow> Some t |
        None \<Rightarrow> limitWarningThreshold s))) v \<longrightarrow> \<not> score_less (window_score dp now w) (window_score dp now v))"
proof -
  have num: "toFiniteNumber x = Some q \<longleftrightarrow> x = Some (Fin q)" for x q
    by (cases x rule: toFiniteNumber.cases) auto
  note w = select_violated [OF assms]
  then have "violates (map_option Fin (toFiniteNumber (case th of Some t \<Rightarrow> Some t |
      None \<Rightarrow> limitWarningThreshold s))) w" by blast
  then have "\<exists>p t. percentRemaining w = Some (Fin p) \<and> p \<le> t \<and>
      (windowWarningThreshold w = Some (Fin t) \<or> windowWarningThreshold w = None)"
    by (auto simp: violates_def num split: option.splits)
  with w show ?thesis by blast
qed

definition demo_window :: "rat \<Rightarrow> int \<Rightarrow> limit_window" where
  "demo_window p t = \<lparr>windowScope = Tokens, percentRemaining = Some (Fin p), windowResetAt = Some (Iso t),
     windowRetryAfterSeconds = None, windowWarningThreshold = Some (Fin 10)\<rparr>"

definition demo_limits :: "limit_status \<Rightarrow> limit_snapshot" where
  "demo_limits st = \<lparr>limitStatus = st, limitPrecision = Exact, limitProviderId = ''openai'',
     limitProfileId = None, primaryScope = None, limitResetAt = None, limitRetryAfterSeconds = None,
     limitWarningThreshold = None, windows = [demo_window 5 100, demo_window 7 300, demo_window 50 900],
     providerMeta = JNull\<rparr>"

theorem violated_window_resets_last_witness:
  "selectViolatedWindowForExactThreshold (\<lambda>_. None) (Some (demo_limits Limit_Warning)) None 0 = Some (demo_window 7 300) \<and>
   (\<exists>p t. percentRemaining (demo_window 7 300) = Some (Fin p) \<and> p \<le> t)"
proof -
  have 1: "selectViolatedWindowForExactThreshold (\<lambda>_. None) (Some (demo_limits Limit_Warning)) None 0 =
    Some (demo_window 7 300)" by code_simp
  show ?thesis using violated_window_resets_last [OF 1] 1 by blast
qed

text \<open>
  A gate that reports reset times opens. If no retry-after number is given, then at any time that
  is not before the reset time of the snapshot and of any of its windows the gate lets the profile
  pass.
\<close>

theorem gate_opens_after_resets:
  assumes "evaluateRuntimeLimitGate dp enabled p now = Inr g"
    "\<And>s. Option.bind p profileLimitSnapshot = Some s \<Longrightarrow> limitRetryAfterSeconds s = None \<and>
      (\<forall>t. parseTimestampMs dp (limitResetAt s) = Some t \<longrightarrow> t \<le> now) \<and>
      (\<forall>w \<in> set (windows s). windowRetryAfterSeconds w = None \<and>
         (\<forall>t. parseTimestampMs dp (windowResetAt w) = Some t \<longrightarrow> t \<le> now))"
  shows "\<not> gateBlocked g"
proof (cases "enabled \<and> Option.bind p profileLimitSnapshot \<noteq> None")
  case False
  then show ?thesis using assms(1) by (auto simp: evaluateRuntimeLimitGate_def open_gate_def split: if_splits option.splits)
next
  case True
  then obtain s where s: "Option.bind p profileLimitSnapshot = Some s" by blast
  note q = assms(2) [OF s]
  have no: "\<not> isFuture h" if r: "resolveRuntimeLimitFutureHint dp (Some s) now pw first = Inr h"
    and pw: "pw = None \<or> (\<exists>w \<in> set (windows s). pw = Some w)" for pw first h
  proof
    assume "isFuture h"
    from hint_future_source [OF r this] obtain t where t: "now < t"
      "hint_time dp now (limitResetAt s) (limitRetryAfterSeconds s) t \<or>
       (\<exists>w \<in> set (windows s). hint_time dp now (windowResetAt w) (windowRetryAfterSeconds w) t)"
      using pw primary_in_windows by blast
    then show False using q by (fastforce simp: hint_time_def finite_non_negative_def)
  qed
  have "selectViolatedWindowForExactThreshold dp (Some s) None now = None \<or>
      (\<exists>w \<in> set (windows s). selectViolatedWindowForExactThreshold dp (Some s) None now = Some w)"
    using select_violated [of dp s None now]
    by (cases "selectViolatedWindowForExactThreshold dp (Some s) None now") simp_all
  then show ?thesis
    using assms(1) True s no
    by (auto simp: evaluateRuntimeLimitGate_def gate_of_snapshot_def Let_def
        split: sum.splits if_splits)
qed

theorem gate_opens_after_resets_witness:
  "let p = Some \<lparr>profileId = ''p'', profileLimitSnapshot = Some (demo_limits Limit_Warning)\<rparr> in
   (\<exists>g. evaluateRuntimeLimitGate (\<lambda>_. None) True p 200 = Inr g \<and> gateBlocked g) \<and>
   (\<exists>g. evaluateRuntimeLimitGate (\<lambda>_. None) True p 900 = Inr g \<and> \<not> gateBlocked g)"
proof -
  let ?p = "Some \<lparr>profileId = ''p'', profileLimitSnapshot = Some (demo_limits Limit_Warning)\<rparr>"
  have 1: "case evaluateRuntimeLimitGate (\<lambda>_. None) True ?p 200 of Inr g \<Rightarrow> gateBlocked g | Inl _ \<Rightarrow> False"
    by code_simp
  have 2: "case evaluateRuntimeLimitGate (\<lambda>_. None) True ?p 900 of Inr g \<Rightarrow> True | Inl _ \<Rightarrow> False"
    by code_simp
  then obtain g where g: "evaluateRuntimeLimitGate (\<lambda>_. None) True ?p 900 = Inr g" by (auto split: sum.splits)
  have "\<not> gateBlocked g"
    by (rule gate_opens_after_resets [OF g]) (auto simp: demo_limits_def demo_window_def parseTimestampMs_def)
  then show ?thesis using 1 g by (auto simp: Let_def split: sum.splits)
qed

text \<open>
  A gate that rests on a retry-after number never opens. The number is added to the time of the
  evaluation, not to the time the snapshot was taken, so a blocked snapshot without reset time and
  windows holds the profile back at every time whatsoever, and the reported reset time moves along.
\<close>

theorem retry_after_gate_never_opens:
  assumes "Option.bind p profileLimitSnapshot = Some s" "limitStatus s = Limit_Blocked" "windows s = []"
    "limitResetAt s = None" "limitRetryAfterSeconds s = Some (Fin q)" "1 \<le> q" "providerMeta s = JNull"
    "0 \<le> now" "of_int now + q * 1000 \<le> of_int MAX_TIME"
  shows "\<exists>g. evaluateRuntimeLimitGate dp True p now = Inr g \<and> gateBlocked g \<and> gateReason g = Provider_Blocked \<and>
    resetAtMs (futureHint g) = Some (js_trunc (of_int now + q * 1000))"
proof -
  let ?x = "of_int now + q * 1000"
  have x: "0 \<le> ?x" using assms(6,8) by simp
  then have "js_trunc ?x = \<lfloor>?x\<rfloor>" by (simp add: js_trunc_def)
  moreover have "of_int now + 1 \<le> ?x" using assms(6) by simp
  moreover have "\<lfloor>?x\<rfloor> \<le> MAX_TIME" using floor_mono [OF assms(9)] by (simp only: floor_of_int)
  moreover have "now + 1 \<le> \<lfloor>?x\<rfloor>" using calculation(2) by (simp only: le_floor_iff of_int_add of_int_1)
  ultimately have t: "now < js_trunc ?x" "\<bar>js_trunc ?x\<bar> \<le> MAX_TIME" using assms(8) by linarith+
  have "sanitizeRuntimeLimitSnapshotForExposure s Internal = Inr s"
    using assms(7)
    by (simp add: sanitizeRuntimeLimitSnapshotForExposure_def normalizeRuntimeLimitSnapshot_def
        sanitizeProviderMeta_def sanitizeProviderMetaForExposure_def meta_json_def)
  then show ?thesis
    using assms t
    by (simp add: evaluateRuntimeLimitGate_def gate_of_snapshot_def resolveRuntimeLimitFutureHint_def
        choosePrimaryWindow_def candidateFromResetAt_def candidateFromRetryAfter_def finite_non_negative_def
        date_text_def opt_list_def select_hint_def hint_of_def cand_ms_def parseTimestampMs_def Let_def)
qed

theorem retry_after_gate_never_opens_witness:
  "\<exists>g. evaluateRuntimeLimitGate (\<lambda>_. None) True (Some \<lparr>profileId = ''p'', profileLimitSnapshot =
       Some ((demo_limits Limit_Blocked)\<lparr>windows := [], limitRetryAfterSeconds := Some (Fin 60)\<rparr>)\<rparr>) 999999 = Inr g \<and>
     gateBlocked g \<and> resetAtMs (futureHint g) = Some 1059999"
  using retry_after_gate_never_opens [of "Some \<lparr>profileId = ''p'', profileLimitSnapshot =
       Some ((demo_limits Limit_Blocked)\<lparr>windows := [], limitRetryAfterSeconds := Some (Fin 60)\<rparr>)\<rparr>" _ 60 999999 "\<lambda>_. None"]
  by (fastforce simp: demo_limits_def MAX_TIME_def js_trunc_def)

end
