(* ===== verification/Stage_Errors.thy ===== *)
theory Stage_Errors
  imports Watchdog Runtime_Limits
begin

text \<open>
  What happens when a stage fails: the error categories of \<open>packages/runtime/src/errors.ts\<close>, the
  questions of \<open>packages/agent/src/errorClassifier.ts\<close>, the recovery chosen by
  \<open>packages/agent/src/stageErrorHandler.ts\<close> and its application by the coordinator
  (\<open>packages/agent/src/coordinator.ts\<close>). A thrown value is an \<open>Error\<close> of one of the classes the
  sources distinguish, with its message and its truthy \<open>cause\<close>, or any other value by its text.
  A chain of causes is finite. \<open>AIF_USAGE_LIMITS_ENABLED\<close> is the argument \<open>limitsEnabled\<close>; log lines
  are left out.
\<close>

section \<open>Errors\<close>

datatype rt_category =
    Rate_Limit | Auth | Timed_Out | Permission | Stream_Failure | Transport | Model_Not_Found
  | Context_Length | Content_Filter | Unknown_Category

fun category_text :: "rt_category \<Rightarrow> string" where
  "category_text Rate_Limit = ''rate_limit''"
| "category_text Auth = ''auth''"
| "category_text Timed_Out = ''timeout''"
| "category_text Permission = ''permission''"
| "category_text Stream_Failure = ''stream''"
| "category_text Transport = ''transport''"
| "category_text Model_Not_Found = ''model_not_found''"
| "category_text Context_Length = ''context_length''"
| "category_text Content_Filter = ''content_filter''"
| "category_text Unknown_Category = ''unknown''"

record execution_meta =
  category :: rt_category
  httpStatus :: "jsnum option"
  errResetAt :: "stamp option"
  errRetryAfterMs :: "jsnum option"
  errRetryAfterSeconds :: "jsnum option"
  errLimitSnapshot :: "limit_snapshot option"
  errProviderMeta :: json

text \<open>\<open>Math.max(0, Math.ceil(x / 1000))\<close>.\<close>

fun ceil_seconds :: "jsnum \<Rightarrow> jsnum" where
  "ceil_seconds (Fin q) = Fin (max 0 (of_int \<lceil>q / 1000\<rceil>))"
| "ceil_seconds NaN = NaN"
| "ceil_seconds PosInf = PosInf"
| "ceil_seconds NegInf = Fin 0"

definition runtime_execution_meta ::
    "rt_category \<Rightarrow> jsnum option \<Rightarrow> stamp option \<Rightarrow> jsnum option \<Rightarrow> jsnum option \<Rightarrow>
     limit_snapshot option \<Rightarrow> json \<Rightarrow> execution_meta" where
  "runtime_execution_meta cat http reset ms seconds snap meta =
     \<lparr>category = cat, httpStatus = http, errResetAt = reset, errRetryAfterMs = ms,
      errRetryAfterSeconds = (case seconds of Some s \<Rightarrow> Some s | None \<Rightarrow> map_option ceil_seconds ms),
      errLimitSnapshot = snap, errProviderMeta = meta\<rparr>"

datatype error_class = Plain_Error | Capability_Error | Execution_Error execution_meta | Branch_Error string

datatype thrown = Js_Error error_class string "thrown option" | Js_Value string

fun find_error :: "(error_class \<Rightarrow> string \<Rightarrow> 'a option) \<Rightarrow> thrown \<Rightarrow> 'a option" where
  "find_error f (Js_Error k msg cause) =
     (case f k msg of
        Some x \<Rightarrow> Some x
      | None \<Rightarrow> (case cause of Some e \<Rightarrow> find_error f e | None \<Rightarrow> None))"
| "find_error f (Js_Value s) = None"

definition findRuntimeExecutionError :: "thrown \<Rightarrow> (string \<times> execution_meta) option" where
  "findRuntimeExecutionError =
     find_error (\<lambda>k msg. case k of Execution_Error m \<Rightarrow> Some (msg, m) | _ \<Rightarrow> None)"

definition findBranchIsolationError :: "thrown \<Rightarrow> (string \<times> string) option" where
  "findBranchIsolationError =
     find_error (\<lambda>k msg. case k of Branch_Error kind \<Rightarrow> Some (kind, msg) | _ \<Rightarrow> None)"

definition findRuntimeCapabilityError :: "thrown \<Rightarrow> string option" where
  "findRuntimeCapabilityError =
     find_error (\<lambda>k msg. case k of Capability_Error \<Rightarrow> Some msg | _ \<Rightarrow> None)"

fun errorMessage :: "thrown \<Rightarrow> string" where
  "errorMessage (Js_Error k msg c) = msg"
| "errorMessage (Js_Value s) = s"

definition errorText :: "thrown \<Rightarrow> string" where "errorText e = js_lower (errorMessage e)"

section \<open>Categories\<close>

definition classifyByHttpStatus :: "int \<Rightarrow> rt_category option" where
  "classifyByHttpStatus st =
     (case map_of [(401, Auth), (403, Auth), (429, Rate_Limit), (408, Timed_Out), (504, Timed_Out),
          (413, Context_Length), (451, Content_Filter)] st of
        Some c \<Rightarrow> Some c
      | None \<Rightarrow> if 500 \<le> st \<and> st < 600 then Some Transport else None)"

definition SHARED_FALLBACK_PATTERNS :: "(rt_category \<times> string list) list" where
  "SHARED_FALLBACK_PATTERNS =
    [(Rate_Limit, [''usage limit'', ''out of extra usage'', ''rate limit'', ''rate_limit'',
        ''too many requests'', ''insufficient_quota'', ''quota'', ''at capacity'',
        ''model is at capacity'', ''hit your limit'', ''limit reached'', ''limit exceeded'',
        ''out of credits'', ''credits'']),
     (Auth, [''authentication_error'', ''invalid authentication credentials'',
        ''failed to authenticate'', ''unauthorized'', ''invalid api key'', ''invalid_api_key'',
        ''invalid credentials'', ''invalid password'', ''forbidden'', ''not logged in'']),
     (Timed_Out, [''timed out'', ''timeout'', ''etimedout'', ''aborted'', ''query_start_timeout'',
        ''first_activity_timeout'']),
     (Permission, [''permission denied'', ''write permission'', ''blocked by permissions'']),
     (Stream_Failure, [''stream_error'', ''stream closed'', ''stream interrupted'']),
     (Transport, [''connection refused'', ''econnrefused'', ''econnreset'', ''network'', ''fetch failed'']),
     (Model_Not_Found, [''model not found'', ''no endpoints found'', ''model_not_available'',
        ''no available model'', ''providermodelnotfounderror'', ''modelnotfounderror'',
        ''provider not found'']),
     (Context_Length, [''context_length_exceeded'', ''maximum context length'',
        ''exceed_context_size_error'', ''exceeds the available context size'',
        ''available context size'', ''n_prompt_tokens'', ''n_ctx'']),
     (Content_Filter, [''content_filter'', ''content_policy''])]"

definition classifyByMessageFallback :: "string \<Rightarrow> rt_category" where
  "classifyByMessageFallback message =
     (let lowered = js_lower message in
      case List.find (\<lambda>(c, ps). list_ex (js_includes lowered) ps) SHARED_FALLBACK_PATTERNS of
        Some (c, _) \<Rightarrow> c | None \<Rightarrow> Unknown_Category)"

definition isExternalFailureCategory :: "rt_category \<Rightarrow> bool" where
  "isExternalFailureCategory c \<longleftrightarrow>
     c \<in> {Rate_Limit, Auth, Timed_Out, Permission, Stream_Failure, Transport}"

definition isRepositoryInspectionBudgetExhaustionError :: "thrown \<Rightarrow> bool" where
  "isRepositoryInspectionBudgetExhaustionError e =
     (case findRuntimeExecutionError e of
        None \<Rightarrow> False
      | Some (msg, m) \<Rightarrow>
          (case errProviderMeta m of
             JObj kvs \<Rightarrow> map_of kvs ''status'' = Some (JStr ''repository_inspection_budget_exhausted'')
           | _ \<Rightarrow> False) \<or>
          js_test (lit_i ''repository inspection budget exhausted'') msg)"

definition CAPABILITY_FAILURE_PATTERNS :: "string list" where
  "CAPABILITY_FAILURE_PATTERNS =
     [''runtime capability'', ''required capabilities'', ''unsupported capabilities'']"

definition isRuntimeCapabilityFailure :: "thrown \<Rightarrow> bool" where
  "isRuntimeCapabilityFailure e \<longleftrightarrow>
     findRuntimeCapabilityError e \<noteq> None \<or> list_ex (js_includes (errorText e)) CAPABILITY_FAILURE_PATTERNS"

definition isExternalFailure :: "thrown \<Rightarrow> bool" where
  "isExternalFailure e =
     (case findRuntimeExecutionError e of
        Some (_, m) \<Rightarrow> isExternalFailureCategory (category m)
      | None \<Rightarrow> isRuntimeCapabilityFailure e)"

definition isFastRetryableFailure :: "thrown \<Rightarrow> bool" where
  "isFastRetryableFailure e \<longleftrightarrow>
     (let lower = errorText e in
      js_includes lower ''stream interrupted before implement-worker dispatch'' \<or>
      js_includes lower ''error in hook callback'' \<and> js_includes lower ''stream closed'')"

definition truncateReason :: "string \<Rightarrow> string" where
  "truncateReason r = (if length r \<le> 240 then r else take 237 r @ ''...'')"

section \<open>Reasons\<close>

record stage_error_input =
  se_taskId :: string
  stageLabel :: string
  sourceStatus :: task_status
  se_retryCount :: int
  err :: thrown

datatype retry_source = From_ResetAt | From_RetryAfter | From_Backoff | From_None

fun retry_source_text :: "retry_source \<Rightarrow> string" where
  "retry_source_text From_ResetAt = ''resetAt''"
| "retry_source_text From_RetryAfter = ''retryAfterSeconds''"
| "retry_source_text From_Backoff = ''deterministic_backoff''"
| "retry_source_text From_None = ''none''"

record blocked_recovery =
  rec_reason :: string
  rec_retryAfter :: "int option"
  rec_source :: retry_source
  rec_retryCount :: int
  rec_limitSnapshot :: "limit_snapshot option"

datatype error_recovery = Fast_Retry | Blocked_Recovery blocked_recovery | Revert

definition meta_string :: "(string \<times> execution_meta) option \<Rightarrow> string \<Rightarrow> string option" where
  "meta_string re key =
     (case re of
        None \<Rightarrow> None
      | Some (_, m) \<Rightarrow>
          (case errProviderMeta m of
             JObj kvs \<Rightarrow>
               (case map_of kvs key of
                  Some (JStr s) \<Rightarrow> if js_trim s \<noteq> [] then Some (js_trim s) else None
                | _ \<Rightarrow> None)
           | _ \<Rightarrow> None))"

definition meta_number :: "(string \<times> execution_meta) option \<Rightarrow> string \<Rightarrow> rat option" where
  "meta_number re key =
     (case re of
        None \<Rightarrow> None
      | Some (_, m) \<Rightarrow>
          (case errProviderMeta m of
             JObj kvs \<Rightarrow>
               (case map_of kvs key of Some (JNum n) \<Rightarrow> toFiniteNumber (Some n) | _ \<Rightarrow> None)
           | _ \<Rightarrow> None))"

definition reason_char :: "char \<Rightarrow> bool" where "reason_char c \<longleftrightarrow> alnum c \<or> c \<in> set ''_.:/@-''"

definition sanitizeReasonToken :: "string option \<Rightarrow> string \<Rightarrow> string" where
  "sanitizeReasonToken v fallback =
     (let raw = (case v of Some s \<Rightarrow> if js_trim s \<noteq> [] then js_trim s else fallback | None \<Rightarrow> fallback);
          cut = take 160 (map (\<lambda>c. if reason_char c then c else CHR ''_'') raw)
      in if cut \<noteq> [] then cut else fallback)"

fun collapse_slashes :: "string \<Rightarrow> string" where
  "collapse_slashes (a # b # s) =
     (if a = CHR ''/'' \<and> b = CHR ''/'' then collapse_slashes (b # s) else a # collapse_slashes (b # s))"
| "collapse_slashes s = s"

definition strip_dot_slash :: "string \<Rightarrow> string" where
  "strip_dot_slash s = (if startsWith s ''./'' then dropWhile (\<lambda>c. c = CHR ''/'') (tl s) else s)"

definition sanitizeReasonPath :: "string option \<Rightarrow> string option" where
  "sanitizeReasonPath v =
     (if \<not> truthy v then None
      else
        let normalized = collapse_slashes (strip_dot_slash
              (map (\<lambda>c. if c = CHR 0x5C then CHR ''/'' else c) (js_trim (the v))))
        in if normalized = [] \<or> CHR 0x00 \<in> set normalized then None
           else Some (take 240 (map (\<lambda>c. if reason_char c then c else CHR ''_'') normalized)))"

definition tool_loop_base :: "string \<Rightarrow> string \<Rightarrow> string \<Rightarrow> rat \<Rightarrow> rat \<Rightarrow> string" where
  "tool_loop_base label stage toolName count limit =
     (if label = ''implementer'' \<or> stage = ''implementer'' then ''implementation_tool_loop: ''
      else ''repeated_tool_loop: '') @ toolName @ '' repeated '' @ js_number_text count @ ''/'' @
     js_number_text limit"

definition repeatedToolLoopBlockedReason :: "string \<Rightarrow> thrown \<Rightarrow> string option" where
  "repeatedToolLoopBlockedReason label e =
     (let re = findRuntimeExecutionError e in
      if re = None \<or> meta_string re ''status'' \<noteq> Some ''repeated_tool_loop_blocked'' then None
      else
        let toolName = sanitizeReasonToken (meta_string re ''toolName'') ''unknown_tool'';
            count = (case meta_number re ''repeatedCount'' of Some q \<Rightarrow> q | None \<Rightarrow> 0);
            limit = (case meta_number re ''repeatedToolCallLimit'' of Some q \<Rightarrow> q | None \<Rightarrow> 0);
            stage = (case meta_string re ''stage'' of Some s \<Rightarrow> s
                     | None \<Rightarrow> (case meta_string re ''workflowKind'' of Some s \<Rightarrow> s | None \<Rightarrow> label));
            base = tool_loop_base label stage toolName count limit
        in if stage \<noteq> ''audit'' \<and> label \<noteq> ''audit'' then Some base
           else (case sanitizeReasonPath (case meta_string re ''targetPath'' of Some s \<Rightarrow> Some s
                     | None \<Rightarrow> meta_string re ''artifactPath'') of
               Some artifact \<Rightarrow> Some (base @ ''; artifact='' @ artifact)
             | None \<Rightarrow> Some base))"

definition implementationRuntimeExhaustionStatus :: "(string \<times> execution_meta) option \<Rightarrow> string option" where
  "implementationRuntimeExhaustionStatus re =
     (case re of
        None \<Rightarrow> None
      | Some (_, m) \<Rightarrow>
          (case meta_string re ''status'' of
             Some s \<Rightarrow> if s \<in> {''max_tool_turns_exhausted'', ''runtime_budget_exhausted'', ''runtime_limit_exhausted''}
               then Some s else if category m = Timed_Out then Some ''runtime_timeout'' else None
           | None \<Rightarrow> if category m = Timed_Out then Some ''runtime_timeout'' else None))"

definition stage_timeout_pattern :: rx where
  "stage_timeout_pattern = rseq [At_Start, lit_i ''Stage implementer timed out after '',
     rx_plus (One digit), lit_i ''ms'', At_End]"

fun isImplementerStageTimeoutError :: "thrown \<Rightarrow> bool" where
  "isImplementerStageTimeoutError (Js_Error k msg c) =
     (js_test stage_timeout_pattern (js_trim msg) \<or>
      (case c of Some e \<Rightarrow> isImplementerStageTimeoutError e | None \<Rightarrow> False))"
| "isImplementerStageTimeoutError (Js_Value s) = False"

text \<open>The category and status texts, and the runtime error they come from.\<close>

definition implementationRuntimeExhaustionDetails ::
    "string \<Rightarrow> thrown \<Rightarrow> (string \<times> string \<times> (string \<times> execution_meta) option) option" where
  "implementationRuntimeExhaustionDetails label e =
     (if label \<noteq> ''implementer'' then None
      else if isRepositoryInspectionBudgetExhaustionError e then None
      else
        let re = findRuntimeExecutionError e in
        case implementationRuntimeExhaustionStatus re of
          Some st \<Rightarrow> Some ((case re of Some (_, m) \<Rightarrow> category_text (category m) | None \<Rightarrow> ''unknown''), st, re)
        | None \<Rightarrow> if isImplementerStageTimeoutError e then Some (''timeout'', ''stage_timeout'', None) else None)"

definition limit_snapshot_of :: "bool \<Rightarrow> (string \<times> execution_meta) option \<Rightarrow> limit_snapshot option" where
  "limit_snapshot_of limitsEnabled re =
     (if limitsEnabled then Option.bind re (\<lambda>(_, m). errLimitSnapshot m) else None)"

text \<open>The blocked recovery with its activity line; a missing retry time is a manual one.\<close>

definition block_stage ::
    "stage_error_input \<Rightarrow> string \<Rightarrow> int option \<Rightarrow> retry_source \<Rightarrow> int \<Rightarrow> limit_snapshot option \<Rightarrow> db \<Rightarrow>
     blocked_recovery \<times> db" where
  "block_stage inp reason retry src count snap d =
     (\<lparr>rec_reason = reason, rec_retryAfter = retry, rec_source = src, rec_retryCount = count,
       rec_limitSnapshot = snap\<rparr>,
      logActivity (se_taskId inp) ''Agent''
        (''coordinator moved to blocked_external from '' @ status_text (sourceStatus inp) @ '' at '' @
         stageLabel inp @ ''; retryAfter='' @ (case retry of Some t \<Rightarrow> toISOString t | None \<Rightarrow> ''manual'') @
         ''; source='' @ retry_source_text src @ ''; reason='' @ truncateReason reason) d)"

definition classifyImplementationRuntimeExhaustion ::
    "bool \<Rightarrow> stage_error_input \<Rightarrow> db \<Rightarrow> (blocked_recovery \<times> db) option" where
  "classifyImplementationRuntimeExhaustion limitsEnabled inp d =
     (case implementationRuntimeExhaustionDetails (stageLabel inp) (err inp) of
        None \<Rightarrow> None
      | Some (cat, st, re) \<Rightarrow> Some (block_stage inp
          (''implementation_runtime_exhausted_requires_split: implementer runtime exhausted (category='' @ cat @
           ''; status='' @ st @ ''). Split scope, prepare a continuation package, '' @
           ''or choose an explicit supported recovery path before retry.'')
          None From_None (se_retryCount inp) (limit_snapshot_of limitsEnabled re) d))"

definition user_safe_capability_reason :: string where
  "user_safe_capability_reason =
     ''Runtime capability check failed. Check the configured runtime profile for this stage.''"

definition buildUserSafeExternalReason :: "thrown \<Rightarrow> string" where
  "buildUserSafeExternalReason e =
     (case findRuntimeExecutionError e of
        None \<Rightarrow> user_safe_capability_reason
      | Some (_, m) \<Rightarrow>
          (case category m of
             Rate_Limit \<Rightarrow> ''Runtime usage limit reached. Task auto-paused until the retry window.''
           | Auth \<Rightarrow> ''Runtime authentication failed. Check the configured runtime profile.''
           | Permission \<Rightarrow> ''Runtime permissions blocked this task. Check the configured runtime profile or approval mode.''
           | Timed_Out \<Rightarrow> ''Runtime request timed out. Task will retry automatically.''
           | Stream_Failure \<Rightarrow> ''Runtime stream failed. Task will retry automatically.''
           | _ \<Rightarrow> ''Runtime request failed. Task will retry automatically.''))"

definition buildOperatorInputRuntimeReason :: "rt_category \<Rightarrow> string" where
  "buildOperatorInputRuntimeReason c =
     (if c = Auth then ''operator_input_required: Runtime authentication failed. '' @
        ''Refresh or select a valid runtime profile or login state before retry.''
      else ''operator_input_required: Runtime permissions blocked this task. '' @
        ''Grant the required runtime access or update the approval/sandbox policy before retry.'')"

definition buildRuntimeStageNotCapableReason :: "string option \<Rightarrow> string \<Rightarrow> string" where
  "buildRuntimeStageNotCapableReason st label =
     (if st = Some ''no_implementation_capable_profile'' then
        ''runtime_stage_not_capable: No implementation-capable runtime profile is configured. '' @
        ''Select a runtime profile explicitly declared capable for tool-using implementation '' @
        ''or pass a local Qwen implementation canary before retry.''
      else ''runtime_stage_not_capable: Selected runtime profile is not capable for '' @ label @ ''. '' @
        ''Choose a stage-capable runtime profile or update the profile capability contract before retry.'')"

record safe_reason =
  safeReason :: string
  safeCategory :: rt_category
  safeCode :: string
  isRuntimeError :: bool

definition mapSafeRuntimeErrorReason :: "rt_category \<Rightarrow> safe_reason" where
  "mapSafeRuntimeErrorReason c =
     (case c of
        Rate_Limit \<Rightarrow> \<lparr>safeReason = ''Runtime usage limit reached.'', safeCategory = Rate_Limit, safeCode = ''RUNTIME_RATE_LIMIT'', isRuntimeError = True\<rparr>
      | Auth \<Rightarrow> \<lparr>safeReason = ''Runtime authentication failed.'', safeCategory = Auth, safeCode = ''RUNTIME_AUTH_FAILED'', isRuntimeError = True\<rparr>
      | Timed_Out \<Rightarrow> \<lparr>safeReason = ''Runtime request timed out.'', safeCategory = Timed_Out, safeCode = ''RUNTIME_TIMEOUT'', isRuntimeError = True\<rparr>
      | Permission \<Rightarrow> \<lparr>safeReason = ''Runtime permissions blocked this task.'', safeCategory = Permission, safeCode = ''RUNTIME_PERMISSION_BLOCKED'', isRuntimeError = True\<rparr>
      | Stream_Failure \<Rightarrow> \<lparr>safeReason = ''Runtime stream failed.'', safeCategory = Stream_Failure, safeCode = ''RUNTIME_STREAM_FAILED'', isRuntimeError = True\<rparr>
      | Transport \<Rightarrow> \<lparr>safeReason = ''Provider temporarily unavailable.'', safeCategory = Transport, safeCode = ''RUNTIME_PROVIDER_UNAVAILABLE'', isRuntimeError = True\<rparr>
      | Model_Not_Found \<Rightarrow> \<lparr>safeReason = ''Configured model was not found for the selected runtime.'', safeCategory = Model_Not_Found, safeCode = ''RUNTIME_MODEL_NOT_FOUND'', isRuntimeError = True\<rparr>
      | Context_Length \<Rightarrow> \<lparr>safeReason = ''Request exceeded the model context limit.'', safeCategory = Context_Length, safeCode = ''RUNTIME_CONTEXT_LENGTH_EXCEEDED'', isRuntimeError = True\<rparr>
      | Content_Filter \<Rightarrow> \<lparr>safeReason = ''Request blocked by provider content policy.'', safeCategory = Content_Filter, safeCode = ''RUNTIME_CONTENT_FILTERED'', isRuntimeError = True\<rparr>
      | Unknown_Category \<Rightarrow> \<lparr>safeReason = ''Runtime request failed.'', safeCategory = Unknown_Category, safeCode = ''RUNTIME_UNKNOWN_ERROR'', isRuntimeError = False\<rparr>)"

section \<open>The recovery of a stage\<close>

text \<open>The retry time and where it comes from; the time of a huge number of seconds throws.\<close>

definition resolveRetryAfter ::
    "(string \<Rightarrow> int option) \<Rightarrow> thrown \<Rightarrow> int \<Rightarrow> int \<Rightarrow> string + int \<times> retry_source" where
  "resolveRetryAfter dp e count now =
     (let re = findRuntimeExecutionError e in
      case parseTimestampMs dp (Option.bind re (\<lambda>(_, m). errResetAt m)) of
        Some t \<Rightarrow> Inr (max t now, From_ResetAt)
      | None \<Rightarrow>
          (case finite_non_negative (Option.bind re (\<lambda>(_, m). errRetryAfterSeconds m)) of
             Some q \<Rightarrow> (case date_text (of_int now + q * 1000) of
                 Inl x \<Rightarrow> Inl x
               | Inr _ \<Rightarrow> Inr (js_trunc (of_int now + q * 1000), From_RetryAfter))
           | None \<Rightarrow> Inr (now + getDeterministicBackoffMinutes count * 60000, From_Backoff)))"

definition NON_RETRYABLE_RUNTIME_CATEGORIES :: "rt_category set" where
  "NON_RETRYABLE_RUNTIME_CATEGORIES = {Model_Not_Found, Context_Length, Content_Filter}"

definition classifyExternalError ::
    "(string \<Rightarrow> int option) \<Rightarrow> bool \<Rightarrow> stage_error_input \<Rightarrow> int \<Rightarrow> db \<Rightarrow> string + error_recovery \<times> db" where
  "classifyExternalError dp limitsEnabled inp now d =
     (let e = err inp; re = findRuntimeExecutionError e in
      if isRepositoryInspectionBudgetExhaustionError e then
        Inr (apfst Blocked_Recovery (block_stage inp
          (''repository_inspection_budget_exhausted: Repository inspection budget was exhausted and compact finalization did not produce a trusted result. '' @
           ''AIF will not retry with full repository context or a larger fallback profile automatically.'')
          None From_None (se_retryCount inp) None d))
      else
        (case resolveRetryAfter dp e (se_retryCount inp) now of
           Inl x \<Rightarrow> Inl x
         | Inr (t, src) \<Rightarrow> Inr (apfst Blocked_Recovery (block_stage inp (buildUserSafeExternalReason e)
             (Some t) src (se_retryCount inp + 1) (limit_snapshot_of limitsEnabled re) d))))"

definition classifyRuntimeError ::
    "bool \<Rightarrow> stage_error_input \<Rightarrow> (string \<times> execution_meta) option \<Rightarrow> db \<Rightarrow> (blocked_recovery \<times> db) option" where
  "classifyRuntimeError limitsEnabled inp re d =
     (case re of
        None \<Rightarrow> None
      | Some (_, m) \<Rightarrow>
          let snap = limit_snapshot_of limitsEnabled re; st = meta_string re ''status'' in
          if category m = Auth \<or> category m = Permission then
            Some (block_stage inp
              (if category m = Permission \<and> (st = Some ''runtime_stage_not_capable'' \<or>
                   st = Some ''no_implementation_capable_profile'')
               then buildRuntimeStageNotCapableReason st (stageLabel inp)
               else buildOperatorInputRuntimeReason (category m))
              None From_None (se_retryCount inp) snap d)
          else if category m \<in> NON_RETRYABLE_RUNTIME_CATEGORIES then
            Some (block_stage inp
              (safeReason (mapSafeRuntimeErrorReason (category m)) @ '' Manual action required before retry.'')
              None From_None (se_retryCount inp) snap d)
          else None)"

definition classifyStageError ::
    "(string \<Rightarrow> int option) \<Rightarrow> bool \<Rightarrow> stage_error_input \<Rightarrow> int \<Rightarrow> db \<Rightarrow> string + error_recovery \<times> db" where
  "classifyStageError dp limitsEnabled inp now d =
     (let e = err inp; re = findRuntimeExecutionError e in
      case repeatedToolLoopBlockedReason (stageLabel inp) e of
        Some reason \<Rightarrow> Inr (apfst Blocked_Recovery (block_stage inp reason None From_None
          (se_retryCount inp) (limit_snapshot_of limitsEnabled re) d))
      | None \<Rightarrow>
      (case classifyImplementationRuntimeExhaustion limitsEnabled inp d of
        Some r \<Rightarrow> Inr (apfst Blocked_Recovery r)
      | None \<Rightarrow>
      (case findBranchIsolationError e of
        Some (kind, msg) \<Rightarrow> Inr (apfst Blocked_Recovery (block_stage inp
          (''Branch isolation failure ('' @ kind @ ''): '' @ msg) None From_None (se_retryCount inp) None d))
      | None \<Rightarrow>
      if isRuntimeCapabilityFailure e then
        Inr (apfst Blocked_Recovery (block_stage inp user_safe_capability_reason None From_None
          (se_retryCount inp) None d))
      else
      (case classifyRuntimeError limitsEnabled inp re d of
        Some r \<Rightarrow> Inr (apfst Blocked_Recovery r)
      | None \<Rightarrow>
      if isFastRetryableFailure e then Inr (Fast_Retry, d)
      else if isExternalFailure e then classifyExternalError dp limitsEnabled inp now d
      else Inr (apfst Blocked_Recovery (block_stage inp
        (''Unexpected '' @ stageLabel inp @ '' stage failure. Operator action required before retry.'')
        None From_None (se_retryCount inp + 1) None d))))))"

section \<open>Applying the recovery\<close>

definition isOperatorCancelledTask :: "task_row \<Rightarrow> bool" where
  "isOperatorCancelledTask r \<longleftrightarrow> status r = Blocked_External \<and>
     (case blockedReason r of Some s \<Rightarrow> startsWith s ''operator_cancelled:'' | None \<Rightarrow> False)"

text \<open>
  The coordinator's status update: nothing happens to a cancelled task unless the update gives a
  cancellation as its reason. \<open>reason\<close> is the reason among the extra fields, if that is a text.
\<close>

definition coordinator_updateTaskStatus ::
    "string \<Rightarrow> task_status \<Rightarrow> (task_row \<Rightarrow> task_row) \<Rightarrow> string option \<Rightarrow> string \<Rightarrow> task_status \<Rightarrow> int \<Rightarrow> db \<Rightarrow>
     db \<times> (bool \<times> moved) list" where
  "coordinator_updateTaskStatus i st extra reason label from now d =
     (if (case findTaskById i d of Some r \<Rightarrow> isOperatorCancelledTask r | None \<Rightarrow> False) \<and>
         (st \<noteq> Blocked_External \<or>
          (case reason of Some s \<Rightarrow> \<not> startsWith s ''operator_cancelled:'' | None \<Rightarrow> True))
      then (d, [])
      else (updateTaskStatus i st extra now d,
        [(from \<noteq> st, \<lparr>movedTaskId = i, movedTitle = label, fromStatus = from, toStatus = st\<rparr>)]))"

definition applyStageRecovery ::
    "stage_error_input \<Rightarrow> task_status \<Rightarrow> string \<Rightarrow> error_recovery \<Rightarrow> int \<Rightarrow> db \<Rightarrow> string + db \<times> (bool \<times> moved) list" where
  "applyStageRecovery inp inProgress label rec now d =
     (let i = se_taskId inp in
      case rec of
        Fast_Retry \<Rightarrow> Inr (coordinator_updateTaskStatus i inProgress
          (\<lambda>r. r\<lparr>blockedReason := None, blockedFromStatus := None, retryAfter := None\<rparr>) None label inProgress now
          (clearTaskRuntimeLimitSnapshot i now d))
      | Blocked_Recovery b \<Rightarrow>
          (case (case rec_limitSnapshot b of
                Some s \<Rightarrow> persistTaskRuntimeLimitSnapshot i s now d
              | None \<Rightarrow> Inr (clearTaskRuntimeLimitSnapshot i now d)) of
             Inl x \<Rightarrow> Inl x
           | Inr d' \<Rightarrow> Inr (coordinator_updateTaskStatus i Blocked_External
               (\<lambda>r. r\<lparr>blockedReason := Some (rec_reason b), blockedFromStatus := Some inProgress,
                 retryAfter := rec_retryAfter b, retryCount := rec_retryCount b\<rparr>)
               (Some (rec_reason b)) label inProgress now d'))
      | Revert \<Rightarrow> Inr (coordinator_updateTaskStatus i inProgress (\<lambda>r. r) None label inProgress now
          (clearTaskRuntimeLimitSnapshot i now d)))"

section \<open>What the classification can return\<close>

lemma block_stage_fields [simp]:
  "rec_reason (fst (block_stage inp r t src n snap d)) = r"
  "rec_retryAfter (fst (block_stage inp r t src n snap d)) = t"
  "rec_source (fst (block_stage inp r t src n snap d)) = src"
  "rec_retryCount (fst (block_stage inp r t src n snap d)) = n"
  "tasks (snd (block_stage inp r t src n snap d)) = tasks d"
  by (simp_all add: block_stage_def logActivity_def)

lemma apfst_blocked:
  "apfst Blocked_Recovery p = (Blocked_Recovery b, d') \<longleftrightarrow> p = (b, d')"
  by (cases p) auto

lemma js_trunc_ge: "of_int n \<le> (x :: rat) \<Longrightarrow> n \<le> js_trunc x"
proof -
  assume n: "of_int n \<le> x"
  show ?thesis
  proof (cases "x < 0")
    case True
    have "x \<le> of_int \<lceil>x\<rceil>" by (rule le_of_int_ceiling)
    then have "(of_int n :: rat) \<le> of_int \<lceil>x\<rceil>" using n by linarith
    then show ?thesis using True by (simp add: js_trunc_def)
  next
    case False
    then show ?thesis using n by (simp add: js_trunc_def le_floor_iff)
  qed
qed

lemma backoff_time: "now \<le> now + getDeterministicBackoffMinutes n * 60000"
  using backoff_bounds [of n] by simp

lemma resolveRetryAfter_ge:
  assumes "resolveRetryAfter dp e n now = Inr (t, src)"
  shows "now \<le> t"
  using assms backoff_time
  by (auto simp: resolveRetryAfter_def Let_def finite_non_negative_def
      split: option.splits sum.splits if_splits intro!: js_trunc_ge)

lemma resolveRetryAfter_fails:
  assumes "resolveRetryAfter dp e n now = Inl x"
  shows "\<exists>msg m q. findRuntimeExecutionError e = Some (msg, m) \<and>
    finite_non_negative (errRetryAfterSeconds m) = Some q \<and> MAX_TIME < \<bar>js_trunc (of_int now + q * 1000)\<bar>"
proof -
  obtain q where q: "finite_non_negative (Option.bind (findRuntimeExecutionError e) (\<lambda>(_, m). errRetryAfterSeconds m)) = Some q"
      "MAX_TIME < \<bar>js_trunc (of_int now + q * 1000)\<bar>"
    using assms
    by (auto simp: resolveRetryAfter_def Let_def date_text_def split: option.splits sum.splits if_splits)
  then show ?thesis
    by (cases "findRuntimeExecutionError e") (auto simp: finite_non_negative_def)
qed

text \<open>The one branch with a retry time, and the branches that lead to it.\<close>

lemma classify_retry:
  assumes "classifyStageError dp limitsEnabled inp now d = Inr (Blocked_Recovery b, d')"
    "rec_retryAfter b = Some t"
  shows "findBranchIsolationError (err inp) = None \<and> \<not> isRuntimeCapabilityFailure (err inp) \<and>
    \<not> isFastRetryableFailure (err inp) \<and> \<not> isRepositoryInspectionBudgetExhaustionError (err inp) \<and>
    isExternalFailure (err inp) \<and> classifyRuntimeError limitsEnabled inp (findRuntimeExecutionError (err inp)) d = None \<and>
    (\<exists>src. resolveRetryAfter dp (err inp) (se_retryCount inp) now = Inr (t, src)) \<and>
    rec_retryCount b = se_retryCount inp + 1 \<and> rec_reason b = buildUserSafeExternalReason (err inp)"
proof -
  have "classifyImplementationRuntimeExhaustion limitsEnabled inp d \<noteq> Some (b, d')"
    using assms(2) by (auto simp: classifyImplementationRuntimeExhaustion_def block_stage_def split: option.split)
  moreover have "classifyRuntimeError limitsEnabled inp re d \<noteq> Some (b, d')" for re
    using assms(2) by (auto simp: classifyRuntimeError_def block_stage_def Let_def split: option.split if_split)
  ultimately show ?thesis
    using assms
    by (auto simp: classifyStageError_def classifyExternalError_def Let_def apfst_blocked block_stage_def
        split: option.splits if_splits sum.splits)
qed

text \<open>No reason the classification gives reads as a cancellation.\<close>

abbreviation cancellation_text :: "string \<Rightarrow> bool" where
  "cancellation_text r \<equiv> startsWith r ''operator_cancelled:''"

lemma repeated_loop_reason:
  "repeatedToolLoopBlockedReason l e = Some r \<Longrightarrow> \<not> cancellation_text r"
proof -
  assume r: "repeatedToolLoopBlockedReason l e = Some r"
  have "\<exists>st tool c n y. r = tool_loop_base l st tool c n @ y"
    using r unfolding repeatedToolLoopBlockedReason_def Let_def
    by (simp split: if_splits option.split_asm) (metis append_Nil2)+
  moreover have "\<not> cancellation_text (tool_loop_base l st tool c n @ y)" for st tool c n y
    by (cases "l = ''implementer'' \<or> st = ''implementer''") (simp_all add: tool_loop_base_def)
  ultimately show ?thesis by blast
qed

lemma exhaustion_reason:
  "classifyImplementationRuntimeExhaustion l inp d = Some (b, d') \<Longrightarrow> \<not> cancellation_text (rec_reason b)"
  by (auto simp: classifyImplementationRuntimeExhaustion_def block_stage_def split: option.splits)

lemma runtime_reason:
  "classifyRuntimeError l inp re d = Some (b, d') \<Longrightarrow> \<not> cancellation_text (rec_reason b)"
  by (auto simp: classifyRuntimeError_def block_stage_def Let_def buildOperatorInputRuntimeReason_def
      buildRuntimeStageNotCapableReason_def mapSafeRuntimeErrorReason_def NON_RETRYABLE_RUNTIME_CATEGORIES_def
      split: option.splits if_splits)

lemma external_reason: "\<not> cancellation_text (buildUserSafeExternalReason e)"
  by (simp add: buildUserSafeExternalReason_def user_safe_capability_reason_def split: option.split prod.split rt_category.split)

lemma classified_reason:
  assumes "classifyStageError dp l inp now d = Inr (Blocked_Recovery b, d')"
  shows "\<not> cancellation_text (rec_reason b)"
  using assms repeated_loop_reason exhaustion_reason runtime_reason external_reason
  by (auto simp: classifyStageError_def classifyExternalError_def Let_def apfst_blocked block_stage_def
      user_safe_capability_reason_def split: option.splits if_splits sum.splits)

lemma classified_tasks:
  assumes "classifyStageError dp l inp now d = Inr (r, d')"
  shows "tasks d' = tasks d"
proof -
  have "classifyImplementationRuntimeExhaustion l inp d = Some p \<Longrightarrow> tasks (snd p) = tasks d" for p
    by (auto simp: classifyImplementationRuntimeExhaustion_def split: option.splits)
  moreover have "classifyRuntimeError l inp re d = Some p \<Longrightarrow> tasks (snd p) = tasks d" for re p
    by (auto simp: classifyRuntimeError_def Let_def split: option.splits if_splits)
  ultimately show ?thesis
    using assms
    by (fastforce simp: classifyStageError_def classifyExternalError_def Let_def apfst_def map_prod_def split_beta
        split: option.splits if_splits sum.splits)
qed

section \<open>Properties\<close>

text \<open>
  C7: only passing failures of the runtime are retried on their own. When a stage failure gets a retry
  time, it is a runtime error of the categories rate limit, timeout, stream or transport, no branch
  isolation failure, no capability failure and no exhausted inspection budget; the time is not in the
  past, the retry is counted, and the reason is one of the fixed texts.
\<close>

theorem automatic_retry_only_for_transient_failures:
  assumes "classifyStageError dp limitsEnabled inp now d = Inr (Blocked_Recovery b, d')"
    "rec_retryAfter b = Some t"
  shows "now \<le> t \<and> rec_retryCount b = se_retryCount inp + 1 \<and>
    (\<exists>msg m. findRuntimeExecutionError (err inp) = Some (msg, m) \<and>
       category m \<in> {Rate_Limit, Timed_Out, Stream_Failure, Transport}) \<and>
    findBranchIsolationError (err inp) = None \<and> \<not> isRuntimeCapabilityFailure (err inp) \<and>
    \<not> isRepositoryInspectionBudgetExhaustionError (err inp) \<and>
    rec_reason b = buildUserSafeExternalReason (err inp)"
proof -
  note c = classify_retry [OF assms]
  then obtain msg m where m: "findRuntimeExecutionError (err inp) = Some (msg, m)"
      "isExternalFailureCategory (category m)"
    by (auto simp: isExternalFailure_def split: option.splits)
  moreover have "category m \<noteq> Auth \<and> category m \<noteq> Permission"
    using c m(1) by (auto simp: classifyRuntimeError_def Let_def)
  ultimately show ?thesis
    using c resolveRetryAfter_ge by (auto simp: isExternalFailureCategory_def)
qed

definition demo_failure :: "rt_category \<Rightarrow> jsnum \<Rightarrow> stage_error_input" where
  "demo_failure c secs = \<lparr>se_taskId = ''t'', stageLabel = ''reviewer'', sourceStatus = Review, se_retryCount = 2,
     err = Js_Error Plain_Error ''outer'' (Some (Js_Error (Execution_Error
       (runtime_execution_meta c None None None (Some secs) None JNull)) ''429'' None))\<rparr>"

theorem automatic_retry_only_for_transient_failures_witness:
  "\<exists>b d'. classifyStageError (\<lambda>_. None) True (demo_failure Rate_Limit (Fin 30)) 1000 empty_db =
       Inr (Blocked_Recovery b, d') \<and> rec_retryAfter b = Some 31000 \<and> rec_retryCount b = 3"
proof -
  let ?r = "classifyStageError (\<lambda>_. None) True (demo_failure Rate_Limit (Fin 30)) 1000 empty_db"
  have 0: "case ?r of Inr (Blocked_Recovery b, _) \<Rightarrow> rec_retryAfter b = Some 31000 | _ \<Rightarrow> False" by code_simp
  then obtain b d' where 1: "?r = Inr (Blocked_Recovery b, d')" "rec_retryAfter b = Some 31000"
    by (auto split: sum.splits prod.splits error_recovery.splits)
  show ?thesis
    using automatic_retry_only_for_transient_failures [OF 1] 1 by (simp add: demo_failure_def)
qed

text \<open>
  C39: a failed stage is blocked or retried, never reverted. The classification fails only when a
  runtime error asks for a retry so many seconds ahead that the time is out of the range of dates
  (its \<open>toISOString\<close> throws); otherwise its answer is a fast retry or a block.
\<close>

theorem stage_failure_outcomes:
  "case classifyStageError dp limitsEnabled inp now d of
     Inl e \<Rightarrow> (\<exists>msg m q. findRuntimeExecutionError (err inp) = Some (msg, m) \<and>
       finite_non_negative (errRetryAfterSeconds m) = Some q \<and> MAX_TIME < \<bar>js_trunc (of_int now + q * 1000)\<bar>)
   | Inr (rec, d') \<Rightarrow> rec \<noteq> Revert"
proof (cases "classifyStageError dp limitsEnabled inp now d")
  case (Inl x)
  then have "\<exists>y. resolveRetryAfter dp (err inp) (se_retryCount inp) now = Inl y"
    by (auto simp: classifyStageError_def classifyExternalError_def Let_def
        split: option.splits if_splits sum.splits)
  then show ?thesis using Inl resolveRetryAfter_fails by fastforce
next
  case (Inr p)
  then have "fst p \<noteq> Revert"
    by (auto simp: classifyStageError_def classifyExternalError_def Let_def apfst_def map_prod_def split_beta
        split: option.splits if_splits sum.splits)
  then show ?thesis using Inr by (simp add: split_beta)
qed

lemma huge_retry_after_throws:
  "classifyStageError (\<lambda>_. None) True (demo_failure Rate_Limit (Fin 10000000000000)) 0 empty_db =
     Inl ''RangeError: Invalid time value''"
  by code_simp

lemma cancelled_keeps:
  assumes "findTaskById i d = Some r" "isOperatorCancelledTask r" "f r = r\<lparr>runtimeLimitSnapshot := x, runtimeLimitUpdatedAt := y\<rparr>"
    "\<And>r. taskId (f r) = taskId r"
  shows "\<exists>q. findTaskById i (fst (update_tasks (\<lambda>r. taskId r = i) f d)) = Some q \<and>
    isOperatorCancelledTask q \<and> status q = status r \<and> blockedReason q = blockedReason r"
  using assms(1-3) findTaskById_Some [OF assms(1)]
  by (simp add: findTaskById_update [of f, OF assms(4)] isOperatorCancelledTask_def)

text \<open>Every step of a recovery on a cancelled task keeps the row's cancellation.\<close>

definition cancelled_as :: "string \<Rightarrow> task_row \<Rightarrow> db \<Rightarrow> bool" where
  "cancelled_as i r d \<longleftrightarrow> (\<exists>q. findTaskById i d = Some q \<and>
     isOperatorCancelledTask q \<and> status q = status r \<and> blockedReason q = blockedReason r)"

lemma cancelled_as_row: "findTaskById i d = Some r \<Longrightarrow> isOperatorCancelledTask r \<Longrightarrow> cancelled_as i r d"
  by (simp add: cancelled_as_def)

lemma cancelled_patch:
  assumes "cancelled_as i r d" "\<And>q. f q = q\<lparr>runtimeLimitSnapshot := x, runtimeLimitUpdatedAt := y\<rparr>"
  shows "cancelled_as i r (fst (update_tasks (\<lambda>r. taskId r = i) f d))"
proof -
  obtain q where q: "findTaskById i d = Some q" "isOperatorCancelledTask q" "status q = status r" "blockedReason q = blockedReason r"
    using assms(1) by (auto simp: cancelled_as_def)
  have "\<And>r. taskId (f r) = taskId r" by (simp add: assms(2))
  from cancelled_keeps [OF q(1,2) assms(2) this] show ?thesis using q(3,4) by (auto simp: cancelled_as_def)
qed

lemma cancelled_clear: "cancelled_as i r d \<Longrightarrow> cancelled_as i r (clearTaskRuntimeLimitSnapshot i now d)"
  unfolding clearTaskRuntimeLimitSnapshot_def by (rule cancelled_patch) auto

lemma cancelled_persist:
  assumes "cancelled_as i r d" "persistTaskRuntimeLimitSnapshot i s now d = Inr d'"
  shows "cancelled_as i r d'"
proof -
  obtain n where "d' = fst (update_tasks (\<lambda>r. taskId r = i)
      (\<lambda>r. r\<lparr>runtimeLimitSnapshot := Some n, runtimeLimitUpdatedAt := Some now\<rparr>) d)"
    using assms(2) by (auto simp: persistTaskRuntimeLimitSnapshot_def split: sum.splits)
  then show ?thesis using cancelled_patch [OF assms(1)] by simp
qed

lemma cancelled_status_write:
  assumes "cancelled_as i r d" "case reason of None \<Rightarrow> True | Some x \<Rightarrow> \<not> cancellation_text x"
  shows "coordinator_updateTaskStatus i st f reason label from now d = (d, [])"
  using assms by (auto simp: cancelled_as_def coordinator_updateTaskStatus_def split: option.splits)

lemma recovery_of_cancelled:
  assumes "applyStageRecovery inp inProgress label rec now d = Inr (d', ms)" "cancelled_as (se_taskId inp) r d"
    and "\<And>b. rec = Blocked_Recovery b \<Longrightarrow> \<not> cancellation_text (rec_reason b)"
  shows "ms = [] \<and> cancelled_as (se_taskId inp) r d'"
proof -
  note clear = cancelled_clear [OF assms(2)] and unwritten = cancelled_status_write [OF cancelled_clear [OF assms(2)]]
  show ?thesis
  proof (cases rec)
    case (Blocked_Recovery b)
    show ?thesis
    proof (cases "rec_limitSnapshot b")
      case None
      then show ?thesis using assms(1,3) clear Blocked_Recovery
        by (auto simp: applyStageRecovery_def Let_def unwritten)
    next
      case (Some s)
      then show ?thesis using assms(1,3) Blocked_Recovery cancelled_persist [OF assms(2)]
        by (cases "persistTaskRuntimeLimitSnapshot (se_taskId inp) s now d")
          (auto simp: applyStageRecovery_def Let_def cancelled_status_write [OF cancelled_persist [OF assms(2), where s = s]])
    qed
  qed (use assms(1) clear in \<open>auto simp: applyStageRecovery_def Let_def unwritten\<close>)
qed

text \<open>
  C11: a stage failure does not undo a cancellation. When the operator has cancelled the task while its
  stage was running, applying any classified recovery leaves its status and its reason as they are and
  broadcasts nothing.
\<close>

theorem stage_failure_keeps_cancellation:
  assumes "findTaskById (se_taskId inp) d = Some r" "isOperatorCancelledTask r"
    "classifyStageError dp limitsEnabled inp now d = Inr (rec, d1)"
    "applyStageRecovery inp inProgress label rec now d1 = Inr (d2, ms)"
  shows "ms = [] \<and> (\<exists>q. findTaskById (se_taskId inp) d2 = Some q \<and> status q = Blocked_External \<and>
    blockedReason q = blockedReason r)"
proof -
  have "cancelled_as (se_taskId inp) r d1"
    using assms(1,2) classified_tasks [OF assms(3)] by (intro cancelled_as_row) (simp_all add: findTaskById_def)
  from recovery_of_cancelled [OF assms(4) this]
  have "ms = [] \<and> cancelled_as (se_taskId inp) r d2" using assms(3) classified_reason by blast
  then show ?thesis
    using assms(2) by (auto simp: cancelled_as_def isOperatorCancelledTask_def)
qed

definition demo_cancelled :: task_row where
  "demo_cancelled = (blank_task ''t'')\<lparr>status := Blocked_External,
     blockedReason := Some ''operator_cancelled: task cancelled by operator from review''\<rparr>"

theorem stage_failure_keeps_cancellation_witness:
  "\<exists>rec d1 d2. classifyStageError (\<lambda>_. None) True (demo_failure Auth (Fin 0)) 5
       (empty_db\<lparr>tasks := [demo_cancelled]\<rparr>) = Inr (rec, d1) \<and>
     applyStageRecovery (demo_failure Auth (Fin 0)) Review ''x'' rec 5 d1 = Inr (d2, [])"
proof -
  let ?d = "empty_db\<lparr>tasks := [demo_cancelled]\<rparr>" and ?inp = "demo_failure Auth (Fin 0)"
  let ?c = "classifyStageError (\<lambda>_. None) True ?inp 5 ?d"
  have 1: "findTaskById (se_taskId ?inp) ?d = Some demo_cancelled" by code_simp
  have 2: "isOperatorCancelledTask demo_cancelled" by code_simp
  have 3: "case ?c of Inr (rec, d1) \<Rightarrow>
      (case applyStageRecovery ?inp Review ''x'' rec 5 d1 of Inr _ \<Rightarrow> True | Inl _ \<Rightarrow> False) | Inl _ \<Rightarrow> False"
    by code_simp
  then obtain rec d1 where c: "?c = Inr (rec, d1)" by (auto split: sum.splits)
  then obtain d2 ms where "applyStageRecovery ?inp Review ''x'' rec 5 d1 = Inr (d2, ms)"
    using 3 by (cases "applyStageRecovery ?inp Review ''x'' rec 5 d1") auto
  then show ?thesis using stage_failure_keeps_cancellation [OF 1 2 c] c by blast
qed

end
