(* ===== verification/Js_Text.thy ===== *)
theory Js_Text
  imports Js_Regex
begin

text \<open>
  String routines the review components share: \<open>replace(/\s+/g, " ")\<close>, \<open>split(/\r?\n/)\<close>,
  \<open>matchAll\<close> and \<open>split(re)[0]\<close>, and what the matcher returns on a text that was built from
  known pieces (\<open>first x s t\<close>: the first match of \<open>x\<close> from state \<open>s\<close> ends in \<open>t\<close>).
\<close>

section \<open>White space and lines\<close>

fun collapse_space :: "bool \<Rightarrow> string \<Rightarrow> string" where
  "collapse_space in_run [] = []"
| "collapse_space in_run (c # s) =
     (if js_space c then (if in_run then [] else '' '') @ collapse_space True s
      else c # collapse_space False s)"

definition newline :: char where "newline = CHR 0x0A"

definition carriage_return :: char where "carriage_return = CHR 0x0D"

definition drop_cr :: "string \<Rightarrow> string" where
  "drop_cr s = (if s \<noteq> [] \<and> last s = carriage_return then butlast s else s)"

text \<open>\<open>s.split("\n")\<close> and \<open>s.split(/\r?\n/)\<close>.\<close>

fun split_newline :: "string \<Rightarrow> string \<Rightarrow> string list" where
  "split_newline b [] = [rev b]"
| "split_newline b (c # s) = (if c = newline then rev b # split_newline [] s else split_newline (c # b) s)"

definition js_split_lines :: "string \<Rightarrow> string list" where
  "js_split_lines s = (let ls = split_newline [] s in map drop_cr (butlast ls) @ [last ls])"

text \<open>\<open>s.split(x)[0]\<close> for an expression that matches no empty text.\<close>

definition before_first :: "rx \<Rightarrow> string \<Rightarrow> string" where
  "before_first x s = (case search x [] s of None \<Rightarrow> s | Some (b, _) \<Rightarrow> rev b)"

text \<open>\<open>[...s.matchAll(x)]\<close>: the matched texts, for an expression that matches no empty text.\<close>

function matches_from :: "rx \<Rightarrow> string \<Rightarrow> string \<Rightarrow> string list" where
  "matches_from x b r =
     (case rmatch x (b, r, []) of
        (b', r', m) # _ \<Rightarrow>
          if length r' < length r then take (length r - length r') r # matches_from x b' r'
          else (case r of [] \<Rightarrow> [] | c # cs \<Rightarrow> matches_from x (c # b) cs)
      | [] \<Rightarrow> (case r of [] \<Rightarrow> [] | c # cs \<Rightarrow> matches_from x (c # b) cs))"
  by pat_completeness auto

termination matches_from
  by (relation "measure (\<lambda>(x, b, r). length r)") auto

declare matches_from.simps [simp del]

definition js_match_all :: "rx \<Rightarrow> string \<Rightarrow> string list" where
  "js_match_all x s = matches_from x [] s"

text \<open>\<open>v ?? d\<close>.\<close>

definition the_default :: "'a \<Rightarrow> 'a option \<Rightarrow> 'a" where
  "the_default d v = (case v of None \<Rightarrow> d | Some x \<Rightarrow> x)"

lemma the_default_simps [simp]: "the_default d None = d" "the_default d (Some x) = x"
  by (simp_all add: the_default_def)

text \<open>\<open>[...new Set(xs)]\<close> keeps the first occurrence of each element.\<close>

fun js_unique :: "'a list \<Rightarrow> 'a list" where
  "js_unique [] = []"
| "js_unique (x # xs) = x # filter (\<lambda>y. y \<noteq> x) (js_unique xs)"

text \<open>\<open>xs.sort(cmp)\<close> is stable.\<close>

fun js_insert :: "('a \<Rightarrow> 'a \<Rightarrow> int) \<Rightarrow> 'a \<Rightarrow> 'a list \<Rightarrow> 'a list" where
  "js_insert cmp x [] = [x]"
| "js_insert cmp x (y # ys) = (if cmp x y \<le> 0 then x # y # ys else y # js_insert cmp x ys)"

definition js_sort :: "('a \<Rightarrow> 'a \<Rightarrow> int) \<Rightarrow> 'a list \<Rightarrow> 'a list" where
  "js_sort cmp xs = foldr (js_insert cmp) xs []"

lemma set_js_insert [simp]: "set (js_insert cmp x ys) = insert x (set ys)"
  by (induction ys) auto

lemma set_js_sort [simp]: "set (js_sort cmp xs) = set xs"
  by (induction xs) (auto simp: js_sort_def)

lemma set_js_unique [simp]: "set (js_unique xs) = set xs"
  by (induction xs) auto

lemma distinct_js_unique [simp]: "distinct (js_unique xs)"
  by (induction xs) auto

section \<open>What the matcher returns on known text\<close>

definition first :: "rx \<Rightarrow> rx_state \<Rightarrow> rx_state \<Rightarrow> bool" where
  "first x s t \<longleftrightarrow> (\<exists>ts. rmatch x s = t # ts)"

lemma first_Seq [intro]: "first x s t \<Longrightarrow> first y t u \<Longrightarrow> first (Seq x y) s u"
  by (auto simp: first_def)

lemma first_Eps [simp, intro]: "first Eps s s"
  by (simp add: first_def)

lemma first_Alt_left: "first x s t \<Longrightarrow> first (Alt x y) s t"
  by (auto simp: first_def)

lemma first_Alt_right: "rmatch x s = [] \<Longrightarrow> first y s t \<Longrightarrow> first (Alt x y) s t"
  by (auto simp: first_def)

lemma first_One: "p c \<Longrightarrow> first (One p) (b, c # r, m) (c # b, r, m)"
  by (simp add: first_def)

lemma first_At_Start: "first At_Start ([], r, m) ([], r, m)"
  by (simp add: first_def)

lemma first_At_End: "first At_End (b, [], m) (b, [], m)"
  by (simp add: first_def)

lemma first_rseq_Nil: "first (rseq []) s s"
  by (simp add: rseq_def)

lemma first_rseq_Cons: "first x s t \<Longrightarrow> first (rseq xs) t u \<Longrightarrow> first (rseq (x # xs)) s u"
  by (auto simp: rseq_def)

lemma first_lit: "first (lit w) (b, w @ r, m) (rev w @ b, r, m)"
proof (induction w arbitrary: b)
  case (Cons c w)
  have "first (One (\<lambda>x. x = c)) (b, c # (w @ r), m) (c # b, w @ r, m)" by (rule first_One) simp
  then have "first (Seq (One (\<lambda>x. x = c)) (lit w)) (b, c # (w @ r), m) (rev w @ c # b, r, m)"
    using Cons.IH [of "c # b"] by (rule first_Seq)
  then show ?case by (simp add: lit_def)
qed (simp add: lit_def)

lemma rmatch_lit:
  "rmatch (lit w) (b, r, m) = (if prefix w r then [(rev w @ b, drop (length w) r, m)] else [])"
proof (induction w arbitrary: b r)
  case (Cons c w)
  then show ?case by (cases r) (auto simp: lit_def)
qed (simp add: lit_def)

text \<open>A greedy class takes the longest run first.\<close>

lemma star_greedy_run:
  assumes "\<And>c. c \<in> set w \<Longrightarrow> p c" and "r = [] \<or> \<not> p (hd r)" and "length w \<le> n"
  shows "\<exists>ts. star_greedy n (rmatch (One p)) (b, w @ r, m) = (rev w @ b, r, m) # ts"
  using assms
proof (induction w arbitrary: b n)
  case Nil
  then show ?case by (cases n; cases r) (auto split: list.splits)
next
  case (Cons c w)
  then obtain k where n: "n = Suc k" "length w \<le> k" by (cases n) auto
  from Cons.IH [of k "c # b"] Cons.prems n obtain ts
    where ts: "star_greedy k (rmatch (One p)) (c # b, w @ r, m) = (rev w @ c # b, r, m) # ts"
    by auto
  then show ?case using Cons.prems(1) n by simp
qed

lemma first_Greedy_One:
  assumes "\<And>c. c \<in> set w \<Longrightarrow> p c" and "r = [] \<or> \<not> p (hd r)"
  shows "first (Greedy (One p)) (b, w @ r, m) (rev w @ b, r, m)"
  using star_greedy_run [of w p r "length (w @ r)" b m] assms by (simp add: first_def)

lemma first_plus_One:
  assumes "w \<noteq> []" and "\<And>c. c \<in> set w \<Longrightarrow> p c" and "r = [] \<or> \<not> p (hd r)"
  shows "first (rx_plus (One p)) (b, w @ r, m) (rev w @ b, r, m)"
proof -
  from assms(1) obtain c v where w: "w = c # v" by (cases w) auto
  have "first (One p) (b, c # (v @ r), m) (c # b, v @ r, m)"
    using assms(2) w by (intro first_One) simp
  moreover have "first (Greedy (One p)) (c # b, v @ r, m) (rev v @ c # b, r, m)"
    using assms w by (intro first_Greedy_One) auto
  ultimately show ?thesis unfolding rx_plus_def w by auto
qed

lemma first_Cap:
  assumes "first x (b, w @ r, m) (rev w @ b, r, m')"
  shows "first (Cap n x) (b, w @ r, m) (rev w @ b, r, map_set n w m')"
  using assms by (auto simp: first_def)

lemma first_match: "first x ([], s, []) (b, r, m) \<Longrightarrow> js_match x s = Some m"
  by (auto simp: first_def js_match_def search.simps)

lemma js_match_None: "search x [] s = None \<Longrightarrow> js_match x s = None"
  by (simp add: js_match_def)

section \<open>Texts without line breaks, and their concatenation\<close>

definition one_line :: "string \<Rightarrow> bool" where
  "one_line s \<longleftrightarrow> newline \<notin> set s \<and> carriage_return \<notin> set s"

lemma one_line_append [simp]: "one_line (a @ b) \<longleftrightarrow> one_line a \<and> one_line b"
  by (auto simp: one_line_def)

lemma split_newline_line:
  "newline \<notin> set l \<Longrightarrow> split_newline b (l @ newline # s) = (rev b @ l) # split_newline [] s"
  by (induction l arbitrary: b) auto

lemma split_newline_last: "newline \<notin> set l \<Longrightarrow> split_newline b l = [rev b @ l]"
  by (induction l arbitrary: b) auto

lemma split_newline_join:
  assumes "\<And>l. l \<in> set ls \<Longrightarrow> newline \<notin> set l" and "ls \<noteq> []"
  shows "split_newline [] (js_join [newline] ls) = ls"
  using assms
proof (induction ls)
  case (Cons l ls)
  then show ?case
    by (cases ls) (simp_all add: split_newline_last split_newline_line)
qed simp

text \<open>A line that \<open>split(/\r?\n/)\<close> gives back as it is.\<close>

definition clean_line :: "string \<Rightarrow> bool" where
  "clean_line l \<longleftrightarrow> newline \<notin> set l \<and> (l \<noteq> [] \<longrightarrow> last l \<noteq> carriage_return)"

lemma drop_cr_clean_line: "clean_line l \<Longrightarrow> drop_cr l = l"
  by (auto simp: drop_cr_def clean_line_def)

lemma one_line_clean: "one_line l \<Longrightarrow> clean_line l"
  by (metis clean_line_def last_in_set one_line_def)

lemma js_split_lines_join:
  assumes "\<And>l. l \<in> set ls \<Longrightarrow> clean_line l" and "ls \<noteq> []"
  shows "js_split_lines (js_join [newline] ls) = ls"
proof -
  have "split_newline [] (js_join [newline] ls) = ls"
    using assms by (intro split_newline_join) (auto simp: clean_line_def)
  moreover have "map drop_cr (butlast ls) = butlast ls"
    using assms by (intro map_idI drop_cr_clean_line) (auto dest: in_set_butlastD)
  ultimately show ?thesis using assms(2) by (simp add: js_split_lines_def)
qed

section \<open>Trimming and collapsing\<close>

definition trimmed :: "string \<Rightarrow> bool" where
  "trimmed s \<longleftrightarrow> s \<noteq> [] \<and> \<not> js_space (hd s) \<and> \<not> js_space (last s)"

lemma dropWhile_all: "(\<And>c. c \<in> set w \<Longrightarrow> p c) \<Longrightarrow> dropWhile p (w @ s) = dropWhile p s"
  by (induction w) auto

lemma js_trim_surrounded:
  assumes "trimmed s" and "\<And>c. c \<in> set a \<union> set b \<Longrightarrow> js_space c"
  shows "js_trim (a @ s @ b) = s"
proof -
  have "dropWhile js_space (a @ s @ b) = dropWhile js_space (s @ b)"
    using assms(2) by (intro dropWhile_all) auto
  also have "\<dots> = s @ b" using assms(1) by (cases s) (auto simp: trimmed_def)
  finally have l: "dropWhile js_space (a @ s @ b) = s @ b" .
  have "dropWhile js_space (rev b @ rev s) = dropWhile js_space (rev s)"
    using assms(2) by (intro dropWhile_all) auto
  also have "\<dots> = rev s"
    using assms(1) by (simp add: dropWhile_eq_self_iff trimmed_def hd_rev)
  finally show ?thesis using l by (simp add: js_trim_def)
qed

lemma js_trim_trimmed: "trimmed s \<Longrightarrow> js_trim s = s"
  using js_trim_surrounded [of s "[]" "[]"] by simp

lemma space_chars [simp]:
  "js_space CHR '' ''" "js_space newline" "js_space carriage_return"
  by (simp_all add: js_space_def newline_def carriage_return_def)

lemma collapse_space_one_line: "one_line (collapse_space r s)"
  by (induction r s rule: collapse_space.induct)
    (auto simp: one_line_def newline_def carriage_return_def js_space_def)

lemma collapse_space_id:
  assumes "\<And>c. c \<in> set s \<Longrightarrow> js_space c \<Longrightarrow> c = CHR '' ''"
    and "\<And>i. Suc i < length s \<Longrightarrow> js_space (s ! i) \<Longrightarrow> \<not> js_space (s ! Suc i)"
    and "r \<Longrightarrow> s = [] \<or> \<not> js_space (hd s)"
  shows "collapse_space r s = s"
  using assms
proof (induction s arbitrary: r)
  case (Cons c s)
  have "collapse_space (js_space c) s = s"
  proof (rule Cons.IH)
    show "\<And>i. Suc i < length s \<Longrightarrow> js_space (s ! i) \<Longrightarrow> \<not> js_space (s ! Suc i)"
      using Cons.prems(2) [of "Suc i" for i] by simp
    show "js_space c \<Longrightarrow> s = [] \<or> \<not> js_space (hd s)"
      using Cons.prems(2) [of 0] by (cases s) auto
  qed (use Cons.prems(1) in simp)
  then show ?case using Cons.prems(1) [of c] Cons.prems(3) by (cases "js_space c") auto
qed simp

lemma one_line_trim: "one_line s \<Longrightarrow> one_line (js_trim s)"
  unfolding one_line_def js_trim_def by (metis set_dropWhileD set_rev)

end
