(* ===== verification/Review_Contract.thy ===== *)
theory Review_Contract
  imports Aif_Types Js_Text Provider_Meta
begin

text \<open>
  The structured review contract, \<open>packages/agent/src/reviewContract.ts\<close>: the markdown sections
  a reviewer returns, their parser with its list of issues, the canonical report that merges the
  code review, the security audit and the specialized reviewers, and the parser of that report.

  The host gives two functions that are not code of the repository: the SHA-1 digest in hex
  (\<open>node:crypto\<close>) and \<open>localeCompare\<close> (the collation of the ICU library); both are arguments.
  \<open>matchAll\<close>, \<open>split\<close> and the row patterns are those of \<^theory_text>\<open>Js_Text\<close> and \<^theory_text>\<open>Js_Regex\<close>.
\<close>

record text_host =
  sha1_hex :: "string \<Rightarrow> string"
  localeCompare :: "string \<Rightarrow> string \<Rightarrow> int"

section \<open>Names of the enumerations\<close>

fun source_text :: "finding_source \<Rightarrow> string" where
  "source_text Code_Review = ''code_review''"
| "source_text Security_Audit = ''security_audit''"
| "source_text Review_Gate = ''review_gate''"
| "source_text Correctness = ''correctness''"
| "source_text Security_Data_Loss = ''security_data_loss''"
| "source_text Regression_Api_Contract = ''regression_api_contract''"
| "source_text Audit_Evidence = ''audit_evidence''"

definition AUTO_REVIEW_FINDING_SOURCES :: "finding_source list" where
  "AUTO_REVIEW_FINDING_SOURCES = [Code_Review, Security_Audit, Review_Gate, Correctness,
     Security_Data_Loss, Regression_Api_Contract, Audit_Evidence]"

definition SPECIALIZED_REVIEWER_ROLES :: "finding_source list" where
  "SPECIALIZED_REVIEWER_ROLES =
     [Correctness, Security_Data_Loss, Regression_Api_Contract, Audit_Evidence]"

fun finding_status_text :: "finding_status \<Rightarrow> string" where
  "finding_status_text Resolved = ''resolved''"
| "finding_status_text Still_Blocking = ''still_blocking''"
| "finding_status_text New_Blocker = ''new_blocker''"
| "finding_status_text Not_Reproducible = ''not_reproducible''"
| "finding_status_text Needs_Manual_Review = ''manual_review_required''"

definition PREVIOUS_FINDING_STATUSES :: "finding_status list" where
  "PREVIOUS_FINDING_STATUSES =
     [Resolved, Still_Blocking, New_Blocker, Not_Reproducible, Needs_Manual_Review]"

fun area_text :: "coverage_area \<Rightarrow> string" where
  "area_text Secret_Leaks = ''secret_leaks''"
| "area_text Permissions_Sandbox = ''permissions_sandbox''"
| "area_text Unsafe_Shell_Network_File = ''unsafe_shell_network_file''"
| "area_text Dependency_Config = ''dependency_config''"

definition REQUIRED_SECURITY_COVERAGE_AREAS :: "coverage_area list" where
  "REQUIRED_SECURITY_COVERAGE_AREAS =
     [Secret_Leaks, Permissions_Sandbox, Unsafe_Shell_Network_File, Dependency_Config]"

fun coverage_status_text :: "coverage_status \<Rightarrow> string" where
  "coverage_status_text Covered = ''covered''"
| "coverage_status_text Issue_Found = ''issue_found''"
| "coverage_status_text Not_Applicable_Here = ''not_applicable''"
| "coverage_status_text Not_Checked = ''not_checked''"

definition COVERAGE_STATUSES :: "coverage_status list" where
  "COVERAGE_STATUSES = [Covered, Issue_Found, Not_Applicable_Here, Not_Checked]"

fun strategy_text :: "review_strategy \<Rightarrow> string" where
  "strategy_text Full_Re_Review = ''full_re_review''"
| "strategy_text Closure_First = ''closure_first''"

definition read_name :: "('a \<Rightarrow> string) \<Rightarrow> 'a list \<Rightarrow> string \<Rightarrow> 'a" where
  "read_name f xs s = the (List.find (\<lambda>x. f x = s) xs)"

section \<open>Parsed values and parse errors\<close>

definition plain_finding :: "string \<Rightarrow> finding_source \<Rightarrow> string \<Rightarrow> review_finding" where
  "plain_finding fid src body =
     \<lparr>findingId = fid, findingText = body, findingSource = src, findingStatus = None,
      findingSeverity = None, findingLocation = None, findingClaim = None, findingRequiredFix = None,
      findingVerification = None, findingClosureEvidence = None, firstSeenIteration = None,
      lastSeenIteration = None, streak = None\<rparr>"

record previous_finding =
  pf_id :: string
  pf_source :: finding_source
  pf_status :: finding_status
  pf_note :: string
  pf_text :: string
  pf_closureEvidence :: "string option"

record review_advisory =
  advisorySource :: finding_source
  advisoryText :: string

record sidecar_output =
  so_blocking :: "review_finding list"
  so_advisories :: "review_advisory list"
  so_previous :: "previous_finding list"
  so_coverage :: "security_coverage list"

record parsed_review =
  pr_strategy :: review_strategy
  pr_iteration :: int
  pr_blocking :: "review_finding list"
  pr_advisories :: "review_advisory list"
  pr_previous :: "previous_finding list"
  pr_coverage :: "security_coverage list"

record role_output =
  ro_role :: finding_source
  ro_blocking :: "review_finding list"
  ro_advisories :: "review_advisory list"
  ro_previous :: "previous_finding list"

datatype issue_code =
    Missing_Required_Section | Duplicate_Section | Malformed_List_Section | Missing_Metadata
  | Invalid_Metadata | Missing_Verdict | Invalid_Verdict | Pass_With_Blockers
  | Fail_Without_Blockers | Inconclusive_Verdict | Pass_Without_Concrete_Evidence
  | Malformed_Previous_Finding | Missing_Previous_Finding | Unknown_Previous_Finding
  | Duplicate_Previous_Finding | Missing_Security_Coverage | Missing_Security_Coverage_Area
  | Duplicate_Security_Coverage_Area | Malformed_Security_Coverage | Malformed_Blocking_Finding
  | Malformed_Advisory

fun issue_code_text :: "issue_code \<Rightarrow> string" where
  "issue_code_text Missing_Required_Section = ''missing_required_section''"
| "issue_code_text Duplicate_Section = ''duplicate_section''"
| "issue_code_text Malformed_List_Section = ''malformed_list_section''"
| "issue_code_text Missing_Metadata = ''missing_metadata''"
| "issue_code_text Invalid_Metadata = ''invalid_metadata''"
| "issue_code_text Missing_Verdict = ''missing_verdict''"
| "issue_code_text Invalid_Verdict = ''invalid_verdict''"
| "issue_code_text Pass_With_Blockers = ''pass_with_blockers''"
| "issue_code_text Fail_Without_Blockers = ''fail_without_blockers''"
| "issue_code_text Inconclusive_Verdict = ''inconclusive_verdict''"
| "issue_code_text Pass_Without_Concrete_Evidence = ''pass_without_concrete_evidence''"
| "issue_code_text Malformed_Previous_Finding = ''malformed_previous_finding''"
| "issue_code_text Missing_Previous_Finding = ''missing_previous_finding''"
| "issue_code_text Unknown_Previous_Finding = ''unknown_previous_finding''"
| "issue_code_text Duplicate_Previous_Finding = ''duplicate_previous_finding''"
| "issue_code_text Missing_Security_Coverage = ''missing_security_coverage''"
| "issue_code_text Missing_Security_Coverage_Area = ''missing_security_coverage_area''"
| "issue_code_text Duplicate_Security_Coverage_Area = ''duplicate_security_coverage_area''"
| "issue_code_text Malformed_Security_Coverage = ''malformed_security_coverage''"
| "issue_code_text Malformed_Blocking_Finding = ''malformed_blocking_finding''"
| "issue_code_text Malformed_Advisory = ''malformed_advisory''"

datatype parse_kind = Structured_Review_Comments | Structured_Sidecar_Output | Specialized_Role_Output

fun parse_kind_text :: "parse_kind \<Rightarrow> string" where
  "parse_kind_text Structured_Review_Comments = ''structured_review_comments''"
| "parse_kind_text Structured_Sidecar_Output = ''structured_sidecar_output''"
| "parse_kind_text Specialized_Role_Output = ''specialized_role_output''"

record parse_issue =
  issueCode :: issue_code
  issueSection :: "string option"
  issueRow :: "string option"
  issueDetail :: string
  issueRepair :: string

record parse_error =
  errorKind :: parse_kind
  errorIssues :: "parse_issue list"
  errorFingerprint :: string
  errorRepair :: string

section \<open>Text normalization and identifiers\<close>

definition normalizeFindingText :: "string \<Rightarrow> string" where
  "normalizeFindingText s = js_trim (collapse_space False s)"

definition redacted_brackets :: rx where
  "redacted_brackets = Seq (lit ''[REDACTED]'') (rx_plus (lit '']''))"

definition normalizeReviewText :: "string \<Rightarrow> string" where
  "normalizeReviewText s =
     replace_all redacted_brackets (\<lambda>_. ''[REDACTED]'') (redactProviderText (normalizeFindingText s))"

definition createAutoReviewFindingId :: "text_host \<Rightarrow> finding_source \<Rightarrow> string \<Rightarrow> string" where
  "createAutoReviewFindingId h src s =
     take 12 (sha1_hex h (source_text src @ '':'' @ js_lower (normalizeFindingText s)))"

definition formatPreviousFindingsForPrompt ::
    "review_finding list \<Rightarrow> finding_source option \<Rightarrow> string" where
  "formatPreviousFindingsForPrompt fs src =
     (let kept = (case src of Some x \<Rightarrow> filter (\<lambda>f. findingSource f = x) fs | None \<Rightarrow> fs) in
      if kept = [] then ''- none''
      else js_join [newline] (map (\<lambda>f. ''- ['' @ findingId f @ ''] '' @ findingText f) kept))"

section \<open>Sections and lists\<close>

type_synonym sections = "(string \<times> string list) list"

fun collect_sections :: "string option \<Rightarrow> string list \<Rightarrow> sections \<Rightarrow> string list \<Rightarrow> sections \<times> string list" where
  "collect_sections current [] secs dups = (secs, dups)"
| "collect_sections current (l # ls) secs dups =
     (if startsWith l ''## '' then
        (let name = js_trim (drop 3 l) in
         if name \<in> fst ` set secs
         then collect_sections (Some name) ls secs (if name \<in> set dups then dups else dups @ [name])
         else collect_sections (Some name) ls (map_set name [] secs) dups)
      else (case current of
          Some name \<Rightarrow>
            if name = [] then collect_sections current ls secs dups
            else collect_sections current ls
                   (map_set name (the_default [] (map_of secs name) @ [l]) secs) dups
        | None \<Rightarrow> collect_sections current ls secs dups))"

definition collectSectionData :: "string \<Rightarrow> sections \<times> string list" where
  "collectSectionData s = collect_sections None (js_split_lines s) [] []"

fun list_items :: "string list \<Rightarrow> string list \<Rightarrow> string list option" where
  "list_items items [] = Some items"
| "list_items items (l # ls) =
     (let t = js_trim l in
      if t = [] then list_items items ls
      else if startsWith t ''- '' then
        (let item = js_trim (drop 2 t) in
         if item = [] then None else list_items (items @ [item]) ls)
      else if items = [] then None
      else list_items (butlast items @ [normalizeFindingText (last items @ '' '' @ t)]) ls)"

definition normalizeListSection :: "string list option \<Rightarrow> string list option" where
  "normalizeListSection section_lines =
     (case section_lines of
        None \<Rightarrow> None
      | Some ls \<Rightarrow>
         (case list_items [] ls of
            None \<Rightarrow> None
          | Some items \<Rightarrow>
              if items = [] then Some []
              else if length items = 1 \<and> js_lower (hd items) = ''none'' then Some []
              else if (\<exists>i \<in> set items. i = [] \<or> js_lower i = ''none'') then None
              else Some items))"

section \<open>Issues\<close>

definition nonempty :: "string option \<Rightarrow> string option" where
  "nonempty v = (if truthy v then v else None)"

definition parseIssue ::
    "issue_code \<Rightarrow> string option \<Rightarrow> string option \<Rightarrow> string \<Rightarrow> string \<Rightarrow> parse_issue" where
  "parseIssue code sec row detail repair =
     \<lparr>issueCode = code, issueSection = nonempty sec, issueRow = nonempty row,
      issueDetail = normalizeFindingText detail, issueRepair = normalizeFindingText repair\<rparr>"

definition issue_sort_text :: "parse_issue \<Rightarrow> string" where
  "issue_sort_text i =
     js_join ''|'' [issue_code_text (issueCode i), the_default [] (issueSection i),
       the_default [] (issueRow i), issueDetail i, issueRepair i]"

definition issue_fingerprint_text :: "parse_kind \<Rightarrow> parse_issue \<Rightarrow> string" where
  "issue_fingerprint_text kind i =
     js_join ''|'' [parse_kind_text kind, issue_code_text (issueCode i),
       the_default [] (issueSection i), the_default [] (issueRow i),
       js_lower (normalizeFindingText (issueDetail i))]"

definition buildStructuredReviewParseError ::
    "text_host \<Rightarrow> parse_kind \<Rightarrow> parse_issue list \<Rightarrow> parse_error" where
  "buildStructuredReviewParseError h kind issues =
     (let sortedIssues = js_sort (\<lambda>a b. localeCompare h (issue_sort_text a) (issue_sort_text b)) issues;
          fingerprintInput = js_join [newline] (map (issue_fingerprint_text kind) sortedIssues)
      in \<lparr>errorKind = kind, errorIssues = sortedIssues,
          errorFingerprint = take 12 (sha1_hex h fingerprintInput),
          errorRepair = js_join [newline]
            (''Repair the structured review output exactly as follows:'' #
             map (\<lambda>r. ''- '' @ r) (js_unique (map issueRepair sortedIssues)))\<rparr>)"

definition issue_missing_section :: "issue_code \<Rightarrow> string \<Rightarrow> parse_issue" where
  \<open>issue_missing_section code sec = parseIssue code (Some sec) None
     (''Missing required section: '' @ sec)
     (''Add a "## '' @ sec @ ''" section using markdown bullet rows; use "- none" only when the section has no entries.'')\<close>

definition issue_malformed_section :: "issue_code \<Rightarrow> string \<Rightarrow> parse_issue" where
  \<open>issue_malformed_section code sec = parseIssue code (Some sec) None
     (''Malformed list section: '' @ sec)
     (''Rewrite "## '' @ sec @ ''" so every non-empty row starts with "- "; use a single "- none" row only when the section has no entries.'')\<close>

definition normalizeRequiredListSection ::
    "sections \<Rightarrow> string \<Rightarrow> issue_code option \<Rightarrow> issue_code option \<Rightarrow> string list option \<times> parse_issue list" where
  "normalizeRequiredListSection secs sec missingCode malformedCode =
     (case map_of secs sec of
        None \<Rightarrow> (None, [issue_missing_section (the_default Missing_Required_Section missingCode) sec])
      | Some ls \<Rightarrow>
         (case normalizeListSection (Some ls) of
            None \<Rightarrow> (None, [issue_malformed_section (the_default Malformed_List_Section malformedCode) sec])
          | Some items \<Rightarrow> (Some items, [])))"

definition normalizeSpecializedPreviousFindingsSection ::
    "sections \<Rightarrow> review_finding list \<Rightarrow> string list option \<times> parse_issue list" where
  "normalizeSpecializedPreviousFindingsSection secs prev =
     (if map_of secs ''Previous Findings'' = None \<and> prev = [] then (Some [], [])
      else normalizeRequiredListSection secs ''Previous Findings'' None None)"

definition duplicateSectionIssues :: "string list \<Rightarrow> parse_issue list" where
  \<open>duplicateSectionIssues dups = map (\<lambda>sec. parseIssue Duplicate_Section (Some sec) None
     (''Duplicate section: '' @ sec)
     (''Keep exactly one "## '' @ sec @ ''" section and merge any rows into that single section.'')) dups\<close>

section \<open>Row patterns\<close>

definition spaces :: rx where "spaces = rx_plus (One js_space)"

definition names_rx :: "('a \<Rightarrow> string) \<Rightarrow> 'a list \<Rightarrow> rx" where
  "names_rx f xs = rx_any (map (\<lambda>x. lit (f x)) xs)"

definition bar :: rx where "bar = rseq [spaces, lit ''|'', spaces]"

definition bracketed_id :: rx where
  "bracketed_id = rseq [lit ''['', Cap 1 (rx_plus (One (\<lambda>c. c \<noteq> CHR '']''))), lit '']'', spaces]"

definition source_rx :: rx where "source_rx = names_rx source_text AUTO_REVIEW_FINDING_SOURCES"

definition previous_status_rx :: rx where
  "previous_status_rx = names_rx finding_status_text PREVIOUS_FINDING_STATUSES"

definition rest_of_row :: "nat \<Rightarrow> rx" where "rest_of_row n = Seq (Cap n (rx_plus (One dot))) At_End"

definition sidecar_previous_row :: rx where
  "sidecar_previous_row = rseq [At_Start, bracketed_id, Cap 2 previous_status_rx, bar, rest_of_row 3]"

definition canonical_previous_row :: rx where
  "canonical_previous_row =
     rseq [At_Start, bracketed_id, Cap 2 source_rx, bar, Cap 3 previous_status_rx, bar, rest_of_row 4]"

definition canonical_blocking_row :: rx where
  "canonical_blocking_row = rseq [At_Start, bracketed_id, Cap 2 source_rx, bar, rest_of_row 3]"

definition canonical_advisory_row :: rx where
  "canonical_advisory_row = rseq [At_Start, Cap 1 source_rx, bar, rest_of_row 2]"

definition security_coverage_row :: rx where
  "security_coverage_row = rseq [At_Start, Cap 1 (names_rx area_text REQUIRED_SECURITY_COVERAGE_AREAS), bar,
     Cap 2 (names_rx coverage_status_text COVERAGE_STATUSES), bar, rest_of_row 3]"

definition read_source :: "string \<Rightarrow> finding_source" where
  "read_source = read_name source_text AUTO_REVIEW_FINDING_SOURCES"

definition read_previous_status :: "string \<Rightarrow> finding_status" where
  "read_previous_status = read_name finding_status_text PREVIOUS_FINDING_STATUSES"

definition read_area :: "string \<Rightarrow> coverage_area" where
  "read_area = read_name area_text REQUIRED_SECURITY_COVERAGE_AREAS"

definition read_coverage_status :: "string \<Rightarrow> coverage_status" where
  "read_coverage_status = read_name coverage_status_text COVERAGE_STATUSES"

section \<open>Rows of a reviewer's output\<close>

definition issue_missing_previous :: "string \<Rightarrow> string \<Rightarrow> parse_issue" where
  \<open>issue_missing_previous fid repair = parseIssue Missing_Previous_Finding (Some ''Previous Findings'') None
     (''Missing Previous Findings coverage for ['' @ fid @ '']'') repair\<close>

definition issue_malformed_previous :: "string \<Rightarrow> string \<Rightarrow> parse_issue" where
  \<open>issue_malformed_previous item repair =
     parseIssue Malformed_Previous_Finding (Some ''Previous Findings'') (Some item)
       (''Malformed Previous Findings row: '' @ item) repair\<close>

definition issue_duplicate_previous :: "string \<Rightarrow> string \<Rightarrow> parse_issue" where
  \<open>issue_duplicate_previous item fid =
     parseIssue Duplicate_Previous_Finding (Some ''Previous Findings'') (Some item)
       (''Duplicate previous finding id: '' @ fid)
       (''Include exactly one Previous Findings row for ['' @ fid @ ''].'')\<close>

definition issue_unknown_previous :: "string \<Rightarrow> string \<Rightarrow> parse_issue" where
  \<open>issue_unknown_previous item fid =
     parseIssue Unknown_Previous_Finding (Some ''Previous Findings'') (Some item)
       (''Unknown previous finding id: '' @ fid)
       (''Remove ['' @ fid @ ''] or replace it with one of the provided previous finding ids.'')\<close>

definition SIDECAR_PREVIOUS_FORMAT :: string where
  \<open>SIDECAR_PREVIOUS_FORMAT =
     ''Use Previous Findings rows formatted as "- [finding-id] <status> | <concrete evidence or note>".''\<close>

definition noted_finding :: "string \<Rightarrow> finding_source \<Rightarrow> finding_status \<Rightarrow> string \<Rightarrow> previous_finding" where
  "noted_finding fid src st note =
     \<lparr>pf_id = fid, pf_source = src, pf_status = st, pf_note = normalizeReviewText note,
      pf_text = normalizeReviewText note, pf_closureEvidence = Some (normalizeReviewText note)\<rparr>"

text \<open>
  \<open>previousFindingMap.get(id)\<close>: a JavaScript \<open>Map\<close> built from a list keeps the last entry of a
  repeated identifier.
\<close>

definition by_id :: "review_finding list \<Rightarrow> string \<Rightarrow> review_finding option" where
  "by_id fs = map_of (rev (map (\<lambda>f. (findingId f, f)) fs))"

fun sidecar_previous_rows ::
    "finding_source \<Rightarrow> review_finding list \<Rightarrow> string list \<Rightarrow> string list \<Rightarrow>
     previous_finding list \<times> parse_issue list \<times> string list" where
  "sidecar_previous_rows src prev seen [] = ([], [], seen)"
| "sidecar_previous_rows src prev seen (item # items) =
     (case js_match sidecar_previous_row item of
        None \<Rightarrow>
          (case sidecar_previous_rows src prev seen items of (vs, is, seen') \<Rightarrow>
             (vs, issue_malformed_previous item SIDECAR_PREVIOUS_FORMAT # is, seen'))
      | Some m \<Rightarrow>
          (let fid = capture 1 m in
           if fid \<in> set seen then
             (case sidecar_previous_rows src prev seen items of (vs, is, seen') \<Rightarrow>
                (vs, issue_duplicate_previous item fid # is, seen'))
           else (case sidecar_previous_rows src prev (fid # seen) items of (vs, is, seen') \<Rightarrow>
             (case by_id prev fid of
                None \<Rightarrow>
                  if prev \<noteq> [] then (vs, issue_unknown_previous item fid # is, seen')
                  else (noted_finding fid src (read_previous_status (capture 2 m)) (capture 3 m) # vs, is, seen')
              | Some f \<Rightarrow>
                  (noted_finding fid (findingSource f) (read_previous_status (capture 2 m)) (capture 3 m) # vs,
                   is, seen')))))"

definition parseSidecarPreviousFindingItems ::
    "string list \<Rightarrow> finding_source \<Rightarrow> review_finding list \<Rightarrow> previous_finding list \<times> parse_issue list" where
  \<open>parseSidecarPreviousFindingItems items src prev =
     (case sidecar_previous_rows src prev [] items of (vs, is, seen) \<Rightarrow>
        (vs, is @ map (\<lambda>f. issue_missing_previous (findingId f)
           (''Add a Previous Findings row for ['' @ findingId f @ ''] using a valid status and concrete evidence or note.''))
           (filter (\<lambda>f. findingId f \<notin> set seen) prev)))\<close>

definition issue_malformed_coverage :: "string \<Rightarrow> parse_issue" where
  \<open>issue_malformed_coverage item =
     parseIssue Malformed_Security_Coverage (Some ''Security Coverage'') (Some item)
       (''Malformed Security Coverage row: '' @ item)
       ''Use Security Coverage rows formatted as "- <area> | <status> | <concrete note>".''\<close>

definition issue_duplicate_area :: "string \<Rightarrow> coverage_area \<Rightarrow> parse_issue" where
  \<open>issue_duplicate_area item a =
     parseIssue Duplicate_Security_Coverage_Area (Some ''Security Coverage'') (Some item)
       (''Duplicate Security Coverage area: '' @ area_text a)
       (''Keep exactly one Security Coverage row for '' @ area_text a @ ''.'')\<close>

definition issue_missing_area :: "coverage_area \<Rightarrow> parse_issue" where
  \<open>issue_missing_area a =
     parseIssue Missing_Security_Coverage_Area (Some ''Security Coverage'') None
       (''Missing Security Coverage area: '' @ area_text a)
       (''Add exactly one Security Coverage row for '' @ area_text a @ ''.'')\<close>

fun coverage_rows ::
    "coverage_area list \<Rightarrow> string list \<Rightarrow> security_coverage list \<times> parse_issue list \<times> coverage_area list" where
  "coverage_rows seen [] = ([], [], seen)"
| "coverage_rows seen (item # items) =
     (case js_match security_coverage_row item of
        None \<Rightarrow> (case coverage_rows seen items of (vs, is, seen') \<Rightarrow> (vs, issue_malformed_coverage item # is, seen'))
      | Some m \<Rightarrow>
          (let a = read_area (capture 1 m) in
           if a \<in> set seen then
             (case coverage_rows seen items of (vs, is, seen') \<Rightarrow> (vs, issue_duplicate_area item a # is, seen'))
           else (case coverage_rows (a # seen) items of (vs, is, seen') \<Rightarrow>
             (\<lparr>coverageArea = a, coverageStatus = read_coverage_status (capture 2 m),
               coverageNote = normalizeReviewText (capture 3 m)\<rparr> # vs, is, seen'))))"

definition parseSecurityCoverageItemsResult ::
    "string list \<Rightarrow> security_coverage list option \<times> parse_issue list" where
  "parseSecurityCoverageItemsResult items =
     (case coverage_rows [] items of (vs, is, seen) \<Rightarrow>
        (let issues = is @ map issue_missing_area
               (filter (\<lambda>a. a \<notin> set seen) REQUIRED_SECURITY_COVERAGE_AREAS)
         in (if issues = [] then Some vs else None, issues)))"

definition plain_findings :: "text_host \<Rightarrow> finding_source \<Rightarrow> string list \<Rightarrow> review_finding list" where
  "plain_findings h src items =
     map (\<lambda>i. plain_finding (createAutoReviewFindingId h src i) src (normalizeReviewText i)) items"

definition plain_advisories :: "finding_source \<Rightarrow> string list \<Rightarrow> review_advisory list" where
  "plain_advisories src items =
     map (\<lambda>i. \<lparr>advisorySource = src, advisoryText = normalizeReviewText i\<rparr>) items"

definition parseStructuredSidecarOutputResult ::
    "text_host \<Rightarrow> string \<Rightarrow> finding_source \<Rightarrow> review_finding list \<Rightarrow> parse_error + sidecar_output" where
  "parseStructuredSidecarOutputResult h result src prev =
     (case collectSectionData result of (secs, dups) \<Rightarrow>
      case normalizeRequiredListSection secs ''Blocking Findings'' None None of (blocking, is1) \<Rightarrow>
      case normalizeRequiredListSection secs ''Advisories'' None None of (advisories, is2) \<Rightarrow>
      case normalizeListSection (Some (the_default [] (map_of secs ''Previous Findings''))) of previousItems \<Rightarrow>
      case normalizeRequiredListSection secs ''Security Coverage'' (Some Missing_Security_Coverage)
             (Some Malformed_Security_Coverage) of (security, is3) \<Rightarrow>
      (let issues = duplicateSectionIssues dups @
             (if previousItems = None
              then [issue_malformed_section Malformed_List_Section ''Previous Findings''] else []) @
             is1 @ is2 @ is3
       in case (blocking, advisories, previousItems, security) of
            (Some bs, Some as, Some ps, Some ss) \<Rightarrow>
              (case parseSidecarPreviousFindingItems ps src prev of (pv, is4) \<Rightarrow>
               case parseSecurityCoverageItemsResult ss of (cov, is5) \<Rightarrow>
               (let all = issues @ is4 @ is5 in
                case (all, cov) of
                  ([], Some cv) \<Rightarrow>
                    Inr \<lparr>so_blocking = plain_findings h src bs, so_advisories = plain_advisories src as,
                         so_previous = pv, so_coverage = cv\<rparr>
                | _ \<Rightarrow> Inl (buildStructuredReviewParseError h Structured_Sidecar_Output all)))
          | _ \<Rightarrow> Inl (buildStructuredReviewParseError h Structured_Sidecar_Output issues)))"

end
