(* ===== verification/Review_Roles.thy ===== *)
theory Review_Roles
  imports Review_Contract
begin

text \<open>
  The second half of \<open>packages/agent/src/reviewContract.ts\<close>' readers: the output of a specialized
  reviewer (with its verdict, which must carry concrete evidence to pass), the output that stands
  in for a reviewer that failed, and the demotion of requests for evidence that another reviewer
  has already inspected.
\<close>

section \<open>Concrete evidence\<close>

definition EXTENSIONS :: "string list" where
  "EXTENSIONS = [''ts'', ''tsx'', ''js'', ''jsx'', ''mjs'', ''cjs'', ''json'', ''md'', ''yaml'', ''yml'',
     ''py'', ''sh'', ''ps1'', ''css'', ''scss'', ''html'']"

definition line_suffix :: rx where "line_suffix = rx_opt (Seq (lit '':'') (rx_plus (One digit)))"

definition ext_i :: rx where "ext_i = Seq (lit ''.'') (rx_any (map lit_i EXTENSIONS))"

definition words_i :: "string list \<Rightarrow> rx" where
  "words_i ws = rseq [Word_Boundary, rx_any (map lit_i ws), Word_Boundary]"

definition path_char :: "char \<Rightarrow> bool" where
  "path_char c \<longleftrightarrow> word_char c \<or> c \<in> set ''./-'' \<or> c = CHR 0x5C"

definition no_dot :: rx where "no_dot = Greedy (One (\<lambda>c. c \<noteq> CHR ''.''))"

definition backtick :: char where "backtick = CHR 0x60"

definition env_file_rx :: rx where
  "env_file_rx = rseq
     [Alt At_Start (One (\<lambda>c. js_space c \<or> c \<in> set [backtick, CHR 0x27, CHR 0x22, CHR ''['', CHR ''(''])),
      Alt (Seq (lit_i ''.env'') (rx_opt (Seq (lit ''.'') (rx_plus (One (\<lambda>c. word_char c \<or> c = CHR ''-''))))))
        (lit_i ''.gitignore''),
      Ahead (Alt At_End (One (\<lambda>c. js_space c \<or> c \<in> set [backtick, CHR 0x27, CHR 0x22] \<or> c \<in> set '']),.;:'')))]"

definition bare_path_rx :: rx where
  "bare_path_rx = rseq [Word_Boundary, rx_plus (One path_char), ext_i, line_suffix, Word_Boundary]"

definition quoted_path_rx :: rx where
  "quoted_path_rx = rseq
     [lit [backtick], rx_plus (One (\<lambda>c. c \<noteq> backtick)), ext_i, line_suffix, lit [backtick]]"

definition command_rx :: rx where
  "command_rx = rseq [Word_Boundary,
     rx_any (map lit_i [''command'', ''test'', ''tests'', ''lint'', ''build'', ''validator'', ''git'', ''rg''] @
       [Seq (lit_i ''npm'') (rx_opt (lit_i ''.cmd''))]), Word_Boundary, no_dot,
     words_i [''output'', ''exit code'', ''status'', ''passed'', ''failed'', ''inspected'', ''matched'']]"

definition manifest_rx :: rx where
  "manifest_rx = rseq [Word_Boundary,
     rx_any [lit_i ''manifest'', Seq (lit_i ''evidenceRef'') (rx_opt (lit_i ''s'')), lit_i ''scope coverage'',
       lit_i ''autoReviewState'', lit_i ''manualReviewRequired'', lit_i ''blocked_external''],
     Word_Boundary, no_dot,
     words_i [''present'', ''bound'', ''covered'', ''validated'', ''contains'', ''set'', ''true'', ''false'', ''null'']]"

definition hasConcreteSpecializedReviewEvidence :: "string \<Rightarrow> bool" where
  "hasConcreteSpecializedReviewEvidence s =
     (let n = normalizeFindingText s in
      if length n < 16 then False
      else list_ex (\<lambda>x. js_test x n)
             [env_file_rx, bare_path_rx, quoted_path_rx, command_rx, manifest_rx])"

definition path_part :: "char \<Rightarrow> bool" where
  "path_part c \<longleftrightarrow> word_char c \<or> c \<in> set ''.-''"

definition REVIEW_EVIDENCE_PATH_PATTERN :: rx where
  "REVIEW_EVIDENCE_PATH_PATTERN = rseq [Word_Boundary, rx_plus (One path_part),
     rx_plus (Seq (One (\<lambda>c. c = CHR ''/'' \<or> c = CHR 0x5C)) (rx_plus (One path_part))),
     lit ''.'', rx_any (map lit EXTENSIONS), line_suffix, Word_Boundary]"

definition normalizeEvidencePath :: "string \<Rightarrow> string" where
  "normalizeEvidencePath p = js_lower (remove_first (rseq [lit '':'', rx_plus (One digit), At_End])
     (map (\<lambda>c. if c = CHR 0x5C then CHR ''/'' else c) p))"

definition extractReviewEvidencePaths :: "string \<Rightarrow> string list" where
  "extractReviewEvidencePaths s =
     js_unique (map normalizeEvidencePath (js_match_all REVIEW_EVIDENCE_PATH_PATTERN s))"

definition operator_request_prefix :: rx where
  "operator_request_prefix = Seq At_Start (lit_i ''operator_input_required:'')"

definition finding_field_rx :: rx where
  "finding_field_rx = rseq [Word_Boundary,
     rx_any (map lit_i [''severity'', ''claim'', ''required fix'', ''verification'']),
     Greedy (One js_space), lit '':'']"

definition isRepositoryEvidenceOperatorRequest :: "string \<Rightarrow> bool" where
  "isRepositoryEvidenceOperatorRequest s =
     (let n = normalizeReviewText s in
      if \<not> js_test operator_request_prefix n then False
      else if extractReviewEvidencePaths n = [] then False
      else \<not> js_test finding_field_rx n)"

text \<open>The covered paths when the finding is demoted, \<^term>\<open>None\<close> when it stays.\<close>

definition shouldDemoteRepositoryEvidenceRequest ::
    "review_finding \<Rightarrow> review_advisory list \<Rightarrow> string list option" where
  "shouldDemoteRepositoryEvidenceRequest f advisories =
     (if \<not> isRepositoryEvidenceOperatorRequest (findingText f) then None
      else (let requested = extractReviewEvidencePaths (findingText f) in
        if requested = [] then None
        else (let inspected = concat (map (\<lambda>a. extractReviewEvidencePaths (advisoryText a))
                    (filter (\<lambda>a. advisorySource a \<noteq> findingSource f) advisories));
                  covered = filter (\<lambda>p. p \<in> set inspected) requested
              in if covered \<noteq> [] then Some covered else None)))"

section \<open>Specialized reviewers\<close>

text \<open>\<open>toUpperCase\<close> on the alphabet of the model; the sharp s becomes two letters.\<close>

definition js_upper :: "string \<Rightarrow> string" where
  "js_upper s = concat (map (\<lambda>c. let n = (of_char c :: nat) in
     if n = 223 then ''SS''
     else if (97 \<le> n \<and> n \<le> 122) \<or> (224 \<le> n \<and> n \<le> 254 \<and> n \<noteq> 247) then [char_of (n - 32)]
     else [c]) s)"

definition VERDICT_ROW_COUNT :: parse_issue where
  \<open>VERDICT_ROW_COUNT = parseIssue Invalid_Verdict (Some ''Verdict'') None
     ''Verdict section must contain exactly one row''
     ''Set "## Verdict" to exactly one bullet: "- PASS", "- FAIL", or "- INCONCLUSIVE".''\<close>

definition issue_bad_verdict :: "string \<Rightarrow> parse_issue" where
  \<open>issue_bad_verdict v = parseIssue Invalid_Verdict (Some ''Verdict'') (Some v)
     (''Invalid verdict: '' @ v)
     ''Use one of the exact verdict values: "- PASS", "- FAIL", or "- INCONCLUSIVE".''\<close>

definition PASS_WITH_BLOCKERS_ISSUE :: parse_issue where
  \<open>PASS_WITH_BLOCKERS_ISSUE = parseIssue Pass_With_Blockers (Some ''Blocking Findings'') None
     ''PASS verdict included blocking findings''
     ''Either change the verdict to "- FAIL" or change "## Blocking Findings" to a single "- none" row.''\<close>

definition FAIL_WITHOUT_BLOCKERS_ISSUE :: parse_issue where
  \<open>FAIL_WITHOUT_BLOCKERS_ISSUE = parseIssue Fail_Without_Blockers (Some ''Blocking Findings'') None
     ''FAIL verdict did not include blocking findings''
     ''Add at least one concrete blocker under "## Blocking Findings" or change the verdict to "- PASS" with evidence.''\<close>

definition INCONCLUSIVE_ISSUE :: parse_issue where
  \<open>INCONCLUSIVE_ISSUE = parseIssue Inconclusive_Verdict (Some ''Verdict'') None
     ''INCONCLUSIVE verdict cannot be auto-accepted''
     ''Resolve the review to "- PASS" with concrete evidence or "- FAIL" with concrete blocking findings.''\<close>

definition PASS_WITHOUT_EVIDENCE_ISSUE :: parse_issue where
  \<open>PASS_WITHOUT_EVIDENCE_ISSUE = parseIssue Pass_Without_Concrete_Evidence (Some ''Advisories'') None
     ''PASS verdict did not include concrete inspection evidence''
     ''Add an Advisories bullet with concrete inspected file paths, command/test output, or manifest/evidence details.''\<close>

definition verdict_of :: "string list \<Rightarrow> string option" where
  "verdict_of verdict = (case verdict of [] \<Rightarrow> None | v # _ \<Rightarrow> Some (js_upper (js_trim v)))"

definition verdict_issues :: "string list \<Rightarrow> string list \<Rightarrow> string list \<Rightarrow> bool \<Rightarrow> parse_issue list" where
  "verdict_issues verdict blocking advisories fallback =
     (case verdict of
        [v] \<Rightarrow>
          (let value = js_upper (js_trim v) in
           if value \<noteq> ''PASS'' \<and> value \<noteq> ''FAIL'' \<and> value \<noteq> ''INCONCLUSIVE'' then [issue_bad_verdict v]
           else if value = ''PASS'' \<and> blocking \<noteq> [] then [PASS_WITH_BLOCKERS_ISSUE]
           else if value = ''FAIL'' \<and> blocking = [] then [FAIL_WITHOUT_BLOCKERS_ISSUE]
           else if value = ''INCONCLUSIVE'' then [INCONCLUSIVE_ISSUE]
           else if value = ''PASS'' \<and> \<not> list_ex hasConcreteSpecializedReviewEvidence advisories \<and> \<not> fallback
           then [PASS_WITHOUT_EVIDENCE_ISSUE]
           else [])
      | _ \<Rightarrow> [VERDICT_ROW_COUNT])"

definition parseSpecializedRoleOutputResult ::
    "text_host \<Rightarrow> string \<Rightarrow> finding_source \<Rightarrow> review_finding list \<Rightarrow> string option \<Rightarrow>
     parse_error + role_output" where
  "parseSpecializedRoleOutputResult h result role prev passEvidenceFallback =
     (case collectSectionData result of (secs, dups) \<Rightarrow>
      case normalizeRequiredListSection secs ''Verdict'' (Some Missing_Verdict) None of (verdict, is1) \<Rightarrow>
      case normalizeRequiredListSection secs ''Blocking Findings'' None None of (blocking, is2) \<Rightarrow>
      case normalizeRequiredListSection secs ''Advisories'' None None of (advisories, is3) \<Rightarrow>
      case normalizeSpecializedPreviousFindingsSection secs prev of (previous, is4) \<Rightarrow>
      (let issues = duplicateSectionIssues dups @ is1 @ is2 @ is3 @ is4;
           fallbackText = normalizeReviewText (the_default [] passEvidenceFallback);
           fallback = hasConcreteSpecializedReviewEvidence fallbackText
       in case (verdict, blocking, advisories, previous) of
            (Some vs, Some bs, Some as, Some ps) \<Rightarrow>
              (case parseSidecarPreviousFindingItems ps role prev of (pv, is5) \<Rightarrow>
               (let all = issues @ verdict_issues vs bs as fallback @ is5 in
                if all \<noteq> [] then Inl (buildStructuredReviewParseError h Specialized_Role_Output all)
                else (let items = (if verdict_of vs = Some ''PASS'' \<and> fallback \<and>
                                      \<not> list_ex hasConcreteSpecializedReviewEvidence as
                                   then as @ [fallbackText] else as)
                  in Inr \<lparr>ro_role = role, ro_blocking = plain_findings h role bs,
                       ro_advisories = plain_advisories role items, ro_previous = pv\<rparr>)))
          | _ \<Rightarrow> Inl (buildStructuredReviewParseError h Specialized_Role_Output issues)))"

definition buildSpecializedRoleManualReviewOutput ::
    "text_host \<Rightarrow> finding_source \<Rightarrow> string \<Rightarrow> role_output" where
  "buildSpecializedRoleManualReviewOutput h role reason =
     (let body = ''manual_review_required: '' @ source_text role @ '' reviewer '' @ reason in
      \<lparr>ro_role = role,
       ro_blocking = [(plain_finding (createAutoReviewFindingId h role body) role
           (normalizeReviewText body))\<lparr>findingStatus := Some Needs_Manual_Review\<rparr>],
       ro_advisories = [\<lparr>advisorySource = role, advisoryText =
         ''Raw specialized reviewer output is retained below with provider-text redaction applied.''\<rparr>],
       ro_previous = []\<rparr>)"

section \<open>What an accepted output has\<close>

lemma verdict_issues_Nil:
  assumes "verdict_issues vs bs as fb = []"
  shows "\<exists>v. vs = [v] \<and> (js_upper (js_trim v) = ''PASS'' \<and> bs = [] \<and>
           (list_ex hasConcreteSpecializedReviewEvidence as \<or> fb) \<or>
         js_upper (js_trim v) = ''FAIL'' \<and> bs \<noteq> [])"
proof -
  obtain v where vs: "vs = [v]"
    using assms by (auto simp: verdict_issues_def split: list.splits)
  let ?u = "js_upper (js_trim v)"
  have "?u = ''PASS'' \<or> ?u = ''FAIL''" and "?u = ''PASS'' \<Longrightarrow> bs = []"
    and "?u = ''PASS'' \<Longrightarrow> list_ex hasConcreteSpecializedReviewEvidence as \<or> fb"
    and "?u = ''FAIL'' \<Longrightarrow> bs \<noteq> []"
    using assms vs by (auto simp: verdict_issues_def Let_def split: if_splits)
  then show ?thesis using vs by blast
qed

lemma noted_finding_simps [simp]:
  "pf_id (noted_finding fid src st n) = fid" "pf_source (noted_finding fid src st n) = src"
  "pf_status (noted_finding fid src st n) = st"
  by (simp_all add: noted_finding_def)

lemma by_id_Some: "by_id prev fid = Some f \<Longrightarrow> f \<in> set prev \<and> findingId f = fid"
  unfolding by_id_def by (drule map_of_SomeD) auto

lemma by_id_None: "by_id prev fid = None \<longleftrightarrow> fid \<notin> findingId ` set prev"
  by (auto simp: by_id_def map_of_eq_None_iff image_image)

text \<open>
  When the rows raise no issue they name each identifier once, and with findings to answer for
  they name exactly those, each under the source it was raised by.
\<close>

lemma sidecar_previous_rows_ok:
  assumes "sidecar_previous_rows src prev seen items = (vs, [], seen')"
  shows "distinct (map pf_id vs) \<and> set (map pf_id vs) \<inter> set seen = {} \<and>
    set seen' = set seen \<union> set (map pf_id vs) \<and>
    (\<forall>p \<in> set vs. if prev = [] then pf_source p = src
       else \<exists>f \<in> set prev. findingId f = pf_id p \<and> findingSource f = pf_source p)"
  using assms
proof (induction items arbitrary: vs seen)
  case (Cons item items)
  obtain vs1 is1 s1 where r0: "sidecar_previous_rows src prev seen items = (vs1, is1, s1)"
    by (metis prod_cases3)
  from Cons.prems obtain m where m: "js_match sidecar_previous_row item = Some m"
    by (auto simp: r0 split: option.splits)
  let ?fid = "capture 1 m"
  have new: "?fid \<notin> set seen" using Cons.prems m by (auto simp: r0 split: if_splits)
  obtain vs2 is2 s2 where r: "sidecar_previous_rows src prev (?fid # seen) items = (vs2, is2, s2)"
    by (metis prod_cases3)
  have "\<exists>q. vs = q # vs2 \<and> is2 = [] \<and> s2 = seen' \<and> pf_id q = ?fid \<and>
      (if prev = [] then pf_source q = src
       else \<exists>f \<in> set prev. findingId f = pf_id q \<and> findingSource f = pf_source q)"
  proof (cases "by_id prev ?fid")
    case None
    then show ?thesis using Cons.prems m new r by (auto simp: Let_def split: if_splits)
  next
    case (Some f)
    then have "f \<in> set prev" "findingId f = ?fid" by (auto dest: by_id_Some)
    moreover have "prev \<noteq> []" using \<open>f \<in> set prev\<close> by auto
    ultimately show ?thesis using Cons.prems m new r Some by (auto simp: Let_def)
  qed
  then obtain q where q: "vs = q # vs2" "is2 = []" "s2 = seen'" "pf_id q = ?fid"
    and src: "if prev = [] then pf_source q = src
       else \<exists>f \<in> set prev. findingId f = pf_id q \<and> findingSource f = pf_source q" by blast
  from Cons.IH r q have ih: "distinct (map pf_id vs2)"
    "set (map pf_id vs2) \<inter> set (?fid # seen) = {}"
    "set seen' = set (?fid # seen) \<union> set (map pf_id vs2)"
    "\<forall>p \<in> set vs2. if prev = [] then pf_source p = src
       else \<exists>f \<in> set prev. findingId f = pf_id p \<and> findingSource f = pf_source p"
    by blast+
  have "distinct (map pf_id vs)" using ih(1,2) q(1,4) by auto
  moreover have "set (map pf_id vs) \<inter> set seen = {}" using ih(2) q(1,4) new by auto
  moreover have "set seen' = set seen \<union> set (map pf_id vs)" using ih(3) q(1,4) by auto
  moreover have "\<forall>p \<in> set vs. if prev = [] then pf_source p = src
       else \<exists>f \<in> set prev. findingId f = pf_id p \<and> findingSource f = pf_source p"
    using ih(4) src q(1) by simp
  ultimately show ?case by blast
qed simp

end
