(* ===== verification/Review_Report.thy ===== *)
theory Review_Report
  imports Review_Roles
begin

text \<open>
  The canonical review report of \<open>packages/agent/src/reviewContract.ts\<close>: how it is merged from the
  reviewers' outputs and printed (\<open>buildStructuredReviewComments\<close>), how the review gate reads it
  back (\<open>parseStructuredReviewCommentsResult\<close>), and the state that is stored on the task
  (\<open>toAutoReviewState\<close>).
\<close>

section \<open>Merging the reviewers' outputs\<close>

fun is_blocking_status :: "finding_status \<Rightarrow> bool" where
  "is_blocking_status Still_Blocking = True"
| "is_blocking_status New_Blocker = True"
| "is_blocking_status Needs_Manual_Review = True"
| "is_blocking_status _ = False"

fun status_priority :: "finding_status \<Rightarrow> nat" where
  "status_priority Resolved = 1"
| "status_priority Not_Reproducible = 2"
| "status_priority New_Blocker = 3"
| "status_priority Still_Blocking = 4"
| "status_priority Needs_Manual_Review = 5"

definition mergeSecurityCoverage ::
    "security_coverage list \<Rightarrow> security_coverage list \<Rightarrow> security_coverage list" where
  "mergeSecurityCoverage code audit =
     (let byArea = foldl (\<lambda>m c. map_set (coverageArea c) c m) [] (code @ audit) in
      List.map_filter (map_of byArea) REQUIRED_SECURITY_COVERAGE_AREAS)"

definition conflict_note :: "previous_finding \<Rightarrow> previous_finding \<Rightarrow> string \<Rightarrow> string" where
  "conflict_note old new note =
     note @ '' Conflicting reviewer status for ['' @ pf_id new @ ''] was consolidated from '' @
     source_text (pf_source old) @ '':'' @ finding_status_text (pf_status old) @ '' and '' @
     source_text (pf_source new) @ '':'' @ finding_status_text (pf_status new) @ ''.''"

definition consolidate :: "previous_finding \<Rightarrow> previous_finding \<Rightarrow> previous_finding" where
  "consolidate old new =
     (let selected = (if status_priority (pf_status new) > status_priority (pf_status old) then new else old);
          src = (if pf_source old = pf_source new then pf_source selected else pf_source old);
          note = (if pf_note old = pf_note new then pf_note selected
                  else normalizeReviewText (conflict_note old new (pf_note selected)))
      in selected\<lparr>pf_source := src, pf_note := note, pf_text := note, pf_closureEvidence := Some note\<rparr>)"

definition merge_previous_one ::
    "review_finding list option \<Rightarrow> (string \<times> previous_finding) list \<Rightarrow> previous_finding \<Rightarrow>
     (string \<times> previous_finding) list" where
  "merge_previous_one expected m p =
     (case expected of
        Some prev \<Rightarrow>
          (case by_id prev (pf_id p) of
             None \<Rightarrow> m
           | Some f \<Rightarrow>
               (let q = p\<lparr>pf_source := findingSource f\<rparr> in
                case map_of m (pf_id p) of
                  None \<Rightarrow> map_set (pf_id p) q m
                | Some old \<Rightarrow> map_set (pf_id p) (consolidate old q) m))
      | None \<Rightarrow>
          (case map_of m (pf_id p) of
             None \<Rightarrow> map_set (pf_id p) p m
           | Some old \<Rightarrow> map_set (pf_id p) (consolidate old p) m))"

definition mergePreviousFindings ::
    "previous_finding list \<Rightarrow> review_finding list option \<Rightarrow> previous_finding list" where
  "mergePreviousFindings ps expected = map snd (foldl (merge_previous_one expected) [] ps)"

definition previous_reference_row :: rx where
  "previous_reference_row = rseq [At_Start, lit ''['', rx_plus (One (\<lambda>c. c \<noteq> CHR '']'')), lit '']'', spaces,
     Cap 1 previous_status_rx, bar, Cap 2 source_rx, bar]"

definition blockingPreviousFindingReference :: "string \<Rightarrow> finding_source option" where
  "blockingPreviousFindingReference s =
     map_option (\<lambda>m. read_source (capture 2 m)) (js_match previous_reference_row (normalizeFindingText s))"

definition specializedReviewPassed :: "role_output \<Rightarrow> bool" where
  "specializedReviewPassed r \<longleftrightarrow>
     ro_blocking r = [] \<and> (\<forall>p \<in> set (ro_previous r). \<not> is_blocking_status (pf_status p))"

record report_input =
  bi_strategy :: review_strategy
  bi_iteration :: int
  bi_codeReview :: sidecar_output
  bi_securityAudit :: sidecar_output
  bi_specialized :: "role_output list"
  bi_previousInput :: "review_finding list option"
  bi_rawCodeReview :: string
  bi_rawSecurityAudit :: string
  bi_rawSpecialized :: "(finding_source \<times> string) list"

definition reported_previous :: "report_input \<Rightarrow> previous_finding list" where
  "reported_previous inp =
     so_previous (bi_codeReview inp) @ so_previous (bi_securityAudit inp) @
     concat (map ro_previous (bi_specialized inp))"

definition report_previous :: "report_input \<Rightarrow> previous_finding list" where
  "report_previous inp = mergePreviousFindings (reported_previous inp) (bi_previousInput inp)"

definition reported_advisories :: "report_input \<Rightarrow> review_advisory list" where
  "reported_advisories inp =
     so_advisories (bi_codeReview inp) @ so_advisories (bi_securityAudit inp) @
     concat (map ro_advisories (bi_specialized inp))"

definition reported_blockers :: "report_input \<Rightarrow> review_finding list" where
  "reported_blockers inp =
     so_blocking (bi_codeReview inp) @ so_blocking (bi_securityAudit inp) @
     concat (map ro_blocking (bi_specialized inp))"

definition report_coverage :: "report_input \<Rightarrow> security_coverage list" where
  "report_coverage inp =
     mergeSecurityCoverage (so_coverage (bi_codeReview inp)) (so_coverage (bi_securityAudit inp))"

type_synonym blocking_map = "(string \<times> review_finding) list"

definition previous_as_blocker :: "previous_finding \<Rightarrow> review_finding" where
  "previous_as_blocker p =
     (plain_finding (pf_id p) (pf_source p) (normalizeReviewText (pf_note p)))
       \<lparr>findingStatus := Some (pf_status p),
        findingClosureEvidence := Some (normalizeReviewText (the_default (pf_note p) (pf_closureEvidence p)))\<rparr>"

definition previous_blockers :: "previous_finding list \<Rightarrow> blocking_map" where
  "previous_blockers ps =
     foldl (\<lambda>m p. map_set (pf_id p) (previous_as_blocker p) m) []
       (filter (\<lambda>p. is_blocking_status (pf_status p)) ps)"

definition passed_sources :: "report_input \<Rightarrow> finding_source list" where
  "passed_sources inp = map ro_role (filter specializedReviewPassed (bi_specialized inp))"

definition demoted_advisory :: "review_finding \<Rightarrow> string list \<Rightarrow> review_advisory" where
  "demoted_advisory f paths = \<lparr>advisorySource = findingSource f, advisoryText =
     ''Demoted repository-evidence operator request because independent review evidence already inspected '' @
     js_join '', '' paths @ ''.''\<rparr>"

definition stale_reference_advisory :: "review_finding \<Rightarrow> finding_source \<Rightarrow> review_advisory" where
  "stale_reference_advisory f src = \<lparr>advisorySource = findingSource f, advisoryText =
     ''Ignored stale cross-source previous-finding blocker for '' @ source_text src @
     ''; that specialized reviewer passed with concrete evidence in this iteration.''\<rparr>"

definition canonical_blocker :: "review_finding \<Rightarrow> review_finding" where
  "canonical_blocker f = f\<lparr>findingText := normalizeReviewText (findingText f),
     findingClosureEvidence := (if truthy (findingClosureEvidence f)
       then map_option normalizeReviewText (findingClosureEvidence f) else findingClosureEvidence f)\<rparr>"

definition stale_reference :: "finding_source list \<Rightarrow> review_finding \<Rightarrow> finding_source option" where
  "stale_reference passed f =
     (case blockingPreviousFindingReference (findingText f) of
        None \<Rightarrow> None
      | Some src \<Rightarrow> if src \<noteq> findingSource f \<and> src \<in> set passed then Some src else None)"

text \<open>The loop over the reviewers' blockers; it appends to the advisories it also reads.\<close>

fun merge_blockers ::
    "finding_source list \<Rightarrow> review_finding list \<Rightarrow> review_advisory list \<Rightarrow> blocking_map \<Rightarrow>
     review_advisory list \<times> blocking_map" where
  "merge_blockers passed [] advisories m = (advisories, m)"
| "merge_blockers passed (f # fs) advisories m =
     (case shouldDemoteRepositoryEvidenceRequest f advisories of
        Some paths \<Rightarrow> merge_blockers passed fs (advisories @ [demoted_advisory f paths]) m
      | None \<Rightarrow>
         (case stale_reference passed f of
            Some src \<Rightarrow> merge_blockers passed fs (advisories @ [stale_reference_advisory f src]) m
          | None \<Rightarrow> merge_blockers passed fs advisories (map_set (findingId f) (canonical_blocker f) m)))"

definition merged_report :: "report_input \<Rightarrow> review_advisory list \<times> blocking_map" where
  "merged_report inp = merge_blockers (passed_sources inp) (reported_blockers inp)
     (reported_advisories inp) (previous_blockers (report_previous inp))"

section \<open>Printing\<close>

definition formatCanonicalPreviousFindingLine :: "previous_finding \<Rightarrow> string" where
  "formatCanonicalPreviousFindingLine p = ''- ['' @ pf_id p @ ''] '' @ source_text (pf_source p) @ '' | '' @
     finding_status_text (pf_status p) @ '' | '' @ normalizeReviewText (pf_note p)"

definition formatCanonicalBlockingFindingLine :: "review_finding \<Rightarrow> string" where
  "formatCanonicalBlockingFindingLine f = ''- ['' @ findingId f @ ''] '' @ source_text (findingSource f) @
     '' | '' @ normalizeReviewText (findingText f)"

definition formatCanonicalAdvisoryLine :: "review_advisory \<Rightarrow> string" where
  "formatCanonicalAdvisoryLine a =
     ''- '' @ source_text (advisorySource a) @ '' | '' @ normalizeReviewText (advisoryText a)"

definition formatCanonicalSecurityCoverageLine :: "security_coverage \<Rightarrow> string" where
  "formatCanonicalSecurityCoverageLine c = ''- '' @ area_text (coverageArea c) @ '' | '' @
     coverage_status_text (coverageStatus c) @ '' | '' @ normalizeReviewText (coverageNote c)"

definition rows_or_none :: "string list \<Rightarrow> string list" where
  "rows_or_none rows = (if rows \<noteq> [] then rows else [''- none''])"

definition text_or :: "string \<Rightarrow> string \<Rightarrow> string" where
  "text_or s fallback = (if s \<noteq> [] then s else fallback)"

definition canonical_lines :: "report_input \<Rightarrow> string list" where
  "canonical_lines inp =
     [''## Auto Review Metadata'', ''- Strategy: '' @ strategy_text (bi_strategy inp),
      ''- Review Iteration: '' @ string_of_int (bi_iteration inp), [],
      ''## Previous Findings''] @
     rows_or_none (map formatCanonicalPreviousFindingLine (report_previous inp)) @
     [[], ''## Blocking Findings''] @
     rows_or_none (map (formatCanonicalBlockingFindingLine \<circ> snd) (snd (merged_report inp))) @
     [[], ''## Advisories''] @
     rows_or_none (map formatCanonicalAdvisoryLine (fst (merged_report inp))) @
     [[], ''## Security Coverage''] @
     rows_or_none (map formatCanonicalSecurityCoverageLine (report_coverage inp))"

definition raw_lines :: "report_input \<Rightarrow> string list" where
  "raw_lines inp =
     [[], ''## Raw Code Review'',
      text_or (redactProviderText (js_trim (bi_rawCodeReview inp))) ''No code review output.'',
      [], ''## Raw Security Audit'',
      text_or (redactProviderText (js_trim (bi_rawSecurityAudit inp))) ''No security audit output.''] @
     concat (map (\<lambda>(role, raw). [[], ''## Raw Specialized Review: '' @ source_text role,
        text_or (redactProviderText (js_trim raw)) (''No '' @ source_text role @ '' reviewer output.'')])
       (bi_rawSpecialized inp))"

definition buildStructuredReviewComments :: "report_input \<Rightarrow> string" where
  "buildStructuredReviewComments inp = js_join [newline] (canonical_lines inp @ raw_lines inp)"

section \<open>Reading the report\<close>

definition CANONICAL_PREVIOUS_FORMAT :: string where
  \<open>CANONICAL_PREVIOUS_FORMAT =
     ''Use Previous Findings rows formatted as "- [finding-id] <source> | <status> | <concrete evidence or note>".''\<close>

definition issue_wrong_source :: "string \<Rightarrow> string \<Rightarrow> parse_issue" where
  \<open>issue_wrong_source item fid =
     parseIssue Malformed_Previous_Finding (Some ''Previous Findings'') (Some item)
       (''Previous finding ['' @ fid @ ''] used the wrong source'')
       (''Use the original source for ['' @ fid @ ''] in Previous Findings.'')\<close>

fun canonical_previous_rows ::
    "review_finding list \<Rightarrow> string list \<Rightarrow> string list \<Rightarrow>
     previous_finding list \<times> parse_issue list \<times> string list" where
  "canonical_previous_rows prev seen [] = ([], [], seen)"
| "canonical_previous_rows prev seen (item # items) =
     (case js_match canonical_previous_row item of
        None \<Rightarrow>
          (case canonical_previous_rows prev seen items of (vs, is, seen') \<Rightarrow>
             (vs, issue_malformed_previous item CANONICAL_PREVIOUS_FORMAT # is, seen'))
      | Some m \<Rightarrow>
          (let fid = capture 1 m; src = read_source (capture 2 m) in
           if fid \<in> set seen then
             (case canonical_previous_rows prev seen items of (vs, is, seen') \<Rightarrow>
                (vs, issue_duplicate_previous item fid # is, seen'))
           else (case canonical_previous_rows prev (fid # seen) items of (vs, is, seen') \<Rightarrow>
             if prev \<noteq> [] \<and> map_option findingSource (by_id prev fid) \<noteq> Some src
             then (vs, (if by_id prev fid \<noteq> None then issue_wrong_source item fid
                        else issue_unknown_previous item fid) # is, seen')
             else (noted_finding fid src (read_previous_status (capture 3 m)) (capture 4 m) # vs, is, seen'))))"

definition parseCanonicalPreviousFindingItems ::
    "string list \<Rightarrow> review_finding list \<Rightarrow> previous_finding list \<times> parse_issue list" where
  \<open>parseCanonicalPreviousFindingItems items prev =
     (case canonical_previous_rows prev [] items of (vs, is, seen) \<Rightarrow>
        (vs, is @ map (\<lambda>f. issue_missing_previous (findingId f)
           (''Add a Previous Findings row for ['' @ findingId f @ ''] with source '' @
            source_text (findingSource f) @ '', a valid status, and concrete evidence or note.''))
           (filter (\<lambda>f. findingId f \<notin> set seen) prev)))\<close>

definition issue_malformed_blocking :: "string \<Rightarrow> parse_issue" where
  \<open>issue_malformed_blocking item =
     parseIssue Malformed_Blocking_Finding (Some ''Blocking Findings'') (Some item)
       (''Malformed Blocking Findings row: '' @ item)
       ''Use Blocking Findings rows formatted as "- [finding-id] <source> | <required fix>" or a single "- none".''\<close>

definition issue_malformed_advisory :: "string \<Rightarrow> parse_issue" where
  \<open>issue_malformed_advisory item =
     parseIssue Malformed_Advisory (Some ''Advisories'') (Some item)
       (''Malformed Advisories row: '' @ item)
       ''Use Advisories rows formatted as "- <source> | <advisory text>" or "- none".''\<close>

fun canonical_blocking_rows :: "string list \<Rightarrow> review_finding list \<times> parse_issue list" where
  "canonical_blocking_rows [] = ([], [])"
| "canonical_blocking_rows (item # items) =
     (case canonical_blocking_rows items of (vs, is) \<Rightarrow>
      case js_match canonical_blocking_row item of
        None \<Rightarrow> (vs, issue_malformed_blocking item # is)
      | Some m \<Rightarrow> (plain_finding (capture 1 m) (read_source (capture 2 m))
                      (normalizeReviewText (capture 3 m)) # vs, is))"

fun canonical_advisory_rows :: "string list \<Rightarrow> review_advisory list \<times> parse_issue list" where
  "canonical_advisory_rows [] = ([], [])"
| "canonical_advisory_rows (item # items) =
     (case canonical_advisory_rows items of (vs, is) \<Rightarrow>
      case js_match canonical_advisory_row item of
        None \<Rightarrow> (vs, issue_malformed_advisory item # is)
      | Some m \<Rightarrow> (\<lparr>advisorySource = read_source (capture 1 m),
                    advisoryText = normalizeReviewText (capture 2 m)\<rparr> # vs, is))"

section \<open>Metadata\<close>

definition parse_decimal :: "string \<Rightarrow> int" where
  "parse_decimal s = foldl (\<lambda>n c. 10 * n + (of_char c - 48)) 0 s"

definition positive_int_row :: rx where
  "positive_int_row = rseq [At_Start, One (\<lambda>c. digit c \<and> c \<noteq> CHR ''0''), Greedy (One digit), At_End]"

text \<open>\<open>Number.isSafeInteger\<close> on a numeral: values above \<open>2 ^ 53 - 1\<close> round to unsafe doubles.\<close>

definition read_iteration :: "string \<Rightarrow> int option" where
  "read_iteration s =
     (if js_test positive_int_row s \<and> parse_decimal s \<le> 2 ^ 53 - 1 then Some (parse_decimal s) else None)"

definition read_strategy :: "string option \<Rightarrow> review_strategy option" where
  "read_strategy s =
     (if s = Some ''full_re_review'' then Some Full_Re_Review
      else if s = Some ''closure_first'' then Some Closure_First else None)"

definition metadata_value :: "string \<Rightarrow> string list \<Rightarrow> string option" where
  "metadata_value label items =
     map_option (\<lambda>l. js_trim (drop (length label) l)) (List.find (\<lambda>l. startsWith l label) items)"

definition issue_missing_strategy :: parse_issue where
  \<open>issue_missing_strategy = parseIssue Missing_Metadata (Some ''Auto Review Metadata'') None
     ''Missing Strategy metadata row'' ''Add "- Strategy: full_re_review" or "- Strategy: closure_first".''\<close>

definition issue_missing_iteration :: parse_issue where
  \<open>issue_missing_iteration = parseIssue Missing_Metadata (Some ''Auto Review Metadata'') None
     ''Missing Review Iteration metadata row'' ''Add "- Review Iteration: <positive integer>".''\<close>

definition issue_invalid_strategy :: "string option \<Rightarrow> parse_issue" where
  \<open>issue_invalid_strategy s = parseIssue Invalid_Metadata (Some ''Auto Review Metadata'') None
     (''Invalid strategy metadata: '' @ the_default ''<missing>'' s)
     ''Set Strategy to exactly "full_re_review" or "closure_first".''\<close>

definition issue_invalid_iteration :: "string option \<Rightarrow> parse_issue" where
  \<open>issue_invalid_iteration l = parseIssue Invalid_Metadata (Some ''Auto Review Metadata'') None
     (''Invalid Review Iteration metadata: '' @ the_default ''<missing>'' l)
     ''Set Review Iteration to a positive integer.''\<close>

definition parse_metadata :: "string list \<Rightarrow> (review_strategy \<times> int) option \<times> parse_issue list" where
  "parse_metadata items =
     (let strategyText = metadata_value ''Strategy: '' items;
          iterationLine = List.find (\<lambda>l. startsWith l ''Review Iteration: '') items;
          strategy = read_strategy strategyText;
          iteration = read_iteration (the_default [] (metadata_value ''Review Iteration: '' items))
      in (case (strategy, iteration) of (Some s, Some i) \<Rightarrow> Some (s, i) | _ \<Rightarrow> None,
          (if strategyText = None then [issue_missing_strategy] else []) @
          (if iterationLine = None then [issue_missing_iteration] else []) @
          (if strategy = None then [issue_invalid_strategy strategyText] else []) @
          (if iteration = None then [issue_invalid_iteration iterationLine] else [])))"

definition issue_empty_comments :: parse_issue where
  \<open>issue_empty_comments = parseIssue Missing_Required_Section (Some ''Auto Review Metadata'') None
     ''Structured review comments were empty''
     ''Return canonical structured review comments beginning with "## Auto Review Metadata".''\<close>

definition raw_code_review_heading :: rx where
  "raw_code_review_heading = rseq [lit (newline # ''## Raw Code Review''), Word_Boundary]"

definition parse_report_items ::
    "text_host \<Rightarrow> review_finding list \<Rightarrow> parse_issue list \<Rightarrow> string list \<Rightarrow> string list \<Rightarrow> string list \<Rightarrow>
     string list \<Rightarrow> string list \<Rightarrow> parse_error + parsed_review" where
  "parse_report_items h prev issues ms ps bs as ss =
     (case parse_metadata ms of (meta, is1) \<Rightarrow>
      case parseCanonicalPreviousFindingItems ps prev of (pv, is2) \<Rightarrow>
      case canonical_blocking_rows bs of (bv, is3) \<Rightarrow>
      case canonical_advisory_rows as of (av, is4) \<Rightarrow>
      case parseSecurityCoverageItemsResult ss of (cov, is5) \<Rightarrow>
      (let all = issues @ is1 @ is2 @ is3 @ is4 @ is5 in
       case (all, meta, cov) of
         ([], Some (s, i), Some cv) \<Rightarrow>
           Inr \<lparr>pr_strategy = s, pr_iteration = i, pr_blocking = bv, pr_advisories = av,
                pr_previous = pv, pr_coverage = cv\<rparr>
       | _ \<Rightarrow> Inl (buildStructuredReviewParseError h Structured_Review_Comments all)))"

definition parseStructuredReviewCommentsResult ::
    "text_host \<Rightarrow> string option \<Rightarrow> review_finding list \<Rightarrow> parse_error + parsed_review" where
  "parseStructuredReviewCommentsResult h reviewText prev =
     (case map_option js_trim reviewText of
        None \<Rightarrow> Inl (buildStructuredReviewParseError h Structured_Review_Comments [issue_empty_comments])
      | Some s \<Rightarrow>
        if s = [] then Inl (buildStructuredReviewParseError h Structured_Review_Comments [issue_empty_comments])
        else
         (case collectSectionData (text_or (js_trim (before_first raw_code_review_heading s)) s) of (secs, dups) \<Rightarrow>
          case normalizeRequiredListSection secs ''Auto Review Metadata'' None None of (ms, is1) \<Rightarrow>
          case normalizeRequiredListSection secs ''Previous Findings'' None None of (ps, is2) \<Rightarrow>
          case normalizeRequiredListSection secs ''Blocking Findings'' None None of (bs, is3) \<Rightarrow>
          case normalizeRequiredListSection secs ''Advisories'' None None of (as, is4) \<Rightarrow>
          case normalizeRequiredListSection secs ''Security Coverage'' (Some Missing_Security_Coverage)
                 (Some Malformed_Security_Coverage) of (ss, is5) \<Rightarrow>
          (let issues = duplicateSectionIssues dups @ is1 @ is2 @ is3 @ is4 @ is5 in
           case (ms, ps, bs, as, ss) of
             (Some m, Some p, Some b, Some a, Some c) \<Rightarrow> parse_report_items h prev issues m p b a c
           | _ \<Rightarrow> Inl (buildStructuredReviewParseError h Structured_Review_Comments issues))))"

definition parseStructuredReviewComments ::
    "text_host \<Rightarrow> string option \<Rightarrow> parsed_review option" where
  "parseStructuredReviewComments h reviewText =
     (case parseStructuredReviewCommentsResult h reviewText [] of Inr v \<Rightarrow> Some v | Inl _ \<Rightarrow> None)"

section \<open>The stored state\<close>

definition normalize_if_truthy :: "string option \<Rightarrow> string option" where
  "normalize_if_truthy v = (if truthy v then map_option normalizeReviewText v else v)"

definition stored_finding :: "review_finding \<Rightarrow> review_finding" where
  "stored_finding f = f\<lparr>findingText := normalizeReviewText (findingText f),
     findingClaim := normalize_if_truthy (findingClaim f),
     findingRequiredFix := normalize_if_truthy (findingRequiredFix f),
     findingVerification := normalize_if_truthy (findingVerification f),
     findingClosureEvidence := normalize_if_truthy (findingClosureEvidence f)\<rparr>"

definition history_entry :: "int \<Rightarrow> previous_finding \<Rightarrow> blocker_history_entry" where
  "history_entry i p = \<lparr>historyId = pf_id p, historySource = pf_source p, historyStatus = pf_status p,
     historyNote = normalizeReviewText (pf_note p), historyIteration = Some i,
     historyClosureEvidence = Some (if truthy (pf_closureEvidence p)
       then normalizeReviewText (the_default [] (pf_closureEvidence p))
       else normalizeReviewText (pf_note p))\<rparr>"

definition toAutoReviewState ::
    "review_strategy \<Rightarrow> int \<Rightarrow> review_finding list \<Rightarrow> security_coverage list option \<Rightarrow>
     previous_finding list option \<Rightarrow> auto_review_state" where
  "toAutoReviewState strategy i fs coverage history =
     \<lparr>reviewStrategy = strategy, reviewIteration = i, findings = map stored_finding fs,
      securityCoverage = map_option
        (map (\<lambda>c. c\<lparr>coverageNote := normalizeReviewText (coverageNote c)\<rparr>)) coverage,
      blockerHistory = map_option (map (history_entry i)) history, reworkSnapshot = None\<rparr>"

end
