(* ===== verification/Review_Classifiers.thy ===== *)
theory Review_Classifiers
  imports Review_Report
begin

text \<open>
  The text classifiers of \<open>packages/agent/src/reviewGate.ts\<close>: which findings ask the operator for
  something, which are refuted by the repository, and which are faults of the review contract
  itself. The alternatives of the source patterns that consist of Cyrillic letters are left out:
  no text over the alphabet of the model contains such a letter.
\<close>

section \<open>Requests to the operator\<close>

definition has_word :: "string list \<Rightarrow> string \<Rightarrow> bool" where
  "has_word ws s = js_test (words_i ws) s"

definition operator_input_marker :: rx where
  "operator_input_marker = rseq [At_Start, lit_i ''operator_input_required:'', Greedy (One js_space)]"

definition isExplicitOperatorInputFinding :: "review_finding \<Rightarrow> bool" where
  "isExplicitOperatorInputFinding f = js_test operator_request_prefix (js_trim (findingText f))"

definition evidence_request_rx :: rx where
  "evidence_request_rx = rseq [Word_Boundary,
     rx_any (map lit_i [''cat'', ''read_file'', ''git status'', ''git diff'', ''git show'', ''ls'', ''grep'', ''rg''] @
       [Seq (lit_i ''file content'') (rx_opt (lit_i ''s'')), lit_i ''command output'', lit_i ''test output'',
        lit_i ''current state'', rseq [lit_i ''package'', rx_opt (lit_i ''-lock''), lit_i ''.json''],
        lit_i ''vitest.config'', lit_i ''vite.config'', lit_i ''tsconfig'',
        rseq [lit_i ''npm'', rx_opt (lit_i ''.cmd''), spaces,
          rx_any (map lit_i [''test'', ''run test'', ''run'', ''install''])]]),
     Word_Boundary]"

definition isRepositoryOrToolEvidenceRequest :: "string \<Rightarrow> bool" where
  "isRepositoryOrToolEvidenceRequest s =
     (let n = remove_first operator_input_marker s in
      if \<not> has_word [''provide'', ''supply'', ''paste'', ''attach'', ''show'', ''share'', ''confirm''] n then False
      else js_test evidence_request_rx n)"

definition isPolicyOrSecuritySensitiveAmbiguity :: "string \<Rightarrow> bool" where
  "isPolicyOrSecuritySensitiveAmbiguity s = has_word [''policy'', ''security'', ''secret'', ''token'',
     ''credential'', ''private key'', ''bearer'', ''cookie'', ''malformed'', ''unsafe to auto-close'',
     ''ambiguous evidence'', ''human judgment'', ''manual review''] s"

definition external_subject_rx :: rx where
  "external_subject_rx = rseq [Word_Boundary,
     rx_any (map lit_i [''account'', ''tenant'', ''workspace'', ''staging'', ''production'', ''environment''] @
       [rseq [lit_i ''env'', rx_opt (lit_i ''ironment''), lit_i '' variable'']] @
       map lit_i [''runtime'', ''profile'', ''endpoint'', ''base url''] @
       [Seq (lit_i ''config'') (rx_opt (lit_i ''uration''))] @
       map lit_i [''setting'', ''access'', ''permission'', ''grant'', ''login'', ''credential location'',
         ''api key name'', ''provider'', ''budget cap'', ''approval'']),
     Word_Boundary]"

definition isConcreteExternalOperatorInputRequest :: "string \<Rightarrow> bool" where
  "isConcreteExternalOperatorInputRequest s =
     (let n = remove_first operator_input_marker s in
      if \<not> has_word [''provide'', ''supply'', ''paste'', ''attach'', ''show'', ''share'', ''choose'', ''select'',
             ''confirm'', ''decide'', ''approve'', ''grant'', ''configure'', ''set'', ''update''] n then False
      else js_test external_subject_rx n)"

definition quoted_number :: rx where
  "quoted_number = rseq [lit [CHR 0xAB], Greedy (One (\<lambda>c. c \<noteq> CHR 0xBB)), One digit,
     Greedy (One (\<lambda>c. c \<noteq> CHR 0xBB)), lit [CHR 0xBB]]"

definition range_rx :: rx where
  "range_rx = Alt
     (rseq [rx_plus (One digit), rx_opt (Seq (one_of ''.,'') (rx_plus (One digit))), Greedy (One js_space),
        rx_any [lit ''%'', lit ''-'', lit_i ''to''], Greedy (One js_space), One digit])
     (rseq [quoted_number, Greedy (One dot), quoted_number])"

definition hasConcreteProductContractMismatch :: "string \<Rightarrow> bool" where
  "hasConcreteProductContractMismatch s =
     (has_word [''mismatch'', ''conflict'', ''contradict'', ''does not match'', ''not match'', ''incompatible'',
        ''range'', ''format'', ''type'', ''contract'', ''schema'', ''interface'', ''expected'', ''actual''] s \<or>
      js_test range_rx s)"

definition product_subject_rx :: rx where
  "product_subject_rx = rseq [Word_Boundary,
     rx_any ([Seq (lit_i ''field'') (rx_opt (lit_i ''s'')), lit_i ''properties'', lit_i ''optional'',
        lit_i ''proposed'', lit_i ''design artifact'', Seq (lit_i ''requirement'') (rx_opt (lit_i ''s'')),
        lit_i ''scope'', lit_i ''domain model'', lit_i ''interface'', lit_i ''schema'']),
     Word_Boundary]"

definition isAmbiguousProductScopeOperatorInputFinding :: "review_finding \<Rightarrow> bool" where
  "isAmbiguousProductScopeOperatorInputFinding f =
     (let n = remove_first operator_input_marker (findingText f) in
      if \<not> isExplicitOperatorInputFinding f then False
      else if isConcreteExternalOperatorInputRequest n then False
      else if hasConcreteProductContractMismatch n then False
      else has_word [''confirm'', ''clarify'', ''decide'', ''choose'', ''select'', ''which'', ''whether'',
             ''required'', ''needed''] n \<and> js_test product_subject_rx n)"

definition isConcreteOperatorInputFinding :: "review_finding \<Rightarrow> bool" where
  "isConcreteOperatorInputFinding f =
     (let s = js_trim (findingText f) in
      if isRepositoryOrToolEvidenceRequest s then False
      else if isAmbiguousProductScopeOperatorInputFinding f then False
      else if isExplicitOperatorInputFinding f then isConcreteExternalOperatorInputRequest s
      else if findingSource f = Review_Gate then False
      else if isPolicyOrSecuritySensitiveAmbiguity s then False
      else has_word [''operator'', ''user'', ''human'', ''maintainer'', ''owner''] s \<and>
        has_word [''provide'', ''supply'', ''choose'', ''select'', ''confirm'', ''decide'', ''approve'', ''grant'',
          ''configure'', ''set'', ''update''] s \<and>
        has_word [''data'', ''input'', ''answer'', ''decision'', ''approval'', ''access'', ''permission'', ''config'',
          ''configuration'', ''profile'', ''value'', ''setting'', ''account'', ''login''] s)"

definition filterNonBlockingOperatorInputFindings :: "review_finding list \<Rightarrow> review_finding list" where
  "filterNonBlockingOperatorInputFindings fs =
     filter (\<lambda>f. \<not> isAmbiguousProductScopeOperatorInputFinding f) fs"

section \<open>Claims the repository refutes\<close>

text \<open>\<open>[...s.matchAll(x)].map(m => m[1] ?? m[2] ?? "")\<close>: the captures of each match.\<close>

function groups_from :: "rx \<Rightarrow> string \<Rightarrow> string \<Rightarrow> (nat \<times> string) list list" where
  "groups_from x b r =
     (case rmatch x (b, r, []) of
        (b', r', m) # _ \<Rightarrow>
          if length r' < length r then m # groups_from x b' r'
          else (case r of [] \<Rightarrow> [] | c # cs \<Rightarrow> groups_from x (c # b) cs)
      | [] \<Rightarrow> (case r of [] \<Rightarrow> [] | c # cs \<Rightarrow> groups_from x (c # b) cs))"
  by pat_completeness auto

termination groups_from
  by (relation "measure (\<lambda>(x, b, r). length r)") auto

declare groups_from.simps [simp del]

definition json_path_rx :: rx where
  "json_path_rx = Alt
     (rseq [lit [backtick], Cap 1 (Seq (rx_plus (One (\<lambda>c. c \<noteq> backtick))) (lit_i ''.json'')), lit [backtick]])
     (rseq [Alt At_Start (One (\<lambda>c. js_space c \<or> c \<in> set ''([:'')),
        Cap 2 (Seq (rx_plus (One path_char)) (lit_i ''.json'')), Word_Boundary])"

definition referencedJsonPaths :: "string \<Rightarrow> string list" where
  "referencedJsonPaths s = concat (map (\<lambda>m.
     let raw = js_trim (the_default (the_default [] (map_of m 2)) (map_of m 1)) in
     if raw = [] then []
     else [remove_first (rseq [At_Start, lit ''.'', rx_plus (lit ''/'')])
        (map (\<lambda>c. if c = CHR 0x5C then CHR ''/'' else c) raw)]) (groups_from json_path_rx [] s))"

definition isJsonSyntaxClaim :: "string \<Rightarrow> bool" where
  "isJsonSyntaxClaim s = (has_word [''json''] s \<and>
     has_word [''invalid'', ''malformed'', ''syntax'', ''parse'', ''parser'', ''unclosed'', ''unterminated''] s)"

text \<open>
  What the gate asks of the project and of code that is not modelled: whether a path names a JSON
  file of the project that parses, whether the project's configured refutations cover a finding,
  whether the task is risky (\<^term>\<open>None\<close> without a task), the findings of the deterministic
  evidence checks, whether an accepting review still lacks substantive evidence, and the text the
  extraction agent returns.
\<close>

record gate_env =
  ge_host :: text_host
  ge_validJsonFile :: "string \<Rightarrow> bool"
  ge_refutedByConfig :: "review_finding \<Rightarrow> bool"
  ge_risky :: "bool option"
  ge_deterministic :: "review_finding list"
  ge_lacksEvidence :: bool
  ge_fallbackText :: string

definition isRefutedJsonSyntaxFinding :: "gate_env \<Rightarrow> review_finding \<Rightarrow> bool" where
  "isRefutedJsonSyntaxFinding e f =
     (let paths = referencedJsonPaths (findingText f) in
      if paths = [] \<or> \<not> isJsonSyntaxClaim (findingText f) then False
      else list_all (ge_validJsonFile e) paths)"

definition filterRefutedRepositoryFindings :: "gate_env \<Rightarrow> review_finding list \<Rightarrow> review_finding list" where
  "filterRefutedRepositoryFindings e fs =
     filter (\<lambda>f. \<not> ge_refutedByConfig e f \<and> \<not> isRefutedJsonSyntaxFinding e f) fs"

section \<open>Faults of the review contract\<close>

definition no_blockers_rx :: "string \<Rightarrow> rx" where
  "no_blockers_rx heading = rseq [lit_i (''## '' @ heading), Word_Boundary, Lazy (One (\<lambda>_. True)),
     lit_i ''## Blocking Findings'', Word_Boundary, Greedy (One js_space), rx_opt (lit [carriage_return]),
     lit [newline], Greedy (One js_space), lit ''-'', Greedy (One js_space), lit_i ''none'', rx_opt (lit ''.'')]"

definition rawSidecarDeclaresNoBlockingFindings :: "string option \<Rightarrow> string \<Rightarrow> bool" where
  "rawSidecarDeclaresNoBlockingFindings reviewText heading =
     (case reviewText of None \<Rightarrow> False
      | Some s \<Rightarrow> if s = [] then False else js_test (no_blockers_rx heading) s)"

definition bothSidecarsClean :: "string option \<Rightarrow> bool" where
  "bothSidecarsClean reviewText =
     (rawSidecarDeclaresNoBlockingFindings reviewText ''Raw Code Review'' \<and>
      rawSidecarDeclaresNoBlockingFindings reviewText ''Raw Security Audit'')"

definition coverage_contract_rx :: rx where
  "coverage_contract_rx = lit_i ''Structured review contract not satisfied: review output must include complete unique Security Coverage rows''"

definition isRefutedSecurityCoverageContractOnlyFinding ::
    "gate_env \<Rightarrow> string option \<Rightarrow> review_finding \<Rightarrow> bool" where
  "isRefutedSecurityCoverageContractOnlyFinding e reviewText f =
     (if findingSource f \<noteq> Review_Gate then False
      else if \<not> js_test coverage_contract_rx (findingText f) then False
      else if ge_risky e \<noteq> Some False then False
      else bothSidecarsClean reviewText)"

definition isSecurityCoverageContractFinding :: "review_finding \<Rightarrow> bool" where
  "isSecurityCoverageContractFinding f =
     (findingSource f = Review_Gate \<and> has_word [''Security Coverage rows''] (findingText f))"

definition canRecoverSecurityCoverageOnlyContractFailure ::
    "gate_env \<Rightarrow> string option \<Rightarrow> review_finding list \<Rightarrow> bool" where
  "canRecoverSecurityCoverageOnlyContractFailure e reviewText fs =
     (if fs = [] then False
      else if ge_risky e \<noteq> Some False then False
      else if \<not> list_all isSecurityCoverageContractFinding fs then False
      else bothSidecarsClean reviewText)"

definition filterActionableBlockingFindings ::
    "gate_env \<Rightarrow> string option \<Rightarrow> review_finding list \<Rightarrow> review_finding list" where
  "filterActionableBlockingFindings e reviewText fs =
     filter (\<lambda>f. \<not> isRefutedSecurityCoverageContractOnlyFinding e reviewText f)
       (filterRefutedRepositoryFindings e (filterNonBlockingOperatorInputFindings fs))"

definition manual_marker :: rx where "manual_marker = Seq At_Start (lit_i ''manual_review_required:'')"

definition isManualReviewFinding :: "review_finding \<Rightarrow> bool" where
  "isManualReviewFinding f = js_test manual_marker (js_trim (findingText f))"

definition hex_digit :: "char \<Rightarrow> bool" where
  "hex_digit c \<longleftrightarrow> digit c \<or> js_lower_char c \<in> set ''abcdef''"

definition parse_error_rx :: rx where
  "parse_error_rx = rseq [At_Start, lit_i ''Structured review parse error ('', exactly 12 (One hex_digit), lit ''):'']"

definition isStructuredParseErrorFinding :: "review_finding \<Rightarrow> bool" where
  "isStructuredParseErrorFinding f =
     (findingSource f = Review_Gate \<and> js_test parse_error_rx (js_trim (findingText f)))"

definition resolved_by_assertion_rx :: rx where
  "resolved_by_assertion_rx = rseq [At_Start,
     rx_any (map lit_i [''fixed'', ''done'', ''resolved'', ''addressed'', ''handled'', ''complete'', ''completed'',
       ''ok'', ''okay'', ''looks good'', ''all good'', ''verified'', ''passes'', ''pass'', ''n/a'', ''none'']),
     rx_opt (lit ''.''), At_End]"

definition closure_command_rx :: rx where
  "closure_command_rx = rseq
     [words_i [''command'', ''test'', ''tests'', ''lint'', ''build'', ''validator'', ''git log''], no_dot,
      words_i [''output'', ''exit code'', ''status'', ''passed'', ''failed'', ''green'']]"

definition closure_manifest_rx :: rx where
  "closure_manifest_rx = rseq
     [Word_Boundary, rx_any [lit_i ''manifest'', Seq (lit_i ''evidenceRef'') (rx_opt (lit_i ''s'')),
        lit_i ''scope coverage''], Word_Boundary, no_dot, Word_Boundary,
      rx_any (map lit_i [''present'', ''bound'', ''covered'', ''validated''] @
        [rseq [lit [backtick], rx_plus (One (\<lambda>c. c \<noteq> backtick)), lit [backtick]],
         rseq [lit ''['', rx_plus (One (\<lambda>c. c \<noteq> CHR '']'')), lit '']''],
         Seq (lit_i ''ev-'') (rx_plus (One word_char))]), Word_Boundary]"

definition closure_state_rx :: rx where
  "closure_state_rx = rseq
     [words_i [''blocked_external'', ''manualReviewRequired'', ''autoReviewState''], no_dot,
      words_i [''true'', ''false'', ''null'', ''set'', ''cleared'', ''preserved'', ''contains'', ''='', '':'']]"

definition resolvedPreviousFindingHasClosureEvidence :: "string \<Rightarrow> bool" where
  "resolvedPreviousFindingHasClosureEvidence note =
     (let n = js_trim note in
      if length n < 24 then False
      else if js_test resolved_by_assertion_rx n then False
      else list_ex (\<lambda>x. js_test x n)
        [quoted_path_rx, bare_path_rx, closure_command_rx, closure_manifest_rx, closure_state_rx])"

end
