(* ===== verification/Review_Gate.thy ===== *)
theory Review_Gate
  imports Review_Classifiers
begin

text \<open>
  The automatic review gate, \<open>packages/agent/src/reviewGate.ts\<close>: it reads the review comments of a
  task, compares them with the findings of the previous iteration and decides. A finding that
  blocks again carries a longer streak. The findings of the deterministic evidence checks and the
  answer of the extraction agent are inputs (\<^typ>\<open>gate_env\<close>).
\<close>

section \<open>Results\<close>

datatype handoff_reason =
    New_Blockers_After_Rework | Malformed_Review_Output_Fallback | Malformed_Structured_Review_Contract
  | Risky_Review_Without_Substantive_Evidence | Max_Iterations | Stalled_Rework_Loop

datatype gate_status =
    Gate_Success | Gate_Request_Changes | Gate_Manual_Review handoff_reason | Gate_Operator_Input

datatype parser_mode = Structured_Mode | Fallback_Mode

record gate_metrics =
  gm_strategy :: review_strategy
  gm_iteration :: int
  gm_previous :: nat
  gm_still :: nat
  gm_new :: nat
  gm_total :: nat
  gm_parser :: parser_mode

record gate_result =
  gr_status :: gate_status
  gr_metrics :: gate_metrics
  gr_blocking :: "review_finding list"
  gr_fixes :: string
  gr_state :: "auto_review_state option"

record review_gate_input =
  gi_reviewComments :: "string option"
  gi_strategy :: review_strategy
  gi_iteration :: int
  gi_previous :: "review_finding list"

definition formatFixesMarkdown :: "review_finding list \<Rightarrow> string" where
  "formatFixesMarkdown fs =
     (if fs = [] then ''- none''
      else js_join [newline] (map (\<lambda>f. ''- ['' @ findingId f @ ''] '' @ source_text (findingSource f) @
        '' | '' @ findingText f) fs))"

section \<open>Merging and streaks\<close>

definition pick :: "'a option \<Rightarrow> 'a option \<Rightarrow> 'a option" where
  "pick new old = (case new of None \<Rightarrow> old | Some _ \<Rightarrow> new)"

definition override_finding :: "review_finding \<Rightarrow> review_finding \<Rightarrow> review_finding" where
  "override_finding old f = f\<lparr>findingStatus := pick (findingStatus f) (findingStatus old),
     findingSeverity := pick (findingSeverity f) (findingSeverity old),
     findingLocation := pick (findingLocation f) (findingLocation old),
     findingClaim := pick (findingClaim f) (findingClaim old),
     findingRequiredFix := pick (findingRequiredFix f) (findingRequiredFix old),
     findingVerification := pick (findingVerification f) (findingVerification old),
     findingClosureEvidence := pick (findingClosureEvidence f) (findingClosureEvidence old),
     firstSeenIteration := pick (firstSeenIteration f) (firstSeenIteration old),
     lastSeenIteration := pick (lastSeenIteration f) (lastSeenIteration old),
     streak := pick (streak f) (streak old)\<rparr>"

definition merge_finding :: "blocking_map \<Rightarrow> review_finding \<Rightarrow> blocking_map" where
  "merge_finding m f = (case map_of m (findingId f) of
      None \<Rightarrow> map_set (findingId f) f m
    | Some old \<Rightarrow> map_set (findingId f) (override_finding old f) m)"

definition mergeFindings :: "review_finding list list \<Rightarrow> review_finding list" where
  "mergeFindings groups = map snd (foldl merge_finding [] (concat groups))"

text \<open>\<open>typeof v === "number" && Number.isInteger(v)\<close>.\<close>

definition integer_of :: "jsnum option \<Rightarrow> int option" where
  "integer_of v = (case v of Some (Fin q) \<Rightarrow> if of_int \<lfloor>q\<rfloor> = q then Some \<lfloor>q\<rfloor> else None | _ \<Rightarrow> None)"

definition jsint :: "int \<Rightarrow> jsnum" where "jsint i = Fin (of_int i)"

definition previous_streak :: "review_finding \<Rightarrow> int" where
  "previous_streak p = (case integer_of (streak p) of Some n \<Rightarrow> max 1 n | None \<Rightarrow> 1)"

definition previous_first_seen :: "int \<Rightarrow> review_finding \<Rightarrow> jsnum" where
  "previous_first_seen i p = (case integer_of (firstSeenIteration p) of
      Some n \<Rightarrow> if 0 < n then jsint n else jsint (max 1 (i - previous_streak p))
    | None \<Rightarrow> jsint (max 1 (i - previous_streak p)))"

definition enrich_finding :: "review_finding list \<Rightarrow> int \<Rightarrow> review_finding \<Rightarrow> review_finding" where
  "enrich_finding prev i f = (case by_id prev (findingId f) of
      None \<Rightarrow> f\<lparr>firstSeenIteration := Some (jsint i), lastSeenIteration := Some (jsint i), streak := Some (jsint 1)\<rparr>
    | Some p \<Rightarrow> f\<lparr>firstSeenIteration := Some (previous_first_seen i p), lastSeenIteration := Some (jsint i),
        streak := Some (jsint (previous_streak p + 1))\<rparr>)"

definition enrichBlockingFindings ::
    "review_finding list \<Rightarrow> review_finding list \<Rightarrow> int \<Rightarrow> review_finding list" where
  "enrichBlockingFindings fs prev i = map (enrich_finding prev i) fs"

definition new_findings :: "review_finding list \<Rightarrow> review_finding list \<Rightarrow> review_finding list" where
  "new_findings prev fs = filter (\<lambda>f. findingId f \<notin> findingId ` set prev) fs"

definition buildMetrics :: "review_gate_input \<Rightarrow> nat \<Rightarrow> nat \<Rightarrow> nat \<Rightarrow> parser_mode \<Rightarrow> gate_metrics" where
  "buildMetrics inp still new overall mode =
     \<lparr>gm_strategy = gi_strategy inp, gm_iteration = gi_iteration inp, gm_previous = length (gi_previous inp),
      gm_still = still, gm_new = new, gm_total = overall, gm_parser = mode\<rparr>"

definition plain_state :: "review_gate_input \<Rightarrow> review_finding list \<Rightarrow> auto_review_state" where
  "plain_state inp fs = toAutoReviewState (gi_strategy inp) (gi_iteration inp) fs None None"

definition blocked_result ::
    "review_gate_input \<Rightarrow> gate_status \<Rightarrow> gate_metrics \<Rightarrow> review_finding list \<Rightarrow> auto_review_state \<Rightarrow> gate_result" where
  "blocked_result inp st m fs state =
     \<lparr>gr_status = st, gr_metrics = m, gr_blocking = fs, gr_fixes = formatFixesMarkdown fs, gr_state = Some state\<rparr>"

definition accepted_result :: "gate_metrics \<Rightarrow> gate_result" where
  "accepted_result m = \<lparr>gr_status = Gate_Success, gr_metrics = m, gr_blocking = [], gr_fixes = ''- none'',
     gr_state = None\<rparr>"

section \<open>Requests to people\<close>

definition marker_only :: rx where "marker_only = Seq At_Start (lit_i ''operator_input_required:'')"

definition normalizeOperatorInputFindings :: "review_finding list \<Rightarrow> review_finding list" where
  "normalizeOperatorInputFindings fs = map (\<lambda>f.
     let safe = normalizeReviewText (findingText f) in
     f\<lparr>findingText := (if js_test marker_only safe
          then ''operator_input_required:'' @ remove_first marker_only safe
          else ''operator_input_required: '' @ safe),
       findingClosureEvidence := normalize_if_truthy (findingClosureEvidence f)\<rparr>) fs"

definition buildOperatorInputDecision :: "review_gate_input \<Rightarrow> gate_metrics \<Rightarrow> review_finding list \<Rightarrow> gate_result" where
  "buildOperatorInputDecision inp m fs =
     (let enriched = enrichBlockingFindings (normalizeOperatorInputFindings fs) (gi_previous inp) (gi_iteration inp)
      in blocked_result inp Gate_Operator_Input m enriched (plain_state inp enriched))"

definition maybeBuildOperatorInputDecision ::
    "review_gate_input \<Rightarrow> gate_metrics \<Rightarrow> review_finding list \<Rightarrow> gate_result option" where
  "maybeBuildOperatorInputDecision inp m fs =
     (if fs = [] \<or> \<not> list_all isConcreteOperatorInputFinding fs then None
      else Some (buildOperatorInputDecision inp m fs))"

definition sanitized_finding :: "review_finding \<Rightarrow> review_finding" where
  "sanitized_finding f = f\<lparr>findingText := normalizeReviewText (findingText f),
     findingClosureEvidence := normalize_if_truthy (findingClosureEvidence f)\<rparr>"

definition maybeBuildManualReviewDecision ::
    "review_gate_input \<Rightarrow> gate_metrics \<Rightarrow> review_finding list \<Rightarrow> gate_result option" where
  "maybeBuildManualReviewDecision inp m fs =
     (let manual = filter isManualReviewFinding fs in
      if manual = [] then None
      else (let enriched = enrichBlockingFindings (map sanitized_finding manual) (gi_previous inp) (gi_iteration inp)
        in Some (blocked_result inp (Gate_Manual_Review Malformed_Review_Output_Fallback) m enriched
             (plain_state inp enriched))))"

section \<open>Handoffs\<close>

definition buildMissingPreviousFindingHandoff ::
    "review_gate_input \<Rightarrow> gate_metrics \<Rightarrow> review_finding list \<Rightarrow> gate_result" where
  "buildMissingPreviousFindingHandoff inp m current =
     (let enriched = enrichBlockingFindings (mergeFindings [gi_previous inp, current]) (gi_previous inp)
            (gi_iteration inp)
      in blocked_result inp (Gate_Manual_Review Malformed_Review_Output_Fallback)
           (m\<lparr>gm_still := length (gi_previous inp), gm_new := length (new_findings (gi_previous inp) enriched),
              gm_total := length enriched\<rparr>) enriched (plain_state inp enriched))"

definition SUBSTANTIVE_EVIDENCE_TEXT :: string where
  "SUBSTANTIVE_EVIDENCE_TEXT = ''Risky audit/review/discovery acceptance requires substantive review evidence''"

definition buildSubstantiveEvidenceHandoff :: "gate_env \<Rightarrow> review_gate_input \<Rightarrow> gate_metrics \<Rightarrow> gate_result" where
  "buildSubstantiveEvidenceHandoff e inp m =
     (let f = plain_finding (createAutoReviewFindingId (ge_host e) Review_Gate SUBSTANTIVE_EVIDENCE_TEXT)
            Review_Gate (SUBSTANTIVE_EVIDENCE_TEXT @ ''.'');
          enriched = enrichBlockingFindings [f] (gi_previous inp) (gi_iteration inp)
      in blocked_result inp (Gate_Manual_Review Risky_Review_Without_Substantive_Evidence)
           (m\<lparr>gm_new := gm_new m + 1, gm_total := gm_total m + 1\<rparr>) enriched (plain_state inp enriched))"

definition accept_or_handoff :: "gate_env \<Rightarrow> review_gate_input \<Rightarrow> gate_metrics \<Rightarrow> gate_result" where
  "accept_or_handoff e inp m =
     (if ge_lacksEvidence e then buildSubstantiveEvidenceHandoff e inp m else accepted_result m)"

section \<open>Structured comments\<close>

definition parsedPreviousFindingsMatchInput :: "review_gate_input \<Rightarrow> parsed_review \<Rightarrow> bool" where
  "parsedPreviousFindingsMatchInput inp parsed =
     (if gi_previous inp = [] then pr_previous parsed = []
      else if length (pr_previous parsed) \<noteq> length (gi_previous inp) then False
      else distinct (map pf_id (pr_previous parsed)) \<and>
        (\<forall>p \<in> set (pr_previous parsed).
           map_option findingSource (by_id (gi_previous inp) (pf_id p)) = Some (pf_source p)) \<and>
        length (pr_previous parsed) = card (findingId ` set (gi_previous inp)))"

definition parsedStructuredMetadataMatchesInput :: "review_gate_input \<Rightarrow> parsed_review \<Rightarrow> bool" where
  "parsedStructuredMetadataMatchesInput inp parsed =
     (pr_strategy parsed = gi_strategy inp \<and> pr_iteration parsed = gi_iteration inp)"

definition resolvedPreviousFindingsHaveClosureEvidence :: "parsed_review \<Rightarrow> bool" where
  "resolvedPreviousFindingsHaveClosureEvidence parsed =
     list_all (\<lambda>p. is_blocking_status (pf_status p) \<or> resolvedPreviousFindingHasClosureEvidence (pf_note p))
       (pr_previous parsed)"

definition STRICT_AUDIT_VALIDATOR_BLOCKER_CODES :: "string list" where
  "STRICT_AUDIT_VALIDATOR_BLOCKER_CODES =
    [''invalid_report_manifest'', ''missing_scope_coverage'', ''missing_substantive_evidence'',
     ''fake_or_placeholder_command_output'', ''false_missing_path_claim'', ''future_tense_git_verification'',
     ''governance_observation_as_finding'', ''irrelevant_audit_evidence'', ''malformed_report_artifact'',
     ''missing_risk_hypotheses'', ''non_actionable_audit_observation'', ''placeholder_author_metadata'',
     ''speculative_audit_claim'', ''synthetic_git_output'', ''audit_evidence_discovery_only'',
     ''audit_evidence_identity_mismatch'', ''audit_evidence_risk_mismatch'', ''audit_evidence_scope_mismatch'',
     ''audit_evidence_source_snapshot_mismatch'', ''contradictory_findings_and_no_findings'',
     ''invalid_line_reference'', ''manifest_content_hash_mismatch'', ''manifest_identity_mismatch'',
     ''manifest_outcome_mismatch'', ''manifest_source_snapshot_mismatch'', ''missing_audit_evidence_ref'',
     ''missing_declared_scope_root'', ''missing_report_file_references'', ''missing_report_manifest'',
     ''missing_report_manifest_fields'', ''unsupported_report_manifest_version'', ''unverified_inspection_claim'']"

definition parenthesized_rx :: rx where
  "parenthesized_rx = rseq [lit ''('', Cap 1 (rx_plus (One (\<lambda>c. c \<noteq> CHR '')''))), lit '')'']"

definition deterministic_repair_rx :: rx where
  "deterministic_repair_rx = rseq [Word_Boundary, lit_i ''deterministic_repair_'', Cap 1 (rx_plus (One word_char))]"

definition extractStrictAuditValidatorBlockerCode :: "string \<Rightarrow> string option" where
  "extractStrictAuditValidatorBlockerCode s =
     (let candidates = filter (\<lambda>c. c \<noteq> []) (List.map_filter (map_option (\<lambda>m. js_trim (capture 1 m)))
            [js_match parenthesized_rx s, js_match deterministic_repair_rx s])
      in List.find (\<lambda>c. c \<in> set STRICT_AUDIT_VALIDATOR_BLOCKER_CODES) candidates)"

definition preserveResolvedStrictAuditValidatorBlockers ::
    "review_finding list \<Rightarrow> parsed_review \<Rightarrow> review_finding list \<Rightarrow> review_finding list" where
  "preserveResolvedStrictAuditValidatorBlockers prev parsed deterministic =
     (let codes = List.map_filter (\<lambda>f. extractStrictAuditValidatorBlockerCode (findingText f)) deterministic in
      if codes = [] then []
      else filter (\<lambda>f. case pick (extractStrictAuditValidatorBlockerCode (findingText f))
               (extractStrictAuditValidatorBlockerCode (findingId f)) of
             None \<Rightarrow> False | Some c \<Rightarrow> c \<in> set codes)
        (List.map_filter (\<lambda>p. by_id prev (pf_id p))
           (filter (\<lambda>p. pf_status p = Resolved \<or> pf_status p = Not_Reproducible) (pr_previous parsed))))"

definition still_blocking :: "parsed_review \<Rightarrow> previous_finding list" where
  "still_blocking parsed = filter (\<lambda>p. is_blocking_status (pf_status p)) (pr_previous parsed)"

definition still_blocking_finding :: "previous_finding \<Rightarrow> review_finding" where
  "still_blocking_finding p = (plain_finding (pf_id p) (pf_source p) (pf_note p))
     \<lparr>findingStatus := Some (pf_status p),
      findingClosureEvidence := (if truthy (pf_closureEvidence p) then pf_closureEvidence p else None)\<rparr>"

definition structured_blockers :: "gate_env \<Rightarrow> review_gate_input \<Rightarrow> parsed_review \<Rightarrow> review_finding list" where
  "structured_blockers e inp parsed = mergeFindings
     [map still_blocking_finding (still_blocking parsed),
      preserveResolvedStrictAuditValidatorBlockers (gi_previous inp) parsed (ge_deterministic e),
      pr_blocking parsed, ge_deterministic e]"

definition actionable_blockers :: "gate_env \<Rightarrow> review_gate_input \<Rightarrow> parsed_review \<Rightarrow> review_finding list" where
  "actionable_blockers e inp parsed =
     (let blocking = structured_blockers e inp parsed in
      if canRecoverSecurityCoverageOnlyContractFailure e (gi_reviewComments inp) blocking then []
      else filterActionableBlockingFindings e (gi_reviewComments inp) blocking)"

definition still_blocking_ids :: "review_gate_input \<Rightarrow> parsed_review \<Rightarrow> review_finding list \<Rightarrow> string set" where
  "still_blocking_ids inp parsed actionable =
     set (map pf_id (still_blocking parsed)) \<union>
     set (filter (\<lambda>i. i \<in> findingId ` set (gi_previous inp)) (map findingId actionable))"

text \<open>The end of the structured and of the legacy decision: who has to act on the blockers.\<close>

definition decide_on_blockers ::
    "review_gate_input \<Rightarrow> gate_metrics \<Rightarrow> nat \<Rightarrow> nat \<Rightarrow> review_finding list \<Rightarrow> auto_review_state \<Rightarrow> gate_result" where
  "decide_on_blockers inp m still new enriched state =
     (case maybeBuildManualReviewDecision inp m enriched of
        Some r \<Rightarrow> r
      | None \<Rightarrow>
         (case maybeBuildOperatorInputDecision inp m enriched of
            Some r \<Rightarrow> r
          | None \<Rightarrow>
             if gi_strategy inp = Closure_First \<and> gi_previous inp \<noteq> [] \<and> still = 0 \<and> 0 < new
             then blocked_result inp (Gate_Manual_Review New_Blockers_After_Rework) m enriched state
             else blocked_result inp Gate_Request_Changes m enriched state))"

definition buildStructuredDecision :: "gate_env \<Rightarrow> review_gate_input \<Rightarrow> parsed_review \<Rightarrow> gate_result" where
  "buildStructuredDecision e inp parsed =
     (let actionable = actionable_blockers e inp parsed;
          still = card (still_blocking_ids inp parsed actionable);
          new = length (new_findings (gi_previous inp) actionable);
          m = buildMetrics inp still new (length actionable) Structured_Mode
      in if \<not> parsedStructuredMetadataMatchesInput inp parsed \<or> \<not> parsedPreviousFindingsMatchInput inp parsed \<or>
            \<not> resolvedPreviousFindingsHaveClosureEvidence parsed
         then buildMissingPreviousFindingHandoff inp m actionable
         else if actionable = [] then accept_or_handoff e inp m
         else (let enriched = enrichBlockingFindings actionable (gi_previous inp) (gi_iteration inp) in
           decide_on_blockers inp m still new enriched
             (toAutoReviewState (gi_strategy inp) (gi_iteration inp) enriched (Some (pr_coverage parsed))
                (Some (pr_previous parsed)))))"

section \<open>Unstructured comments\<close>

definition buildFallbackDecision :: "gate_env \<Rightarrow> review_gate_input \<Rightarrow> review_finding list \<Rightarrow> gate_result" where
  "buildFallbackDecision e inp fallback =
     (let prev = gi_previous inp;
          found = filterActionableBlockingFindings e (gi_reviewComments inp) (mergeFindings [fallback, ge_deterministic e]);
          merged = (if prev \<noteq> [] then mergeFindings [prev, found] else found);
          m = buildMetrics inp (length prev) (length (new_findings prev found)) (length merged) Fallback_Mode
      in if prev \<noteq> [] then
           (let enriched = enrichBlockingFindings merged prev (gi_iteration inp) in
            blocked_result inp (Gate_Manual_Review Malformed_Review_Output_Fallback) m enriched (plain_state inp enriched))
         else if found = [] then accept_or_handoff e inp m
         else (let enriched = enrichBlockingFindings found prev (gi_iteration inp) in
           case maybeBuildManualReviewDecision inp m enriched of
             Some r \<Rightarrow> r
           | None \<Rightarrow>
              (case maybeBuildOperatorInputDecision inp m enriched of
                 Some r \<Rightarrow> r
               | None \<Rightarrow> blocked_result inp Gate_Request_Changes m enriched (plain_state inp enriched))))"

definition buildLegacyBlockingSectionDecision ::
    "gate_env \<Rightarrow> review_gate_input \<Rightarrow> review_finding list \<Rightarrow> gate_result" where
  "buildLegacyBlockingSectionDecision e inp blocking =
     (let prev = gi_previous inp;
          merged = filterActionableBlockingFindings e (gi_reviewComments inp) (mergeFindings [blocking, ge_deterministic e]);
          still = length (filter (\<lambda>f. findingId f \<in> findingId ` set prev) merged);
          new = length (new_findings prev merged);
          m = buildMetrics inp still new (length merged) Fallback_Mode
      in if merged = [] then
           (if prev \<noteq> [] then buildMissingPreviousFindingHandoff inp m [] else accept_or_handoff e inp m)
         else (let enriched = enrichBlockingFindings merged prev (gi_iteration inp) in
           decide_on_blockers inp m still new enriched (plain_state inp enriched)))"

definition blocking_heading_rx :: rx where
  "blocking_heading_rx = rseq [At_Start, lit ''##'', spaces, lit_i ''Blocking Findings'', Greedy (One js_space), At_End]"

definition any_heading_rx :: rx where
  "any_heading_rx = rseq [At_Start, lit ''#'', upto_times 5 (lit ''#''), spaces, One (\<lambda>c. \<not> js_space c)]"

definition none_row_rx :: rx where
  "none_row_rx = rseq [At_Start, lit_i ''none'', rx_opt (lit ''.''), At_End]"

definition legacy_item :: "string \<Rightarrow> string option" where
  "legacy_item l = (let line = js_trim l in
     if \<not> startsWith line ''-'' then None
     else (let body = js_trim (remove_first (rseq [At_Start, lit ''-'', Greedy (One js_space)]) line) in
       if body = [] \<or> js_test none_row_rx body then None else Some body))"

fun legacy_sections :: "string list \<Rightarrow> bool \<times> string list" where
  "legacy_sections [] = (False, [])"
| "legacy_sections (l # ls) =
     (case legacy_sections ls of (saw, items) \<Rightarrow>
        if js_test blocking_heading_rx (js_trim l)
        then (True, List.map_filter legacy_item
                (takeWhile (\<lambda>x. \<not> js_test any_heading_rx (js_trim x)) ls) @ items)
        else (saw, items))"

definition gate_findings :: "text_host \<Rightarrow> string list \<Rightarrow> review_finding list" where
  "gate_findings h items = map (\<lambda>i. plain_finding (createAutoReviewFindingId h Review_Gate i) Review_Gate i) items"

definition parseLegacyBlockingFindings :: "text_host \<Rightarrow> string option \<Rightarrow> review_finding list option" where
  "parseLegacyBlockingFindings h reviewText =
     (case legacy_sections (js_split_lines (the_default [] reviewText)) of (saw, items) \<Rightarrow>
        if saw then Some (gate_findings h items) else None)"

definition runLegacyFallbackExtraction :: "text_host \<Rightarrow> string \<Rightarrow> string + review_finding list" where
  "runLegacyFallbackExtraction h answer =
     (let normalized = js_trim answer in
      if normalized = [] then Inl ''Review auto-check returned empty response''
      else if js_upper normalized = ''SUCCESS'' then Inr []
      else (let ls = filter (\<lambda>l. l \<noteq> []) (map js_trim (split_newline [] normalized));
                bullets = filter (\<lambda>l. startsWith l ''- '') ls
            in if bullets \<noteq> [] \<and> length bullets = length ls
               then Inr (gate_findings h (map (\<lambda>l. js_trim (drop 2 l)) bullets)) else Inr []))"

section \<open>Faults of the structured contract\<close>

definition STRUCTURED_REVIEW_CONTRACT_FAILURE_TEXT :: string where
  "STRUCTURED_REVIEW_CONTRACT_FAILURE_TEXT = ''Structured review contract not satisfied: review output must include complete unique Security Coverage rows for secret_leaks, permissions_sandbox, unsafe_shell_network_file, and dependency_config.''"

definition metadata_heading_rx :: rx where
  "metadata_heading_rx = rseq [Line_Start, lit ''## Auto Review Metadata'', Word_Boundary]"

definition isStructuredReviewContractAttempt :: "string option \<Rightarrow> bool" where
  "isStructuredReviewContractAttempt reviewText =
     (case reviewText of None \<Rightarrow> False | Some s \<Rightarrow> s \<noteq> [] \<and> js_test metadata_heading_rx s)"

definition contract_failure_row :: rx where
  "contract_failure_row = rseq [Line_Start, lit ''- Contract Failure:'', spaces, lit ''structured_review_sidecar'',
     Greedy (One js_space), Line_End]"

definition contract_finding_row :: rx where
  "contract_finding_row = rseq [Line_Start, lit ''- [structured-review-contract]'', spaces, lit ''review_gate'',
     spaces, lit ''|'']"

definition isStructuredReviewContractFailure :: "string option \<Rightarrow> bool" where
  "isStructuredReviewContractFailure reviewText =
     (case reviewText of None \<Rightarrow> False
      | Some s \<Rightarrow>
        if s = [] then False
        else (let summary = before_first raw_code_review_heading s in
          js_test metadata_heading_rx summary \<and>
          (js_test contract_failure_row summary \<or> js_test contract_finding_row summary \<or>
           js_includes summary STRUCTURED_REVIEW_CONTRACT_FAILURE_TEXT)))"

definition extractSpecializedContractFailureFindings ::
    "text_host \<Rightarrow> string option \<Rightarrow> review_finding list" where
  "extractSpecializedContractFailureFindings h reviewText =
     (case parseStructuredReviewComments h reviewText of
        None \<Rightarrow> []
      | Some parsed \<Rightarrow> filter (\<lambda>f. findingSource f \<in> set SPECIALIZED_REVIEWER_ROLES) (pr_blocking parsed))"

definition contract_finding :: "text_host \<Rightarrow> review_finding" where
  "contract_finding h = plain_finding
     (createAutoReviewFindingId h Review_Gate STRUCTURED_REVIEW_CONTRACT_FAILURE_TEXT) Review_Gate
     STRUCTURED_REVIEW_CONTRACT_FAILURE_TEXT"

definition contract_metrics :: "review_gate_input \<Rightarrow> review_finding list \<Rightarrow> gate_metrics" where
  "contract_metrics inp enriched = buildMetrics inp (length (gi_previous inp))
     (length (new_findings (gi_previous inp) enriched)) (length enriched) Structured_Mode"

definition buildMalformedStructuredReviewContractHandoff :: "gate_env \<Rightarrow> review_gate_input \<Rightarrow> gate_result" where
  "buildMalformedStructuredReviewContractHandoff e inp =
     (let prev = gi_previous inp;
          contract = contract_finding (ge_host e);
          specialized = extractSpecializedContractFailureFindings (ge_host e) (gi_reviewComments inp);
          contractOnly = mergeFindings [[contract], specialized, ge_deterministic e]
      in if prev = [] \<and> canRecoverSecurityCoverageOnlyContractFailure e (gi_reviewComments inp) contractOnly
         then accepted_result (buildMetrics inp 0 0 0 Structured_Mode)
         else (let merged = (if prev \<noteq> [] then mergeFindings [prev, [contract], specialized, ge_deterministic e]
                       else contractOnly);
                   enriched = enrichBlockingFindings merged prev (gi_iteration inp);
                   status = (if \<exists>f \<in> set enriched. findingSource f \<noteq> Review_Gate \<and> isManualReviewFinding f
                       then Gate_Manual_Review Malformed_Structured_Review_Contract else Gate_Request_Changes)
               in blocked_result inp status (contract_metrics inp enriched) enriched (plain_state inp enriched)))"

definition buildStructuredParseErrorFinding :: "text_host \<Rightarrow> parse_error \<Rightarrow> review_finding" where
  "buildStructuredParseErrorFinding h err =
     (let codes = sort (js_unique (map (issue_code_text \<circ> issueCode) (errorIssues err))) in
      (plain_finding (createAutoReviewFindingId h Review_Gate
          (''structured_review_parse_error:'' @ errorFingerprint err)) Review_Gate
        (''Structured review parse error ('' @ errorFingerprint err @ ''): '' @ js_join '', '' codes @ ''.'' @
         [newline] @ errorRepair err))
      \<lparr>findingClosureEvidence := Some (''Structured parser rejected '' @ parse_kind_text (errorKind err) @
         '' with fingerprint '' @ errorFingerprint err @ ''.'')\<rparr>)"

definition buildStructuredParseErrorDecision :: "gate_env \<Rightarrow> review_gate_input \<Rightarrow> parse_error \<Rightarrow> gate_result" where
  "buildStructuredParseErrorDecision e inp err =
     (let prev = gi_previous inp;
          finding = buildStructuredParseErrorFinding (ge_host e) err;
          merged = (if prev \<noteq> [] then mergeFindings [prev, [finding], ge_deterministic e]
                    else mergeFindings [[finding], ge_deterministic e]);
          enriched = enrichBlockingFindings merged prev (gi_iteration inp);
          status = (if findingId finding \<in> findingId ` set prev
              then Gate_Manual_Review Malformed_Structured_Review_Contract else Gate_Request_Changes)
      in blocked_result inp status (contract_metrics inp enriched) enriched (plain_state inp enriched))"

section \<open>The gate\<close>

definition evaluateReviewCommentsForAutoMode :: "gate_env \<Rightarrow> review_gate_input \<Rightarrow> string + gate_result" where
  "evaluateReviewCommentsForAutoMode e inp =
     (let reviewText = gi_reviewComments inp in
      if isStructuredReviewContractFailure reviewText
      then Inr (buildMalformedStructuredReviewContractHandoff e inp)
      else if isStructuredReviewContractAttempt reviewText then
        (let prev = filter (\<lambda>f. \<not> isStructuredParseErrorFinding f) (gi_previous inp) in
         case parseStructuredReviewCommentsResult (ge_host e) reviewText prev of
           Inr parsed \<Rightarrow> Inr (buildStructuredDecision e (inp\<lparr>gi_previous := prev\<rparr>) parsed)
         | Inl err \<Rightarrow> Inr (buildStructuredParseErrorDecision e inp err))
      else (case parseLegacyBlockingFindings (ge_host e) reviewText of
          Some blocking \<Rightarrow> Inr (buildLegacyBlockingSectionDecision e inp blocking)
        | None \<Rightarrow>
           (case runLegacyFallbackExtraction (ge_host e) (ge_fallbackText e) of
              Inl msg \<Rightarrow> Inl msg
            | Inr fallback \<Rightarrow> Inr (buildFallbackDecision e inp fallback))))"

end
