(* ===== verification/Redacted_Text.thy ===== *)
theory Redacted_Text
  imports Review_Contract
begin

text \<open>
  Facts about redaction: what the global replacement and the captures of a pattern can contain,
  and that the normalized text of a review row is one non-empty line without blanks at its ends
  (\<open>plain_text\<close>), whatever the reviewer wrote.
\<close>

section \<open>Captures\<close>

fun groups :: "rx \<Rightarrow> nat set" where
  "groups (Cap n x) = insert n (groups x)"
| "groups (Seq x y) = groups x \<union> groups y"
| "groups (Alt x y) = groups x \<union> groups y"
| "groups (Greedy x) = groups x"
| "groups (Lazy x) = groups x"
| "groups (Ahead x) = groups x"
| "groups _ = {}"

definition keeps_groups :: "nat set \<Rightarrow> rx_state \<Rightarrow> rx_state \<Rightarrow> bool" where
  "keeps_groups N s t \<longleftrightarrow> (\<forall>n. n \<notin> N \<longrightarrow> map_of (snd (snd t)) n = map_of (snd (snd s)) n)"

lemma keeps_groups_refl [simp]: "keeps_groups N s s"
  by (simp add: keeps_groups_def)

lemma keeps_groups_trans: "keeps_groups N s t \<Longrightarrow> keeps_groups N t u \<Longrightarrow> keeps_groups N s u"
  by (simp add: keeps_groups_def)

lemma keeps_groups_mono: "keeps_groups M s t \<Longrightarrow> M \<subseteq> N \<Longrightarrow> keeps_groups N s t"
  by (auto simp: keeps_groups_def)

lemma star_induct:
  assumes refl: "\<And>s. P s s" and trans: "\<And>s t u. P s t \<Longrightarrow> P t u \<Longrightarrow> P s u"
    and step: "\<And>s t. t \<in> set (m s) \<Longrightarrow> P s t"
  shows "t \<in> set (star_greedy n m s) \<Longrightarrow> P s t" and "t \<in> set (star_lazy n m s) \<Longrightarrow> P s t"
proof (induction n arbitrary: s)
  case (Suc n)
  { case 1
    then consider "t = s" | u where "u \<in> set (m s)" "t \<in> set (star_greedy n m u)" by auto
    then show ?case by cases (use Suc.IH(1) refl in simp, rule trans [OF step Suc.IH(1)])
  next
    case 2
    then consider "t = s" | u where "u \<in> set (m s)" "t \<in> set (star_lazy n m u)" by auto
    then show ?case by cases (use Suc.IH(2) refl in simp, rule trans [OF step Suc.IH(2)])
  }
qed (simp_all add: refl)

lemma rmatch_groups: "t \<in> set (rmatch x s) \<Longrightarrow> keeps_groups (groups x) s t"
proof (induction x arbitrary: s t)
  case (One p)
  then show ?case by (cases s) (auto simp: keeps_groups_def split: list.splits if_splits)
next
  case (Seq x y)
  then obtain u where "u \<in> set (rmatch x s)" "t \<in> set (rmatch y u)" by auto
  then have "keeps_groups (groups x) s u" "keeps_groups (groups y) u t"
    using Seq.IH(1) [of u s] Seq.IH(2) [of t u] by blast+
  then show ?case by (simp add: keeps_groups_def)
next
  case (Alt x y)
  then have "keeps_groups (groups x) s t \<or> keeps_groups (groups y) s t"
    using Alt.IH(1) [of t s] Alt.IH(2) [of t s] by (simp only: rmatch.simps set_append Un_iff) blast
  then show ?case by (auto simp: keeps_groups_def)
next
  case (Greedy x)
  then have "t \<in> set (star_greedy (length (fst (snd s))) (rmatch x) s)" by simp
  from star_induct(1) [of "keeps_groups (groups x)", OF keeps_groups_refl keeps_groups_trans Greedy.IH this]
  show ?case by simp
next
  case (Lazy x)
  then have "t \<in> set (star_lazy (length (fst (snd s))) (rmatch x) s)" by simp
  from star_induct(2) [of "keeps_groups (groups x)", OF keeps_groups_refl keeps_groups_trans Lazy.IH this]
  show ?case by simp
next
  case (Cap n x)
  then obtain u where "u \<in> set (rmatch x s)"
    and "snd (snd t) = map_set n (rev (take (length (fst u) - length (fst s)) (fst u))) (snd (snd u))"
    by (auto simp: case_prod_beta)
  with Cap.IH [of u s] show ?case by (simp add: keeps_groups_def)
next
  case (Ahead x)
  obtain b r m where s: "s = (b, r, m)" by (cases s)
  from Ahead.prems obtain v w m' us where "rmatch x s = (v, w, m') # us" "t = (b, r, m')"
    by (cases "rmatch x (b, r, m)") (auto simp: s)
  with Ahead.IH [of "(v, w, m')" s] show ?case by (simp add: keeps_groups_def s)
next
  case At_Start
  then show ?case by (cases s) (auto split: if_splits)
next
  case At_End
  then show ?case by (cases s) (auto split: if_splits)
next
  case Line_Start
  then show ?case by (cases s) (auto split: if_splits)
next
  case Line_End
  then show ?case by (cases s) (auto split: if_splits)
next
  case Word_Boundary
  then show ?case by (cases s) (auto split: if_splits)
qed auto

text \<open>The group that opens a pattern captures what the pattern inside it consumed.\<close>

lemma rmatch_leading_group:
  assumes "t \<in> set (rmatch (Seq (Cap n x) y) (b, r, m))" and "n \<notin> groups y"
  shows "\<exists>w u. map_of (snd (snd t)) n = Some w \<and> u \<in> set (rmatch x (b, r, m)) \<and>
    fst u = rev w @ b \<and> r = w @ fst (snd u)"
proof -
  obtain u where u: "u \<in> set (rmatch (Cap n x) (b, r, m))" "t \<in> set (rmatch y u)"
    using assms(1) unfolding rmatch.simps(3) by (auto simp del: rmatch.simps)
  then obtain v where v: "v \<in> set (rmatch x (b, r, m))" "fst u = fst v" "fst (snd u) = fst (snd v)"
    "snd (snd u) = map_set n (rev (take (length (fst v) - length b) (fst v))) (snd (snd v))"
    by (auto simp: case_prod_beta)
  from rmatch_consumes [OF v(1)] obtain w where w: "fst v = rev w @ b" "r = w @ fst (snd v)"
    by (auto simp: consumes_def)
  have "map_of (snd (snd t)) n = map_of (snd (snd u)) n"
    using rmatch_groups [OF u(2)] assms(2) by (simp add: keeps_groups_def)
  also have "\<dots> = Some w" using v(4) w(1) by simp
  finally show ?thesis using v w by blast
qed

fun min_length :: "rx \<Rightarrow> nat" where
  "min_length (One p) = 1"
| "min_length (Seq x y) = min_length x + min_length y"
| "min_length (Alt x y) = min (min_length x) (min_length y)"
| "min_length (Cap n x) = min_length x"
| "min_length _ = 0"

lemma rmatch_min_length: "t \<in> set (rmatch x s) \<Longrightarrow> length (fst s) + min_length x \<le> length (fst t)"
proof (induction x arbitrary: s t)
  case (One p)
  then show ?case by (cases s) (auto split: list.splits if_splits)
next
  case (Seq x y)
  then obtain u where "u \<in> set (rmatch x s)" "t \<in> set (rmatch y u)" by auto
  then show ?case using Seq.IH(1) [of u s] Seq.IH(2) [of t u] by simp
next
  case (Alt x y)
  then have "t \<in> set (rmatch x s) \<or> t \<in> set (rmatch y s)" by simp
  then show ?case using Alt.IH(1) [of t s] Alt.IH(2) [of t s] by auto
next
  case (Cap n x)
  then obtain u where "u \<in> set (rmatch x s)" "fst t = fst u" by (auto simp: case_prod_beta)
  then show ?case using Cap.IH [of u s] by simp
next
  case (Greedy x)
  then show ?case using rmatch_consumes [OF Greedy.prems] by (auto simp: consumes_def)
next
  case (Lazy x)
  then show ?case using rmatch_consumes [OF Lazy.prems] by (auto simp: consumes_def)
next
  case (Ahead x)
  then show ?case using rmatch_consumes [OF Ahead.prems] by (auto simp: consumes_def)
next
  case At_Start
  then show ?case using rmatch_consumes [OF At_Start.prems] by (auto simp: consumes_def)
next
  case At_End
  then show ?case using rmatch_consumes [OF At_End.prems] by (auto simp: consumes_def)
next
  case Line_Start
  then show ?case using rmatch_consumes [OF Line_Start.prems] by (auto simp: consumes_def)
next
  case Line_End
  then show ?case using rmatch_consumes [OF Line_End.prems] by (auto simp: consumes_def)
next
  case Word_Boundary
  then show ?case using rmatch_consumes [OF Word_Boundary.prems] by (auto simp: consumes_def)
qed auto

section \<open>The global replacement\<close>

text \<open>The text put in for a match: not empty, no blank at its ends, no line break.\<close>

definition good_replacement :: "rx \<Rightarrow> ((nat \<times> string) list \<Rightarrow> string) \<Rightarrow> bool" where
  "good_replacement x f \<longleftrightarrow> (\<forall>b r b' r' m. (b', r', m) \<in> set (rmatch x (b, r, [])) \<longrightarrow>
     f m \<noteq> [] \<and> \<not> js_space (last (f m)) \<and>
     (r \<noteq> [] \<longrightarrow> \<not> js_space (hd r) \<longrightarrow> \<not> js_space (hd (f m))) \<and> (one_line r \<longrightarrow> one_line (f m)))"

lemma good_replacementD:
  assumes "good_replacement x f" and "rmatch x (b, r, []) = (b', r', m) # ts"
  shows "f m \<noteq> []" "\<not> js_space (last (f m))"
    "r \<noteq> [] \<Longrightarrow> \<not> js_space (hd r) \<Longrightarrow> \<not> js_space (hd (f m))" "one_line r \<Longrightarrow> one_line (f m)"
proof -
  have "(b', r', m) \<in> set (rmatch x (b, r, []))" using assms(2) by simp
  then have "f m \<noteq> [] \<and> \<not> js_space (last (f m)) \<and>
     (r \<noteq> [] \<longrightarrow> \<not> js_space (hd r) \<longrightarrow> \<not> js_space (hd (f m))) \<and> (one_line r \<longrightarrow> one_line (f m))"
    using assms(1) unfolding good_replacement_def by blast
  then show "f m \<noteq> []" "\<not> js_space (last (f m))"
    "r \<noteq> [] \<Longrightarrow> \<not> js_space (hd r) \<Longrightarrow> \<not> js_space (hd (f m))" "one_line r \<Longrightarrow> one_line (f m)"
    by blast+
qed

lemma one_line_Cons [simp]: "one_line (c # s) \<longleftrightarrow> c \<noteq> newline \<and> c \<noteq> carriage_return \<and> one_line s"
  by (auto simp: one_line_def)

lemma one_line_Nil [simp]: "one_line []"
  by (simp add: one_line_def)

lemma match_rest:
  assumes "rmatch x (b, r, []) = (b', r', m) # ts"
  shows "\<exists>w. r = w @ r'"
  using rmatch_consumes [of "(b', r', m)" x "(b, r, [])"] assms by (auto simp: consumes_def)

lemma replace_from_cases:
  obtains (step) b' r' m ts where "rmatch x (b, r, []) = (b', r', m) # ts" "length r' < length r"
      "replace_from x f b r = f m @ replace_from x f b' r'"
  | (empty) b' r' m ts c cs where "rmatch x (b, r, []) = (b', r', m) # ts" "r = c # cs"
      "replace_from x f b r = f m @ c # replace_from x f (c # b) cs"
  | (skip) c cs where "r = c # cs" "replace_from x f b r = c # replace_from x f (c # b) cs"
  | (at_end) b' r' m ts where "rmatch x (b, r, []) = (b', r', m) # ts" "r = []" "replace_from x f b r = f m"
  | (finished) "r = []" "replace_from x f b r = []"
proof (cases "rmatch x (b, r, [])")
  case Nil
  then show thesis using skip finished by (cases r) (auto simp: replace_from.simps [of x f b])
next
  case (Cons t ts)
  obtain b' r' m where t: "t = (b', r', m)" by (cases t)
  show thesis
  proof (cases "length r' < length r")
    case True
    then show thesis using step Cons t by (simp add: replace_from.simps [of x f b r])
  next
    case False
    then show thesis
      using empty at_end Cons t by (cases r) (simp_all add: replace_from.simps [of x f b])
  qed
qed

lemma replace_from_one_line:
  assumes "good_replacement x f"
  shows "one_line r \<Longrightarrow> one_line (replace_from x f b r)"
proof (induction "length r" arbitrary: b r rule: less_induct)
  case less
  note good = good_replacementD(4) [OF assms]
  show ?case
  proof (cases rule: replace_from_cases [of x b r f])
    case (step b' r' m ts)
    then have "one_line r'" using match_rest [OF step(1)] less.prems by auto
    then show ?thesis using less.hyps [OF step(2)] step good [OF step(1)] less.prems by simp
  next
    case (empty b' r' m ts c cs)
    then show ?thesis using less.hyps [of cs "c # b"] good [OF empty(1)] less.prems by simp
  next
    case (skip c cs)
    then show ?thesis using less.hyps [of cs "c # b"] less.prems by simp
  next
    case (at_end b' r' m ts)
    then show ?thesis using good [OF at_end(1)] less.prems by simp
  next
    case finished
    then show ?thesis by simp
  qed
qed

lemma replace_from_last:
  assumes "good_replacement x f"
  shows "(r = [] \<longrightarrow> replace_from x f b r = [] \<or> \<not> js_space (last (replace_from x f b r))) \<and>
    (r \<noteq> [] \<longrightarrow> \<not> js_space (last r) \<longrightarrow>
       replace_from x f b r \<noteq> [] \<and> \<not> js_space (last (replace_from x f b r)))"
proof (induction "length r" arbitrary: b r rule: less_induct)
  case less
  note good = good_replacementD(1,2) [OF assms]
  show ?case
  proof (cases rule: replace_from_cases [of x b r f])
    case (step b' r' m ts)
    obtain w where "r = w @ r'" using match_rest [OF step(1)] by blast
    then have l: "r' \<noteq> [] \<Longrightarrow> last r = last r'" by simp
    show ?thesis
    proof (cases "r' = []")
      case True
      then show ?thesis using less.hyps [OF step(2), of b'] step good [OF step(1)]
        by (cases "replace_from x f b' [] = []") simp_all
    next
      case False
      then show ?thesis using less.hyps [OF step(2), of b'] step good [OF step(1)] l by auto
    qed
  next
    case (empty b' r' m ts c cs)
    then show ?thesis using less.hyps [of cs "c # b"] by (cases "cs = []") auto
  next
    case (skip c cs)
    then show ?thesis using less.hyps [of cs "c # b"] by (cases "cs = []") auto
  next
    case (at_end b' r' m ts)
    then show ?thesis using good [OF at_end(1)] by simp
  next
    case finished
    then show ?thesis by simp
  qed
qed

lemma replace_from_hd:
  assumes "good_replacement x f" and "r \<noteq> []" and "\<not> js_space (hd r)"
  shows "\<not> js_space (hd (replace_from x f b r))"
  using assms(2,3)
proof (cases rule: replace_from_cases [of x b r f])
  case (step b' r' m ts)
  then show ?thesis using good_replacementD(1,3) [OF assms(1) step(1)] assms(2,3) by simp
next
  case (empty b' r' m ts c cs)
  then show ?thesis using good_replacementD(1,3) [OF assms(1) empty(1)] assms(2,3) by simp
qed simp_all

section \<open>One plain line\<close>

definition plain_text :: "string \<Rightarrow> bool" where
  "plain_text s \<longleftrightarrow> trimmed s \<and> one_line s"

lemma replace_all_plain:
  assumes "good_replacement x f" and "plain_text s"
  shows "plain_text (replace_all x f s)"
  using assms(2) replace_from_last [OF assms(1), of s "[]"] replace_from_hd [OF assms(1), of s "[]"]
    replace_from_one_line [OF assms(1), of s "[]"]
  by (auto simp: plain_text_def trimmed_def replace_all_def)

lemma good_constant: "plain_text v \<Longrightarrow> good_replacement x (\<lambda>_. v)"
  by (auto simp: good_replacement_def plain_text_def trimmed_def)

lemma plain_REDACTED: "plain_text REDACTED_VALUE"
  by code_simp

lemma plain_foldl:
  "plain_text s \<Longrightarrow> plain_text (foldl (\<lambda>s x. replace_all x (\<lambda>_. REDACTED_VALUE) s) s ps)"
  by (induction ps arbitrary: s) (simp_all add: replace_all_plain good_constant plain_REDACTED)

lemma redacted_end:
  "REDACTED_VALUE \<noteq> []" "\<not> js_space (last REDACTED_VALUE)" "one_line REDACTED_VALUE"
  using plain_REDACTED by (auto simp: plain_text_def trimmed_def)

lemma good_redact_key_value: "good_replacement SENSITIVE_VALUE_KEY_PATTERN redact_key_value"
  unfolding good_replacement_def
proof (intro allI impI)
  fix b r b' r' m
  assume m: "(b', r', m) \<in> set (rmatch SENSITIVE_VALUE_KEY_PATTERN (b, r, []))"
  obtain A B where pat: "SENSITIVE_VALUE_KEY_PATTERN = Seq (Cap 1 A) B" and "1 \<notin> groups B"
    and min: "1 \<le> min_length A"
    by (simp add: SENSITIVE_VALUE_KEY_PATTERN_def rseq_def rx_any_def lit_def rx_plus_def one_of_def)
  have "(b', r', m) \<in> set (rmatch (Seq (Cap 1 A) B) (b, r, []))" using m unfolding pat .
  from rmatch_leading_group [OF this \<open>1 \<notin> groups B\<close>] obtain w u
    where w: "map_of m 1 = Some w" "u \<in> set (rmatch A (b, r, []))" "fst u = rev w @ b" "r = w @ fst (snd u)"
    by (metis snd_conv)
  have "w \<noteq> []" using rmatch_min_length [OF w(2)] w(3) min by auto
  have quotes: "\<not> js_space CHR 0x22" "\<not> js_space CHR 0x27" "one_line [CHR 0x22]" "one_line [CHR 0x27]"
    by code_simp+
  have cap: "capture 1 m = w" using w(1) by (simp add: capture_def)
  have "hd w = hd r" "one_line r \<Longrightarrow> one_line w" using w(4) \<open>w \<noteq> []\<close> by auto
  then show "redact_key_value m \<noteq> [] \<and> \<not> js_space (last (redact_key_value m)) \<and>
     (r \<noteq> [] \<longrightarrow> \<not> js_space (hd r) \<longrightarrow> \<not> js_space (hd (redact_key_value m))) \<and>
     (one_line r \<longrightarrow> one_line (redact_key_value m))"
    using \<open>w \<noteq> []\<close> redacted_end quotes by (simp add: redact_key_value_def cap [simplified])
qed

lemma plain_redactProviderText:
  assumes "plain_text s"
  shows "plain_text (redactProviderText s)"
proof -
  let ?t = "foldl (\<lambda>s x. replace_all x (\<lambda>_. REDACTED_VALUE) s)
    (replace_all SENSITIVE_VALUE_KEY_PATTERN redact_key_value s) STRICT_TOKEN_PATTERNS"
  have t: "plain_text ?t"
    using assms by (intro plain_foldl replace_all_plain good_redact_key_value)
  have "plain_text (take 256 u @ ''...'')" if "plain_text u" for u
    using that by (cases u) (auto simp: plain_text_def trimmed_def one_line_def newline_def carriage_return_def
      js_space_def dest: in_set_takeD)
  with t show ?thesis
    by (simp add: redactProviderText_def redactProviderTextWithPatterns_def MAX_PROVIDER_META_STRING_LENGTH_def
        Let_def)
qed

definition nonblank :: "string \<Rightarrow> bool" where
  "nonblank s \<longleftrightarrow> \<not> list_all js_space s"

lemma nonblank_collapse: "nonblank s \<Longrightarrow> nonblank (collapse_space r s)"
  by (induction r s rule: collapse_space.induct) (auto simp: nonblank_def)

lemma trim_nonblank:
  assumes "nonblank s"
  shows "js_trim s \<noteq> []"
proof
  assume "js_trim s = []"
  then have "\<forall>c \<in> set (dropWhile js_space s). js_space c" by (simp add: js_trim_def)
  then have "dropWhile js_space s = []"
    by (metis dropWhile_hd_neg list.exhaust list.set_intros(1))
  then show False using assms by (simp add: nonblank_def list_all_iff)
qed

lemma plain_normalizeFindingText:
  assumes "nonblank s"
  shows "plain_text (normalizeFindingText s)"
proof -
  let ?c = "collapse_space False s"
  have "js_trim ?c \<noteq> []" using trim_nonblank nonblank_collapse assms by blast
  then show ?thesis
    using js_trim_ends [of ?c] one_line_trim [OF collapse_space_one_line, of False s]
    by (simp add: plain_text_def trimmed_def normalizeFindingText_def)
qed

theorem plain_normalizeReviewText:
  assumes "nonblank s"
  shows "plain_text (normalizeReviewText s)"
proof -
  have "plain_text ''[REDACTED]''" by code_simp
  then show ?thesis unfolding normalizeReviewText_def
    using assms by (intro replace_all_plain good_constant plain_redactProviderText plain_normalizeFindingText)
qed

lemma plain_nonblank: "plain_text s \<Longrightarrow> nonblank s"
  by (cases s) (auto simp: plain_text_def trimmed_def nonblank_def)

lemma plain_trim: "plain_text s \<Longrightarrow> js_trim s = s"
  by (simp add: plain_text_def js_trim_trimmed)

end
