(* ===== verification/Review_Roundtrip.thy ===== *)
theory Review_Roundtrip
  imports Review_Report Redacted_Text
begin

text \<open>
  Printing and reading the canonical review report: each kind of row is read back as printed, the
  sections of a printed report are the printed rows, and the whole report is read back as the
  merged findings it was printed from.
\<close>

section \<open>Rows\<close>

definition starts_dark :: "string \<Rightarrow> bool" where
  "starts_dark s \<longleftrightarrow> s \<noteq> [] \<and> \<not> js_space (hd s)"

lemma first_spaces: "starts_dark r \<Longrightarrow> first spaces (b, CHR '' '' # r, m) (CHR '' '' # b, r, m)"
  using first_plus_One [of "'' ''" js_space r b m] by (simp add: spaces_def starts_dark_def)

lemma first_bar:
  assumes "starts_dark r"
  shows "first bar (b, '' | '' @ r, m) (rev '' | '' @ b, r, m)"
proof -
  have "first spaces (b, CHR '' '' # (''| '' @ r), m) (CHR '' '' # b, ''| '' @ r, m)"
    by (rule first_spaces) (simp add: starts_dark_def js_space_def)
  moreover have "first (lit ''|'') (CHR '' '' # b, ''|'' @ (CHR '' '' # r), m)
      (rev ''|'' @ CHR '' '' # b, CHR '' '' # r, m)" by (rule first_lit)
  moreover have "first spaces (rev ''|'' @ CHR '' '' # b, CHR '' '' # r, m)
      (CHR '' '' # rev ''|'' @ CHR '' '' # b, r, m)" using assms by (rule first_spaces)
  ultimately show ?thesis unfolding bar_def
    by (auto intro!: first_rseq_Cons first_rseq_Nil)
qed

lemma rmatch_any:
  "rmatch (rx_any xs) s = (if xs = [] then [s] else concat (map (\<lambda>x. rmatch x s) xs))"
proof -
  have "rmatch (foldl Alt y ys) s = rmatch y s @ concat (map (\<lambda>x. rmatch x s) ys)" for y ys
    by (induction ys arbitrary: y) auto
  then show ?thesis by (cases xs) (simp_all add: rx_any_def)
qed

lemma first_names:
  assumes "x \<in> set xs" and "\<And>y. y \<in> set xs \<Longrightarrow> prefix (f y) (f x @ r) \<Longrightarrow> f y = f x"
  shows "first (names_rx f xs) (b, f x @ r, m) (rev (f x) @ b, r, m)"
proof -
  have one: "rmatch (lit (f y)) (b, f x @ r, m) =
      (if f y = f x then [(rev (f x) @ b, r, m)] else [])" if "y \<in> set xs" for y
    using assms(2) [OF that] by (auto simp: rmatch_lit)
  have "\<exists>t. concat (map (\<lambda>y. rmatch (lit (f y)) (b, f x @ r, m)) ys) =
      (if \<exists>y \<in> set ys. f y = f x then (rev (f x) @ b, r, m) # t else [])" if "set ys \<subseteq> set xs" for ys
    using that by (induction ys) (auto simp: one)
  from this [of xs] obtain t where
    "concat (map (\<lambda>y. rmatch (lit (f y)) (b, f x @ r, m)) xs) = (rev (f x) @ b, r, m) # t"
    using assms(1) by force
  moreover have "xs \<noteq> []" using assms(1) by auto
  ultimately show ?thesis by (auto simp: first_def names_rx_def rmatch_any comp_def)
qed

lemma source_prefix:
  "prefix (source_text y) (source_text x @ CHR '' '' # r) \<Longrightarrow> source_text y = source_text x"
  by (cases x; cases y) simp_all

lemma status_prefix:
  "prefix (finding_status_text y) (finding_status_text x @ CHR '' '' # r) \<Longrightarrow>
   finding_status_text y = finding_status_text x"
  by (cases x; cases y) simp_all

lemma area_prefix:
  "prefix (area_text y) (area_text x @ CHR '' '' # r) \<Longrightarrow> area_text y = area_text x"
  by (cases x; cases y) simp_all

lemma coverage_status_prefix:
  "prefix (coverage_status_text y) (coverage_status_text x @ CHR '' '' # r) \<Longrightarrow>
   coverage_status_text y = coverage_status_text x"
  by (cases x; cases y) simp_all

lemma all_sources: "x \<in> set AUTO_REVIEW_FINDING_SOURCES"
  by (cases x) (simp_all add: AUTO_REVIEW_FINDING_SOURCES_def)

lemma all_statuses: "x \<in> set PREVIOUS_FINDING_STATUSES"
  by (cases x) (simp_all add: PREVIOUS_FINDING_STATUSES_def)

lemma all_areas: "x \<in> set REQUIRED_SECURITY_COVERAGE_AREAS"
  by (cases x) (simp_all add: REQUIRED_SECURITY_COVERAGE_AREAS_def)

lemma all_coverage_statuses: "x \<in> set COVERAGE_STATUSES"
  by (cases x) (simp_all add: COVERAGE_STATUSES_def)

lemma read_source [simp]: "read_source (source_text x) = x"
  by (cases x) (simp_all add: read_source_def read_name_def AUTO_REVIEW_FINDING_SOURCES_def)

lemma read_status [simp]: "read_previous_status (finding_status_text x) = x"
  by (cases x) (simp_all add: read_previous_status_def read_name_def PREVIOUS_FINDING_STATUSES_def)

lemma read_area [simp]: "read_area (area_text x) = x"
  by (cases x) (simp_all add: read_area_def read_name_def REQUIRED_SECURITY_COVERAGE_AREAS_def)

lemma read_coverage_status [simp]: "read_coverage_status (coverage_status_text x) = x"
  by (cases x) (simp_all add: read_coverage_status_def read_name_def COVERAGE_STATUSES_def)

lemma starts_dark_names [simp]:
  "starts_dark (source_text x @ r)" "starts_dark (finding_status_text st @ r)"
  "starts_dark (coverage_status_text cs @ r)"
  by (cases x; simp add: starts_dark_def js_space_def)
    (cases st; simp add: starts_dark_def js_space_def; fail | cases cs; simp add: starts_dark_def js_space_def)+

lemma starts_dark_plain: "plain_text s \<Longrightarrow> starts_dark s"
  by (simp add: plain_text_def trimmed_def starts_dark_def)

lemma first_source:
  "first (Cap n source_rx) (b, source_text x @ CHR '' '' # r, m)
     (rev (source_text x) @ b, CHR '' '' # r, map_set n (source_text x) m)"
  unfolding source_rx_def
  by (intro first_Cap first_names all_sources) (auto dest: source_prefix)

lemma first_status:
  "first (Cap n previous_status_rx) (b, finding_status_text x @ CHR '' '' # r, m)
     (rev (finding_status_text x) @ b, CHR '' '' # r, map_set n (finding_status_text x) m)"
  unfolding previous_status_rx_def
  by (intro first_Cap first_names all_statuses) (auto dest: status_prefix)

lemma first_area:
  "first (Cap n (names_rx area_text REQUIRED_SECURITY_COVERAGE_AREAS)) (b, area_text x @ CHR '' '' # r, m)
     (rev (area_text x) @ b, CHR '' '' # r, map_set n (area_text x) m)"
  by (intro first_Cap first_names all_areas) (auto dest: area_prefix)

lemma first_coverage_status:
  "first (Cap n (names_rx coverage_status_text COVERAGE_STATUSES)) (b, coverage_status_text x @ CHR '' '' # r, m)
     (rev (coverage_status_text x) @ b, CHR '' '' # r, map_set n (coverage_status_text x) m)"
  by (intro first_Cap first_names all_coverage_statuses) (auto dest: coverage_status_prefix)

lemma first_rest_of_row:
  assumes "plain_text w"
  shows "first (rest_of_row n) (b, w, m) (rev w @ b, [], map_set n w m)"
proof -
  have "w \<noteq> []" using assms by (simp add: plain_text_def trimmed_def)
  moreover have "dot c" if "c \<in> set w" for c
  proof -
    have "c \<noteq> newline" "c \<noteq> carriage_return" using assms that by (auto simp: plain_text_def one_line_def)
    moreover have "char_of (10::nat) = newline" "char_of (13::nat) = carriage_return" by code_simp+
    ultimately have "of_char c \<noteq> (10::nat)" "of_char c \<noteq> (13::nat)" by (metis char_of_char)+
    then show ?thesis by (simp add: dot_def)
  qed
  ultimately have "first (rx_plus (One dot)) (b, w @ [], m) (rev w @ b, [], m)"
    by (intro first_plus_One) auto
  from first_Cap [OF this, of n] show ?thesis
    unfolding rest_of_row_def using first_At_End by (auto intro: first_Seq)
qed

definition wf_id :: "string \<Rightarrow> bool" where
  "wf_id s \<longleftrightarrow> s \<noteq> [] \<and> CHR '']'' \<notin> set s \<and> newline \<notin> set s"

lemma first_bracketed_id:
  assumes "wf_id i" and "starts_dark r"
  shows "first bracketed_id (b, ''['' @ i @ ''] '' @ r, m) (rev (''['' @ i @ ''] '') @ b, r, map_set 1 i m)"
proof -
  have "first (lit ''['') (b, ''['' @ (i @ '']'' @ CHR '' '' # r), m)
      (rev ''['' @ b, i @ '']'' @ CHR '' '' # r, m)" by (rule first_lit)
  moreover have "first (Cap 1 (rx_plus (One (\<lambda>c. c \<noteq> CHR '']'')))) (rev ''['' @ b, i @ ('']'' @ CHR '' '' # r), m)
      (rev i @ rev ''['' @ b, '']'' @ CHR '' '' # r, map_set 1 i m)"
    using assms(1) by (intro first_Cap first_plus_One) (auto simp: wf_id_def)
  moreover have "first (lit '']'') (rev i @ rev ''['' @ b, '']'' @ (CHR '' '' # r), map_set 1 i m)
      (rev '']'' @ rev i @ rev ''['' @ b, CHR '' '' # r, map_set 1 i m)" by (rule first_lit)
  moreover have "first spaces (rev '']'' @ rev i @ rev ''['' @ b, CHR '' '' # r, map_set 1 i m)
      (CHR '' '' # rev '']'' @ rev i @ rev ''['' @ b, r, map_set 1 i m)" using assms(2) by (rule first_spaces)
  ultimately show ?thesis unfolding bracketed_id_def
    by (auto intro!: first_rseq_Cons first_rseq_Nil)
qed

definition previous_row :: "string \<Rightarrow> finding_source \<Rightarrow> finding_status \<Rightarrow> string \<Rightarrow> string" where
  "previous_row i src st note =
     ''['' @ i @ ''] '' @ source_text src @ '' | '' @ finding_status_text st @ '' | '' @ note"

definition blocking_row :: "string \<Rightarrow> finding_source \<Rightarrow> string \<Rightarrow> string" where
  "blocking_row i src note = ''['' @ i @ ''] '' @ source_text src @ '' | '' @ note"

definition advisory_row :: "finding_source \<Rightarrow> string \<Rightarrow> string" where
  "advisory_row src note = source_text src @ '' | '' @ note"

definition coverage_row :: "coverage_area \<Rightarrow> coverage_status \<Rightarrow> string \<Rightarrow> string" where
  "coverage_row a st note = area_text a @ '' | '' @ coverage_status_text st @ '' | '' @ note"

lemma starts_dark_area [simp]: "starts_dark (area_text a @ r)"
  by (cases a; simp add: starts_dark_def js_space_def)

lemma first_source_bar:
  "first (Cap n source_rx) (b, source_text x @ '' | '' @ r, m)
     (rev (source_text x) @ b, '' | '' @ r, map_set n (source_text x) m)"
  using first_source [of n b x "''| '' @ r" m] by simp

lemma first_status_bar:
  "first (Cap n previous_status_rx) (b, finding_status_text x @ '' | '' @ r, m)
     (rev (finding_status_text x) @ b, '' | '' @ r, map_set n (finding_status_text x) m)"
  using first_status [of n b x "''| '' @ r" m] by simp

lemma first_area_bar:
  "first (Cap n (names_rx area_text REQUIRED_SECURITY_COVERAGE_AREAS)) (b, area_text x @ '' | '' @ r, m)
     (rev (area_text x) @ b, '' | '' @ r, map_set n (area_text x) m)"
  using first_area [of n b x "''| '' @ r" m] by simp

lemma first_coverage_status_bar:
  "first (Cap n (names_rx coverage_status_text COVERAGE_STATUSES)) (b, coverage_status_text x @ '' | '' @ r, m)
     (rev (coverage_status_text x) @ b, '' | '' @ r, map_set n (coverage_status_text x) m)"
  using first_coverage_status [of n b x "''| '' @ r" m] by simp

lemma first_last: "first x s t \<Longrightarrow> first (rseq [x]) s t"
  by (auto intro: first_rseq_Cons first_rseq_Nil)

lemma match_previous_row:
  assumes "wf_id i" and "plain_text note"
  shows "js_match canonical_previous_row (previous_row i src st note) =
    Some [(1, i), (2, source_text src), (3, finding_status_text st), (4, note)]"
proof -
  have "\<exists>b. first canonical_previous_row ([], previous_row i src st note, [])
      (b, [], map_set 4 note (map_set 3 (finding_status_text st) (map_set 2 (source_text src) (map_set 1 i []))))"
    unfolding canonical_previous_row_def previous_row_def
    by (rule exI, rule first_rseq_Cons [OF first_At_Start],
        rule first_rseq_Cons [OF first_bracketed_id [OF assms(1) starts_dark_names(1)]],
        rule first_rseq_Cons [OF first_source_bar], rule first_rseq_Cons [OF first_bar [OF starts_dark_names(2)]],
        rule first_rseq_Cons [OF first_status_bar],
        rule first_rseq_Cons [OF first_bar [OF starts_dark_plain [OF assms(2)]]],
        rule first_last [OF first_rest_of_row [OF assms(2)]])
  then show ?thesis by (auto dest: first_match)
qed

lemma match_blocking_row:
  assumes "wf_id i" and "plain_text note"
  shows "js_match canonical_blocking_row (blocking_row i src note) =
    Some [(1, i), (2, source_text src), (3, note)]"
proof -
  have "\<exists>b. first canonical_blocking_row ([], blocking_row i src note, [])
      (b, [], map_set 3 note (map_set 2 (source_text src) (map_set 1 i [])))"
    unfolding canonical_blocking_row_def blocking_row_def
    by (rule exI, rule first_rseq_Cons [OF first_At_Start],
        rule first_rseq_Cons [OF first_bracketed_id [OF assms(1) starts_dark_names(1)]],
        rule first_rseq_Cons [OF first_source_bar],
        rule first_rseq_Cons [OF first_bar [OF starts_dark_plain [OF assms(2)]]],
        rule first_last [OF first_rest_of_row [OF assms(2)]])
  then show ?thesis by (auto dest: first_match)
qed

lemma match_advisory_row:
  assumes "plain_text note"
  shows "js_match canonical_advisory_row (advisory_row src note) =
    Some [(1, source_text src), (2, note)]"
proof -
  have "\<exists>b. first canonical_advisory_row ([], advisory_row src note, [])
      (b, [], map_set 2 note (map_set 1 (source_text src) []))"
    unfolding canonical_advisory_row_def advisory_row_def
    by (rule exI, rule first_rseq_Cons [OF first_At_Start], rule first_rseq_Cons [OF first_source_bar],
        rule first_rseq_Cons [OF first_bar [OF starts_dark_plain [OF assms]]],
        rule first_last [OF first_rest_of_row [OF assms]])
  then show ?thesis by (auto dest: first_match)
qed

lemma match_coverage_row:
  assumes "plain_text note"
  shows "js_match security_coverage_row (coverage_row a st note) =
    Some [(1, area_text a), (2, coverage_status_text st), (3, note)]"
proof -
  have "\<exists>b. first security_coverage_row ([], coverage_row a st note, [])
      (b, [], map_set 3 note (map_set 2 (coverage_status_text st) (map_set 1 (area_text a) [])))"
    unfolding security_coverage_row_def coverage_row_def
    by (rule exI, rule first_rseq_Cons [OF first_At_Start], rule first_rseq_Cons [OF first_area_bar],
        rule first_rseq_Cons [OF first_bar [OF starts_dark_names(3)]],
        rule first_rseq_Cons [OF first_coverage_status_bar],
        rule first_rseq_Cons [OF first_bar [OF starts_dark_plain [OF assms]]],
        rule first_last [OF first_rest_of_row [OF assms]])
  then show ?thesis by (auto dest: first_match)
qed

section \<open>Sections\<close>

text \<open>A printed row: a trimmed item on one line that contains a bar, so it is never the word \<open>none\<close>.\<close>

definition row_item :: "string \<Rightarrow> bool" where
  "row_item s \<longleftrightarrow> trimmed s \<and> newline \<notin> set s \<and> CHR ''|'' \<in> set s"

lemma row_item_not_none: "row_item s \<Longrightarrow> js_lower s \<noteq> ''none''"
proof
  assume r: "row_item s" and n: "js_lower s = ''none''"
  have "js_lower_char CHR ''|'' \<in> set (js_lower s)"
    using r by (auto simp: row_item_def js_lower_def)
  then show False by (simp add: n js_lower_char_def)
qed

lemma bullet_trim: "trimmed s \<Longrightarrow> js_trim (''- '' @ s) = ''- '' @ s"
  by (intro js_trim_trimmed) (auto simp: trimmed_def js_space_def)

lemma list_items_bullets:
  "(\<And>s. s \<in> set rows \<Longrightarrow> trimmed s) \<Longrightarrow>
   list_items items (map (\<lambda>s. ''- '' @ s) rows @ rest) = list_items (items @ rows) rest"
proof (induction rows arbitrary: items)
  case (Cons s rows)
  have p: "trimmed s" using Cons.prems by simp
  have "js_trim s = s" "s \<noteq> []" using p js_trim_trimmed by (auto simp: trimmed_def)
  then have "list_items items ((''- '' @ s) # map (\<lambda>s. ''- '' @ s) rows @ rest) =
      list_items (items @ [s]) (map (\<lambda>s. ''- '' @ s) rows @ rest)"
    using bullet_trim [OF p] by simp
  also have "\<dots> = list_items (items @ s # rows) rest"
    using Cons.IH [of "items @ [s]"] Cons.prems by simp
  finally show ?case by simp
qed simp

lemma section_items:
  assumes "\<And>s. s \<in> set rows \<Longrightarrow> row_item s" and "set rest \<subseteq> {[]}"
  shows "normalizeListSection (Some (rows_or_none (map (\<lambda>s. ''- '' @ s) rows) @ rest)) = Some rows"
proof -
  have blanks: "list_items items rest = Some items" for items
    using assms(2) by (induction rest) (auto simp: js_trim_def)
  show ?thesis
  proof (cases "rows = []")
    case True
    have "list_items [] (''- none'' # rest) = Some [''none'']"
    proof -
      have "js_trim ''- none'' = ''- none''" "js_trim ''none'' = ''none''" by code_simp+
      then show ?thesis using blanks [of "[''none'']"] by simp
    qed
    moreover have "js_lower ''none'' = ''none''" by code_simp
    ultimately show ?thesis using True by (simp add: rows_or_none_def normalizeListSection_def)
  next
    case False
    have "list_items [] (map (\<lambda>s. ''- '' @ s) rows @ rest) = Some rows"
      using list_items_bullets [of rows "[]" rest] assms(1) blanks by (simp add: row_item_def)
    moreover have "i \<noteq> [] \<and> js_lower i \<noteq> ''none''" if "i \<in> set rows" for i
      using row_item_not_none [OF assms(1) [OF that]] assms(1) [OF that]
      by (auto simp: row_item_def trimmed_def)
    ultimately show ?thesis using False
      by (auto simp: rows_or_none_def normalizeListSection_def dest: hd_in_set)
  qed
qed

definition section_body :: "string list \<Rightarrow> bool" where
  "section_body ls \<longleftrightarrow> (\<forall>l \<in> set ls. \<not> startsWith l ''## '')"

lemma collect_body:
  assumes "section_body ls" and "name \<noteq> []" and "map_of secs name = Some old"
  shows "collect_sections (Some name) (ls @ rest) secs dups =
    collect_sections (Some name) rest (map_set name (old @ ls) secs) dups"
  using assms
proof (induction ls arbitrary: secs old)
  case Nil
  have "map_set name old secs = secs"
    using Nil.prems(3) by (induction name old secs rule: map_set.induct) (auto split: if_splits)
  then show ?case by simp
next
  case (Cons l ls)
  have "map_set name w (map_set name v secs) = map_set name w secs" for v w :: "string list"
    by (induction name v secs rule: map_set.induct) auto
  then show ?case using Cons.prems Cons.IH [of "map_set name (old @ [l]) secs" "old @ [l]"]
    by (auto simp: section_body_def)
qed

lemma collect_section:
  assumes "js_trim name = name" and "name \<noteq> []" and "name \<notin> fst ` set secs" and "section_body ls"
  shows "collect_sections cur ((''## '' @ name) # ls @ rest) secs dups =
    collect_sections (Some name) rest (secs @ [(name, ls)]) dups"
proof -
  have "map_of (map_set name [] secs) name = Some []" by simp
  from collect_body [OF assms(4,2) this, of rest dups]
  have "collect_sections (Some name) (ls @ rest) (map_set name [] secs) dups =
      collect_sections (Some name) rest (map_set name ls (map_set name [] secs)) dups" by simp
  moreover have "map_set name v (map_set name u secs) = secs @ [(name, v)]" for u v :: "string list"
    using assms(3) by (induction name u secs rule: map_set.induct) auto
  ultimately show ?thesis using assms(1,3) by simp
qed

text \<open>The five sections of the report.\<close>

lemma section_names:
  "js_trim ''Auto Review Metadata'' = ''Auto Review Metadata''"
  "js_trim ''Previous Findings'' = ''Previous Findings''"
  "js_trim ''Blocking Findings'' = ''Blocking Findings''"
  "js_trim ''Advisories'' = ''Advisories''"
  "js_trim ''Security Coverage'' = ''Security Coverage''"
  by code_simp+

lemma collect_report:
  assumes "section_body M" "section_body P" "section_body B" "section_body A" "section_body S"
  shows "collect_sections None
    (''## Auto Review Metadata'' # M @ ''## Previous Findings'' # P @ ''## Blocking Findings'' # B @
     ''## Advisories'' # A @ ''## Security Coverage'' # S) [] [] =
    ([(''Auto Review Metadata'', M), (''Previous Findings'', P), (''Blocking Findings'', B),
      (''Advisories'', A), (''Security Coverage'', S)], [])"
proof -
  let ?m = "[(''Auto Review Metadata'', M)]" and ?p = "[(''Previous Findings'', P)]"
    and ?b = "[(''Blocking Findings'', B)]" and ?a = "[(''Advisories'', A)]"
  note step = collect_section [simplified]
  have 1: "collect_sections None (''## Auto Review Metadata'' # M @ r) [] [] =
      collect_sections (Some ''Auto Review Metadata'') r ?m []" for r
    using collect_section [of "''Auto Review Metadata''" "[]" M None r "[]"] assms(1) section_names(1) by simp
  have 2: "collect_sections (Some n) (''## Previous Findings'' # P @ r) ?m [] =
      collect_sections (Some ''Previous Findings'') r (?m @ ?p) []" for n r
    using collect_section [of "''Previous Findings''" ?m P "Some n" r "[]"] assms(2) section_names(2) by simp
  have 3: "collect_sections (Some n) (''## Blocking Findings'' # B @ r) (?m @ ?p) [] =
      collect_sections (Some ''Blocking Findings'') r (?m @ ?p @ ?b) []" for n r
    using collect_section [of "''Blocking Findings''" "?m @ ?p" B "Some n" r "[]"] assms(3) section_names(3)
    by simp
  have 4: "collect_sections (Some n) (''## Advisories'' # A @ r) (?m @ ?p @ ?b) [] =
      collect_sections (Some ''Advisories'') r (?m @ ?p @ ?b @ ?a) []" for n r
    using collect_section [of "''Advisories''" "?m @ ?p @ ?b" A "Some n" r "[]"] assms(4) section_names(4)
    by simp
  have 5: "collect_sections (Some n) (''## Security Coverage'' # S @ []) (?m @ ?p @ ?b @ ?a) [] =
      (?m @ ?p @ ?b @ ?a @ [(''Security Coverage'', S)], [])" for n
    using collect_section [of "''Security Coverage''" "?m @ ?p @ ?b @ ?a" S "Some n" "[]" "[]"]
      assms(5) section_names(5) by simp
  show ?thesis using 5 by (simp only: 1 2 3 4 append_Nil2) simp
qed

section \<open>The summary before the raw outputs\<close>

definition RAW :: string where "RAW = ''## Raw Code Review''"

definition terminated :: "string list \<Rightarrow> string" where
  "terminated ls = concat (map (\<lambda>l. l @ [newline]) ls)"

lemma terminated_simps [simp]:
  "terminated [] = []" "terminated (l # ls) = l @ newline # terminated ls"
  "terminated (ls @ ks) = terminated ls @ terminated ks"
  by (simp_all add: terminated_def)

lemma js_join_terminated:
  "ls \<noteq> [] \<Longrightarrow> js_join [newline] (ls @ ks) =
     (if ks = [] then js_join [newline] ls else terminated ls @ js_join [newline] ks)"
proof (induction ls)
  case (Cons l ls)
  then show ?case by (cases ls; cases ks) auto
qed simp

lemma terminated_join: "ls \<noteq> [] \<Longrightarrow> terminated ls = js_join [newline] ls @ [newline]"
proof (induction ls)
  case (Cons l ls)
  then show ?case by (cases ls) auto
qed simp

lemma search_step:
  assumes "rmatch x (b, c # r, []) = []"
  shows "search x b (c # r) = search x (c # b) r"
  using assms by (simp add: search.simps [of x b "c # r"])

lemma rmatch_heading:
  assumes "\<not> prefix (newline # RAW) r"
  shows "rmatch raw_code_review_heading (b, r, m) = []"
  using assms by (simp add: raw_code_review_heading_def rseq_def rmatch_lit RAW_def)

lemma search_skip_line:
  assumes "newline \<notin> set l"
  shows "search raw_code_review_heading b (l @ r) = search raw_code_review_heading (rev l @ b) r"
  using assms
proof (induction l arbitrary: b)
  case (Cons c l)
  then have "rmatch raw_code_review_heading (b, c # l @ r, []) = []" by (intro rmatch_heading) auto
  then show ?case using Cons by (simp add: search_step)
qed simp

lemma RAW_no_newline: "newline \<notin> set RAW" "RAW \<noteq> []"
  by code_simp+

lemma prefix_line:
  assumes "newline \<notin> set p" and "prefix p (l @ newline # r)" and "newline \<notin> set l"
  shows "prefix p l"
proof (cases "length p \<le> length l")
  case True
  then show ?thesis using assms(2) by (auto simp: prefix_def append_eq_append_conv2)
next
  case False
  then have "p ! length l = newline"
    using assms(2) by (auto simp: prefix_def nth_append split: if_splits)
      (metis False linorder_not_le nth_append nth_append_length)
  then show ?thesis using False assms(1) by (metis linorder_not_le nth_mem)
qed

lemma search_raw_heading:
  assumes "\<And>l. l \<in> set ls \<Longrightarrow> newline \<notin> set l \<and> \<not> prefix RAW l"
  shows "search raw_code_review_heading b (terminated ls @ newline # RAW @ t) =
    search raw_code_review_heading (rev (terminated ls) @ b) (newline # RAW @ t)"
  using assms
proof (induction ls arbitrary: b)
  case (Cons l ls)
  let ?rest = "terminated ls @ newline # RAW @ t"
  have "\<not> prefix RAW ?rest"
  proof (cases ls)
    case Nil
    obtain a as where "RAW = a # as" using RAW_no_newline(2) by (cases RAW) auto
    then have "\<not> prefix RAW (newline # u)" for u
      using RAW_no_newline(1) by (metis Cons_prefix_Cons list.set_intros(1))
    then show ?thesis using Nil by simp
  next
    case head: (Cons k ks)
    have k: "newline \<notin> set k" "\<not> prefix RAW k" using Cons.prems [of k] head by simp_all
    have "\<not> prefix RAW (k @ newline # terminated ks @ newline # RAW @ t)"
      using prefix_line [OF RAW_no_newline(1) _ k(1)] k(2) by blast
    then show ?thesis using head by simp
  qed
  then have "rmatch raw_code_review_heading (rev l @ b, newline # ?rest, []) = []"
    by (intro rmatch_heading) auto
  then have "search raw_code_review_heading (rev l @ b) (newline # ?rest) =
      search raw_code_review_heading (newline # rev l @ b) ?rest" by (rule search_step)
  also have "\<dots> = search raw_code_review_heading (rev (terminated ls) @ newline # rev l @ b) (newline # RAW @ t)"
    using Cons.IH Cons.prems by simp
  finally show ?case using Cons.prems [of l] by (simp add: search_skip_line)
qed simp

lemma summary_before_raw:
  assumes "\<And>l. l \<in> set ls \<Longrightarrow> newline \<notin> set l \<and> \<not> prefix RAW l" and "t = [] \<or> \<not> word_char (hd t)"
  shows "before_first raw_code_review_heading (terminated ls @ newline # RAW @ t) = terminated ls"
proof -
  have "at_word (rev (newline # RAW) @ b)" for b by code_simp
  moreover have "\<not> at_word t" using assms(2) by (cases t) (auto simp: at_word_def)
  moreover have "prefix (newline # RAW) (newline # RAW @ t)" by simp
  ultimately have "\<exists>s ts. rmatch raw_code_review_heading (b, newline # RAW @ t, []) = s # ts" for b
    by (simp add: raw_code_review_heading_def rseq_def rmatch_lit RAW_def [symmetric])
  then have "\<exists>s. search raw_code_review_heading b (newline # RAW @ t) = Some (b, s)" for b
    by (subst search.simps) (metis (mono_tags) list.simps(5))
  then obtain s where "search raw_code_review_heading (rev (terminated ls)) (newline # RAW @ t) =
      Some (rev (terminated ls), s)" by blast
  then show ?thesis using search_raw_heading [of ls "[]" t] assms(1)
    by (simp add: before_first_def)
qed

lemma trim_right:
  assumes "trimmed a"
  shows "\<exists>t'. js_trim (a @ t) = a @ t' \<and> prefix t' t"
proof -
  have a: "a \<noteq> []" "\<not> js_space (hd a)" "\<not> js_space (last a)" using assms by (auto simp: trimmed_def)
  then have l: "dropWhile js_space (a @ t) = a @ t" by (cases a) auto
  obtain u where u: "rev t = takeWhile js_space (rev t) @ u" "u = dropWhile js_space (rev t)"
    by (metis takeWhile_dropWhile_id)
  have "dropWhile js_space (rev t @ rev a) = u @ rev a"
  proof (cases "u = []")
    case True
    then have "\<forall>c \<in> set (rev t). js_space c" using u(2) by (metis dropWhile_eq_Nil_conv)
    then have "dropWhile js_space (rev t @ rev a) = dropWhile js_space (rev a)" by (intro dropWhile_all) auto
    also have "\<dots> = rev a" using a by (cases "rev a") (auto simp: dropWhile_eq_self_iff hd_rev)
    finally show ?thesis using True by simp
  next
    case False
    then show ?thesis using u(2) by (metis dropWhile_append1 dropWhile_eq_Nil_conv)
  qed
  moreover have "t = rev u @ rev (takeWhile js_space (rev t))" using u(1) by (metis rev_append rev_rev_ident)
  then have "prefix (rev u) t" by (metis prefixI)
  ultimately show ?thesis using l by (simp add: js_trim_def)
qed

end
