(* ===== verification/Review_Reread.thy ===== *)
theory Review_Reread
  imports Review_Roundtrip
begin

text \<open>
  The merged report as a whole: what the merge produces is well formed, the metadata rows are read
  back, and so is the printed report.
\<close>

section \<open>Numerals\<close>

lemma of_char_digit: "n < 10 \<Longrightarrow> (of_char (digit_char n) :: nat) = 48 + n"
  by simp

lemma digit_digit_char: "n < 10 \<Longrightarrow> digit (digit_char n)"
  using of_char_digit [of n] by (simp add: digit_def del: digit_char.simps)

lemma digit_char_zero: "n < 10 \<Longrightarrow> digit_char n = CHR ''0'' \<Longrightarrow> n = 0"
  using of_char_digit [of n] of_char_digit [of 0] by (simp del: digit_char.simps)

lemma string_of_nat_digits: "string_of_nat n \<noteq> [] \<and> (\<forall>c \<in> set (string_of_nat n). digit c)"
proof (induction n rule: string_of_nat.induct)
  case (1 n)
  then show ?case
    by (subst (1 2) string_of_nat.simps) (auto simp: digit_digit_char simp del: digit_char.simps)
qed

lemma string_of_nat_hd: "0 < n \<Longrightarrow> hd (string_of_nat n) \<noteq> CHR ''0''"
proof (induction n rule: string_of_nat.induct)
  case (1 n)
  show ?case
  proof (cases "n < 10")
    case True
    then show ?thesis using 1 digit_char_zero [of n]
      by (subst string_of_nat.simps) (auto simp del: digit_char.simps)
  next
    case False
    then have "hd (string_of_nat (n div 10)) \<noteq> CHR ''0''" using 1 by simp
    moreover have "string_of_nat (n div 10) \<noteq> []" using string_of_nat_digits by blast
    ultimately show ?thesis using False
      by (subst string_of_nat.simps) (simp del: digit_char.simps)
  qed
qed

lemma parse_decimal_snoc: "parse_decimal (s @ [c]) = 10 * parse_decimal s + (of_char c - 48)"
  by (simp add: parse_decimal_def)

lemma parse_decimal_digit: "n < 10 \<Longrightarrow> (of_char (digit_char n) :: int) = 48 + int n"
  using of_char_digit [of n] by (metis of_nat_add of_nat_numeral of_nat_of_char)

lemma parse_string_of_nat: "parse_decimal (string_of_nat n) = int n"
proof (induction n rule: string_of_nat.induct)
  case (1 n)
  show ?case
  proof (cases "n < 10")
    case True
    then show ?thesis
      by (subst string_of_nat.simps) (simp add: parse_decimal_def parse_decimal_digit del: digit_char.simps)
  next
    case False
    then have "parse_decimal (string_of_nat n) =
        10 * int (n div 10) + (of_char (digit_char (n mod 10)) - 48)"
      using 1 by (subst string_of_nat.simps) (simp add: parse_decimal_snoc del: digit_char.simps)
    also have "\<dots> = 10 * int (n div 10) + int (n mod 10)"
      using parse_decimal_digit [of "n mod 10"] by (simp del: digit_char.simps)
    also have "\<dots> = int (10 * (n div 10) + n mod 10)"
      by (simp only: of_nat_add of_nat_mult of_nat_numeral)
    also have "\<dots> = int n" by (simp only: mult_div_mod_eq)
    finally show ?thesis .
  qed
qed

lemma digit_dark: "digit c \<Longrightarrow> \<not> js_space c"
  by (auto simp: digit_def js_space_def Let_def)

lemma dark_plain: "s \<noteq> [] \<Longrightarrow> (\<And>c. c \<in> set s \<Longrightarrow> \<not> js_space c) \<Longrightarrow> plain_text s"
  using space_chars unfolding plain_text_def trimmed_def one_line_def
  by (metis hd_in_set last_in_set)

lemma read_iteration_string:
  assumes "1 \<le> i" and "i \<le> 2 ^ 53 - 1"
  shows "read_iteration (string_of_int i) = Some i"
proof -
  obtain c s where cs: "string_of_nat (nat i) = c # s"
    using string_of_nat_digits [of "nat i"] by (cases "string_of_nat (nat i)") auto
  have "digit c" "c \<noteq> CHR ''0''" and s: "\<And>x. x \<in> set s \<Longrightarrow> digit x"
    using string_of_nat_digits [of "nat i"] string_of_nat_hd [of "nat i"] assms(1) cs by auto
  have "first positive_int_row ([], c # (s @ []), []) (rev s @ [c], [], [])"
    unfolding positive_int_row_def
    by (rule first_rseq_Cons [OF first_At_Start], rule first_rseq_Cons [OF first_One],
        use \<open>digit c\<close> \<open>c \<noteq> CHR ''0''\<close> in simp, rule first_rseq_Cons [OF first_Greedy_One],
        use s in simp, simp, rule first_last [OF first_At_End])
  then have "js_test positive_int_row (c # s)"
    by (auto simp: first_def js_test_def search.simps)
  then show ?thesis
    using assms parse_string_of_nat [of "nat i"] cs by (simp add: read_iteration_def string_of_int_def)
qed

section \<open>Metadata\<close>

lemma strategy_plain: "plain_text (''Strategy: '' @ strategy_text s)" "js_trim (strategy_text s) = strategy_text s"
  by (cases s; simp only: strategy_text.simps; code_simp)+

lemma read_strategy_text: "read_strategy (Some (strategy_text s)) = Some s"
  by (cases s; simp only: strategy_text.simps; code_simp)

lemma iteration_plain:
  assumes "1 \<le> i"
  shows "plain_text (string_of_int i)" "plain_text (''Review Iteration: '' @ string_of_int i)"
proof -
  have d: "string_of_int i \<noteq> []" "\<And>c. c \<in> set (string_of_int i) \<Longrightarrow> \<not> js_space c"
    using assms string_of_nat_digits [of "nat i"] digit_dark by (auto simp: string_of_int_def)
  then show p: "plain_text (string_of_int i)" by (rule dark_plain)
  have "one_line ''Review Iteration: ''" "\<not> js_space CHR ''R''" by code_simp+
  then show "plain_text (''Review Iteration: '' @ string_of_int i)"
    using p d by (simp add: plain_text_def trimmed_def)
qed

lemma metadata_items:
  assumes "1 \<le> i"
  shows "normalizeListSection (Some
      [''- Strategy: '' @ strategy_text s, ''- Review Iteration: '' @ string_of_int i, []]) =
    Some [''Strategy: '' @ strategy_text s, ''Review Iteration: '' @ string_of_int i]"
proof -
  let ?a = "''Strategy: '' @ strategy_text s" and ?b = "''Review Iteration: '' @ string_of_int i"
  have "list_items [] (map (\<lambda>s. ''- '' @ s) [?a, ?b] @ [[]]) = list_items [?a, ?b] [[]]"
    using list_items_bullets [of "[?a, ?b]" "[]" "[[]]"] strategy_plain iteration_plain(2) [OF assms] by (auto simp: plain_text_def)
  then have l: "list_items [] [''- Strategy: '' @ strategy_text s, ''- Review Iteration: '' @ string_of_int i, []] =
      Some [?a, ?b]" by (simp add: js_trim_def)
  have "length (js_lower ?a) \<noteq> length ''none''" "length (js_lower ?b) \<noteq> length ''none''" by simp_all
  then have "js_lower ?a \<noteq> ''none''" "js_lower ?b \<noteq> ''none''" by metis+
  then show ?thesis unfolding normalizeListSection_def by (simp only: option.case l) simp
qed

lemma parse_metadata_rows:
  assumes "1 \<le> i" and "i \<le> 2 ^ 53 - 1"
  shows "parse_metadata [''Strategy: '' @ strategy_text s, ''Review Iteration: '' @ string_of_int i] =
    (Some (s, i), [])"
proof -
  let ?a = "''Strategy: '' @ strategy_text s" and ?b = "''Review Iteration: '' @ string_of_int i"
  have "metadata_value ''Strategy: '' [?a, ?b] = Some (strategy_text s)"
    using strategy_plain(2) [of s] by (simp add: metadata_value_def)
  moreover have f: "List.find (\<lambda>l. startsWith l ''Review Iteration: '') [?a, ?b] = Some ?b"
    using startsWith_append [of "''Review Iteration: ''" "string_of_int i"] by simp
  then have "metadata_value ''Review Iteration: '' [?a, ?b] = Some (string_of_int i)"
    using plain_trim [OF iteration_plain(1) [OF assms(1)]] by (simp add: metadata_value_def)
  ultimately show ?thesis
    using f read_strategy_text [of s] read_iteration_string [OF assms]
    by (simp add: parse_metadata_def Let_def)
qed

section \<open>What is read back\<close>

definition reread_previous :: "previous_finding \<Rightarrow> previous_finding" where
  "reread_previous p = noted_finding (pf_id p) (pf_source p) (pf_status p) (normalizeReviewText (pf_note p))"

definition reread_blocker :: "review_finding \<Rightarrow> review_finding" where
  "reread_blocker f = plain_finding (findingId f) (findingSource f)
     (normalizeReviewText (normalizeReviewText (findingText f)))"

definition reread_advisory :: "review_advisory \<Rightarrow> review_advisory" where
  "reread_advisory a = a\<lparr>advisoryText := normalizeReviewText (normalizeReviewText (advisoryText a))\<rparr>"

definition reread_coverage :: "security_coverage \<Rightarrow> security_coverage" where
  "reread_coverage c = c\<lparr>coverageNote := normalizeReviewText (normalizeReviewText (coverageNote c))\<rparr>"

definition previous_item :: "previous_finding \<Rightarrow> string" where
  "previous_item p = previous_row (pf_id p) (pf_source p) (pf_status p) (normalizeReviewText (pf_note p))"

definition blocking_item :: "review_finding \<Rightarrow> string" where
  "blocking_item f = blocking_row (findingId f) (findingSource f) (normalizeReviewText (findingText f))"

definition advisory_item :: "review_advisory \<Rightarrow> string" where
  "advisory_item a = advisory_row (advisorySource a) (normalizeReviewText (advisoryText a))"

definition coverage_item :: "security_coverage \<Rightarrow> string" where
  "coverage_item c = coverage_row (coverageArea c) (coverageStatus c) (normalizeReviewText (coverageNote c))"

definition wf_previous :: "previous_finding \<Rightarrow> bool" where
  "wf_previous p \<longleftrightarrow> wf_id (pf_id p) \<and> nonblank (pf_note p)"

definition wf_blocker :: "review_finding \<Rightarrow> bool" where
  "wf_blocker f \<longleftrightarrow> wf_id (findingId f) \<and> nonblank (findingText f)"

lemma printed_lines:
  "formatCanonicalPreviousFindingLine p = ''- '' @ previous_item p"
  "formatCanonicalBlockingFindingLine f = ''- '' @ blocking_item f"
  "formatCanonicalAdvisoryLine a = ''- '' @ advisory_item a"
  "formatCanonicalSecurityCoverageLine c = ''- '' @ coverage_item c"
  by (simp_all add: formatCanonicalPreviousFindingLine_def formatCanonicalBlockingFindingLine_def
      formatCanonicalAdvisoryLine_def formatCanonicalSecurityCoverageLine_def previous_item_def
      blocking_item_def advisory_item_def coverage_item_def previous_row_def blocking_row_def
      advisory_row_def coverage_row_def)

lemma name_lines:
  "one_line (source_text x)" "one_line (finding_status_text st)" "one_line (area_text a)"
  "one_line (coverage_status_text cs)"
  by (cases x; simp add: one_line_def newline_def carriage_return_def)
    (cases st; simp add: one_line_def newline_def carriage_return_def; fail
     | cases a; simp add: one_line_def newline_def carriage_return_def; fail
     | cases cs; simp add: one_line_def newline_def carriage_return_def)+

lemma name_newlines:
  "newline \<notin> set (source_text x)" "newline \<notin> set (finding_status_text st)" "newline \<notin> set (area_text a)"
  "newline \<notin> set (coverage_status_text cs)"
  using name_lines by (auto simp: one_line_def)

lemma mark_lines: "newline \<notin> set ''['' \<and> newline \<notin> set ''] '' \<and> newline \<notin> set '' | ''"
  by code_simp

lemma row_itemI:
  assumes "starts_dark (p @ '' | '' @ n)" and "newline \<notin> set p" and "plain_text n"
  shows "row_item (p @ '' | '' @ n)"
  using assms mark_lines by (auto simp: row_item_def plain_text_def trimmed_def starts_dark_def one_line_def)

lemma row_items:
  "wf_previous p \<Longrightarrow> row_item (previous_item p)"
  "wf_blocker f \<Longrightarrow> row_item (blocking_item f)"
  "nonblank (advisoryText a) \<Longrightarrow> row_item (advisory_item a)"
  "nonblank (coverageNote c) \<Longrightarrow> row_item (coverage_item c)"
proof -
  note plain = plain_normalizeReviewText
  have dark: "starts_dark (''['' @ s)" for s by (simp add: starts_dark_def js_space_def)
  show "wf_previous p \<Longrightarrow> row_item (previous_item p)"
    using row_itemI [of "''['' @ pf_id p @ ''] '' @ source_text (pf_source p) @ '' | '' @
        finding_status_text (pf_status p)" "normalizeReviewText (pf_note p)"] plain name_newlines mark_lines dark
    by (simp add: wf_previous_def wf_id_def previous_item_def previous_row_def)
  show "wf_blocker f \<Longrightarrow> row_item (blocking_item f)"
    using row_itemI [of "''['' @ findingId f @ ''] '' @ source_text (findingSource f)"
        "normalizeReviewText (findingText f)"] plain name_newlines mark_lines dark
    by (simp add: wf_blocker_def wf_id_def blocking_item_def blocking_row_def)
  show "nonblank (advisoryText a) \<Longrightarrow> row_item (advisory_item a)"
    using row_itemI [of "source_text (advisorySource a)" "normalizeReviewText (advisoryText a)"]
      plain name_newlines by (simp add: advisory_item_def advisory_row_def)
  show "nonblank (coverageNote c) \<Longrightarrow> row_item (coverage_item c)"
    using row_itemI [of "area_text (coverageArea c) @ '' | '' @ coverage_status_text (coverageStatus c)"
        "normalizeReviewText (coverageNote c)"] plain name_newlines mark_lines
    by (simp add: coverage_item_def coverage_row_def)
qed

lemma reread_previous_rows:
  assumes "\<And>p. p \<in> set ps \<Longrightarrow> wf_previous p" and "distinct (map pf_id ps)"
    and "set (map pf_id ps) \<inter> set seen = {}"
    and "\<And>p. prev \<noteq> [] \<Longrightarrow> p \<in> set ps \<Longrightarrow>
      map_option findingSource (by_id prev (pf_id p)) = Some (pf_source p)"
  shows "canonical_previous_rows prev seen (map previous_item ps) =
    (map reread_previous ps, [], rev (map pf_id ps) @ seen)"
  using assms
proof (induction ps arbitrary: seen)
  case (Cons p ps)
  have wf: "wf_id (pf_id p)" "plain_text (normalizeReviewText (pf_note p))"
    using Cons.prems(1) [of p] plain_normalizeReviewText by (auto simp: wf_previous_def)
  from match_previous_row [OF this, of "pf_source p" "pf_status p"]
  have "js_match canonical_previous_row (previous_item p) =
    Some [(1, pf_id p), (2, source_text (pf_source p)), (3, finding_status_text (pf_status p)),
      (4, normalizeReviewText (pf_note p))]" by (simp add: previous_item_def)
  moreover have "canonical_previous_rows prev (pf_id p # seen) (map previous_item ps) =
      (map reread_previous ps, [], rev (map pf_id ps) @ pf_id p # seen)"
    using Cons.prems by (intro Cons.IH) auto
  moreover have "pf_id p \<notin> set seen" using Cons.prems(3) by auto
  moreover have "\<not> (prev \<noteq> [] \<and> map_option findingSource (by_id prev (pf_id p)) \<noteq> Some (pf_source p))"
    using Cons.prems(4) [of p] by auto
  ultimately show ?case
    by (simp add: capture_def reread_previous_def Let_def)
qed simp

lemma reread_blocking_rows:
  "(\<And>f. f \<in> set fs \<Longrightarrow> wf_blocker f) \<Longrightarrow>
   canonical_blocking_rows (map blocking_item fs) = (map reread_blocker fs, [])"
proof (induction fs)
  case (Cons f fs)
  have wf: "wf_id (findingId f)" "plain_text (normalizeReviewText (findingText f))"
    using Cons.prems [of f] plain_normalizeReviewText by (auto simp: wf_blocker_def)
  from match_blocking_row [OF this, of "findingSource f"]
  have "js_match canonical_blocking_row (blocking_item f) =
    Some [(1, findingId f), (2, source_text (findingSource f)), (3, normalizeReviewText (findingText f))]"
    by (simp add: blocking_item_def)
  moreover have "canonical_blocking_rows (map blocking_item fs) = (map reread_blocker fs, [])"
    using Cons by simp
  ultimately show ?case by (simp add: capture_def reread_blocker_def)
qed simp

lemma reread_advisory_rows:
  "(\<And>a. a \<in> set as \<Longrightarrow> nonblank (advisoryText a)) \<Longrightarrow>
   canonical_advisory_rows (map advisory_item as) = (map reread_advisory as, [])"
proof (induction as)
  case (Cons a as)
  from match_advisory_row [OF plain_normalizeReviewText, of "advisoryText a" "advisorySource a"] Cons.prems
  have "js_match canonical_advisory_row (advisory_item a) =
    Some [(1, source_text (advisorySource a)), (2, normalizeReviewText (advisoryText a))]"
    by (simp add: advisory_item_def)
  moreover have "canonical_advisory_rows (map advisory_item as) = (map reread_advisory as, [])"
    using Cons by simp
  ultimately show ?case by (simp add: capture_def reread_advisory_def)
qed simp

lemma reread_coverage_rows:
  assumes "\<And>c. c \<in> set cs \<Longrightarrow> nonblank (coverageNote c)" and "distinct (map coverageArea cs)"
    and "set (map coverageArea cs) \<inter> set seen = {}"
  shows "coverage_rows seen (map coverage_item cs) =
    (map reread_coverage cs, [], rev (map coverageArea cs) @ seen)"
  using assms
proof (induction cs arbitrary: seen)
  case (Cons c cs)
  from match_coverage_row [OF plain_normalizeReviewText, of "coverageNote c"] Cons.prems(1)
  have "js_match security_coverage_row (coverage_item c) =
    Some [(1, area_text (coverageArea c)), (2, coverage_status_text (coverageStatus c)),
      (3, normalizeReviewText (coverageNote c))]" by (simp add: coverage_item_def)
  moreover have "coverage_rows (coverageArea c # seen) (map coverage_item cs) =
      (map reread_coverage cs, [], rev (map coverageArea cs) @ coverageArea c # seen)"
    using Cons.prems by (intro Cons.IH) auto
  moreover have "coverageArea c \<notin> set seen" using Cons.prems(3) by auto
  ultimately show ?case by (simp add: capture_def reread_coverage_def Let_def)
qed simp

end
