(* ===== verification/Review_Merge.thy ===== *)
theory Review_Merge
  imports Review_Reread
begin

text \<open>
  What the merge of the reviewers' outputs keeps: identifiers, original sources, readable texts and
  every blocker; and the round trip of the printed report.
\<close>

section \<open>Previous findings\<close>

lemma in_map_set: "(k', v') \<in> set (map_set k v m) \<Longrightarrow> (k', v') = (k, v) \<or> (k', v') \<in> set m"
  by (induction k v m rule: map_set.induct) (auto split: if_splits)

lemma nonblank_append: "nonblank a \<Longrightarrow> nonblank (a @ b)"
  by (simp add: nonblank_def)

lemma nonblank_review_text: "nonblank s \<Longrightarrow> nonblank (normalizeReviewText s)"
  by (rule plain_nonblank [OF plain_normalizeReviewText])

lemma consolidate_facts:
  "pf_id old = pf_id new \<Longrightarrow> pf_id (consolidate old new) = pf_id new"
  "pf_source old = pf_source new \<Longrightarrow> pf_source (consolidate old new) = pf_source new"
  "nonblank (pf_note old) \<Longrightarrow> nonblank (pf_note new) \<Longrightarrow> nonblank (pf_note (consolidate old new))"
  by (auto simp: consolidate_def Let_def conflict_note_def nonblank_append intro!: nonblank_review_text)

text \<open>Of two answers about one finding the more severe one is kept.\<close>

lemma consolidate_status:
  "status_priority (pf_status (consolidate old new)) =
     max (status_priority (pf_status old)) (status_priority (pf_status new))"
  by (simp add: consolidate_def Let_def)

lemma blocking_priority: "is_blocking_status st \<longleftrightarrow> 3 \<le> status_priority st"
  by (cases st) simp_all

lemma consolidate_blocking:
  "is_blocking_status (pf_status (consolidate old new)) \<longleftrightarrow>
     is_blocking_status (pf_status old) \<or> is_blocking_status (pf_status new)"
  by (simp add: blocking_priority consolidate_status le_max_iff_disj)

definition answers_ok :: "review_finding list \<Rightarrow> (string \<times> previous_finding) list \<Rightarrow> bool" where
  "answers_ok prev m \<longleftrightarrow> distinct (map_keys m) \<and> (\<forall>(k, p) \<in> set m. pf_id p = k \<and> wf_previous p \<and>
     map_option findingSource (by_id prev k) = Some (pf_source p))"

lemma merge_previous_one_ok:
  assumes "answers_ok prev m" and "wf_previous p"
  shows "answers_ok prev (merge_previous_one (Some prev) m p)"
proof (cases "by_id prev (pf_id p)")
  case None
  then show ?thesis using assms(1) by (simp add: merge_previous_one_def)
next
  case (Some f)
  let ?q = "p\<lparr>pf_source := findingSource f\<rparr>"
  have set_ok: "answers_ok prev (map_set (pf_id p) v m)"
    if "pf_id v = pf_id p" "wf_previous v" "pf_source v = findingSource f" for v
    using assms(1) that Some unfolding answers_ok_def
    by (auto simp: distinct_map_set dest!: in_map_set)
  show ?thesis
  proof (cases "map_of m (pf_id p)")
    case None
    then show ?thesis using set_ok [of ?q] assms(2) Some
      by (simp add: merge_previous_one_def wf_previous_def)
  next
    case old: (Some old)
    then have "(pf_id p, old) \<in> set m" by (rule map_of_SomeD)
    then have o: "pf_id old = pf_id p" "wf_previous old" "pf_source old = findingSource f"
      using assms(1) Some by (auto simp: answers_ok_def)
    let ?c = "consolidate old ?q"
    have "pf_id ?c = pf_id p" "pf_source ?c = findingSource f" "wf_previous ?c"
      using consolidate_facts [of old ?q] o assms(2) by (simp_all add: wf_previous_def)
    then show ?thesis using set_ok [of ?c] old Some by (simp add: merge_previous_one_def Let_def)
  qed
qed

lemma merge_previous_keys:
  "fst ` set (merge_previous_one (Some prev) m p) =
     (if by_id prev (pf_id p) = None then fst ` set m else insert (pf_id p) (fst ` set m))"
  by (auto simp: merge_previous_one_def Let_def split: option.splits)

lemma merge_previous_ok:
  "answers_ok prev m \<Longrightarrow> (\<And>p. p \<in> set ps \<Longrightarrow> wf_previous p) \<Longrightarrow>
   answers_ok prev (foldl (merge_previous_one (Some prev)) m ps) \<and>
   fst ` set (foldl (merge_previous_one (Some prev)) m ps) =
     fst ` set m \<union> {k \<in> pf_id ` set ps. by_id prev k \<noteq> None}"
proof (induction ps arbitrary: m)
  case (Cons p ps)
  have "answers_ok prev (merge_previous_one (Some prev) m p)"
    using Cons.prems by (intro merge_previous_one_ok) auto
  from Cons.IH [OF this] Cons.prems(2) show ?case by (auto simp: merge_previous_keys)
qed simp

lemma answers_ids: "answers_ok prev m \<Longrightarrow> map pf_id (map snd m) = map_keys m"
  by (auto simp: answers_ok_def)

section \<open>Blockers and advisories\<close>

definition blockers_ok :: "blocking_map \<Rightarrow> bool" where
  "blockers_ok m \<longleftrightarrow> (\<forall>f \<in> snd ` set m. wf_blocker f)"

lemma blockers_ok_set: "blockers_ok m \<Longrightarrow> wf_blocker f \<Longrightarrow> blockers_ok (map_set k f m)"
  by (auto simp: blockers_ok_def dest!: in_map_set)

lemma canonical_blocker_ok: "wf_blocker f \<Longrightarrow> wf_blocker (canonical_blocker f)"
  by (simp add: wf_blocker_def canonical_blocker_def nonblank_review_text)

lemma previous_as_blocker_ok: "wf_previous p \<Longrightarrow> wf_blocker (previous_as_blocker p)"
  by (simp add: wf_blocker_def wf_previous_def previous_as_blocker_def plain_finding_def nonblank_review_text)

lemma previous_blockers_ok:
  assumes "\<And>p. p \<in> set ps \<Longrightarrow> wf_previous p"
  shows "blockers_ok (previous_blockers ps)"
proof -
  have "blockers_ok (foldl (\<lambda>m p. map_set (pf_id p) (previous_as_blocker p) m) m qs)"
    if "blockers_ok m" "\<And>p. p \<in> set qs \<Longrightarrow> wf_previous p" for m qs
    using that by (induction qs arbitrary: m) (simp_all add: blockers_ok_set previous_as_blocker_ok)
  then show ?thesis unfolding previous_blockers_def
    by this (use assms in \<open>auto simp: blockers_ok_def\<close>)
qed

lemma added_advisories:
  "nonblank (advisoryText (demoted_advisory f paths))"
  "nonblank (advisoryText (stale_reference_advisory f src))"
  by (simp_all add: demoted_advisory_def stale_reference_advisory_def nonblank_def js_space_def)

lemma merge_blockers_ok:
  assumes "\<And>f. f \<in> set fs \<Longrightarrow> wf_blocker f" and "\<And>a. a \<in> set as \<Longrightarrow> nonblank (advisoryText a)"
    and "blockers_ok m" and "merge_blockers passed fs as m = (as', m')"
  shows "(\<forall>a \<in> set as'. nonblank (advisoryText a)) \<and> blockers_ok m'"
  using assms
proof (induction passed fs as m rule: merge_blockers.induct)
  case (1 passed as m)
  then show ?case by simp
next
  case (2 passed f fs as m)
  show ?case
  proof (cases "shouldDemoteRepositoryEvidenceRequest f as")
    case (Some paths)
    show ?thesis
      by (rule "2.IH"(3) [OF Some]) (use "2.prems" Some added_advisories in auto)
  next
    case None
    show ?thesis
    proof (cases "stale_reference passed f")
      case (Some src)
      show ?thesis
        by (rule "2.IH"(2) [OF None Some]) (use "2.prems" None Some added_advisories in auto)
    next
      case keep: None
      show ?thesis
        by (rule "2.IH"(1) [OF None keep])
          (use "2.prems" None keep blockers_ok_set canonical_blocker_ok in auto)
    qed
  qed
qed

section \<open>Security coverage\<close>

lemma coverage_map:
  "map_of (foldl (\<lambda>m c. map_set (coverageArea c) c m) m0 cs) a =
     (case List.find (\<lambda>c. coverageArea c = a) (rev cs) of Some c \<Rightarrow> Some c | None \<Rightarrow> map_of m0 a)"
  by (induction cs rule: rev_induct) auto

lemma merged_coverage:
  assumes "coverageArea ` (set code \<union> set audit) = set REQUIRED_SECURITY_COVERAGE_AREAS"
  shows "map coverageArea (mergeSecurityCoverage code audit) = REQUIRED_SECURITY_COVERAGE_AREAS \<and>
    set (mergeSecurityCoverage code audit) \<subseteq> set code \<union> set audit"
proof -
  let ?f = "map_of (foldl (\<lambda>m c. map_set (coverageArea c) c m) [] (code @ audit))"
  have get: "\<exists>c. ?f a = Some c \<and> coverageArea c = a \<and> c \<in> set code \<union> set audit"
    if "a \<in> set REQUIRED_SECURITY_COVERAGE_AREAS" for a
  proof -
    have "a \<in> coverageArea ` set (rev (code @ audit))" using that assms by auto
    then obtain c where "List.find (\<lambda>c. coverageArea c = a) (rev (code @ audit)) = Some c"
      by (cases "List.find (\<lambda>c. coverageArea c = a) (rev (code @ audit))") (auto simp: find_None_iff)
    note found = this
    have "?f a = Some c" using found by (simp only: coverage_map option.case)
    moreover from find_Some_iff_filter [OF found] have "coverageArea c = a \<and> c \<in> set (rev (code @ audit))"
      by blast
    ultimately show ?thesis by auto
  qed
  have "map coverageArea (List.map_filter ?f as) = as \<and> set (List.map_filter ?f as) \<subseteq> set code \<union> set audit"
    if "set as \<subseteq> set REQUIRED_SECURITY_COVERAGE_AREAS" for as
    using that
  proof (induction as)
    case (Cons a as)
    with get [of a] show ?case by (auto simp: map_filter_simps)
  qed (simp add: map_filter_simps)
  from this [of REQUIRED_SECURITY_COVERAGE_AREAS] show ?thesis
    by (simp add: mergeSecurityCoverage_def Let_def)
qed

section \<open>The round trip\<close>

definition wf_report :: "report_input \<Rightarrow> bool" where
  "wf_report inp \<longleftrightarrow> list_all wf_previous (reported_previous inp) \<and>
     list_all wf_blocker (reported_blockers inp) \<and>
     list_all (\<lambda>a. nonblank (advisoryText a)) (reported_advisories inp) \<and>
     list_all (\<lambda>c. nonblank (coverageNote c))
       (so_coverage (bi_codeReview inp) @ so_coverage (bi_securityAudit inp)) \<and>
     coverageArea ` (set (so_coverage (bi_codeReview inp)) \<union> set (so_coverage (bi_securityAudit inp))) =
       set REQUIRED_SECURITY_COVERAGE_AREAS"

lemma report_previous_facts:
  assumes "wf_report inp" and "bi_previousInput inp = Some prev"
  shows "\<And>p. p \<in> set (report_previous inp) \<Longrightarrow> wf_previous p"
    and "distinct (map pf_id (report_previous inp))"
    and "\<And>p. p \<in> set (report_previous inp) \<Longrightarrow>
      map_option findingSource (by_id prev (pf_id p)) = Some (pf_source p)"
    and "set (map pf_id (report_previous inp)) =
      {k \<in> pf_id ` set (reported_previous inp). by_id prev k \<noteq> None}"
proof -
  let ?m = "foldl (merge_previous_one (Some prev)) [] (reported_previous inp)"
  have wf: "\<And>p. p \<in> set (reported_previous inp) \<Longrightarrow> wf_previous p"
    using assms(1) by (simp add: wf_report_def list_all_iff)
  have m: "report_previous inp = map snd ?m"
    by (simp add: report_previous_def mergePreviousFindings_def assms(2))
  have "answers_ok prev []" by (simp add: answers_ok_def)
  from merge_previous_ok [OF this wf]
  have ok: "answers_ok prev ?m"
    and keys: "fst ` set ?m = {k \<in> pf_id ` set (reported_previous inp). by_id prev k \<noteq> None}" by simp_all
  show "\<And>p. p \<in> set (report_previous inp) \<Longrightarrow> wf_previous p"
    "\<And>p. p \<in> set (report_previous inp) \<Longrightarrow>
      map_option findingSource (by_id prev (pf_id p)) = Some (pf_source p)"
    using ok unfolding m answers_ok_def by fastforce+
  have ids: "map pf_id (report_previous inp) = map_keys ?m" using answers_ids [OF ok] m by simp
  then show "distinct (map pf_id (report_previous inp))" using ok by (simp add: answers_ok_def)
  show "set (map pf_id (report_previous inp)) =
      {k \<in> pf_id ` set (reported_previous inp). by_id prev k \<noteq> None}"
    using ids keys by (metis list.set_map)
qed

lemma merged_report_facts:
  assumes "wf_report inp" and "bi_previousInput inp = Some prev"
  shows "\<And>a. a \<in> set (fst (merged_report inp)) \<Longrightarrow> nonblank (advisoryText a)"
    and "\<And>f. f \<in> set (map snd (snd (merged_report inp))) \<Longrightarrow> wf_blocker f"
proof -
  obtain as m where m: "merged_report inp = (as, m)" by fastforce
  have "blockers_ok (previous_blockers (report_previous inp))"
    by (rule previous_blockers_ok) (rule report_previous_facts(1) [OF assms])
  from merge_blockers_ok [OF _ _ this m [unfolded merged_report_def]] assms(1)
  have "(\<forall>a \<in> set as. nonblank (advisoryText a)) \<and> blockers_ok m"
    by (simp add: wf_report_def list_all_iff)
  then show "\<And>a. a \<in> set (fst (merged_report inp)) \<Longrightarrow> nonblank (advisoryText a)"
    "\<And>f. f \<in> set (map snd (snd (merged_report inp))) \<Longrightarrow> wf_blocker f"
    by (auto simp: m blockers_ok_def)
qed

lemma coverage_facts:
  assumes "wf_report inp"
  shows "\<And>c. c \<in> set (report_coverage inp) \<Longrightarrow> nonblank (coverageNote c)"
    and "map coverageArea (report_coverage inp) = REQUIRED_SECURITY_COVERAGE_AREAS"
  using merged_coverage [of "so_coverage (bi_codeReview inp)" "so_coverage (bi_securityAudit inp)"] assms
  by (auto simp: wf_report_def report_coverage_def list_all_iff)

text \<open>The bodies of the five sections, as items.\<close>

definition metadata_body :: "report_input \<Rightarrow> string list" where
  "metadata_body inp = [''- Strategy: '' @ strategy_text (bi_strategy inp),
     ''- Review Iteration: '' @ string_of_int (bi_iteration inp), []]"

definition rows_body :: "string list \<Rightarrow> string list" where
  "rows_body items = rows_or_none (map (\<lambda>s. ''- '' @ s) items)"

abbreviation previous_items :: "report_input \<Rightarrow> string list" where
  "previous_items inp \<equiv> map previous_item (report_previous inp)"

abbreviation blocking_items :: "report_input \<Rightarrow> string list" where
  "blocking_items inp \<equiv> map blocking_item (map snd (snd (merged_report inp)))"

abbreviation advisory_items :: "report_input \<Rightarrow> string list" where
  "advisory_items inp \<equiv> map advisory_item (fst (merged_report inp))"

abbreviation coverage_items :: "report_input \<Rightarrow> string list" where
  "coverage_items inp \<equiv> map coverage_item (report_coverage inp)"

lemma printed_functions:
  "formatCanonicalPreviousFindingLine = (\<lambda>p. ''- '' @ previous_item p)"
  "formatCanonicalBlockingFindingLine = (\<lambda>f. ''- '' @ blocking_item f)"
  "formatCanonicalAdvisoryLine = (\<lambda>a. ''- '' @ advisory_item a)"
  "formatCanonicalSecurityCoverageLine = (\<lambda>c. ''- '' @ coverage_item c)"
  by (rule ext, rule printed_lines)+

lemma canonical_lines_bodies:
  "canonical_lines inp =
     ''## Auto Review Metadata'' # metadata_body inp @
     ''## Previous Findings'' # (rows_body (previous_items inp) @ [[]]) @
     ''## Blocking Findings'' # (rows_body (blocking_items inp) @ [[]]) @
     ''## Advisories'' # (rows_body (advisory_items inp) @ [[]]) @
     ''## Security Coverage'' # rows_body (coverage_items inp)"
  by (simp add: canonical_lines_def metadata_body_def rows_body_def printed_functions comp_def)

lemma all_row_items:
  assumes "wf_report inp" and "bi_previousInput inp = Some prev"
  shows "\<And>s. s \<in> set (previous_items inp) \<Longrightarrow> row_item s" "\<And>s. s \<in> set (blocking_items inp) \<Longrightarrow> row_item s"
    "\<And>s. s \<in> set (advisory_items inp) \<Longrightarrow> row_item s" "\<And>s. s \<in> set (coverage_items inp) \<Longrightarrow> row_item s"
proof -
  show "\<And>s. s \<in> set (previous_items inp) \<Longrightarrow> row_item s"
    using row_items(1) report_previous_facts(1) [OF assms] by auto
  show "row_item s" if "s \<in> set (blocking_items inp)" for s
  proof -
    from that have "s \<in> blocking_item ` set (map snd (snd (merged_report inp)))"
      by (simp only: list.set_map)
    then obtain f where "s = blocking_item f" "f \<in> set (map snd (snd (merged_report inp)))"
      by (rule imageE)
    then show ?thesis using row_items(2) merged_report_facts(2) [OF assms] by blast
  qed
  show "\<And>s. s \<in> set (advisory_items inp) \<Longrightarrow> row_item s"
    using row_items(3) merged_report_facts(1) [OF assms] by auto
  show "\<And>s. s \<in> set (coverage_items inp) \<Longrightarrow> row_item s"
    using row_items(4) coverage_facts(1) [OF assms(1)] by auto
qed

text \<open>A line of the summary: one line that opens neither a section nor the raw outputs.\<close>

definition body_line :: "string \<Rightarrow> bool" where
  "body_line l \<longleftrightarrow> clean_line l \<and> (l = [] \<or> (\<exists>s. l = ''- '' @ s))"

lemma body_line_facts:
  assumes "body_line l"
  shows "newline \<notin> set l" "\<not> prefix RAW l" "\<not> startsWith l ''## ''" "clean_line l"
  using assms by (auto simp: body_line_def clean_line_def RAW_def startsWith_iff_prefix)

lemma rows_body_lines:
  assumes "\<And>s. s \<in> set items \<Longrightarrow> row_item s" and "l \<in> set (rows_body items)"
  shows "body_line l"
proof -
  have "clean_line ''- none''" "newline \<notin> set ''- ''" by code_simp+
  moreover have "clean_line (''- '' @ s)" if "row_item s" for s
    using that \<open>newline \<notin> set ''- ''\<close> space_chars(3) by (auto simp: clean_line_def row_item_def trimmed_def)
  ultimately show ?thesis using assms
    by (auto simp: rows_body_def rows_or_none_def body_line_def split: if_splits)
qed

lemma metadata_body_lines:
  assumes "1 \<le> bi_iteration inp" and "l \<in> set (metadata_body inp)"
  shows "body_line l"
proof -
  have "one_line ''- ''" by code_simp
  moreover have "one_line (''Strategy: '' @ strategy_text s)" for s using strategy_plain(1) by (simp add: plain_text_def)
  moreover have "one_line (''Review Iteration: '' @ string_of_int (bi_iteration inp))"
    using iteration_plain(2) [OF assms(1)] by (simp add: plain_text_def)
  ultimately have "one_line l" using assms(2) one_line_append [of "''- ''"]
    by (auto simp: metadata_body_def simp del: one_line_Cons)
  then show ?thesis using assms(2) one_line_clean by (auto simp: metadata_body_def body_line_def)
qed

lemma body_line_Nil: "body_line []"
  by (simp add: body_line_def clean_line_def)

definition heading_line :: "string \<Rightarrow> bool" where
  "heading_line h \<longleftrightarrow> clean_line h \<and> \<not> prefix RAW h"

lemma heading_lines:
  "heading_line ''## Auto Review Metadata''" "heading_line ''## Previous Findings''"
  "heading_line ''## Blocking Findings''" "heading_line ''## Advisories''"
  "heading_line ''## Security Coverage''"
  by (simp_all add: heading_line_def RAW_def clean_line_def newline_def carriage_return_def)

lemma report_lines:
  assumes "l \<in> set (h1 # M @ h2 # (P @ [[]]) @ h3 # (B @ [[]]) @ h4 # (A @ [[]]) @ h5 # S)"
    and "heading_line h1" "heading_line h2" "heading_line h3" "heading_line h4" "heading_line h5"
    and "\<And>l. l \<in> set M \<Longrightarrow> body_line l" "\<And>l. l \<in> set P \<Longrightarrow> body_line l" "\<And>l. l \<in> set B \<Longrightarrow> body_line l"
    and "\<And>l. l \<in> set A \<Longrightarrow> body_line l" "\<And>l. l \<in> set S \<Longrightarrow> body_line l"
  shows "heading_line l \<or> body_line l"
  using assms body_line_Nil by auto

lemma canonical_line:
  assumes "wf_report inp" "bi_previousInput inp = Some prev" "1 \<le> bi_iteration inp"
    and "l \<in> set (canonical_lines inp)"
  shows "newline \<notin> set l \<and> \<not> prefix RAW l \<and> clean_line l"
proof -
  note items = all_row_items [OF assms(1,2)]
  have "heading_line l \<or> body_line l"
    by (rule report_lines [OF assms(4) [unfolded canonical_lines_bodies] heading_lines
        metadata_body_lines [OF assms(3)] rows_body_lines [OF items(1)] rows_body_lines [OF items(2)]
        rows_body_lines [OF items(3)] rows_body_lines [OF items(4)]])
  then show ?thesis
    using body_line_facts [of l] by (auto simp: heading_line_def clean_line_def)
qed

lemma summary_sections:
  assumes "wf_report inp" "bi_previousInput inp = Some prev" "1 \<le> bi_iteration inp"
  shows "collectSectionData (js_join [newline] (canonical_lines inp)) =
    ([(''Auto Review Metadata'', metadata_body inp), (''Previous Findings'', rows_body (previous_items inp) @ [[]]),
      (''Blocking Findings'', rows_body (blocking_items inp) @ [[]]),
      (''Advisories'', rows_body (advisory_items inp) @ [[]]),
      (''Security Coverage'', rows_body (coverage_items inp))], [])"
proof -
  note items = all_row_items [OF assms(1,2)]
  have body: "section_body ls" if "\<And>l. l \<in> set ls \<Longrightarrow> body_line l" for ls
    using that body_line_facts(3) by (auto simp: section_body_def)
  have gap: "section_body (ls @ [[]])" if "\<And>l. l \<in> set ls \<Longrightarrow> body_line l" for ls
    using that body_line_Nil by (intro body) auto
  have "js_split_lines (js_join [newline] (canonical_lines inp)) = canonical_lines inp"
    using canonical_line [OF assms] by (intro js_split_lines_join) (auto simp: canonical_lines_def)
  moreover have "section_body (metadata_body inp)" using metadata_body_lines [OF assms(3)] by (rule body)
  moreover have "section_body (rows_body (previous_items inp) @ [[]])"
    using rows_body_lines [OF items(1)] by (rule gap)
  moreover have "section_body (rows_body (blocking_items inp) @ [[]])"
    using rows_body_lines [OF items(2)] by (rule gap)
  moreover have "section_body (rows_body (advisory_items inp) @ [[]])"
    using rows_body_lines [OF items(3)] by (rule gap)
  moreover have "section_body (rows_body (coverage_items inp))" using rows_body_lines [OF items(4)] by (rule body)
  ultimately show ?thesis
    unfolding collectSectionData_def by (simp only: canonical_lines_bodies collect_report)
qed

lemma js_join_ends:
  assumes "ls \<noteq> []" and "hd ls \<noteq> []" and "last ls \<noteq> []"
  shows "js_join sep ls \<noteq> [] \<and> hd (js_join sep ls) = hd (hd ls) \<and> last (js_join sep ls) = last (last ls)"
proof -
  obtain l ks where ls: "ls = l # ks" using assms(1) by (cases ls) auto
  have "js_join sep (l # ks) \<noteq> [] \<and> hd (js_join sep (l # ks)) = hd l \<and>
      last (js_join sep (l # ks)) = last (last (l # ks))"
    if "l \<noteq> []" "last (l # ks) \<noteq> []" for l
    using that
  proof (induction ks arbitrary: l)
    case (Cons k ks)
    show ?case
    proof (cases "k = [] \<and> ks \<noteq> []")
      case False
      then have "k \<noteq> []" using Cons.prems by (cases ks) auto
      then show ?thesis using Cons by auto
    next
      case True
      have "last (js_join sep (k # ks)) = last (last ks) \<and> js_join sep (k # ks) \<noteq> []"
      proof -
        have "js_join sep ks \<noteq> [] \<and> last (js_join sep ks) = last (last ks)"
          if "ks \<noteq> []" "last ks \<noteq> []" for ks :: "string list"
          using that
        proof (induction ks)
          case (Cons k ks)
          then show ?case by (cases ks) auto
        qed simp
        then show ?thesis using True Cons.prems by (cases ks) auto
      qed
      then show ?thesis using True Cons.prems by simp
    qed
  qed simp
  then show ?thesis using assms ls by simp
qed

lemma last_canonical_line:
  assumes "wf_report inp"
  shows "last (canonical_lines inp) \<noteq> [] \<and> \<not> js_space (last (last (canonical_lines inp)))"
proof -
  have n: "report_coverage inp \<noteq> []"
    using coverage_facts(2) [OF assms] by (auto simp: REQUIRED_SECURITY_COVERAGE_AREAS_def)
  then have "rows_body (coverage_items inp) = map (\<lambda>c. ''- '' @ coverage_item c) (report_coverage inp)"
    by (simp add: rows_body_def rows_or_none_def)
  then have l: "last (canonical_lines inp) = ''- '' @ coverage_item (last (report_coverage inp))"
    using n by (simp add: canonical_lines_bodies last_map)
  have "row_item (coverage_item (last (report_coverage inp)))"
    using n coverage_facts(1) [OF assms] by (intro row_items(4)) auto
  then show ?thesis unfolding l by (auto simp: row_item_def trimmed_def)
qed

lemma summary_of_report:
  assumes "wf_report inp" "bi_previousInput inp = Some prev" "1 \<le> bi_iteration inp"
  shows "js_trim (buildStructuredReviewComments inp) \<noteq> []"
    and "js_trim (before_first raw_code_review_heading (js_trim (buildStructuredReviewComments inp))) =
      js_join [newline] (canonical_lines inp)"
    and "js_join [newline] (canonical_lines inp) \<noteq> []"
proof -
  let ?C = "canonical_lines inp" and ?j = "js_join [newline] (canonical_lines inp)"
  obtain R where raw: "raw_lines inp = [] # RAW # R" and R: "R \<noteq> []"
    by (simp add: raw_lines_def RAW_def)
  have C: "?C \<noteq> []" "hd ?C = ''## Auto Review Metadata''" by (simp_all add: canonical_lines_def)
  have j: "?j \<noteq> [] \<and> hd ?j = CHR ''#'' \<and> last ?j = last (last ?C)"
    using js_join_ends [of ?C "[newline]"] C last_canonical_line [OF assms(1)] by simp
  then show "?j \<noteq> []" by simp
  have dark: "\<not> js_space CHR ''#''" "\<not> js_space (last RAW)" by code_simp+
  have trimmed_j: "trimmed ?j" using j dark last_canonical_line [OF assms(1)] by (simp add: trimmed_def)
  let ?a = "terminated ?C @ newline # RAW" and ?t = "newline # js_join [newline] R"
  have built: "buildStructuredReviewComments inp = ?a @ ?t"
    using js_join_terminated [OF C(1), of "raw_lines inp"] raw R
    by (cases R) (simp_all add: buildStructuredReviewComments_def)
  have "trimmed ?a"
    using terminated_join [OF C(1)] j dark RAW_no_newline(2) by (simp add: trimmed_def)
  then obtain t where t: "js_trim (?a @ ?t) = ?a @ t" "prefix t ?t" using trim_right by blast
  then have "t = [] \<or> hd t = newline" by (cases t) auto
  moreover have "\<not> word_char newline" by code_simp
  ultimately have "t = [] \<or> \<not> word_char (hd t)" by auto
  then have "before_first raw_code_review_heading (terminated ?C @ newline # RAW @ t) = terminated ?C"
    using canonical_line [OF assms] by (intro summary_before_raw) auto
  then show "js_trim (before_first raw_code_review_heading (js_trim (buildStructuredReviewComments inp))) = ?j"
    using built t(1) terminated_join [OF C(1)] js_trim_surrounded [OF trimmed_j, of "[]" "[newline]"] by simp
  show "js_trim (buildStructuredReviewComments inp) \<noteq> []" using built t(1) by simp
qed

lemma required_section:
  assumes "map_of secs sec = Some body" and "normalizeListSection (Some body) = Some items"
  shows "normalizeRequiredListSection secs sec c1 c2 = (Some items, [])"
  using assms by (simp add: normalizeRequiredListSection_def)

lemma reread_report_items:
  assumes "wf_report inp" "bi_previousInput inp = Some prev" "1 \<le> bi_iteration inp"
    "bi_iteration inp \<le> 2 ^ 53 - 1" "findingId ` set prev \<subseteq> pf_id ` set (reported_previous inp)"
  shows "parse_report_items h prev [] [''Strategy: '' @ strategy_text (bi_strategy inp),
      ''Review Iteration: '' @ string_of_int (bi_iteration inp)]
      (previous_items inp) (blocking_items inp) (advisory_items inp) (coverage_items inp) =
    Inr \<lparr>pr_strategy = bi_strategy inp, pr_iteration = bi_iteration inp,
      pr_blocking = map reread_blocker (map snd (snd (merged_report inp))),
      pr_advisories = map reread_advisory (fst (merged_report inp)),
      pr_previous = map reread_previous (report_previous inp),
      pr_coverage = map reread_coverage (report_coverage inp)\<rparr>"
proof -
  note prev = report_previous_facts [OF assms(1,2)]
  have rows: "canonical_previous_rows prev [] (previous_items inp) =
      (map reread_previous (report_previous inp), [], rev (map pf_id (report_previous inp)) @ [])"
    using prev by (intro reread_previous_rows) auto
  have "findingId f \<in> set (map pf_id (report_previous inp))" if "f \<in> set prev" for f
    using that assms(5) prev(4) by_id_None by auto
  then have "filter (\<lambda>f. findingId f \<notin> set (rev (map pf_id (report_previous inp)) @ [])) prev = []"
    by (simp add: filter_empty_conv)
  then have p: "parseCanonicalPreviousFindingItems (previous_items inp) prev =
      (map reread_previous (report_previous inp), [])"
    unfolding parseCanonicalPreviousFindingItems_def rows by simp
  have b: "canonical_blocking_rows (blocking_items inp) =
      (map reread_blocker (map snd (snd (merged_report inp))), [])"
    by (rule reread_blocking_rows) (rule merged_report_facts(2) [OF assms(1,2)])
  have a: "canonical_advisory_rows (advisory_items inp) = (map reread_advisory (fst (merged_report inp)), [])"
    by (rule reread_advisory_rows) (rule merged_report_facts(1) [OF assms(1,2)])
  note areas = coverage_facts(2) [OF assms(1)]
  have "coverage_rows [] (coverage_items inp) =
      (map reread_coverage (report_coverage inp), [], rev (map coverageArea (report_coverage inp)) @ [])"
    using coverage_facts(1) [OF assms(1)] areas
    by (intro reread_coverage_rows) (auto simp: REQUIRED_SECURITY_COVERAGE_AREAS_def)
  then have c: "parseSecurityCoverageItemsResult (coverage_items inp) =
      (Some (map reread_coverage (report_coverage inp)), [])"
    by (simp add: parseSecurityCoverageItemsResult_def areas Let_def)
  show ?thesis
    unfolding parse_report_items_def p b a c parse_metadata_rows [OF assms(3,4)] by simp
qed

theorem reread_report:
  assumes "wf_report inp" "bi_previousInput inp = Some prev" "1 \<le> bi_iteration inp"
    "bi_iteration inp \<le> 2 ^ 53 - 1" "findingId ` set prev \<subseteq> pf_id ` set (reported_previous inp)"
  shows "parseStructuredReviewCommentsResult h (Some (buildStructuredReviewComments inp)) prev =
    Inr \<lparr>pr_strategy = bi_strategy inp, pr_iteration = bi_iteration inp,
      pr_blocking = map reread_blocker (map snd (snd (merged_report inp))),
      pr_advisories = map reread_advisory (fst (merged_report inp)),
      pr_previous = map reread_previous (report_previous inp),
      pr_coverage = map reread_coverage (report_coverage inp)\<rparr>"
proof -
  note items = all_row_items [OF assms(1,2)]
  let ?secs = "[(''Auto Review Metadata'', metadata_body inp),
    (''Previous Findings'', rows_body (previous_items inp) @ [[]]),
    (''Blocking Findings'', rows_body (blocking_items inp) @ [[]]),
    (''Advisories'', rows_body (advisory_items inp) @ [[]]),
    (''Security Coverage'', rows_body (coverage_items inp))]"
  note summary = summary_of_report [OF assms(1-3)]
  have secs: "collectSectionData (text_or (js_trim (before_first raw_code_review_heading
      (js_trim (buildStructuredReviewComments inp)))) (js_trim (buildStructuredReviewComments inp))) = (?secs, [])"
    using summary summary_sections [OF assms(1-3)] by (simp add: text_or_def)
  have gap: "normalizeListSection (Some (rows_body rows @ [[]])) = Some rows"
    if "\<And>s. s \<in> set rows \<Longrightarrow> row_item s" for rows
    unfolding rows_body_def by (rule section_items [OF that]) simp_all
  have last: "normalizeListSection (Some (rows_body rows)) = Some rows"
    if "\<And>s. s \<in> set rows \<Longrightarrow> row_item s" for rows
    unfolding rows_body_def using section_items [of rows "[]", OF that]
    by (simp only: append_Nil2 list.set empty_subsetI)
  have 1: "normalizeRequiredListSection ?secs ''Auto Review Metadata'' c1 c2 =
      (Some [''Strategy: '' @ strategy_text (bi_strategy inp),
        ''Review Iteration: '' @ string_of_int (bi_iteration inp)], [])" for c1 c2
    using metadata_items [OF assms(3), of "bi_strategy inp"]
    by (intro required_section) (auto simp: metadata_body_def)
  have 2: "normalizeRequiredListSection ?secs ''Previous Findings'' c1 c2 = (Some (previous_items inp), [])" for c1 c2
    by (rule required_section [OF _ gap]) (simp, rule items(1))
  have 3: "normalizeRequiredListSection ?secs ''Blocking Findings'' c1 c2 = (Some (blocking_items inp), [])" for c1 c2
    by (rule required_section [OF _ gap]) (simp, rule items(2))
  have 4: "normalizeRequiredListSection ?secs ''Advisories'' c1 c2 = (Some (advisory_items inp), [])" for c1 c2
    by (rule required_section [OF _ gap]) (simp, rule items(3))
  have 5: "normalizeRequiredListSection ?secs ''Security Coverage'' c1 c2 = (Some (coverage_items inp), [])" for c1 c2
    by (rule required_section [OF _ last]) (simp, rule items(4))
  show ?thesis
    unfolding parseStructuredReviewCommentsResult_def option.map option.case if_not_P [OF summary(1)]
      secs prod.case 1 2 3 4 5
    using reread_report_items [OF assms] by (simp add: duplicateSectionIssues_def)
qed

end
