(* ===== verification/Gate_Outcomes.thy ===== *)
theory Gate_Outcomes
  imports Review_Gate Review_Merge
begin

text \<open>
  What the answers of the review gate promise: every answer but success records its blockers for the
  next iteration, a repeated blocker is counted, and success is only given to a report that answers
  for every blocker of the previous iteration.
\<close>

section \<open>Merging and counting\<close>

lemma merge_finding_keys:
  "fst ` set (merge_finding m f) = insert (findingId f) (fst ` set m)"
  by (simp add: merge_finding_def split: option.split)

lemma foldl_merge_finding_keys:
  "fst ` set (foldl merge_finding m fs) = findingId ` set fs \<union> fst ` set m"
  by (induction fs arbitrary: m) (auto simp: merge_finding_keys)

lemma override_finding_id [simp]: "findingId (override_finding old f) = findingId f"
  by (simp add: override_finding_def)

definition keyed :: "blocking_map \<Rightarrow> bool" where
  "keyed m \<longleftrightarrow> distinct (map_keys m) \<and> (\<forall>(k, f) \<in> set m. findingId f = k)"

lemma keyed_merge: "keyed m \<Longrightarrow> keyed (merge_finding m f)"
  by (auto simp: keyed_def merge_finding_def distinct_map_set dest!: in_map_set split: option.split)

lemma keyed_foldl: "keyed m \<Longrightarrow> keyed (foldl merge_finding m fs)"
  by (induction fs arbitrary: m) (simp_all add: keyed_merge)

lemma keyed_ids: "keyed m \<Longrightarrow> map findingId (map snd m) = map_keys m"
  by (auto simp: keyed_def)

lemma mergeFindings_ids:
  shows "findingId ` set (mergeFindings gs) = (\<Union>g \<in> set gs. findingId ` set g)"
    and "distinct (map findingId (mergeFindings gs))"
proof -
  have "keyed []" by (simp add: keyed_def)
  then have k: "keyed (foldl merge_finding [] (concat gs))" by (rule keyed_foldl)
  note ids = keyed_ids [OF k]
  have "set (map findingId (mergeFindings gs)) = findingId ` set (concat gs)"
    using foldl_merge_finding_keys [of "[]" "concat gs"] by (simp only: mergeFindings_def ids) simp
  then show "findingId ` set (mergeFindings gs) = (\<Union>g \<in> set gs. findingId ` set g)" by auto
  show "distinct (map findingId (mergeFindings gs))"
    unfolding mergeFindings_def ids using k by (simp add: keyed_def)
qed

lemma mergeFindings_Nil: "mergeFindings gs = [] \<longleftrightarrow> (\<forall>g \<in> set gs. g = [])"
proof -
  have "mergeFindings gs = [] \<longleftrightarrow> (\<Union>g \<in> set gs. findingId ` set g) = {}"
    using mergeFindings_ids(1) [of gs] by (metis image_is_empty set_empty)
  then show ?thesis by simp
qed

text \<open>What a merged finding says is what the last of its group says.\<close>

lemma merge_finding_last:
  "map_of (foldl merge_finding [] fs) i = Some b \<Longrightarrow>
   (let g = last (filter (\<lambda>f. findingId f = i) fs) in
    findingText b = findingText g \<and> findingSource b = findingSource g)"
proof (induction fs arbitrary: b rule: rev_induct)
  case (snoc f fs)
  then show ?case
    by (cases "i = findingId f") (auto simp: merge_finding_def override_finding_def Let_def split: option.splits)
qed simp

lemma mergeFindings_last:
  assumes "b \<in> set (mergeFindings gs)"
  shows "findingText b = findingText (last (filter (\<lambda>f. findingId f = findingId b) (concat gs)))"
    and "findingSource b = findingSource (last (filter (\<lambda>f. findingId f = findingId b) (concat gs)))"
proof -
  have k: "keyed (foldl merge_finding [] (concat gs))" by (rule keyed_foldl) (simp add: keyed_def)
  obtain i where "(i, b) \<in> set (foldl merge_finding [] (concat gs))" using assms by (auto simp: mergeFindings_def)
  then have "map_of (foldl merge_finding [] (concat gs)) (findingId b) = Some b"
    using k by (auto simp: keyed_def)
  from merge_finding_last [OF this] show "findingText b = findingText (last (filter (\<lambda>f. findingId f = findingId b) (concat gs)))"
    "findingSource b = findingSource (last (filter (\<lambda>f. findingId f = findingId b) (concat gs)))"
    by (simp_all add: Let_def)
qed

text \<open>How the streak of a blocker goes on: \<open>counted prev i f\<close>.\<close>

definition counted :: "review_finding list \<Rightarrow> int \<Rightarrow> review_finding \<Rightarrow> bool" where
  "counted prev i f \<longleftrightarrow> lastSeenIteration f = Some (jsint i) \<and>
     (case by_id prev (findingId f) of
        None \<Rightarrow> streak f = Some (jsint 1) \<and> firstSeenIteration f = Some (jsint i)
      | Some p \<Rightarrow> streak f = Some (jsint (previous_streak p + 1)) \<and>
          firstSeenIteration f = Some (previous_first_seen i p))"

lemma enriched_counted: "\<forall>f \<in> set (enrichBlockingFindings fs prev i). counted prev i f"
  by (auto simp: enrichBlockingFindings_def enrich_finding_def counted_def split: option.splits)

lemma counted_if_enriched: "f \<in> set (enrichBlockingFindings fs prev i) \<Longrightarrow> counted prev i f"
  using enriched_counted by blast

lemma enriched_ids [simp]: "map findingId (enrichBlockingFindings fs prev i) = map findingId fs"
  by (auto simp: enrichBlockingFindings_def enrich_finding_def split: option.splits)

lemma enriched_Nil [simp]: "enrichBlockingFindings fs prev i = [] \<longleftrightarrow> fs = []"
  by (simp add: enrichBlockingFindings_def)

lemma stored_findings: "findings (toAutoReviewState s i fs c h) = map stored_finding fs"
  by (simp add: toAutoReviewState_def)

lemma stored_finding_facts [simp]:
  "findingId (stored_finding f) = findingId f" "findingSource (stored_finding f) = findingSource f"
  "streak (stored_finding f) = streak f" "findingStatus (stored_finding f) = findingStatus f"
  by (simp_all add: stored_finding_def)

section \<open>Every answer is recorded\<close>

text \<open>
  \<open>recorded inp r\<close>: success names no blocker and clears the stored state; every other answer stores its
  blockers, counted, with the iteration they belong to, and a request for changes names at least one.
\<close>

definition recorded :: "review_gate_input \<Rightarrow> gate_result \<Rightarrow> bool" where
  "recorded inp r \<longleftrightarrow>
     (if gr_status r = Gate_Success then gr_blocking r = [] \<and> gr_state r = None
      else (case gr_state r of
          None \<Rightarrow> False
        | Some s \<Rightarrow> reviewIteration s = gi_iteration inp \<and> reviewStrategy s = gi_strategy inp \<and>
            findings s = map stored_finding (gr_blocking r) \<and>
            (gr_blocking r \<noteq> [] \<or> (\<exists>why. gr_status r = Gate_Manual_Review why)))) \<and>
     (\<forall>f \<in> set (gr_blocking r). counted (gi_previous inp) (gi_iteration inp) f) \<and>
     gr_fixes r = formatFixesMarkdown (gr_blocking r) \<and>
     gm_iteration (gr_metrics r) = gi_iteration inp"

lemma toAutoReviewState_facts [simp]:
  "reviewIteration (toAutoReviewState s i fs c h) = i" "reviewStrategy (toAutoReviewState s i fs c h) = s"
  by (simp_all add: toAutoReviewState_def)

lemma recorded_blocked:
  assumes "st \<noteq> Gate_Success" and "fs \<noteq> [] \<or> (\<exists>why. st = Gate_Manual_Review why)"
    and "gm_iteration m = gi_iteration inp"
    and "\<forall>f \<in> set fs. counted (gi_previous inp) (gi_iteration inp) f"
  shows "recorded inp (blocked_result inp st m fs (toAutoReviewState (gi_strategy inp) (gi_iteration inp) fs c h))"
  using assms by (simp add: recorded_def blocked_result_def stored_findings)

lemma recorded_plain:
  assumes "st \<noteq> Gate_Success" and "fs \<noteq> [] \<or> (\<exists>why. st = Gate_Manual_Review why)"
    and "gm_iteration m = gi_iteration inp"
    and "\<forall>f \<in> set fs. counted (gi_previous inp) (gi_iteration inp) f"
  shows "recorded inp (blocked_result inp st m fs (plain_state inp fs))"
  unfolding plain_state_def by (rule recorded_blocked [OF assms])

lemma recorded_if:
  "(b \<Longrightarrow> recorded inp x) \<Longrightarrow> (\<not> b \<Longrightarrow> recorded inp y) \<Longrightarrow> recorded inp (if b then x else y)"
  by simp

lemma recorded_option:
  "(\<And>r. d = Some r \<Longrightarrow> recorded inp r) \<Longrightarrow> (d = None \<Longrightarrow> recorded inp y) \<Longrightarrow>
     recorded inp (case d of Some r \<Rightarrow> r | None \<Rightarrow> y)"
  by (cases d) simp_all

lemma recorded_accepted: "gm_iteration m = gi_iteration inp \<Longrightarrow> recorded inp (accepted_result m)"
  by (simp add: recorded_def accepted_result_def formatFixesMarkdown_def)

lemma buildMetrics_iteration [simp]: "gm_iteration (buildMetrics inp a b c d) = gi_iteration inp"
  by (simp add: buildMetrics_def)

lemma recorded_manual:
  "maybeBuildManualReviewDecision inp m fs = Some r \<Longrightarrow> gm_iteration m = gi_iteration inp \<Longrightarrow> recorded inp r"
  by (auto simp: maybeBuildManualReviewDecision_def Let_def intro!: recorded_plain enriched_counted split: if_splits)

lemma recorded_operator:
  "maybeBuildOperatorInputDecision inp m fs = Some r \<Longrightarrow> gm_iteration m = gi_iteration inp \<Longrightarrow> recorded inp r"
  by (auto simp: maybeBuildOperatorInputDecision_def buildOperatorInputDecision_def Let_def
      normalizeOperatorInputFindings_def intro!: recorded_plain enriched_counted split: if_splits)

lemma recorded_accept: "gm_iteration m = gi_iteration inp \<Longrightarrow> recorded inp (accept_or_handoff e inp m)"
  by (simp add: accept_or_handoff_def buildSubstantiveEvidenceHandoff_def Let_def recorded_accepted recorded_plain enriched_counted)

lemma recorded_missing:
  "gm_iteration m = gi_iteration inp \<Longrightarrow> recorded inp (buildMissingPreviousFindingHandoff inp m fs)"
  by (simp add: buildMissingPreviousFindingHandoff_def Let_def recorded_plain enriched_counted)

lemma recorded_decide:
  assumes "fs \<noteq> []" and "gm_iteration m = gi_iteration inp"
    and s: "s = toAutoReviewState (gi_strategy inp) (gi_iteration inp) fs c h"
    and "\<forall>f \<in> set fs. counted (gi_previous inp) (gi_iteration inp) f"
  shows "recorded inp (decide_on_blockers inp m still new fs s)"
proof (cases "maybeBuildManualReviewDecision inp m fs")
  case None
  show ?thesis
  proof (cases "maybeBuildOperatorInputDecision inp m fs")
    case op: None
    show ?thesis
      unfolding decide_on_blockers_def None op option.case s
      using assms(1,2,4) by (intro recorded_if recorded_blocked) simp_all
  qed (simp add: decide_on_blockers_def None recorded_operator assms(2))
qed (simp add: decide_on_blockers_def recorded_manual assms(2))

lemma contract_metrics_iteration [simp]: "gm_iteration (contract_metrics inp fs) = gi_iteration inp"
  by (simp add: contract_metrics_def)

lemma recorded_structured: "recorded inp (buildStructuredDecision e inp parsed)"
  unfolding buildStructuredDecision_def Let_def
  by (intro recorded_if recorded_missing recorded_accept recorded_decide enriched_counted) simp_all

lemma recorded_legacy: "recorded inp (buildLegacyBlockingSectionDecision e inp fs)"
  unfolding buildLegacyBlockingSectionDecision_def Let_def plain_state_def
  by (intro recorded_if recorded_missing recorded_accept recorded_decide enriched_counted) simp_all

lemma recorded_fallback: "recorded inp (buildFallbackDecision e inp fs)"
  unfolding buildFallbackDecision_def Let_def
  by (intro recorded_if recorded_option recorded_plain recorded_accept recorded_manual recorded_operator
      enriched_counted) (assumption | simp)+

lemma recorded_contract: "recorded inp (buildMalformedStructuredReviewContractHandoff e inp)"
  by (auto simp: buildMalformedStructuredReviewContractHandoff_def Let_def mergeFindings_Nil
      intro!: recorded_plain recorded_accepted intro: counted_if_enriched)

lemma recorded_parse_error: "recorded inp (buildStructuredParseErrorDecision e inp err)"
  by (auto simp: buildStructuredParseErrorDecision_def Let_def mergeFindings_Nil intro!: recorded_plain intro: counted_if_enriched)

text \<open>The findings of the previous iteration that the decision compares with.\<close>

definition compared_previous :: "gate_env \<Rightarrow> review_gate_input \<Rightarrow> review_finding list" where
  "compared_previous e inp =
     (let prev = filter (\<lambda>f. \<not> isStructuredParseErrorFinding f) (gi_previous inp) in
      if \<not> isStructuredReviewContractFailure (gi_reviewComments inp) \<and>
         isStructuredReviewContractAttempt (gi_reviewComments inp) \<and>
         \<not> isl (parseStructuredReviewCommentsResult (ge_host e) (gi_reviewComments inp) prev)
      then prev else gi_previous inp)"

lemma gate_recorded:
  assumes "evaluateReviewCommentsForAutoMode e inp = Inr r"
  shows "recorded (inp\<lparr>gi_previous := compared_previous e inp\<rparr>) r"
proof (cases "isStructuredReviewContractFailure (gi_reviewComments inp)")
  case True
  then show ?thesis using assms recorded_contract
    by (auto simp: evaluateReviewCommentsForAutoMode_def compared_previous_def Let_def)
next
  case failure: False
  show ?thesis
  proof (cases "isStructuredReviewContractAttempt (gi_reviewComments inp)")
    case True
    let ?prev = "filter (\<lambda>f. \<not> isStructuredParseErrorFinding f) (gi_previous inp)"
    show ?thesis
    proof (cases "parseStructuredReviewCommentsResult (ge_host e) (gi_reviewComments inp) ?prev")
      case (Inl err)
      then have "r = buildStructuredParseErrorDecision e inp err" "compared_previous e inp = gi_previous inp"
        using assms failure True
        by (simp_all add: evaluateReviewCommentsForAutoMode_def compared_previous_def Let_def)
      then show ?thesis using recorded_parse_error by simp
    next
      case (Inr parsed)
      then have "r = buildStructuredDecision e (inp\<lparr>gi_previous := ?prev\<rparr>) parsed" "compared_previous e inp = ?prev"
        using assms failure True
        by (simp_all add: evaluateReviewCommentsForAutoMode_def compared_previous_def Let_def)
      then show ?thesis using recorded_structured by simp
    qed
  next
    case False
    then have "compared_previous e inp = gi_previous inp" by (simp add: compared_previous_def)
    then show ?thesis using assms failure False recorded_legacy recorded_fallback
      by (auto simp: evaluateReviewCommentsForAutoMode_def split: option.splits sum.splits)
  qed
qed

section \<open>Success\<close>

text \<open>The grounds on which the gate puts a reported blocker aside.\<close>

definition dismissed :: "gate_env \<Rightarrow> string option \<Rightarrow> review_finding \<Rightarrow> bool" where
  "dismissed e reviewText f \<longleftrightarrow> isAmbiguousProductScopeOperatorInputFinding f \<or> ge_refutedByConfig e f \<or>
     isRefutedJsonSyntaxFinding e f \<or> isSecurityCoverageContractFinding f \<or>
     isRefutedSecurityCoverageContractOnlyFinding e reviewText f"

lemma not_actionable:
  assumes "filterActionableBlockingFindings e reviewText fs = []" and "f \<in> set fs"
  shows "dismissed e reviewText f"
  using assms by (auto simp: filterActionableBlockingFindings_def filterRefutedRepositoryFindings_def
      filterNonBlockingOperatorInputFindings_def dismissed_def filter_empty_conv)

lemma no_actionable_blockers:
  assumes "actionable_blockers e inp parsed = []" and "f \<in> set (structured_blockers e inp parsed)"
  shows "dismissed e (gi_reviewComments inp) f"
proof (cases "canRecoverSecurityCoverageOnlyContractFailure e (gi_reviewComments inp)
    (structured_blockers e inp parsed)")
  case True
  then have "list_all isSecurityCoverageContractFinding (structured_blockers e inp parsed)"
    by (simp add: canRecoverSecurityCoverageOnlyContractFailure_def split: if_splits option.splits)
  then show ?thesis using assms(2) by (auto simp: dismissed_def list_all_iff)
next
  case False
  then show ?thesis using assms not_actionable by (simp add: actionable_blockers_def Let_def)
qed

lemma still_blocking_is_blocker:
  assumes "p \<in> set (pr_previous parsed)" and "is_blocking_status (pf_status p)"
  shows "pf_id p \<in> findingId ` set (structured_blockers e inp parsed)"
proof -
  have "still_blocking_finding p \<in> set (map still_blocking_finding (still_blocking parsed))"
    using assms by (simp add: still_blocking_def)
  then have "findingId (still_blocking_finding p) \<in> findingId ` set (structured_blockers e inp parsed)"
    unfolding structured_blockers_def mergeFindings_ids(1) by simp
  then show ?thesis by (simp add: still_blocking_finding_def plain_finding_def)
qed

lemma in_map_filter: "y \<in> set (List.map_filter f xs) \<longleftrightarrow> (\<exists>x \<in> set xs. f x = Some y)"
  by (induction xs) (auto simp: List.map_filter_simps split: option.split)

lemma preserved_was_closed:
  assumes "f \<in> set (preserveResolvedStrictAuditValidatorBlockers prev parsed deterministic)"
  shows "\<exists>q \<in> set (pr_previous parsed). pf_id q = findingId f \<and> \<not> is_blocking_status (pf_status q)"
proof -
  obtain q where "q \<in> set (pr_previous parsed)" "pf_status q = Resolved \<or> pf_status q = Not_Reproducible"
    "by_id prev (pf_id q) = Some f"
    using assms by (auto simp: preserveResolvedStrictAuditValidatorBlockers_def Let_def in_map_filter split: if_splits)
  then show ?thesis by (intro bexI [of _ q]) (auto dest: by_id_Some)
qed

lemma filter_unique: "distinct (map f xs) \<Longrightarrow> x \<in> set xs \<Longrightarrow> filter (\<lambda>y. f y = f x) xs = [x]"
proof (induction xs)
  case (Cons y ys)
  have "filter (\<lambda>z. f z = f y) ys = []" using Cons.prems(1) unfolding filter_empty_conv by (force simp: image_iff)
  moreover have "f y \<noteq> f x" if "x \<in> set ys" using Cons.prems(1) that by (auto simp: image_iff)
  ultimately show ?case using Cons by auto
qed simp

text \<open>
  The blocker that stands for an answer that still blocks: it says what the answer says, unless the report
  lists a blocker under the same identifier or a deterministic check raises one.
\<close>

lemma still_blocking_reported:
  assumes p: "p \<in> set (pr_previous parsed)" "is_blocking_status (pf_status p)"
    and ids: "distinct (map pf_id (pr_previous parsed))"
  shows "\<exists>b \<in> set (structured_blockers e inp parsed). findingId b = pf_id p \<and>
    (let g = last (plain_finding (pf_id p) (pf_source p) (pf_note p) # filter (\<lambda>f. findingId f = pf_id p) (pr_blocking parsed @ ge_deterministic e)) in
     findingText b = findingText g \<and> findingSource b = findingSource g)"
proof -
  let ?own = "\<lambda>f. findingId f = pf_id p"
  let ?gs = "[map still_blocking_finding (still_blocking parsed),
      preserveResolvedStrictAuditValidatorBlockers (gi_previous inp) parsed (ge_deterministic e),
      pr_blocking parsed, ge_deterministic e]"
  obtain b where b: "b \<in> set (structured_blockers e inp parsed)" "findingId b = pf_id p"
    using still_blocking_is_blocker [OF p] by (metis imageE)
  have only: "filter (\<lambda>q. pf_id q = pf_id p) (pr_previous parsed) = [p]" by (rule filter_unique [OF ids p(1)])
  have "filter ?own (map still_blocking_finding (still_blocking parsed)) =
      map still_blocking_finding (filter (\<lambda>q. is_blocking_status (pf_status q)) (filter (\<lambda>q. pf_id q = pf_id p) (pr_previous parsed)))"
    by (simp add: still_blocking_def filter_map comp_def still_blocking_finding_def plain_finding_def conj_commute)
  then have 1: "filter ?own (map still_blocking_finding (still_blocking parsed)) = [still_blocking_finding p]"
    using only p(2) by simp
  have 2: "filter ?own (preserveResolvedStrictAuditValidatorBlockers (gi_previous inp) parsed (ge_deterministic e)) = []"
  proof -
    have "q = p" if "q \<in> set (pr_previous parsed)" "pf_id q = pf_id p" for q
    proof -
      have "q \<in> set (filter (\<lambda>q. pf_id q = pf_id p) (pr_previous parsed))" using that by simp
      then show ?thesis unfolding only by simp
    qed
    then show ?thesis using p(2) by (auto simp: filter_empty_conv) (metis preserved_was_closed)
  qed
  have "filter ?own (concat ?gs) = still_blocking_finding p # filter ?own (pr_blocking parsed @ ge_deterministic e)"
    using 1 2 by simp
  moreover have "findingText (last (still_blocking_finding p # fs)) = findingText (last (plain_finding (pf_id p) (pf_source p) (pf_note p) # fs))"
    "findingSource (last (still_blocking_finding p # fs)) = findingSource (last (plain_finding (pf_id p) (pf_source p) (pf_note p) # fs))" for fs
    by (simp_all add: still_blocking_finding_def plain_finding_def)
  ultimately show ?thesis using mergeFindings_last [OF b(1) [unfolded structured_blockers_def]] b
    by (intro bexI [of _ b]) (simp_all only: Let_def)
qed

lemma manual_is_no_success:
  "maybeBuildManualReviewDecision inp m fs = Some r \<Longrightarrow> gr_status r \<noteq> Gate_Success"
  "maybeBuildOperatorInputDecision inp m fs = Some r \<Longrightarrow> gr_status r \<noteq> Gate_Success"
  by (auto simp: maybeBuildManualReviewDecision_def maybeBuildOperatorInputDecision_def
      buildOperatorInputDecision_def Let_def blocked_result_def split: if_splits)

lemma decide_is_no_success: "gr_status (decide_on_blockers inp m still new fs s) \<noteq> Gate_Success"
  using manual_is_no_success by (auto simp: decide_on_blockers_def blocked_result_def split: option.split)

lemma structured_success:
  assumes "gr_status (buildStructuredDecision e inp parsed) = Gate_Success"
  shows "parsedStructuredMetadataMatchesInput inp parsed" "parsedPreviousFindingsMatchInput inp parsed"
    "resolvedPreviousFindingsHaveClosureEvidence parsed" "actionable_blockers e inp parsed = []"
    "\<not> ge_lacksEvidence e"
  using assms decide_is_no_success
  by (auto simp: buildStructuredDecision_def Let_def buildMissingPreviousFindingHandoff_def blocked_result_def
      accept_or_handoff_def buildSubstantiveEvidenceHandoff_def split: if_splits)

text \<open>Only structured comments can clear blockers of an earlier iteration.\<close>

lemma other_ways_are_no_success:
  assumes "gi_previous inp \<noteq> []"
  shows "gr_status (buildMalformedStructuredReviewContractHandoff e inp) \<noteq> Gate_Success"
    and "gr_status (buildLegacyBlockingSectionDecision e inp fs) \<noteq> Gate_Success"
    and "gr_status (buildFallbackDecision e inp fs) \<noteq> Gate_Success"
proof -
  show "gr_status (buildMalformedStructuredReviewContractHandoff e inp) \<noteq> Gate_Success"
    using assms by (simp add: buildMalformedStructuredReviewContractHandoff_def Let_def blocked_result_def)
  show "gr_status (buildLegacyBlockingSectionDecision e inp fs) \<noteq> Gate_Success"
    using assms decide_is_no_success
    by (simp add: buildLegacyBlockingSectionDecision_def Let_def buildMissingPreviousFindingHandoff_def
        blocked_result_def)
  show "gr_status (buildFallbackDecision e inp fs) \<noteq> Gate_Success"
    using assms by (simp add: buildFallbackDecision_def Let_def blocked_result_def)
qed

lemma parse_error_is_no_success: "gr_status (buildStructuredParseErrorDecision e inp err) \<noteq> Gate_Success"
  by (simp add: buildStructuredParseErrorDecision_def Let_def blocked_result_def split: if_split)

lemma success_is_structured:
  assumes "evaluateReviewCommentsForAutoMode e inp = Inr r" and "gr_status r = Gate_Success"
    and "gi_previous inp \<noteq> []"
    and prev: "prev = filter (\<lambda>f. \<not> isStructuredParseErrorFinding f) (gi_previous inp)"
  shows "\<exists>parsed. parseStructuredReviewCommentsResult (ge_host e) (gi_reviewComments inp) prev = Inr parsed \<and>
    r = buildStructuredDecision e (inp\<lparr>gi_previous := prev\<rparr>) parsed"
proof (cases "isStructuredReviewContractFailure (gi_reviewComments inp)")
  case True
  then show ?thesis using assms other_ways_are_no_success(1) by (auto simp: evaluateReviewCommentsForAutoMode_def)
next
  case False
  show ?thesis
  proof (cases "isStructuredReviewContractAttempt (gi_reviewComments inp)")
    case True
    show ?thesis
    proof (cases "parseStructuredReviewCommentsResult (ge_host e) (gi_reviewComments inp) prev")
      case (Inl err)
      then have "r = buildStructuredParseErrorDecision e inp err"
        using assms(1) False True by (simp add: evaluateReviewCommentsForAutoMode_def Let_def prev)
      then show ?thesis using assms(2) parse_error_is_no_success by simp
    next
      case (Inr parsed)
      then show ?thesis
        using assms(1) False True by (simp add: evaluateReviewCommentsForAutoMode_def Let_def prev)
    qed
  next
    case no_attempt: False
    show ?thesis
    proof (cases "parseLegacyBlockingFindings (ge_host e) (gi_reviewComments inp)")
      case None
      then show ?thesis using assms(1-3) False no_attempt other_ways_are_no_success(3)
        by (simp add: evaluateReviewCommentsForAutoMode_def Let_def split: sum.splits) blast
    next
      case (Some fs)
      then have "r = buildLegacyBlockingSectionDecision e inp fs"
        using assms(1) False no_attempt by (simp add: evaluateReviewCommentsForAutoMode_def Let_def)
      then show ?thesis using assms(2,3) other_ways_are_no_success(2) by simp
    qed
  qed
qed

lemma every_previous_answered:
  assumes "parsedPreviousFindingsMatchInput inp parsed" and "f \<in> set (gi_previous inp)"
  shows "\<exists>p \<in> set (pr_previous parsed). pf_id p = findingId f"
proof -
  let ?ids = "pf_id ` set (pr_previous parsed)" and ?prev = "findingId ` set (gi_previous inp)"
  have m: "distinct (map pf_id (pr_previous parsed))" "length (pr_previous parsed) = card ?prev"
    "\<forall>p \<in> set (pr_previous parsed). map_option findingSource (by_id (gi_previous inp) (pf_id p)) = Some (pf_source p)"
    using assms unfolding parsedPreviousFindingsMatchInput_def by (auto split: if_splits)
  have "pf_id p \<in> ?prev" if "p \<in> set (pr_previous parsed)" for p
    using bspec [OF m(3) that] by_id_None [of "gi_previous inp" "pf_id p"] by (cases "by_id (gi_previous inp) (pf_id p)") simp_all
  then have "?ids \<subseteq> ?prev" by blast
  moreover have "card ?ids = card ?prev"
    using m(1,2) by (metis distinct_card length_map set_map)
  ultimately have "?ids = ?prev" by (simp add: card_subset_eq)
  then show ?thesis using assms(2) by (metis (no_types, lifting) image_iff)
qed

section \<open>Rows of earlier findings in a report\<close>

lemma canonical_rows_same:
  assumes "canonical_previous_rows P seen items = (vs, [], s1)"
    and "canonical_previous_rows Q seen items = (ws, [], s2)"
  shows "vs = ws"
  using assms
proof (induction items arbitrary: seen vs ws)
  case (Cons item items)
  from Cons.prems(1) obtain m where m: "js_match canonical_previous_row item = Some m"
    by (auto split: option.splits prod.splits)
  let ?fid = "capture 1 m"
  have new: "?fid \<notin> set seen" using Cons.prems(1) m by (auto simp: Let_def split: if_splits prod.splits)
  obtain v1 i1 t1 where p: "canonical_previous_rows P (?fid # seen) items = (v1, i1, t1)" by (metis prod_cases3)
  obtain v2 i2 t2 where q: "canonical_previous_rows Q (?fid # seen) items = (v2, i2, t2)" by (metis prod_cases3)
  have "i1 = []" "t1 = s1" "vs = noted_finding ?fid (read_source (capture 2 m)) (read_previous_status (capture 3 m)) (capture 4 m) # v1"
    using Cons.prems(1) m new p by (simp_all add: Let_def split: if_splits)
  moreover have "i2 = []" "t2 = s2" "ws = noted_finding ?fid (read_source (capture 2 m)) (read_previous_status (capture 3 m)) (capture 4 m) # v2"
    using Cons.prems(2) m new q by (simp_all add: Let_def split: if_splits)
  ultimately show ?case using Cons.IH p q by blast
qed simp

lemma canonical_rows_known:
  assumes "canonical_previous_rows P seen items = (vs, [], s1)" and "P \<noteq> []" and "p \<in> set vs"
  shows "pf_id p \<in> findingId ` set P"
  using assms(1,3)
proof (induction items arbitrary: seen vs)
  case (Cons item items)
  from Cons.prems(1) obtain m where m: "js_match canonical_previous_row item = Some m"
    by (auto split: option.splits prod.splits)
  let ?fid = "capture 1 m"
  have new: "?fid \<notin> set seen" using Cons.prems(1) m by (auto simp: Let_def split: if_splits prod.splits)
  obtain v1 i1 t1 where r: "canonical_previous_rows P (?fid # seen) items = (v1, i1, t1)" by (metis prod_cases3)
  have head: "i1 = []" "t1 = s1" "vs = noted_finding ?fid (read_source (capture 2 m)) (read_previous_status (capture 3 m)) (capture 4 m) # v1"
    "map_option findingSource (by_id P ?fid) = Some (read_source (capture 2 m))"
    using Cons.prems(1) m new r assms(2) by (simp_all add: Let_def split: if_splits)
  have "?fid \<in> findingId ` set P" using head(4) by_id_None [of P ?fid] by (cases "by_id P ?fid") simp_all
  then show ?case using Cons.IH r head(1-3) Cons.prems(2) by (auto simp: noted_finding_def)
qed simp

text \<open>The five sections a report is read from do not depend on the findings it should answer for.\<close>

lemma report_sections:
  assumes "parseStructuredReviewCommentsResult h c P = Inr x"
  shows "\<exists>is ms ps bs as ss. \<forall>Q. parseStructuredReviewCommentsResult h c Q = parse_report_items h Q is ms ps bs as ss"
proof -
  obtain s where s: "map_option js_trim c = Some s" "s \<noteq> []"
    using assms by (cases "map_option js_trim c") (auto simp: parseStructuredReviewCommentsResult_def split: if_splits)
  obtain secs dups where c: "collectSectionData (text_or (js_trim (before_first raw_code_review_heading s)) s) = (secs, dups)"
    by fastforce
  obtain ms is1 where 1: "normalizeRequiredListSection secs ''Auto Review Metadata'' None None = (ms, is1)" by fastforce
  obtain ps is2 where 2: "normalizeRequiredListSection secs ''Previous Findings'' None None = (ps, is2)" by fastforce
  obtain bs is3 where 3: "normalizeRequiredListSection secs ''Blocking Findings'' None None = (bs, is3)" by fastforce
  obtain as is4 where 4: "normalizeRequiredListSection secs ''Advisories'' None None = (as, is4)" by fastforce
  obtain ss is5 where 5: "normalizeRequiredListSection secs ''Security Coverage'' (Some Missing_Security_Coverage)
      (Some Malformed_Security_Coverage) = (ss, is5)" by fastforce
  have all: "parseStructuredReviewCommentsResult h c Q =
      (let issues = duplicateSectionIssues dups @ is1 @ is2 @ is3 @ is4 @ is5 in
       case (ms, ps, bs, as, ss) of
         (Some m, Some p, Some b, Some a, Some c) \<Rightarrow> parse_report_items h Q issues m p b a c
       | _ \<Rightarrow> Inl (buildStructuredReviewParseError h Structured_Review_Comments issues))" for Q
    using s(2) by (simp add: parseStructuredReviewCommentsResult_def s(1) c 1 2 3 4 5)
  obtain m p b a k where "ms = Some m" "ps = Some p" "bs = Some b" "as = Some a" "ss = Some k"
    using assms unfolding all by (cases ms; cases ps; cases bs; cases as; cases ss) (simp_all add: Let_def)
  then show ?thesis unfolding all by (simp add: Let_def) blast
qed

lemma report_items_rows:
  assumes "parse_report_items h P issues ms ps bs as ss = Inr x"
  shows "\<exists>seen. canonical_previous_rows P [] ps = (pr_previous x, [], seen)"
proof -
  obtain vs is2 seen where r: "canonical_previous_rows P [] ps = (vs, is2, seen)" by (metis prod_cases3)
  obtain meta is1 where m: "parse_metadata ms = (meta, is1)" by fastforce
  obtain cov is5 where c: "parseSecurityCoverageItemsResult ss = (cov, is5)" by fastforce
  have "is2 = [] \<and> pr_previous x = vs"
    using assms by (auto simp: parse_report_items_def parseCanonicalPreviousFindingItems_def m c r Let_def
        split: prod.splits list.splits option.splits)
  then show ?thesis using r by simp
qed

lemma reread_previous_same:
  assumes "parseStructuredReviewCommentsResult h c P = Inr x"
    and "parseStructuredReviewCommentsResult h c Q = Inr y"
  shows "pr_previous x = pr_previous y"
proof -
  from report_sections [OF assms(1)] obtain i m p b a s where
    "\<forall>Q. parseStructuredReviewCommentsResult h c Q = parse_report_items h Q i m p b a s" by blast
  then have "parse_report_items h P i m p b a s = Inr x" "parse_report_items h Q i m p b a s = Inr y"
    using assms by simp_all
  then show ?thesis using report_items_rows canonical_rows_same by metis
qed

lemma parsed_previous_known:
  assumes "parseStructuredReviewCommentsResult h c P = Inr x" and "P \<noteq> []" and "p \<in> set (pr_previous x)"
  shows "pf_id p \<in> findingId ` set P"
proof -
  from report_sections [OF assms(1)] obtain i m q b a s where
    "parse_report_items h P i m q b a s = Inr x" using assms(1) by metis
  then show ?thesis using report_items_rows canonical_rows_known assms(2,3) by metis
qed

end
