(* ===== verification/Review_Claims.thy ===== *)
theory Review_Claims
  imports Gate_Outcomes
begin

text \<open>
  Properties of the review contract and of the gate: the printed report is read back as it was
  merged, no blocker gets lost on the way, a success answers for every earlier blocker, and what
  the length limit and the handling of parse errors cost.
\<close>

section \<open>Length of normalized texts\<close>

lemma replace_from_shrinks:
  assumes "\<And>m. length (f m) \<le> min_length x" and "0 < min_length x"
  shows "length (replace_from x f b r) \<le> length r"
proof (induction "length r" arbitrary: b r rule: less_induct)
  case less
  show ?case
  proof (cases "rmatch x (b, r, [])")
    case Nil
    then show ?thesis using less.hyps by (subst replace_from.simps) (auto split: list.split)
  next
    case (Cons t ts)
    obtain b' r' m where t: "t = (b', r', m)" by (metis prod_cases3)
    have "length b + min_length x \<le> length b'" using rmatch_min_length [of t x "(b, r, [])"] Cons t by simp
    moreover obtain w where w: "r = w @ r'" "b' = rev w @ b"
      using rmatch_consumes [of t x "(b, r, [])"] Cons t by (auto simp: consumes_def)
    ultimately have l: "length (f m) + length r' \<le> length r" "length r' < length r"
      using assms(1) [of m] assms(2) by (simp, auto)
    have "length (replace_from x f b' r') \<le> length r'" using less.hyps [OF l(2)] .
    then show ?thesis using Cons t l by (subst replace_from.simps) simp
  qed
qed

lemma redactProviderText_length: "length (redactProviderText s) \<le> 259"
  by (simp add: redactProviderText_def redactProviderTextWithPatterns_def MAX_PROVIDER_META_STRING_LENGTH_def Let_def)

lemma normalizeReviewText_length: "length (normalizeReviewText s) \<le> length (redactProviderText (normalizeFindingText s))"
  unfolding normalizeReviewText_def replace_all_def
  by (rule replace_from_shrinks) (simp_all add: redacted_brackets_def rx_plus_def lit_def)

section \<open>Blockers on their way into the report\<close>

lemma merge_blockers_keep:
  assumes "merge_blockers passed fs as m = (as', m')"
  shows "fst ` set m \<subseteq> fst ` set m' \<and> set as \<subseteq> set as' \<and>
    (\<forall>f \<in> set fs. findingId f \<in> fst ` set m' \<or>
       (\<exists>paths. paths \<noteq> [] \<and> demoted_advisory f paths \<in> set as' \<and> isRepositoryEvidenceOperatorRequest (findingText f)) \<or>
       (\<exists>src \<in> set passed. src \<noteq> findingSource f \<and> stale_reference_advisory f src \<in> set as'))"
  using assms
proof (induction passed fs as m rule: merge_blockers.induct)
  case (2 passed f fs as m)
  show ?case
  proof (cases "shouldDemoteRepositoryEvidenceRequest f as")
    case (Some paths)
    have "paths \<noteq> []" "isRepositoryEvidenceOperatorRequest (findingText f)"
      using Some by (auto simp: shouldDemoteRepositoryEvidenceRequest_def Let_def split: if_splits)
    then show ?thesis using "2.IH"(3) [OF Some] "2.prems" Some by auto
  next
    case None
    show ?thesis
    proof (cases "stale_reference passed f")
      case (Some src)
      then have "src \<noteq> findingSource f" "src \<in> set passed"
        by (auto simp: stale_reference_def split: option.splits if_splits)
      then show ?thesis using "2.IH"(2) [OF None Some] "2.prems" None Some by auto
    next
      case keep: None
      show ?thesis using "2.IH"(1) [OF None keep] "2.prems" None keep by auto
    qed
  qed
qed simp

lemma previous_blockers_keys:
  "fst ` set (previous_blockers ps) = pf_id ` set (filter (\<lambda>p. is_blocking_status (pf_status p)) ps)"
proof -
  have "fst ` set (foldl (\<lambda>m p. map_set (pf_id p) (previous_as_blocker p) m) m qs) = fst ` set m \<union> pf_id ` set qs"
    for m qs by (induction qs arbitrary: m) auto
  then show ?thesis by (simp add: previous_blockers_def)
qed

text \<open>Once an answer in the map blocks, later answers about the same finding cannot unblock it.\<close>

definition blocks :: "(string \<times> previous_finding) list \<Rightarrow> string \<Rightarrow> bool" where
  "blocks m k \<longleftrightarrow> (\<exists>p. map_of m k = Some p \<and> is_blocking_status (pf_status p))"

lemma blocks_step:
  "blocks m k \<Longrightarrow> blocks (merge_previous_one expected m p) k"
  "is_blocking_status (pf_status p) \<Longrightarrow> expected = Some prev \<Longrightarrow> by_id prev (pf_id p) \<noteq> None \<Longrightarrow>
     blocks (merge_previous_one expected m p) (pf_id p)"
  by (auto simp: blocks_def merge_previous_one_def Let_def consolidate_blocking split: option.splits)

lemma blocks_later: "blocks m k \<Longrightarrow> blocks (foldl (merge_previous_one expected) m ps) k"
  by (induction ps arbitrary: m) (simp_all add: blocks_step(1))

lemma blocks_answer:
  "p \<in> set ps \<Longrightarrow> is_blocking_status (pf_status p) \<Longrightarrow> by_id prev (pf_id p) \<noteq> None \<Longrightarrow>
     blocks (foldl (merge_previous_one (Some prev)) m ps) (pf_id p)"
  by (induction ps arbitrary: m) (auto simp: blocks_later blocks_step(2))

lemma blocking_answer_reported:
  assumes "wf_report inp" "bi_previousInput inp = Some prev"
    and "p \<in> set (reported_previous inp)" "is_blocking_status (pf_status p)" "by_id prev (pf_id p) \<noteq> None"
  shows "pf_id p \<in> fst ` set (snd (merged_report inp))"
proof -
  let ?m = "foldl (merge_previous_one (Some prev)) [] (reported_previous inp)"
  have "answers_ok prev []" by (simp add: answers_ok_def)
  then have ok: "answers_ok prev ?m"
    using merge_previous_ok assms(1) by (simp add: wf_report_def list_all_iff)
  obtain q where q: "map_of ?m (pf_id p) = Some q" "is_blocking_status (pf_status q)"
    using blocks_answer [OF assms(3-5)] by (auto simp: blocks_def)
  then have "(pf_id p, q) \<in> set ?m" by (simp add: map_of_SomeD)
  then have "q \<in> set (report_previous inp)" "pf_id q = pf_id p"
    using ok by (force simp: report_previous_def mergePreviousFindings_def assms(2), force simp: answers_ok_def)
  then have "pf_id p \<in> fst ` set (previous_blockers (report_previous inp))"
    unfolding previous_blockers_keys using q(2) by (auto simp: image_iff)
  then show ?thesis using merge_blockers_keep [of _ _ _ _ "fst (merged_report inp)" "snd (merged_report inp)"]
    unfolding merged_report_def by (metis (no_types, lifting) prod.collapse subsetD)
qed

section \<open>The review contract\<close>

text \<open>
  C9: The printed review report is read back as it was merged. Whatever the reviewers wrote, as long as
  identifiers are nonempty and free of brackets and line ends, texts are not blank and every required security area is
  covered, and as long as every stored finding is answered, parsing the report that
  \<open>buildStructuredReviewComments\<close> prints gives the strategy, the iteration and every blocker, advisory, answer and
  coverage row of the merge, in order. The texts come back normalized, and the blockers without the status and the
  evidence the printer does not write.
\<close>

theorem report_is_read_back:
  assumes "wf_report inp" and "bi_previousInput inp = Some prev"
    and "1 \<le> bi_iteration inp" and "bi_iteration inp \<le> 2 ^ 53 - 1"
    and "findingId ` set prev \<subseteq> pf_id ` set (reported_previous inp)"
  shows "parseStructuredReviewCommentsResult h (Some (buildStructuredReviewComments inp)) prev =
    Inr \<lparr>pr_strategy = bi_strategy inp, pr_iteration = bi_iteration inp,
      pr_blocking = map reread_blocker (map snd (snd (merged_report inp))),
      pr_advisories = map reread_advisory (fst (merged_report inp)),
      pr_previous = map reread_previous (report_previous inp),
      pr_coverage = map reread_coverage (report_coverage inp)\<rparr>"
  by (rule reread_report [OF assms])

definition sample_coverage :: "security_coverage list" where
  "sample_coverage = map (\<lambda>a. \<lparr>coverageArea = a, coverageStatus = Covered, coverageNote = ''x''\<rparr>)
     REQUIRED_SECURITY_COVERAGE_AREAS"

definition sample_answer :: "string \<Rightarrow> finding_source \<Rightarrow> finding_status \<Rightarrow> previous_finding" where
  "sample_answer k src st = \<lparr>pf_id = k, pf_source = src, pf_status = st, pf_note = ''x'', pf_text = ''x'',
     pf_closureEvidence = None\<rparr>"

definition sample_sidecar :: "previous_finding list \<Rightarrow> sidecar_output" where
  "sample_sidecar ps = \<lparr>so_blocking = [], so_advisories = [], so_previous = ps, so_coverage = sample_coverage\<rparr>"

definition sample_report :: "review_finding list \<Rightarrow> previous_finding list \<Rightarrow> report_input" where
  "sample_report prev ps = \<lparr>bi_strategy = Closure_First, bi_iteration = 2, bi_codeReview = sample_sidecar ps,
     bi_securityAudit = sample_sidecar [], bi_specialized = [], bi_previousInput = Some prev,
     bi_rawCodeReview = [], bi_rawSecurityAudit = [], bi_rawSpecialized = []\<rparr>"

lemmas sample_defs = sample_coverage_def sample_answer_def sample_sidecar_def sample_report_def

lemma sample_report_wf: "wf_id k \<Longrightarrow> wf_report (sample_report prev [sample_answer k src st])"
  by (simp add: wf_report_def sample_defs reported_previous_def reported_blockers_def reported_advisories_def
      wf_previous_def nonblank_def js_space_def image_comp comp_def list_all_iff)

theorem report_is_read_back_witness:
  "\<forall>h. pr_iteration (projr (parseStructuredReviewCommentsResult h (Some (buildStructuredReviewComments
     (sample_report [plain_finding ''a1'' Code_Review ''x''] [sample_answer ''a1'' Code_Review Resolved])))
     [plain_finding ''a1'' Code_Review ''x''])) = 2"
  by (intro allI, subst report_is_read_back [OF sample_report_wf])
    (simp_all add: wf_id_def newline_def sample_defs reported_previous_def plain_finding_def)

text \<open>
  C32: No blocker a reviewer raises is lost in the merge. It stands in the merged blockers under its
  identifier, or an advisory of the report says why not: it was a request for repository evidence that
  another review had already inspected, or it repeated a finding of a specialized reviewer that passed.
\<close>

theorem no_raised_blocker_is_lost:
  assumes "f \<in> set (reported_blockers inp)"
  shows "findingId f \<in> fst ` set (snd (merged_report inp)) \<or>
    (\<exists>paths. paths \<noteq> [] \<and> isRepositoryEvidenceOperatorRequest (findingText f) \<and>
       demoted_advisory f paths \<in> set (fst (merged_report inp))) \<or>
    (\<exists>src \<in> set (passed_sources inp). src \<noteq> findingSource f \<and>
       stale_reference_advisory f src \<in> set (fst (merged_report inp)))"
  using merge_blockers_keep [OF merged_report_def [of inp, symmetric, THEN trans, OF prod.collapse [symmetric]]] assms
  by blast

lemma x_is_no_request: "\<not> isRepositoryEvidenceOperatorRequest ''x''"
  by code_simp

theorem no_raised_blocker_is_lost_witness:
  "findingId (plain_finding ''b1'' Code_Review ''x'') \<in> fst ` set (snd (merged_report
     ((sample_report [] [])\<lparr>bi_codeReview := (sample_sidecar [])\<lparr>so_blocking := [plain_finding ''b1'' Code_Review ''x'']\<rparr>\<rparr>)))"
  using no_raised_blocker_is_lost [of "plain_finding ''b1'' Code_Review ''x''"
      "(sample_report [] [])\<lparr>bi_codeReview := (sample_sidecar [])\<lparr>so_blocking := [plain_finding ''b1'' Code_Review ''x'']\<rparr>\<rparr>"]
  by (auto simp: sample_defs reported_blockers_def passed_sources_def x_is_no_request plain_finding_def)

text \<open>
  C20: A reviewer who says that an earlier finding still blocks, is a new blocker or needs a person cannot
  be outvoted: whatever the other reviewers answer about the finding, the report lists it as a blocker.
\<close>

theorem blocking_answer_is_never_outvoted:
  assumes "wf_report inp" and "bi_previousInput inp = Some prev" and "p \<in> set (reported_previous inp)"
    and "is_blocking_status (pf_status p)" and "pf_id p \<in> findingId ` set prev"
  shows "pf_id p \<in> fst ` set (snd (merged_report inp))"
  using blocking_answer_reported [OF assms(1-4)] assms(5) by (simp add: by_id_None)

theorem blocking_answer_is_never_outvoted_witness:
  "''a1'' \<in> fst ` set (snd (merged_report
     (sample_report [plain_finding ''a1'' Code_Review ''x''] [sample_answer ''a1'' Code_Review Still_Blocking])))"
  using blocking_answer_is_never_outvoted [OF sample_report_wf [of "''a1''" "[plain_finding ''a1'' Code_Review ''x'']"
      Code_Review Still_Blocking], of "[plain_finding ''a1'' Code_Review ''x'']" "sample_answer ''a1'' Code_Review Still_Blocking"]
  by (simp add: wf_id_def newline_def sample_defs reported_previous_def plain_finding_def)

text \<open>
  A text that passed the review contract has at most 259 characters: 256 of the finding and the dots
  that mark the cut. The cut applies to blockers, answers and notes, and to the raw outputs.
\<close>

theorem review_texts_are_short: "length (normalizeReviewText s) \<le> 259"
  using normalizeReviewText_length redactProviderText_length by (rule le_trans)

section \<open>The gate\<close>

lemma counted_previous:
  assumes "counted prev i f"
  shows "streak f = Some (jsint 1) \<or>
    (\<exists>p \<in> set prev. findingId p = findingId f \<and> streak f = Some (jsint (previous_streak p + 1)))"
  using assms by (auto simp: counted_def split: option.splits dest: by_id_Some)

lemma compared_subset: "set (compared_previous e inp) \<subseteq> set (gi_previous inp)"
  by (auto simp: compared_previous_def Let_def)

text \<open>
  C23: The gate records what it decides. Success names no blocker and clears the stored review state; any
  other answer stores, for the iteration under review, exactly the blockers it names, and a request for
  changes or for operator input names at least one.
\<close>

theorem gate_records_its_blockers:
  assumes "evaluateReviewCommentsForAutoMode e inp = Inr r"
  shows "if gr_status r = Gate_Success then gr_blocking r = [] \<and> gr_state r = None
    else (case gr_state r of
        None \<Rightarrow> False
      | Some s \<Rightarrow> reviewIteration s = gi_iteration inp \<and>
          map findingId (findings s) = map findingId (gr_blocking r) \<and>
          (gr_blocking r \<noteq> [] \<or> (\<exists>why. gr_status r = Gate_Manual_Review why)))"
  using gate_recorded [OF assms] by (auto simp: recorded_def comp_def split: option.splits if_splits)

definition sample_env :: gate_env where
  "sample_env = \<lparr>ge_host = \<lparr>sha1_hex = (\<lambda>s. ''0123456789abcdef''), localeCompare = (\<lambda>a b. 0)\<rparr>,
     ge_validJsonFile = (\<lambda>_. False), ge_refutedByConfig = (\<lambda>_. False), ge_risky = None,
     ge_deterministic = [], ge_lacksEvidence = False, ge_fallbackText = ''SUCCESS''\<rparr>"

definition sample_input :: review_gate_input where
  "sample_input = \<lparr>gi_reviewComments = None, gi_strategy = Full_Re_Review, gi_iteration = 2,
     gi_previous = [plain_finding ''a1'' Code_Review ''x'']\<rparr>"

lemma sample_run:
  "\<exists>r f. evaluateReviewCommentsForAutoMode sample_env sample_input = Inr r \<and>
     gr_status r \<noteq> Gate_Success \<and> f \<in> set (gr_blocking r)"
proof -
  have legacy: "parseLegacyBlockingFindings h None = None" for h by code_simp
  have "runLegacyFallbackExtraction h ''SUCCESS'' = Inr []" for h by code_simp
  then have r: "evaluateReviewCommentsForAutoMode sample_env sample_input =
      Inr (buildFallbackDecision sample_env sample_input [])"
    by (simp add: evaluateReviewCommentsForAutoMode_def sample_input_def sample_env_def legacy
        isStructuredReviewContractFailure_def isStructuredReviewContractAttempt_def)
  have "gr_status (buildFallbackDecision sample_env sample_input []) \<noteq> Gate_Success"
    "gr_blocking (buildFallbackDecision sample_env sample_input []) \<noteq> []"
    by (simp_all add: buildFallbackDecision_def sample_input_def Let_def blocked_result_def mergeFindings_Nil)
  then show ?thesis using r by (metis hd_in_set)
qed

theorem gate_records_its_blockers_witness:
  "\<exists>r s. evaluateReviewCommentsForAutoMode sample_env sample_input = Inr r \<and> gr_state r = Some s \<and>
     reviewIteration s = 2"
proof -
  obtain r where r: "evaluateReviewCommentsForAutoMode sample_env sample_input = Inr r"
    "gr_status r \<noteq> Gate_Success" using sample_run by blast
  from gate_records_its_blockers [OF r(1)] r show ?thesis
    by (auto simp: sample_input_def split: option.splits)
qed

text \<open>
  Every blocker the gate names carries the iteration under review and a streak that is one, or one
  more than the streak of the previous iteration's finding with the same identifier.
\<close>

theorem gate_counts_repeated_blockers:
  assumes "evaluateReviewCommentsForAutoMode e inp = Inr r" and "f \<in> set (gr_blocking r)"
  shows "lastSeenIteration f = Some (jsint (gi_iteration inp)) \<and>
    (streak f = Some (jsint 1) \<or>
     (\<exists>p \<in> set (gi_previous inp). findingId p = findingId f \<and> streak f = Some (jsint (previous_streak p + 1))))"
proof -
  have c: "counted (compared_previous e inp) (gi_iteration inp) f"
    using gate_recorded [OF assms(1)] assms(2) by (simp add: recorded_def)
  show ?thesis using counted_previous [OF c] c compared_subset [of e inp] by (auto simp: counted_def)
qed

theorem gate_counts_repeated_blockers_witness:
  "\<exists>r f. evaluateReviewCommentsForAutoMode sample_env sample_input = Inr r \<and> f \<in> set (gr_blocking r) \<and>
     lastSeenIteration f = Some (jsint 2)"
proof -
  obtain r f where r: "evaluateReviewCommentsForAutoMode sample_env sample_input = Inr r" "f \<in> set (gr_blocking r)"
    using sample_run by blast
  from gate_counts_repeated_blockers [OF r] r show ?thesis by (auto simp: sample_input_def)
qed

lemma answers_distinct:
  "parsedPreviousFindingsMatchInput inp parsed \<Longrightarrow> distinct (map pf_id (pr_previous parsed))"
  by (simp add: parsedPreviousFindingsMatchInput_def split: if_splits)

text \<open>
  C6: A success answers for every blocker of the previous iteration, the stored parse errors apart, which the gate
  leaves out. The report names the strategy and the iteration under review and has an answer for each earlier
  finding: one that no longer blocks comes with closure evidence, and for one that still blocks there is, among
  the blockers the gate has merged, one under its identifier, with the words and the source of the answer or of
  the last blocker that the report or a deterministic check raises under that identifier, and it was put aside as
  refuted, out of scope or a mere fault of the coverage rows. Nothing is accepted that lacks the evidence a risky
  task needs.
\<close>

theorem success_answers_for_every_blocker:
  assumes "evaluateReviewCommentsForAutoMode e inp = Inr r" and "gr_status r = Gate_Success"
    and "f \<in> set (gi_previous inp)" and "\<not> isStructuredParseErrorFinding f"
  shows "\<exists>parsed p. pr_strategy parsed = gi_strategy inp \<and> pr_iteration parsed = gi_iteration inp \<and>
    parseStructuredReviewCommentsResult (ge_host e) (gi_reviewComments inp)
      (filter (\<lambda>f. \<not> isStructuredParseErrorFinding f) (gi_previous inp)) = Inr parsed \<and>
    p \<in> set (pr_previous parsed) \<and> pf_id p = findingId f \<and> \<not> ge_lacksEvidence e \<and>
    (if is_blocking_status (pf_status p)
     then \<exists>b \<in> set (structured_blockers e
         (inp\<lparr>gi_previous := filter (\<lambda>f. \<not> isStructuredParseErrorFinding f) (gi_previous inp)\<rparr>) parsed).
       findingId b = findingId f \<and> dismissed e (gi_reviewComments inp) b \<and>
       (let g = last (plain_finding (pf_id p) (pf_source p) (pf_note p) #
           filter (\<lambda>g. findingId g = findingId f) (pr_blocking parsed @ ge_deterministic e)) in
        findingText b = findingText g \<and> findingSource b = findingSource g)
     else resolvedPreviousFindingHasClosureEvidence (pf_note p))"
proof -
  let ?prev = "filter (\<lambda>f. \<not> isStructuredParseErrorFinding f) (gi_previous inp)"
  let ?inp = "inp\<lparr>gi_previous := ?prev\<rparr>"
  from assms(3) have "gi_previous inp \<noteq> []" by auto
  from success_is_structured [OF assms(1,2) this refl] obtain parsed where
    p: "parseStructuredReviewCommentsResult (ge_host e) (gi_reviewComments inp) ?prev = Inr parsed"
    and r: "r = buildStructuredDecision e ?inp parsed" by blast
  note ok = structured_success [OF assms(2) [unfolded r]]
  obtain q where q: "q \<in> set (pr_previous parsed)" "pf_id q = findingId f"
    using every_previous_answered [OF ok(2), of f] assms(3,4) by auto
  have "\<exists>b \<in> set (structured_blockers e ?inp parsed). findingId b = findingId f \<and> dismissed e (gi_reviewComments inp) b \<and>
      (let g = last (plain_finding (pf_id q) (pf_source q) (pf_note q) #
           filter (\<lambda>g. findingId g = findingId f) (pr_blocking parsed @ ge_deterministic e)) in
        findingText b = findingText g \<and> findingSource b = findingSource g)" if "is_blocking_status (pf_status q)"
    using still_blocking_reported [OF q(1) that answers_distinct [OF ok(2)], of e ?inp] no_actionable_blockers [OF ok(4)]
    unfolding q(2) by auto
  moreover have "resolvedPreviousFindingHasClosureEvidence (pf_note q)" if "\<not> is_blocking_status (pf_status q)"
    using ok(3) q(1) that by (auto simp: resolvedPreviousFindingsHaveClosureEvidence_def list_all_iff)
  ultimately show ?thesis using p q ok(1,5) unfolding parsedStructuredMetadataMatchesInput_def
    by (intro exI [of _ parsed] exI [of _ q]) simp
qed

text \<open>The sample: an earlier finding is reported as still blocking, and the project refutes it.\<close>

definition sample_finding :: review_finding where
  "sample_finding = plain_finding ''a1'' Code_Review ''x''"

abbreviation "sample_rereview \<equiv> sample_report [sample_finding] [sample_answer ''a1'' Code_Review Still_Blocking]"

lemma x_is_normal: "normalizeReviewText ''x'' = ''x''"
  by code_simp

lemma x_is_no_reference: "blockingPreviousFindingReference ''x'' = None"
  by code_simp

lemma sample_text:
  "buildStructuredReviewComments sample_rereview = js_join [newline]
    [''## Auto Review Metadata'', ''- Strategy: closure_first'', ''- Review Iteration: 2'', [],
     ''## Previous Findings'', ''- [a1] code_review | still_blocking | x'', [],
     ''## Blocking Findings'', ''- [a1] code_review | x'', [], ''## Advisories'', ''- none'', [],
     ''## Security Coverage'', ''- secret_leaks | covered | x'', ''- permissions_sandbox | covered | x'',
     ''- unsafe_shell_network_file | covered | x'', ''- dependency_config | covered | x'', [],
     ''## Raw Code Review'', ''No code review output.'', [], ''## Raw Security Audit'',
     ''No security audit output.'']"
proof -
  have prev: "report_previous sample_rereview = [sample_answer ''a1'' Code_Review Still_Blocking]"
    by code_simp
  have merged: "merged_report sample_rereview = ([], [(''a1'', previous_as_blocker (sample_answer ''a1'' Code_Review Still_Blocking))])"
    unfolding merged_report_def prev
    by (simp add: sample_defs reported_blockers_def reported_advisories_def passed_sources_def previous_blockers_def)
  have cov: "report_coverage sample_rereview = sample_coverage" by code_simp
  have raw: "redactProviderText (js_trim []) = []" by code_simp
  have two: "string_of_int 2 = ''2''" by code_simp
  show ?thesis
    unfolding buildStructuredReviewComments_def canonical_lines_def raw_lines_def prev merged cov
    by (simp add: rows_or_none_def text_or_def raw two x_is_normal sample_defs previous_as_blocker_def plain_finding_def
        REQUIRED_SECURITY_COVERAGE_AREAS_def formatCanonicalPreviousFindingLine_def the_default_def
        formatCanonicalBlockingFindingLine_def formatCanonicalSecurityCoverageLine_def)
qed

lemma sample_is_attempt:
  "isStructuredReviewContractAttempt (Some (buildStructuredReviewComments sample_rereview))"
  "\<not> isStructuredReviewContractFailure (Some (buildStructuredReviewComments sample_rereview))"
  unfolding sample_text by code_simp+

definition sample_gate :: review_gate_input where
  "sample_gate = \<lparr>gi_reviewComments = Some (buildStructuredReviewComments sample_rereview),
     gi_strategy = Closure_First, gi_iteration = 2, gi_previous = [sample_finding]\<rparr>"

definition refuting_env :: gate_env where
  "refuting_env = sample_env\<lparr>ge_refutedByConfig := (\<lambda>_. True)\<rparr>"

lemma sample_finding_is_no_parse_error: "\<not> isStructuredParseErrorFinding sample_finding"
  by (simp add: sample_finding_def isStructuredParseErrorFinding_def plain_finding_def)

lemma sample_success:
  "\<exists>r. evaluateReviewCommentsForAutoMode refuting_env sample_gate = Inr r \<and> gr_status r = Gate_Success"
proof -
  have "findingId ` set [sample_finding] \<subseteq> pf_id ` set (reported_previous sample_rereview)"
    by (simp add: sample_defs reported_previous_def sample_finding_def plain_finding_def)
  from reread_report [OF sample_report_wf _ _ _ this, of "ge_host refuting_env"] obtain parsed where
    parsed: "parseStructuredReviewCommentsResult (ge_host refuting_env)
      (Some (buildStructuredReviewComments sample_rereview)) [sample_finding] = Inr parsed"
    and meta: "pr_strategy parsed = Closure_First" "pr_iteration parsed = 2"
    and prev: "pr_previous parsed = map reread_previous (report_previous sample_rereview)"
    by (simp add: wf_id_def newline_def sample_report_def)
  have "report_previous sample_rereview = [sample_answer ''a1'' Code_Review Still_Blocking]" by code_simp
  then have prev: "\<exists>p. pr_previous parsed = [p] \<and> pf_id p = ''a1'' \<and> pf_source p = Code_Review \<and> pf_status p = Still_Blocking"
    by (simp add: prev reread_previous_def noted_finding_def sample_answer_def)
  have "evaluateReviewCommentsForAutoMode refuting_env sample_gate =
      Inr (buildStructuredDecision refuting_env sample_gate parsed)"
    using parsed sample_is_attempt sample_finding_is_no_parse_error
    by (simp add: evaluateReviewCommentsForAutoMode_def sample_gate_def Let_def)
  moreover have "gr_status (buildStructuredDecision refuting_env sample_gate parsed) = Gate_Success"
    using prev meta
    by (auto simp: buildStructuredDecision_def parsedStructuredMetadataMatchesInput_def sample_gate_def
        parsedPreviousFindingsMatchInput_def resolvedPreviousFindingsHaveClosureEvidence_def
        by_id_def sample_finding_def plain_finding_def actionable_blockers_def
        canRecoverSecurityCoverageOnlyContractFailure_def refuting_env_def sample_env_def Let_def
        filterActionableBlockingFindings_def filterRefutedRepositoryFindings_def accept_or_handoff_def
        accepted_result_def)
  ultimately show ?thesis by simp
qed

theorem success_answers_for_every_blocker_witness:
  "\<exists>(parsed :: parsed_review) p. p \<in> set (pr_previous parsed) \<and> pf_id p = ''a1'' \<and> pr_iteration parsed = 2"
proof -
  obtain r where r: "evaluateReviewCommentsForAutoMode refuting_env sample_gate = Inr r" "gr_status r = Gate_Success"
    using sample_success by blast
  have "sample_finding \<in> set (gi_previous sample_gate)" by (simp add: sample_gate_def)
  from success_answers_for_every_blocker [OF r this sample_finding_is_no_parse_error] obtain parsed :: parsed_review and p where
    "p \<in> set (pr_previous parsed)" "pf_id p = findingId sample_finding" "pr_iteration parsed = gi_iteration sample_gate"
    by blast
  moreover have "findingId sample_finding = ''a1''" "gi_iteration sample_gate = 2"
    by (simp_all add: sample_finding_def plain_finding_def sample_gate_def)
  ultimately show ?thesis by metis
qed

text \<open>
  C27: A report that had to answer for a parse error is never accepted. The gate leaves parse errors out of
  the findings it compares with, but the reviewers have to answer for every stored finding, so the row
  about the parse error is always unknown or superfluous.
\<close>

theorem parse_error_is_never_cleared:
  assumes "evaluateReviewCommentsForAutoMode e inp = Inr r"
    and "gi_reviewComments inp = Some (buildStructuredReviewComments rep)"
    and "wf_report rep" and "bi_previousInput rep = Some (gi_previous inp)"
    and "1 \<le> bi_iteration rep" and "bi_iteration rep \<le> 2 ^ 53 - 1"
    and "findingId ` set (gi_previous inp) \<subseteq> pf_id ` set (reported_previous rep)"
    and "distinct (map findingId (gi_previous inp))"
    and "f \<in> set (gi_previous inp)" and "isStructuredParseErrorFinding f"
  shows "gr_status r \<noteq> Gate_Success"
proof
  assume success: "gr_status r = Gate_Success"
  let ?prev = "filter (\<lambda>f. \<not> isStructuredParseErrorFinding f) (gi_previous inp)"
  from assms(9) have "gi_previous inp \<noteq> []" by auto
  from success_is_structured [OF assms(1) success this refl] obtain parsed where
    p: "parseStructuredReviewCommentsResult (ge_host e) (gi_reviewComments inp) ?prev = Inr parsed"
    and r: "r = buildStructuredDecision e (inp\<lparr>gi_previous := ?prev\<rparr>) parsed" by blast
  have "pr_previous parsed = map reread_previous (report_previous rep)"
    using reread_previous_same [OF p reread_report [OF assms(3-7), of "ge_host e", folded assms(2)]] by simp
  moreover have "findingId f \<in> set (map pf_id (report_previous rep))"
    using report_previous_facts(4) [OF assms(3,4)] assms(7,9) by (auto simp: by_id_None)
  ultimately have "findingId f \<in> set (map pf_id (pr_previous parsed))"
    by (simp add: comp_def reread_previous_def noted_finding_def)
  then obtain q where q: "q \<in> set (pr_previous parsed)" "pf_id q = findingId f" by auto
  show False
  proof (cases "?prev = []")
    case True
    then show False using structured_success(2) [OF success [unfolded r]] q(1)
      by (simp add: parsedPreviousFindingsMatchInput_def)
  next
    case False
    then obtain g where "g \<in> set (gi_previous inp)" "\<not> isStructuredParseErrorFinding g" "findingId g = findingId f"
      using parsed_previous_known [OF p False q(1)] q(2) by auto
    then show False using assms(8-10) by (metis distinct_map inj_on_eq_iff)
  qed
qed

definition sample_parse_error :: review_finding where
  "sample_parse_error = plain_finding ''e1'' Review_Gate ''Structured review parse error (0123456789ab): x.''"

lemma sample_parse_error_is_one: "isStructuredParseErrorFinding sample_parse_error"
  unfolding sample_parse_error_def by code_simp

lemma gate_total:
  assumes "js_trim (ge_fallbackText e) \<noteq> []"
  shows "\<exists>r. evaluateReviewCommentsForAutoMode e inp = Inr r"
proof -
  have "\<exists>fs. runLegacyFallbackExtraction (ge_host e) (ge_fallbackText e) = Inr fs"
    using assms by (simp add: runLegacyFallbackExtraction_def Let_def)
  then show ?thesis
    by (auto simp: evaluateReviewCommentsForAutoMode_def Let_def split: option.split sum.split)
qed

theorem parse_error_is_never_cleared_witness:
  "\<exists>r. evaluateReviewCommentsForAutoMode sample_env
     \<lparr>gi_reviewComments = Some (buildStructuredReviewComments
        (sample_report [sample_parse_error] [sample_answer ''e1'' Review_Gate Resolved])),
      gi_strategy = Closure_First, gi_iteration = 2, gi_previous = [sample_parse_error]\<rparr> = Inr r \<and>
     gr_status r \<noteq> Gate_Success"
proof -
  let ?rep = "sample_report [sample_parse_error] [sample_answer ''e1'' Review_Gate Resolved]"
  let ?inp = "\<lparr>gi_reviewComments = Some (buildStructuredReviewComments ?rep), gi_strategy = Closure_First,
      gi_iteration = 2, gi_previous = [sample_parse_error]\<rparr>"
  have "js_trim (ge_fallbackText sample_env) \<noteq> []" by code_simp
  from gate_total [OF this] obtain r where r: "evaluateReviewCommentsForAutoMode sample_env ?inp = Inr r" by blast
  have "gr_status r \<noteq> Gate_Success"
    by (rule parse_error_is_never_cleared [OF r _ sample_report_wf _ _ _ _ _ _ sample_parse_error_is_one])
      (simp_all add: wf_id_def newline_def sample_defs reported_previous_def sample_parse_error_def plain_finding_def)
  with r show ?thesis by blast
qed

end
