(* ===== verification/Failure_Families.thy ===== *)
theory Failure_Families
  imports Audit_Release Js_Json Review_Contract
begin

text \<open>
  What kind of failure a task failed with (\<open>packages/shared/src/auditRoadmapContract.ts\<close>) and the
  fingerprint by which the coordinator recognises a failure it has seen before
  (\<open>packages/shared/src/auditFailureFingerprint.ts\<close>). Families and issue codes are texts. The issue codes
  are those of the validators; none of them is the name of a property of \<open>Object.prototype\<close>.
\<close>

section \<open>Failure families\<close>

definition AUDIT_FAILURE_FAMILIES :: "string list" where
  "AUDIT_FAILURE_FAMILIES =
     [''invalid_artifact_content'', ''invalid_artifact_contract'', ''invalid_artifact_integrity'',
      ''invalid_inventory_only'', ''insufficient_substantive_evidence'', ''source_inconclusive'',
      ''manual_exception'', ''missing_artifact'', ''missing_tool_evidence'', ''rework_needed'',
      ''inconclusive_batch_evidence'', ''synthesis_not_ready'', ''manual_review_required'',
      ''external_blocker'']"

definition RECOVERABLE_AUDIT_FAILURE_FAMILIES :: "string list" where
  "RECOVERABLE_AUDIT_FAILURE_FAMILIES =
     [''invalid_artifact_content'', ''invalid_artifact_contract'', ''invalid_artifact_integrity'',
      ''invalid_inventory_only'', ''insufficient_substantive_evidence'', ''source_inconclusive'',
      ''missing_artifact'', ''missing_tool_evidence'', ''rework_needed'']"

definition isRecoverableAuditFailureFamily :: "string \<Rightarrow> bool" where
  "isRecoverableAuditFailureFamily f = (f \<in> set RECOVERABLE_AUDIT_FAILURE_FAMILIES)"

definition TASK_COMPLETION_ISSUE_FAILURE_FAMILIES :: "(string \<times> string) list" where
  "TASK_COMPLETION_ISSUE_FAILURE_FAMILIES =
     [(''zero_delta'', ''rework_needed''), (''generic_plan'', ''rework_needed''),
      (''missing_report_artifact'', ''missing_artifact''),
      (''uncommitted_report_artifact'', ''missing_artifact''),
      (''audit_artifact_uncommitted'', ''invalid_artifact_integrity''),
      (''committed_blob_mismatch'', ''invalid_artifact_integrity''),
      (''deterministic_fallback_report'', ''invalid_artifact_content''),
      (''missing_implementation_tool_activity'', ''missing_tool_evidence''),
      (''missing_review_tool_activity'', ''missing_tool_evidence''),
      (''synthetic_git_output'', ''invalid_artifact_content''),
      (''placeholder_author_metadata'', ''invalid_artifact_content''),
      (''unverified_inspection_claim'', ''invalid_artifact_content''),
      (''future_tense_git_verification'', ''invalid_artifact_content''),
      (''speculative_audit_claim'', ''invalid_artifact_content''),
      (''non_actionable_audit_observation'', ''invalid_artifact_content''),
      (''governance_observation_as_finding'', ''invalid_artifact_content''),
      (''malformed_report_artifact'', ''invalid_artifact_content''),
      (''contradictory_findings_and_no_findings'', ''invalid_artifact_content''),
      (''fake_or_placeholder_command_output'', ''invalid_artifact_content''),
      (''false_missing_path_claim'', ''invalid_artifact_content''),
      (''invalid_line_reference'', ''invalid_artifact_content''),
      (''missing_report_file_references'', ''invalid_artifact_content''),
      (''missing_substantive_evidence'', ''invalid_artifact_content''),
      (''shallow_evidence'', ''insufficient_substantive_evidence''),
      (''inventory_only_evidence'', ''invalid_inventory_only''),
      (''irrelevant_grep_match'', ''insufficient_substantive_evidence''),
      (''insufficient_scope_depth'', ''insufficient_substantive_evidence''),
      (''reused_generic_evidence'', ''insufficient_substantive_evidence''),
      (''self_reported_command_output'', ''insufficient_substantive_evidence''),
      (''missing_declared_scope_root'', ''invalid_artifact_content''),
      (''missing_scope_coverage'', ''invalid_artifact_content''),
      (''missing_risk_hypotheses'', ''invalid_artifact_content''),
      (''irrelevant_audit_evidence'', ''invalid_artifact_content''),
      (''unexpected_non_report_changes'', ''invalid_artifact_content''),
      (''invalid_or_missing_file_references'', ''invalid_artifact_content''),
      (''insufficient_report_evidence'', ''invalid_artifact_content''),
      (''low_quality_report_evidence'', ''invalid_artifact_content''),
      (''audit_inconclusive'', ''inconclusive_batch_evidence''),
      (''branch_isolation'', ''external_blocker''),
      (''manual_review_required'', ''manual_review_required''),
      (''manual_exception'', ''manual_exception''), (''synthesis_not_ready'', ''synthesis_not_ready'')]"

definition CONTRACT_ISSUE_CODES :: "string list" where
  "CONTRACT_ISSUE_CODES =
     [''missing_report_manifest'', ''invalid_report_manifest'',
      ''unsupported_report_manifest_version'', ''missing_report_manifest_fields'',
      ''manifest_identity_mismatch'', ''manifest_outcome_mismatch'']"

definition INTEGRITY_ISSUE_CODES :: "string list" where
  "INTEGRITY_ISSUE_CODES =
     [''manifest_content_hash_mismatch'', ''manifest_source_snapshot_mismatch'',
      ''missing_audit_evidence_ref'', ''audit_evidence_identity_mismatch'',
      ''audit_evidence_source_snapshot_mismatch'', ''audit_evidence_scope_mismatch'',
      ''audit_evidence_risk_mismatch'', ''audit_evidence_discovery_only'',
      ''audit_artifact_uncommitted'', ''committed_blob_mismatch'']"

definition mapTaskCompletionIssueCodeToAuditFailureFamily :: "string \<Rightarrow> string" where
  "mapTaskCompletionIssueCodeToAuditFailureFamily code =
     (if code \<in> set CONTRACT_ISSUE_CODES then ''invalid_artifact_contract''
      else if code \<in> set INTEGRITY_ISSUE_CODES then ''invalid_artifact_integrity''
      else if startsWith code ''manifest_'' then ''invalid_artifact_contract''
      else if startsWith code ''audit_evidence_'' then ''invalid_artifact_integrity''
      else the_default ''external_blocker'' (map_of TASK_COMPLETION_ISSUE_FAILURE_FAMILIES code))"

definition selectTaskCompletionAuditFailureFamily :: "string list \<Rightarrow> string" where
  "selectTaskCompletionAuditFailureFamily codes =
     (if ''branch_isolation'' \<in> set codes then ''external_blocker''
      else if ''audit_inconclusive'' \<in> set codes then ''inconclusive_batch_evidence''
      else if list_ex (\<lambda>c. c \<in> set CONTRACT_ISSUE_CODES) codes then ''invalid_artifact_contract''
      else if list_ex (\<lambda>c. c \<in> set INTEGRITY_ISSUE_CODES) codes then ''invalid_artifact_integrity''
      else (case List.find (\<lambda>c. c \<noteq> ''manual_review_required'') codes of
          Some (c # cs) \<Rightarrow> mapTaskCompletionIssueCodeToAuditFailureFamily (c # cs)
        | _ \<Rightarrow> if ''manual_review_required'' \<in> set codes then ''manual_review_required''
               else ''external_blocker''))"

section \<open>Codes in validation details\<close>

fun first_string :: "json \<Rightarrow> string list \<Rightarrow> string option" where
  "first_string v [] = None"
| "first_string v (k # ks) = (case jstring (jget k v) of Some s \<Rightarrow> Some s | None \<Rightarrow> first_string v ks)"

fun readNestedString :: "json \<Rightarrow> string list \<Rightarrow> string option"
  and nested_in_fields :: "(string \<times> json) list \<Rightarrow> string list \<Rightarrow> string option" where
  "readNestedString (JObj fs) keys =
     (case first_string (JObj fs) keys of Some s \<Rightarrow> Some s | None \<Rightarrow> nested_in_fields fs keys)"
| "readNestedString _ keys = None"
| "nested_in_fields [] keys = None"
| "nested_in_fields ((k, v) # fs) keys =
     (case readNestedString v keys of
        Some (c # cs) \<Rightarrow> Some (c # cs)
      | _ \<Rightarrow> nested_in_fields fs keys)"

lemma map_of_field_size [termination_simp]:
  fixes fs :: "(string \<times> json) list"
  shows "map_of fs k = Some v \<Longrightarrow> size v < Suc (size_list (\<lambda>x. Suc (size (snd x))) fs)"
proof (induction fs)
  case (Cons f fs)
  then show ?case by (cases f) (auto split: if_splits)
qed simp

fun visit_issue_codes :: "json \<Rightarrow> string list" and visit_issue_items :: "json list \<Rightarrow> string list" where
  "visit_issue_codes (JStr s) = [s]"
| "visit_issue_codes (JArr xs) = visit_issue_items xs"
| "visit_issue_codes (JObj fs) =
     (case jstring (jget ''code'' (JObj fs)) of Some s \<Rightarrow> [s] | None \<Rightarrow> []) @
     (case jget ''issues'' (JObj fs) of Some v \<Rightarrow> visit_issue_codes v | None \<Rightarrow> []) @
     (case jget ''issueDetails'' (JObj fs) of Some v \<Rightarrow> visit_issue_codes v | None \<Rightarrow> []) @
     (case jget ''auditReportValidation'' (JObj fs) of Some v \<Rightarrow> visit_issue_codes v | None \<Rightarrow> []) @
     (case jget ''evidence'' (JObj fs) of Some v \<Rightarrow> visit_issue_codes v | None \<Rightarrow> [])"
| "visit_issue_codes _ = []"
| "visit_issue_items [] = []"
| "visit_issue_items (x # xs) = visit_issue_codes x @ visit_issue_items xs"

definition readIssueCodes :: "json \<Rightarrow> string list" where
  "readIssueCodes v = sorted_set (visit_issue_codes v)"

definition selectAuditArtifactFailureFamily ::
    "string list option \<Rightarrow> string option \<Rightarrow> json \<Rightarrow> string option \<Rightarrow> string option" where
  "selectAuditArtifactFailureFamily codes classification details fallback =
     (let issueCodes = the_default (readIssueCodes details) codes;
          issueFamily = (if issueCodes \<noteq> [] then Some (selectTaskCompletionAuditFailureFamily issueCodes) else None);
          source = orelse classification (readNestedString details [''sourceClassification''])
      in if source = Some ''inventory_only_invalid'' \<and> issueFamily = Some ''insufficient_substantive_evidence''
         then Some ''invalid_inventory_only''
         else if issueFamily \<noteq> None \<and> issueFamily \<noteq> Some ''invalid_artifact_content'' \<and>
            (issueFamily \<noteq> Some ''external_blocker'' \<or> ''branch_isolation'' \<in> set issueCodes)
         then issueFamily
         else if source = Some ''inventory_only_invalid'' then Some ''invalid_inventory_only''
         else if source = Some ''insufficient_substantive_evidence'' then Some ''insufficient_substantive_evidence''
         else if source = Some ''source_inconclusive'' then Some ''source_inconclusive''
         else if issueFamily \<noteq> None then issueFamily
         else fallback)"

definition buildAuditFailureSignature ::
    "string \<Rightarrow> string option \<Rightarrow> string option \<Rightarrow> string list \<Rightarrow> json \<Rightarrow> string option" where
  "buildAuditFailureSignature role classification family codes details =
     (let class = orelse classification (readNestedString details [''sourceClassification'']);
          parts = (''role:'' @ role) #
            (if truthy class then [''classification:'' @ the_default [] class] else []) @
            (if truthy family then [''family:'' @ the_default [] family] else []) @
            map (\<lambda>c. ''issue:'' @ c) (sorted_set (codes @ readIssueCodes details))
      in if length parts \<le> 1 then None else Some (js_join ''|'' parts))"

section \<open>Fingerprints of failures\<close>

record fingerprint_input =
  fi_taskId :: "string option"
  fi_stage :: "string option"
  fi_artifactPath :: "string option"
  fi_artifactSha :: "string option"
  fi_validatorIssueCodes :: "string list"
  fi_validationFingerprint :: "string option"
  fi_blockingFindingIds :: "string list"
  fi_sourceSnapshotId :: "string option"
  fi_allowedWritePaths :: "string list"
  fi_failureFamily :: "string option"

definition normalizedString :: "string option \<Rightarrow> string option" where
  "normalizedString v = (case v of None \<Rightarrow> None | Some s \<Rightarrow> if js_trim s = [] then None else Some (js_trim s))"

definition forward_slashes :: "string \<Rightarrow> string" where
  "forward_slashes s = map (\<lambda>c. if c = CHR 0x5C then CHR ''/'' else c) s"

definition normalizedPath :: "string option \<Rightarrow> string option" where
  "normalizedPath v = map_option (\<lambda>s. js_lower (forward_slashes s)) (normalizedString v)"

definition normalizedLower :: "string option \<Rightarrow> string option" where
  "normalizedLower v = map_option js_lower (normalizedString v)"

definition normalizedStringSet :: "string list \<Rightarrow> string list" where
  "normalizedStringSet xs = sorted_set (List.map_filter (normalizedLower \<circ> Some) xs)"

definition normalizedPathSet :: "string list \<Rightarrow> string list" where
  "normalizedPathSet xs = sorted_set (List.map_filter (normalizedPath \<circ> Some) xs)"

definition normalized_input :: "fingerprint_input \<Rightarrow> fingerprint_input" where
  "normalized_input f =
     \<lparr>fi_taskId = normalizedString (fi_taskId f), fi_stage = normalizedLower (fi_stage f),
      fi_artifactPath = normalizedPath (fi_artifactPath f), fi_artifactSha = normalizedLower (fi_artifactSha f),
      fi_validatorIssueCodes = normalizedStringSet (fi_validatorIssueCodes f),
      fi_validationFingerprint = normalizedLower (fi_validationFingerprint f),
      fi_blockingFindingIds = normalizedStringSet (fi_blockingFindingIds f),
      fi_sourceSnapshotId = normalizedString (fi_sourceSnapshotId f),
      fi_allowedWritePaths = normalizedPathSet (fi_allowedWritePaths f),
      fi_failureFamily = normalizedLower (fi_failureFamily f)\<rparr>"

definition json_opt :: "string option \<Rightarrow> json" where
  "json_opt v = (case v of None \<Rightarrow> JNull | Some s \<Rightarrow> JStr s)"

definition fingerprint_json :: "fingerprint_input \<Rightarrow> json" where
  "fingerprint_json f = JObj
     [(''taskId'', json_opt (fi_taskId f)), (''stage'', json_opt (fi_stage f)),
      (''artifactPath'', json_opt (fi_artifactPath f)), (''artifactSha'', json_opt (fi_artifactSha f)),
      (''validatorIssueCodes'', JArr (map JStr (fi_validatorIssueCodes f))),
      (''validationFingerprint'', json_opt (fi_validationFingerprint f)),
      (''blockingFindingIds'', JArr (map JStr (fi_blockingFindingIds f))),
      (''sourceSnapshotId'', json_opt (fi_sourceSnapshotId f)),
      (''allowedWritePaths'', JArr (map JStr (fi_allowedWritePaths f))),
      (''failureFamily'', json_opt (fi_failureFamily f))]"

text \<open>The hash is the argument \<open>sha\<close>: SHA-256 of a text in hexadecimal.\<close>

definition buildFailureFingerprint :: "(string \<Rightarrow> string) \<Rightarrow> fingerprint_input \<Rightarrow> string" where
  "buildFailureFingerprint sha f = sha (json_text (fingerprint_json (normalized_input f)))"

text \<open>The text of a value with the entries of every object sorted, for the hash of a payload.\<close>

fun stableFingerprintJson :: "text_host \<Rightarrow> json \<Rightarrow> string" where
  "stableFingerprintJson h (JArr xs) = ''['' @ js_join '','' (map (stableFingerprintJson h) xs) @ '']''"
| "stableFingerprintJson h (JObj fs) = ''{'' @ js_join '','' (map snd
     (js_sort (\<lambda>a b. localeCompare h (fst a) (fst b))
       (map (\<lambda>(k, v). (k, json_string k @ '':'' @ stableFingerprintJson h v)) fs))) @ ''}''"
| "stableFingerprintJson h v = json_text v"

section \<open>Every failure has a known family\<close>

lemma known_families [simp]:
  "''external_blocker'' \<in> set AUDIT_FAILURE_FAMILIES"
  "''inconclusive_batch_evidence'' \<in> set AUDIT_FAILURE_FAMILIES"
  "''invalid_artifact_contract'' \<in> set AUDIT_FAILURE_FAMILIES"
  "''invalid_artifact_integrity'' \<in> set AUDIT_FAILURE_FAMILIES"
  "''invalid_artifact_content'' \<in> set AUDIT_FAILURE_FAMILIES"
  "''manual_review_required'' \<in> set AUDIT_FAILURE_FAMILIES"
  "''invalid_inventory_only'' \<in> set AUDIT_FAILURE_FAMILIES"
  "''insufficient_substantive_evidence'' \<in> set AUDIT_FAILURE_FAMILIES"
  "''source_inconclusive'' \<in> set AUDIT_FAILURE_FAMILIES"
  "''rework_needed'' \<in> set AUDIT_FAILURE_FAMILIES"
  "''missing_artifact'' \<in> set AUDIT_FAILURE_FAMILIES"
  "''missing_tool_evidence'' \<in> set AUDIT_FAILURE_FAMILIES"
  "''manual_exception'' \<in> set AUDIT_FAILURE_FAMILIES"
  "''synthesis_not_ready'' \<in> set AUDIT_FAILURE_FAMILIES"
  by (simp_all only: AUDIT_FAILURE_FAMILIES_def list.set insert_iff simp_thms)

lemma issue_family_known:
  "the_default ''external_blocker'' (map_of TASK_COMPLETION_ISSUE_FAILURE_FAMILIES code) \<in> set AUDIT_FAILURE_FAMILIES"
proof (cases "map_of TASK_COMPLETION_ISSUE_FAILURE_FAMILIES code")
  case None
  then show ?thesis by simp
next
  case (Some f)
  have "list_all (\<lambda>e. snd e \<in> set AUDIT_FAILURE_FAMILIES) TASK_COMPLETION_ISSUE_FAILURE_FAMILIES"
    by (simp only: TASK_COMPLETION_ISSUE_FAILURE_FAMILIES_def list.pred_inject snd_conv known_families simp_thms)
  then show ?thesis using Some map_of_SomeD [OF Some] by (auto simp: list_all_iff)
qed

lemma completion_family_known: "selectTaskCompletionAuditFailureFamily codes \<in> set AUDIT_FAILURE_FAMILIES"
  unfolding selectTaskCompletionAuditFailureFamily_def mapTaskCompletionIssueCodeToAuditFailureFamily_def
  by (simp add: issue_family_known split: option.split list.split)

text \<open>Which issues decide: the isolation of branches, then the audit's outcome, then the contract, then integrity.\<close>

lemma completion_family_priority:
  "''branch_isolation'' \<in> set codes \<Longrightarrow> selectTaskCompletionAuditFailureFamily codes = ''external_blocker''"
  "''branch_isolation'' \<notin> set codes \<Longrightarrow> ''audit_inconclusive'' \<in> set codes \<Longrightarrow>
     selectTaskCompletionAuditFailureFamily codes = ''inconclusive_batch_evidence''"
  by (simp_all add: selectTaskCompletionAuditFailureFamily_def)

definition known_or :: "string option \<Rightarrow> string option \<Rightarrow> bool" where
  "known_or fb f \<longleftrightarrow> f = None \<or> f = fb \<or> the f \<in> set AUDIT_FAILURE_FAMILIES"

lemma known_or_if: "(known_or fb x \<and> known_or fb y) \<Longrightarrow> known_or fb (if b then x else y)"
  by simp

lemma known_or_simps: "known_or fb None" "known_or fb fb" "f \<in> set AUDIT_FAILURE_FAMILIES \<Longrightarrow> known_or fb (Some f)"
  by (simp_all add: known_or_def)

lemma audit_family_known: "known_or fb (selectAuditArtifactFailureFamily codes c v fb)"
  unfolding selectAuditArtifactFailureFamily_def Let_def
  by (intro known_or_if conjI known_or_simps known_families completion_family_known)

section \<open>Fingerprints and order\<close>

lemma sorted_set_cong: "set xs = set ys \<Longrightarrow> sorted_set xs = sorted_set ys"
  by (metis distinct_remdups set_remdups sorted_distinct_set_unique sorted_sort distinct_sort set_sort sorted_set_def)

lemma set_sorted_set [simp]: "set (sorted_set xs) = set xs"
  by (simp add: sorted_set_def)

lemma sorted_set_idem: "sorted_set (sorted_set xs) = sorted_set xs"
  by (rule sorted_set_cong) simp

lemma js_space_lower: "js_space (js_lower_char c) = js_space c"
  by (auto simp: js_space_def js_lower_char_def Let_def)

lemma js_lower_idem: "js_lower (js_lower s) = js_lower s"
proof -
  have "js_lower_char (js_lower_char c) = js_lower_char c" for c
    by (auto simp: js_lower_char_def Let_def)
  then show ?thesis by (simp add: js_lower_def comp_def)
qed

lemma js_trim_map:
  assumes "\<And>c. js_space (f c) = js_space c"
  shows "js_trim (map f s) = map f (js_trim s)"
  using assms by (simp add: js_trim_def dropWhile_map comp_def rev_map)

lemma js_trim_idem: "js_trim (js_trim s) = js_trim s"
proof (cases "js_trim s = []")
  case True
  show ?thesis unfolding True by (simp add: js_trim_def)
next
  case False
  then show ?thesis using js_trim_ends [OF False] by (intro js_trim_trimmed) (simp add: trimmed_def)
qed

lemma js_trim_lower: "js_trim (js_lower s) = js_lower (js_trim s)"
  unfolding js_lower_def by (rule js_trim_map) (rule js_space_lower)

lemma js_trim_slashes: "js_trim (forward_slashes s) = forward_slashes (js_trim s)"
  unfolding forward_slashes_def by (rule js_trim_map) (simp add: js_space_def)

lemma slashes_lower: "forward_slashes (js_lower s) = js_lower (forward_slashes s)"
proof -
  have "(if js_lower_char c = CHR 0x5C then CHR ''/'' else js_lower_char c) =
      js_lower_char (if c = CHR 0x5C then CHR ''/'' else c)" for c
    by (auto simp: js_lower_char_def Let_def dest: arg_cong [where f = "of_char :: char \<Rightarrow> nat"])
  then show ?thesis by (simp add: forward_slashes_def js_lower_def comp_def)
qed

lemma slashes_idem: "forward_slashes (forward_slashes s) = forward_slashes s"
  by (simp add: forward_slashes_def)

lemma normalized_idem:
  "normalizedString (normalizedString v) = normalizedString v"
  "normalizedLower (normalizedLower v) = normalizedLower v"
  "normalizedPath (normalizedPath v) = normalizedPath v"
proof -
  have e: "js_lower s = [] \<longleftrightarrow> s = []" "forward_slashes s = [] \<longleftrightarrow> s = []" for s
    by (simp_all add: js_lower_def forward_slashes_def)
  show "normalizedString (normalizedString v) = normalizedString v"
    by (simp add: normalizedString_def js_trim_idem split: option.split)
  show "normalizedLower (normalizedLower v) = normalizedLower v"
    by (auto simp: normalizedLower_def normalizedString_def js_trim_lower js_trim_idem js_lower_idem e split: option.split)
  show "normalizedPath (normalizedPath v) = normalizedPath v"
    by (auto simp: normalizedPath_def normalizedString_def js_trim_lower js_trim_slashes js_trim_idem js_lower_idem
        slashes_lower slashes_idem e split: option.split)
qed

lemma normalized_set_idem:
  assumes "\<And>v. g (g v) = g v" and "g None = None"
  shows "sorted_set (List.map_filter (g \<circ> Some) (sorted_set (List.map_filter (g \<circ> Some) xs))) =
    sorted_set (List.map_filter (g \<circ> Some) xs)"
proof -
  let ?n = "sorted_set (List.map_filter (g \<circ> Some) xs)"
  have "g (Some y) = Some y" if "y \<in> set ?n" for y
  proof -
    have "y \<in> set (List.map_filter (g \<circ> Some) xs)" using that by simp
    then obtain x where "g (Some x) = Some y" by (auto simp: map_filter_def)
    then show ?thesis using assms(1) [of "Some x"] by simp
  qed
  moreover have "List.map_filter (g \<circ> Some) ys = ys" if "\<And>y. y \<in> set ys \<Longrightarrow> g (Some y) = Some y" for ys
    using that by (induction ys) (simp_all add: List.map_filter_simps)
  ultimately have "List.map_filter (g \<circ> Some) ?n = ?n" by blast
  then show ?thesis by (simp add: sorted_set_idem)
qed

lemma normalized_input_idem: "normalized_input (normalized_input f) = normalized_input f"
proof -
  have n: "normalizedLower None = None" "normalizedPath None = None"
    by (simp_all add: normalizedLower_def normalizedPath_def normalizedString_def)
  show ?thesis
    using normalized_set_idem [of normalizedLower] normalized_set_idem [of normalizedPath] n
    by (simp add: normalized_input_def normalized_idem normalizedStringSet_def normalizedPathSet_def)
qed

section \<open>The hashed text is unambiguous\<close>

definition hex_value :: "char \<Rightarrow> nat" where
  "hex_value c = (let n = (of_char c :: nat) in if n < 58 then n - 48 else n - 87)"

lemma hex_value_digit: "n < 16 \<Longrightarrow> hex_value (hex_digit n) = n"
  by (simp add: hex_value_def hex_digit_def Let_def)

text \<open>Reading back one character of a JSON string.\<close>

fun read_json_char :: "string \<Rightarrow> char \<times> string" where
  "read_json_char s =
     (case s of
        c # e # r \<Rightarrow>
          if c \<noteq> CHR 0x5C then (c, e # r)
          else if e = CHR ''b'' then (char_of (8 :: nat), r) else if e = CHR ''t'' then (char_of (9 :: nat), r)
          else if e = CHR ''n'' then (char_of (10 :: nat), r) else if e = CHR ''f'' then (char_of (12 :: nat), r)
          else if e = CHR ''r'' then (char_of (13 :: nat), r)
          else if e = CHR ''u''
          then (char_of (16 * hex_value (r ! 2) + hex_value (r ! 3)), drop 4 r)
          else (e, r)
      | c # [] \<Rightarrow> (c, [])
      | [] \<Rightarrow> (CHR 0x00, []))"

lemma read_json_char_back: "read_json_char (json_char c @ x) = (c, x)"
proof -
  have n: "of_char c = k \<Longrightarrow> char_of k = c" for k :: nat by auto
  consider "(of_char c :: nat) \<in> {34, 92}" | "(of_char c :: nat) \<in> {8, 9, 10, 12, 13}"
    | "(of_char c :: nat) < 32" "(of_char c :: nat) \<notin> {8, 9, 10, 12, 13}"
    | "(of_char c :: nat) \<ge> 32" "(of_char c :: nat) \<notin> {34, 92}" by fastforce
  then show ?thesis
  proof cases
    case 1
    have "char_of (34 :: nat) = CHR 0x22" "char_of (92 :: nat) = CHR 0x5C" by code_simp+
    moreover have "(of_char c :: nat) = 34 \<or> (of_char c :: nat) = 92" using 1 by simp
    ultimately have "c = CHR 0x22 \<or> c = CHR 0x5C" using n by metis
    then show ?thesis by (elim disjE) (simp_all add: json_char_def)
  next
    case 2
    then have "c = char_of (8 :: nat) \<or> c = char_of (9 :: nat) \<or> c = char_of (10 :: nat) \<or>
      c = char_of (12 :: nat) \<or> c = char_of (13 :: nat)" using n by blast
    then show ?thesis by (elim disjE) (simp_all add: json_char_def)
  next
    case 3
    let ?n = "of_char c :: nat"
    have h: "hex_value (hex_digit (?n div 16)) = ?n div 16" "hex_value (hex_digit (?n mod 16)) = ?n mod 16"
      using 3 by (simp_all add: hex_value_digit)
    have "16 * (?n div 16) + ?n mod 16 = ?n" by simp
    then show ?thesis using 3 h by (simp add: json_char_def Let_def)
  next
    case 4
    then have "c \<noteq> CHR 0x5C" by auto
    then show ?thesis using 4 by (cases x) (simp_all add: json_char_def Let_def)
  qed
qed

lemma json_char_decode: "json_char c @ x = json_char d @ y \<Longrightarrow> c = d \<and> x = y"
  by (metis Pair_inject read_json_char_back)

lemma json_char_quote: "json_char c @ x \<noteq> CHR 0x22 # y"
  by (auto simp: json_char_def Let_def)

lemma json_string_decode: "json_string s @ x = json_string t @ y \<Longrightarrow> s = t \<and> x = y"
proof (induction s arbitrary: t)
  case Nil
  then show ?case by (cases t) (auto simp: json_string_def json_char_quote [symmetric])
next
  case (Cons c s)
  show ?case
  proof (cases t)
    case Nil
    then show ?thesis using Cons.prems by (auto simp: json_string_def json_char_quote)
  next
    case (Cons d u)
    then have "json_char c @ concat (map json_char s) @ CHR 0x22 # x =
        json_char d @ concat (map json_char u) @ CHR 0x22 # y"
      using Cons.prems by (simp add: json_string_def)
    then have "c = d" "concat (map json_char s) @ CHR 0x22 # x = concat (map json_char u) @ CHR 0x22 # y"
      using json_char_decode by blast+
    then show ?thesis using Cons.IH [of u] Cons by (simp add: json_string_def)
  qed
qed

lemma json_opt_decode: "json_text (json_opt a) @ x = json_text (json_opt b) @ y \<Longrightarrow> a = b \<and> x = y"
proof -
  assume e: "json_text (json_opt a) @ x = json_text (json_opt b) @ y"
  have n: "json_string s @ u \<noteq> CHR ''n'' # v" for s u v by (simp add: json_string_def)
  show ?thesis
  proof (cases a; cases b)
    fix s t assume "a = Some s" "b = Some t"
    then show ?thesis using e json_string_decode [of s x t y] by (simp add: json_opt_def)
  qed (use e n n [symmetric] in \<open>simp_all add: json_opt_def\<close>)
qed

lemma json_strings_decode:
  "js_join '','' (map json_string xs) @ '']'' @ r = js_join '','' (map json_string ys) @ '']'' @ q \<Longrightarrow> xs = ys \<and> r = q"
proof (induction xs arbitrary: ys)
  case Nil
  then show ?case by (cases ys; cases "tl ys") (auto simp: json_string_def)
next
  case (Cons x xs)
  then obtain z zs where ys: "ys = z # zs" by (cases ys; cases xs) (auto simp: json_string_def)
  show ?case
  proof (cases xs)
    case Nil
    then have "json_string x @ '']'' @ r = json_string z @ (if zs = [] then '']'' @ q
        else '','' @ js_join '','' (map json_string zs) @ '']'' @ q)"
      using Cons.prems ys by (cases zs) simp_all
    from json_string_decode [OF this] show ?thesis using Nil ys by (auto split: if_splits)
  next
    case (Cons w ws)
    then have "json_string x @ '','' @ js_join '','' (map json_string xs) @ '']'' @ r =
      json_string z @ (if zs = [] then '']'' @ q
        else '','' @ js_join '','' (map json_string zs) @ '']'' @ q)"
      using Cons.prems ys by (cases zs) simp_all
    from json_string_decode [OF this] show ?thesis using Cons.IH [of zs] ys by (auto split: if_splits)
  qed
qed

lemma json_array_decode:
  "json_text (JArr (map JStr xs)) @ r = json_text (JArr (map JStr ys)) @ q \<Longrightarrow> xs = ys \<and> r = q"
  using json_strings_decode [of xs r ys q] by (simp add: comp_def)

lemma fingerprint_text:
  "json_text (fingerprint_json f) = ''{'' @
     json_string ''taskId'' @ '':'' @ json_text (json_opt (fi_taskId f)) @ '','' @
     json_string ''stage'' @ '':'' @ json_text (json_opt (fi_stage f)) @ '','' @
     json_string ''artifactPath'' @ '':'' @ json_text (json_opt (fi_artifactPath f)) @ '','' @
     json_string ''artifactSha'' @ '':'' @ json_text (json_opt (fi_artifactSha f)) @ '','' @
     json_string ''validatorIssueCodes'' @ '':'' @ json_text (JArr (map JStr (fi_validatorIssueCodes f))) @ '','' @
     json_string ''validationFingerprint'' @ '':'' @ json_text (json_opt (fi_validationFingerprint f)) @ '','' @
     json_string ''blockingFindingIds'' @ '':'' @ json_text (JArr (map JStr (fi_blockingFindingIds f))) @ '','' @
     json_string ''sourceSnapshotId'' @ '':'' @ json_text (json_opt (fi_sourceSnapshotId f)) @ '','' @
     json_string ''allowedWritePaths'' @ '':'' @ json_text (JArr (map JStr (fi_allowedWritePaths f))) @ '','' @
     json_string ''failureFamily'' @ '':'' @ json_text (json_opt (fi_failureFamily f)) @ ''}''"
  by (simp add: fingerprint_json_def)

lemma fingerprint_text_inj:
  "json_text (fingerprint_json f) = json_text (fingerprint_json g) \<Longrightarrow> f = g"
  by (auto simp only: fingerprint_text same_append_eq append_assoc simp_thms
      dest!: json_opt_decode json_array_decode intro!: fingerprint_input.equality) simp

section \<open>Properties\<close>

text \<open>
  The family a failure is given is one of the declared families, whatever the validation details hold:
  for a failed completion always, for an artifact unless nothing in its details tells, and then it is the
  caller's fallback.
\<close>

theorem failure_family_is_known:
  "selectTaskCompletionAuditFailureFamily codes \<in> set AUDIT_FAILURE_FAMILIES \<and>
   (selectAuditArtifactFailureFamily cs c v fb \<in> {None, fb} \<or>
    the (selectAuditArtifactFailureFamily cs c v fb) \<in> set AUDIT_FAILURE_FAMILIES)"
  using audit_family_known [of fb cs c v] completion_family_known [of codes] by (auto simp: known_or_def)

text \<open>
  The text that is hashed into a failure fingerprint identifies the failure: two failures have the same
  text exactly when they agree after normalisation, and normalising twice changes nothing, so a fingerprint
  computed from a stored normalised input is the fingerprint that was stored.
\<close>

theorem fingerprint_identifies_failure:
  "(json_text (fingerprint_json (normalized_input f)) = json_text (fingerprint_json (normalized_input g)) \<longleftrightarrow>
    normalized_input f = normalized_input g) \<and>
   buildFailureFingerprint sha (normalized_input f) = buildFailureFingerprint sha f"
  using fingerprint_text_inj by (auto simp: buildFailureFingerprint_def normalized_input_idem)

end
