(* ===== verification/Roadmap_Artifacts.thy ===== *)
theory Roadmap_Artifacts
  imports Task_Hierarchy Provider_Meta Js_Date Failure_Families
begin

text \<open>
  How the state of a report of an audit batch changes: \<open>updateRoadmapBatchArtifactState\<close> of
  \<open>packages/data/src/index.ts\<close> with the attempts it records, the task-stage attempts and failure
  fingerprints, and the activity log of a task. Identifiers that \<open>crypto.randomUUID()\<close> makes and the
  column \<open>failureSignature\<close>, which nothing modelled reads, are left out of the rows.
\<close>

section \<open>The activity log of a task\<close>

definition appendTaskActivityLog :: "string \<Rightarrow> string \<Rightarrow> int \<Rightarrow> db \<Rightarrow> db" where
  "appendTaskActivityLog i newLines now d =
     setTaskFields i (\<lambda>r. r\<lparr>lastHeartbeatAt := Some now, updatedAt := now\<rparr>) now
       (if findTaskById i d = None then d
        else d\<lparr>activity := activity d @ [(i, [], redactProviderText newLines)]\<rparr>)"

definition stamped :: "int \<Rightarrow> string \<Rightarrow> string" where
  "stamped now s = ''['' @ toISOString now @ ''] '' @ s"

section \<open>The state of a roadmap artifact\<close>

fun readAuditSynthesisOutcomeKind :: "json \<Rightarrow> string option" where
  "readAuditSynthesisOutcomeKind v =
     (case (case jobject (jget ''auditSynthesisOutcome'' v) of
              Some k \<Rightarrow> jstring (jget ''kind'' k) | None \<Rightarrow> None) of
        Some k \<Rightarrow> Some k
      | None \<Rightarrow> (case jobject (jget ''evidence'' v) of
          Some e \<Rightarrow> readAuditSynthesisOutcomeKind e | None \<Rightarrow> None))"

declare readAuditSynthesisOutcomeKind.simps [simp del]

text \<open>
  The argument of the update; the failure family and the validation details are \<^term>\<open>None\<close> where the
  caller leaves them out, and the family is \<open>Some None\<close> where the caller passes \<open>null\<close>.
\<close>

record artifact_update =
  au_state :: artifact_state
  au_failureFamily :: "string option option"
  au_classification :: "string option"
  au_reworkStatus :: "rework_status option"
  au_attemptBoundaryId :: "string option"
  au_createAttemptBoundary :: bool
  au_validationDetails :: "json option"
  au_branchName :: "string option"
  au_worktreePath :: "string option"
  au_projectRoot :: "string option"
  au_contentSha :: "string option"

definition next_attempt_number :: "string \<Rightarrow> db \<Rightarrow> int" where
  "next_attempt_number aid d =
     (case map attemptNumber (filter (\<lambda>t. attemptArtifactId t = aid) (attempts d)) of
        [] \<Rightarrow> 0 | n # ns \<Rightarrow> fold max ns n) + 1"

definition update_artifacts :: "(artifact_row \<Rightarrow> bool) \<Rightarrow> (artifact_row \<Rightarrow> artifact_row) \<Rightarrow> db \<Rightarrow> db" where
  "update_artifacts p f d = d\<lparr>artifacts := map (\<lambda>a. if p a then f a else a) (artifacts d)\<rparr>"

definition justified :: "json \<Rightarrow> bool" where
  "justified v = (case jstring (jget ''justification'' v) of None \<Rightarrow> False | Some s \<Rightarrow> js_trim s \<noteq> [])"

definition stale_boundary :: "artifact_row \<Rightarrow> artifact_update \<Rightarrow> bool" where
  "stale_boundary a u \<longleftrightarrow> \<not> au_createAttemptBoundary u \<and> artifactAttemptBoundaryId a \<noteq> None \<and>
     au_attemptBoundaryId u \<noteq> artifactAttemptBoundaryId a"

definition update_details :: "artifact_row \<Rightarrow> artifact_update \<Rightarrow> json" where
  "update_details a u = the_default (artifactValidationDetails a) (au_validationDetails u)"

text \<open>A synthesis that is accepted although its final status is \<open>audit_inconclusive\<close>.\<close>

definition acceptedTerminalAuditInconclusive :: "artifact_row \<Rightarrow> artifact_update \<Rightarrow> bool" where
  "acceptedTerminalAuditInconclusive a u \<longleftrightarrow>
     au_state u = Valid \<and> artifactRole a = ''synthesis'' \<and> final_inconclusive (update_details a u)"

definition update_classification :: "artifact_row \<Rightarrow> artifact_update \<Rightarrow> string option" where
  "update_classification a u = orelse (au_classification u)
     (if acceptedTerminalAuditInconclusive a u
      then Some (the_default ''source_inconclusive'' (readAuditSynthesisOutcomeKind (update_details a u)))
      else readAuditSourceClassification (update_details a u))"

definition update_family :: "artifact_row \<Rightarrow> artifact_update \<Rightarrow> string option" where
  "update_family a u =
     (if acceptedTerminalAuditInconclusive a u then None
      else the_default (selectAuditArtifactFailureFamily None (update_classification a u) (update_details a u) None)
        (au_failureFamily u))"

definition update_boundary :: "artifact_row \<Rightarrow> artifact_update \<Rightarrow> string \<Rightarrow> string option" where
  "update_boundary a u uuid =
     (if au_createAttemptBoundary u then Some (the_default uuid (au_attemptBoundaryId u))
      else orelse (au_attemptBoundaryId u) (artifactAttemptBoundaryId a))"

definition recorded_attempt :: "artifact_row \<Rightarrow> artifact_update \<Rightarrow> string \<Rightarrow> db \<Rightarrow> attempt_row" where
  "recorded_attempt a u uuid d =
     \<lparr>attemptArtifactId = artifactId a, attemptTaskId = artifactTaskId a, attemptRole = artifactRole a,
      attemptNumber = next_attempt_number (artifactId a) d, attemptState = au_state u,
      attemptClassification = update_classification a u, attemptFailureFamily = update_family a u,
      attemptReworkStatus = the_default (if au_state u = Valid then Accepted else Not_Applicable) (au_reworkStatus u),
      attemptValidationDetails = update_details a u, attemptBoundaryId = update_boundary a u uuid,
      attemptContentSha = orelse (au_contentSha u) (artifactContentSha a)\<rparr>"

definition updated_artifact ::
    "artifact_row \<Rightarrow> artifact_update \<Rightarrow> string \<Rightarrow> int \<Rightarrow> int \<Rightarrow> artifact_row \<Rightarrow> artifact_row" where
  "updated_artifact a u uuid n now x =
     x\<lparr>artifactState := au_state u, artifactFailureFamily := update_family a u,
       artifactValidationDetails := update_details a u,
       artifactBranchName := orelse (au_branchName u) (artifactBranchName a),
       artifactWorktreePath := orelse (au_worktreePath u) (artifactWorktreePath a),
       artifactProjectRoot := orelse (au_projectRoot u) (artifactProjectRoot a),
       artifactContentSha := orelse (au_contentSha u) (artifactContentSha a),
       artifactAttemptNumber := n, artifactAttemptBoundaryId := update_boundary a u uuid,
       artifactValidatedAt := (if au_state u = Valid then Some now else None), artifactUpdatedAt := now\<rparr>"

text \<open>The transaction: the attempt is always recorded, the row is rewritten unless the boundary is stale.\<close>

definition write_artifact_state :: "artifact_row \<Rightarrow> artifact_update \<Rightarrow> string \<Rightarrow> int \<Rightarrow> db \<Rightarrow> db" where
  "write_artifact_state a u uuid now d =
     (let d1 = d\<lparr>attempts := attempts d @ [recorded_attempt a u uuid d]\<rparr> in
      if stale_boundary a u then d1
      else update_artifacts (\<lambda>x. artifactId x = artifactId a)
        (updated_artifact a u uuid (next_attempt_number (artifactId a) d) now) d1)"

definition updateRoadmapBatchArtifactState ::
    "string \<Rightarrow> artifact_update \<Rightarrow> string \<Rightarrow> int \<Rightarrow> db \<Rightarrow> string + db \<times> batch_summary option" where
  "updateRoadmapBatchArtifactState i u uuid now d =
     (case findRoadmapBatchArtifactByTaskId i d of
        None \<Rightarrow> Inr (d, None)
      | Some a \<Rightarrow>
          if au_state u = Manual_Exception_State \<and> \<not> justified (update_details a u)
          then Inl ''manual_exception requires a non-empty justification''
          else Inr (refreshRoadmapBatchSummary (artifactBatchId a) now (write_artifact_state a u uuid now d)))"

section \<open>Failure families\<close>

definition artifactStateForFailureFamily :: "string \<Rightarrow> bool \<Rightarrow> artifact_state" where
  "artifactStateForFailureFamily family terminal =
     (if family = ''missing_artifact'' then Missing
      else if family = ''synthesis_not_ready'' then Synthesis_Not_Ready
      else if family = ''inconclusive_batch_evidence'' then Terminal_Inconclusive
      else if family = ''manual_exception'' then Manual_Exception_State
      else if terminal \<and> (family = ''source_inconclusive'' \<or> family = ''insufficient_substantive_evidence'')
        then Source_Inconclusive
      else if family = ''external_blocker'' then External_Blocked
      else Invalid)"

section \<open>Failure fingerprints\<close>

definition read_override :: "json \<Rightarrow> bool" where
  "read_override v = (jget ''explicitOperatorOverride'' v = Some (JBool True))"

text \<open>How often a fingerprint failed before, and whether an operator has overridden every failure.\<close>

definition prior_failures :: "nat \<Rightarrow> nat \<Rightarrow> bool \<times> bool" where
  "prior_failures plain overrides = (0 < plain, 0 < plain \<and> plain \<le> overrides)"

definition priorRoadmapFailureFingerprint :: "string \<Rightarrow> string \<Rightarrow> db \<Rightarrow> bool \<times> bool" where
  "priorRoadmapFailureFingerprint aid fp d =
     (let matching = filter (\<lambda>t. jstring (jget ''failureFingerprint'' (attemptValidationDetails t)) = Some fp)
            (listRoadmapBatchArtifactAttempts aid d)
      in prior_failures
           (length (filter (\<lambda>t. attemptReworkStatus t = Rework_Requested \<and>
              \<not> read_override (attemptValidationDetails t)) matching))
           (length (filter (\<lambda>t. read_override (attemptValidationDetails t)) matching)))"

definition repeatedAuditFailureCount :: "string \<Rightarrow> string \<Rightarrow> db \<Rightarrow> nat" where
  "repeatedAuditFailureCount aid fp d =
     (case priorRoadmapFailureFingerprint aid fp d of
        (repeated, override) \<Rightarrow> if repeated then (if override then 0 else 1) else 0)"

definition priorTaskStageFailureFingerprint :: "string \<Rightarrow> string \<Rightarrow> string \<Rightarrow> string \<Rightarrow> db \<Rightarrow> bool \<times> bool" where
  "priorTaskStageFailureFingerprint i stage kind fp d =
     (let matching = filter (\<lambda>t. stageAttemptFingerprint t = Some fp)
            (filter (\<lambda>t. stageAttemptTaskId t = i \<and> stageAttemptStage t = stage \<and> stageAttemptKind t = kind)
               (stageAttempts d))
      in prior_failures (length (filter (\<lambda>t. \<not> stageAttemptOverride t) matching))
           (length (filter stageAttemptOverride matching)))"

text \<open>Recording an attempt fails for a task that is gone.\<close>

definition recordFailureFingerprintAttempt :: "string \<Rightarrow> string \<Rightarrow> string \<Rightarrow> bool \<Rightarrow> db \<Rightarrow> string + db" where
  "recordFailureFingerprintAttempt i stage fp override d =
     (if findTaskById i d = None then Inl ''Task not found''
      else Inr (d\<lparr>stageAttempts := stageAttempts d @
        [\<lparr>stageAttemptTaskId = i, stageAttemptStage = stage, stageAttemptKind = ''failure_fingerprint'',
          stageAttemptFingerprint = Some fp, stageAttemptOverride = override\<rparr>]\<rparr>))"


section \<open>The newest attempt\<close>

lemma insort_key_snoc: "f y \<le> f x \<Longrightarrow> insort_key f y (zs @ [x]) = insort_key f y zs @ [x]"
  by (induction zs) simp_all

lemma sort_key_snoc: "(\<And>y. y \<in> set xs \<Longrightarrow> f y \<le> f x) \<Longrightarrow> sort_key f (xs @ [x]) = sort_key f xs @ [x]"
  by (induction xs) (simp_all add: insort_key_snoc)

lemma next_attempt_is_new:
  assumes "t \<in> set (attempts d)" and "attemptArtifactId t = aid"
  shows "attemptNumber t < next_attempt_number aid d"
proof -
  let ?ns = "map attemptNumber (filter (\<lambda>t. attemptArtifactId t = aid) (attempts d))"
  have "attemptNumber t \<in> set ?ns" using assms by auto
  then obtain n ns where ns: "?ns = n # ns" "attemptNumber t \<in> set (n # ns)" by (cases ?ns) auto
  have "fold max ns n = Max (set (n # ns))" by (rule Max.set_eq_fold [symmetric])
  then have "attemptNumber t \<le> fold max ns n" using ns(2) by simp
  then show ?thesis using ns(1) by (simp add: next_attempt_number_def)
qed

lemma last_attempt_appended:
  assumes "attempts d' = attempts d @ [t]" and "attemptArtifactId t = aid"
    and "attemptNumber t = next_attempt_number aid d"
  shows "last_attempt aid d' = Some t"
proof -
  have "sort_key attemptNumber (filter (\<lambda>t. attemptArtifactId t = aid) (attempts d) @ [t]) =
      sort_key attemptNumber (filter (\<lambda>t. attemptArtifactId t = aid) (attempts d)) @ [t]"
    using assms(3) by (intro sort_key_snoc) (auto intro: less_imp_le [OF next_attempt_is_new])
  then show ?thesis using assms(1,2)
    by (simp add: last_attempt_def listRoadmapBatchArtifactAttempts_def Let_def)
qed

lemma refreshRoadmapBatchSummary_tables [simp, aif_frame]:
  "artifacts (fst (refreshRoadmapBatchSummary b now d)) = artifacts d"
  "attempts (fst (refreshRoadmapBatchSummary b now d)) = attempts d"
  "stageAttempts (fst (refreshRoadmapBatchSummary b now d)) = stageAttempts d"
  "comments (fst (refreshRoadmapBatchSummary b now d)) = comments d"
  by (simp_all add: refreshRoadmapBatchSummary_def Let_def update_batches_def split: option.split prod.split)

lemma findArtifact_Some:
  assumes "findRoadmapBatchArtifactByTaskId i d = Some a"
  shows "a \<in> set (artifacts d)" and "artifactTaskId a = i"
proof -
  let ?s = "sort_key (\<lambda>a. - artifactCreatedAt a) (filter (\<lambda>a. artifactTaskId a = i) (artifacts d))"
  have "a \<in> set ?s" using assms by (cases ?s) (simp_all add: findRoadmapBatchArtifactByTaskId_def)
  then show "a \<in> set (artifacts d)" "artifactTaskId a = i" by simp_all
qed

text \<open>What an update leaves behind: one more attempt, and the row of the artifact as it was or rewritten.\<close>

lemma write_artifact_state_tables:
  "attempts (write_artifact_state a u uuid now d) = attempts d @ [recorded_attempt a u uuid d]"
  "artifacts (write_artifact_state a u uuid now d) =
     (if stale_boundary a u then artifacts d
      else map (\<lambda>x. if artifactId x = artifactId a
        then updated_artifact a u uuid (next_attempt_number (artifactId a) d) now x else x) (artifacts d))"
  "tasks (write_artifact_state a u uuid now d) = tasks d"
  by (simp_all add: write_artifact_state_def update_artifacts_def Let_def)

lemma update_tables:
  assumes "updateRoadmapBatchArtifactState i u uuid now d = Inr (d', s)"
    and "findRoadmapBatchArtifactByTaskId i d = Some a"
  shows "attempts d' = attempts d @ [recorded_attempt a u uuid d]"
    and "artifacts d' = artifacts (write_artifact_state a u uuid now d)"
    and "last_attempt (artifactId a) d' = Some (recorded_attempt a u uuid d)"
proof -
  have d': "d' = fst (refreshRoadmapBatchSummary (artifactBatchId a) now (write_artifact_state a u uuid now d))"
    using assms by (simp add: updateRoadmapBatchArtifactState_def split: if_splits)
  then show t: "attempts d' = attempts d @ [recorded_attempt a u uuid d]"
    and "artifacts d' = artifacts (write_artifact_state a u uuid now d)"
    by (simp_all add: write_artifact_state_tables)
  show "last_attempt (artifactId a) d' = Some (recorded_attempt a u uuid d)"
    by (rule last_attempt_appended [OF t]) (simp_all add: recorded_attempt_def)
qed

lemma listed_artifact_is_found:
  assumes "findRoadmapBatchArtifactByTaskId i d = Some a"
    and "artifacts d' = map g (artifacts d)"
    and "\<And>x. artifactTaskId (g x) = artifactTaskId x" "\<And>x. artifactCreatedAt (g x) = artifactCreatedAt x"
  shows "findRoadmapBatchArtifactByTaskId i d' = Some (g a)"
proof -
  have "filter (\<lambda>a. artifactTaskId a = i) (map g xs) = map g (filter (\<lambda>a. artifactTaskId a = i) xs)" for xs
    by (induction xs) (simp_all add: assms(3))
  moreover have "sort_key (\<lambda>a. - artifactCreatedAt a) (map g xs) = map g (sort_key (\<lambda>a. - artifactCreatedAt a) xs)" for xs
  proof (induction xs)
    case (Cons x xs)
    have "insort_key (\<lambda>a. - artifactCreatedAt a) (g x) (map g ys) =
        map g (insort_key (\<lambda>a. - artifactCreatedAt a) x ys)" for ys
      by (induction ys) (simp_all add: assms(4))
    then show ?case using Cons by simp
  qed simp
  ultimately show ?thesis using assms(1,2)
    by (auto simp: findRoadmapBatchArtifactByTaskId_def split: list.splits)
qed

text \<open>
  An update that is not stale makes its attempt the current one of the artifact; a stale one leaves the
  row behind its newest attempt, and the artifact has no current attempt any more.
\<close>

lemma fresh_update:
  assumes "updateRoadmapBatchArtifactState i u uuid now d = Inr (d', s)"
    and "findRoadmapBatchArtifactByTaskId i d = Some a" and "\<not> stale_boundary a u"
  shows "\<exists>b. findRoadmapBatchArtifactByTaskId i d' = Some b \<and>
    b = updated_artifact a u uuid (next_attempt_number (artifactId a) d) now a \<and>
    latestCurrentRoadmapArtifactAttempt d' b = Some (recorded_attempt a u uuid d)"
proof -
  let ?g = "\<lambda>x. if artifactId x = artifactId a
    then updated_artifact a u uuid (next_attempt_number (artifactId a) d) now x else x"
  have "findRoadmapBatchArtifactByTaskId i d' = Some (?g a)"
    using assms update_tables(2) [OF assms(1,2)]
    by (intro listed_artifact_is_found [OF assms(2)]) (simp_all add: write_artifact_state_tables updated_artifact_def)
  then show ?thesis using update_tables(3) [OF assms(1,2)]
    by (simp add: latestCurrentRoadmapArtifactAttempt_def updated_artifact_def recorded_attempt_def)
qed

lemma stale_update:
  assumes "updateRoadmapBatchArtifactState i u uuid now d = Inr (d', s)"
    and "findRoadmapBatchArtifactByTaskId i d = Some a" and "stale_boundary a u"
    and "artifactAttemptNumber a < next_attempt_number (artifactId a) d"
  shows "findRoadmapBatchArtifactByTaskId i d' = Some a \<and> latestCurrentRoadmapArtifactAttempt d' a = None"
proof -
  have "findRoadmapBatchArtifactByTaskId i d' = Some a"
    using assms update_tables(2) [OF assms(1,2)]
    by (simp add: write_artifact_state_tables findRoadmapBatchArtifactByTaskId_def)
  then show ?thesis using update_tables(3) [OF assms(1,2)] assms(4)
    by (simp add: latestCurrentRoadmapArtifactAttempt_def recorded_attempt_def)
qed

lemma no_current_attempt_not_ready:
  "latestCurrentRoadmapArtifactAttempt d a = None \<Longrightarrow> \<not> roadmapReportArtifactReleaseReady d a"
  by (simp add: roadmapReportArtifactReleaseReady_def)

end
