(* ===== verification/Auto_Review.thy ===== *)
theory Auto_Review
  imports Roadmap_Artifacts Gate_Outcomes Watchdog
begin

text \<open>
  The handler around the review gate: \<open>packages/agent/src/autoReviewHandler.ts\<close>. The environment holds
  the two settings the handler reads, the gate's own environment for a task and a project root, and what
  it reads from the disk: the git snapshot of a worktree (\<open>reworkSnapshot.ts\<close>) and the digest of an
  artifact with whether its path is safe. \<open>maxReviewIterations\<close> is a column that is never null.
\<close>

section \<open>The environment and the outcome\<close>

record git_snapshot =
  gs_baselineHeadSha :: "string option"
  gs_changedFilesDigest :: string
  gs_changedFilesSummary :: "string list"

record auto_review_env =
  are_strategy :: review_strategy
  are_stallThreshold :: int
  are_gate :: "task_row \<Rightarrow> string \<Rightarrow> gate_env"
  are_gitSnapshot :: "string \<Rightarrow> git_snapshot option"
  are_artifactSha :: "string \<Rightarrow> string \<Rightarrow> string option \<times> bool"

datatype outcome_status =
    Outcome_Accepted | Outcome_Rework | Outcome_Review_Retry | Outcome_Manual handoff_reason
  | Outcome_Operator_Input

record review_outcome =
  ro_status :: outcome_status
  ro_currentIteration :: int
  ro_metrics :: gate_metrics
  ro_autoReviewState :: "auto_review_state option"

fun handoff_text :: "handoff_reason \<Rightarrow> string" where
  "handoff_text New_Blockers_After_Rework = ''new_blockers_after_rework''"
| "handoff_text Malformed_Review_Output_Fallback = ''malformed_review_output_fallback''"
| "handoff_text Malformed_Structured_Review_Contract = ''malformed_structured_review_contract''"
| "handoff_text Risky_Review_Without_Substantive_Evidence = ''risky_review_without_substantive_evidence''"
| "handoff_text Max_Iterations = ''max_iterations''"
| "handoff_text Stalled_Rework_Loop = ''stalled_rework_loop''"

fun parser_mode_text :: "parser_mode \<Rightarrow> string" where
  "parser_mode_text Structured_Mode = ''structured''"
| "parser_mode_text Fallback_Mode = ''fallback''"

fun outcome_text :: "outcome_status \<Rightarrow> string" where
  "outcome_text Outcome_Accepted = ''accepted''"
| "outcome_text Outcome_Rework = ''rework_requested''"
| "outcome_text Outcome_Review_Retry = ''review_retry_requested''"
| "outcome_text (Outcome_Manual why) = ''manual_review_required''"
| "outcome_text Outcome_Operator_Input = ''operator_input_required''"

fun summary_text :: "outcome_status \<Rightarrow> string" where
  "summary_text Outcome_Accepted = ''success''"
| "summary_text Outcome_Rework = ''request_changes''"
| "summary_text Outcome_Review_Retry = ''request_changes''"
| "summary_text (Outcome_Manual why) = ''manual_review_required''"
| "summary_text Outcome_Operator_Input = ''operator_input_required''"

fun outcome_reason :: "outcome_status \<Rightarrow> handoff_reason option" where
  "outcome_reason (Outcome_Manual why) = Some why"
| "outcome_reason _ = None"

section \<open>The messages\<close>

definition streak_text :: "review_finding \<Rightarrow> string" where
  "streak_text f = (case integer_of (streak f) of Some n \<Rightarrow> string_of_int n | None \<Rightarrow> ''unknown'')"

definition stalled_line :: "review_finding \<Rightarrow> string" where
  "stalled_line f = ''- ['' @ findingId f @ ''] '' @ source_text (findingSource f) @ '' | streak '' @
     streak_text f @ '' | '' @ findingText f"

text \<open>The stalled findings are given only with the reason \<open>stalled_rework_loop\<close>, and then with the threshold.\<close>

definition buildSummaryComment ::
    "outcome_status \<Rightarrow> gate_metrics \<Rightarrow> int \<Rightarrow> int \<Rightarrow> string \<Rightarrow> int \<Rightarrow> review_finding list \<Rightarrow> string" where
  "buildSummaryComment st m iteration maxIterations fixes threshold stalled = js_join [newline]
     ([''## Auto Review Gate Summary'',
       ''- Outcome: '' @ summary_text st,
       ''- Strategy: '' @ strategy_text (gm_strategy m),
       ''- Parser mode: '' @ parser_mode_text (gm_parser m),
       ''- Review iteration: '' @ string_of_int iteration @ ''/'' @ string_of_int maxIterations,
       ''- Previous blocking findings: '' @ string_of_nat (gm_previous m),
       ''- Still-blocking previous findings: '' @ string_of_nat (gm_still m),
       ''- New blocking findings: '' @ string_of_nat (gm_new m),
       ''- Total blocking findings: '' @ string_of_nat (gm_total m)] @
      (case outcome_reason st of None \<Rightarrow> []
       | Some why \<Rightarrow> [''- Handoff reason: '' @ handoff_text why] @
           (if why = Stalled_Rework_Loop \<and> threshold \<noteq> 0
            then [''- Stall threshold: '' @ string_of_int threshold] else [])) @
      [[]] @
      (if st = Outcome_Accepted then [''Review comments passed auto-gate; transitioning task to Done.'']
       else
         [if st = Outcome_Operator_Input
          then ''Automatic review needs operator input before it can continue.''
          else if outcome_reason st \<noteq> None
          then ''Automatic review convergence stopped. Human review is required before final resolution.''
          else ''Automatic review found blocking issues. Returning task to implementing.'',
          [], ''## Blocking Findings'', fixes] @
         (if stalled = [] then []
          else [[], ''## Stalled Findings'', js_join [newline] (map stalled_line stalled)])))"

definition buildActivityMessage :: "outcome_status \<Rightarrow> gate_metrics \<Rightarrow> int \<Rightarrow> int \<Rightarrow> string" where
  "buildActivityMessage st m iteration maxIterations =
     ''coordinator auto review gate '' @ outcome_text st @ '': strategy='' @ strategy_text (gm_strategy m) @
     '', iteration='' @ string_of_int iteration @ ''/'' @ string_of_int maxIterations @
     '', previous='' @ string_of_nat (gm_previous m) @ '', still='' @ string_of_nat (gm_still m) @
     '', new='' @ string_of_nat (gm_new m) @ '', total='' @ string_of_nat (gm_total m) @
     '', parser='' @ parser_mode_text (gm_parser m) @
     (case outcome_reason st of None \<Rightarrow> [] | Some why \<Rightarrow> '', reason='' @ handoff_text why)"

section \<open>The snapshot kept for a rework\<close>

definition required_evidence :: "review_finding list \<Rightarrow> (string \<times> string) list" where
  "required_evidence fs = foldl (\<lambda>m f. map_set (findingId f)
     (''Current-attempt evidence required for '' @ source_text (findingSource f) @ '': '' @ findingText f) m) [] fs"

definition git_rework_snapshot :: "int \<Rightarrow> git_snapshot \<Rightarrow> review_finding list \<Rightarrow> rework_snapshot" where
  "git_rework_snapshot iteration g fs =
     \<lparr>snapIteration = iteration, snapArtifactPath = ''.'', snapArtifactContentSha = None,
      snapFindingIds = map findingId fs, snapBaselineHeadSha = gs_baselineHeadSha g,
      snapChangedFilesDigest = Some (gs_changedFilesDigest g),
      snapChangedFilesSummary = Some (gs_changedFilesSummary g),
      snapRequiredEvidence = Some (required_evidence fs),
      snapForbiddenChanges =
        Some [''unrelated source, test, config, dependency, or documentation changes'']\<rparr>"

definition artifact_rework_snapshot ::
    "int \<Rightarrow> artifact_row \<Rightarrow> string option \<times> bool \<Rightarrow> review_finding list \<Rightarrow> rework_snapshot" where
  "artifact_rework_snapshot iteration a sha fs =
     \<lparr>snapIteration = iteration, snapArtifactPath = artifactPath a,
      snapArtifactContentSha = (if snd sha then orelse (fst sha) (artifactContentSha a) else None),
      snapFindingIds = map findingId fs, snapBaselineHeadSha = None, snapChangedFilesDigest = None,
      snapChangedFilesSummary = None, snapRequiredEvidence = None, snapForbiddenChanges = None\<rparr>"

definition withReworkSnapshot ::
    "auto_review_env \<Rightarrow> string \<Rightarrow> string \<Rightarrow> int \<Rightarrow> auto_review_state \<Rightarrow> db \<Rightarrow> auto_review_state" where
  "withReworkSnapshot e i dir iteration s d =
     (case findRoadmapBatchArtifactByTaskId i d of
        Some a \<Rightarrow>
          if artifactRole a = ''report'' \<or> artifactRole a = ''synthesis''
          then s\<lparr>reworkSnapshot := Some (artifact_rework_snapshot iteration a
                 (are_artifactSha e dir (artifactPath a)) (findings s))\<rparr>
          else (case are_gitSnapshot e dir of None \<Rightarrow> s
            | Some g \<Rightarrow> s\<lparr>reworkSnapshot := Some (git_rework_snapshot iteration g (findings s))\<rparr>)
      | None \<Rightarrow> (case are_gitSnapshot e dir of None \<Rightarrow> s
          | Some g \<Rightarrow> s\<lparr>reworkSnapshot := Some (git_rework_snapshot iteration g (findings s))\<rparr>))"

section \<open>Findings that stop the loop\<close>

definition stalledFindings :: "auto_review_state \<Rightarrow> int \<Rightarrow> review_finding list" where
  "stalledFindings s threshold =
     filter (\<lambda>f. case integer_of (streak f) of Some n \<Rightarrow> threshold \<le> n | None \<Rightarrow> False) (findings s)"

definition review_stage_retry_rx :: rx where
  "review_stage_retry_rx = rseq [Word_Boundary, lit_i ''Structured review '',
     Alt (lit_i ''contract not satisfied'') (lit_i ''parse error''), Word_Boundary]"

definition isReviewStageRetryFinding :: "review_finding \<Rightarrow> bool" where
  "isReviewStageRetryFinding f =
     (findingSource f = Review_Gate \<and> js_test review_stage_retry_rx (findingText f))"

definition shouldRetryReviewStage :: "auto_review_state \<Rightarrow> bool" where
  "shouldRetryReviewStage s = (findings s \<noteq> [] \<and> list_all isReviewStageRetryFinding (findings s))"

definition synthesis_inconclusive_rx :: rx where
  "synthesis_inconclusive_rx = rseq [Word_Boundary, lit_i ''Deterministic Review:'', Greedy (One js_space),
     lit_i ''audit_synthesis_inconclusive'', Word_Boundary]"

definition isDeterministicAuditSynthesisInconclusiveReview :: "task_row \<Rightarrow> db \<Rightarrow> bool" where
  "isDeterministicAuditSynthesisInconclusiveReview t d =
     (case findRoadmapBatchArtifactByTaskId (taskId t) d of
        None \<Rightarrow> False
      | Some a \<Rightarrow> artifactRole a = ''synthesis'' \<and>
          js_test synthesis_inconclusive_rx (the_default [] (reviewComments t)))"

section \<open>The handler\<close>

definition createTaskComment :: "string \<Rightarrow> string \<Rightarrow> string \<Rightarrow> db \<Rightarrow> db" where
  "createTaskComment i author message d =
     d\<lparr>comments := comments d @ [\<lparr>commentTaskId = i, commentAuthor = author, commentMessage = message\<rparr>]\<rparr>"

definition handler_gate_input :: "auto_review_env \<Rightarrow> task_row \<Rightarrow> review_gate_input" where
  "handler_gate_input e t =
     \<lparr>gi_reviewComments = reviewComments t, gi_strategy = are_strategy e,
      gi_iteration = reviewIterationCount t + 1,
      gi_previous = (case autoReviewState t of None \<Rightarrow> [] | Some s \<Rightarrow> findings s)\<rparr>"

definition max_iterations :: "task_row \<Rightarrow> int" where
  "max_iterations t = min (maxReviewIterations t) 10"

definition published :: "string \<Rightarrow> outcome_status \<Rightarrow> gate_metrics \<Rightarrow> int \<Rightarrow> int \<Rightarrow> string \<Rightarrow> int \<Rightarrow>
    review_finding list \<Rightarrow> db \<Rightarrow> db" where
  "published i st m iteration maxIterations fixes threshold stalled d =
     logActivity i ''Agent'' (buildActivityMessage st m iteration maxIterations)
       (createTaskComment i ''agent'' (buildSummaryComment st m iteration maxIterations fixes threshold stalled) d)"

text \<open>What the handler makes of the gate's answer. Only a request for changes can be sent round again.\<close>

definition outcome_of :: "auto_review_env \<Rightarrow> task_row \<Rightarrow> gate_result \<Rightarrow> db \<Rightarrow> outcome_status" where
  "outcome_of e t r d =
     (case gr_status r of
        Gate_Success \<Rightarrow> Outcome_Accepted
      | Gate_Operator_Input \<Rightarrow> Outcome_Operator_Input
      | Gate_Manual_Review why \<Rightarrow> Outcome_Manual why
      | Gate_Request_Changes \<Rightarrow>
          if (case gr_state r of None \<Rightarrow> False | Some s \<Rightarrow> stalledFindings s (are_stallThreshold e) \<noteq> []) \<and>
             \<not> isDeterministicAuditSynthesisInconclusiveReview t d
          then Outcome_Manual Stalled_Rework_Loop
          else if max_iterations t \<le> reviewIterationCount t + 1 then Outcome_Manual Max_Iterations
          else if (case gr_state r of None \<Rightarrow> False | Some s \<Rightarrow> shouldRetryReviewStage s)
          then Outcome_Review_Retry
          else Outcome_Rework)"

definition outcome_state ::
    "auto_review_env \<Rightarrow> string \<Rightarrow> string \<Rightarrow> outcome_status \<Rightarrow> int \<Rightarrow> auto_review_state option \<Rightarrow> db \<Rightarrow>
     auto_review_state option" where
  "outcome_state e i dir st iteration s d =
     (if st = Outcome_Accepted then None
      else if st = Outcome_Rework \<or> st = Outcome_Review_Retry
      then map_option (\<lambda>s. withReworkSnapshot e i dir iteration s d) s
      else s)"

definition handleAutoReviewGate ::
    "auto_review_env \<Rightarrow> string \<Rightarrow> string \<Rightarrow> bool \<Rightarrow> db \<Rightarrow> string + db \<times> review_outcome option" where
  "handleAutoReviewGate e i projectRoot force d =
     (case findTaskById i d of
        None \<Rightarrow> Inr (d, None)
      | Some t \<Rightarrow>
          if \<not> autoMode t \<and> \<not> force then Inr (d, None)
          else
            (let dir = the_default projectRoot (worktreePath t);
                 iteration = reviewIterationCount t + 1;
                 started = logActivity i ''Agent''
                   ''coordinator auto review gate started: validating structured review output before done transition'' d
             in case evaluateReviewCommentsForAutoMode (are_gate e t dir) (handler_gate_input e t) of
                  Inl err \<Rightarrow> Inl err
                | Inr r \<Rightarrow>
                    (let st = outcome_of e t r started;
                         stalled = (if gr_status r = Gate_Request_Changes \<and> st = Outcome_Manual Stalled_Rework_Loop
                           then (case gr_state r of None \<Rightarrow> []
                             | Some s \<Rightarrow> stalledFindings s (are_stallThreshold e)) else [])
                     in Inr (published i st (gr_metrics r) iteration (max_iterations t) (gr_fixes r)
                               (are_stallThreshold e) stalled started,
                             Some \<lparr>ro_status = st, ro_currentIteration = iteration, ro_metrics = gr_metrics r,
                               ro_autoReviewState = outcome_state e i dir st iteration (gr_state r) started\<rparr>))))"

end
