(* ===== verification/Review_Outcome.thy ===== *)
theory Review_Outcome
  imports Auto_Review Stage_Errors
begin

text \<open>
  What the coordinator does with the outcome of a review: the reviewer's branch of the stage function of
  \<open>packages/agent/src/coordinator.ts\<close> with the functions it calls to send a task back, to block it and to
  move it on. The arguments gathered in \<open>review_host\<close> are the hash, what is read from the disk, the
  evidence check \<open>evaluateTaskCompletionEvidence\<close> with what is derived from its evidence, and the settings.
\<close>

section \<open>Values and where they come from\<close>

record evidence_result =
  er_ok :: bool
  er_issues :: "(string \<times> string) list"
  er_evidence :: json
  er_validationIssueCodes :: "string list"
  er_artifactSha :: "string option"
  er_validationFingerprint :: "string option"
  er_blockingIssueCodes :: "string list"
  er_sourceSnapshotId :: "string option"
  er_allowedPaths :: "string list"

record untrusted_cleanup =
  uc_artifactPath :: string
  uc_cleanupStatus :: string
  uc_backupPath :: "string option"
  uc_details :: json

record artifact_read =
  rd_readable :: bool
  rd_contentSha :: "string option"
  rd_source :: string
  rd_branchName :: "string option"
  rd_worktreePath :: "string option"
  rd_projectRoot :: string
  rd_missingReason :: "string option"

record review_host =
  rh_auto :: auto_review_env
  rh_text :: text_host
  rh_sha256 :: "string \<Rightarrow> string"
  rh_uuid :: string
  rh_evidence :: "task_row \<Rightarrow> string \<Rightarrow> bool \<Rightarrow> db \<Rightarrow> evidence_result"
  rh_decision :: "task_row \<Rightarrow> artifact_row \<Rightarrow> evidence_result \<Rightarrow> json"
  rh_cleanup :: "task_row \<Rightarrow> artifact_row \<Rightarrow> evidence_result \<Rightarrow> untrusted_cleanup option"
  rh_readArtifact :: "task_row \<Rightarrow> string \<Rightarrow> artifact_row \<Rightarrow> artifact_read"
  rh_guardrailLine :: "string \<Rightarrow> string"
  rh_qaEnabled :: bool

definition trim_option :: "string option \<Rightarrow> string option" where
  "trim_option v = map_option js_trim v"

fun finding_severity_text :: "finding_severity \<Rightarrow> string" where
  "finding_severity_text Low_Severity = ''low''"
| "finding_severity_text Medium_Severity = ''medium''"
| "finding_severity_text High_Severity = ''high''"
| "finding_severity_text Critical_Severity = ''critical''"

section \<open>Reasons\<close>

definition boundedReviewIterationLimit :: "task_row \<Rightarrow> int" where
  "boundedReviewIterationLimit t = min (maxReviewIterations t) 10"

definition formatAutoReviewFindingsForBlockedReason :: "review_finding list \<Rightarrow> string" where
  "formatAutoReviewFindingsForBlockedReason fs =
     (if fs = [] then ''none''
      else js_join ''; '' (map (\<lambda>f. ''['' @ findingId f @ ''] '' @ source_text (findingSource f) @ '': '' @
        redactProviderText (findingText f)) fs))"

definition state_findings :: "auto_review_state option \<Rightarrow> review_finding list" where
  "state_findings s = (case s of None \<Rightarrow> [] | Some s \<Rightarrow> findings s)"

definition buildManualAutoReviewBlockedReason :: "handoff_reason \<Rightarrow> auto_review_state option \<Rightarrow> string" where
  "buildManualAutoReviewBlockedReason why s =
     ''manual_review_required: '' @ handoff_text why @ ''; closure evidence gap for unresolved blockers: '' @
     formatAutoReviewFindingsForBlockedReason (state_findings s)"

definition operator_input_prefix :: rx where
  "operator_input_prefix = rseq [At_Start, lit_i ''operator_input_required:'', Greedy (One js_space)]"

definition buildOperatorInputAutoReviewBlockedReason :: "auto_review_state option \<Rightarrow> string" where
  "buildOperatorInputAutoReviewBlockedReason s =
     (case state_findings s of
        [] \<Rightarrow> ''operator_input_required: Provide the missing operator input requested by review.''
      | f # _ \<Rightarrow>
          if findingText f = []
          then ''operator_input_required: Provide the missing operator input requested by review.''
          else ''operator_input_required: '' @ remove_first operator_input_prefix (redactProviderText (findingText f)))"

text \<open>
  Redacting every text of a state. The names of strategies, sources, statuses, severities and areas hold
  nothing that is redacted, and neither does \<open>JSON\<close>'s own structure.
\<close>

definition sanitize_finding :: "review_finding \<Rightarrow> review_finding" where
  "sanitize_finding f = f\<lparr>findingId := redactProviderText (findingId f),
     findingText := redactProviderText (findingText f),
     findingLocation := map_option redactProviderText (findingLocation f),
     findingClaim := map_option redactProviderText (findingClaim f),
     findingRequiredFix := map_option redactProviderText (findingRequiredFix f),
     findingVerification := map_option redactProviderText (findingVerification f),
     findingClosureEvidence := map_option redactProviderText (findingClosureEvidence f)\<rparr>"

definition sanitize_history :: "blocker_history_entry \<Rightarrow> blocker_history_entry" where
  "sanitize_history h = h\<lparr>historyId := redactProviderText (historyId h),
     historyNote := redactProviderText (historyNote h),
     historyClosureEvidence := map_option redactProviderText (historyClosureEvidence h)\<rparr>"

definition sanitize_snapshot :: "rework_snapshot \<Rightarrow> rework_snapshot" where
  "sanitize_snapshot s = s\<lparr>snapArtifactPath := redactProviderText (snapArtifactPath s),
     snapArtifactContentSha := map_option redactProviderText (snapArtifactContentSha s),
     snapFindingIds := map redactProviderText (snapFindingIds s),
     snapBaselineHeadSha := map_option redactProviderText (snapBaselineHeadSha s),
     snapChangedFilesDigest := map_option redactProviderText (snapChangedFilesDigest s),
     snapChangedFilesSummary := map_option (map redactProviderText) (snapChangedFilesSummary s),
     snapRequiredEvidence := map_option (map (\<lambda>(k, v). (k, redactProviderText v))) (snapRequiredEvidence s),
     snapForbiddenChanges := map_option (map redactProviderText) (snapForbiddenChanges s)\<rparr>"

definition sanitizeAutoReviewStateForPersistence :: "auto_review_state \<Rightarrow> auto_review_state" where
  "sanitizeAutoReviewStateForPersistence s = s\<lparr>findings := map sanitize_finding (findings s),
     securityCoverage := map_option (map (\<lambda>c. c\<lparr>coverageNote := redactProviderText (coverageNote c)\<rparr>))
       (securityCoverage s),
     blockerHistory := map_option (map sanitize_history) (blockerHistory s),
     reworkSnapshot := map_option sanitize_snapshot (reworkSnapshot s)\<rparr>"

definition formatTaskCompletionBlockedReason :: "evidence_result \<Rightarrow> bool \<Rightarrow> string" where
  "formatTaskCompletionBlockedReason r suppress =
     (let actionable = (if suppress \<and> 1 < length (er_issues r)
            then filter (\<lambda>i. fst i \<noteq> ''manual_review_required'') (er_issues r) else er_issues r);
          issues = (if actionable \<noteq> [] then actionable else er_issues r)
      in ''Completion evidence guard ('' @ js_join '', '' (js_unique (map fst issues)) @ ''): '' @
         js_join '' '' (map snd issues))"

section \<open>Fingerprints\<close>

definition finding_payload :: "review_finding \<Rightarrow> json" where
  "finding_payload f = JObj
     [(''id'', JStr (js_trim (findingId f))), (''source'', JStr (source_text (findingSource f))),
      (''text'', JStr (js_trim (findingText f))),
      (''status'', json_opt (map_option finding_status_text (findingStatus f))),
      (''severity'', json_opt (map_option finding_severity_text (findingSeverity f))),
      (''location'', json_opt (trim_option (findingLocation f))),
      (''claim'', json_opt (trim_option (findingClaim f))),
      (''requiredFix'', json_opt (trim_option (findingRequiredFix f))),
      (''verification'', json_opt (trim_option (findingVerification f))),
      (''closureEvidence'', json_opt (trim_option (findingClosureEvidence f)))]"

definition sorted_findings :: "review_host \<Rightarrow> review_finding list \<Rightarrow> review_finding list" where
  "sorted_findings h fs = js_sort (\<lambda>a b. localeCompare (rh_text h)
     (stableFingerprintJson (rh_text h) (finding_payload a))
     (stableFingerprintJson (rh_text h) (finding_payload b))) fs"

definition review_payload :: "review_host \<Rightarrow> review_outcome \<Rightarrow> json" where
  "review_payload h out = JObj
     [(''status'', JStr (outcome_text (ro_status out))),
      (''handoffReason'', json_opt (map_option handoff_text (outcome_reason (ro_status out)))),
      (''findings'', JArr (map finding_payload (sorted_findings h (state_findings (ro_autoReviewState out)))))]"

definition reviewGateFailureFingerprint :: "review_host \<Rightarrow> task_row \<Rightarrow> review_outcome \<Rightarrow> db \<Rightarrow> string" where
  "reviewGateFailureFingerprint h t out d =
     (let ids = filter (\<lambda>i. i \<noteq> [])
            (map (\<lambda>f. js_trim (findingId f)) (sorted_findings h (state_findings (ro_autoReviewState out))));
          artifact = findRoadmapBatchArtifactByTaskId (taskId t) d;
          payloadSha = rh_sha256 h (stableFingerprintJson (rh_text h) (review_payload h out))
      in buildFailureFingerprint (rh_sha256 h)
        \<lparr>fi_taskId = Some (taskId t), fi_stage = Some ''review_gate'',
         fi_artifactPath = Some (case artifact of None \<Rightarrow> ''review-comments'' | Some a \<Rightarrow> artifactPath a),
         fi_artifactSha = Some (case artifact of None \<Rightarrow> payloadSha
           | Some a \<Rightarrow> the_default payloadSha (artifactContentSha a)),
         fi_validatorIssueCodes = [if ro_status out = Outcome_Review_Retry then ''review_retry_requested''
           else ''review_gate_request_changes''],
         fi_validationFingerprint = Some payloadSha,
         fi_blockingFindingIds = (if ids \<noteq> [] then ids else [''review_gate_request_changes'']),
         fi_sourceSnapshotId = requirementsSnapshotId t,
         fi_allowedWritePaths = (case artifact of None \<Rightarrow> []
           | Some a \<Rightarrow> if artifactPath a = [] then [] else [artifactPath a]),
         fi_failureFamily = Some ''review_gate_rework''\<rparr>)"

definition buildAuditFailureFingerprint ::
    "review_host \<Rightarrow> task_row \<Rightarrow> artifact_row \<Rightarrow> string \<Rightarrow> evidence_result \<Rightarrow> fingerprint_input" where
  "buildAuditFailureFingerprint h t a family r =
     \<lparr>fi_taskId = Some (taskId t), fi_stage = Some ''completion'', fi_artifactPath = Some (artifactPath a),
      fi_artifactSha = er_artifactSha r,
      fi_validatorIssueCodes = map fst (er_issues r) @ er_validationIssueCodes r,
      fi_validationFingerprint = er_validationFingerprint r, fi_blockingFindingIds = er_blockingIssueCodes r,
      fi_sourceSnapshotId = er_sourceSnapshotId r,
      fi_allowedWritePaths = artifactPath a # er_allowedPaths r, fi_failureFamily = Some family\<rparr>"

definition issues_json :: "evidence_result \<Rightarrow> json" where
  "issues_json r = JArr (map (\<lambda>(c, m). JObj [(''code'', JStr c), (''message'', JStr m)]) (er_issues r))"

definition auditValidationDetailsWithFingerprint ::
    "review_host \<Rightarrow> task_row \<Rightarrow> artifact_row \<Rightarrow> string \<Rightarrow> evidence_result \<Rightarrow> (string \<times> json) list \<Rightarrow> json" where
  "auditValidationDetailsWithFingerprint h t a family r extra =
     (let f = buildAuditFailureFingerprint h t a family r in
      JObj ([(''issues'', issues_json r), (''evidence'', er_evidence r)] @ extra @
        [(''failureFingerprint'', JStr (buildFailureFingerprint (rh_sha256 h) f)),
         (''failureFingerprintInput'', fingerprint_json (normalized_input f))]))"

definition firstAuditFailureFamily :: "evidence_result \<Rightarrow> string" where
  "firstAuditFailureFamily r =
     (let codes = map fst (er_issues r) in
      the_default ''external_blocker''
        (selectAuditArtifactFailureFamily (Some codes) None
          (JObj [(''issues'', issues_json r), (''evidence'', er_evidence r)])
          (Some (selectTaskCompletionAuditFailureFamily codes))))"

definition AUDIT_EVIDENCE_REPAIR_ISSUE_CODES :: "string list" where
  "AUDIT_EVIDENCE_REPAIR_ISSUE_CODES =
     [''insufficient_report_evidence'', ''low_quality_report_evidence'', ''missing_report_manifest'',
      ''invalid_report_manifest'', ''unsupported_report_manifest_version'', ''missing_report_manifest_fields'',
      ''missing_audit_evidence_ref'']"

definition auditEvidenceRepairIssueCodes :: "evidence_result \<Rightarrow> string list" where
  "auditEvidenceRepairIssueCodes r = filter (\<lambda>c. c \<in> set AUDIT_EVIDENCE_REPAIR_ISSUE_CODES \<or>
     startsWith c ''manifest_'' \<or> startsWith c ''audit_evidence_'') (map fst (er_issues r))"

end
