(* ===== verification/Review_Stage.thy ===== *)
theory Review_Stage
  imports Review_Outcome
begin

text \<open>
  The transitions of the reviewer stage in \<open>packages/agent/src/coordinator.ts\<close>: a task goes back to the
  implementer or to the reviewer, is blocked, or moves on to QA or to done. A call that throws is \<open>Inl\<close>;
  the stage function returns whether the task was processed further.
\<close>

section \<open>JSON of review data\<close>

definition opt_field :: "string \<Rightarrow> ('a \<Rightarrow> json) \<Rightarrow> 'a option \<Rightarrow> (string \<times> json) list" where
  "opt_field k f v = (case v of None \<Rightarrow> [] | Some x \<Rightarrow> [(k, f x)])"

definition int_json :: "int \<Rightarrow> json" where "int_json i = JNum (jsint i)"

definition finding_json :: "review_finding \<Rightarrow> json" where
  "finding_json f = JObj
     ([(''id'', JStr (findingId f)), (''text'', JStr (findingText f)),
       (''source'', JStr (source_text (findingSource f)))] @
      opt_field ''status'' (JStr \<circ> finding_status_text) (findingStatus f) @
      opt_field ''severity'' (JStr \<circ> finding_severity_text) (findingSeverity f) @
      opt_field ''location'' JStr (findingLocation f) @ opt_field ''claim'' JStr (findingClaim f) @
      opt_field ''requiredFix'' JStr (findingRequiredFix f) @
      opt_field ''verification'' JStr (findingVerification f) @
      opt_field ''closureEvidence'' JStr (findingClosureEvidence f) @
      opt_field ''firstSeenIteration'' JNum (firstSeenIteration f) @
      opt_field ''lastSeenIteration'' JNum (lastSeenIteration f) @ opt_field ''streak'' JNum (streak f))"

definition coverage_json :: "security_coverage \<Rightarrow> json" where
  "coverage_json c = JObj [(''area'', JStr (area_text (coverageArea c))),
     (''status'', JStr (coverage_status_text (coverageStatus c))), (''note'', JStr (coverageNote c))]"

definition history_json :: "blocker_history_entry \<Rightarrow> json" where
  "history_json e = JObj
     ([(''id'', JStr (historyId e)), (''source'', JStr (source_text (historySource e))),
       (''status'', JStr (finding_status_text (historyStatus e))), (''note'', JStr (historyNote e))] @
      opt_field ''iteration'' int_json (historyIteration e) @
      opt_field ''closureEvidence'' JStr (historyClosureEvidence e))"

definition snapshot_json :: "rework_snapshot \<Rightarrow> json" where
  "snapshot_json s = JObj
     ([(''iteration'', int_json (snapIteration s)), (''artifactPath'', JStr (snapArtifactPath s)),
       (''artifactContentSha'', json_opt (snapArtifactContentSha s)),
       (''findingIds'', JArr (map JStr (snapFindingIds s)))] @
      opt_field ''baselineHeadSha'' JStr (snapBaselineHeadSha s) @
      opt_field ''changedFilesDigest'' JStr (snapChangedFilesDigest s) @
      opt_field ''changedFilesSummary'' (JArr \<circ> map JStr) (snapChangedFilesSummary s) @
      opt_field ''requiredEvidenceByFindingId'' (\<lambda>m. JObj (map (\<lambda>(k, v). (k, JStr v)) m)) (snapRequiredEvidence s) @
      opt_field ''forbiddenChanges'' (JArr \<circ> map JStr) (snapForbiddenChanges s))"

definition state_json :: "auto_review_state option \<Rightarrow> json" where
  "state_json v = (case v of None \<Rightarrow> JNull | Some s \<Rightarrow> JObj
     ([(''strategy'', JStr (strategy_text (reviewStrategy s))), (''iteration'', int_json (reviewIteration s)),
       (''findings'', JArr (map finding_json (findings s)))] @
      opt_field ''securityCoverage'' (JArr \<circ> map coverage_json) (securityCoverage s) @
      opt_field ''blockerHistory'' (JArr \<circ> map history_json) (blockerHistory s) @
      opt_field ''reworkSnapshot'' snapshot_json (reworkSnapshot s)))"

definition metrics_json :: "gate_metrics \<Rightarrow> json" where
  "metrics_json m = JObj [(''strategy'', JStr (strategy_text (gm_strategy m))),
     (''iteration'', int_json (gm_iteration m)), (''previousBlockingCount'', int_json (int (gm_previous m))),
     (''stillBlockingCount'', int_json (int (gm_still m))), (''newBlockingCount'', int_json (int (gm_new m))),
     (''totalBlockingCount'', int_json (int (gm_total m))),
     (''parserMode'', JStr (parser_mode_text (gm_parser m)))]"

text \<open>Object spread: a later entry replaces an earlier one with its key.\<close>

definition spread :: "(string \<times> json) list \<Rightarrow> json" where
  "spread kvs = JObj (foldl (\<lambda>m (k, v). map_set k v m) [] kvs)"

section \<open>Small steps\<close>

type_synonym stage_result = "db \<times> (bool \<times> moved) list"

definition join_reasons :: "string \<Rightarrow> string option \<Rightarrow> string" where
  "join_reasons a b = js_join ''; '' (filter (\<lambda>s. s \<noteq> []) [a, the_default [] b])"

record evidence_extra =
  ex_blockedReason :: "string option"
  ex_reviewIterationCount :: "int option"
  ex_fields :: "task_row \<Rightarrow> task_row"

definition no_extra :: evidence_extra where
  "no_extra = \<lparr>ex_blockedReason = None, ex_reviewIterationCount = None, ex_fields = (\<lambda>r. r)\<rparr>"

definition emitCoordinatorGuardrail :: "review_host \<Rightarrow> string \<Rightarrow> task_status \<Rightarrow> string \<Rightarrow> int \<Rightarrow> db \<Rightarrow> string + db" where
  "emitCoordinatorGuardrail h i stage fp now d =
     (let d1 = appendTaskActivityLog i (stamped now (rh_guardrailLine h fp)) now d in
      if findTaskById i d1 = None then Inl ''Task not found''
      else Inr (d1\<lparr>stageAttempts := stageAttempts d1 @
        [\<lparr>stageAttemptTaskId = i, stageAttemptStage = status_text stage, stageAttemptKind = ''guardrail_event'',
          stageAttemptFingerprint = None, stageAttemptOverride = False\<rparr>]\<rparr>))"

definition blockTaskForSameFailureFingerprint ::
    "review_host \<Rightarrow> task_row \<Rightarrow> task_status \<Rightarrow> string \<Rightarrow> string \<Rightarrow> string \<Rightarrow> string \<Rightarrow> evidence_extra \<Rightarrow>
     int \<Rightarrow> db \<Rightarrow> string + stage_result" where
  "blockTaskForSameFailureFingerprint h t from label reason family fp ex now d =
     (let i = taskId t; blocked = join_reasons reason (ex_blockedReason ex) in
      case coordinator_updateTaskStatus i Blocked_External
          (\<lambda>r. (ex_fields ex (r\<lparr>blockedReason := Some blocked, blockedFromStatus := Some from,
             retryAfter := None, retryCount := retryCount t\<rparr>))
             \<lparr>reworkRequested := False, manualReviewRequired := True\<rparr>)
          (Some blocked) label from now (clearTaskRuntimeLimitSnapshot i now d) of
        (d1, ms) \<Rightarrow>
          (case emitCoordinatorGuardrail h i from fp now (appendTaskActivityLog i (stamped now
               (''same_failure_fingerprint_fail_closed: '' @ fp @ ''; family='' @ family)) now d1) of
             Inl e \<Rightarrow> Inl e
           | Inr d2 \<Rightarrow> Inr (d2, ms)))"

section \<open>Audit tasks\<close>

definition rework_update ::
    "review_host \<Rightarrow> task_row \<Rightarrow> artifact_row \<Rightarrow> string \<Rightarrow> evidence_result \<Rightarrow> string \<Rightarrow> artifact_update" where
  "rework_update h t a family r dir =
     \<lparr>au_state = artifactStateForFailureFamily family False, au_failureFamily = Some (Some family),
      au_classification = None, au_reworkStatus = Some Rework_Requested, au_attemptBoundaryId = None,
      au_createAttemptBoundary = True,
      au_validationDetails = Some (auditValidationDetailsWithFingerprint h t a family r []),
      au_branchName = orelse (branchName t) (artifactBranchName a),
      au_worktreePath = orelse (worktreePath t) (artifactWorktreePath a),
      au_projectRoot = Some dir, au_contentSha = er_artifactSha r\<rparr>"

definition returnAuditTaskToRework ::
    "review_host \<Rightarrow> task_row \<Rightarrow> artifact_row \<Rightarrow> task_status \<Rightarrow> string \<Rightarrow> string \<Rightarrow> string \<Rightarrow> evidence_result \<Rightarrow>
     string \<Rightarrow> evidence_extra \<Rightarrow> int \<Rightarrow> db \<Rightarrow> string + stage_result" where
  "returnAuditTaskToRework h t a from label reason family r dir ex now d =
     (let i = taskId t;
          statusReason = join_reasons (family @ '': '' @ reason) (ex_blockedReason ex);
          fp = buildFailureFingerprint (rh_sha256 h) (buildAuditFailureFingerprint h t a family r)
      in case updateRoadmapBatchArtifactState i (rework_update h t a family r dir) (rh_uuid h) now d of
          Inl e \<Rightarrow> Inl e
        | Inr (d1, _) \<Rightarrow>
            (case coordinator_updateTaskStatus i Implementing
                (\<lambda>x. (ex_fields ex (x\<lparr>blockedFromStatus := Some from, retryAfter := None, retryCount := retryCount t\<rparr>))
                   \<lparr>blockedReason := Some statusReason, reworkRequested := True, manualReviewRequired := False\<rparr>)
                (Some statusReason) label from now (clearTaskRuntimeLimitSnapshot i now d1) of
               (d2, ms) \<Rightarrow>
                 Inr (appendTaskActivityLog i (stamped now
                   (''same_failure_fingerprint_observed: '' @ fp @ ''; family='' @ family)) now
                   (appendTaskActivityLog i (stamped now
                     (''Audit artifact validation requested rework: '' @ reason)) now d2), ms)))"

definition terminal_details ::
    "review_host \<Rightarrow> task_row \<Rightarrow> string \<Rightarrow> artifact_row \<Rightarrow> string \<Rightarrow> string \<Rightarrow> string option \<Rightarrow> (string \<times> json) list \<Rightarrow>
     auto_review_state option \<Rightarrow> json" where
  "terminal_details h t dir a reason blocked sha extra state =
     (let rd = rh_readArtifact h t dir a;
          old = (case map_of extra ''issues'' of Some (JArr xs) \<Rightarrow> xs | _ \<Rightarrow> [])
      in spread (extra @
        [(''sourceClassification'', JStr ''source_inconclusive''), (''terminalizationReason'', JStr reason),
         (''blockedReason'', JStr blocked), (''artifactPath'', JStr (artifactPath a)),
         (''contentSha'', json_opt sha),
         (''artifactVisibility'', JObj
           [(''artifactPath'', JStr (artifactPath a)), (''source'', JStr (rd_source rd)),
            (''readable'', JBool (rd_readable rd)), (''branchName'', json_opt (rd_branchName rd)),
            (''worktreePath'', json_opt (rd_worktreePath rd)), (''projectRoot'', JStr (rd_projectRoot rd)),
            (''contentSha'', json_opt sha)])] @
        (if truthy (rd_missingReason rd) then
          [(''issues'', JArr (old @ [JObj
             [(''code'', JStr ''missing_report_artifact''), (''message'', json_opt (rd_missingReason rd)),
              (''artifactPath'', JStr (artifactPath a)), (''branchName'', json_opt (rd_branchName rd)),
              (''worktreePath'', json_opt (rd_worktreePath rd)),
              (''projectRoot'', JStr (rd_projectRoot rd))]])),
           (''missingReportArtifact'', JObj
             [(''artifactPath'', JStr (artifactPath a)), (''reason'', json_opt (rd_missingReason rd)),
              (''branchName'', json_opt (rd_branchName rd)), (''worktreePath'', json_opt (rd_worktreePath rd)),
              (''projectRoot'', JStr (rd_projectRoot rd)), (''contentSha'', json_opt sha)])]
         else []) @
        [(''autoReviewState'', state_json state)]))"

text \<open>The patch \<open>CLEAN_STATE_RESET\<close> on a row; the status is set by the update itself.\<close>

definition clean_reset :: "task_row \<Rightarrow> task_row" where
  "clean_reset r = r\<lparr>blockedReason := None, blockedFromStatus := None, retryAfter := None, retryCount := 0,
     reworkRequested := False, reviewIterationCount := 0, manualReviewRequired := False,
     autoReviewState := None, scheduledAt := None, paused := False\<rparr>"

definition terminal_update ::
    "review_host \<Rightarrow> task_row \<Rightarrow> string \<Rightarrow> artifact_row \<Rightarrow> string \<Rightarrow> string \<Rightarrow> string option \<Rightarrow>
     (string \<times> json) list \<Rightarrow> auto_review_state option \<Rightarrow> artifact_update" where
  "terminal_update h t dir a reason blocked given extra state =
     (let sha = orelse given (rd_contentSha (rh_readArtifact h t dir a)) in
      \<lparr>au_state = Source_Inconclusive, au_failureFamily = Some (Some ''source_inconclusive''),
       au_classification = Some ''source_inconclusive'', au_reworkStatus = Some Terminal_Inconclusive_Rework,
       au_attemptBoundaryId = None, au_createAttemptBoundary = False,
       au_validationDetails = Some (terminal_details h t dir a reason blocked sha extra state),
       au_branchName = branchName t, au_worktreePath = worktreePath t, au_projectRoot = Some dir,
       au_contentSha = sha\<rparr>)"

definition terminalizeRoadmapSourceReportAsInconclusive ::
    "review_host \<Rightarrow> task_row \<Rightarrow> string \<Rightarrow> task_status \<Rightarrow> string \<Rightarrow> string \<Rightarrow> string \<Rightarrow> int \<Rightarrow>
     auto_review_state option \<Rightarrow> string option \<Rightarrow> (string \<times> json) list \<Rightarrow> int \<Rightarrow> db \<Rightarrow>
     string + stage_result \<times> bool" where
  "terminalizeRoadmapSourceReportAsInconclusive h t dir from label reason why iteration state given extra
      now d =
     (let i = taskId t in
      case findRoadmapBatchArtifactByTaskId i d of
        None \<Rightarrow> Inr ((d, []), False)
      | Some a \<Rightarrow>
          if artifactRole a \<noteq> ''report'' then Inr ((d, []), False)
          else
            (let blocked = (if startsWith why ''manual_review_required:'' then why
                   else ''manual_review_required: '' @ reason @ ''; '' @ why)
             in case updateRoadmapBatchArtifactState i (terminal_update h t dir a reason blocked given extra state)
                  (rh_uuid h) now d of
                Inl e \<Rightarrow> Inl e
              | Inr (d1, _) \<Rightarrow>
                  (case coordinator_updateTaskStatus i Blocked_External
                      (\<lambda>r. (clean_reset r)\<lparr>blockedReason := Some blocked, blockedFromStatus := Some from,
                         retryCount := retryCount t, reworkRequested := False, reviewIterationCount := iteration,
                         manualReviewRequired := True, autoReviewState := state\<rparr>)
                      (Some blocked) label from now (clearTaskRuntimeLimitSnapshot i now d1) of
                     (d2, ms) \<Rightarrow> Inr ((appendTaskActivityLog i (stamped now
                       (''Roadmap audit source report blocked as source_inconclusive after '' @ reason @ '': '' @
                        blocked)) now d2, ms), True))))"

section \<open>Completion evidence\<close>

text \<open>
  The guard as the stages without a hand-off phase call it. The result says whether the task was sent back
  or blocked.
\<close>

definition accepted_update ::
    "review_host \<Rightarrow> task_row \<Rightarrow> artifact_row \<Rightarrow> string \<Rightarrow> evidence_result \<Rightarrow> artifact_update" where
  "accepted_update h t a dir r =
     \<lparr>au_state = Valid, au_failureFamily = Some None, au_classification = None,
      au_reworkStatus = Some Accepted, au_attemptBoundaryId = artifactAttemptBoundaryId a,
      au_createAttemptBoundary = False,
      au_validationDetails = Some (JObj [(''evidence'', er_evidence r), (''auditCardDecision'', rh_decision h t a r)]),
      au_branchName = branchName t, au_worktreePath = worktreePath t, au_projectRoot = Some dir,
      au_contentSha = er_artifactSha r\<rparr>"

definition blocked_update ::
    "review_host \<Rightarrow> task_row \<Rightarrow> artifact_row \<Rightarrow> string \<Rightarrow> string \<Rightarrow> bool \<Rightarrow> evidence_result \<Rightarrow>
     untrusted_cleanup option \<Rightarrow> artifact_update" where
  "blocked_update h t a dir family terminal r cleanup =
     (let st = artifactStateForFailureFamily family terminal in
      \<lparr>au_state = st, au_failureFamily = Some (Some family), au_classification = None,
       au_reworkStatus = Some (if st = Terminal_Inconclusive then Terminal_Inconclusive_Rework
         else Manual_Review_Required),
       au_attemptBoundaryId = artifactAttemptBoundaryId a, au_createAttemptBoundary = False,
       au_validationDetails = Some (auditValidationDetailsWithFingerprint h t a family r
         (opt_field ''untrustedArtifactCleanup'' uc_details cleanup)),
       au_branchName = branchName t, au_worktreePath = worktreePath t, au_projectRoot = Some dir,
       au_contentSha = er_artifactSha r\<rparr>)"

definition cleanup_line :: "untrusted_cleanup \<Rightarrow> string" where
  "cleanup_line c = ''Untrusted audit artifact cleanup '' @ uc_cleanupStatus c @ '' for '' @ uc_artifactPath c @
     (if truthy (uc_backupPath c) then ''; backup='' @ the_default [] (uc_backupPath c) else [])"

text \<open>How the guard decides, from the evidence, the artifact of the task and the iteration under review.\<close>

record guard_decision =
  gd_family :: string
  gd_returnToRework :: bool
  gd_repeated :: bool
  gd_limitReached :: bool
  gd_blockedReason :: string

definition guard_decide ::
    "review_host \<Rightarrow> task_row \<Rightarrow> artifact_row option \<Rightarrow> bool \<Rightarrow> int \<Rightarrow> evidence_result \<Rightarrow> db \<Rightarrow> guard_decision" where
  "guard_decide h t artifact preventRework iteration r d =
     (let family = firstAuditFailureFamily r;
          limit = boundedReviewIterationLimit t;
          recoverable = (artifact \<noteq> None \<and> isRecoverableAuditFailureFamily family);
          repeated = (case artifact of None \<Rightarrow> False
            | Some a \<Rightarrow> recoverable \<and> 0 < repeatedAuditFailureCount (artifactId a)
                (buildFailureFingerprint (rh_sha256 h) (buildAuditFailureFingerprint h t a family r)) d);
          back = (\<not> preventRework \<and> recoverable \<and> iteration < limit \<and> \<not> repeated);
          limitReached = (recoverable \<and> limit \<le> iteration);
          base = formatTaskCompletionBlockedReason r back;
          codes = auditEvidenceRepairIssueCodes r;
          actionable = (if back \<and> 2 \<le> iteration \<and> codes \<noteq> []
            then ''audit_evidence_repair_required ('' @ js_join '', '' codes @ ''): '' @ base else base)
      in \<lparr>gd_family = family, gd_returnToRework = back, gd_repeated = repeated, gd_limitReached = limitReached,
          gd_blockedReason =
            (if limitReached
             then base @ '' Manual review required: audit evidence guard failed after '' @
               string_of_int iteration @ ''/'' @ string_of_int limit @ '' review iterations.''
             else if repeated
             then actionable @ '' Manual review required: same failure fingerprint failed closed.''
             else actionable)\<rparr>)"

definition manual_issue :: "evidence_result \<Rightarrow> bool" where
  "manual_issue r = list_ex (\<lambda>i. fst i = ''manual_review_required'' \<or> fst i = ''missing_implementation_manifest'')
     (er_issues r)"

text \<open>The end of the guard: the task is blocked, after its artifact has been marked.\<close>

definition block_on_evidence ::
    "review_host \<Rightarrow> task_row \<Rightarrow> artifact_row option \<Rightarrow> task_status \<Rightarrow> string \<Rightarrow> bool \<Rightarrow> guard_decision \<Rightarrow>
     evidence_result \<Rightarrow> evidence_extra \<Rightarrow> int \<Rightarrow> db \<Rightarrow> string + stage_result" where
  "block_on_evidence h t artifact from label requireManual g r ex now d =
     (let i = taskId t;
          reason = (if artifact \<noteq> None then gd_family g @ '': '' @ gd_blockedReason g else gd_blockedReason g);
          final = join_reasons reason (ex_blockedReason ex)
      in case coordinator_updateTaskStatus i Blocked_External
          (\<lambda>x. (ex_fields ex (x\<lparr>blockedReason := Some final, blockedFromStatus := Some from, retryAfter := None,
             retryCount := retryCount t\<rparr>))
             \<lparr>manualReviewRequired :=
                requireManual \<or> gd_repeated g \<or> gd_limitReached g \<or> manual_issue r\<rparr>)
          (Some final) label from now (clearTaskRuntimeLimitSnapshot i now d) of
         (d1, ms) \<Rightarrow>
           (let d2 = appendTaskActivityLog i (stamped now
                  (''Completion evidence guard blocked terminal transition: '' @ final)) now d1
            in case artifact of
                 None \<Rightarrow> Inr (d2, ms)
               | Some a \<Rightarrow>
                   if \<not> gd_repeated g then Inr (d2, ms)
                   else
                     (let fp = buildFailureFingerprint (rh_sha256 h)
                            (buildAuditFailureFingerprint h t a (gd_family g) r)
                      in case emitCoordinatorGuardrail h i from fp now (appendTaskActivityLog i (stamped now
                          (''same_failure_fingerprint_fail_closed: '' @ fp @ ''; family='' @ gd_family g)) now d2) of
                        Inl e \<Rightarrow> Inl e
                      | Inr d3 \<Rightarrow> Inr (d3, ms))))"

definition blockTaskForCompletionEvidenceIfNeeded ::
    "review_host \<Rightarrow> task_row \<Rightarrow> string \<Rightarrow> task_status \<Rightarrow> string \<Rightarrow> bool \<Rightarrow> bool \<Rightarrow> evidence_extra \<Rightarrow> int \<Rightarrow> db \<Rightarrow>
     string + stage_result \<times> bool" where
  "blockTaskForCompletionEvidenceIfNeeded h t dir from label requireManual preventRework ex now d =
     (let i = taskId t;
          artifact = findRoadmapBatchArtifactByTaskId i d;
          r = rh_evidence h t dir requireManual d
      in if er_ok r then
           (case artifact of
              None \<Rightarrow> Inr ((d, []), False)
            | Some a \<Rightarrow>
                (case updateRoadmapBatchArtifactState i (accepted_update h t a dir r) (rh_uuid h) now d of
                   Inl e \<Rightarrow> Inl e
                 | Inr (d1, _) \<Rightarrow> Inr ((d1, []), False)))
         else
           (let iteration = the_default (reviewIterationCount t) (ex_reviewIterationCount ex);
                g = guard_decide h t artifact preventRework iteration r d
            in case artifact of
                 None \<Rightarrow> map_sum id (\<lambda>x. (x, True))
                   (block_on_evidence h t None from label requireManual g r ex now d)
               | Some a \<Rightarrow>
                   if gd_returnToRework g
                   then map_sum id (\<lambda>x. (x, True))
                     (returnAuditTaskToRework h t a from label (gd_blockedReason g) (gd_family g) r dir ex now d)
                   else
                     (let cleanup = rh_cleanup h t a r in
                      case updateRoadmapBatchArtifactState i
                          (blocked_update h t a dir (gd_family g) (gd_limitReached g \<or> gd_repeated g) r cleanup)
                          (rh_uuid h) now d of
                        Inl e \<Rightarrow> Inl e
                      | Inr (d1, _) \<Rightarrow> map_sum id (\<lambda>x. (x, True))
                          (block_on_evidence h t (Some a) from label requireManual g r ex now
                            (case cleanup of None \<Rightarrow> d1
                             | Some c \<Rightarrow> appendTaskActivityLog i (stamped now (cleanup_line c)) now d1)))))"

section \<open>The reviewer stage\<close>

definition move_task ::
    "string \<Rightarrow> task_status \<Rightarrow> (task_row \<Rightarrow> task_row) \<Rightarrow> string option \<Rightarrow> string \<Rightarrow> int \<Rightarrow> db \<Rightarrow> stage_result" where
  "move_task i st f reason label now d =
     coordinator_updateTaskStatus i st f reason label Review now (clearTaskRuntimeLimitSnapshot i now d)"

definition add_moves :: "(bool \<times> moved) list \<Rightarrow> stage_result \<Rightarrow> stage_result" where
  "add_moves ms = (\<lambda>(d, ms'). (d, ms @ ms'))"

definition outcome_extra :: "review_outcome \<Rightarrow> (task_row \<Rightarrow> task_row) \<Rightarrow> evidence_extra" where
  "outcome_extra out f = \<lparr>ex_blockedReason = None, ex_reviewIterationCount = Some (ro_currentIteration out),
     ex_fields = (\<lambda>r. f (r\<lparr>reviewIterationCount := ro_currentIteration out,
       autoReviewState := ro_autoReviewState out\<rparr>))\<rparr>"

definition blockTaskForStalledAutoReview ::
    "review_host \<Rightarrow> task_row \<Rightarrow> review_outcome \<Rightarrow> string \<Rightarrow> string \<Rightarrow> int \<Rightarrow> db \<Rightarrow> string + stage_result \<times> bool" where
  "blockTaskForStalledAutoReview h t out dir label now d =
     (if ro_status out \<noteq> Outcome_Manual Stalled_Rework_Loop then Inr ((d, []), False)
      else
        (let i = taskId t; threshold = are_stallThreshold (rh_auto h);
             blocked = ''manual_review_required: stalled_rework_loop after '' @
               string_of_int (ro_currentIteration out) @ ''/'' @ string_of_int threshold @
               '' same-blocker reviews; unresolved blockers: '' @
               formatAutoReviewFindingsForBlockedReason (state_findings (ro_autoReviewState out))
         in case terminalizeRoadmapSourceReportAsInconclusive h t dir Review label ''stalled_rework_loop'' blocked
             (ro_currentIteration out) (ro_autoReviewState out) None
             [(''metrics'', metrics_json (ro_metrics out)), (''handoffReason'', JStr ''stalled_rework_loop''),
              (''stallThreshold'', int_json threshold)] now d of
            Inl e \<Rightarrow> Inl e
          | Inr ((d1, ms), True) \<Rightarrow> Inr ((d1, ms), True)
          | Inr ((d1, ms), False) \<Rightarrow>
              (case move_task i Blocked_External
                  (\<lambda>r. r\<lparr>blockedReason := Some blocked, blockedFromStatus := Some Review, retryAfter := None,
                     retryCount := retryCount t, reworkRequested := False,
                     reviewIterationCount := ro_currentIteration out, manualReviewRequired := True,
                     autoReviewState := ro_autoReviewState out\<rparr>) (Some blocked) label now d1 of
                 (d2, ms2) \<Rightarrow> Inr ((appendTaskActivityLog i (stamped now
                   (''Auto review terminalized stalled rework loop: '' @ blocked)) now d2, ms @ ms2), True))))"

text \<open>A further round: the same failure twice fails closed, anything else goes to \<open>target\<close>.\<close>

definition send_round ::
    "review_host \<Rightarrow> task_row \<Rightarrow> review_outcome \<Rightarrow> task_status \<Rightarrow> bool \<Rightarrow> string \<Rightarrow> string \<Rightarrow> int \<Rightarrow> db \<Rightarrow>
     string + stage_result \<times> bool" where
  "send_round h t out target rework request label now d =
     (let i = taskId t;
          fp = reviewGateFailureFingerprint h t out d;
          prior = priorTaskStageFailureFingerprint i ''review_gate'' ''failure_fingerprint'' fp d
      in case recordFailureFingerprintAttempt i ''review_gate'' fp False d of
           Inl e \<Rightarrow> Inl e
         | Inr d1 \<Rightarrow>
             if fst prior \<and> \<not> snd prior
             then map_sum id (\<lambda>x. (x, False))
               (blockTaskForSameFailureFingerprint h t Review label
                 (''review_gate_rework: Auto review gate requested the same '' @ request @
                  '' again. Manual review required: same failure fingerprint failed closed.'')
                 ''review_gate_rework'' fp (outcome_extra out (\<lambda>r. r)) now d1)
             else (case move_task i target
                 (\<lambda>r. r\<lparr>blockedReason := None, blockedFromStatus := None, retryAfter := None, retryCount := 0,
                    reworkRequested := rework, reviewIterationCount := ro_currentIteration out,
                    manualReviewRequired := False, autoReviewState := ro_autoReviewState out\<rparr>)
                 None label now d1 of
                (d2, ms) \<Rightarrow> Inr ((appendTaskActivityLog i (stamped now
                  (''same_failure_fingerprint_observed: '' @ fp @ ''; family=review_gate_rework'')) now d2, ms), True)))"

definition manual_handoff ::
    "review_host \<Rightarrow> task_row \<Rightarrow> review_outcome \<Rightarrow> handoff_reason \<Rightarrow> string \<Rightarrow> string \<Rightarrow> int \<Rightarrow> db \<Rightarrow>
     string + stage_result \<times> bool" where
  "manual_handoff h t out why dir label now d =
     (let reason = buildManualAutoReviewBlockedReason why (ro_autoReviewState out) in
      case blockTaskForStalledAutoReview h t out dir label now d of
        Inl e \<Rightarrow> Inl e
      | Inr (x, True) \<Rightarrow> Inr (x, False)
      | Inr ((d1, ms1), False) \<Rightarrow>
          (case blockTaskForCompletionEvidenceIfNeeded h t dir Review label True
              (why \<noteq> Malformed_Review_Output_Fallback \<and> why \<noteq> Malformed_Structured_Review_Contract)
              ((outcome_extra out (\<lambda>r. r\<lparr>reworkRequested := False\<rparr>))\<lparr>ex_blockedReason := Some reason\<rparr>) now d1 of
             Inl e \<Rightarrow> Inl e
           | Inr (x, True) \<Rightarrow> Inr (add_moves ms1 x, False)
           | Inr ((d2, ms2), False) \<Rightarrow>
               Inr (add_moves (ms1 @ ms2) (move_task (taskId t) Blocked_External
                 (\<lambda>r. r\<lparr>blockedReason := Some reason, blockedFromStatus := Some Review, retryAfter := None,
                    retryCount := 0, reworkRequested := False, reviewIterationCount := ro_currentIteration out,
                    manualReviewRequired := True, autoReviewState := ro_autoReviewState out\<rparr>)
                 (Some reason) label now d2), False)))"

definition operator_handoff :: "task_row \<Rightarrow> review_outcome \<Rightarrow> string \<Rightarrow> int \<Rightarrow> db \<Rightarrow> stage_result" where
  "operator_handoff t out label now d =
     (let safe = map_option sanitizeAutoReviewStateForPersistence (ro_autoReviewState out);
          reason = buildOperatorInputAutoReviewBlockedReason safe
      in case move_task (taskId t) Blocked_External
          (\<lambda>r. r\<lparr>blockedReason := Some reason, blockedFromStatus := Some Review, retryAfter := None,
             retryCount := 0, reworkRequested := False, reviewIterationCount := ro_currentIteration out,
             manualReviewRequired := False, autoReviewState := safe\<rparr>) (Some reason) label now d of
         (d1, ms) \<Rightarrow> (appendTaskActivityLog (taskId t) (stamped now
           (''Auto review blocked for operator input: '' @ reason)) now d1, ms))"

definition accept_review ::
    "review_host \<Rightarrow> task_row \<Rightarrow> review_outcome \<Rightarrow> string \<Rightarrow> string \<Rightarrow> int \<Rightarrow> db \<Rightarrow> string + stage_result \<times> bool" where
  "accept_review h t out dir label now d =
     (case blockTaskForCompletionEvidenceIfNeeded h t dir Review label False False
         (outcome_extra out (\<lambda>r. r)) now d of
        Inl e \<Rightarrow> Inl e
      | Inr (x, True) \<Rightarrow> Inr (x, False)
      | Inr ((d1, ms), False) \<Rightarrow>
          Inr (add_moves ms
            (if rh_qaEnabled h
             then move_task (taskId t) Qa (\<lambda>r. (clean_reset r)\<lparr>reviewIterationCount := ro_currentIteration out,
                 autoReviewState := ro_autoReviewState out\<rparr>) None label now d1
             else move_task (taskId t) Done clean_reset None label now d1), True))"

text \<open>
  The branch of the stage function for the reviewer. \<open>task\<close> is the row the stage began with, \<open>latest\<close> the
  row after the reviewer ran; the second component is what the stage function returns, and
  \<^term>\<open>None\<close> where it goes on with the code after the branch.
\<close>

definition reviewer_stage ::
    "review_host \<Rightarrow> task_row \<Rightarrow> task_row \<Rightarrow> string \<Rightarrow> string \<Rightarrow> int \<Rightarrow> db \<Rightarrow> string + stage_result \<times> bool option" where
  "reviewer_stage h t latest executionRoot label now d =
     (let dir = the_default executionRoot (worktreePath latest) in
      case handleAutoReviewGate (rh_auto h) (taskId t) dir True d of
        Inl e \<Rightarrow> Inl e
      | Inr (d0, None) \<Rightarrow> Inr ((d0, []), None)
      | Inr (d0, Some out) \<Rightarrow>
          (let cur = the_default latest (findTaskById (taskId t) d0);
               curDir = the_default dir (worktreePath cur)
           in map_sum id (\<lambda>(x, b). (x, Some b))
             (case ro_status out of
                Outcome_Manual why \<Rightarrow> manual_handoff h cur out why curDir label now d0
              | Outcome_Operator_Input \<Rightarrow> Inr (operator_handoff t out label now d0, False)
              | Outcome_Rework \<Rightarrow> send_round h t out Implementing True ''changes'' label now d0
              | Outcome_Review_Retry \<Rightarrow> send_round h t out Review False ''reviewer retry'' label now d0
              | Outcome_Accepted \<Rightarrow> accept_review h cur out curDir label now d0)))"

end
