(* ===== verification/Review_Loop.thy ===== *)
theory Review_Loop
  imports Review_Stage
begin

text \<open>
  The loop of review and rework ends. \<open>running i s m n d\<close> says that task \<open>i\<close> is executable in \<open>d\<close>, in status
  \<open>s\<close>, with the limit \<open>m\<close> and the count \<open>n\<close> of review iterations; each operation of the reviewer stage is
  described by what it does to that.
\<close>

section \<open>The row of the task under review\<close>

definition row_at :: "task_status \<Rightarrow> int \<Rightarrow> int \<Rightarrow> task_row \<Rightarrow> bool" where
  "row_at s m n r \<longleftrightarrow> status r = s \<and> maxReviewIterations r = m \<and> reviewIterationCount r = n"

definition running :: "string \<Rightarrow> task_status \<Rightarrow> int \<Rightarrow> int \<Rightarrow> db \<Rightarrow> bool" where
  "running i s m n d \<longleftrightarrow> ids_distinct d \<and> (\<exists>r \<in> set (executable_rows d). taskId r = i \<and> row_at s m n r)"

lemma running_iff:
  "running i s m n d \<longleftrightarrow> ids_distinct d \<and>
     (\<exists>r. findTaskById i d = Some r \<and> hierarchyRole r \<noteq> Container \<and> row_at s m n r)"
  by (auto simp: running_def executable_rows_def findTaskById_iff)

lemma running_tables:
  "running i s m n d \<Longrightarrow> tasks d' = tasks d \<Longrightarrow> running i s m n d'"
  by (simp add: running_def executable_rows_def ids_distinct_def)

lemma running_map:
  assumes "running i s m n d" and "ids_distinct d'" and "executable_rows d' = map g (executable_rows d)"
    and "\<And>r. taskId r = i \<Longrightarrow> row_at s m n r \<Longrightarrow> taskId (g r) = i \<and> row_at s' m' n' (g r)"
  shows "running i s' m' n' d'"
  using assms by (auto simp: running_def)

lemma normalize_row_at [simp]: "row_at s m n (normalizeOperatorInputHoldPatch r) = row_at s m n r"
  by (simp add: row_at_def normalizeOperatorInputHoldPatch_def)

text \<open>A write to the row itself.\<close>

lemma running_setTaskFields:
  assumes "running i s m n d" and "\<And>r. taskId (f r) = taskId r" "\<And>r. hierarchyRole (f r) = hierarchyRole r"
    and "\<And>r. row_at s m n r \<Longrightarrow> row_at s' m' n' (f r)"
  shows "running i s' m' n' (setTaskFields i f now d)"
proof -
  have d: "ids_distinct d" using assms(1) by (simp add: running_def)
  show ?thesis
    by (rule running_map [OF assms(1) executable_setTaskFields(2,1) [OF d assms(2,3)]])
      (use assms in \<open>auto simp: normalize_frame\<close>)
qed

lemma running_log: "running i s m n d \<Longrightarrow> running i s m n (appendTaskActivityLog i x now d)"
proof -
  assume r: "running i s m n d"
  have "running i s m n (if findTaskById i d = None then d
      else d\<lparr>activity := activity d @ [(i, [], redactProviderText x)]\<rparr>)"
    using r by (rule running_tables) simp
  then show ?thesis unfolding appendTaskActivityLog_def
    by (rule running_setTaskFields) (simp_all add: row_at_def)
qed

text \<open>A write that leaves what we look at alone, to any rows.\<close>

lemma running_update_tasks:
  assumes "running i s m n d" and "\<And>r. taskId (f r) = taskId r" "\<And>r. hierarchyRole (f r) = hierarchyRole r"
    and "\<And>r. row_at s m n (f r) = row_at s m n r"
  shows "running i s m n (fst (update_tasks p f d))"
proof (rule running_map [OF assms(1)])
  show "ids_distinct (fst (update_tasks p f d))"
    using assms(1,2) by (simp add: ids_distinct_update running_def)
  show "executable_rows (fst (update_tasks p f d)) = map (\<lambda>r. if p r then f r else r) (executable_rows d)"
    by (rule executable_update) (rule assms(3))
qed (simp add: assms(2,4))

lemma running_clear: "running i s m n d \<Longrightarrow> running i s m n (clearTaskRuntimeLimitSnapshot i now d)"
  unfolding clearTaskRuntimeLimitSnapshot_def by (erule running_update_tasks) (simp_all add: row_at_def)

lemma synthesis_hold_frame [simp]:
  "taskId (synthesis_hold b now r) = taskId r" "hierarchyRole (synthesis_hold b now r) = hierarchyRole r"
  "row_at s m n (synthesis_hold b now r) = row_at s m n r"
  by (simp_all add: synthesis_hold_def row_at_def)

lemma running_rollup: "running i s m n d \<Longrightarrow> running i s m n (refreshAncestorRollups j now d)"
  by (simp add: running_def executable_rows_refreshAncestorRollups)

lemma running_refresh: "running i s m n d \<Longrightarrow> running i s m n (fst (refreshRoadmapBatchSummary b now d))"
proof (cases "findRoadmapBatchById b d")
  case (Some batch)
  assume r: "running i s m n d"
  have 1: "running i s m n (update_batches p f d)" for p f
    using r by (rule running_tables) (simp add: update_batches_def)
  have "running i s m n (fst (update_tasks p (synthesis_hold x now) e))" if "running i s m n e" for p x e
    using that by (rule running_update_tasks) simp_all
  note hold = running_rollup [OF this]
  show ?thesis using 1 hold by (simp add: refreshRoadmapBatchSummary_def Some Let_def)
qed (simp add: refreshRoadmapBatchSummary_def)

lemma running_update:
  assumes "running i s m n d" and "updateRoadmapBatchArtifactState j u uuid now d = Inr (d', x)"
  shows "running i s m n d'"
proof (cases "findRoadmapBatchArtifactByTaskId j d")
  case None
  then show ?thesis using assms by (simp add: updateRoadmapBatchArtifactState_def)
next
  case (Some a)
  then have "d' = fst (refreshRoadmapBatchSummary (artifactBatchId a) now (write_artifact_state a u uuid now d))"
    using assms(2) by (simp add: updateRoadmapBatchArtifactState_def split: if_splits)
  moreover have "running i s m n (write_artifact_state a u uuid now d)"
    using assms(1) by (rule running_tables) (simp add: write_artifact_state_tables)
  ultimately show ?thesis by (simp add: running_refresh)
qed

lemma running_guardrail:
  assumes "running i s m n d" and "emitCoordinatorGuardrail h i st fp now d = Inr d'"
  shows "running i s m n d'"
  using running_log [OF assms(1)]
  by (rule running_tables) (use assms(2) in \<open>auto simp: emitCoordinatorGuardrail_def Let_def split: if_splits\<close>)

lemma running_recorded:
  assumes "running i s m n d" and "recordFailureFingerprintAttempt j st fp ov d = Inr d'"
  shows "running i s m n d'"
  using assms(1)
  by (rule running_tables) (use assms(2) in \<open>auto simp: recordFailureFingerprintAttempt_def split: if_splits\<close>)

text \<open>What these writes leave alone.\<close>

lemma log_tables [simp]:
  "stageAttempts (appendTaskActivityLog i x now d) = stageAttempts d"
  "artifacts (appendTaskActivityLog i x now d) = artifacts d"
  "attempts (appendTaskActivityLog i x now d) = attempts d"
  by (simp_all add: appendTaskActivityLog_def setTaskFields_def)

lemma clear_tables [simp]:
  "stageAttempts (clearTaskRuntimeLimitSnapshot i now d) = stageAttempts d"
  "artifacts (clearTaskRuntimeLimitSnapshot i now d) = artifacts d"
  "attempts (clearTaskRuntimeLimitSnapshot i now d) = attempts d"
  by (simp_all add: clearTaskRuntimeLimitSnapshot_def)

lemma status_tables:
  assumes "coordinator_updateTaskStatus i st f reason label frm now d = (d', ms)"
  shows "stageAttempts d' = stageAttempts d" "artifacts d' = artifacts d" "attempts d' = attempts d"
  using assms by (auto simp: coordinator_updateTaskStatus_def updateTaskStatus_def setTaskFields_def split: if_splits)

lemma move_tables:
  assumes "move_task i st f reason label now d = (d', ms)"
  shows "stageAttempts d' = stageAttempts d" "artifacts d' = artifacts d" "attempts d' = attempts d"
  using status_tables [OF assms [unfolded move_task_def]] by simp_all

section \<open>Changing the status\<close>

definition keeps_row :: "(task_row \<Rightarrow> task_row) \<Rightarrow> bool" where
  "keeps_row f \<longleftrightarrow> (\<forall>r. taskId (f r) = taskId r \<and> hierarchyRole (f r) = hierarchyRole r \<and> status (f r) = status r \<and>
     maxReviewIterations (f r) = maxReviewIterations r)"

lemma running_status:
  assumes "running i s m n d" and "s \<noteq> Blocked_External" and "keeps_row f"
    and "\<And>r. reviewIterationCount r = n \<Longrightarrow> reviewIterationCount (f r) = k"
  shows "running i st m k (fst (coordinator_updateTaskStatus i st f reason label from now d))"
proof -
  have "\<not> isOperatorCancelledTask r" if "findTaskById i d = Some r" for r
    using assms(1,2) that by (auto simp: running_iff row_at_def isOperatorCancelledTask_def)
  then have "fst (coordinator_updateTaskStatus i st f reason label from now d) = updateTaskStatus i st f now d"
    by (auto simp: coordinator_updateTaskStatus_def split: option.splits)
  moreover have "running i st m k (updateTaskStatus i st f now d)"
    unfolding updateTaskStatus_def
    by (rule running_setTaskFields [OF assms(1)]) (use assms(3,4) in \<open>auto simp: keeps_row_def row_at_def\<close>)
  ultimately show ?thesis by simp
qed

lemma running_move:
  assumes "running i s m n d" and "s \<noteq> Blocked_External" and "keeps_row f"
    and "\<And>r. reviewIterationCount r = n \<Longrightarrow> reviewIterationCount (f r) = k"
  shows "running i st m k (fst (move_task i st f reason label now d))"
  unfolding move_task_def by (rule running_status [OF running_clear [OF assms(1)] assms(2-4)])

text \<open>The same with the pair of the result named.\<close>

lemma running_status_pair:
  assumes "coordinator_updateTaskStatus i st f reason label from now d = (d', ms)"
    and "running i s m n d" and "s \<noteq> Blocked_External" and "keeps_row f"
    and "\<And>r. reviewIterationCount r = n \<Longrightarrow> reviewIterationCount (f r) = k"
  shows "running i st m k d'"
proof -
  have "running i st m k (fst (coordinator_updateTaskStatus i st f reason label from now d))"
    by (rule running_status [OF assms(2-5)])
  then show ?thesis by (simp add: assms(1))
qed

definition counts :: "int \<Rightarrow> evidence_extra \<Rightarrow> bool" where
  "counts k ex \<longleftrightarrow> ex_reviewIterationCount ex = Some k \<and> keeps_row (ex_fields ex) \<and>
     (\<forall>r. reviewIterationCount (ex_fields ex r) = k)"

lemma outcome_extra_counts [simp]:
  "keeps_row f \<Longrightarrow> (\<And>r. reviewIterationCount (f r) = reviewIterationCount r) \<Longrightarrow>
     counts (ro_currentIteration out) (outcome_extra out f)"
  "counts k (ex\<lparr>ex_blockedReason := b\<rparr>) = counts k ex"
  by (simp_all add: counts_def outcome_extra_def keeps_row_def)

lemma running_same_failure:
  assumes "blockTaskForSameFailureFingerprint h t from label reason family fp ex now d = Inr (d', ms)"
    and "running (taskId t) s m n d" and "s \<noteq> Blocked_External" and "counts k ex"
  shows "running (taskId t) Blocked_External m k d'"
proof -
  let ?f = "\<lambda>r. (ex_fields ex (r\<lparr>blockedReason := Some (join_reasons reason (ex_blockedReason ex)),
      blockedFromStatus := Some from, retryAfter := None, retryCount := retryCount t\<rparr>))
      \<lparr>reworkRequested := False, manualReviewRequired := True\<rparr>"
  obtain d1 ms1 where c: "coordinator_updateTaskStatus (taskId t) Blocked_External ?f
      (Some (join_reasons reason (ex_blockedReason ex))) label from now
      (clearTaskRuntimeLimitSnapshot (taskId t) now d) = (d1, ms1)" by fastforce
  have "keeps_row ?f" "\<And>r. reviewIterationCount (?f r) = k"
    using assms(4) by (simp_all add: counts_def keeps_row_def)
  then have "running (taskId t) Blocked_External m k d1"
    using running_status_pair [OF c running_clear [OF assms(2)] assms(3)] by blast
  then show ?thesis using assms(1) c
    by (auto simp: blockTaskForSameFailureFingerprint_def Let_def intro: running_guardrail running_log split: sum.splits)
qed

lemma running_rework:
  assumes "returnAuditTaskToRework h t a from label reason family r dir ex now d = Inr (d', ms)"
    and "running (taskId t) s m n d" and "s \<noteq> Blocked_External" and "counts k ex"
  shows "running (taskId t) Implementing m k d'"
proof -
  let ?sr = "join_reasons (family @ '': '' @ reason) (ex_blockedReason ex)"
  let ?f = "\<lambda>x. (ex_fields ex (x\<lparr>blockedFromStatus := Some from, retryAfter := None, retryCount := retryCount t\<rparr>))
      \<lparr>blockedReason := Some ?sr, reworkRequested := True, manualReviewRequired := False\<rparr>"
  obtain d1 x where
    u: "updateRoadmapBatchArtifactState (taskId t) (rework_update h t a family r dir) (rh_uuid h) now d = Inr (d1, x)"
    using assms(1) by (cases "updateRoadmapBatchArtifactState (taskId t) (rework_update h t a family r dir) (rh_uuid h) now d")
      (auto simp: returnAuditTaskToRework_def Let_def)
  obtain d2 ms2 where c: "coordinator_updateTaskStatus (taskId t) Implementing ?f (Some ?sr) label from now
      (clearTaskRuntimeLimitSnapshot (taskId t) now d1) = (d2, ms2)" by fastforce
  have "keeps_row ?f" "\<And>r. reviewIterationCount (?f r) = k"
    using assms(4) by (simp_all add: counts_def keeps_row_def)
  then have "running (taskId t) Implementing m k d2"
    using running_status_pair [OF c running_clear [OF running_update [OF assms(2) u]] assms(3)] by blast
  then show ?thesis using assms(1) u c by (auto simp: returnAuditTaskToRework_def Let_def intro: running_log)
qed

lemma running_terminalize:
  assumes "terminalizeRoadmapSourceReportAsInconclusive h t dir from label reason why iteration state given extra
      now d = Inr ((d', ms), b)"
    and "running (taskId t) s m n d" and "s \<noteq> Blocked_External"
  shows "if b then running (taskId t) Blocked_External m iteration d' else d' = d \<and> ms = []"
proof (cases "findRoadmapBatchArtifactByTaskId (taskId t) d")
  case None
  then show ?thesis using assms(1) by (simp add: terminalizeRoadmapSourceReportAsInconclusive_def Let_def)
next
  case (Some a)
  let ?blocked = "if startsWith why ''manual_review_required:'' then why
    else ''manual_review_required: '' @ reason @ ''; '' @ why"
  let ?f = "\<lambda>r. (clean_reset r)\<lparr>blockedReason := Some ?blocked, blockedFromStatus := Some from,
    retryCount := retryCount t, reworkRequested := False, reviewIterationCount := iteration,
    manualReviewRequired := True, autoReviewState := state\<rparr>"
  show ?thesis
  proof (cases "artifactRole a = ''report''")
    case True
    then obtain d1 x where
      u: "updateRoadmapBatchArtifactState (taskId t) (terminal_update h t dir a reason ?blocked given extra state)
        (rh_uuid h) now d = Inr (d1, x)"
      using assms(1) Some
      by (cases "updateRoadmapBatchArtifactState (taskId t) (terminal_update h t dir a reason ?blocked given extra state)
        (rh_uuid h) now d") (auto simp: terminalizeRoadmapSourceReportAsInconclusive_def Let_def)
    obtain d2 ms2 where c: "coordinator_updateTaskStatus (taskId t) Blocked_External ?f (Some ?blocked) label from now
        (clearTaskRuntimeLimitSnapshot (taskId t) now d1) = (d2, ms2)" by fastforce
    have "keeps_row ?f" "\<And>r. reviewIterationCount (?f r) = iteration"
      by (simp_all add: keeps_row_def clean_reset_def)
    then have "running (taskId t) Blocked_External m iteration d2"
      using running_status_pair [OF c running_clear [OF running_update [OF assms(2) u]] assms(3)] by blast
    then show ?thesis using assms(1) Some True u c
      by (auto simp: terminalizeRoadmapSourceReportAsInconclusive_def Let_def intro: running_log)
  qed (use assms(1) Some in \<open>simp add: terminalizeRoadmapSourceReportAsInconclusive_def Let_def\<close>)
qed

lemma running_block:
  assumes "block_on_evidence h t artifact from label rm g r ex now d = Inr (d', ms)"
    and "running (taskId t) s m n d" and "s \<noteq> Blocked_External" and "counts k ex"
  shows "running (taskId t) Blocked_External m k d'"
proof -
  let ?reason = "if artifact \<noteq> None then gd_family g @ '': '' @ gd_blockedReason g else gd_blockedReason g"
  let ?final = "join_reasons ?reason (ex_blockedReason ex)"
  let ?f = "\<lambda>x. (ex_fields ex (x\<lparr>blockedReason := Some ?final, blockedFromStatus := Some from, retryAfter := None,
      retryCount := retryCount t\<rparr>))
      \<lparr>manualReviewRequired := rm \<or> gd_repeated g \<or> gd_limitReached g \<or> manual_issue r\<rparr>"
  obtain d1 ms1 where c: "coordinator_updateTaskStatus (taskId t) Blocked_External ?f (Some ?final) label from now
      (clearTaskRuntimeLimitSnapshot (taskId t) now d) = (d1, ms1)" by fastforce
  have "keeps_row ?f" "\<And>r. reviewIterationCount (?f r) = k"
    using assms(4) by (simp_all add: counts_def keeps_row_def)
  then have "running (taskId t) Blocked_External m k d1"
    using running_status_pair [OF c running_clear [OF assms(2)] assms(3)] by blast
  note logged = running_log [OF this]
  show ?thesis using assms(1) c running_guardrail [OF running_log [OF logged]] logged
    unfolding block_on_evidence_def Let_def by (auto split: sum.splits option.splits if_splits)
qed

lemma guard_limit:
  "gd_returnToRework (guard_decide h t artifact prevent iteration r d) \<Longrightarrow>
     iteration < min (maxReviewIterations t) 10 \<and> \<not> prevent"
  by (simp add: guard_decide_def Let_def boundedReviewIterationLimit_def)

definition handed_back :: "string \<Rightarrow> int \<Rightarrow> int \<Rightarrow> db \<Rightarrow> bool" where
  "handed_back i m k d \<longleftrightarrow> running i Blocked_External m k d \<or>
     k < min m 10 \<and> (running i Implementing m k d \<or> running i Review m k d)"

lemma running_evidence:
  assumes "blockTaskForCompletionEvidenceIfNeeded h t dir from label rm prevent ex now d = Inr ((d', ms), b)"
    and "running (taskId t) s m n d" and "s \<noteq> Blocked_External" and "counts k ex"
    and "maxReviewIterations t = m"
  shows "if b then handed_back (taskId t) m k d' else running (taskId t) s m n d'"
proof -
  let ?i = "taskId t"
  let ?r = "rh_evidence h t dir rm d"
  let ?a = "findRoadmapBatchArtifactByTaskId ?i d"
  let ?g = "guard_decide h t ?a prevent k ?r d"
  note def = blockTaskForCompletionEvidenceIfNeeded_def Let_def
  have k: "ex_reviewIterationCount ex = Some k" using assms(4) by (simp add: counts_def)
  show ?thesis
  proof (cases "er_ok ?r")
    case True
    then show ?thesis using assms(1,2) running_update [OF assms(2)]
      by (cases ?a) (auto simp: def split: sum.splits)
  next
    case bad: False
    show ?thesis
    proof (cases ?a)
      case None
      then obtain y where "block_on_evidence h t None from label rm ?g ?r ex now d = Inr y" "y = (d', ms)" "b"
        using assms(1) bad k
        by (cases "block_on_evidence h t None from label rm ?g ?r ex now d") (auto simp: def)
      then show ?thesis using running_block [OF _ assms(2-4)] by (auto simp: handed_back_def)
    next
      case (Some a)
      show ?thesis
      proof (cases "gd_returnToRework ?g")
        case True
        then obtain x where "returnAuditTaskToRework h t a from label (gd_blockedReason ?g) (gd_family ?g) ?r dir ex now d = Inr x"
          "x = (d', ms)" "b"
          using assms(1) bad Some k
          by (cases "returnAuditTaskToRework h t a from label (gd_blockedReason ?g) (gd_family ?g) ?r dir ex now d")
            (auto simp: def)
        then show ?thesis using running_rework [OF _ assms(2-4)] guard_limit [OF True] assms(5)
          by (auto simp: handed_back_def)
      next
        case False
        let ?u = "blocked_update h t a dir (gd_family ?g) (gd_limitReached ?g \<or> gd_repeated ?g) ?r (rh_cleanup h t a ?r)"
        obtain d1 x where u: "updateRoadmapBatchArtifactState ?i ?u (rh_uuid h) now d = Inr (d1, x)"
          using assms(1) bad Some k False
          by (cases "updateRoadmapBatchArtifactState ?i ?u (rh_uuid h) now d") (auto simp: def)
        define d2 where "d2 = (case rh_cleanup h t a ?r of None \<Rightarrow> d1
            | Some c \<Rightarrow> appendTaskActivityLog ?i (stamped now (cleanup_line c)) now d1)"
        have "running ?i s m n d2"
          using running_update [OF assms(2) u] by (auto simp: d2_def intro: running_log split: option.split)
        note blocked = running_block [OF _ this assms(3,4)]
        obtain y where "block_on_evidence h t (Some a) from label rm ?g ?r ex now d2 = Inr y" "y = (d', ms)" "b"
          using assms(1) bad Some k False u
          by (cases "block_on_evidence h t (Some a) from label rm ?g ?r ex now d2") (auto simp: def d2_def)
        then show ?thesis using blocked by (auto simp: handed_back_def)
      qed
    qed
  qed
qed

section \<open>The outcomes\<close>

lemma running_move_pair:
  assumes "move_task i st f reason label now d = (d', ms)"
    and "running i s m n d" and "s \<noteq> Blocked_External" and "keeps_row f"
    and "\<And>r. reviewIterationCount r = n \<Longrightarrow> reviewIterationCount (f r) = k"
  shows "running i st m k d'"
  using assms(1) running_status_pair [OF _ running_clear [OF assms(2)] assms(3-5)] by (simp add: move_task_def)

lemma running_stalled:
  assumes "blockTaskForStalledAutoReview h t out dir label now d = Inr ((d', ms), b)"
    and "running (taskId t) s m n d" and "s \<noteq> Blocked_External"
  shows "if b then running (taskId t) Blocked_External m (ro_currentIteration out) d'
    else running (taskId t) s m n d'"
proof (cases "ro_status out = Outcome_Manual Stalled_Rework_Loop")
  case True
  let ?blocked = "''manual_review_required: stalled_rework_loop after '' @
      string_of_int (ro_currentIteration out) @ ''/'' @ string_of_int (are_stallThreshold (rh_auto h)) @
      '' same-blocker reviews; unresolved blockers: '' @
      formatAutoReviewFindingsForBlockedReason (state_findings (ro_autoReviewState out))"
  let ?t = "terminalizeRoadmapSourceReportAsInconclusive h t dir Review label ''stalled_rework_loop'' ?blocked
      (ro_currentIteration out) (ro_autoReviewState out) None
      [(''metrics'', metrics_json (ro_metrics out)), (''handoffReason'', JStr ''stalled_rework_loop''),
       (''stallThreshold'', int_json (are_stallThreshold (rh_auto h)))] now d"
  let ?f = "\<lambda>r. r\<lparr>blockedReason := Some ?blocked, blockedFromStatus := Some Review, retryAfter := None,
      retryCount := retryCount t, reworkRequested := False, reviewIterationCount := ro_currentIteration out,
      manualReviewRequired := True, autoReviewState := ro_autoReviewState out\<rparr>"
  obtain d1 ms1 c where t: "?t = Inr ((d1, ms1), c)"
    using assms(1) True by (cases ?t) (auto simp: blockTaskForStalledAutoReview_def Let_def)
  obtain d2 ms2 where c: "move_task (taskId t) Blocked_External ?f (Some ?blocked) label now d1 = (d2, ms2)"
    by fastforce
  show ?thesis
  proof (cases c)
    case True
    then have "d' = d1 \<and> b" using assms(1) t \<open>ro_status out = _\<close>
      unfolding blockTaskForStalledAutoReview_def Let_def by simp
    then show ?thesis using running_terminalize [OF t assms(2,3)] True by simp
  next
    case False
    then have "d1 = d" using running_terminalize [OF t assms(2,3)] by simp
    have k: "keeps_row ?f" "\<And>r. reviewIterationCount (?f r) = ro_currentIteration out"
      by (simp_all add: keeps_row_def)
    have "running (taskId t) Blocked_External m (ro_currentIteration out) d2"
      by (rule running_move_pair [OF c _ assms(3) k]) (use \<open>d1 = d\<close> assms(2) in simp)
    moreover have "b \<and> (\<exists>x. d' = appendTaskActivityLog (taskId t) x now d2)"
      using assms(1) t c False \<open>ro_status out = _\<close> unfolding blockTaskForStalledAutoReview_def Let_def by auto
    ultimately show ?thesis by (auto intro: running_log)
  qed
qed (use assms in \<open>simp add: blockTaskForStalledAutoReview_def\<close>)

lemma running_handoff:
  assumes "manual_handoff h t out why dir label now d = Inr ((d', ms), b)"
    and "running (taskId t) s m n d" and "s \<noteq> Blocked_External" and "maxReviewIterations t = m"
  shows "handed_back (taskId t) m (ro_currentIteration out) d'"
proof -
  let ?reason = "buildManualAutoReviewBlockedReason why (ro_autoReviewState out)"
  let ?ex = "(outcome_extra out (\<lambda>r. r\<lparr>reworkRequested := False\<rparr>))\<lparr>ex_blockedReason := Some ?reason\<rparr>"
  let ?p = "why \<noteq> Malformed_Review_Output_Fallback \<and> why \<noteq> Malformed_Structured_Review_Contract"
  let ?f = "\<lambda>r. r\<lparr>blockedReason := Some ?reason, blockedFromStatus := Some Review, retryAfter := None,
      retryCount := 0, reworkRequested := False, reviewIterationCount := ro_currentIteration out,
      manualReviewRequired := True, autoReviewState := ro_autoReviewState out\<rparr>"
  obtain d1 ms1 c1 where s: "blockTaskForStalledAutoReview h t out dir label now d = Inr ((d1, ms1), c1)"
    using assms(1) by (cases "blockTaskForStalledAutoReview h t out dir label now d") (auto simp: manual_handoff_def)
  note s' = running_stalled [OF s assms(2,3)]
  show ?thesis
  proof (cases c1)
    case True
    then show ?thesis using assms(1) s s' by (auto simp: manual_handoff_def handed_back_def)
  next
    case False
    then have d1: "running (taskId t) s m n d1" using s' by simp
    let ?e = "blockTaskForCompletionEvidenceIfNeeded h t dir Review label True ?p ?ex now d1"
    obtain d2 ms2 c2 where e: "?e = Inr ((d2, ms2), c2)"
      using assms(1) s False by (cases ?e) (auto simp: manual_handoff_def)
    have "counts (ro_currentIteration out) ?ex" by (simp add: keeps_row_def)
    note e' = running_evidence [OF e d1 assms(3) this assms(4)]
    show ?thesis
    proof (cases c2)
      case True
      then show ?thesis using assms(1) s False e e' by (auto simp: manual_handoff_def add_moves_def)
    next
      case no: False
      obtain d3 ms3 where c: "move_task (taskId t) Blocked_External ?f (Some ?reason) label now d2 = (d3, ms3)"
        by fastforce
      have "keeps_row ?f" "\<And>r. reviewIterationCount (?f r) = ro_currentIteration out"
        by (simp_all add: keeps_row_def)
      then have "running (taskId t) Blocked_External m (ro_currentIteration out) d3"
        using running_move_pair [OF c _ assms(3)] e' no by simp
      then show ?thesis using assms(1) s False e no c by (auto simp: manual_handoff_def add_moves_def handed_back_def)
    qed
  qed
qed

lemma running_round:
  assumes "send_round h t out target rework request label now d = Inr ((d', ms), b)"
    and "running (taskId t) s m n d" and "s \<noteq> Blocked_External"
  shows "running (taskId t) (if b then target else Blocked_External) m (ro_currentIteration out) d'"
proof -
  let ?fp = "reviewGateFailureFingerprint h t out d"
  let ?f = "\<lambda>r. r\<lparr>blockedReason := None, blockedFromStatus := None, retryAfter := None, retryCount := 0,
      reworkRequested := rework, reviewIterationCount := ro_currentIteration out,
      manualReviewRequired := False, autoReviewState := ro_autoReviewState out\<rparr>"
  obtain d1 where r: "recordFailureFingerprintAttempt (taskId t) ''review_gate'' ?fp False d = Inr d1"
    using assms(1) by (cases "recordFailureFingerprintAttempt (taskId t) ''review_gate'' ?fp False d")
      (auto simp: send_round_def Let_def)
  note d1 = running_recorded [OF assms(2) r]
  show ?thesis
  proof (cases "let p = priorTaskStageFailureFingerprint (taskId t) ''review_gate'' ''failure_fingerprint'' ?fp d
      in fst p \<and> \<not> snd p")
    case True
    let ?b = "blockTaskForSameFailureFingerprint h t Review label
        (''review_gate_rework: Auto review gate requested the same '' @ request @
         '' again. Manual review required: same failure fingerprint failed closed.'')
        ''review_gate_rework'' ?fp (outcome_extra out (\<lambda>r. r)) now d1"
    have b: "?b = Inr (d', ms)" "\<not> b"
      using assms(1) r True by (cases ?b; auto simp: send_round_def Let_def)+
    have "counts (ro_currentIteration out) (outcome_extra out (\<lambda>r. r))" by (simp add: keeps_row_def)
    then show ?thesis using running_same_failure [OF b(1) d1 assms(3)] b(2) by simp
  next
    case False
    obtain d2 ms2 where c: "move_task (taskId t) target ?f None label now d1 = (d2, ms2)" by fastforce
    have "keeps_row ?f" "\<And>r. reviewIterationCount (?f r) = ro_currentIteration out"
      by (simp_all add: keeps_row_def)
    then have "running (taskId t) target m (ro_currentIteration out) d2"
      using running_move_pair [OF c d1 assms(3)] by simp
    moreover have "b \<and> (\<exists>x. d' = appendTaskActivityLog (taskId t) x now d2)"
      using assms(1) r False c by (auto simp: send_round_def Let_def)
    ultimately show ?thesis by (auto intro: running_log)
  qed
qed

lemma clean_reset_facts [simp]:
  "taskId (clean_reset r) = taskId r" "hierarchyRole (clean_reset r) = hierarchyRole r"
  "status (clean_reset r) = status r" "maxReviewIterations (clean_reset r) = maxReviewIterations r"
  "reviewIterationCount (clean_reset r) = 0"
  by (simp_all add: clean_reset_def)

lemma running_accept:
  assumes "accept_review h t out dir label now d = Inr ((d', ms), b)"
    and "running (taskId t) s m n d" and "s \<noteq> Blocked_External" and "maxReviewIterations t = m"
  shows "handed_back (taskId t) m (ro_currentIteration out) d' \<or>
    (\<exists>k. running (taskId t) Qa m k d' \<or> running (taskId t) Done m k d')"
proof -
  let ?ex = "outcome_extra out (\<lambda>r. r)"
  let ?e = "blockTaskForCompletionEvidenceIfNeeded h t dir Review label False False ?ex now d"
  obtain d1 ms1 c where e: "?e = Inr ((d1, ms1), c)"
    using assms(1) by (cases ?e) (auto simp: accept_review_def)
  have "counts (ro_currentIteration out) ?ex" by (simp add: keeps_row_def)
  note e' = running_evidence [OF e assms(2,3) this assms(4)]
  show ?thesis
  proof (cases c)
    case True
    then show ?thesis using assms(1) e e' by (auto simp: accept_review_def)
  next
    case False
    let ?q = "\<lambda>r. (clean_reset r)\<lparr>reviewIterationCount := ro_currentIteration out,
        autoReviewState := ro_autoReviewState out\<rparr>"
    have d1: "running (taskId t) s m n d1" using e' False by simp
    have qa: "running (taskId t) Qa m (ro_currentIteration out)
        (fst (move_task (taskId t) Qa ?q None label now d1))"
      by (rule running_move [OF d1 assms(3)]) (simp_all add: keeps_row_def)
    have dn: "running (taskId t) Done m 0 (fst (move_task (taskId t) Done clean_reset None label now d1))"
      by (rule running_move [OF d1 assms(3)]) (simp_all add: keeps_row_def)
    show ?thesis using assms(1) e False qa dn
      by (auto simp: accept_review_def add_moves_def split: if_splits prod.splits)
  qed
qed

lemma running_operator:
  assumes "operator_handoff t out label now d = (d', ms)"
    and "running (taskId t) s m n d" and "s \<noteq> Blocked_External"
  shows "running (taskId t) Blocked_External m (ro_currentIteration out) d'"
proof -
  let ?safe = "map_option sanitizeAutoReviewStateForPersistence (ro_autoReviewState out)"
  let ?reason = "buildOperatorInputAutoReviewBlockedReason ?safe"
  let ?f = "\<lambda>r. r\<lparr>blockedReason := Some ?reason, blockedFromStatus := Some Review, retryAfter := None,
      retryCount := 0, reworkRequested := False, reviewIterationCount := ro_currentIteration out,
      manualReviewRequired := False, autoReviewState := ?safe\<rparr>"
  obtain d1 ms1 where c: "move_task (taskId t) Blocked_External ?f (Some ?reason) label now d = (d1, ms1)" by fastforce
  have "keeps_row ?f" "\<And>r. reviewIterationCount (?f r) = ro_currentIteration out" by (simp_all add: keeps_row_def)
  then have "running (taskId t) Blocked_External m (ro_currentIteration out) d1"
    using running_move_pair [OF c assms(2,3)] by simp
  then show ?thesis using assms(1) c by (auto simp: operator_handoff_def Let_def intro: running_log)
qed

section \<open>The gate's handler\<close>

lemma handled:
  assumes "handleAutoReviewGate e i dir True d = Inr (d0, out)" and "findTaskById i d = Some r"
  obtains g o1 started where "out = Some o1" "tasks d0 = tasks d" "ro_currentIteration o1 = reviewIterationCount r + 1"
    "evaluateReviewCommentsForAutoMode (are_gate e r (the_default dir (worktreePath r))) (handler_gate_input e r) = Inr g"
    "ro_status o1 = outcome_of e r g started" "artifacts started = artifacts d"
    "ro_autoReviewState o1 = outcome_state e i (the_default dir (worktreePath r)) (ro_status o1)
       (reviewIterationCount r + 1) (gr_state g) started"
  using assms
  by (auto simp: handleAutoReviewGate_def Let_def published_def createTaskComment_def logActivity_def split: sum.splits)

lemma outcome_of_again:
  "outcome_of e r g d \<in> {Outcome_Rework, Outcome_Review_Retry} \<Longrightarrow>
     gr_status g = Gate_Request_Changes \<and> reviewIterationCount r + 1 < max_iterations r"
  by (auto simp: outcome_of_def split: gate_status.splits if_splits)

text \<open>One run of the reviewer stage.\<close>

lemma reviewer_stage_running:
  assumes "reviewer_stage h t latest dir label now d = Inr ((d', ms), b)"
    and "running (taskId t) Review m n d"
  shows "handed_back (taskId t) m (n + 1) d' \<or> (\<exists>k. running (taskId t) Qa m k d' \<or> running (taskId t) Done m k d')"
proof -
  let ?i = "taskId t"
  let ?dir = "the_default dir (worktreePath latest)"
  obtain r where r: "findTaskById ?i d = Some r" "row_at Review m n r"
    using assms(2) by (auto simp: running_iff)
  obtain d0 out where "handleAutoReviewGate (rh_auto h) ?i ?dir True d = Inr (d0, out)"
    using assms(1) by (cases "handleAutoReviewGate (rh_auto h) ?i ?dir True d") (auto simp: reviewer_stage_def Let_def)
  note h = this
  obtain g o1 started where o1: "out = Some o1" "tasks d0 = tasks d" "ro_currentIteration o1 = n + 1"
    "ro_status o1 = outcome_of (rh_auto h) r g started"
    by (rule handled [OF h r(1)]) (use r(2) in \<open>auto simp: row_at_def\<close>)
  have d0: "running ?i Review m n d0" by (rule running_tables [OF assms(2) o1(2)])
  have cur: "findTaskById ?i d0 = Some r" using r(1) o1(2) by (simp add: findTaskById_def)
  have again: "n + 1 < min m 10" if "ro_status o1 \<in> {Outcome_Rework, Outcome_Review_Retry}"
    using outcome_of_again [of "rh_auto h" r g started] that o1(4) r(2) by (auto simp: max_iterations_def row_at_def)
  have i: "taskId r = ?i" "maxReviewIterations r = m"
    using r by (auto simp: row_at_def dest: findTaskById_Some)
  let ?cd = "the_default ?dir (worktreePath r)"
  show ?thesis
  proof (cases "ro_status o1")
    case (Outcome_Manual why)
    then obtain c where "manual_handoff h r o1 why ?cd label now d0 = Inr ((d', ms), c)"
      using assms(1) h o1(1) cur by (cases "manual_handoff h r o1 why ?cd label now d0")
        (auto simp: reviewer_stage_def Let_def)
    from running_handoff [OF this] show ?thesis using d0 i o1(3) by simp
  next
    case Outcome_Operator_Input
    then have "operator_handoff t o1 label now d0 = (d', ms)"
      using assms(1) h o1(1) cur by (auto simp: reviewer_stage_def Let_def)
    from running_operator [OF this d0] show ?thesis using o1(3) by (simp add: handed_back_def)
  next
    case Outcome_Rework
    then obtain c where "send_round h t o1 Implementing True ''changes'' label now d0 = Inr ((d', ms), c)"
      using assms(1) h o1(1) cur by (cases "send_round h t o1 Implementing True ''changes'' label now d0")
        (auto simp: reviewer_stage_def Let_def)
    from running_round [OF this d0] show ?thesis using o1(3) again Outcome_Rework
      by (auto simp: handed_back_def split: if_splits)
  next
    case Outcome_Review_Retry
    then obtain c where "send_round h t o1 Review False ''reviewer retry'' label now d0 = Inr ((d', ms), c)"
      using assms(1) h o1(1) cur by (cases "send_round h t o1 Review False ''reviewer retry'' label now d0")
        (auto simp: reviewer_stage_def Let_def)
    from running_round [OF this d0] show ?thesis using o1(3) again Outcome_Review_Retry
      by (auto simp: handed_back_def split: if_splits)
  next
    case Outcome_Accepted
    then obtain c where "accept_review h r o1 ?cd label now d0 = Inr ((d', ms), c)"
      using assms(1) h o1(1) cur by (cases "accept_review h r o1 ?cd label now d0")
        (auto simp: reviewer_stage_def Let_def)
    from running_accept [OF this] show ?thesis using d0 i o1(3) by simp
  qed
qed

end
