(* ===== verification/Stage_Pipeline.thy ===== *)
theory Stage_Pipeline
  imports Review_Loop
begin

text \<open>
  The pipeline of stages of \<open>packages/agent/src/coordinator.ts\<close> and what the end of a stage writes. The
  two settings are the conjunctions that \<open>researchDesignStagesEnabled\<close> and \<open>requirementsQaEnabled\<close> read from
  the environment; the runner of a stage is not part of the record.
\<close>

record stage_transition =
  st_from :: "task_status list"
  st_inProgress :: task_status
  st_onSuccess :: task_status
  st_label :: coordinator_stage

definition PIPELINE :: "stage_transition list" where
  "PIPELINE =
     [\<lparr>st_from = [Requirements_Analysis], st_inProgress = Requirements_Analysis, st_onSuccess = Planning,
       st_label = Requirements_Analyst\<rparr>,
      \<lparr>st_from = [Research], st_inProgress = Research, st_onSuccess = Design, st_label = Researcher\<rparr>,
      \<lparr>st_from = [Design], st_inProgress = Design, st_onSuccess = Planning, st_label = Designer\<rparr>,
      \<lparr>st_from = [Planning], st_inProgress = Planning, st_onSuccess = Plan_Ready, st_label = Planner\<rparr>,
      \<lparr>st_from = [Plan_Ready], st_inProgress = Plan_Ready, st_onSuccess = Plan_Ready, st_label = Plan_Checker\<rparr>,
      \<lparr>st_from = [Plan_Ready, Implementing], st_inProgress = Implementing, st_onSuccess = Review,
       st_label = Implementer\<rparr>,
      \<lparr>st_from = [Review], st_inProgress = Review, st_onSuccess = Done, st_label = Reviewer\<rparr>,
      \<lparr>st_from = [Qa], st_inProgress = Qa, st_onSuccess = Done, st_label = Qa_Stage\<rparr>]"

record stage_settings =
  intakeEnabled :: bool
  researchDesignEnabled :: bool
  qaEnabled :: bool

definition researchDesignStagesEnabled :: "stage_settings \<Rightarrow> bool" where
  "researchDesignStagesEnabled s = (intakeEnabled s \<and> researchDesignEnabled s)"

definition requirementsQaEnabled :: "stage_settings \<Rightarrow> bool" where
  "requirementsQaEnabled s = (intakeEnabled s \<and> qaEnabled s)"

definition activePipeline :: "stage_settings \<Rightarrow> stage_transition list" where
  "activePipeline s =
     (let enabled = researchDesignStagesEnabled s; qa = requirementsQaEnabled s in
      map (\<lambda>st. if st_label st = Requirements_Analyst
             then st\<lparr>st_onSuccess := if enabled then Research else Planning\<rparr>
             else if st_label st = Reviewer then st\<lparr>st_onSuccess := if qa then Qa else Done\<rparr>
             else st)
        (filter (\<lambda>st. (enabled \<or> st_label st \<noteq> Researcher \<and> st_label st \<noteq> Designer) \<and>
           (qa \<or> st_label st \<noteq> Qa_Stage)) PIPELINE))"

definition isPlanQualityRetryState :: "task_row \<Rightarrow> bool" where
  "isPlanQualityRetryState t = (blockedFromStatus t = Some Plan_Ready \<and>
     (case blockedReason t of None \<Rightarrow> False | Some s \<Rightarrow> startsWith s ''Plan quality guard''))"

text \<open>What the end of a stage resets: \<open>t\<close> is the row the stage began with, \<open>latest\<close> the row after it ran.\<close>

definition success_reset :: "coordinator_stage \<Rightarrow> task_row \<Rightarrow> task_row \<Rightarrow> task_row \<Rightarrow> task_row" where
  "success_reset label t latest r =
     (let r1 = (clean_reset r)\<lparr>reviewIterationCount :=
            (if label = Implementer \<or> label = Qa_Stage then reviewIterationCount latest else 0)\<rparr>;
          r2 = (if label = Implementer \<and> reworkRequested t \<or> label = Qa_Stage
            then r1\<lparr>autoReviewState := autoReviewState latest\<rparr> else r1)
      in if label = Planner \<and> isPlanQualityRetryState latest
         then r2\<lparr>retryCount := retryCount latest, blockedFromStatus := blockedFromStatus latest,
           blockedReason := blockedReason latest\<rparr>
         else r2)"

definition stage_success ::
    "stage_transition \<Rightarrow> task_row \<Rightarrow> task_row \<Rightarrow> string \<Rightarrow> int \<Rightarrow> db \<Rightarrow> stage_result" where
  "stage_success st t latest label now d =
     coordinator_updateTaskStatus (taskId t) (st_onSuccess st) (success_reset (st_label st) t latest)
       (if st_label st = Planner \<and> isPlanQualityRetryState latest then blockedReason latest else None)
       label (st_inProgress st) now (clearTaskRuntimeLimitSnapshot (taskId t) now d)"

section \<open>The pipeline\<close>

text \<open>
  The pipeline has no dead end. Whatever the settings, the status a stage leaves its task in when it
  succeeds is a status some active stage starts from, or it is done; and no two active stages claim tasks of
  the same status, except that a ready plan is claimed by the plan checker and by the implementer.
\<close>

theorem pipeline_has_no_dead_end:
  "list_all (\<lambda>st. st_onSuccess st = Done \<or> list_ex (\<lambda>u. st_onSuccess st \<in> set (st_from u)) (activePipeline s))
     (activePipeline s) \<and>
   distinct (filter (\<lambda>x. x \<noteq> Plan_Ready) (concat (map st_from (activePipeline s)))) \<and>
   list_all (\<lambda>st. list_all (\<lambda>x. x \<notin> {Backlog, Needs_Input, Blocked_External, Done, Verified}) (st_from st))
     (activePipeline s)"
  by (cases "researchDesignStagesEnabled s"; cases "requirementsQaEnabled s")
    (simp_all add: activePipeline_def PIPELINE_def Let_def)

section \<open>The end of the implementer's stage\<close>

lemma success_reset_keeps [simp]: "keeps_row (success_reset label t latest)"
  by (simp add: keeps_row_def success_reset_def Let_def)

lemma success_reset_count:
  "reviewIterationCount (success_reset label t latest r) =
     (if label = Implementer \<or> label = Qa_Stage then reviewIterationCount latest else 0)"
  by (simp add: success_reset_def Let_def)

lemma running_success:
  assumes "running (taskId t) s m n d" and "s \<noteq> Blocked_External"
  shows "running (taskId t) (st_onSuccess st) m
    (if st_label st = Implementer \<or> st_label st = Qa_Stage then reviewIterationCount latest else 0)
    (fst (stage_success st t latest label now d))"
  unfolding stage_success_def
  by (rule running_status [OF running_clear [OF assms(1)] assms(2) success_reset_keeps]) (rule success_reset_count)

end
