(* ===== verification/Review_Demo.thy ===== *)
theory Review_Demo
  imports Stage_Pipeline
begin

text \<open>
  A concrete review: the reviewer's comments name one blocker, \<open>x\<close>, and the task is at its first of three
  iterations. Hosts and environments are the simplest that the types allow.
\<close>

definition demo_gate :: "string \<Rightarrow> gate_env" where
  "demo_gate answer = \<lparr>ge_host = \<lparr>sha1_hex = (\<lambda>s. ''0123456789abcdef''), localeCompare = (\<lambda>a b. 0)\<rparr>,
     ge_validJsonFile = (\<lambda>_. False), ge_refutedByConfig = (\<lambda>_. False), ge_risky = None,
     ge_deterministic = [], ge_lacksEvidence = False, ge_fallbackText = answer\<rparr>"

definition demo_auto :: "string \<Rightarrow> auto_review_env" where
  "demo_auto answer = \<lparr>are_strategy = Full_Re_Review, are_stallThreshold = 3, are_gate = (\<lambda>_ _. demo_gate answer),
     are_gitSnapshot = (\<lambda>_. None), are_artifactSha = (\<lambda>_ _. (None, True))\<rparr>"

definition looped_task :: task_row where
  "looped_task = (blank_task ''t'')\<lparr>status := Review, maxReviewIterations := 3\<rparr>"

definition looped_db :: db where "looped_db = empty_db\<lparr>tasks := [looped_task]\<rparr>"

definition demo_finding :: review_finding where
  "demo_finding = plain_finding ''0123456789ab'' Review_Gate ''x''"

definition demo_blocker :: review_finding where
  "demo_blocker = demo_finding\<lparr>firstSeenIteration := Some (jsint 1), lastSeenIteration := Some (jsint 1),
     streak := Some (jsint 1)\<rparr>"

lemma demo_task: "findTaskById ''t'' looped_db = Some looped_task" "worktreePath looped_task = None"
  "reviewIterationCount looped_task = 0" "maxReviewIterations looped_task = 3" "status looped_task = Review"
  "reviewComments looped_task = None" "autoReviewState looped_task = None" "taskId looped_task = ''t''"
  by (simp_all add: looped_db_def looped_task_def blank_task_def findTaskById_def)

lemma demo_extraction: "runLegacyFallbackExtraction (ge_host (demo_gate ''- x'')) ''- x'' = Inr [demo_finding]"
  by code_simp

lemma demo_actionable: "filterActionableBlockingFindings (demo_gate ''- x'') None [demo_finding] = [demo_finding]"
  by code_simp

lemma demo_not_manual: "\<not> isManualReviewFinding demo_blocker" by code_simp

lemma demo_not_operator: "\<not> isConcreteOperatorInputFinding demo_blocker" by code_simp

lemma demo_text: "normalizeReviewText ''x'' = ''x''" by code_simp

lemma demo_no_retry: "\<not> js_test review_stage_retry_rx ''x''" by code_simp

definition demo_input :: review_gate_input where
  "demo_input = \<lparr>gi_reviewComments = None, gi_strategy = Full_Re_Review, gi_iteration = 1, gi_previous = []\<rparr>"

lemma demo_decision:
  "\<exists>m. buildFallbackDecision (demo_gate ''- x'') demo_input [demo_finding] =
     blocked_result demo_input Gate_Request_Changes m [demo_blocker] (plain_state demo_input [demo_blocker])"
proof -
  have "mergeFindings [[demo_finding], []] = [demo_finding]" by (simp add: mergeFindings_def merge_finding_def)
  moreover have "enrichBlockingFindings [demo_finding] [] 1 = [demo_blocker]"
    by (simp add: enrichBlockingFindings_def enrich_finding_def demo_blocker_def by_id_def)
  moreover have "ge_deterministic (demo_gate ''- x'') = []" by (simp add: demo_gate_def)
  ultimately show ?thesis
    by (simp add: buildFallbackDecision_def demo_input_def demo_actionable Let_def maybeBuildManualReviewDecision_def
        maybeBuildOperatorInputDecision_def demo_not_manual demo_not_operator) blast
qed

lemma demo_evaluated:
  "\<exists>g. evaluateReviewCommentsForAutoMode (demo_gate ''- x'') demo_input = Inr g \<and> gr_status g = Gate_Request_Changes \<and>
     gr_state g = Some (plain_state demo_input [demo_blocker])"
proof -
  have "parseLegacyBlockingFindings h None = None" for h by code_simp
  then have "evaluateReviewCommentsForAutoMode (demo_gate ''- x'') demo_input =
      Inr (buildFallbackDecision (demo_gate ''- x'') demo_input [demo_finding])"
    using demo_extraction
    by (simp add: evaluateReviewCommentsForAutoMode_def isStructuredReviewContractFailure_def
        isStructuredReviewContractAttempt_def demo_input_def demo_gate_def)
  then show ?thesis using demo_decision by (auto simp: blocked_result_def)
qed

lemma demo_state: "findings (plain_state demo_input [demo_blocker]) = [demo_blocker]"
  by (simp add: plain_state_def stored_findings stored_finding_def demo_blocker_def demo_finding_def
      plain_finding_def demo_text normalize_if_truthy_def)

lemma demo_handled:
  "\<exists>d0 out. handleAutoReviewGate (demo_auto ''- x'') ''t'' dir True looped_db = Inr (d0, Some out) \<and>
     ro_status out = Outcome_Rework \<and> ro_currentIteration out = 1 \<and> tasks d0 = tasks looped_db \<and>
     stageAttempts d0 = [] \<and> artifacts d0 = [] \<and> ro_autoReviewState out = Some (plain_state demo_input [demo_blocker])"
proof -
  obtain g where g: "evaluateReviewCommentsForAutoMode (demo_gate ''- x'') demo_input = Inr g"
    "gr_status g = Gate_Request_Changes" "gr_state g = Some (plain_state demo_input [demo_blocker])"
    using demo_evaluated by blast
  have inp: "handler_gate_input (demo_auto ''- x'') looped_task = demo_input"
    by (simp add: handler_gate_input_def demo_auto_def demo_input_def demo_task)
  have no_artifact: "findRoadmapBatchArtifactByTaskId i (logActivity a b c looped_db) = None" for i a b c
    by (simp add: findRoadmapBatchArtifactByTaskId_def logActivity_def looped_db_def empty_db_def)
  have "streak demo_blocker = Some (jsint 1)" "findingText demo_blocker = ''x''"
    by (simp_all add: demo_blocker_def demo_finding_def plain_finding_def)
  then have "stalledFindings (plain_state demo_input [demo_blocker]) 3 = []"
    "\<not> shouldRetryReviewStage (plain_state demo_input [demo_blocker])"
    using demo_no_retry by (simp_all add: stalledFindings_def shouldRetryReviewStage_def demo_state
        isReviewStageRetryFinding_def integer_of_def jsint_def)
  then have "outcome_of (demo_auto ''- x'') looped_task g (logActivity a b c looped_db) = Outcome_Rework" for a b c
    using g by (simp add: outcome_of_def demo_auto_def max_iterations_def demo_task)
  moreover have "are_gate (demo_auto ''- x'') = (\<lambda>_ _. (demo_gate ''- x''))" "are_gitSnapshot (demo_auto ''- x'') r = None" for r
    by (simp_all add: demo_auto_def)
  moreover have "stageAttempts looped_db = []" "artifacts looped_db = []"
    by (simp_all add: looped_db_def empty_db_def)
  ultimately show ?thesis using g inp
    by (simp add: handleAutoReviewGate_def demo_task Let_def published_def createTaskComment_def outcome_state_def
        withReworkSnapshot_def no_artifact) (simp add: logActivity_def)
qed

section \<open>The stage\<close>

definition demo_evidence :: evidence_result where
  "demo_evidence = \<lparr>er_ok = True, er_issues = [], er_evidence = JObj [], er_validationIssueCodes = [],
     er_artifactSha = None, er_validationFingerprint = None, er_blockingIssueCodes = [],
     er_sourceSnapshotId = None, er_allowedPaths = []\<rparr>"

definition demo_host :: "string \<Rightarrow> review_host" where
  "demo_host answer = \<lparr>rh_auto = demo_auto answer, rh_text = ge_host (demo_gate answer), rh_sha256 = (\<lambda>_. ''0123''), rh_uuid = ''u'',
     rh_evidence = (\<lambda>_ _ _ _. demo_evidence), rh_decision = (\<lambda>_ _ _. JObj []), rh_cleanup = (\<lambda>_ _ _. None),
     rh_readArtifact = (\<lambda>_ dir _. \<lparr>rd_readable = True, rd_contentSha = Some ''ab'', rd_source = ''project_root'',
       rd_branchName = None, rd_worktreePath = None, rd_projectRoot = dir, rd_missingReason = None\<rparr>),
     rh_guardrailLine = (\<lambda>s. s), rh_qaEnabled = False\<rparr>"

lemma looped_running: "running ''t'' Review 3 0 looped_db"
  using demo_task by (simp add: running_iff row_at_def ids_distinct_def looped_db_def looped_task_def blank_task_def)

lemma send_round_first:
  assumes "findTaskById (taskId t) d \<noteq> None" and "stageAttempts d = []"
  shows "\<exists>d' ms. send_round h t out target rework request label now d = Inr ((d', ms), True)"
  using assms
  by (auto simp: send_round_def Let_def recordFailureFingerprintAttempt_def priorTaskStageFailureFingerprint_def
      prior_failures_def split: prod.split)

lemma demo_stage:
  "\<exists>d' ms. reviewer_stage (demo_host ''- x'') looped_task looped_task ''/r'' ''T'' now looped_db = Inr ((d', ms), Some True) \<and>
     running ''t'' Implementing 3 1 d'"
proof -
  obtain d0 out where h: "handleAutoReviewGate (demo_auto ''- x'') ''t'' ''/r'' True looped_db = Inr (d0, Some out)"
    "ro_status out = Outcome_Rework" "ro_currentIteration out = 1" "tasks d0 = tasks looped_db" "stageAttempts d0 = []"
    using demo_handled by blast
  have d0: "running ''t'' Review 3 0 d0" by (rule running_tables [OF looped_running h(4)])
  then have "findTaskById (taskId looped_task) d0 \<noteq> None" by (auto simp: running_iff demo_task)
  from send_round_first [OF this h(5)] obtain d' ms where
    s: "send_round (demo_host ''- x'') looped_task out Implementing True ''changes'' ''T'' now d0 = Inr ((d', ms), True)" by blast
  have "reviewer_stage (demo_host ''- x'') looped_task looped_task ''/r'' ''T'' now looped_db = Inr ((d', ms), Some True)"
    using h(1,2) s by (simp add: reviewer_stage_def Let_def demo_host_def demo_task)
  moreover have "running ''t'' Implementing 3 1 d'"
    using running_round [OF s] d0 by (simp add: demo_task h(3))
  ultimately show ?thesis by blast
qed

section \<open>A review that is accepted\<close>

lemma success_evaluated:
  "\<exists>g. evaluateReviewCommentsForAutoMode (demo_gate ''SUCCESS'') demo_input = Inr g \<and> gr_status g = Gate_Success"
proof -
  have "parseLegacyBlockingFindings h None = None" for h by code_simp
  moreover have "runLegacyFallbackExtraction (ge_host (demo_gate ''SUCCESS'')) ''SUCCESS'' = Inr []" by code_simp
  ultimately have "evaluateReviewCommentsForAutoMode (demo_gate ''SUCCESS'') demo_input =
      Inr (buildFallbackDecision (demo_gate ''SUCCESS'') demo_input [])"
    by (simp add: evaluateReviewCommentsForAutoMode_def isStructuredReviewContractFailure_def
        isStructuredReviewContractAttempt_def demo_input_def demo_gate_def)
  moreover have "mergeFindings [[], ge_deterministic (demo_gate ''SUCCESS'')] = []"
    by (simp add: mergeFindings_Nil demo_gate_def)
  then have "filterActionableBlockingFindings (demo_gate ''SUCCESS'') None
      (mergeFindings [[], ge_deterministic (demo_gate ''SUCCESS'')]) = []"
    by (simp add: filterActionableBlockingFindings_def filterRefutedRepositoryFindings_def
        filterNonBlockingOperatorInputFindings_def)
  then have "gr_status (buildFallbackDecision (demo_gate ''SUCCESS'') demo_input []) = Gate_Success"
    by (simp add: buildFallbackDecision_def demo_input_def Let_def accept_or_handoff_def accepted_result_def)
      (simp add: demo_gate_def)
  ultimately show ?thesis by simp
qed

lemma demo_accepted:
  "\<exists>d' ms. reviewer_stage (demo_host ''SUCCESS'') looped_task looped_task ''/r'' ''T'' now looped_db =
     Inr ((d', ms), Some True) \<and> running ''t'' Done 3 0 d'"
proof -
  let ?e = "demo_auto ''SUCCESS''" and ?h = "demo_host ''SUCCESS''"
  obtain g where g: "evaluateReviewCommentsForAutoMode (demo_gate ''SUCCESS'') demo_input = Inr g"
    "gr_status g = Gate_Success" using success_evaluated by blast
  have inp: "handler_gate_input ?e looped_task = demo_input"
    by (simp add: handler_gate_input_def demo_auto_def demo_input_def demo_task)
  have gate: "are_gate ?e = (\<lambda>_ _. demo_gate ''SUCCESS'')" by (simp add: demo_auto_def)
  obtain d0 out where h: "handleAutoReviewGate ?e ''t'' ''/r'' True looped_db = Inr (d0, Some out)"
    "ro_status out = Outcome_Accepted" "tasks d0 = tasks looped_db" "artifacts d0 = []"
    using g inp gate
    by (simp add: handleAutoReviewGate_def demo_task Let_def published_def createTaskComment_def outcome_of_def)
      (simp add: logActivity_def looped_db_def empty_db_def)
  have cur: "findTaskById ''t'' d0 = Some looped_task" using h(3) demo_task(1) by (simp add: findTaskById_def)
  have "findRoadmapBatchArtifactByTaskId ''t'' d0 = None"
    using h(4) by (simp add: findRoadmapBatchArtifactByTaskId_def)
  then have "blockTaskForCompletionEvidenceIfNeeded ?h looped_task dir Review l a b ex now d0 = Inr ((d0, []), False)"
    for dir l a b ex
    by (simp add: blockTaskForCompletionEvidenceIfNeeded_def demo_host_def demo_evidence_def demo_task)
  moreover have "\<not> rh_qaEnabled ?h" "rh_auto ?h = ?e" by (simp_all add: demo_host_def)
  moreover obtain d' ms where m: "move_task ''t'' Done clean_reset None ''T'' now d0 = (d', ms)" by fastforce
  ultimately have "reviewer_stage ?h looped_task looped_task ''/r'' ''T'' now looped_db = Inr ((d', ms), Some True)"
    using h(1,2) cur by (simp add: reviewer_stage_def Let_def demo_task accept_review_def add_moves_def)
  moreover have "running ''t'' Done 3 0 d'"
    by (rule running_move_pair [OF m running_tables [OF looped_running h(3)]]) (simp_all add: keeps_row_def)
  ultimately show ?thesis by blast
qed

end
