(* ===== verification/Review_Ends.thy ===== *)
theory Review_Ends
  imports Review_Demo
begin

text \<open>
  What the reviewer stage guarantees: the loop of review and rework is bounded, a stalled or repeated
  request reaches a person, a task is done only after an accepted review with evidence, and what becomes of
  the report of an audit task that is given up.
\<close>

section \<open>The loop is bounded\<close>

text \<open>
  \<open>review_rounds i k d\<close>: since a point where the count was not negative, task \<open>i\<close> was sent back \<open>k\<close> times by
  the reviewer stage, for rework or for another review. In between anything may happen to the database that
  keeps the task's count and limit, as the implementer's success does.
\<close>

inductive review_rounds :: "string \<Rightarrow> nat \<Rightarrow> db \<Rightarrow> bool" where
  start: "findTaskById i d = Some r \<Longrightarrow> 0 \<le> reviewIterationCount r \<Longrightarrow> review_rounds i 0 d"
| round: "review_rounds (taskId t) k d \<Longrightarrow> running (taskId t) Review m n d \<Longrightarrow>
    reviewer_stage h t latest dir label now d = Inr ((d', ms), b) \<Longrightarrow>
    findTaskById (taskId t) d' = Some r' \<Longrightarrow> status r' \<in> {Implementing, Review} \<Longrightarrow>
    review_rounds (taskId t) (Suc k) d'"
| between: "review_rounds i k d \<Longrightarrow> findTaskById i d = Some r \<Longrightarrow> findTaskById i d' = Some r' \<Longrightarrow>
    reviewIterationCount r' = reviewIterationCount r \<Longrightarrow> maxReviewIterations r' = maxReviewIterations r \<Longrightarrow>
    review_rounds i k d'"

lemma running_unique:
  "running i s m n d \<Longrightarrow> findTaskById i d = Some r \<Longrightarrow> row_at s m n r"
  by (auto simp: running_iff)

lemma round_counts:
  assumes "review_rounds i k d"
  shows "\<exists>r. findTaskById i d = Some r \<and> int k \<le> reviewIterationCount r \<and>
    (0 < k \<longrightarrow> reviewIterationCount r < min (maxReviewIterations r) 10)"
  using assms
proof (induction rule: review_rounds.induct)
  case (round t k d m n h latest dir label now d' ms b r')
  obtain r where r: "findTaskById (taskId t) d = Some r" "int k \<le> reviewIterationCount r" using round.IH by blast
  then have n: "int k \<le> n" using running_unique [OF round.hyps(2)] by (simp add: row_at_def)
  note row = running_unique [OF _ round.hyps(4)]
  from reviewer_stage_running [OF round.hyps(3,2)] have "row_at (status r') m (n + 1) r' \<and> n + 1 < min m 10"
    using row round.hyps(5) by (fastforce simp: handed_back_def row_at_def)
  then show ?case using n round.hyps(4) by (auto simp: row_at_def)
qed auto

text \<open>
  C4: The loop of review and rework ends. A task is sent back by the reviewer stage at most nine times, and
  fewer times than its own limit, before a person takes it over or its review is accepted, whatever the
  reviewers answer and whatever happens in between, as long as nothing resets its count of iterations or changes
  its limit.
\<close>

theorem review_loop_is_bounded:
  assumes "review_rounds i k d" and "findTaskById i d = Some r"
  shows "k \<le> 9 \<and> int k \<le> max 0 (maxReviewIterations r - 1)"
  using round_counts [OF assms(1)] assms(2) by (cases "k = 0") auto

theorem review_loop_is_bounded_witness:
  "\<exists>d r. review_rounds ''t'' 1 d \<and> findTaskById ''t'' d = Some r \<and> status r = Implementing \<and>
     int 1 \<le> max 0 (maxReviewIterations r - 1)"
proof -
  obtain d' ms where s: "reviewer_stage (demo_host ''- x'') looped_task looped_task ''/r'' ''T'' 0 looped_db = Inr ((d', ms), Some True)"
    "running ''t'' Implementing 3 1 d'" using demo_stage by blast
  then obtain r' where r': "findTaskById ''t'' d' = Some r'" "status r' = Implementing"
    by (auto simp: running_iff row_at_def)
  have "review_rounds ''t'' 0 looped_db" by (rule review_rounds.start [OF demo_task(1)]) (simp add: demo_task)
  then have "review_rounds (taskId looped_task) (Suc 0) d'"
    using review_rounds.round [OF _ _ s(1), of 0 3 0] looped_running r' by (simp add: demo_task)
  then have "review_rounds ''t'' 1 d'" by (simp add: demo_task)
  then show ?thesis using review_loop_is_bounded r' by blast
qed

section \<open>Done means reviewed\<close>

lemma running_status_unique: "running i s m n d \<Longrightarrow> running i s' m' n' d \<Longrightarrow> s = s'"
  by (auto simp: running_iff row_at_def)

lemma accepted_needs_evidence:
  assumes "blockTaskForCompletionEvidenceIfNeeded h t dir from label rm prevent ex now d = Inr (x, False)"
  shows "er_ok (rh_evidence h t dir rm d)"
proof (rule ccontr)
  assume "\<not> er_ok (rh_evidence h t dir rm d)"
  moreover have "map_sum id (\<lambda>x. (x, True)) y \<noteq> Inr (x, False)" for y :: "string + stage_result"
    by (cases y) simp_all
  ultimately show False using assms
    by (auto simp: blockTaskForCompletionEvidenceIfNeeded_def Let_def split: option.splits if_splits sum.splits)
qed

lemma handed_back_open: "handed_back i m k d \<Longrightarrow> \<exists>s k. s \<notin> {Done, Qa} \<and> running i s m k d"
  by (auto simp: handed_back_def)

lemma unaccepted_review_stays_open:
  assumes "reviewer_stage h t latest dir label now d = Inr ((d', ms), b)"
    and gate: "handleAutoReviewGate (rh_auto h) (taskId t) (the_default dir (worktreePath latest)) True d = Inr (d0, Some o1)"
    and row: "findTaskById (taskId t) d0 = Some r" "taskId r = taskId t" "maxReviewIterations r = m"
    and run: "running (taskId t) Review m n d0" and "ro_status o1 \<noteq> Outcome_Accepted"
  shows "\<exists>s k. s \<notin> {Done, Qa} \<and> running (taskId t) s m k d'"
proof -
  let ?dir = "the_default (the_default dir (worktreePath latest)) (worktreePath r)"
  note stage = assms(1) [unfolded reviewer_stage_def Let_def gate, simplified, unfolded row(1), simplified]
  have round: "\<exists>s k. s \<notin> {Done, Qa} \<and> running (taskId t) s m k d'"
    if "send_round h t o1 target rework request label now d0 = Inr ((d', ms), c)" "target \<notin> {Done, Qa}" for target rework request c
    using running_round [OF that(1) run] that(2) by (auto split: if_splits)
  show ?thesis
  proof (cases "ro_status o1")
    case (Outcome_Manual why)
    then obtain c where "manual_handoff h r o1 why ?dir label now d0 = Inr ((d', ms), c)"
      using stage by (cases "manual_handoff h r o1 why ?dir label now d0") auto
    from handed_back_open [OF running_handoff [OF this, unfolded row(2), OF run _ row(3)]] show ?thesis by simp
  next
    case Outcome_Operator_Input
    then have "operator_handoff t o1 label now d0 = (d', ms)" using stage by auto
    from running_operator [OF this run] show ?thesis by auto
  next
    case Outcome_Rework
    then show ?thesis using stage round [of Implementing True "''changes''"]
      by (cases "send_round h t o1 Implementing True ''changes'' label now d0") auto
  next
    case Outcome_Review_Retry
    then show ?thesis using stage round [of Review False "''reviewer retry''"]
      by (cases "send_round h t o1 Review False ''reviewer retry'' label now d0") auto
  qed (use assms(7) in simp)
qed

lemma accepted_review_needs_evidence:
  assumes "accept_review h r o1 dir label now d = Inr ((d', ms), b)" and "running (taskId r) Review (maxReviewIterations r) n d"
  shows "er_ok (rh_evidence h r dir False d) \<or> (\<exists>s k. s \<notin> {Done, Qa} \<and> running (taskId r) s (maxReviewIterations r) k d')"
proof -
  let ?e = "blockTaskForCompletionEvidenceIfNeeded h r dir Review label False False (outcome_extra o1 (\<lambda>r. r)) now d"
  obtain d1 ms1 c where e: "?e = Inr ((d1, ms1), c)" using assms(1) by (cases ?e) (auto simp: accept_review_def)
  show ?thesis
  proof (cases c)
    case True
    have "counts (ro_currentIteration o1) (outcome_extra o1 (\<lambda>r. r))" by (simp add: keeps_row_def)
    from running_evidence [OF e assms(2) _ this] have "handed_back (taskId r) (maxReviewIterations r) (ro_currentIteration o1) d1"
      using True by simp
    moreover have "d1 = d'" using assms(1) e True by (simp add: accept_review_def)
    ultimately show ?thesis using handed_back_open by blast
  next
    case False
    then have "?e = Inr ((d1, ms1), False)" using e by simp
    then show ?thesis by (rule disjI1 [OF accepted_needs_evidence])
  qed
qed

text \<open>
  C2: A task is done, or handed to QA, only after an accepted review. When the reviewer stage leaves its task
  in one of these statuses, the gate answered success on the comments stored with the task and the findings
  of its last review, and the completion evidence was in order.
\<close>

theorem done_only_after_accepted_review:
  assumes "reviewer_stage h t latest dir label now d = Inr ((d', ms), b)"
    and "running (taskId t) Review m n d" and "findTaskById (taskId t) d = Some r"
    and "findTaskById (taskId t) d' = Some r'" and "status r' = Done \<or> status r' = Qa"
  shows "\<exists>root g d0. evaluateReviewCommentsForAutoMode (are_gate (rh_auto h) r root) (handler_gate_input (rh_auto h) r) = Inr g \<and>
    gr_status g = Gate_Success \<and> er_ok (rh_evidence h r root False d0)"
proof -
  let ?dir = "the_default dir (worktreePath latest)"
  have row: "row_at Review m n r" "taskId r = taskId t" "maxReviewIterations r = m"
    using running_unique [OF assms(2,3)] findTaskById_Some [OF assms(3)] by (simp_all add: row_at_def)
  obtain d0 out where h: "handleAutoReviewGate (rh_auto h) (taskId t) ?dir True d = Inr (d0, out)"
    using assms(1) by (cases "handleAutoReviewGate (rh_auto h) (taskId t) ?dir True d") (auto simp: reviewer_stage_def Let_def)
  obtain g o1 started where o1: "out = Some o1" "tasks d0 = tasks d" "ro_status o1 = outcome_of (rh_auto h) r g started"
    and g: "evaluateReviewCommentsForAutoMode (are_gate (rh_auto h) r (the_default ?dir (worktreePath r)))
      (handler_gate_input (rh_auto h) r) = Inr g"
    by (rule handled [OF h assms(3)])
  have d0: "running (taskId t) Review m n d0" by (rule running_tables [OF assms(2) o1(2)])
  have cur: "findTaskById (taskId t) d0 = Some r" using assms(3) o1(2) by (simp add: findTaskById_def)
  have closed: "\<not> (\<exists>s k. s \<notin> {Done, Qa} \<and> running (taskId t) s m k d')"
    using running_unique [OF _ assms(4)] assms(5) by (fastforce simp: row_at_def)
  then have accepted: "ro_status o1 = Outcome_Accepted"
    using unaccepted_review_stays_open [OF assms(1) h [unfolded o1(1)] cur row(2,3) d0] by blast
  then obtain c where "accept_review h r o1 (the_default ?dir (worktreePath r)) label now d0 = Inr ((d', ms), c)"
    using assms(1) h o1(1) cur by (cases "accept_review h r o1 (the_default ?dir (worktreePath r)) label now d0")
      (auto simp: reviewer_stage_def Let_def)
  from accepted_review_needs_evidence [OF this, unfolded row(2,3), OF d0] closed
  have "er_ok (rh_evidence h r (the_default ?dir (worktreePath r)) False d0)" by blast
  moreover have "gr_status g = Gate_Success"
    using accepted o1(3) by (auto simp: outcome_of_def split: gate_status.splits if_splits)
  ultimately show ?thesis using g by blast
qed

theorem done_only_after_accepted_review_witness:
  "\<exists>root g d0. evaluateReviewCommentsForAutoMode (are_gate (rh_auto (demo_host ''SUCCESS'')) looped_task root)
      (handler_gate_input (rh_auto (demo_host ''SUCCESS'')) looped_task) = Inr g \<and> gr_status g = Gate_Success \<and>
    er_ok (rh_evidence (demo_host ''SUCCESS'') looped_task root False d0)"
proof -
  obtain d' ms where s: "reviewer_stage (demo_host ''SUCCESS'') looped_task looped_task ''/r'' ''T'' 0 looped_db =
      Inr ((d', ms), Some True)" "running ''t'' Done 3 0 d'" using demo_accepted by blast
  then obtain r' where r': "findTaskById ''t'' d' = Some r'" "status r' = Done"
    by (auto simp: running_iff row_at_def)
  have "running (taskId looped_task) Review 3 0 looped_db" "findTaskById (taskId looped_task) looped_db = Some looped_task"
    "findTaskById (taskId looped_task) d' = Some r'" "status r' = Done \<or> status r' = Qa"
    using looped_running r' by (simp_all add: demo_task)
  from done_only_after_accepted_review [OF s(1) this] show ?thesis .
qed

section \<open>The same request twice\<close>

lemma js_insert_map:
  assumes "\<And>x y. cmp (f x) (f y) = cmp' x y"
  shows "js_insert cmp (f x) (map f ys) = map f (js_insert cmp' x ys)"
  using assms by (induction ys) simp_all

lemma js_sort_map:
  assumes "\<And>x y. cmp (f x) (f y) = cmp' x y"
  shows "js_sort cmp (map f xs) = map f (js_sort cmp' xs)"
proof -
  have "js_insert cmp (f x) (map f ys) = map f (js_insert cmp' x ys)" for x ys
    by (rule js_insert_map) (rule assms)
  then show ?thesis by (induction xs) (simp_all add: js_sort_def)
qed

lemma sorted_payloads:
  "map finding_payload (sorted_findings h fs) = js_sort (\<lambda>a b. localeCompare (rh_text h)
     (stableFingerprintJson (rh_text h) a) (stableFingerprintJson (rh_text h) b)) (map finding_payload fs)"
  unfolding sorted_findings_def by (rule js_sort_map [symmetric]) simp

lemma payload_id: "js_trim (findingId f) = the (jstring (jget ''id'' (finding_payload f)))"
  by (simp add: finding_payload_def)

lemma payload_ids:
  assumes "map finding_payload xs = map finding_payload ys"
  shows "map (\<lambda>f. js_trim (findingId f)) xs = map (\<lambda>f. js_trim (findingId f)) ys"
proof -
  have "map (\<lambda>f. js_trim (findingId f)) zs = map (\<lambda>p. the (jstring (jget ''id'' p))) (map finding_payload zs)" for zs
    by (simp add: payload_id comp_def)
  then show ?thesis by (simp only: assms)
qed

text \<open>The fingerprint sees the blockers without their counters.\<close>

lemma same_fingerprint:
  assumes "map finding_payload (state_findings (ro_autoReviewState o1)) =
      map finding_payload (state_findings (ro_autoReviewState o2))"
    and "ro_status o1 = ro_status o2" and "taskId t1 = taskId t2"
    and "requirementsSnapshotId t1 = requirementsSnapshotId t2"
    and "findRoadmapBatchArtifactByTaskId (taskId t1) d1 = findRoadmapBatchArtifactByTaskId (taskId t1) d2"
  shows "reviewGateFailureFingerprint h t1 o1 d1 = reviewGateFailureFingerprint h t2 o2 d2"
proof -
  have p: "map finding_payload (sorted_findings h (state_findings (ro_autoReviewState o1))) =
      map finding_payload (sorted_findings h (state_findings (ro_autoReviewState o2)))"
    by (simp only: sorted_payloads assms(1))
  have "review_payload h o1 = review_payload h o2" using p assms(2) by (simp add: review_payload_def)
  then show ?thesis using payload_ids [OF p] assms(2-5)
    by (simp add: reviewGateFailureFingerprint_def Let_def)
qed

definition review_attempt :: "string \<Rightarrow> string \<Rightarrow> stage_attempt_row" where
  "review_attempt i fp = \<lparr>stageAttemptTaskId = i, stageAttemptStage = ''review_gate'',
     stageAttemptKind = ''failure_fingerprint'', stageAttemptFingerprint = Some fp, stageAttemptOverride = False\<rparr>"

lemma sent_round_tables:
  assumes "send_round h t out target rework request label now d = Inr ((d', ms), True)"
  shows "stageAttempts d' = stageAttempts d @ [review_attempt (taskId t) (reviewGateFailureFingerprint h t out d)]"
    and "artifacts d' = artifacts d"
proof -
  let ?fp = "reviewGateFailureFingerprint h t out d"
  let ?f = "\<lambda>r. r\<lparr>blockedReason := None, blockedFromStatus := None, retryAfter := None, retryCount := 0,
      reworkRequested := rework, reviewIterationCount := ro_currentIteration out,
      manualReviewRequired := False, autoReviewState := ro_autoReviewState out\<rparr>"
  obtain d1 where r: "recordFailureFingerprintAttempt (taskId t) ''review_gate'' ?fp False d = Inr d1"
    using assms by (cases "recordFailureFingerprintAttempt (taskId t) ''review_gate'' ?fp False d")
      (auto simp: send_round_def Let_def)
  have no: "map_sum id (\<lambda>x. (x, False)) y \<noteq> Inr ((d', ms), True)" for y :: "string + stage_result"
    by (cases y) simp_all
  obtain d2 ms2 where c: "move_task (taskId t) target ?f None label now d1 = (d2, ms2)" by fastforce
  have "\<exists>x. d' = appendTaskActivityLog (taskId t) x now d2"
    using assms r c no by (auto simp: send_round_def Let_def split: if_splits)
  then show "stageAttempts d' = stageAttempts d @ [review_attempt (taskId t) ?fp]" "artifacts d' = artifacts d"
    using move_tables [OF c] r by (auto simp: recordFailureFingerprintAttempt_def review_attempt_def split: if_splits)
qed

text \<open>
  C14: The reviewer cannot ask for the same thing twice. Once a request was sent round, a request of the same
  kind of outcome with the same blockers, whatever their counters, for the same artifact row and under the same
  requirements snapshot fails closed and is not sent round again, as long as no operator has overridden a failure of
  the task's review.
\<close>

theorem repeated_request_fails_closed:
  assumes "send_round h t o1 target rework request label now d = Inr ((d1, ms1), True)"
    and "set (stageAttempts d1) \<subseteq> set (stageAttempts d2)"
    and "\<forall>a \<in> set (stageAttempts d2). stageAttemptTaskId a = taskId t \<longrightarrow> \<not> stageAttemptOverride a"
    and "findRoadmapBatchArtifactByTaskId (taskId t) d = findRoadmapBatchArtifactByTaskId (taskId t) d2"
    and "taskId t2 = taskId t" and "requirementsSnapshotId t2 = requirementsSnapshotId t"
    and "ro_status o2 = ro_status o1"
    and "map finding_payload (state_findings (ro_autoReviewState o2)) =
      map finding_payload (state_findings (ro_autoReviewState o1))"
    and "send_round h t2 o2 target2 rework2 request2 label2 now2 d2 = Inr ((d3, ms3), b)"
  shows "\<not> b"
proof -
  let ?fp = "reviewGateFailureFingerprint h t2 o2 d2"
  have fp: "?fp = reviewGateFailureFingerprint h t o1 d"
    using assms(4-8) by (intro same_fingerprint) simp_all
  obtain a where a: "a \<in> set (stageAttempts d2)" "stageAttemptTaskId a = taskId t2" "stageAttemptStage a = ''review_gate''"
    "stageAttemptKind a = ''failure_fingerprint''" "stageAttemptFingerprint a = Some ?fp" "\<not> stageAttemptOverride a"
    using sent_round_tables(1) [OF assms(1)] assms(2,5) fp by (auto simp: review_attempt_def)
  let ?m = "filter (\<lambda>t. stageAttemptFingerprint t = Some ?fp)
      (filter (\<lambda>x. stageAttemptTaskId x = taskId t2 \<and> stageAttemptStage x = ''review_gate'' \<and>
        stageAttemptKind x = ''failure_fingerprint'') (stageAttempts d2))"
  have "a \<in> set (filter (\<lambda>t. \<not> stageAttemptOverride t) ?m)" using a by simp
  then have "0 < length (filter (\<lambda>t. \<not> stageAttemptOverride t) ?m)" by (rule length_pos_if_in_set)
  moreover have "filter stageAttemptOverride ?m = []" using assms(3,5) by (auto simp: filter_empty_conv)
  ultimately have "priorTaskStageFailureFingerprint (taskId t2) ''review_gate'' ''failure_fingerprint'' ?fp d2 = (True, False)"
    by (simp add: priorTaskStageFailureFingerprint_def Let_def prior_failures_def)
  moreover have "map_sum id (\<lambda>x. (x, False)) y \<noteq> Inr ((d3, ms3), True)" for y :: "string + stage_result"
    by (cases y) simp_all
  ultimately have "send_round h t2 o2 target2 rework2 request2 label2 now2 d2 \<noteq> Inr ((d3, ms3), True)"
    by (simp add: send_round_def Let_def split: sum.split)
  then show ?thesis using assms(9) by auto
qed

lemma guardrail_returns:
  "running i s m n d \<Longrightarrow> \<exists>d'. emitCoordinatorGuardrail h i st fp now d = Inr d'"
  using running_log [of i s m n d "stamped now (rh_guardrailLine h fp)" now]
  by (auto simp: emitCoordinatorGuardrail_def Let_def running_iff)

lemma send_round_returns:
  assumes "running (taskId t) Review m n d"
  shows "\<exists>x b. send_round h t out target rework request label now d = Inr (x, b)"
proof -
  let ?fp = "reviewGateFailureFingerprint h t out d"
  have "findTaskById (taskId t) d \<noteq> None" using assms by (auto simp: running_iff)
  then obtain d1 where r: "recordFailureFingerprintAttempt (taskId t) ''review_gate'' ?fp False d = Inr d1"
    by (auto simp: recordFailureFingerprintAttempt_def)
  have "\<exists>x. blockTaskForSameFailureFingerprint h t Review label reason ''review_gate_rework'' ?fp
      (outcome_extra out (\<lambda>r. r)) now d1 = Inr x" for reason
  proof -
    let ?ex = "outcome_extra out (\<lambda>r. r)"
    let ?b = "join_reasons reason (ex_blockedReason ?ex)"
    let ?f = "\<lambda>r. (ex_fields ?ex (r\<lparr>blockedReason := Some ?b, blockedFromStatus := Some Review, retryAfter := None,
        retryCount := retryCount t\<rparr>))\<lparr>reworkRequested := False, manualReviewRequired := True\<rparr>"
    obtain d2 ms2 where c: "coordinator_updateTaskStatus (taskId t) Blocked_External ?f (Some ?b) label Review now
        (clearTaskRuntimeLimitSnapshot (taskId t) now d1) = (d2, ms2)" by fastforce
    have "keeps_row ?f" "\<And>r. reviewIterationCount (?f r) = ro_currentIteration out"
      by (simp_all add: outcome_extra_def keeps_row_def)
    then have "running (taskId t) Blocked_External m (ro_currentIteration out) d2"
      using running_status_pair [OF c running_clear [OF running_recorded [OF assms r]]] by simp
    then obtain d3 where "emitCoordinatorGuardrail h (taskId t) Review ?fp now (appendTaskActivityLog (taskId t)
        (stamped now (''same_failure_fingerprint_fail_closed: '' @ ?fp @ ''; family='' @ ''review_gate_rework'')) now d2) = Inr d3"
      using guardrail_returns [OF running_log] by blast
    then show ?thesis using c by (simp add: blockTaskForSameFailureFingerprint_def Let_def)
  qed
  from this [of "''review_gate_rework: Auto review gate requested the same '' @ request @
      '' again. Manual review required: same failure fingerprint failed closed.''"]
  show ?thesis using r by (auto simp: send_round_def Let_def split: prod.split)
qed

theorem repeated_request_fails_closed_witness:
  "\<exists>d1 out ms1. send_round (demo_host ''- x'') looped_task out Implementing True ''changes'' ''T'' 0 looped_db = Inr ((d1, ms1), True) \<and>
     (\<exists>x. send_round (demo_host ''- x'') (looped_task\<lparr>status := Review\<rparr>) out Implementing True ''changes'' ''T'' 1
        (d1\<lparr>tasks := tasks looped_db\<rparr>) = Inr (x, False))"
proof -
  let ?h = "demo_host ''- x''"
  obtain out :: review_outcome where o: "ro_status out = Outcome_Rework" using demo_handled by blast
  have "findTaskById (taskId looped_task) looped_db \<noteq> None" "stageAttempts looped_db = []"
    by (simp_all add: demo_task) (simp add: looped_db_def empty_db_def)
  from send_round_first [OF this] obtain d1 ms1 where
    s: "send_round ?h looped_task out Implementing True ''changes'' ''T'' 0 looped_db = Inr ((d1, ms1), True)" by blast
  let ?d2 = "d1\<lparr>tasks := tasks looped_db\<rparr>"
  have "running (taskId (looped_task\<lparr>status := Review\<rparr>)) Review 3 0 ?d2"
    using running_tables [OF looped_running, of ?d2] by (simp add: demo_task)
  from send_round_returns [OF this] obtain d3 ms3 b where
    s2: "send_round ?h (looped_task\<lparr>status := Review\<rparr>) out Implementing True ''changes'' ''T'' 1 ?d2 = Inr ((d3, ms3), b)"
    by (metis surj_pair)
  have "artifacts looped_db = []" "stageAttempts looped_db = []" by (simp_all add: looped_db_def empty_db_def)
  then have "\<not> b"
    using sent_round_tables [OF s]
    by (intro repeated_request_fails_closed [OF s _ _ _ _ _ _ _ s2])
      (simp_all add: review_attempt_def findRoadmapBatchArtifactByTaskId_def)
  then show ?thesis using s s2 by auto
qed

section \<open>Stalled blockers\<close>

lemma withReworkSnapshot_findings [simp]: "findings (withReworkSnapshot e i dir k s d) = findings s"
  by (auto simp: withReworkSnapshot_def split: option.split)

lemma integer_of_jsint [simp]: "integer_of (Some (jsint n)) = Some n"
  by (simp add: integer_of_def jsint_def)

lemma counted_streak: "counted prev i f \<Longrightarrow> \<exists>n. streak f = Some (jsint n)"
  by (auto simp: counted_def split: option.splits)

lemma same_artifacts:
  "artifacts d' = artifacts d \<Longrightarrow>
     isDeterministicAuditSynthesisInconclusiveReview r d' = isDeterministicAuditSynthesisInconclusiveReview r d"
  by (simp add: isDeterministicAuditSynthesisInconclusiveReview_def findRoadmapBatchArtifactByTaskId_def)

text \<open>
  C30: A blocker that stalls reaches a person. Whenever the handler sends a task round again, every blocker it
  stores has been seen fewer times in a row than the threshold, unless the review is the deterministic one of
  an inconclusive audit synthesis; and at least one blocker is stored.
\<close>

theorem no_stalled_blocker_goes_round:
  assumes "handleAutoReviewGate e i dir True d = Inr (d0, Some out)" and "findTaskById i d = Some r"
    and "ro_status out \<in> {Outcome_Rework, Outcome_Review_Retry}"
    and "\<not> isDeterministicAuditSynthesisInconclusiveReview r d"
  shows "\<exists>s. ro_autoReviewState out = Some s \<and> findings s \<noteq> [] \<and>
    (\<forall>f \<in> set (findings s). \<exists>n. streak f = Some (jsint n) \<and> n < are_stallThreshold e)"
proof -
  obtain g o1 started where o1: "Some out = Some o1" "ro_status o1 = outcome_of e r g started" "artifacts started = artifacts d"
    and g: "evaluateReviewCommentsForAutoMode (are_gate e r (the_default dir (worktreePath r))) (handler_gate_input e r) = Inr g"
    and st: "ro_autoReviewState o1 = outcome_state e i (the_default dir (worktreePath r)) (ro_status o1)
       (reviewIterationCount r + 1) (gr_state g) started"
    by (rule handled [OF assms(1,2)])
  have req: "gr_status g = Gate_Request_Changes"
    using outcome_of_again assms(3) o1(1,2) by force
  from gate_recorded [OF g] obtain s0 where s0: "gr_state g = Some s0" "findings s0 = map stored_finding (gr_blocking g)"
    "gr_blocking g \<noteq> []" and c: "\<And>f. f \<in> set (gr_blocking g) \<Longrightarrow> \<exists>n. streak f = Some (jsint n)"
    using counted_streak req by (fastforce simp: recorded_def split: option.splits)
  have "stalledFindings s0 (are_stallThreshold e) = []"
    using assms(3,4) o1 req s0(1) same_artifacts [OF o1(3)] by (auto simp: outcome_of_def split: if_splits)
  then have "n < are_stallThreshold e" if "f \<in> set (findings s0)" "streak f = Some (jsint n)" for f n
    using that by (force simp: stalledFindings_def filter_empty_conv)
  moreover have "\<exists>n. streak f = Some (jsint n)" if "f \<in> set (findings s0)" for f
    using that c s0(2) by auto
  moreover have "\<exists>s. ro_autoReviewState out = Some s \<and> findings s = findings s0"
    using st s0(1) assms(3) o1(1) by (auto simp: outcome_state_def)
  ultimately show ?thesis using s0(2,3) by (metis list.map_disc_iff)
qed

theorem no_stalled_blocker_goes_round_witness:
  "\<exists>d0 out s. handleAutoReviewGate (demo_auto ''- x'') ''t'' ''/r'' True looped_db = Inr (d0, Some out) \<and>
     ro_autoReviewState out = Some s \<and> findings s \<noteq> []"
proof -
  obtain d0 out where h: "handleAutoReviewGate (demo_auto ''- x'') ''t'' ''/r'' True looped_db = Inr (d0, Some out)"
    "ro_status out = Outcome_Rework" using demo_handled by blast
  have "\<not> isDeterministicAuditSynthesisInconclusiveReview looped_task looped_db"
    by (simp add: isDeterministicAuditSynthesisInconclusiveReview_def findRoadmapBatchArtifactByTaskId_def
        looped_db_def empty_db_def)
  from no_stalled_blocker_goes_round [OF h(1) demo_task(1) _ this] h show ?thesis by auto
qed

section \<open>A report that is given up\<close>

lemma same_attempts_ready:
  "attempts d' = attempts d \<Longrightarrow> roadmapReportArtifactReleaseReady d' a = roadmapReportArtifactReleaseReady d a"
  by (simp add: roadmapReportArtifactReleaseReady_def latestCurrentRoadmapArtifactAttempt_def last_attempt_def
      listRoadmapBatchArtifactAttempts_def)

lemma same_artifacts_found:
  "artifacts d' = artifacts d \<Longrightarrow> findRoadmapBatchArtifactByTaskId i d' = findRoadmapBatchArtifactByTaskId i d"
  by (simp add: findRoadmapBatchArtifactByTaskId_def)

lemma terminalized_tables:
  assumes "terminalizeRoadmapSourceReportAsInconclusive h t dir frm label reason why iteration state given extra
      now d = Inr ((d', ms), True)"
    and "findRoadmapBatchArtifactByTaskId (taskId t) d = Some a"
  shows "artifactRole a = ''report'' \<and> (\<exists>blocked d1 x. updateRoadmapBatchArtifactState (taskId t)
      (terminal_update h t dir a reason blocked given extra state) (rh_uuid h) now d = Inr (d1, x) \<and>
      artifacts d' = artifacts d1 \<and> attempts d' = attempts d1)"
proof -
  let ?blocked = "if startsWith why ''manual_review_required:'' then why
    else ''manual_review_required: '' @ reason @ ''; '' @ why"
  let ?f = "\<lambda>r. (clean_reset r)\<lparr>blockedReason := Some ?blocked, blockedFromStatus := Some frm,
    retryCount := retryCount t, reworkRequested := False, reviewIterationCount := iteration,
    manualReviewRequired := True, autoReviewState := state\<rparr>"
  have role: "artifactRole a = ''report''"
    using assms by (auto simp: terminalizeRoadmapSourceReportAsInconclusive_def Let_def split: if_splits)
  then obtain d1 x where
    u: "updateRoadmapBatchArtifactState (taskId t) (terminal_update h t dir a reason ?blocked given extra state)
      (rh_uuid h) now d = Inr (d1, x)"
    using assms
    by (cases "updateRoadmapBatchArtifactState (taskId t) (terminal_update h t dir a reason ?blocked given extra state)
      (rh_uuid h) now d") (auto simp: terminalizeRoadmapSourceReportAsInconclusive_def Let_def)
  obtain d2 ms2 where c: "coordinator_updateTaskStatus (taskId t) Blocked_External ?f (Some ?blocked) label frm now
      (clearTaskRuntimeLimitSnapshot (taskId t) now d1) = (d2, ms2)" by fastforce
  have "artifacts d' = artifacts d1 \<and> attempts d' = attempts d1"
    using assms role u c status_tables [OF c]
    by (auto simp: terminalizeRoadmapSourceReportAsInconclusive_def Let_def)
  then show ?thesis using role u by blast
qed

text \<open>
  C31: Giving up a report of an audit batch makes the report release-ready exactly when its artifact has no
  attempt boundary, which a report sent back for rework or given a manual exception has. The update names no
  boundary, so for a report that has one it is stale: the new attempt is recorded but the row keeps its old state,
  and the report has no current attempt.
\<close>

theorem given_up_report_releases_iff_no_boundary:
  assumes "terminalizeRoadmapSourceReportAsInconclusive h t dir frm label reason why iteration state given extra
      now d = Inr ((d', ms), True)"
    and "findRoadmapBatchArtifactByTaskId (taskId t) d = Some a"
    and "artifactAttemptNumber a < next_attempt_number (artifactId a) d"
  shows "\<exists>b. findRoadmapBatchArtifactByTaskId (taskId t) d' = Some b \<and>
    (roadmapReportArtifactReleaseReady d' b \<longleftrightarrow> artifactAttemptBoundaryId a = None)"
proof -
  obtain blocked d1 x where u: "updateRoadmapBatchArtifactState (taskId t)
      (terminal_update h t dir a reason blocked given extra state) (rh_uuid h) now d = Inr (d1, x)"
    and role: "artifactRole a = ''report''" and same: "artifacts d' = artifacts d1" "attempts d' = attempts d1"
    using terminalized_tables [OF assms(1,2)] by blast
  let ?u = "terminal_update h t dir a reason blocked given extra state"
  note found = same_artifacts_found [OF same(1), of "taskId t"] and ready = same_attempts_ready [OF same(2)]
  have stale: "stale_boundary a ?u \<longleftrightarrow> artifactAttemptBoundaryId a \<noteq> None"
    by (auto simp: stale_boundary_def terminal_update_def Let_def)
  show ?thesis
  proof (cases "artifactAttemptBoundaryId a")
    case (Some b)
    then have "findRoadmapBatchArtifactByTaskId (taskId t) d1 = Some a \<and> latestCurrentRoadmapArtifactAttempt d1 a = None"
      using stale by (intro stale_update [OF u assms(2) _ assms(3)]) simp
    then show ?thesis using found ready no_current_attempt_not_ready Some by auto
  next
    case None
    then obtain c where c: "findRoadmapBatchArtifactByTaskId (taskId t) d1 = Some c"
      "c = updated_artifact a ?u (rh_uuid h) (next_attempt_number (artifactId a) d) now a"
      "latestCurrentRoadmapArtifactAttempt d1 c = Some (recorded_attempt a ?u (rh_uuid h) d)"
      using fresh_update [OF u assms(2)] stale by auto
    have "artifactRole c = ''report''" "artifactState c = Source_Inconclusive"
      "attemptReworkStatus (recorded_attempt a ?u (rh_uuid h) d) = Terminal_Inconclusive_Rework"
      using role by (simp_all add: c(2) updated_artifact_def terminal_update_def recorded_attempt_def Let_def)
    moreover have "terminalReportArtifactHasMachineReadableDisposition c (recorded_attempt a ?u (rh_uuid h) d)"
      using calculation(2) by (simp add: terminalReportArtifactHasMachineReadableDisposition_def Let_def opt_code_def truthy_def)
    ultimately have "roadmapReportArtifactReleaseReady d1 c"
      using c(3) by (simp add: roadmapReportArtifactReleaseReady_def)
    then show ?thesis using c(1) found ready None by auto
  qed
qed

lemma report_is_given_up:
  assumes "findRoadmapBatchArtifactByTaskId (taskId t) d = Some a" and "artifactRole a = ''report''"
  shows "\<exists>d' ms. terminalizeRoadmapSourceReportAsInconclusive h t dir frm label reason why iteration state given extra
      now d = Inr ((d', ms), True)"
proof -
  have "\<exists>x. updateRoadmapBatchArtifactState (taskId t) (terminal_update h t dir a reason blocked given extra state)
      (rh_uuid h) now d = Inr x" for blocked
    using assms(1) by (simp add: updateRoadmapBatchArtifactState_def terminal_update_def Let_def)
  then obtain u where u: "\<And>blocked. updateRoadmapBatchArtifactState (taskId t)
      (terminal_update h t dir a reason blocked given extra state) (rh_uuid h) now d = Inr (u blocked)" by metis
  show ?thesis using assms
    by (simp add: terminalizeRoadmapSourceReportAsInconclusive_def u Let_def split: prod.split)
qed

definition reworked_report :: artifact_row where
  "reworked_report = \<lparr>artifactId = ''a'', artifactBatchId = ''b'', artifactTaskId = ''t'', artifactRole = ''report'',
     artifactPath = ''docs/a.md'', artifactState = Invalid, artifactFailureFamily = None,
     artifactValidationDetails = JObj [], artifactContentSha = None, artifactAttemptNumber = 0,
     artifactCreatedAt = 0, artifactBranchName = None, artifactWorktreePath = None, artifactProjectRoot = None,
     artifactAttemptBoundaryId = Some ''w'', artifactValidatedAt = None, artifactUpdatedAt = 0\<rparr>"

lemma reworked_role: "artifactRole reworked_report = ''report''" by (simp add: reworked_report_def)

definition reworked_db :: db where
  "reworked_db = looped_db\<lparr>artifacts := [reworked_report]\<rparr>"

theorem given_up_report_releases_iff_no_boundary_witness:
  "\<exists>d' ms b. terminalizeRoadmapSourceReportAsInconclusive (demo_host ''- x'') looped_task ''/r'' Review ''T''
      ''stalled_rework_loop'' ''stuck'' 1 None None [] 0 reworked_db = Inr ((d', ms), True) \<and>
    findRoadmapBatchArtifactByTaskId ''t'' d' = Some b \<and> \<not> roadmapReportArtifactReleaseReady d' b"
proof -
  have found: "findRoadmapBatchArtifactByTaskId (taskId looped_task) reworked_db = Some reworked_report"
    by (simp add: findRoadmapBatchArtifactByTaskId_def reworked_db_def reworked_report_def demo_task)
  from report_is_given_up [OF found reworked_role, of "demo_host ''- x''" "''/r''" Review "''T''"
      "''stalled_rework_loop''" "''stuck''" 1 None None "[]" 0]
  obtain d' ms where t: "terminalizeRoadmapSourceReportAsInconclusive (demo_host ''- x'') looped_task ''/r'' Review ''T''
      ''stalled_rework_loop'' ''stuck'' 1 None None [] 0 reworked_db = Inr ((d', ms), True)" by blast
  have "artifactAttemptNumber reworked_report < next_attempt_number (artifactId reworked_report) reworked_db"
    by (simp add: next_attempt_number_def reworked_report_def reworked_db_def looped_db_def empty_db_def)
  from given_up_report_releases_iff_no_boundary [OF t found this] obtain b where
    b: "findRoadmapBatchArtifactByTaskId (taskId looped_task) d' = Some b"
    "roadmapReportArtifactReleaseReady d' b \<longleftrightarrow> artifactAttemptBoundaryId reworked_report = None" by (elim exE conjE)
  have "artifactAttemptBoundaryId reworked_report \<noteq> None" by (simp add: reworked_report_def)
  with b(2) have "\<not> roadmapReportArtifactReleaseReady d' b" by (simp only: simp_thms)
  then show ?thesis using t b(1) unfolding demo_task(8) by (intro exI conjI)
qed

end
