(* ===== verification/Rate_Limiter.thy ===== *)
theory Rate_Limiter
  imports Aif_Prelude
begin

text \<open>
  The token buckets in front of the MCP tools: \<open>packages/mcp/src/middleware/rateLimit.ts\<close>. Tokens and
  rates are exact rationals, so the rounding of doubles is not modelled. \<open>Date.now()\<close> is the argument \<open>now\<close>.
\<close>

section \<open>The limiter\<close>

record token_bucket =
  bucketTokens :: rat
  lastRefill :: int

record limiter_config =
  rpm :: rat
  burst :: rat

datatype tool_category = Read_Tool | Write_Tool

fun tool_category_text :: "tool_category \<Rightarrow> string" where
  "tool_category_text Read_Tool = ''read''"
| "tool_category_text Write_Tool = ''write''"

record rate_limiter =
  readConfig :: limiter_config
  writeConfig :: limiter_config
  buckets :: "(string \<times> token_bucket) list"

definition config_for :: "tool_category \<Rightarrow> rate_limiter \<Rightarrow> limiter_config" where
  "config_for c l = (case c of Read_Tool \<Rightarrow> readConfig l | Write_Tool \<Rightarrow> writeConfig l)"

definition bucket_key :: "string \<Rightarrow> tool_category \<Rightarrow> string" where
  "bucket_key tool c = tool_category_text c @ '':'' @ tool"

definition refill :: "limiter_config \<Rightarrow> int \<Rightarrow> token_bucket \<Rightarrow> token_bucket" where
  "refill cfg now b =
     \<lparr>bucketTokens = min (burst cfg) (bucketTokens b + of_int (now - lastRefill b) / 60000 * rpm cfg),
      lastRefill = now\<rparr>"

text \<open>The answer is whether the call is allowed; the bucket is stored in either case.\<close>

definition check_rate :: "string \<Rightarrow> tool_category \<Rightarrow> int \<Rightarrow> rate_limiter \<Rightarrow> bool \<times> rate_limiter" where
  "check_rate tool c now l =
     (let cfg = config_for c l; key = bucket_key tool c;
          b = refill cfg now (case map_of (buckets l) key of
                None \<Rightarrow> \<lparr>bucketTokens = burst cfg, lastRefill = now\<rparr> | Some b \<Rightarrow> b)
      in if bucketTokens b < 1 then (False, l\<lparr>buckets := map_set key b (buckets l)\<rparr>)
         else (True, l\<lparr>buckets := map_set key (b\<lparr>bucketTokens := bucketTokens b - 1\<rparr>) (buckets l)\<rparr>))"

text \<open>A run of calls, with their answers.\<close>

type_synonym tool_call = "(string \<times> tool_category) \<times> int"

fun run_checks :: "tool_call list \<Rightarrow> rate_limiter \<Rightarrow> bool list" where
  "run_checks [] l = []"
| "run_checks (((tool, c), now) # calls) l =
     (case check_rate tool c now l of (ok, l') \<Rightarrow> ok # run_checks calls l')"

section \<open>One bucket\<close>

lemma bucket_key_eq [simp]: "bucket_key t c = bucket_key t' c' \<longleftrightarrow> t = t' \<and> c = c'"
  by (cases c; cases c') (auto simp: bucket_key_def)

lemma config_for_buckets [simp]: "config_for c (l\<lparr>buckets := m\<rparr>) = config_for c l"
  by (simp add: config_for_def split: tool_category.split)

text \<open>What one call does to its own bucket, as a function of the bucket alone.\<close>

definition bucket_step :: "limiter_config \<Rightarrow> int \<Rightarrow> token_bucket option \<Rightarrow> bool \<times> token_bucket" where
  "bucket_step cfg now v =
     (let b = refill cfg now (case v of None \<Rightarrow> \<lparr>bucketTokens = burst cfg, lastRefill = now\<rparr> | Some b \<Rightarrow> b)
      in if bucketTokens b < 1 then (False, b) else (True, b\<lparr>bucketTokens := bucketTokens b - 1\<rparr>))"

fun bucket_run :: "limiter_config \<Rightarrow> int list \<Rightarrow> token_bucket option \<Rightarrow> bool list" where
  "bucket_run cfg [] v = []"
| "bucket_run cfg (now # ts) v = (case bucket_step cfg now v of (ok, b) \<Rightarrow> ok # bucket_run cfg ts (Some b))"

lemma check_rate_step:
  "check_rate tool c now l =
     (fst (bucket_step (config_for c l) now (map_of (buckets l) (bucket_key tool c))),
      l\<lparr>buckets := map_set (bucket_key tool c)
         (snd (bucket_step (config_for c l) now (map_of (buckets l) (bucket_key tool c)))) (buckets l)\<rparr>)"
  by (simp add: check_rate_def bucket_step_def Let_def)

text \<open>The answers to the calls of one tool, out of the answers to a whole run.\<close>

definition answers_for :: "string \<times> tool_category \<Rightarrow> tool_call list \<Rightarrow> bool list \<Rightarrow> bool list" where
  "answers_for k calls oks = map snd (filter (\<lambda>(call, ok). fst call = k) (zip calls oks))"

text \<open>
  The buckets are independent. In any run of calls the answers to the calls of one tool are those its
  bucket gives when the other tools are never called.
\<close>

theorem buckets_are_independent:
  "answers_for (tool, c) calls (run_checks calls l) =
     bucket_run (config_for c l) (map snd (filter (\<lambda>call. fst call = (tool, c)) calls))
       (map_of (buckets l) (bucket_key tool c))"
proof (induction calls l rule: run_checks.induct)
  case (2 t d now calls l)
  let ?r = "check_rate t d now l"
  have "answers_for (tool, c) calls (run_checks calls (snd ?r)) =
      bucket_run (config_for c (snd ?r)) (map snd (filter (\<lambda>call. fst call = (tool, c)) calls))
        (map_of (buckets (snd ?r)) (bucket_key tool c))"
    using 2 [of "fst ?r" "snd ?r"] by simp
  then show ?case
    by (cases "t = tool \<and> d = c")
      (auto simp: answers_for_def check_rate_step split: prod.split)
qed (simp add: answers_for_def)

section \<open>How many calls are allowed\<close>

definition allowed :: "bool list \<Rightarrow> nat" where
  "allowed oks = length (filter id oks)"

lemma step_tokens:
  assumes "bucket_step cfg now (Some b) = (ok, b')" and "lastRefill b \<le> now" and "0 \<le> rpm cfg"
  shows "(if ok then 1 else 0) + bucketTokens b' \<le>
      bucketTokens b + of_int (now - lastRefill b) / 60000 * rpm cfg"
    and "lastRefill b' = now"
  using assms by (auto simp: bucket_step_def refill_def Let_def split: if_splits)

lemma step_nonneg:
  assumes "bucket_step cfg now (Some b) = (ok, b')" and "lastRefill b \<le> now" and "0 \<le> rpm cfg" "0 \<le> burst cfg"
    and "0 \<le> bucketTokens b"
  shows "0 \<le> bucketTokens b'"
proof -
  have "0 \<le> of_int (now - lastRefill b) / 60000 * rpm cfg" using assms(2,3) by simp
  then have "0 \<le> bucketTokens (refill cfg now b)" using assms(4,5) by (simp add: refill_def)
  then show ?thesis using assms(1) by (auto simp: bucket_step_def Let_def split: if_splits)
qed

lemma run_from_bucket:
  assumes "sorted (lastRefill b # ts)" and "0 \<le> rpm cfg" and "0 \<le> burst cfg" and "0 \<le> bucketTokens b"
  shows "of_nat (allowed (bucket_run cfg ts (Some b))) \<le>
    bucketTokens b + of_int (last (lastRefill b # ts) - lastRefill b) / 60000 * rpm cfg"
  using assms
proof (induction ts arbitrary: b)
  case (Cons now ts)
  obtain ok b' where s: "bucket_step cfg now (Some b) = (ok, b')" by fastforce
  have le: "lastRefill b \<le> now" using Cons.prems(1) by simp
  note t = step_tokens [OF s le Cons.prems(2)]
  have "of_nat (allowed (bucket_run cfg ts (Some b'))) \<le>
      bucketTokens b' + of_int (last (lastRefill b' # ts) - lastRefill b') / 60000 * rpm cfg"
    using Cons.prems t(2) step_nonneg [OF s le] by (intro Cons.IH) simp_all
  moreover have "allowed (bucket_run cfg (now # ts) (Some b)) =
      (if ok then 1 else 0) + allowed (bucket_run cfg ts (Some b'))"
    using s by (simp add: allowed_def)
  ultimately have "of_nat (allowed (bucket_run cfg (now # ts) (Some b))) \<le>
      bucketTokens b + (of_int (now - lastRefill b) / 60000 * rpm cfg +
        of_int (last (now # ts) - now) / 60000 * rpm cfg)"
    using t by auto
  also have "of_int (now - lastRefill b) / 60000 * rpm cfg + of_int (last (now # ts) - now) / 60000 * rpm cfg =
      of_int (last (now # ts) - lastRefill b) / 60000 * rpm cfg"
    by (simp add: field_simps)
  finally show ?case by simp
qed (simp add: allowed_def)

lemma run_from_fresh:
  assumes "sorted ts" and "ts \<noteq> []" and "0 \<le> rpm cfg" and "0 \<le> burst cfg"
  shows "of_nat (allowed (bucket_run cfg ts None)) \<le> burst cfg + of_int (last ts - hd ts) / 60000 * rpm cfg"
proof -
  let ?b = "\<lparr>bucketTokens = burst cfg, lastRefill = hd ts\<rparr>"
  have "bucket_step cfg (hd ts) None = bucket_step cfg (hd ts) (Some ?b)" by (simp add: bucket_step_def)
  then have "bucket_run cfg ts None = bucket_run cfg ts (Some ?b)" using assms(2) by (cases ts) simp_all
  moreover have "sorted (lastRefill ?b # ts)" using assms(1,2) by (cases ts) simp_all
  ultimately show ?thesis using run_from_bucket [of ?b ts cfg] assms by simp
qed

text \<open>
  C36: The limiter keeps to its rate. However the calls of the tools are mixed, a tool that was never called
  before is allowed at most \<open>burst\<close> calls and \<open>rpm\<close> more for every minute between its first and its last
  call, as long as the clock does not run backwards.
\<close>

theorem rate_is_kept:
  assumes "map_of (buckets l) (bucket_key tool c) = None"
    and "ts = map snd (filter (\<lambda>call. fst call = (tool, c)) calls)" and "ts \<noteq> []" and "sorted ts"
    and "0 \<le> rpm (config_for c l)" and "0 \<le> burst (config_for c l)"
  shows "of_nat (allowed (answers_for (tool, c) calls (run_checks calls l))) \<le>
    burst (config_for c l) + of_int (last ts - hd ts) / 60000 * rpm (config_for c l)"
  using run_from_fresh [OF assms(4,3,5,6)] assms(1,2) by (simp add: buckets_are_independent)

definition demo_limiter :: rate_limiter where
  "demo_limiter = \<lparr>readConfig = \<lparr>rpm = 60, burst = 2\<rparr>, writeConfig = \<lparr>rpm = 6, burst = 1\<rparr>, buckets = []\<rparr>"

theorem rate_is_kept_witness:
  "of_nat (allowed (answers_for (''t'', Read_Tool)
      [((''t'', Read_Tool), 0), ((''u'', Write_Tool), 5), ((''t'', Read_Tool), 10), ((''t'', Read_Tool), 1000)]
      (run_checks [((''t'', Read_Tool), 0), ((''u'', Write_Tool), 5), ((''t'', Read_Tool), 10), ((''t'', Read_Tool), 1000)]
        demo_limiter))) \<le> (3 :: rat)"
proof -
  let ?calls = "[((''t'', Read_Tool), 0), ((''u'', Write_Tool), 5), ((''t'', Read_Tool), 10), ((''t'', Read_Tool), 1000)]"
  have "of_nat (allowed (answers_for (''t'', Read_Tool) ?calls (run_checks ?calls demo_limiter))) \<le>
    burst (config_for Read_Tool demo_limiter) +
    of_int (last [0, 10, 1000] - hd [0, 10, 1000]) / 60000 * rpm (config_for Read_Tool demo_limiter)"
    by (rule rate_is_kept) (simp_all add: demo_limiter_def config_for_def)
  then show ?thesis by (simp add: demo_limiter_def config_for_def)
qed

text \<open>
  A tool that waits gets through. When the burst allows a call at all and the time since the last refill
  is enough for one token at the configured rate, the call is allowed.
\<close>

theorem waiting_call_is_allowed:
  assumes "map_of (buckets l) (bucket_key tool c) = Some b" and "0 \<le> bucketTokens b"
    and "1 \<le> burst (config_for c l)" and "60000 \<le> of_int (now - lastRefill b) * rpm (config_for c l)"
  shows "fst (check_rate tool c now l)"
proof -
  have "1 \<le> of_int (now - lastRefill b) / 60000 * rpm (config_for c l)" using assms(4) by simp
  then have "1 \<le> bucketTokens (refill (config_for c l) now b)"
    using assms(2,3) by (simp add: refill_def)
  then show ?thesis using assms(1) by (simp add: check_rate_def Let_def)
qed

theorem waiting_call_is_allowed_witness:
  "fst (check_rate ''t'' Read_Tool 1000
     (demo_limiter\<lparr>buckets := [(''read:t'', \<lparr>bucketTokens = 0, lastRefill = 0\<rparr>)]\<rparr>))"
  by (rule waiting_call_is_allowed [where b = "\<lparr>bucketTokens = 0, lastRefill = 0\<rparr>"])
    (simp_all add: demo_limiter_def config_for_def bucket_key_def)

end
