(* ===== verification/Runtime_Resolution.thy ===== *)
theory Runtime_Resolution
  imports Audit_Release Js_Text
begin

text \<open>
  From a runtime profile to what an adapter is started with: \<open>packages/runtime/src/resolution.ts\<close>. The
  environment is a function from names to values; a missing variable is \<^term>\<open>None\<close>. Headers and options
  are association lists in the order of \<open>Object.keys\<close>, none of whose keys is an array index. Of the workflow
  only its kind is kept. Log lines are left out.
\<close>

section \<open>Profiles and their resolution\<close>

record runtime_profile =
  rt_profileId :: "string option"
  rt_runtimeId :: string
  rt_providerId :: string
  rt_transport :: "string option"
  rt_baseUrl :: "string option"
  rt_apiKeyEnvVar :: "string option"
  rt_defaultModel :: "string option"
  rt_headers :: "(string \<times> string) list option"
  rt_options :: "(string \<times> json) list option"
  rt_enabled :: "bool option"

record resolve_input =
  ri_source :: string
  ri_profile :: "runtime_profile option"
  ri_workflowKind :: "string option"
  ri_modelOverride :: "string option"
  ri_lightModelFallback :: "string option"
  ri_suppressModelFallback :: bool
  ri_optionsOverride :: "(string \<times> json) list option"
  ri_fallbackRuntimeId :: "string option"
  ri_fallbackProviderId :: "string option"
  ri_allowDisabled :: bool

record resolved_profile =
  rp_source :: string
  rp_profileId :: "string option"
  rp_runtimeId :: string
  rp_providerId :: string
  rp_transport :: runtime_transport
  rp_baseUrl :: "string option"
  rp_apiKeyEnvVar :: string
  rp_apiKey :: "string option"
  rp_model :: "string option"
  rp_headers :: "(string \<times> string) list"
  rp_options :: "(string \<times> json) list"
  rp_workflowKind :: "string option"

type_synonym environment = "string \<Rightarrow> string option"

definition normalizeString :: "string option \<Rightarrow> string option" where
  "normalizeString v = (case v of None \<Rightarrow> None | Some s \<Rightarrow> if js_trim s = [] then None else Some (js_trim s))"

definition env_name_char :: "char \<Rightarrow> bool" where
  "env_name_char c \<longleftrightarrow> (let n = (of_char c :: nat) in
     (48 \<le> n \<and> n \<le> 57) \<or> (65 \<le> n \<and> n \<le> 90) \<or> (97 \<le> n \<and> n \<le> 122) \<or> n = 95 \<or> n = 46 \<or> n = 45)"

definition isValidEnvVarName :: "string option \<Rightarrow> bool" where
  "isValidEnvVarName v = (case v of None \<Rightarrow> False | Some s \<Rightarrow> js_trim s \<noteq> [] \<and> list_all env_name_char (js_trim s))"

definition is_anthropic :: "string \<Rightarrow> string \<Rightarrow> bool" where
  "is_anthropic runtime provider = (js_lower runtime = ''claude'' \<or> js_lower provider = ''anthropic'')"

definition is_openrouter :: "string \<Rightarrow> string \<Rightarrow> bool" where
  "is_openrouter runtime provider = (js_lower runtime = ''openrouter'' \<or> js_lower provider = ''openrouter'')"

definition is_qwen :: "string \<Rightarrow> string \<Rightarrow> bool" where
  "is_qwen runtime provider = (js_lower runtime = ''qwen-local-agent'' \<or> js_lower provider = ''qwen'')"

definition inferDefaultApiKeyEnvVar :: "string \<Rightarrow> string \<Rightarrow> environment \<Rightarrow> string" where
  "inferDefaultApiKeyEnvVar runtime provider env =
     (if is_anthropic runtime provider then
        (if normalizeString (env ''ANTHROPIC_API_KEY'') \<noteq> None then ''ANTHROPIC_API_KEY''
         else if normalizeString (env ''ANTHROPIC_AUTH_TOKEN'') \<noteq> None then ''ANTHROPIC_AUTH_TOKEN''
         else ''ANTHROPIC_API_KEY'')
      else if is_openrouter runtime provider then ''OPENROUTER_API_KEY''
      else if is_qwen runtime provider then ''QWEN_API_KEY''
      else ''OPENAI_API_KEY'')"

definition inferDefaultBaseUrl :: "string \<Rightarrow> string \<Rightarrow> environment \<Rightarrow> string option" where
  "inferDefaultBaseUrl runtime provider env =
     (if is_anthropic runtime provider then normalizeString (env ''ANTHROPIC_BASE_URL'')
      else if is_openrouter runtime provider
      then orelse (normalizeString (env ''OPENROUTER_BASE_URL'')) (Some ''https://openrouter.ai/api/v1'')
      else if is_qwen runtime provider then normalizeString (env ''QWEN_BASE_URL'')
      else normalizeString (env ''OPENAI_BASE_URL''))"

definition inferDefaultTransport :: "string \<Rightarrow> runtime_transport" where
  "inferDefaultTransport runtime =
     (if js_lower runtime = ''codex'' then CLI
      else if js_lower runtime = ''openrouter'' then API
      else if js_lower runtime = ''qwen-local-agent'' then API
      else SDK)"

definition read_transport :: "string \<Rightarrow> runtime_transport option" where
  "read_transport s = (if s = ''sdk'' then Some SDK else if s = ''cli'' then Some CLI
     else if s = ''app-server'' then Some APP_SERVER else if s = ''api'' then Some API else None)"

definition resolveConfiguredTransport :: "string \<Rightarrow> string option \<Rightarrow> runtime_transport" where
  "resolveConfiguredTransport runtime raw =
     (case raw of None \<Rightarrow> inferDefaultTransport runtime
      | Some s \<Rightarrow> if s = [] then inferDefaultTransport runtime
          else if s = ''agentapi'' then API
          else (case read_transport s of Some t \<Rightarrow> t | None \<Rightarrow> inferDefaultTransport runtime))"

definition inferDefaultModel :: "string \<Rightarrow> string \<Rightarrow> environment \<Rightarrow> string option" where
  "inferDefaultModel runtime provider env =
     (if is_anthropic runtime provider then normalizeString (env ''ANTHROPIC_MODEL'')
      else if js_lower runtime = ''codex'' \<or> js_lower provider = ''openai'' then normalizeString (env ''OPENAI_MODEL'')
      else if is_openrouter runtime provider then normalizeString (env ''OPENROUTER_MODEL'')
      else if is_qwen runtime provider then normalizeString (env ''QWEN_MODEL'')
      else None)"

definition resolveApiKey :: "string \<Rightarrow> environment \<Rightarrow> string option" where
  "resolveApiKey name env = normalizeString (env name)"

text \<open>Object spread: a later entry replaces the value of an earlier one and keeps its place.\<close>

definition mergeRuntimeOptions ::
    "(string \<times> json) list option \<Rightarrow> (string \<times> json) list option \<Rightarrow> (string \<times> json) list" where
  "mergeRuntimeOptions base over =
     foldl (\<lambda>m (k, v). map_set k v m) [] (the_default [] base @ the_default [] over)"

definition null_or_absent :: "json option \<Rightarrow> bool" where
  "null_or_absent v = (v = None \<or> v = Some JNull)"

definition applyTransportDefaults ::
    "runtime_transport \<Rightarrow> (string \<times> json) list \<Rightarrow> environment \<Rightarrow> (string \<times> json) list" where
  "applyTransportDefaults t options env =
     (if t = CLI then
        (case normalizeString (env ''CODEX_CLI_PATH'') of
           Some path \<Rightarrow> if null_or_absent (map_of options ''codexCliPath'')
             then map_set ''codexCliPath'' (JStr path) options else options
         | None \<Rightarrow> options)
      else options)"

text \<open>The environment variable of the key and its value: the named variable if it is usable and set.\<close>

definition choose_api_key :: "string option \<Rightarrow> string \<Rightarrow> environment \<Rightarrow> string \<times> string option" where
  "choose_api_key explicit fallback env =
     (let name = (case explicit of None \<Rightarrow> fallback | Some e \<Rightarrow> if isValidEnvVarName (Some e) then e else fallback);
          key = resolveApiKey name env
      in if key = None \<and> explicit \<noteq> None \<and> name \<noteq> fallback
         then (case resolveApiKey fallback env of None \<Rightarrow> (name, key) | Some k \<Rightarrow> (fallback, Some k))
         else (name, key))"

definition resolveRuntimeProfile :: "resolve_input \<Rightarrow> environment \<Rightarrow> string + resolved_profile" where
  "resolveRuntimeProfile inp env =
     (let profile = ri_profile inp;
          runtime = orelse (normalizeString (map_option rt_runtimeId profile)) (normalizeString (ri_fallbackRuntimeId inp));
          provider = orelse (normalizeString (map_option rt_providerId profile)) (normalizeString (ri_fallbackProviderId inp));
          field = (\<lambda>f. normalizeString (Option.bind profile f))
      in case (runtime, provider) of
           (Some r, Some p) \<Rightarrow>
             (if Option.bind profile rt_enabled = Some False \<and> \<not> ri_allowDisabled inp
              then Inl (''Runtime profile '' @ [CHR 0x22] @
                the_default ''unknown'' (Option.bind profile rt_profileId) @ [CHR 0x22] @ '' is disabled'')
              else
                (let t = resolveConfiguredTransport r (field rt_transport);
                     key = choose_api_key (field rt_apiKeyEnvVar) (inferDefaultApiKeyEnvVar r p env) env
                 in Inr \<lparr>rp_source = ri_source inp, rp_profileId = field rt_profileId, rp_runtimeId = r,
                      rp_providerId = p, rp_transport = t,
                      rp_baseUrl = orelse (field rt_baseUrl) (inferDefaultBaseUrl r p env),
                      rp_apiKeyEnvVar = fst key, rp_apiKey = snd key,
                      rp_model = (if ri_suppressModelFallback inp then None
                        else orelse (normalizeString (ri_modelOverride inp))
                          (orelse (field rt_defaultModel)
                            (orelse (normalizeString (ri_lightModelFallback inp)) (inferDefaultModel r p env)))),
                      rp_headers = the_default [] (Option.bind profile rt_headers),
                      rp_options = applyTransportDefaults t
                        (mergeRuntimeOptions (Option.bind profile rt_options) (ri_optionsOverride inp)) env,
                      rp_workflowKind = ri_workflowKind inp\<rparr>))
         | _ \<Rightarrow> Inl ''Unable to resolve runtime profile: runtimeId/providerId are missing'')"

fun is_json_string :: "json option \<Rightarrow> bool" where
  "is_json_string (Some (JStr s)) = True"
| "is_json_string _ = False"

definition validateResolvedRuntimeProfile :: "resolved_profile \<Rightarrow> bool \<times> string list" where
  "validateResolvedRuntimeProfile r =
     (let api = (if rp_transport r = API then
             (if rp_apiKey r = None \<and> js_lower (rp_runtimeId r) \<noteq> ''qwen-local-agent''
              then [''Missing API key env var '' @ rp_apiKeyEnvVar r @ '' for runtime '' @ [CHR 0x22] @ rp_runtimeId r @
                [CHR 0x22] @ '' (API transport)''] else []) @
             (if rp_baseUrl r = None \<and> \<not> is_json_string (map_of (rp_options r) ''agentApiBaseUrl'')
              then [''API transport requires a base URL (set profile baseUrl or OPENAI_BASE_URL)''] else [])
           else []);
          cli = (if (rp_transport r = CLI \<or> rp_transport r = APP_SERVER) \<and>
               \<not> is_json_string (map_of (rp_options r) ''codexCliPath'')
             then [(if rp_transport r = APP_SERVER then ''app-server'' else ''CLI'') @
               '' transport is selected but codexCliPath is missing''] else [])
      in (api @ cli = [], api @ cli))"

text \<open>What may be shown: header and option values and the key itself are left out.\<close>

definition redactResolvedRuntimeProfile :: "resolved_profile \<Rightarrow> (string \<times> json) list" where
  "redactResolvedRuntimeProfile r =
     (let opt = (\<lambda>v. case v of None \<Rightarrow> JNull | Some s \<Rightarrow> JStr s) in
      [(''source'', JStr (rp_source r)), (''profileId'', opt (rp_profileId r)),
       (''runtimeId'', JStr (rp_runtimeId r)), (''providerId'', JStr (rp_providerId r)),
       (''transport'', JStr (case rp_transport r of SDK \<Rightarrow> ''sdk'' | CLI \<Rightarrow> ''cli'' | APP_SERVER \<Rightarrow> ''app-server''
          | API \<Rightarrow> ''api'')),
       (''baseUrl'', opt (rp_baseUrl r)), (''apiKeyEnvVar'', JStr (rp_apiKeyEnvVar r)),
       (''hasApiKey'', JBool (truthy (rp_apiKey r))), (''model'', opt (rp_model r)),
       (''headers'', JArr (map (JStr \<circ> fst) (rp_headers r))),
       (''optionKeys'', JArr (map (JStr \<circ> fst) (rp_options r))),
       (''workflowKind'', opt (rp_workflowKind r))])"

section \<open>Properties\<close>

lemma normalizeString_None [simp]: "normalizeString None = None"
  by (simp add: normalizeString_def)

lemma normalizeString_nonempty: "normalizeString v = Some s \<Longrightarrow> s \<noteq> []"
  by (auto simp: normalizeString_def split: option.splits if_splits)

lemma chosen_key:
  "choose_api_key explicit fallback env = (name, key) \<Longrightarrow>
     key = resolveApiKey name env \<and> (name = fallback \<or> explicit = Some name \<and> isValidEnvVarName explicit)"
  by (auto simp: choose_api_key_def Let_def split: option.splits if_splits)

lemma missing_key:
  "choose_api_key explicit fallback env = (name, None) \<Longrightarrow>
     resolveApiKey fallback env = None \<and> (\<forall>e. explicit = Some e \<and> isValidEnvVarName explicit \<longrightarrow> resolveApiKey e env = None)"
  by (auto simp: choose_api_key_def Let_def split: option.splits if_splits)

text \<open>The variable a profile names for its key.\<close>

definition named_variable :: "resolve_input \<Rightarrow> string option" where
  "named_variable inp = normalizeString (Option.bind (ri_profile inp) rt_apiKeyEnvVar)"

lemma resolved_fields:
  assumes "resolveRuntimeProfile inp env = Inr r"
  shows "(rp_apiKeyEnvVar r, rp_apiKey r) =
      choose_api_key (named_variable inp) (inferDefaultApiKeyEnvVar (rp_runtimeId r) (rp_providerId r) env) env"
    and "rp_transport r = resolveConfiguredTransport (rp_runtimeId r)
      (normalizeString (Option.bind (ri_profile inp) rt_transport))"
    and "rp_options r = applyTransportDefaults (rp_transport r)
      (mergeRuntimeOptions (Option.bind (ri_profile inp) rt_options) (ri_optionsOverride inp)) env"
  using assms by (auto simp: resolveRuntimeProfile_def named_variable_def Let_def split: option.splits if_splits)

text \<open>
  A profile is started with a key of its own. The key of a resolved profile is the value of the variable
  the profile names, when its name is a valid one, or of the variable of its runtime and provider: an
  Anthropic profile that names none never gets the key of another provider. It has no key only if
  neither variable is set.
\<close>

theorem resolved_key_is_its_own:
  assumes "resolveRuntimeProfile inp env = Inr r"
  shows "(rp_apiKeyEnvVar r = inferDefaultApiKeyEnvVar (rp_runtimeId r) (rp_providerId r) env \<or>
      named_variable inp = Some (rp_apiKeyEnvVar r) \<and> isValidEnvVarName (named_variable inp)) \<and>
    rp_apiKey r = normalizeString (env (rp_apiKeyEnvVar r)) \<and>
    (rp_apiKey r = None \<longrightarrow>
      normalizeString (env (inferDefaultApiKeyEnvVar (rp_runtimeId r) (rp_providerId r) env)) = None) \<and>
    (named_variable inp = None \<and> is_anthropic (rp_runtimeId r) (rp_providerId r) \<longrightarrow>
      rp_apiKeyEnvVar r \<in> {''ANTHROPIC_API_KEY'', ''ANTHROPIC_AUTH_TOKEN''})"
proof -
  note key = chosen_key [OF resolved_fields(1) [OF assms, symmetric]]
  note missing = missing_key [of "named_variable inp"
      "inferDefaultApiKeyEnvVar (rp_runtimeId r) (rp_providerId r) env" env "rp_apiKeyEnvVar r"]
  have "is_anthropic (rp_runtimeId r) (rp_providerId r) \<Longrightarrow>
      inferDefaultApiKeyEnvVar (rp_runtimeId r) (rp_providerId r) env \<in> {''ANTHROPIC_API_KEY'', ''ANTHROPIC_AUTH_TOKEN''}"
    by (simp add: inferDefaultApiKeyEnvVar_def)
  then show ?thesis using key missing resolved_fields(1) [OF assms] by (auto simp: resolveApiKey_def)
qed

definition demo_resolve :: resolve_input where
  "demo_resolve = \<lparr>ri_source = ''task'',
     ri_profile = Some \<lparr>rt_profileId = Some ''p'', rt_runtimeId = ''claude'', rt_providerId = ''anthropic'',
       rt_transport = None, rt_baseUrl = None, rt_apiKeyEnvVar = Some ''MY KEY'', rt_defaultModel = None,
       rt_headers = None, rt_options = None, rt_enabled = Some True\<rparr>,
     ri_workflowKind = None, ri_modelOverride = None, ri_lightModelFallback = None,
     ri_suppressModelFallback = False, ri_optionsOverride = None, ri_fallbackRuntimeId = None,
     ri_fallbackProviderId = None, ri_allowDisabled = False\<rparr>"

definition demo_env :: environment where
  "demo_env = [''ANTHROPIC_AUTH_TOKEN'' \<mapsto> '' tok '', ''OPENAI_API_KEY'' \<mapsto> ''other'']"

theorem resolved_key_is_its_own_witness:
  "\<exists>r. resolveRuntimeProfile demo_resolve demo_env = Inr r \<and> rp_apiKey r = Some ''tok'' \<and>
     rp_apiKey r = normalizeString (demo_env (rp_apiKeyEnvVar r))"
proof -
  have "map_sum id rp_apiKey (resolveRuntimeProfile demo_resolve demo_env) = Inr (Some ''tok'')"
    by code_simp
  then obtain r where r: "resolveRuntimeProfile demo_resolve demo_env = Inr r" "rp_apiKey r = Some ''tok''"
    by (cases "resolveRuntimeProfile demo_resolve demo_env") auto
  then show ?thesis using resolved_key_is_its_own [OF r(1)] by blast
qed

text \<open>
  What is shown of a resolved profile hides its secrets: replacing the key by any other key and the value
  of any header or option by another value does not change what is shown.
\<close>

theorem redaction_hides_secrets:
  assumes "k \<noteq> []" and "k' \<noteq> []"
  shows "redactResolvedRuntimeProfile
      (r\<lparr>rp_apiKey := Some k, rp_headers := map (\<lambda>(n, v). (n, f n v)) (rp_headers r),
         rp_options := map (\<lambda>(n, v). (n, g n v)) (rp_options r)\<rparr>) =
    redactResolvedRuntimeProfile (r\<lparr>rp_apiKey := Some k'\<rparr>)"
  using assms by (simp add: redactResolvedRuntimeProfile_def comp_def split_beta)

theorem redaction_hides_secrets_witness:
  "\<forall>r. redactResolvedRuntimeProfile
      (r\<lparr>rp_apiKey := Some ''a'', rp_headers := map (\<lambda>(n, v). (n, ''x'')) (rp_headers r),
         rp_options := map (\<lambda>(n, v). (n, JNull)) (rp_options r)\<rparr>) =
    redactResolvedRuntimeProfile (r\<lparr>rp_apiKey := Some ''b''\<rparr>)"
  by (intro allI redaction_hides_secrets) simp_all

text \<open>A profile of the command line that passes the validation has a path to run.\<close>

lemma valid_cli_has_path:
  "fst (validateResolvedRuntimeProfile r) \<Longrightarrow> rp_transport r = CLI \<or> rp_transport r = APP_SERVER \<Longrightarrow>
     is_json_string (map_of (rp_options r) ''codexCliPath'')"
  by (auto simp: validateResolvedRuntimeProfile_def Let_def split: if_splits)

lemma mergeRuntimeOptions_lookup:
  "map_of (mergeRuntimeOptions base over) k =
     (case map_of (rev (the_default [] over)) k of Some v \<Rightarrow> Some v | None \<Rightarrow> map_of (rev (the_default [] base)) k)"
proof -
  have "map_of (foldl (\<lambda>m (k, v). map_set k v m) m kvs) k =
      (case map_of (rev kvs) k of Some v \<Rightarrow> Some v | None \<Rightarrow> map_of m k)" for m and kvs :: "(string \<times> json) list"
    by (induction kvs arbitrary: m) (auto simp: map_add_def split: option.splits)
  then show ?thesis by (simp add: mergeRuntimeOptions_def map_add_def split: option.split)
qed

end
