(* ===== verification/Guardrails.thy ===== *)
theory Guardrails
  imports Stage_Errors Failure_Families
begin

text \<open>
  The events of guardrails: \<open>packages/shared/src/guardrailObservability.ts\<close>. What is logged of a value that
  comes from a tool or a model is redacted, and a path is made relative to the project. \<open>rel\<close> stands for
  \<open>path.relative\<close> of the platform.
\<close>

section \<open>Redaction\<close>

definition AGENT_RUNTIME_RECOVERY_NO_DELTA :: string where
  "AGENT_RUNTIME_RECOVERY_NO_DELTA = ''agent_runtime_recovery_no_delta_total''"

datatype guardrail_action = Guard_Blocked | Guard_Rework | Guard_Manual | Guard_Fail_Closed | Guard_Accepted | Guard_Rejected

fun guardrail_action_text :: "guardrail_action \<Rightarrow> string" where
  "guardrail_action_text Guard_Blocked = ''blocked''"
| "guardrail_action_text Guard_Rework = ''rework''"
| "guardrail_action_text Guard_Manual = ''manual''"
| "guardrail_action_text Guard_Fail_Closed = ''fail_closed''"
| "guardrail_action_text Guard_Accepted = ''accepted''"
| "guardrail_action_text Guard_Rejected = ''rejected''"

record guardrail_event =
  ge_taskId :: "string option"
  ge_projectId :: "string option"
  ge_stage :: "string option"
  ge_workflowKind :: "string option"
  ge_runtimeProfileId :: "string option"
  ge_runtimeId :: "string option"
  ge_providerId :: "string option"
  ge_toolName :: "string option"
  ge_artifactPath :: "string option"
  ge_fingerprint :: "string option"
  ge_failureFingerprint :: "string option"
  ge_action :: guardrail_action
  ge_reasonCode :: string

definition EXTERNAL_PATH :: string where "EXTERNAL_PATH = ''[external-path]''"

definition REDACTED_MARK :: string where "REDACTED_MARK = ''[redacted]''"

definition SECRET_SEGMENT_PATTERN :: rx where
  "SECRET_SEGMENT_PATTERN = rx_any
    [rseq [At_Start, lit_i ''.env'', Alt At_End (lit ''.'')],
     rseq [At_Start, lit_i ''.ssh'', At_End],
     rseq [At_Start, lit_i ''key'', rx_opt (lit_i ''s''), At_End],
     rseq [At_Start, lit_i ''id_'', rx_any [lit_i ''rsa'', lit_i ''dsa'', lit_i ''ecdsa'', lit_i ''ed25519''], At_End],
     rseq [lit_i ''private'', rx_opt (one_of ''-_''), lit_i ''key''],
     lit_i ''token'', lit_i ''secret'', lit_i ''password'', lit_i ''passwd'',
     rseq [lit_i ''api'', rx_opt (one_of ''-_''), lit_i ''key''],
     rseq [lit_i ''access'', rx_opt (one_of ''-_''), lit_i ''key''],
     rseq [At_Start, lit_i ''key'', At_End]]"

definition WINDOWS_ABSOLUTE_PATTERN :: rx where
  "WINDOWS_ABSOLUTE_PATTERN = rseq [At_Start, One letter, lit '':'', one_of [CHR 0x5C, CHR ''/'']]"

definition URL_PATTERN :: rx where
  "URL_PATTERN = rseq [Word_Boundary, One letter, Greedy (One (alnum_or ''+.-'')), lit ''://'',
     rx_plus (One (\<lambda>c. \<not> js_space c))]"

definition EMAIL_PATTERN :: rx where
  "EMAIL_PATTERN = rseq [Word_Boundary, rx_plus (One (alnum_or ''._%+-'')), lit ''@'', rx_plus (One (alnum_or ''.-'')),
     lit ''.'', at_least 2 (One letter), Word_Boundary]"

text \<open>\<^term>\<open>None\<close> is a value that is no text.\<close>

definition sanitizeScalar :: "string option \<Rightarrow> string option" where
  "sanitizeScalar v =
     (case v of None \<Rightarrow> None
      | Some s \<Rightarrow>
          (let t = js_trim (foldl (\<lambda>s x. replace_all x (\<lambda>_. REDACTED_MARK) s) (redactProviderText s)
                 [lit ''[REDACTED]'', URL_PATTERN, EMAIL_PATTERN])
           in if t = [] then None else if 160 < length t then Some (take 157 t @ ''...'') else Some t))"

section \<open>Paths\<close>

definition normalizePathSeparators :: "string \<Rightarrow> string" where
  "normalizePathSeparators s = collapse_slashes (forward_slashes s)"

definition isAbsoluteLikePath :: "string \<Rightarrow> bool" where
  "isAbsoluteLikePath s \<longleftrightarrow> startsWith s ''/'' \<or> startsWith s ''//'' \<or> js_test WINDOWS_ABSOLUTE_PATTERN s \<or>
     startsWith s [CHR 0x5C, CHR 0x5C]"

fun split_slash :: "string \<Rightarrow> string list" where
  "split_slash [] = [[]]"
| "split_slash (c # s) =
     (if c = CHR ''/'' then [] # split_slash s
      else (case split_slash s of [] \<Rightarrow> [[c]] | x # xs \<Rightarrow> (c # x) # xs))"

definition secret_segment :: "string \<Rightarrow> bool" where
  "secret_segment s \<longleftrightarrow> js_test SECRET_SEGMENT_PATTERN s \<or> js_includes s REDACTED_MARK"

definition sanitizePathSegments :: "string \<Rightarrow> string" where
  "sanitizePathSegments p = js_join ''/'' (map (\<lambda>s. if secret_segment s then REDACTED_MARK else s)
     (filter (\<lambda>s. s \<noteq> [] \<and> s \<noteq> ''.'') (split_slash p)))"

definition non_empty :: "string \<Rightarrow> string option" where
  "non_empty s = (if s = [] then None else Some s)"

definition sanitizeAgentGuardrailPath ::
    "(string \<Rightarrow> string \<Rightarrow> string) \<Rightarrow> string option \<Rightarrow> string option \<Rightarrow> string option" where
  "sanitizeAgentGuardrailPath rel v projectRoot =
     (case sanitizeScalar v of None \<Rightarrow> None
      | Some s \<Rightarrow>
          if js_includes s REDACTED_MARK \<and> CHR 0x5C \<notin> set s \<and> CHR ''/'' \<notin> set s then Some REDACTED_MARK
          else if js_test (rseq [At_Start, lit ''..'', Alt (one_of [CHR 0x5C, CHR ''/'']) At_End]) s then Some EXTERNAL_PATH
          else
            (let inp = normalizePathSeparators s;
                 normalizedRoot = (if truthy projectRoot
                   then Some (normalizePathSeparators (js_trim (redactProviderText (the projectRoot)))) else None)
             in if isAbsoluteLikePath inp then
                  (case normalizedRoot of
                     Some r \<Rightarrow>
                       if r \<noteq> [] \<and> startsWith (js_lower inp) (js_lower r @ ''/'')
                       then non_empty (sanitizePathSegments (drop (length r + 1) inp))
                       else if r \<noteq> [] \<and> js_lower inp = js_lower r then Some ''.''
                       else Some EXTERNAL_PATH
                   | None \<Rightarrow> Some EXTERNAL_PATH)
                else
                  (case normalizedRoot of
                     Some r \<Rightarrow>
                       (let p = normalizePathSeparators (rel r (r @ ''/'' @ inp)) in
                        if r \<noteq> [] \<and> (startsWith p ''../'' \<or> p = ''..'') then Some EXTERNAL_PATH
                        else non_empty (sanitizePathSegments inp))
                   | None \<Rightarrow> non_empty (sanitizePathSegments inp))))"

section \<open>Events\<close>

text \<open>The input is an event whose texts are as they come; the path is given with the root of the project.\<close>

definition buildAgentGuardrailEvent ::
    "(string \<Rightarrow> string \<Rightarrow> string) \<Rightarrow> string option \<Rightarrow> guardrail_event \<Rightarrow> guardrail_event" where
  "buildAgentGuardrailEvent rel projectRoot i =
     \<lparr>ge_taskId = sanitizeScalar (ge_taskId i), ge_projectId = sanitizeScalar (ge_projectId i),
      ge_stage = sanitizeScalar (ge_stage i), ge_workflowKind = sanitizeScalar (ge_workflowKind i),
      ge_runtimeProfileId = sanitizeScalar (ge_runtimeProfileId i), ge_runtimeId = sanitizeScalar (ge_runtimeId i),
      ge_providerId = sanitizeScalar (ge_providerId i), ge_toolName = sanitizeScalar (ge_toolName i),
      ge_artifactPath = sanitizeAgentGuardrailPath rel (ge_artifactPath i) projectRoot,
      ge_fingerprint = sanitizeScalar (ge_fingerprint i), ge_failureFingerprint = sanitizeScalar (ge_failureFingerprint i),
      ge_action = ge_action i, ge_reasonCode = the_default ''unknown'' (sanitizeScalar (Some (ge_reasonCode i)))\<rparr>"

definition formatAgentGuardrailActivityLine :: "string \<Rightarrow> guardrail_event \<Rightarrow> string" where
  "formatAgentGuardrailActivityLine counter e =
     (let opt = (\<lambda>label v. if truthy v then [label @ the v] else []) in
      counter @ '': '' @ js_join ''; ''
        ([''action='' @ guardrail_action_text (ge_action e), ''stage='' @ the_default ''unknown'' (ge_stage e),
          ''reason='' @ ge_reasonCode e] @
         opt ''tool='' (ge_toolName e) @ opt ''artifact='' (ge_artifactPath e) @ opt ''fingerprint='' (ge_fingerprint e) @
         opt ''failureFingerprint='' (ge_failureFingerprint e)))"

definition mapAgentGuardrailAttemptTrust :: "guardrail_action \<Rightarrow> string \<times> string \<times> string" where
  "mapAgentGuardrailAttemptTrust a =
     (if a = Guard_Accepted then (''accepted'', ''supported'', ''weak'')
      else if a = Guard_Rejected \<or> a = Guard_Rework then (''rejected'', ''refuted'', ''untrusted'')
      else (''blocked'', ''blocked'', ''untrusted''))"

definition event_json :: "guardrail_event \<Rightarrow> json" where
  "event_json e = JObj
     [(''taskId'', json_opt (ge_taskId e)), (''projectId'', json_opt (ge_projectId e)), (''stage'', json_opt (ge_stage e)),
      (''workflowKind'', json_opt (ge_workflowKind e)), (''runtimeProfileId'', json_opt (ge_runtimeProfileId e)),
      (''runtimeId'', json_opt (ge_runtimeId e)), (''providerId'', json_opt (ge_providerId e)),
      (''toolName'', json_opt (ge_toolName e)), (''artifactPath'', json_opt (ge_artifactPath e)),
      (''fingerprint'', json_opt (ge_fingerprint e)), (''failureFingerprint'', json_opt (ge_failureFingerprint e)),
      (''action'', JStr (guardrail_action_text (ge_action e))), (''reasonCode'', JStr (ge_reasonCode e))]"

section \<open>What a logged path can show\<close>

lemma split_slash_noslash: "s \<in> set (split_slash p) \<Longrightarrow> CHR ''/'' \<notin> set s"
proof (induction p arbitrary: s)
  case (Cons c p)
  then show ?case by (cases "split_slash p") (auto split: if_splits)
qed simp

lemma split_slash_single: "CHR ''/'' \<notin> set s \<Longrightarrow> split_slash s = [s]"
  by (induction s) auto

lemma split_slash_append: "CHR ''/'' \<notin> set s \<Longrightarrow> split_slash (s @ ''/'' @ t) = s # split_slash t"
  by (induction s) auto

lemma split_join:
  "xs \<noteq> [] \<Longrightarrow> \<forall>s\<in>set xs. CHR ''/'' \<notin> set s \<Longrightarrow> split_slash (js_join ''/'' xs) = xs"
proof (induction "''/''" xs rule: js_join.induct)
  case (3 x y xs)
  then show ?case using split_slash_append [of x "js_join ''/'' (y # xs)"] by simp
qed (simp_all add: split_slash_single)

definition clean_segments :: "string \<Rightarrow> bool" where
  "clean_segments p \<longleftrightarrow> (\<forall>s\<in>set (split_slash p). s \<noteq> [] \<and> s \<noteq> ''.'' \<and> (s = REDACTED_MARK \<or> \<not> secret_segment s))"

lemma sanitized_segments:
  assumes "sanitizePathSegments p \<noteq> []"
  shows "clean_segments (sanitizePathSegments p)"
proof -
  let ?xs = "map (\<lambda>s. if secret_segment s then REDACTED_MARK else s) (filter (\<lambda>s. s \<noteq> [] \<and> s \<noteq> ''.'') (split_slash p))"
  have ne: "?xs \<noteq> []"
  proof
    assume "?xs = []"
    then have "sanitizePathSegments p = []" unfolding sanitizePathSegments_def by (simp only: js_join.simps)
    then show False using assms by simp
  qed
  have "CHR ''/'' \<notin> set REDACTED_MARK" by code_simp
  then have "\<forall>s\<in>set ?xs. CHR ''/'' \<notin> set s" using split_slash_noslash [of _ p] by auto
  then have split: "split_slash (sanitizePathSegments p) = ?xs" unfolding sanitizePathSegments_def by (rule split_join [OF ne])
  have "\<forall>s\<in>set ?xs. s \<noteq> [] \<and> s \<noteq> ''.'' \<and> (s = REDACTED_MARK \<or> \<not> secret_segment s)"
    by (auto simp: REDACTED_MARK_def)
  then show ?thesis unfolding clean_segments_def split .
qed

lemma non_empty_segments: "non_empty (sanitizePathSegments q) = Some p \<Longrightarrow> clean_segments p"
  using sanitized_segments by (auto simp: non_empty_def split: if_splits)

text \<open>
  The path of a guardrail event. Whatever path a tool or a model gives, what is kept is the marker of an
  external path or of a redacted value, the project itself, or a relative path that has no empty segment and in
  which every segment that looks like a secret is replaced by the marker.
\<close>

theorem logged_path_shows_no_secret:
  assumes "sanitizeAgentGuardrailPath rel v projectRoot = Some p"
  shows "p \<in> {EXTERNAL_PATH, REDACTED_MARK, ''.''} \<or> \<not> startsWith p ''/'' \<and> clean_segments p"
proof -
  have clean: "\<not> startsWith p ''/'' \<and> clean_segments p" if "non_empty (sanitizePathSegments q) = Some p" for q
  proof -
    have c: "clean_segments p" using non_empty_segments [OF that] .
    moreover have "\<not> startsWith p ''/''"
      using c by (cases p) (auto simp: clean_segments_def)
    ultimately show ?thesis by simp
  qed
  show ?thesis using assms
    by (auto simp: sanitizeAgentGuardrailPath_def Let_def split: option.splits if_splits dest!: clean)
qed

theorem logged_path_shows_no_secret_witness:
  "sanitizeAgentGuardrailPath (\<lambda>_ _. []) (Some ''src/api_key/a.ts'') None = Some ''src/[redacted]/a.ts'' \<and>
   clean_segments ''src/[redacted]/a.ts''"
proof -
  have 1: "sanitizeAgentGuardrailPath (\<lambda>_ _. []) (Some ''src/api_key/a.ts'') None = Some ''src/[redacted]/a.ts''" by code_simp
  have "''src/[redacted]/a.ts'' \<notin> {EXTERNAL_PATH, REDACTED_MARK, ''.''}" by code_simp
  with logged_path_shows_no_secret [OF 1] have "clean_segments ''src/[redacted]/a.ts''" by blast
  with 1 show ?thesis by (rule conjI)
qed

end
