(* ===== verification/Auto_Queue.thy ===== *)
theory Auto_Queue
  imports Task_Claims Roadmap_Artifacts Watchdog
begin

text \<open>
  How tasks leave the backlog: the scheduler and the auto-queue of \<open>packages/agent/src/coordinator.ts\<close>, and
  the check of \<open>packages/shared/src/branchDependency.ts\<close> that earlier branches have been merged. What git
  says about the root of a project is the record \<open>git_view\<close>; it does not change during a pass. The calls of a
  pass do not throw, so the bodies of its \<open>try\<close> blocks stand alone.
\<close>

section \<open>Earlier branches\<close>

record git_view =
  gv_isRepo :: bool
  gv_sharedBranchIsolation :: bool
  gv_supportsWorktrees :: bool
  gv_dirty :: bool
  gv_baseBranch :: string
  gv_branchExists :: "string \<Rightarrow> bool"
  gv_isAncestor :: "string \<Rightarrow> string \<Rightarrow> bool"

definition listTasks :: "string \<Rightarrow> db \<Rightarrow> task_row list" where
  "listTasks pid d = sort_key (\<lambda>r. (status_text (status r), position r)) (filter (\<lambda>r. projectId r = pid) (tasks d))"

definition prior_branch_task :: "task_row \<Rightarrow> task_row \<Rightarrow> bool" where
  "prior_branch_task new t \<longleftrightarrow> projectId t = projectId new \<and> position t < position new \<and>
     (status t = Done \<or> status t = Verified) \<and> truthy (branchName t) \<and> \<not> truthy (worktreePath t)"

definition position_order :: "text_host \<Rightarrow> task_row \<Rightarrow> task_row \<Rightarrow> int" where
  "position_order h a b = (if position a < position b then - 1 else if position b < position a then 1
     else localeCompare h (taskId a) (taskId b))"

definition trimmed_branch :: "task_row \<Rightarrow> string" where
  "trimmed_branch t = (case branchName t of None \<Rightarrow> [] | Some b \<Rightarrow> js_trim b)"

definition branch_problem :: "git_view \<Rightarrow> task_row \<Rightarrow> task_row \<Rightarrow> string option" where
  "branch_problem g new t =
     (let b = trimmed_branch t in
      if b = [] \<or> b = gv_baseBranch g then None
      else if \<not> gv_branchExists g b
      then Some (''sequential_branch_dependency_blocked: prior task '' @ taskId t @ '' completed on missing branch '' @ b @
        ''; cannot start '' @ taskId new @ '' until the branch is restored or the task is explicitly reconciled.'')
      else if \<not> gv_isAncestor g b (gv_baseBranch g)
      then Some (''sequential_branch_dependency_blocked: prior task '' @ taskId t @ '' completed on branch '' @ b @
        '', but that branch is not merged into base '' @ gv_baseBranch g @
        ''; merge or reconcile it before starting '' @ taskId new @ ''.'')
      else None)"

fun first_problem :: "git_view \<Rightarrow> task_row \<Rightarrow> task_row list \<Rightarrow> string option" where
  "first_problem g new [] = None"
| "first_problem g new (t # ts) = (case branch_problem g new t of Some m \<Rightarrow> Some m | None \<Rightarrow> first_problem g new ts)"

text \<open>The message of the blocker, if there is one.\<close>

definition findSequentialBranchDependencyBlocker ::
    "text_host \<Rightarrow> git_view \<Rightarrow> task_row \<Rightarrow> task_row list \<Rightarrow> string option" where
  "findSequentialBranchDependencyBlocker h g new projectTasks =
     (if \<not> gv_isRepo g \<or> \<not> gv_sharedBranchIsolation g then None
      else if truthy (worktreePath new) then None
      else if \<not> gv_branchExists g (gv_baseBranch g)
      then Some (''sequential_branch_dependency_blocked: base branch '' @ gv_baseBranch g @
        '' is missing; cannot prove prior task branches are integrated before starting '' @ taskId new @ ''.'')
      else first_problem g new (js_sort (position_order h) (filter (prior_branch_task new) projectTasks)))"

section \<open>The scheduler\<close>

record queue_env =
  qe_text :: text_host
  qe_git :: "project_row \<Rightarrow> git_view"
  qe_worktreesEnabled :: bool
  qe_maxConcurrent :: nat
  qe_countNeedsInput :: bool
  qe_intakeEnabled :: bool

datatype queue_event = Moved moved | Scheduled_Fired moved | Queue_Advanced string string

definition backlogAdvanceTargetStatus :: "queue_env \<Rightarrow> task_status" where
  "backlogAdvanceTargetStatus e = (if qe_intakeEnabled e then Requirements_Analysis else Planning)"

definition move_of :: "task_row \<Rightarrow> task_status \<Rightarrow> moved" where
  "move_of t to = \<lparr>movedTaskId = taskId t, movedTitle = title t, fromStatus = status t, toStatus = to\<rparr>"

definition fire_task :: "queue_env \<Rightarrow> int \<Rightarrow> task_row \<Rightarrow> db \<times> queue_event list \<times> nat \<Rightarrow> db \<times> queue_event list \<times> nat" where
  "fire_task e now t = (\<lambda>(d, es, fired).
     (case claimBacklogTaskForAdvance (taskId t) (backlogAdvanceTargetStatus e) now d of
        (d1, False) \<Rightarrow> (d1, es, fired)
      | (d1, True) \<Rightarrow>
          (let m = move_of t (backlogAdvanceTargetStatus e) in
           (appendTaskActivityLog (taskId t) (stamped now (''[scheduler] Fired scheduled task (was due at '' @
              (case scheduledAt t of None \<Rightarrow> ''null'' | Some s \<Rightarrow> toISOString s) @ '')'')) now d1,
            es @ [Scheduled_Fired m, Moved m], fired + 1))))"

definition processDueScheduledTasks :: "queue_env \<Rightarrow> int \<Rightarrow> db \<Rightarrow> db \<times> queue_event list \<times> nat" where
  "processDueScheduledTasks e now d = fold (fire_task e now) (listDueScheduledTasks now d) (d, [], 0)"

section \<open>The auto-queue\<close>

definition shouldEnforceSequentialBranchDependency :: "queue_env \<Rightarrow> project_row \<Rightarrow> bool" where
  "shouldEnforceSequentialBranchDependency e p =
     (gv_sharedBranchIsolation (qe_git e p) \<and>
      (\<not> parallelEnabled p \<or> \<not> qe_worktreesEnabled e \<or> \<not> gv_supportsWorktrees (qe_git e p)))"

definition blockBacklogTaskForSequentialBranchDependency ::
    "task_row \<Rightarrow> string \<Rightarrow> int \<Rightarrow> db \<Rightarrow> db \<times> queue_event list" where
  "blockBacklogTaskForSequentialBranchDependency t reason now d =
     (appendTaskActivityLog (taskId t)
        (stamped now (''[auto-queue] Blocked by sequential branch dependency: '' @ reason)) now
        (setTaskFields (taskId t) (\<lambda>r. r\<lparr>status := Blocked_External, blockedReason := Some reason,
           blockedFromStatus := Some (status t), retryAfter := None, retryCount := retryCount t,
           reworkRequested := False, reviewIterationCount := reviewIterationCount t, manualReviewRequired := True,
           paused := True, lastHeartbeatAt := Some now, updatedAt := now\<rparr>) now d),
      [Moved (move_of t Blocked_External)])"

definition usesSharedBranchIsolation :: "queue_env \<Rightarrow> project_row \<Rightarrow> db \<Rightarrow> bool" where
  "usesSharedBranchIsolation e p d =
     ((gv_sharedBranchIsolation (qe_git e p) \<and> (\<not> qe_worktreesEnabled e \<or> \<not> gv_supportsWorktrees (qe_git e p))) \<or>
      hasActiveBranchBoundTasksForProject (prId p) d)"

definition pool_limit :: "queue_env \<Rightarrow> project_row \<Rightarrow> db \<Rightarrow> nat" where
  "pool_limit e p d = (if parallelEnabled p \<and> \<not> usesSharedBranchIsolation e p d then qe_maxConcurrent e else 1)"

definition queue_blocker :: "queue_env \<Rightarrow> project_row \<Rightarrow> task_row \<Rightarrow> db \<Rightarrow> string option" where
  "queue_blocker e p t d =
     (if shouldEnforceSequentialBranchDependency e p
      then findSequentialBranchDependencyBlocker (qe_text e) (qe_git e p) t (listTasks (prId p) d) else None)"

abbreviation active_count :: "queue_env \<Rightarrow> project_row \<Rightarrow> db \<Rightarrow> nat" where
  "active_count e p d \<equiv> countActivePipelineTasksForProject (qe_countNeedsInput e) (prId p) d"

definition advance_line :: "nat \<Rightarrow> nat \<Rightarrow> int \<Rightarrow> string" where
  "advance_line active limit now = stamped now (''[auto-queue] Advanced by project auto-queue mode (pool '' @
     string_of_nat (active + 1) @ ''/'' @ string_of_nat limit @ '')'')"

text \<open>The loop that fills the pool of one project; \<^term>\<open>None\<close> would mean that it does not end.\<close>

partial_function (option) fill_pool ::
    "queue_env \<Rightarrow> project_row \<Rightarrow> nat \<Rightarrow> int \<Rightarrow> nat \<Rightarrow> db \<Rightarrow> queue_event list \<Rightarrow> nat \<Rightarrow>
     (db \<times> queue_event list \<times> nat) option" where
  "fill_pool e p limit now active d es n =
     (if limit \<le> active then Some (d, es, n)
      else case nextBacklogTaskByPosition (prId p) now d of
        None \<Rightarrow> Some (d, es, n)
      | Some t \<Rightarrow>
          (case queue_blocker e p t d of
             Some reason \<Rightarrow>
               (let r = blockBacklogTaskForSequentialBranchDependency t reason now d in Some (fst r, es @ snd r, n))
           | None \<Rightarrow>
               (let r = claimBacklogTaskForAdvance (taskId t) (backlogAdvanceTargetStatus e) now d in
                if \<not> snd r then fill_pool e p limit now (active_count e p (fst r)) (fst r) es n
                else fill_pool e p limit now (active + 1)
                  (appendTaskActivityLog (taskId t) (advance_line active limit now) now (fst r))
                  (es @ [Moved (move_of t (backlogAdvanceTargetStatus e)), Queue_Advanced (prId p) (taskId t)])
                  (n + 1))))"

definition advance_project :: "queue_env \<Rightarrow> int \<Rightarrow> project_row \<Rightarrow> db \<times> queue_event list \<times> nat \<Rightarrow> (db \<times> queue_event list \<times> nat) option" where
  "advance_project e now p = (\<lambda>(d, es, n).
     (let limit = pool_limit e p d; active = active_count e p d; g = qe_git e p in
      if limit \<le> active then Some (d, es, n)
      else if gv_isRepo g \<and> (\<not> qe_worktreesEnabled e \<or> \<not> gv_supportsWorktrees g) \<and> gv_dirty g then Some (d, es, n)
      else fill_pool e p limit now active d es n))"

fun advance_projects :: "queue_env \<Rightarrow> int \<Rightarrow> project_row list \<Rightarrow> db \<times> queue_event list \<times> nat \<Rightarrow>
    (db \<times> queue_event list \<times> nat) option" where
  "advance_projects e now [] s = Some s"
| "advance_projects e now (p # ps) s = Option.bind (advance_project e now p s) (advance_projects e now ps)"

definition processAutoQueueAdvance :: "queue_env \<Rightarrow> int \<Rightarrow> db \<Rightarrow> (db \<times> queue_event list \<times> nat) option" where
  "processAutoQueueAdvance e now d = advance_projects e now (listAutoQueueProjects d) (d, [], 0)"

section \<open>Counting the pipeline\<close>

definition active_status :: "bool \<Rightarrow> task_status \<Rightarrow> bool" where
  "active_status cni s \<longleftrightarrow> s \<in> {Requirements_Analysis, Research, Design, Planning, Plan_Ready, Implementing,
     Review, Qa, Blocked_External} \<union> (if cni then {Needs_Input} else {})"

text \<open>How often a task counts: once for each of its artifacts that is not given up, at least once.\<close>

definition weight :: "bool \<Rightarrow> string \<Rightarrow> db \<Rightarrow> task_row \<Rightarrow> nat" where
  "weight cni pid d r = (if projectId r = pid \<and> active_status cni (status r)
     then length (filter (\<lambda>row. \<not> terminalManualAuditArtifactBlock d row) (join_artifacts d [r])) else 0)"

lemma join_artifacts_Cons: "join_artifacts d (r # rs) = join_artifacts d [r] @ join_artifacts d rs"
  by (simp add: join_artifacts_def)

lemma count_is_sum:
  "countActivePipelineTasksForProject cni pid d = sum_list (map (weight cni pid d) (executable_rows d))"
proof -
  have "length (filter (\<lambda>row. \<not> terminalManualAuditArtifactBlock d row)
      (join_artifacts d (filter (\<lambda>r. projectId r = pid \<and> hierarchyRole r \<noteq> Container \<and> active_status cni (status r)) rs))) =
    sum_list (map (weight cni pid d) (filter (\<lambda>r. hierarchyRole r \<noteq> Container) rs))" for rs
  proof (induction rs)
    case (Cons r rs)
    then show ?case
      by (auto simp: weight_def join_artifacts_Cons [of d r "filter P rs" for P])
  qed (simp add: join_artifacts_def)
  then show ?thesis
    by (simp add: countActivePipelineTasksForProject_def executable_rows_def active_status_def Let_def)
qed

definition one_artifact :: "db \<Rightarrow> bool" where
  "one_artifact d \<longleftrightarrow> distinct (map artifactTaskId (artifacts d))"

lemma filter_distinct_key: "distinct (map f xs) \<Longrightarrow> length (filter (\<lambda>x. f x = k) xs) \<le> 1"
proof (induction xs)
  case (Cons x xs)
  have "filter (\<lambda>x. f x = k) xs = []" if "f x = k"
    using Cons.prems that by (simp add: filter_empty_conv) (metis image_eqI)
  then show ?case using Cons by auto
qed simp

lemma join_one: "one_artifact d \<Longrightarrow> length (join_artifacts d [r]) = 1"
  using filter_distinct_key [of artifactTaskId "artifacts d" "taskId r"]
  by (auto simp: one_artifact_def join_artifacts_def le_Suc_eq length_Suc_conv split: list.split)

lemma weight_le_1: "one_artifact d \<Longrightarrow> weight cni pid d r \<le> 1"
  using join_one [of d r] length_filter_le [of _ "join_artifacts d [r]"] by (auto simp: weight_def)

lemma weight_tables:
  assumes "artifacts d' = artifacts d" "attempts d' = attempts d"
  shows "weight cni pid d' r = weight cni pid d r"
proof -
  have "last_attempt i d' = last_attempt i d" for i
    using assms(2) by (simp add: last_attempt_def listRoadmapBatchArtifactAttempts_def)
  then have "terminalManualAuditArtifactBlock d' = terminalManualAuditArtifactBlock d"
    by (simp only: terminalManualAuditArtifactBlock_def fun_eq_iff) simp
  then show ?thesis using assms(1) by (simp add: weight_def join_artifacts_def)
qed

lemma sum_list_update_one:
  assumes "distinct (map k rs)" and "r \<in> set rs" and "g r = 0"
  shows "sum_list (map (\<lambda>x. g (if k x = k r then f x else x)) rs) = sum_list (map g rs) + (g (f r) :: nat)"
  using assms
proof (induction rs)
  case (Cons x rs)
  show ?case
  proof (cases "x = r")
    case True
    then have "sum_list (map (\<lambda>y. g (if k y = k r then f y else y)) rs) = sum_list (map g rs)"
      using Cons.prems(1) by (intro arg_cong [of _ _ sum_list] map_cong) (auto simp: image_iff)
    then show ?thesis using True Cons.prems(3) by (simp only: list.map sum_list.Cons refl if_True)
  next
    case False
    then have "r \<in> set rs" using Cons.prems(2) by simp
    moreover from this have "k x \<noteq> k r" using Cons.prems(1) by (force simp: image_iff)
    ultimately show ?thesis using Cons by simp
  qed
qed simp

section \<open>Writes of a pass\<close>

definition same_tables :: "db \<Rightarrow> db \<Rightarrow> bool" where
  "same_tables d d' \<longleftrightarrow> projects d' = projects d \<and> artifacts d' = artifacts d \<and> attempts d' = attempts d \<and>
     batches d' = batches d"

lemma same_tables_trans: "same_tables d d1 \<Longrightarrow> same_tables d1 d2 \<Longrightarrow> same_tables d d2"
  by (simp add: same_tables_def)

lemma same_tables_ready:
  assumes "same_tables d d'"
  shows "auditRoadmapTaskDependenciesReleaseReady d' = auditRoadmapTaskDependenciesReleaseReady d"
proof -
  have "roadmapReportArtifactReleaseReady d' = roadmapReportArtifactReleaseReady d"
    using assms by (simp add: same_tables_def roadmapReportArtifactReleaseReady_def fun_eq_iff
        latestCurrentRoadmapArtifactAttempt_def last_attempt_def listRoadmapBatchArtifactAttempts_def)
  moreover have "orderedReportArtifacts d' = orderedReportArtifacts d"
    using assms by (simp add: same_tables_def fun_eq_iff orderedReportArtifacts_def listRoadmapBatchArtifacts_def)
  moreover have "findRoadmapBatchArtifactByTaskId i d' = findRoadmapBatchArtifactByTaskId i d"
    "findRoadmapBatchById b d' = findRoadmapBatchById b d" for i b
    using assms by (simp_all add: same_tables_def findRoadmapBatchArtifactByTaskId_def findRoadmapBatchById_def)
  ultimately show ?thesis by (intro ext) (simp only: auditRoadmapTaskDependenciesReleaseReady_def)
qed

text \<open>A pass writes one executable row at a time; the row of a task is found by its id.\<close>

definition wrote :: "string \<Rightarrow> (task_row \<Rightarrow> task_row) \<Rightarrow> db \<Rightarrow> db \<Rightarrow> bool" where
  "wrote i f d d' \<longleftrightarrow> ids_distinct d' \<and> same_tables d d' \<and>
     executable_rows d' = map (\<lambda>r. if taskId r = i then f r else r) (executable_rows d)"

lemma setTaskFields_tables: "same_tables d (setTaskFields i f now d)"
  by (simp add: same_tables_def setTaskFields_def)

lemma wrote_setTaskFields:
  assumes "ids_distinct d" "\<And>r. taskId (f r) = taskId r" "\<And>r. hierarchyRole (f r) = hierarchyRole r"
  shows "wrote i (\<lambda>r. normalizeOperatorInputHoldPatch (f r)) d (setTaskFields i f now d)"
  using executable_setTaskFields [OF assms] setTaskFields_tables by (simp add: wrote_def)

lemma wrote_activity:
  assumes "ids_distinct d"
  shows "wrote i (\<lambda>r. normalizeOperatorInputHoldPatch (r\<lparr>lastHeartbeatAt := Some now, updatedAt := now\<rparr>)) d
    (appendTaskActivityLog i x now d)"
proof -
  let ?e = "if findTaskById i d = None then d else d\<lparr>activity := activity d @ [(i, [], redactProviderText x)]\<rparr>"
  have e: "ids_distinct ?e" "executable_rows ?e = executable_rows d" "same_tables d ?e"
    using assms by (simp_all add: ids_distinct_def executable_rows_def same_tables_def)
  show ?thesis
    using wrote_setTaskFields [OF e(1), of "\<lambda>r. r\<lparr>lastHeartbeatAt := Some now, updatedAt := now\<rparr>" i now] e(2,3)
    by (simp add: appendTaskActivityLog_def wrote_def same_tables_def)
qed

lemma wrote_trans:
  assumes "wrote i f d d1" "wrote i g d1 d2" and "\<And>r. taskId (f r) = taskId r"
  shows "wrote i (\<lambda>r. g (f r)) d d2"
  using assms by (auto simp: wrote_def dest: same_tables_trans)

lemma unique_row: "ids_distinct d \<Longrightarrow> r \<in> set (tasks d) \<Longrightarrow> r' \<in> set (tasks d) \<Longrightarrow> taskId r = taskId r' \<Longrightarrow> r = r'"
  by (metis findTaskById_iff option.inject)

lemma wrote_advance:
  assumes "ids_distinct d" and "t \<in> set (tasks d)" and "advanceable (taskId t) t"
    and "snd (claimBacklogTaskForAdvance (taskId t) target now d)"
  shows "wrote (taskId t) (advance_row target now) d (fst (claimBacklogTaskForAdvance (taskId t) target now d))"
proof -
  let ?e = "fst (update_tasks (advanceable (taskId t)) (advance_row target now) d)"
  have e: "ids_distinct ?e" using assms(1) by (simp add: ids_distinct_update advance_row_def)
  have "advanceable (taskId t) r = (taskId r = taskId t)" if "r \<in> set (executable_rows d)" for r
    using unique_row [OF assms(1,2), of r] that assms(3) by (force simp: advanceable_def executable_rows_def)
  then have "map (\<lambda>r. if advanceable (taskId t) r then advance_row target now r else r) (executable_rows d) =
      map (\<lambda>r. if taskId r = taskId t then advance_row target now r else r) (executable_rows d)"
    by (intro map_cong refl) simp
  then have "executable_rows ?e = map (\<lambda>r. if taskId r = taskId t then advance_row target now r else r) (executable_rows d)"
    by (simp add: executable_update advance_row_def)
  then show ?thesis using e advance_result [OF assms(4)]
    by (simp add: wrote_def executable_rows_refreshAncestorRollups same_tables_def)
qed

definition advanced_row :: "task_status \<Rightarrow> int \<Rightarrow> task_row \<Rightarrow> task_row" where
  "advanced_row target now r =
     normalizeOperatorInputHoldPatch ((advance_row target now r)\<lparr>lastHeartbeatAt := Some now, updatedAt := now\<rparr>)"

lemma wrote_advance_log:
  assumes "ids_distinct d" and "t \<in> set (tasks d)" and "advanceable (taskId t) t"
    and "snd (claimBacklogTaskForAdvance (taskId t) target now d)"
  shows "wrote (taskId t) (advanced_row target now) d
    (appendTaskActivityLog (taskId t) x now (fst (claimBacklogTaskForAdvance (taskId t) target now d)))"
proof -
  note w = wrote_advance [OF assms]
  have "ids_distinct (fst (claimBacklogTaskForAdvance (taskId t) target now d))" using w by (simp add: wrote_def)
  from wrote_trans [OF w wrote_activity [OF this, of "taskId t" now x]] show ?thesis
    by (simp add: advanced_row_def [abs_def] advance_row_def)
qed

lemma wrote_count:
  assumes w: "wrote (taskId t) f d d'" and d: "ids_distinct d" "one_artifact d"
    and t: "t \<in> set (tasks d)" "advanceable (taskId t) t" and f: "projectId (f t) = projectId t"
  shows "countActivePipelineTasksForProject cni pid d' =
      countActivePipelineTasksForProject cni pid d + weight cni pid d (f t)"
    and "projectId t \<noteq> pid \<Longrightarrow>
      countActivePipelineTasksForProject cni pid d' = countActivePipelineTasksForProject cni pid d"
proof -
  have ex: "t \<in> set (executable_rows d)" "distinct (map taskId (executable_rows d))"
    using t d(1) by (auto simp: advanceable_def executable_rows_def ids_distinct_def distinct_map_filter)
  have "weight cni pid d t = 0" using t(2) by (simp add: weight_def advanceable_def active_status_def)
  from sum_list_update_one [OF ex(2,1), of "weight cni pid d", OF this, of f]
  have "sum_list (map (weight cni pid d) (executable_rows d')) =
      sum_list (map (weight cni pid d) (executable_rows d)) + weight cni pid d (f t)"
    using w by (simp add: wrote_def comp_def)
  moreover have "weight cni pid d' = weight cni pid d"
    using w weight_tables [of d' d cni pid] by (simp add: wrote_def same_tables_def fun_eq_iff)
  ultimately show *: "countActivePipelineTasksForProject cni pid d' =
      countActivePipelineTasksForProject cni pid d + weight cni pid d (f t)"
    by (simp add: count_is_sum)
  show "countActivePipelineTasksForProject cni pid d' = countActivePipelineTasksForProject cni pid d"
    if "projectId t \<noteq> pid"
    using * that f by (simp add: weight_def)
qed

lemma advanced_weight:
  assumes "one_artifact d" and "projectId t = pid" and "target = Planning \<or> target = Requirements_Analysis"
  shows "weight cni pid d (advanced_row target now t) = 1"
proof -
  let ?r = "advanced_row target now t"
  have r: "projectId ?r = pid" "status ?r = target"
    using assms(2,3) by (auto simp: advanced_row_def advance_row_def normalizeOperatorInputHoldPatch_def)
  then have "\<forall>row \<in> set (join_artifacts d [?r]). \<not> terminalManualAuditArtifactBlock d row"
    using assms(3) by (auto simp: join_artifacts_def terminalManualAuditArtifactBlock_def Let_def split: list.splits)
  then have "filter (\<lambda>row. \<not> terminalManualAuditArtifactBlock d row) (join_artifacts d [?r]) = join_artifacts d [?r]"
    by (simp add: filter_id_conv)
  then show ?thesis using r assms(3) join_one [OF assms(1)] by (auto simp: weight_def active_status_def)
qed

section \<open>The rows of other projects\<close>

text \<open>
  A write to a task changes no row of another project: the roll-up climbs to parents, and in a well-formed
  hierarchy a parent is of the same project.
\<close>

definition kept_rows :: "string \<Rightarrow> db \<Rightarrow> db \<Rightarrow> bool" where
  "kept_rows pid d d' \<longleftrightarrow> map place (tasks d') = map place (tasks d) \<and>
     filter (\<lambda>r. projectId r = pid) (tasks d') = filter (\<lambda>r. projectId r = pid) (tasks d)"

lemma kept_rows_refl [simp]: "kept_rows pid d d"
  by (simp add: kept_rows_def)

lemma kept_rows_trans: "kept_rows pid d d1 \<Longrightarrow> kept_rows pid d1 d2 \<Longrightarrow> kept_rows pid d d2"
  by (simp add: kept_rows_def)

lemma kept_rows_wf: "kept_rows pid d d' \<Longrightarrow> hier_wf d' = hier_wf d"
  by (rule hier_wf_cong) (simp add: kept_rows_def)

text \<open>The rows with an identifier are not of the project \<open>pid\<close>.\<close>

definition foreign :: "string \<Rightarrow> string \<Rightarrow> db \<Rightarrow> bool" where
  "foreign pid i d \<longleftrightarrow> (i, pid) \<notin> (\<lambda>r. (taskId r, projectId r)) ` set (tasks d)"

lemma foreignD: "foreign pid i d \<Longrightarrow> r \<in> set (tasks d) \<Longrightarrow> taskId r = i \<Longrightarrow> projectId r \<noteq> pid"
  by (force simp: foreign_def)

lemma foreign_kept:
  assumes "kept_rows pid' d d'"
  shows "foreign pid i d' = foreign pid i d"
proof -
  have ids: "(\<lambda>r. (taskId r, projectId r)) ` set (tasks e) = (\<lambda>(i, q, _). (i, q)) ` set (map place (tasks e))" for e
    by (simp add: image_image place_def)
  have places: "map place (tasks d') = map place (tasks d)" using assms by (simp add: kept_rows_def)
  show ?thesis unfolding foreign_def ids [of d] ids [of d'] places ..
qed

lemma foreign_row: "hier_wf d \<Longrightarrow> t \<in> set (tasks d) \<Longrightarrow> projectId t \<noteq> pid \<Longrightarrow> foreign pid (taskId t) d"
  using unique_row [OF hier_wf_ids] by (fastforce simp: foreign_def)

lemma kept_rows_update:
  assumes "\<And>r. place (f r) = place r" and "\<And>r. r \<in> set (tasks d) \<Longrightarrow> P r \<Longrightarrow> projectId r \<noteq> pid"
  shows "kept_rows pid d (fst (update_tasks P f d))"
proof -
  have p: "projectId (f r) = projectId r" for r using assms(1) [of r] by (simp add: place_def)
  have "filter (\<lambda>r. projectId r = pid) (map (\<lambda>r. if P r then f r else r) rs) = filter (\<lambda>r. projectId r = pid) rs"
    if "\<And>r. r \<in> set rs \<Longrightarrow> P r \<Longrightarrow> projectId r \<noteq> pid" for rs
    using that by (induction rs) (auto simp: p)
  then show ?thesis using assms by (auto simp: kept_rows_def update_tasks_def)
qed

lemma kept_rows_parent:
  assumes "foreign pid p d"
  shows "kept_rows pid d (refreshParentRollup p now d)"
proof -
  have "kept_rows pid d (fst (update_tasks (\<lambda>r. taskId r = taskId q) (rollup_patch now d q) d))"
    if "findTaskById p d = Some q" for q
    using foreignD [OF assms] findTaskById_Some [OF that] by (intro kept_rows_update) (auto simp: place_def)
  then show ?thesis by (simp add: refreshParentRollup_def split: option.split)
qed

lemma foreign_parent:
  assumes "hier_wf d" "c \<in> set (tasks d)" "projectId c \<noteq> pid" "parentTaskId c = Some p"
  shows "foreign pid p d"
proof -
  obtain q where "q \<in> set (tasks d)" "taskId q = p" "projectId q = projectId c"
    using assms by (fastforce simp: hier_wf_iff)
  then show ?thesis using foreign_row [OF assms(1), of q pid] assms(3) by simp
qed

lemma kept_rows_climb:
  assumes "hier_wf d" and "\<And>c. cursor = Some c \<Longrightarrow> c \<in> set (tasks d) \<and> projectId c \<noteq> pid"
  shows "kept_rows pid d (climb_rollups now visited cursor d)"
  using assms
proof (induction now visited cursor d rule: climb_rollups.induct)
  case (1 now visited cursor d)
  show ?case
  proof (cases "\<exists>c. cursor = Some c \<and> truthy (parentTaskId c) \<and> the (parentTaskId c) \<notin> set visited")
    case False
    then show ?thesis by (subst climb_rollups.simps) (auto split: option.split)
  next
    case True
    then obtain c p where c: "cursor = Some c" "truthy (parentTaskId c) \<and> the (parentTaskId c) \<notin> set visited"
      "parentTaskId c = Some p" by (auto simp: truthy_def split: option.splits)
    let ?d = "refreshParentRollup p now d"
    have f: "foreign pid p d" using foreign_parent [OF 1(2)] 1(3) [OF c(1)] c(3) by blast
    note k = kept_rows_parent [OF f, of now]
    have "hier_wf ?d" using 1(2) kept_rows_wf [OF k] by simp
    moreover have "x \<in> set (tasks ?d) \<and> projectId x \<noteq> pid" if "findTaskById p ?d = Some x" for x
      using findTaskById_Some [OF that] f foreign_kept [OF k, of pid p] by (auto simp: foreign_def)
    ultimately have "kept_rows pid ?d (climb_rollups now (p # visited) (findTaskById p ?d) ?d)"
      using 1(1) [OF c(1,2) _ _] c(3) by simp
    then show ?thesis using kept_rows_trans [OF k] c by (subst climb_rollups.simps) (simp add: Let_def)
  qed
qed

lemma kept_rows_ancestors: "hier_wf d \<Longrightarrow> foreign pid i d \<Longrightarrow> kept_rows pid d (refreshAncestorRollups (Some i) now d)"
  unfolding refreshAncestorRollups_def
  by (intro kept_rows_climb) (auto simp: foreign_def dest!: findTaskById_Some split: if_splits)

lemma kept_rows_then_ancestors:
  assumes "hier_wf d" "foreign pid i d" "kept_rows pid d d1"
  shows "kept_rows pid d (refreshAncestorRollups (Some i) now d1)"
proof -
  have "hier_wf d1" "foreign pid i d1" using assms kept_rows_wf foreign_kept by blast+
  then show ?thesis using kept_rows_trans [OF assms(3) kept_rows_ancestors] by blast
qed

lemma kept_rows_setTaskFields:
  assumes "hier_wf d" "foreign pid i d" "\<And>r. place (f r) = place r"
  shows "kept_rows pid d (setTaskFields i f now d)"
  unfolding setTaskFields_def using assms
  by (intro kept_rows_then_ancestors kept_rows_update)
    (auto simp: foreign_def normalizeOperatorInputHoldPatch_def place_def)

lemma kept_rows_activity:
  assumes "hier_wf d" "foreign pid i d"
  shows "kept_rows pid d (appendTaskActivityLog i x now d)"
proof -
  let ?e = "if findTaskById i d = None then d else d\<lparr>activity := activity d @ [(i, [], redactProviderText x)]\<rparr>"
  have e: "kept_rows pid d ?e" by (simp add: kept_rows_def)
  have "kept_rows pid ?e (setTaskFields i (\<lambda>r. r\<lparr>lastHeartbeatAt := Some now, updatedAt := now\<rparr>) now ?e)"
    using assms kept_rows_wf [OF e] foreign_kept [OF e, of pid i]
    by (intro kept_rows_setTaskFields) (simp_all add: place_def)
  then show ?thesis using kept_rows_trans [OF e] by (simp add: appendTaskActivityLog_def)
qed

lemma kept_rows_advance:
  assumes "hier_wf d" "foreign pid i d"
  shows "kept_rows pid d (fst (claimBacklogTaskForAdvance i target now d))"
proof -
  have u: "kept_rows pid d (fst (update_tasks (advanceable i) (advance_row target now) d))"
    using assms(2) by (intro kept_rows_update) (auto simp: foreign_def advanceable_def advance_row_def place_def)
  show ?thesis using u kept_rows_then_ancestors [OF assms u]
    by (auto simp: claimBacklogTaskForAdvance_def split_beta Let_def split: option.split)
qed

lemma kept_rows_block:
  assumes "hier_wf d" "foreign pid (taskId t) d"
  shows "kept_rows pid d (fst (blockBacklogTaskForSequentialBranchDependency t reason now d))"
proof -
  let ?d1 = "setTaskFields (taskId t) (\<lambda>r. r\<lparr>status := Blocked_External, blockedReason := Some reason,
           blockedFromStatus := Some (status t), retryAfter := None, retryCount := retryCount t,
           reworkRequested := False, reviewIterationCount := reviewIterationCount t, manualReviewRequired := True,
           paused := True, lastHeartbeatAt := Some now, updatedAt := now\<rparr>) now d"
  have k: "kept_rows pid d ?d1" by (rule kept_rows_setTaskFields [OF assms]) (simp add: place_def)
  have "hier_wf ?d1" "foreign pid (taskId t) ?d1" using assms kept_rows_wf [OF k] foreign_kept [OF k] by simp_all
  from kept_rows_trans [OF k kept_rows_activity [OF this]] show ?thesis
    by (simp add: blockBacklogTaskForSequentialBranchDependency_def)
qed

lemma kept_rows_bound:
  "kept_rows pid d d' \<Longrightarrow> hasActiveBranchBoundTasksForProject pid d' = hasActiveBranchBoundTasksForProject pid d"
proof -
  have "hasActiveBranchBoundTasksForProject pid e = (0 < length (filter (\<lambda>r. branchName r \<noteq> None \<and> worktreePath r = None \<and>
      status r \<in> {Backlog, Requirements_Analysis, Needs_Input, Research, Design, Planning,
          Plan_Ready, Implementing, Review, Qa, Blocked_External}) (filter (\<lambda>r. projectId r = pid) (tasks e))))" for e
    unfolding hasActiveBranchBoundTasksForProject_def filter_filter by (simp only: conj_assoc)
  then show "kept_rows pid d d' \<Longrightarrow> ?thesis" by (simp only: kept_rows_def)
qed

section \<open>The pool\<close>

lemma next_task:
  assumes "nextBacklogTaskByPosition pid now d = Some t"
  shows "t \<in> set (tasks d)" and "projectId t = pid" and "advanceable (taskId t) t"
    and "snd (claimBacklogTaskForAdvance (taskId t) target now d)"
proof -
  have r: "t \<in> set (tasks d) \<and> projectId t = pid \<and> status t = Backlog \<and> hierarchyRole t \<noteq> Container \<and> \<not> paused t"
    "auditRoadmapTaskDependenciesReleaseReady d (taskId t)"
    using sorted_find_least [OF assms [unfolded nextBacklogTaskByPosition_def]] by simp_all
  then show "t \<in> set (tasks d)" "projectId t = pid" "advanceable (taskId t) t"
    by (auto simp: advanceable_def)
  then show "snd (claimBacklogTaskForAdvance (taskId t) target now d)"
    using r by (auto simp: advance_success)
qed

definition blocked_row :: "task_row \<Rightarrow> string \<Rightarrow> int \<Rightarrow> task_row \<Rightarrow> task_row" where
  "blocked_row t reason now r = normalizeOperatorInputHoldPatch ((normalizeOperatorInputHoldPatch
     (r\<lparr>status := Blocked_External, blockedReason := Some reason,
           blockedFromStatus := Some (status t), retryAfter := None, retryCount := retryCount t,
           reworkRequested := False, reviewIterationCount := reviewIterationCount t, manualReviewRequired := True,
           paused := True, lastHeartbeatAt := Some now, updatedAt := now\<rparr>))\<lparr>lastHeartbeatAt := Some now, updatedAt := now\<rparr>)"

lemma wrote_block:
  assumes "ids_distinct d"
  shows "wrote (taskId t) (blocked_row t reason now) d (fst (blockBacklogTaskForSequentialBranchDependency t reason now d))"
proof -
  let ?f = "\<lambda>r. r\<lparr>status := Blocked_External, blockedReason := Some reason,
           blockedFromStatus := Some (status t), retryAfter := None, retryCount := retryCount t,
           reworkRequested := False, reviewIterationCount := reviewIterationCount t, manualReviewRequired := True,
           paused := True, lastHeartbeatAt := Some now, updatedAt := now\<rparr>"
  have w: "wrote (taskId t) (\<lambda>r. normalizeOperatorInputHoldPatch (?f r)) d (setTaskFields (taskId t) ?f now d)"
    by (rule wrote_setTaskFields [OF assms]) simp_all
  then have "ids_distinct (setTaskFields (taskId t) ?f now d)" by (simp add: wrote_def)
  from wrote_trans [OF w wrote_activity [OF this]] show ?thesis
    by (simp add: blockBacklogTaskForSequentialBranchDependency_def blocked_row_def [abs_def] normalize_frame)
qed

text \<open>Why the loop of one project stops.\<close>

definition pool_done :: "queue_env \<Rightarrow> project_row \<Rightarrow> nat \<Rightarrow> int \<Rightarrow> db \<Rightarrow> queue_event list \<Rightarrow> bool" where
  "pool_done e p limit now d es \<longleftrightarrow> limit \<le> active_count e p d \<or> nextBacklogTaskByPosition (prId p) now d = None \<or>
     (\<exists>t. Moved (move_of t Blocked_External) \<in> set es)"

definition pool_kept :: "queue_env \<Rightarrow> project_row \<Rightarrow> db \<Rightarrow> db \<Rightarrow> bool" where
  "pool_kept e p d d' \<longleftrightarrow> ids_distinct d' \<and> same_tables d d' \<and>
     (\<forall>pid cni. pid \<noteq> prId p \<longrightarrow>
        countActivePipelineTasksForProject cni pid d' = countActivePipelineTasksForProject cni pid d) \<and>
     (hier_wf d \<longrightarrow> hier_wf d' \<and> (\<forall>pid. pid \<noteq> prId p \<longrightarrow> kept_rows pid d d'))"

lemma pool_kept_trans: "pool_kept e p d d1 \<Longrightarrow> pool_kept e p d1 d2 \<Longrightarrow> pool_kept e p d d2"
  by (auto simp: pool_kept_def intro: same_tables_trans kept_rows_trans)

lemma pool_keptI:
  assumes "wrote i f d d'"
    and "\<And>pid cni. pid \<noteq> prId p \<Longrightarrow>
      countActivePipelineTasksForProject cni pid d' = countActivePipelineTasksForProject cni pid d"
    and "\<And>pid. hier_wf d \<Longrightarrow> pid \<noteq> prId p \<Longrightarrow> kept_rows pid d d'"
  shows "pool_kept e p d d'"
proof -
  have "hier_wf d'" if "hier_wf d"
    using kept_rows_wf [OF assms(3) [OF that]] that by (metis neq_Nil_conv not_Cons_self2)
  then show ?thesis using assms by (auto simp: pool_kept_def wrote_def)
qed

lemma fill_pool_result:
  assumes "ids_distinct d" and "one_artifact d" and "active = active_count e p d"
  shows "\<exists>d' es' n'. fill_pool e p limit now active d es n = Some (d', es', n') \<and> pool_kept e p d d' \<and>
    active_count e p d' \<le> max limit active \<and> pool_done e p limit now d' es'"
  using assms
proof (induction "limit - active" arbitrary: active d es n rule: less_induct)
  case less
  note step = fill_pool.simps [of e p limit now active d es n]
  have refl: "pool_kept e p d d" using less.prems(1) by (simp add: pool_kept_def same_tables_def)
  show ?case
  proof (cases "limit \<le> active")
    case True
    then show ?thesis using step refl less.prems(3) by (simp add: pool_done_def)
  next
    case False
    show ?thesis
    proof (cases "nextBacklogTaskByPosition (prId p) now d")
      case None
      then show ?thesis using step refl less.prems(3) False by (simp add: pool_done_def)
    next
      case (Some t)
      note t = next_task [OF Some]
      show ?thesis
      proof (cases "queue_blocker e p t d")
        case (Some reason)
        let ?d' = "fst (blockBacklogTaskForSequentialBranchDependency t reason now d)"
        have w: "wrote (taskId t) (blocked_row t reason now) d ?d'" by (rule wrote_block [OF less.prems(1)])
        have f: "projectId (blocked_row t reason now t) = projectId t"
          by (simp add: blocked_row_def normalizeOperatorInputHoldPatch_def)
        note c = wrote_count [OF w less.prems(1,2) t(1,3) f]
        have "active_count e p ?d' \<le> limit"
          using c(1) [of "qe_countNeedsInput e" "prId p"] weight_le_1 [OF less.prems(2), of "qe_countNeedsInput e" "prId p"]
            less.prems(3) False by (metis Suc_eq_plus1 add_le_cancel_left le_trans not_less_eq_eq)
        moreover have "pool_kept e p d ?d'"
          by (rule pool_keptI [OF w]) (use c(2) t(2) foreign_row [OF _ t(1)] kept_rows_block in auto)
        ultimately show ?thesis
          using step False \<open>nextBacklogTaskByPosition (prId p) now d = Some t\<close> Some
          by (auto simp: Let_def pool_done_def blockBacklogTaskForSequentialBranchDependency_def)
      next
        case None
        let ?r = "claimBacklogTaskForAdvance (taskId t) (backlogAdvanceTargetStatus e) now d"
        let ?d1 = "appendTaskActivityLog (taskId t) (advance_line active limit now) now (fst ?r)"
        let ?es = "es @ [Moved (move_of t (backlogAdvanceTargetStatus e)), Queue_Advanced (prId p) (taskId t)]"
        have target: "backlogAdvanceTargetStatus e = Planning \<or> backlogAdvanceTargetStatus e = Requirements_Analysis"
          by (simp add: backlogAdvanceTargetStatus_def)
        have w: "wrote (taskId t) (advanced_row (backlogAdvanceTargetStatus e) now) d ?d1"
          by (rule wrote_advance_log [OF less.prems(1) t(1,3,4)])
        have f: "projectId (advanced_row (backlogAdvanceTargetStatus e) now t) = projectId t"
          by (simp add: advanced_row_def advance_row_def normalizeOperatorInputHoldPatch_def)
        note c = wrote_count [OF w less.prems(1,2) t(1,3) f]
        have one: "active + 1 = active_count e p ?d1"
          using c(1) advanced_weight [OF less.prems(2) t(2) target] less.prems(3) by simp
        have "kept_rows pid d ?d1" if "hier_wf d" "pid \<noteq> prId p" for pid
        proof -
          have f: "foreign pid (taskId t) d" using foreign_row [OF that(1) t(1), of pid] that(2) t(2) by simp
          note k = kept_rows_advance [OF that(1) f, of "backlogAdvanceTargetStatus e" now]
          show ?thesis
            by (rule kept_rows_trans [OF k kept_rows_activity]) (use that(1) f kept_rows_wf [OF k] foreign_kept [OF k] in simp_all)
        qed
        then have d1: "pool_kept e p d ?d1" using c(2) t(2) by (intro pool_keptI [OF w]) simp_all
        then have d1: "ids_distinct ?d1" "one_artifact ?d1" "pool_kept e p d ?d1"
          using less.prems(2) by (auto simp: pool_kept_def same_tables_def one_artifact_def)
        have eq: "fill_pool e p limit now active d es n = fill_pool e p limit now (active + 1) ?d1 ?es (n + 1)"
          using step False \<open>nextBacklogTaskByPosition (prId p) now d = Some t\<close> None t(4) by (simp add: Let_def)
        have "limit - (active + 1) < limit - active" using False by simp
        from less.hyps [OF this d1(1,2) one, of ?es "n + 1"] show ?thesis
          using eq d1(3) False pool_kept_trans by fastforce
      qed
    qed
  qed
qed

lemma advance_project_result:
  assumes "ids_distinct d" and "one_artifact d"
  shows "\<exists>d' es' n'. advance_project e now p (d, es, n) = Some (d', es', n') \<and> pool_kept e p d d' \<and>
    active_count e p d' \<le> max (pool_limit e p d) (active_count e p d) \<and>
    ((gv_isRepo (qe_git e p) \<and> gv_dirty (qe_git e p)) \<or> pool_done e p (pool_limit e p d) now d' es')"
proof -
  have refl: "pool_kept e p d d" using assms(1) by (simp add: pool_kept_def same_tables_def)
  show ?thesis
    using fill_pool_result [OF assms HOL.refl, of e p "pool_limit e p d" now es n] refl
    by (auto simp: advance_project_def Let_def pool_done_def)
qed

text \<open>The limit of a project in the database at the start of the pass is its limit when its turn comes.\<close>

lemma pool_limit_kept:
  assumes "pool_kept e p d d'" "hier_wf d" "prId q \<noteq> prId p"
  shows "pool_limit e q d' = pool_limit e q d"
  using assms kept_rows_bound [of "prId q" d d'] by (auto simp: pool_kept_def pool_limit_def usesSharedBranchIsolation_def)

lemma advance_projects_result:
  assumes "hier_wf d" and "one_artifact d" and "distinct (map prId ps)"
  shows "\<exists>d' es' n'. advance_projects e now ps (d, es, n) = Some (d', es', n') \<and>
    (\<forall>p \<in> set ps. active_count e p d' \<le> max (active_count e p d) (pool_limit e p d)) \<and>
    (\<forall>pid cni. pid \<notin> prId ` set ps \<longrightarrow>
      countActivePipelineTasksForProject cni pid d' = countActivePipelineTasksForProject cni pid d)"
  using assms
proof (induction ps arbitrary: d es n)
  case (Cons p ps)
  obtain d1 es1 n1 where s: "advance_project e now p (d, es, n) = Some (d1, es1, n1)" "pool_kept e p d d1"
    "active_count e p d1 \<le> max (pool_limit e p d) (active_count e p d)"
    using advance_project_result [OF hier_wf_ids [OF Cons.prems(1)] Cons.prems(2)] by blast
  have d1: "hier_wf d1" "one_artifact d1"
    and other: "\<And>pid cni. pid \<noteq> prId p \<Longrightarrow>
      countActivePipelineTasksForProject cni pid d1 = countActivePipelineTasksForProject cni pid d"
    using s(2) Cons.prems(1,2) by (auto simp: pool_kept_def same_tables_def one_artifact_def)
  have ps: "distinct (map prId ps)" and p: "prId p \<notin> prId ` set ps" using Cons.prems(3) by simp_all
  obtain d' es' n' where r: "advance_projects e now ps (d1, es1, n1) = Some (d', es', n')"
    "\<And>q. q \<in> set ps \<Longrightarrow> active_count e q d' \<le> max (active_count e q d1) (pool_limit e q d1)"
    "\<And>pid cni. pid \<notin> prId ` set ps \<Longrightarrow>
      countActivePipelineTasksForProject cni pid d' = countActivePipelineTasksForProject cni pid d1"
    using Cons.IH [OF d1(1,2) ps, of es1 n1] by blast
  have "active_count e q d' \<le> max (active_count e q d) (pool_limit e q d)" if "q \<in> set (p # ps)" for q
  proof (cases "q = p")
    case True
    then show ?thesis using r(3) [OF p] s(3) by (simp add: max.commute)
  next
    case False
    then have q: "q \<in> set ps" "prId q \<noteq> prId p" using that p by (auto, metis image_eqI)
    then show ?thesis using r(2) [OF q(1)] other [OF q(2)] pool_limit_kept [OF s(2) Cons.prems(1) q(2)] by simp
  qed
  then show ?case using s(1) r other by auto
qed simp

text \<open>
  C17: The auto-queue keeps every pool within its depth. A pass always ends, and in a well-formed hierarchy it
  leaves no project with more tasks in flight than its limit, or than it had before. The limit is the
  number of concurrent tasks only for a parallel project of which no active task is bound to a branch in the shared
  root and whose repository does not share branches without worktrees; else it is one. The pipeline of a project
  without auto-queue does not grow.
\<close>

theorem auto_queue_keeps_pool_depth:
  assumes "hier_wf d" and "distinct (map artifactTaskId (artifacts d))" and "distinct (map prId (projects d))"
  shows "\<exists>d' es n. processAutoQueueAdvance e now d = Some (d', es, n) \<and>
    (\<forall>p \<in> set (projects d). active_count e p d' \<le> max (active_count e p d)
       (if \<not> autoQueueMode p then 0
        else if parallelEnabled p \<and> \<not> hasActiveBranchBoundTasksForProject (prId p) d \<and>
          \<not> (gv_sharedBranchIsolation (qe_git e p) \<and> (\<not> qe_worktreesEnabled e \<or> \<not> gv_supportsWorktrees (qe_git e p)))
        then qe_maxConcurrent e else 1))"
proof -
  have "distinct (map prId (listAutoQueueProjects d))"
    using assms(3) by (simp add: listAutoQueueProjects_def distinct_map_filter)
  from advance_projects_result [OF assms(1) _ this] assms(2) obtain d' es n where
    r: "processAutoQueueAdvance e now d = Some (d', es, n)"
    "\<forall>p \<in> set (listAutoQueueProjects d). active_count e p d' \<le> max (active_count e p d) (pool_limit e p d)"
    "\<forall>pid cni. pid \<notin> prId ` set (listAutoQueueProjects d) \<longrightarrow>
      countActivePipelineTasksForProject cni pid d' = countActivePipelineTasksForProject cni pid d"
    unfolding processAutoQueueAdvance_def one_artifact_def by blast
  have "p \<in> set (listAutoQueueProjects d) \<or> \<not> autoQueueMode p \<and> prId p \<notin> prId ` set (listAutoQueueProjects d)"
    if "p \<in> set (projects d)" for p
    using that assms(3) by (auto simp: listAutoQueueProjects_def distinct_map inj_on_def)
  then show ?thesis using r by (fastforce simp: listAutoQueueProjects_def pool_limit_def usesSharedBranchIsolation_def)
qed

definition demo_git :: git_view where
  "demo_git = \<lparr>gv_isRepo = True, gv_sharedBranchIsolation = True, gv_supportsWorktrees = False, gv_dirty = False,
     gv_baseBranch = ''main'', gv_branchExists = (\<lambda>b. b \<in> {''main'', ''f''}), gv_isAncestor = (\<lambda>a b. False)\<rparr>"

definition demo_queue :: "git_view \<Rightarrow> queue_env" where
  "demo_queue g = \<lparr>qe_text = \<lparr>sha1_hex = (\<lambda>s. s), localeCompare = (\<lambda>a b. 0)\<rparr>, qe_git = (\<lambda>_. g),
     qe_worktreesEnabled = False, qe_maxConcurrent = 3, qe_countNeedsInput = False, qe_intakeEnabled = False\<rparr>"

definition queued_project :: project_row where
  "queued_project = \<lparr>prId = ''p'', parallelEnabled = True, autoQueueMode = True, defaultTaskRuntimeProfileId = None,
     defaultPlanRuntimeProfileId = None, defaultReviewRuntimeProfileId = None,
     defaultChatRuntimeProfileId = None, prUpdatedAt = 0\<rparr>"

definition queued_db :: db where
  "queued_db = empty_db\<lparr>projects := [queued_project], tasks := [blank_task ''a'', (blank_task ''b'')\<lparr>position := 1\<rparr>]\<rparr>"

lemma queued_distinct: "ids_distinct queued_db" "distinct (map artifactTaskId (artifacts queued_db))"
  "distinct (map prId (projects queued_db))" "queued_project \<in> set (projects queued_db)"
  by (simp_all add: queued_db_def ids_distinct_def blank_task_def empty_db_def)

theorem auto_queue_keeps_pool_depth_witness:
  "\<exists>d' es n. processAutoQueueAdvance (demo_queue demo_git) 0 queued_db = Some (d', es, n) \<and>
     active_count (demo_queue demo_git) queued_project d' \<le> 1"
proof -
  have "active_count (demo_queue demo_git) queued_project queued_db = 0" by code_simp
  moreover have "hier_wf queued_db" by code_simp
  moreover have "gv_sharedBranchIsolation (qe_git (demo_queue demo_git) queued_project)"
    "\<not> qe_worktreesEnabled (demo_queue demo_git)" "autoQueueMode queued_project"
    by (simp_all add: demo_queue_def demo_git_def queued_project_def)
  ultimately show ?thesis
    using auto_queue_keeps_pool_depth [OF _ queued_distinct(2,3), of "demo_queue demo_git" 0] queued_distinct(4) by fastforce
qed

text \<open>
  The auto-queue does not leave a pool short. After the pass over a project whose working tree is clean,
  the pool is full, or the project has no task that may start, or its next task was blocked because an
  earlier branch is not merged.
\<close>

theorem auto_queue_fills_pool:
  assumes "ids_distinct d" and "distinct (map artifactTaskId (artifacts d))" and "\<not> gv_dirty (qe_git e p)"
  shows "\<exists>d' es n. advance_project e now p (d, [], 0) = Some (d', es, n) \<and>
    (pool_limit e p d \<le> active_count e p d' \<or> nextBacklogTaskByPosition (prId p) now d' = None \<or>
     (\<exists>t. Moved (move_of t Blocked_External) \<in> set es))"
  using advance_project_result [OF assms(1), of e now p "[]" 0] assms(2,3)
  by (fastforce simp: one_artifact_def pool_done_def)

theorem auto_queue_fills_pool_witness:
  "\<exists>d' es n. advance_project (demo_queue demo_git) 0 queued_project (queued_db, [], 0) = Some (d', es, n) \<and>
    (1 \<le> active_count (demo_queue demo_git) queued_project d' \<or> nextBacklogTaskByPosition ''p'' 0 d' = None \<or>
     (\<exists>t. Moved (move_of t Blocked_External) \<in> set es))"
proof -
  have "\<not> gv_dirty (qe_git (demo_queue demo_git) queued_project)" "prId queued_project = ''p''"
    "pool_limit (demo_queue demo_git) queued_project queued_db = 1"
    by (simp_all add: demo_queue_def demo_git_def queued_project_def pool_limit_def usesSharedBranchIsolation_def)
  then show ?thesis
    using auto_queue_fills_pool [OF queued_distinct(1,2), of "demo_queue demo_git" queued_project 0] by simp
qed

section \<open>Earlier branches are merged\<close>

lemma first_problem_None: "first_problem g new ts = None \<longleftrightarrow> (\<forall>t \<in> set ts. branch_problem g new t = None)"
  by (induction ts) (auto split: option.split)

text \<open>
  The check of earlier branches is exact. In a repository with shared branches it lets a task without a
  worktree start exactly when the base branch exists and the branch of every finished task before it that
  has one of its own exists and is merged into the base.
\<close>

theorem branch_check_iff:
  assumes "gv_isRepo g" and "gv_sharedBranchIsolation g" and "\<not> truthy (worktreePath new)"
  shows "findSequentialBranchDependencyBlocker h g new ts = None \<longleftrightarrow>
    gv_branchExists g (gv_baseBranch g) \<and>
    (\<forall>t \<in> set ts. prior_branch_task new t \<and> trimmed_branch t \<notin> {[], gv_baseBranch g} \<longrightarrow>
      gv_branchExists g (trimmed_branch t) \<and> gv_isAncestor g (trimmed_branch t) (gv_baseBranch g))"
  using assms by (auto simp: findSequentialBranchDependencyBlocker_def first_problem_None branch_problem_def Let_def)

theorem branch_check_iff_witness:
  "\<forall>h. findSequentialBranchDependencyBlocker h demo_git ((blank_task ''b'')\<lparr>position := 5000\<rparr>)
     [(blank_task ''a'')\<lparr>status := Done, branchName := Some '' f ''\<rparr>] \<noteq> None"
proof
  fix h
  let ?a = "(blank_task ''a'')\<lparr>status := Done, branchName := Some '' f ''\<rparr>"
  let ?b = "(blank_task ''b'')\<lparr>position := 5000\<rparr>"
  have "prior_branch_task ?b ?a \<and> trimmed_branch ?a \<notin> {[], gv_baseBranch demo_git} \<and>
      \<not> gv_isAncestor demo_git (trimmed_branch ?a) (gv_baseBranch demo_git)"
    by code_simp
  then have "\<not> (\<forall>t \<in> set [?a]. prior_branch_task ?b t \<and> trimmed_branch t \<notin> {[], gv_baseBranch demo_git} \<longrightarrow>
      gv_branchExists demo_git (trimmed_branch t) \<and> gv_isAncestor demo_git (trimmed_branch t) (gv_baseBranch demo_git))"
    by (simp only: list.set ball_simps simp_thms)
  moreover have hyps: "gv_isRepo demo_git" "gv_sharedBranchIsolation demo_git" "\<not> truthy (worktreePath ?b)"
    by (simp_all add: demo_git_def blank_task_def)
  ultimately show "findSequentialBranchDependencyBlocker h demo_git ?b [?a] \<noteq> None"
    unfolding branch_check_iff [OF hyps] by (simp only: simp_thms)
qed

section \<open>Scheduled tasks\<close>

lemma ready_row_claimed:
  assumes "t \<in> set (executable_rows d)" and "status t = Backlog" and "\<not> paused t"
    and "auditRoadmapTaskDependenciesReleaseReady d (taskId t)"
  shows "t \<in> set (tasks d)" and "advanceable (taskId t) t"
    and "snd (claimBacklogTaskForAdvance (taskId t) target now d)"
  using assms by (auto simp: executable_rows_def advanceable_def advance_success)

lemma fire_all:
  assumes "ids_distinct d" and "distinct (map taskId ts)"
    and "\<And>t. t \<in> set ts \<Longrightarrow> t \<in> set (executable_rows d) \<and> status t = Backlog \<and> \<not> paused t \<and>
      auditRoadmapTaskDependenciesReleaseReady d (taskId t)"
  shows "\<exists>d' es'. fold (fire_task e now) ts (d, es, n) = (d', es', n + length ts) \<and> same_tables d d' \<and>
    executable_rows d' = map (\<lambda>r. if taskId r \<in> taskId ` set ts
      then advanced_row (backlogAdvanceTargetStatus e) now r else r) (executable_rows d)"
  using assms
proof (induction ts arbitrary: d es n)
  case (Cons t ts)
  let ?target = "backlogAdvanceTargetStatus e" and ?f = "advanced_row (backlogAdvanceTargetStatus e) now"
  have t: "t \<in> set (tasks d)" "advanceable (taskId t) t" "snd (claimBacklogTaskForAdvance (taskId t) ?target now d)"
    using Cons.prems(3) [of t] ready_row_claimed(1,2) [of t d] ready_row_claimed(3) [of t d ?target now] by auto
  obtain d1 es1 where s: "fire_task e now t (d, es, n) = (d1, es1, n + 1)" "wrote (taskId t) ?f d d1"
  proof -
    obtain c where c: "claimBacklogTaskForAdvance (taskId t) ?target now d = (c, True)"
      using t(3) by (metis prod.collapse)
    then have "\<exists>x es1. fire_task e now t (d, es, n) = (appendTaskActivityLog (taskId t) x now c, es1, n + 1)"
      unfolding fire_task_def Let_def by (simp only: prod.case bool.case refl ex_simps prod.inject) blast
    then show thesis using that wrote_advance_log [OF Cons.prems(1) t] c by (metis fst_conv)
  qed
  have d1: "ids_distinct d1" "same_tables d d1"
    "executable_rows d1 = map (\<lambda>r. if taskId r = taskId t then ?f r else r) (executable_rows d)"
    using s(2) by (auto simp: wrote_def)
  have ids: "taskId (?f r) = taskId r" for r
    by (simp add: advanced_row_def advance_row_def normalizeOperatorInputHoldPatch_def)
  have ts: "u \<in> set (executable_rows d1) \<and> status u = Backlog \<and> \<not> paused u \<and>
      auditRoadmapTaskDependenciesReleaseReady d1 (taskId u)" if "u \<in> set ts" for u
  proof -
    have "taskId u \<noteq> taskId t" using Cons.prems(2) that by (auto, metis image_eqI)
    then have u: "u = (if taskId u = taskId t then ?f u else u)" by simp
    have "u \<in> set (executable_rows d) \<and> status u = Backlog \<and> \<not> paused u \<and>
        auditRoadmapTaskDependenciesReleaseReady d1 (taskId u)"
      using Cons.prems(3) [of u] that same_tables_ready [OF d1(2)] by simp
    moreover from this have "u \<in> set (executable_rows d1)"
      unfolding d1(3) set_map by (intro image_eqI [where x = u]) (use u in simp_all)
    ultimately show ?thesis by simp
  qed
  have "distinct (map taskId ts)" using Cons.prems(2) by simp
  from Cons.IH [OF d1(1) this ts, of es1 "n + 1"] obtain d' es' where
    r: "fold (fire_task e now) ts (d1, es1, n + 1) = (d', es', n + 1 + length ts)" "same_tables d1 d'"
    "executable_rows d' = map (\<lambda>r. if taskId r \<in> taskId ` set ts then ?f r else r) (executable_rows d1)" by blast
  have "taskId t \<notin> taskId ` set ts" using Cons.prems(2) by simp
  then have "executable_rows d' = map (\<lambda>r. if taskId r \<in> taskId ` set (t # ts) then ?f r else r) (executable_rows d)"
    unfolding r(3) d1(3) map_map comp_def by (intro map_cong) (simp_all add: ids)
  then show ?case using s(1) r(1) same_tables_trans [OF d1(2) r(2)] by simp
qed (simp add: same_tables_def)

lemma due_list:
  "t \<in> set (listDueScheduledTasks now d) \<longleftrightarrow> t \<in> set (executable_rows d) \<and> status t = Backlog \<and> \<not> paused t \<and>
     (case scheduledAt t of Some s \<Rightarrow> s \<le> now | None \<Rightarrow> False) \<and> auditRoadmapTaskDependenciesReleaseReady d (taskId t)"
  by (auto simp: listDueScheduledTasks_def executable_rows_def split: option.splits)

lemma due_distinct: "ids_distinct d \<Longrightarrow> distinct (map taskId (listDueScheduledTasks now d))"
  by (auto simp: listDueScheduledTasks_def ids_distinct_def distinct_map inj_on_def)

text \<open>
  The scheduler fires every due task once. After a pass no task is due any more, the count is the number
  of tasks that were due, and exactly these have left the backlog for the first stage.
\<close>

theorem scheduler_fires_every_due_task:
  assumes "ids_distinct d" and "processDueScheduledTasks e now d = (d', es, n)"
  shows "listDueScheduledTasks now d' = [] \<and> n = length (listDueScheduledTasks now d) \<and>
    executable_rows d' = map (\<lambda>r. if taskId r \<in> taskId ` set (listDueScheduledTasks now d)
      then advanced_row (backlogAdvanceTargetStatus e) now r else r) (executable_rows d)"
proof -
  let ?due = "listDueScheduledTasks now d" and ?target = "backlogAdvanceTargetStatus e"
  have d': "same_tables d d'" "n = length ?due" and rows:
    "executable_rows d' = map (\<lambda>r. if taskId r \<in> taskId ` set ?due then advanced_row ?target now r else r) (executable_rows d)"
    using fire_all [where e = e and now = now and es = "[]" and n = 0 and ts = ?due, OF assms(1) due_distinct [OF assms(1)]]
      due_list assms(2) by (auto simp: processDueScheduledTasks_def)
  have "status (advanced_row ?target now r) \<noteq> Backlog" for r
    by (simp add: advanced_row_def advance_row_def normalizeOperatorInputHoldPatch_def backlogAdvanceTargetStatus_def)
  then have "t \<notin> set (listDueScheduledTasks now d')" for t
    using due_list [of t now d] due_list [of t now d'] same_tables_ready [OF d'(1)] rows by (auto split: if_splits)
  then show ?thesis using d'(2) rows by (metis list.set_intros(1) neq_Nil_conv)
qed

theorem scheduler_fires_every_due_task_witness:
  "\<exists>d' es n. processDueScheduledTasks (demo_queue demo_git) 5
       (queued_db\<lparr>tasks := [(blank_task ''a'')\<lparr>scheduledAt := Some 3\<rparr>, blank_task ''b'']\<rparr>) = (d', es, n) \<and>
     n = 1 \<and> listDueScheduledTasks 5 d' = []"
proof -
  let ?d = "queued_db\<lparr>tasks := [(blank_task ''a'')\<lparr>scheduledAt := Some 3\<rparr>, blank_task ''b'']\<rparr>"
  have ids: "ids_distinct ?d" by (simp add: ids_distinct_def blank_task_def)
  have one: "length (listDueScheduledTasks 5 ?d) = 1" by code_simp
  obtain d' es n where p: "processDueScheduledTasks (demo_queue demo_git) 5 ?d = (d', es, n)" by (metis prod_cases3)
  then show ?thesis using scheduler_fires_every_due_task [OF ids p] one by metis
qed

end
