(* ===== verification/Stage_Policy.thy ===== *)
theory Stage_Policy
  imports Audit_Release
begin

text \<open>
  Which runtime profile may run which stage, and within which limits:
  \<open>packages/shared/src/runtimeStagePolicy.ts\<close>. The options of a profile are a JSON value.
  \<open>Date.parse\<close> of a text is the parameter \<open>dp\<close>. An object of limits is a record with a field per key,
  \<^term>\<open>None\<close> where the key is absent; the order of its keys is not observable.
\<close>

section \<open>Stages and limits\<close>

datatype runtime_stage =
    Stage_Researcher | Stage_Designer | Stage_Planner | Stage_Plan_Checker | Stage_Implementer | Stage_Reviewer
  | Stage_Qa | Stage_Security | Stage_Chat | Stage_Audit | Stage_Synthesis

fun stage_key :: "runtime_stage \<Rightarrow> string" where
  "stage_key Stage_Researcher = ''researcher''"
| "stage_key Stage_Designer = ''designer''"
| "stage_key Stage_Planner = ''planner''"
| "stage_key Stage_Plan_Checker = ''plan_checker''"
| "stage_key Stage_Implementer = ''implementer''"
| "stage_key Stage_Reviewer = ''reviewer''"
| "stage_key Stage_Qa = ''qa''"
| "stage_key Stage_Security = ''security''"
| "stage_key Stage_Chat = ''chat''"
| "stage_key Stage_Audit = ''audit''"
| "stage_key Stage_Synthesis = ''synthesis''"

datatype sandbox_mode = Read_Only | Workspace_Write | Danger_Full_Access
datatype approval_policy = Untrusted | On_Request | On_Failure | Never

record stage_caps =
  maxToolTurns :: "rat option"
  wallClockMs :: "rat option"
  repeatedToolCallLimit :: "rat option"
  tokenBudget :: "rat option"
  contextTokens :: "rat option"
  maxOutputTokens :: "rat option"
  maxBudgetUsd :: "rat option"
  capRetryCount :: "rat option"
  inspectionToolBudget :: "rat option"
  sandboxMode :: "sandbox_mode option"
  approvalPolicy :: "approval_policy option"

definition no_caps :: stage_caps where
  "no_caps = \<lparr>maxToolTurns = None, wallClockMs = None, repeatedToolCallLimit = None, tokenBudget = None,
     contextTokens = None, maxOutputTokens = None, maxBudgetUsd = None, capRetryCount = None,
     inspectionToolBudget = None, sandboxMode = None, approvalPolicy = None\<rparr>"

definition QWEN_DEFAULT_ALLOWED_STAGES :: "runtime_stage list" where
  "QWEN_DEFAULT_ALLOWED_STAGES = [Stage_Researcher, Stage_Designer, Stage_Planner, Stage_Plan_Checker,
     Stage_Reviewer, Stage_Qa, Stage_Security, Stage_Chat, Stage_Audit, Stage_Synthesis]"

definition READ_ONLY_STAGES :: "runtime_stage list" where
  "READ_ONLY_STAGES = [Stage_Researcher, Stage_Designer, Stage_Planner, Stage_Plan_Checker, Stage_Reviewer,
     Stage_Qa, Stage_Security]"

definition READ_ONLY_STAGE_CAPS :: "runtime_stage \<Rightarrow> stage_caps" where
  "READ_ONLY_STAGE_CAPS s =
     (if s \<in> set READ_ONLY_STAGES
      then no_caps\<lparr>sandboxMode := Some Read_Only, approvalPolicy := Some On_Request\<rparr> else no_caps)"

text \<open>The rows of the table give, in this order: tool turns, minutes, repeated calls, output tokens, inspections.\<close>

definition qwen_row :: "rat \<Rightarrow> rat \<Rightarrow> rat option \<Rightarrow> rat \<Rightarrow> rat \<Rightarrow> stage_caps" where
  "qwen_row turns minutes repeated out inspections =
     no_caps\<lparr>maxToolTurns := Some turns, wallClockMs := Some (minutes * 60 * 1000),
       repeatedToolCallLimit := repeated, contextTokens := Some 24000, maxOutputTokens := Some out,
       capRetryCount := Some 0, inspectionToolBudget := Some inspections\<rparr>"

fun QWEN_DEFAULT_STAGE_CAPS :: "runtime_stage \<Rightarrow> stage_caps" where
  "QWEN_DEFAULT_STAGE_CAPS Stage_Researcher = qwen_row 8 10 None 2000 8"
| "QWEN_DEFAULT_STAGE_CAPS Stage_Designer = qwen_row 8 10 None 2000 8"
| "QWEN_DEFAULT_STAGE_CAPS Stage_Planner = qwen_row 20 10 (Some 2) 4000 16"
| "QWEN_DEFAULT_STAGE_CAPS Stage_Plan_Checker = qwen_row 8 8 (Some 2) 1500 6"
| "QWEN_DEFAULT_STAGE_CAPS Stage_Implementer = qwen_row 20 15 (Some 2) 4000 16"
| "QWEN_DEFAULT_STAGE_CAPS Stage_Reviewer = qwen_row 12 12 (Some 2) 2000 8"
| "QWEN_DEFAULT_STAGE_CAPS Stage_Qa = qwen_row 12 12 (Some 2) 2000 8"
| "QWEN_DEFAULT_STAGE_CAPS Stage_Security = qwen_row 12 12 None 2000 8"
| "QWEN_DEFAULT_STAGE_CAPS Stage_Chat = no_caps"
| "QWEN_DEFAULT_STAGE_CAPS Stage_Audit = qwen_row 20 18 (Some 2) 4000 16"
| "QWEN_DEFAULT_STAGE_CAPS Stage_Synthesis = qwen_row 20 18 (Some 2) 4000 16"

section \<open>Reading the options\<close>

fun asRecord :: "json option \<Rightarrow> (string \<times> json) list" where
  "asRecord (Some (JObj fs)) = fs"
| "asRecord _ = []"

fun readPositiveNumber :: "json option \<Rightarrow> rat option" where
  "readPositiveNumber (Some (JNum (Fin q))) = (if q < 0 then None else Some q)"
| "readPositiveNumber _ = None"

definition readPositiveInteger :: "json option \<Rightarrow> rat option" where
  "readPositiveInteger v = map_option (\<lambda>q. of_int \<lfloor>q\<rfloor>) (readPositiveNumber v)"

definition readSandboxMode :: "json option \<Rightarrow> sandbox_mode option" where
  "readSandboxMode v =
     (if v = Some (JStr ''read-only'') then Some Read_Only
      else if v = Some (JStr ''workspace-write'') then Some Workspace_Write
      else if v = Some (JStr ''danger-full-access'') then Some Danger_Full_Access else None)"

definition readApprovalPolicy :: "json option \<Rightarrow> approval_policy option" where
  "readApprovalPolicy v =
     (if v = Some (JStr ''untrusted'') then Some Untrusted
      else if v = Some (JStr ''on-request'') then Some On_Request
      else if v = Some (JStr ''on-failure'') then Some On_Failure
      else if v = Some (JStr ''never'') then Some Never else None)"

fun first_alias :: "(json option \<Rightarrow> 'a option) \<Rightarrow> (string \<times> json) list \<Rightarrow> string list \<Rightarrow> 'a option" where
  "first_alias parse source [] = None"
| "first_alias parse source (k # ks) =
     (case parse (map_of source k) of Some v \<Rightarrow> Some v | None \<Rightarrow> first_alias parse source ks)"

text \<open>Object spread: the entries of the last object are found first.\<close>

definition readCapObject :: "(string \<times> json) list \<Rightarrow> runtime_stage \<Rightarrow> (string \<times> json) list" where
  "readCapObject options s =
     asRecord (map_of (asRecord (map_of (asRecord (map_of options ''qwenLocalAgent'')) ''stageCaps'')) (stage_key s)) @
     asRecord (map_of (asRecord (map_of options ''runtimeStageCaps'')) (stage_key s)) @
     asRecord (map_of (asRecord (map_of options ''stageCaps'')) (stage_key s))"

definition readConfiguredCaps :: "(string \<times> json) list \<Rightarrow> runtime_stage \<Rightarrow> stage_caps" where
  "readConfiguredCaps options s =
     (let source = readCapObject options s; int = first_alias readPositiveInteger source in
      \<lparr>maxToolTurns = int [''maxToolTurns'', ''toolTurns'', ''max_tool_turns''],
       wallClockMs = int [''wallClockMs'', ''timeoutMs'', ''runTimeoutMs'', ''wall_clock_ms''],
       repeatedToolCallLimit =
         int [''repeatedToolCallLimit'', ''repeated_tool_call_limit'', ''repeatToolCallLimit''],
       tokenBudget = int [''tokenBudget'', ''maxTokensTotal'', ''token_budget''],
       contextTokens = int [''contextTokens'', ''contextWindowTokens'', ''maxInputTokens'', ''context_tokens''],
       maxOutputTokens = int [''maxOutputTokens'', ''maxTokens'', ''max_output_tokens''],
       maxBudgetUsd = first_alias readPositiveNumber source [''maxBudgetUsd'', ''budgetUsd'', ''max_budget_usd''],
       capRetryCount = int [''retryCount'', ''maxRetries'', ''retry_count''],
       inspectionToolBudget = int [''repositoryInspectionToolBudget'', ''inspectionToolBudget'',
         ''repository_inspection_tool_budget''],
       sandboxMode = first_alias readSandboxMode source [''sandboxMode'', ''sandbox_mode''],
       approvalPolicy = first_alias readApprovalPolicy source [''approvalPolicy'', ''approval_policy'']\<rparr>)"

section \<open>The canary of the local agent\<close>

definition readNonEmptyString :: "(string \<times> json) list \<Rightarrow> string \<Rightarrow> string option" where
  "readNonEmptyString r k =
     (case map_of r k of Some (JStr s) \<Rightarrow> (if js_trim s = [] then None else Some (js_trim s)) | _ \<Rightarrow> None)"

text \<open>\<open>replace(/[_\s-]+/g, "_")\<close>: a run of separators becomes one underscore.\<close>

fun collapse_separators :: "bool \<Rightarrow> string \<Rightarrow> string" where
  "collapse_separators inside [] = []"
| "collapse_separators inside (c # s) =
     (if c = CHR ''_'' \<or> js_space c \<or> c = CHR ''-''
      then (if inside then [] else [CHR ''_'']) @ collapse_separators True s
      else c # collapse_separators False s)"

fun isPassVerdict :: "json option \<Rightarrow> bool" where
  "isPassVerdict (Some (JStr s)) =
     (let v = collapse_separators False (js_lower (js_trim s)) in
      v = ''pass'' \<or> v = ''test_pass'' \<or> v = ''review_pass'')"
| "isPassVerdict _ = False"

fun hasValidIsoTimestamp :: "(string \<Rightarrow> int option) \<Rightarrow> json option \<Rightarrow> bool" where
  "hasValidIsoTimestamp dp (Some (JStr s)) = (dp s \<noteq> None)"
| "hasValidIsoTimestamp dp _ = False"

definition readCanaryContextTokens :: "(string \<times> json) list \<Rightarrow> rat option" where
  "readCanaryContextTokens canary =
     first_alias readPositiveInteger canary [''contextTokens'', ''contextWindowTokens'', ''maxInputTokens'', ''context'']"

definition QWEN_IMPLEMENTATION_CANARY_SOURCES :: "string list" where
  "QWEN_IMPLEMENTATION_CANARY_SOURCES = [''structured_evidence'', ''aif_implementer_canary'']"

definition isStructuredQwenImplementationCanaryEvidence :: "(string \<Rightarrow> int option) \<Rightarrow> json option \<Rightarrow> bool" where
  "isStructuredQwenImplementationCanaryEvidence dp v =
     (let canary = asRecord v in
      map_of canary ''passed'' = Some (JBool True) \<and> readNonEmptyString canary ''canaryId'' \<noteq> None \<and>
      hasValidIsoTimestamp dp (map_of canary ''passedAt'') \<and>
      (case readNonEmptyString canary ''source'' of None \<Rightarrow> False
       | Some s \<Rightarrow> s \<in> set QWEN_IMPLEMENTATION_CANARY_SOURCES) \<and>
      readCanaryContextTokens canary \<noteq> None \<and>
      isPassVerdict (map_of canary ''testVerdict'') \<and> isPassVerdict (map_of canary ''reviewVerdict''))"

definition implementation_canary :: "(string \<times> json) list \<Rightarrow> json option" where
  "implementation_canary options = map_of (asRecord (map_of options ''qwenLocalAgent'')) ''implementationCanary''"

definition hasStructuredQwenImplementationCanary :: "(string \<Rightarrow> int option) \<Rightarrow> json option \<Rightarrow> bool" where
  "hasStructuredQwenImplementationCanary dp options =
     isStructuredQwenImplementationCanaryEvidence dp (implementation_canary (asRecord options))"

definition readCanaryApprovedCaps :: "(string \<Rightarrow> int option) \<Rightarrow> (string \<times> json) list \<Rightarrow> runtime_stage \<Rightarrow> stage_caps" where
  "readCanaryApprovedCaps dp options s =
     (let v = implementation_canary options; canary = asRecord v; int = first_alias readPositiveInteger canary in
      if s \<noteq> Stage_Implementer \<or> \<not> isStructuredQwenImplementationCanaryEvidence dp v then no_caps
      else no_caps
        \<lparr>maxToolTurns := int [''maxToolTurns''],
         repeatedToolCallLimit := int [''repeatedToolCallLimit''],
         wallClockMs := int [''wallClockTimeoutMs'', ''timeoutMs''],
         maxOutputTokens := int [''maxOutputTokens'', ''maxOutput''],
         contextTokens := readCanaryContextTokens canary,
         inspectionToolBudget := orelse (int [''repositoryInspectionToolBudget'']) (int [''maxToolTurns'']),
         capRetryCount := int [''retryCount'']\<rparr>)"

section \<open>The limits of a profile\<close>

definition strict_number :: "rat option \<Rightarrow> rat option \<Rightarrow> rat option" where
  "strict_number d c = (case c of None \<Rightarrow> d
     | Some v \<Rightarrow> (case d of None \<Rightarrow> Some v | Some w \<Rightarrow> Some (min w v)))"

definition mergeStrictCaps :: "stage_caps \<Rightarrow> stage_caps \<Rightarrow> stage_caps" where
  "mergeStrictCaps d c =
     \<lparr>maxToolTurns = strict_number (maxToolTurns d) (maxToolTurns c),
      wallClockMs = strict_number (wallClockMs d) (wallClockMs c),
      repeatedToolCallLimit = strict_number (repeatedToolCallLimit d) (repeatedToolCallLimit c),
      tokenBudget = strict_number (tokenBudget d) (tokenBudget c),
      contextTokens = strict_number (contextTokens d) (contextTokens c),
      maxOutputTokens = strict_number (maxOutputTokens d) (maxOutputTokens c),
      maxBudgetUsd = strict_number (maxBudgetUsd d) (maxBudgetUsd c),
      capRetryCount = strict_number (capRetryCount d) (capRetryCount c),
      inspectionToolBudget = strict_number (inspectionToolBudget d) (inspectionToolBudget c),
      sandboxMode = orelse (sandboxMode d) (sandboxMode c),
      approvalPolicy = orelse (approvalPolicy d) (approvalPolicy c)\<rparr>"

text \<open>Object spread of the second object over the first.\<close>

definition overlay_caps :: "stage_caps \<Rightarrow> stage_caps \<Rightarrow> stage_caps" where
  "overlay_caps d c =
     \<lparr>maxToolTurns = orelse (maxToolTurns c) (maxToolTurns d), wallClockMs = orelse (wallClockMs c) (wallClockMs d),
      repeatedToolCallLimit = orelse (repeatedToolCallLimit c) (repeatedToolCallLimit d),
      tokenBudget = orelse (tokenBudget c) (tokenBudget d), contextTokens = orelse (contextTokens c) (contextTokens d),
      maxOutputTokens = orelse (maxOutputTokens c) (maxOutputTokens d),
      maxBudgetUsd = orelse (maxBudgetUsd c) (maxBudgetUsd d), capRetryCount = orelse (capRetryCount c) (capRetryCount d),
      inspectionToolBudget = orelse (inspectionToolBudget c) (inspectionToolBudget d),
      sandboxMode = orelse (sandboxMode c) (sandboxMode d), approvalPolicy = orelse (approvalPolicy c) (approvalPolicy d)\<rparr>"

definition getQwenStageDefaultCaps ::
    "(string \<Rightarrow> int option) \<Rightarrow> (string \<times> json) list \<Rightarrow> runtime_stage \<Rightarrow> stage_caps" where
  "getQwenStageDefaultCaps dp options s =
     overlay_caps (overlay_caps (READ_ONLY_STAGE_CAPS s) (QWEN_DEFAULT_STAGE_CAPS s))
       (readCanaryApprovedCaps dp options s)"

record policy_profile =
  policyProfileId :: "string option"
  policyRuntimeId :: string
  policyProviderId :: string
  policyOptions :: "json option"

definition isQwenLocalRuntimeProfile :: "policy_profile \<Rightarrow> bool" where
  "isQwenLocalRuntimeProfile p =
     (js_lower (js_trim (policyRuntimeId p)) = ''qwen-local-agent'' \<or>
      js_lower (js_trim (policyProviderId p)) \<in> {''qwen'', ''qwen-local'', ''qwen_local''})"

definition getRuntimeStageCaps :: "(string \<Rightarrow> int option) \<Rightarrow> policy_profile \<Rightarrow> runtime_stage \<Rightarrow> stage_caps" where
  "getRuntimeStageCaps dp p s =
     (let options = asRecord (policyOptions p); configured = readConfiguredCaps options s in
      if \<not> isQwenLocalRuntimeProfile p then mergeStrictCaps (READ_ONLY_STAGE_CAPS s) configured
      else mergeStrictCaps (getQwenStageDefaultCaps dp options s) configured)"

section \<open>May a profile run a stage?\<close>

datatype capability_reason =
    Allowed | Explicit_Stage_Allow | Explicit_Stage_Deny | Allowed_Stages_Deny | Qwen_Implementation_Not_Enabled
  | Qwen_Implementation_Flag | Qwen_Implementation_Canary

record capability_decision =
  cd_allowed :: bool
  cd_reason :: capability_reason
  cd_stage :: runtime_stage
  cd_profileId :: "string option"
  cd_runtimeId :: string
  cd_providerId :: string
  cd_caps :: stage_caps

fun jbool :: "json option \<Rightarrow> bool option" where
  "jbool (Some (JBool b)) = Some b"
| "jbool _ = None"

definition readStageCapability :: "(string \<times> json) list \<Rightarrow> runtime_stage \<Rightarrow> bool option" where
  "readStageCapability options s =
     (let raw = map_of (asRecord (map_of options ''stageCapabilities'')) (stage_key s)
      in case jbool raw of Some b \<Rightarrow> Some b
         | None \<Rightarrow> first_alias jbool (asRecord raw) [''enabled'', ''allowed'', ''capable''])"

fun json_strings :: "json list \<Rightarrow> string list" where
  "json_strings [] = []"
| "json_strings (JStr s # vs) = s # json_strings vs"
| "json_strings (v # vs) = json_strings vs"

definition readAllowedStages :: "(string \<times> json) list \<Rightarrow> string list option" where
  "readAllowedStages options =
     (case map_of options ''allowedStages'' of Some (JArr vs) \<Rightarrow> Some (json_strings vs) | _ \<Rightarrow> None)"

definition qwenImplementationOptInReason ::
    "(string \<Rightarrow> int option) \<Rightarrow> (string \<times> json) list \<Rightarrow> capability_reason option" where
  "qwenImplementationOptInReason dp options =
     (if isStructuredQwenImplementationCanaryEvidence dp (implementation_canary options)
      then Some Qwen_Implementation_Canary else None)"

definition evaluateRuntimeProfileStageCapability ::
    "(string \<Rightarrow> int option) \<Rightarrow> policy_profile \<Rightarrow> runtime_stage \<Rightarrow> capability_decision" where
  "evaluateRuntimeProfileStageCapability dp p s =
     (let options = asRecord (policyOptions p);
          explicit = readStageCapability options s;
          decide = (\<lambda>ok why. \<lparr>cd_allowed = ok, cd_reason = why, cd_stage = s, cd_profileId = policyProfileId p,
            cd_runtimeId = policyRuntimeId p, cd_providerId = policyProviderId p,
            cd_caps = getRuntimeStageCaps dp p s\<rparr>)
      in if explicit = Some False then decide False Explicit_Stage_Deny
         else if (case readAllowedStages options of None \<Rightarrow> False | Some l \<Rightarrow> stage_key s \<notin> set l)
         then decide False Allowed_Stages_Deny
         else if isQwenLocalRuntimeProfile p \<and> s = Stage_Implementer
         then (case qwenImplementationOptInReason dp options of
             None \<Rightarrow> decide False Qwen_Implementation_Not_Enabled
           | Some why \<Rightarrow> decide True why)
         else if isQwenLocalRuntimeProfile p \<and> s \<notin> set QWEN_DEFAULT_ALLOWED_STAGES
         then decide (explicit = Some True) (if explicit = Some True then Explicit_Stage_Allow else Allowed_Stages_Deny)
         else decide True (if explicit = Some True then Explicit_Stage_Allow else Allowed))"

definition isRuntimeProfileAllowedForStage :: "(string \<Rightarrow> int option) \<Rightarrow> policy_profile \<Rightarrow> runtime_stage \<Rightarrow> bool" where
  "isRuntimeProfileAllowedForStage dp p s = cd_allowed (evaluateRuntimeProfileStageCapability dp p s)"

section \<open>Properties\<close>

text \<open>\<open>no_looser v w\<close>: a limit \<open>w\<close> is set and \<open>v\<close> is one that is no looser.\<close>

definition no_looser :: "rat option \<Rightarrow> rat option \<Rightarrow> bool" where
  "no_looser v w = (case w of None \<Rightarrow> True | Some b \<Rightarrow> (case v of None \<Rightarrow> False | Some a \<Rightarrow> a \<le> b))"

definition caps_within :: "stage_caps \<Rightarrow> stage_caps \<Rightarrow> bool" where
  "caps_within c d =
     (no_looser (maxToolTurns c) (maxToolTurns d) \<and> no_looser (wallClockMs c) (wallClockMs d) \<and>
      no_looser (repeatedToolCallLimit c) (repeatedToolCallLimit d) \<and> no_looser (tokenBudget c) (tokenBudget d) \<and>
      no_looser (contextTokens c) (contextTokens d) \<and> no_looser (maxOutputTokens c) (maxOutputTokens d) \<and>
      no_looser (maxBudgetUsd c) (maxBudgetUsd d) \<and> no_looser (capRetryCount c) (capRetryCount d) \<and>
      no_looser (inspectionToolBudget c) (inspectionToolBudget d))"

lemma orelse_None [simp]: "orelse None v = v" "orelse v None = v"
  by (cases v; simp add: orelse_def)+

lemma no_looser_strict [simp]: "no_looser (strict_number d c) d"
  by (simp add: no_looser_def strict_number_def split: option.split)

lemma strict_within: "caps_within (mergeStrictCaps d c) d"
  by (simp add: caps_within_def mergeStrictCaps_def)

lemma overlay_no_caps [simp]: "overlay_caps d no_caps = d"
  by (simp add: overlay_caps_def no_caps_def)

lemma qwen_defaults:
  "caps_within (overlay_caps (READ_ONLY_STAGE_CAPS s) (QWEN_DEFAULT_STAGE_CAPS s)) (QWEN_DEFAULT_STAGE_CAPS s)"
  by (cases s) (simp_all add: caps_within_def overlay_caps_def READ_ONLY_STAGE_CAPS_def READ_ONLY_STAGES_def
      qwen_row_def no_caps_def no_looser_def orelse_def)

lemma no_looser_trans: "no_looser a b \<Longrightarrow> no_looser b c \<Longrightarrow> no_looser a c"
  by (auto simp: no_looser_def split: option.splits)

lemma caps_within_trans: "caps_within a b \<Longrightarrow> caps_within b c \<Longrightarrow> caps_within a c"
  unfolding caps_within_def by (auto intro: no_looser_trans)

lemma qwen_modes:
  "sandboxMode (overlay_caps (overlay_caps (READ_ONLY_STAGE_CAPS s) (QWEN_DEFAULT_STAGE_CAPS s))
     (readCanaryApprovedCaps dp options s)) = sandboxMode (READ_ONLY_STAGE_CAPS s)"
  "approvalPolicy (overlay_caps (overlay_caps (READ_ONLY_STAGE_CAPS s) (QWEN_DEFAULT_STAGE_CAPS s))
     (readCanaryApprovedCaps dp options s)) = approvalPolicy (READ_ONLY_STAGE_CAPS s)"
  by (cases s; simp add: overlay_caps_def readCanaryApprovedCaps_def Let_def qwen_row_def no_caps_def)+

lemma read_only_iff: "sandboxMode (READ_ONLY_STAGE_CAPS s) = (if s \<in> set READ_ONLY_STAGES then Some Read_Only else None)"
  "approvalPolicy (READ_ONLY_STAGE_CAPS s) = (if s \<in> set READ_ONLY_STAGES then Some On_Request else None)"
  by (simp_all add: READ_ONLY_STAGE_CAPS_def no_caps_def)

lemma no_looser_steps [simp]:
  "no_looser (strict_number d c) c" "no_looser c (strict_number None c)"
  "no_looser b b' \<Longrightarrow> no_looser (orelse a b) (orelse a b')"
  by (auto simp: no_looser_def strict_number_def orelse_def split: option.splits)

lemma strict_within_configured: "caps_within (mergeStrictCaps d c) c"
  by (simp add: caps_within_def mergeStrictCaps_def)

lemma read_only_has_no_limits: "caps_within c (mergeStrictCaps (READ_ONLY_STAGE_CAPS s) c)"
  by (simp add: caps_within_def mergeStrictCaps_def READ_ONLY_STAGE_CAPS_def no_caps_def)

lemma overlay_within: "caps_within d d' \<Longrightarrow> caps_within (overlay_caps d c) (overlay_caps d' c)"
  by (simp add: caps_within_def overlay_caps_def)

lemma canary_only_for_implementer:
  "readCanaryApprovedCaps dp (asRecord (policyOptions p)) s =
    (if s = Stage_Implementer \<and> hasStructuredQwenImplementationCanary dp (policyOptions p)
     then readCanaryApprovedCaps dp (asRecord (policyOptions p)) Stage_Implementer else no_caps)"
  by (auto simp: readCanaryApprovedCaps_def hasStructuredQwenImplementationCanary_def Let_def)

text \<open>
  C35: What the options of a profile can do to the limits of a stage. The limits they configure for a stage always
  bind, and for a profile that is no local agent they are the only ones. A stage of the planning and review side is
  read-only and asks for approval whatever the options say. For a local agent every limit of the table for the
  stage is set too and can only be tightened; the one way past the table is a passed canary, whose own limits take the
  place of the table's for the implementer, and for no other stage.
\<close>

theorem options_bind_and_only_canary_loosens:
  "caps_within (getRuntimeStageCaps dp p s) (readConfiguredCaps (asRecord (policyOptions p)) s) \<and>
   (\<not> isQwenLocalRuntimeProfile p \<longrightarrow>
      caps_within (readConfiguredCaps (asRecord (policyOptions p)) s) (getRuntimeStageCaps dp p s)) \<and>
   (s \<in> set READ_ONLY_STAGES \<longrightarrow>
      sandboxMode (getRuntimeStageCaps dp p s) = Some Read_Only \<and>
      approvalPolicy (getRuntimeStageCaps dp p s) = Some On_Request) \<and>
   (isQwenLocalRuntimeProfile p \<longrightarrow>
      caps_within (getRuntimeStageCaps dp p s)
        (if s = Stage_Implementer \<and> hasStructuredQwenImplementationCanary dp (policyOptions p)
         then overlay_caps (QWEN_DEFAULT_STAGE_CAPS s) (readCanaryApprovedCaps dp (asRecord (policyOptions p)) s)
         else QWEN_DEFAULT_STAGE_CAPS s))"
proof -
  let ?c = "readConfiguredCaps (asRecord (policyOptions p)) s" and ?o = "asRecord (policyOptions p)"
  have configured: "caps_within (getRuntimeStageCaps dp p s) ?c"
    by (simp add: getRuntimeStageCaps_def Let_def strict_within_configured)
  have plain: "caps_within ?c (getRuntimeStageCaps dp p s)" if "\<not> isQwenLocalRuntimeProfile p"
    using that by (simp add: getRuntimeStageCaps_def Let_def read_only_has_no_limits)
  have modes: "s \<in> set READ_ONLY_STAGES \<longrightarrow> sandboxMode (getRuntimeStageCaps dp p s) = Some Read_Only \<and>
      approvalPolicy (getRuntimeStageCaps dp p s) = Some On_Request"
    by (simp add: getRuntimeStageCaps_def Let_def)
      (simp add: mergeStrictCaps_def getQwenStageDefaultCaps_def qwen_modes read_only_iff orelse_def)
  have "caps_within (getQwenStageDefaultCaps dp ?o s) (overlay_caps (QWEN_DEFAULT_STAGE_CAPS s) (readCanaryApprovedCaps dp ?o s))"
    unfolding getQwenStageDefaultCaps_def by (rule overlay_within [OF qwen_defaults])
  then have "caps_within (getRuntimeStageCaps dp p s)
      (overlay_caps (QWEN_DEFAULT_STAGE_CAPS s) (readCanaryApprovedCaps dp ?o s))" if "isQwenLocalRuntimeProfile p"
    using that caps_within_trans [OF strict_within] by (simp add: getRuntimeStageCaps_def Let_def)
  then show ?thesis using configured plain modes canary_only_for_implementer [of dp p s] by (auto split: if_splits)
qed

definition demo_profile :: "(string \<times> json) list \<Rightarrow> policy_profile" where
  "demo_profile options = \<lparr>policyProfileId = Some ''p'', policyRuntimeId = ''Qwen-Local-Agent'',
     policyProviderId = ''qwen'', policyOptions = Some (JObj options)\<rparr>"

theorem options_bind_and_only_canary_loosens_witness:
  "caps_within (getRuntimeStageCaps (\<lambda>_. None) (demo_profile [(''stageCaps'', JObj [(''planner'',
      JObj [(''maxToolTurns'', JNum (Fin 100)), (''sandboxMode'', JStr ''danger-full-access'')])])]) Stage_Planner)
     (QWEN_DEFAULT_STAGE_CAPS Stage_Planner) \<and>
   sandboxMode (getRuntimeStageCaps (\<lambda>_. None) (demo_profile [(''stageCaps'', JObj [(''planner'',
      JObj [(''maxToolTurns'', JNum (Fin 100)), (''sandboxMode'', JStr ''danger-full-access'')])])]) Stage_Planner) = Some Read_Only"
proof -
  let ?p = "demo_profile [(''stageCaps'', JObj [(''planner'',
      JObj [(''maxToolTurns'', JNum (Fin 100)), (''sandboxMode'', JStr ''danger-full-access'')])])]"
  have "isQwenLocalRuntimeProfile ?p" by code_simp
  moreover have "Stage_Planner \<in> set READ_ONLY_STAGES" by (simp add: READ_ONLY_STAGES_def)
  ultimately show ?thesis using options_bind_and_only_canary_loosens [of "\<lambda>_. None" ?p Stage_Planner]
    by (simp only: runtime_stage.distinct simp_thms if_False)
qed

text \<open>
  Who may run a stage. A profile may run a stage exactly when its options do not deny the stage, the
  list of allowed stages, if there is one, names it, and a profile of the local agent at the implementer has
  the evidence of a passed canary; an explicit permission never replaces the canary.
\<close>

theorem allowed_stage_iff:
  "isRuntimeProfileAllowedForStage dp p s \<longleftrightarrow>
     readStageCapability (asRecord (policyOptions p)) s \<noteq> Some False \<and>
     (case readAllowedStages (asRecord (policyOptions p)) of None \<Rightarrow> True | Some l \<Rightarrow> stage_key s \<in> set l) \<and>
     (isQwenLocalRuntimeProfile p \<and> s = Stage_Implementer \<longrightarrow>
        hasStructuredQwenImplementationCanary dp (policyOptions p))"
proof -
  have "s = Stage_Implementer \<or> s \<in> set QWEN_DEFAULT_ALLOWED_STAGES"
    by (cases s) (simp_all add: QWEN_DEFAULT_ALLOWED_STAGES_def)
  then show ?thesis
    by (auto simp: isRuntimeProfileAllowedForStage_def evaluateRuntimeProfileStageCapability_def Let_def
        hasStructuredQwenImplementationCanary_def qwenImplementationOptInReason_def split: option.splits)
qed

theorem allowed_stage_iff_witness:
  "\<not> isRuntimeProfileAllowedForStage (\<lambda>_. None)
     (demo_profile [(''stageCapabilities'', JObj [(''implementer'', JBool True)])]) Stage_Implementer"
  unfolding allowed_stage_iff by code_simp

end
