(* ===== verification/Task_Slots.thy ===== *)
theory Task_Slots
  imports Auto_Queue Stage_Pipeline Stage_Policy
begin

text \<open>
  How many tasks the coordinator runs at once: the semaphores and the candidate loop of \<open>pollAndProcess\<close> in
  \<open>packages/agent/src/coordinator.ts\<close>. Poll cycles overlap, so a task that runs may end between any two
  steps. What the loop does with a candidate before it claims it (budgets, the choice of the runtime profile,
  the runtime gate) is the parameter \<open>pe_prepare\<close>: it may write the database, and answers the profile it has
  chosen, or that the candidate is passed over. The URL parser of the platform is a parameter as well.
\<close>

section \<open>Semaphores\<close>

type_synonym 'k semaphore = "('k \<times> nat) list"

definition sem_count :: "'k \<Rightarrow> 'k semaphore \<Rightarrow> nat" where
  "sem_count k s = (case map_of s k of None \<Rightarrow> 0 | Some n \<Rightarrow> n)"

definition tryAcquire :: "'k \<Rightarrow> nat \<Rightarrow> 'k semaphore \<Rightarrow> bool \<times> 'k semaphore" where
  "tryAcquire k cap s =
     (if cap \<le> sem_count k s then (False, s) else (True, map_set k (sem_count k s + 1) s))"

definition sem_release :: "'k \<Rightarrow> 'k semaphore \<Rightarrow> 'k semaphore" where
  "sem_release k s = map_set k (sem_count k s - 1) s"

definition available :: "'k \<Rightarrow> nat \<Rightarrow> 'k semaphore \<Rightarrow> int" where
  "available k cap s = int cap - int (sem_count k s)"

definition totalActive :: "'k semaphore \<Rightarrow> nat" where
  "totalActive s = sum_list (map snd s)"

section \<open>Starting and ending a task\<close>

record task_run =
  run_task :: string
  run_project :: string
  run_stage :: coordinator_stage
  run_key :: "string option"

text \<open>The two semaphores; \<open>runs\<close> are the tasks whose promises are pending.\<close>

record slots =
  stageSem :: "coordinator_stage semaphore"
  profileSem :: "string semaphore"
  runs :: "task_run list"

definition no_slots :: slots where "no_slots = \<lparr>stageSem = [], profileSem = [], runs = []\<rparr>"

section \<open>The limit of a runtime profile\<close>

record slot_profile =
  sp_id :: string
  sp_runtimeId :: string
  sp_baseUrl :: "string option"
  sp_options :: "json option"

record url_parts =
  urlProtocol :: string
  urlHostname :: string
  urlPort :: string

datatype start_result = Started | Passed_Over | Stage_Full

record poll_env =
  pe_coordinator :: string
  pe_claimMs :: int
  pe_globalMax :: nat
  pe_prepare :: "coordinator_stage \<Rightarrow> runtime_stage \<Rightarrow> task_row \<Rightarrow> db \<Rightarrow> db \<times> slot_profile option option"
  pe_url :: "string \<Rightarrow> url_parts option"
  pe_number :: "string \<Rightarrow> rat option"

fun runtimeStageForCoordinatorStage :: "coordinator_stage \<Rightarrow> runtime_stage" where
  "runtimeStageForCoordinatorStage Requirements_Analyst = Stage_Planner"
| "runtimeStageForCoordinatorStage Plan_Checker = Stage_Plan_Checker"
| "runtimeStageForCoordinatorStage Researcher = Stage_Researcher"
| "runtimeStageForCoordinatorStage Designer = Stage_Designer"
| "runtimeStageForCoordinatorStage Planner = Stage_Planner"
| "runtimeStageForCoordinatorStage Implementer = Stage_Implementer"
| "runtimeStageForCoordinatorStage Reviewer = Stage_Reviewer"
| "runtimeStageForCoordinatorStage Qa_Stage = Stage_Qa"

definition runtimeStageForCoordinatorTask :: "coordinator_stage \<Rightarrow> task_row \<Rightarrow> db \<Rightarrow> runtime_stage" where
  "runtimeStageForCoordinatorTask st t d =
     (if st = Implementer \<and> taskIntent t = ''audit''
      then (case findRoadmapBatchArtifactByTaskId (taskId t) d of
          Some a \<Rightarrow> if artifactRole a = ''synthesis'' then Stage_Synthesis else Stage_Audit
        | None \<Rightarrow> Stage_Audit)
      else runtimeStageForCoordinatorStage st)"

text \<open>\<open>pe_number\<close> is \<open>Number\<close> where its value is finite.\<close>

definition read_positive_integer :: "(string \<Rightarrow> rat option) \<Rightarrow> json option \<Rightarrow> int option" where
  "read_positive_integer number v =
     (case (case v of Some (JNum (Fin q)) \<Rightarrow> Some q
            | Some (JStr s) \<Rightarrow> (if js_trim s = [] then None else number (js_trim s))
            | _ \<Rightarrow> None) of
        None \<Rightarrow> None | Some q \<Rightarrow> if q \<le> 0 then None else Some \<lfloor>q\<rfloor>)"

definition raw_base_url :: "slot_profile \<Rightarrow> string option" where
  "raw_base_url p = (case sp_baseUrl p of Some b \<Rightarrow> Some b
     | None \<Rightarrow> (case map_of (asRecord (sp_options p)) ''baseUrl'' of Some (JStr b) \<Rightarrow> Some b | _ \<Rightarrow> None))"

definition url_port :: "url_parts \<Rightarrow> string" where
  "url_port u = (if urlPort u \<noteq> [] then urlPort u else if urlProtocol u = ''https:'' then ''443''
     else if urlProtocol u = ''http:'' then ''80'' else [])"

definition protectedLocalLlmEndpoint :: "poll_env \<Rightarrow> slot_profile option \<Rightarrow> string option" where
  "protectedLocalLlmEndpoint e p =
     (case Option.bind p raw_base_url of None \<Rightarrow> None
      | Some b \<Rightarrow> if b = [] then None else
          (case pe_url e b of None \<Rightarrow> None
           | Some u \<Rightarrow> if url_port u \<noteq> ''8003'' \<and> url_port u \<noteq> ''8005'' then None
               else Some (urlProtocol u @ ''//'' @ urlHostname u @ '':'' @ url_port u)))"

definition runtimeProfileSemaphoreKey :: "poll_env \<Rightarrow> slot_profile option \<Rightarrow> string option" where
  "runtimeProfileSemaphoreKey e p =
     (case protectedLocalLlmEndpoint e p of
        Some ep \<Rightarrow> Some (''runtime-endpoint:'' @ ep)
      | None \<Rightarrow> (case p of None \<Rightarrow> None | Some q \<Rightarrow> if sp_id q = [] then None else Some (''runtime-profile:'' @ sp_id q)))"

definition readRuntimeProfileConcurrency :: "poll_env \<Rightarrow> slot_profile option \<Rightarrow> runtime_stage \<Rightarrow> nat" where
  "readRuntimeProfileConcurrency e p st =
     (case p of None \<Rightarrow> pe_globalMax e
      | Some q \<Rightarrow> if protectedLocalLlmEndpoint e p \<noteq> None then 1 else
          (let options = asRecord (sp_options q); read = read_positive_integer (pe_number e) in
           case orelse (read (map_of (asRecord (map_of options ''stageConcurrency'')) (stage_key st)))
               (orelse (read (map_of options ''maxConcurrent'')) (read (map_of options ''maxConcurrentTasks''))) of
             Some n \<Rightarrow> max 1 (min (nat n) (pe_globalMax e))
           | None \<Rightarrow> if sp_runtimeId q = ''qwen-local-agent'' then 1 else pe_globalMax e))"

definition key_full :: "string option \<Rightarrow> nat \<Rightarrow> slots \<Rightarrow> bool" where
  "key_full key cap s = (case key of None \<Rightarrow> False | Some k \<Rightarrow> available k cap (profileSem s) \<le> 0)"

definition start_task ::
    "poll_env \<Rightarrow> coordinator_stage \<Rightarrow> task_row \<Rightarrow> string option \<Rightarrow> nat \<Rightarrow> int \<Rightarrow> slots \<times> db \<Rightarrow>
     start_result \<times> slots \<times> db" where
  "start_task e st t key cap now = (\<lambda>(s, d).
     (if key_full key cap s then (Passed_Over, s, d)
      else case claimTask (taskId t) (pe_coordinator e) (pe_claimMs e) st now d of
        (d1, False) \<Rightarrow> (Passed_Over, s, d1)
      | (d1, True) \<Rightarrow>
          (let unclaimed = fst (releaseTaskClaim (taskId t) (pe_coordinator e) now d1);
               acquired = tryAcquire st (pe_globalMax e) (stageSem s);
               run = \<lparr>run_task = taskId t, run_project = projectId t, run_stage = st, run_key = key\<rparr>
           in if pe_globalMax e \<le> totalActive (stageSem s) \<or> \<not> fst acquired then (Stage_Full, s, unclaimed)
              else (case key of
                  None \<Rightarrow> (Started, s\<lparr>stageSem := snd acquired, runs := runs s @ [run]\<rparr>, d1)
                | Some k \<Rightarrow>
                    (case tryAcquire k cap (profileSem s) of
                       (False, _) \<Rightarrow> (Passed_Over, s\<lparr>stageSem := sem_release st (snd acquired)\<rparr>, unclaimed)
                     | (True, ps) \<Rightarrow>
                         (Started, s\<lparr>stageSem := snd acquired, profileSem := ps, runs := runs s @ [run]\<rparr>, d1))))))"

text \<open>The \<open>finally\<close> block of a task that has ended.\<close>

definition end_task :: "poll_env \<Rightarrow> task_run \<Rightarrow> int \<Rightarrow> slots \<times> db \<Rightarrow> slots \<times> db" where
  "end_task e r now = (\<lambda>(s, d).
     (s\<lparr>stageSem := sem_release (run_stage r) (stageSem s),
        profileSem := (case run_key r of None \<Rightarrow> profileSem s | Some k \<Rightarrow> sem_release k (profileSem s)),
        runs := remove1 r (runs s)\<rparr>,
      fst (releaseTaskClaim (run_task r) (pe_coordinator e) now d)))"

section \<open>The candidates of a stage\<close>

definition projectConcurrency :: "queue_env \<Rightarrow> db \<Rightarrow> string \<Rightarrow> bool \<times> nat" where
  "projectConcurrency q d pid =
     (case List.find (\<lambda>p. prId p = pid) (projects d) of
        None \<Rightarrow> (False, 1)
      | Some p \<Rightarrow> if parallelEnabled p \<and> \<not> usesSharedBranchIsolation q p d then (True, qe_maxConcurrent q) else (False, 1))"

definition candidate_window :: "int \<Rightarrow> int" where
  "candidate_window n = min (max (n * 5) n) 50"

record spawn_state =
  sp_slots :: slots
  sp_db :: db
  sp_counts :: "(string \<times> nat) list"

definition spawned_of :: "string \<Rightarrow> spawn_state \<Rightarrow> nat" where
  "spawned_of pid s = (case map_of (sp_counts s) pid of None \<Rightarrow> 0 | Some n \<Rightarrow> n)"

text \<open>One candidate; the flag says that the loop breaks. \<open>conc\<close> is the cache of the cycle.\<close>

definition spawn_one ::
    "poll_env \<Rightarrow> (string \<Rightarrow> bool \<times> nat) \<Rightarrow> coordinator_stage \<Rightarrow> int \<Rightarrow> task_row \<Rightarrow> spawn_state \<Rightarrow> bool \<times> spawn_state" where
  "spawn_one e conc st now t s =
     (let pid = projectId t; d = sp_db s in
      if snd (conc pid) \<le> spawned_of pid s then (False, s)
      else if \<not> fst (conc pid) \<and> hasActiveLockedTaskForProject pid now d then (False, s)
      else (case pe_prepare e st (runtimeStageForCoordinatorTask st t d) t d of
          (d1, None) \<Rightarrow> (False, s\<lparr>sp_db := d1\<rparr>)
        | (d1, Some profile) \<Rightarrow>
            (case start_task e st t (runtimeProfileSemaphoreKey e profile)
                (readRuntimeProfileConcurrency e profile (runtimeStageForCoordinatorTask st t d)) now (sp_slots s, d1) of
               (Passed_Over, sl, d2) \<Rightarrow> (False, s\<lparr>sp_slots := sl, sp_db := d2\<rparr>)
             | (Stage_Full, sl, d2) \<Rightarrow> (True, s\<lparr>sp_slots := sl, sp_db := d2\<rparr>)
             | (Started, sl, d2) \<Rightarrow> (False, s\<lparr>sp_slots := sl, sp_db := d2,
                 sp_counts := map_set pid (spawned_of pid s + 1) (sp_counts s)\<rparr>))))"

fun spawn_candidates ::
    "poll_env \<Rightarrow> (string \<Rightarrow> bool \<times> nat) \<Rightarrow> coordinator_stage \<Rightarrow> int \<Rightarrow> task_row list \<Rightarrow> spawn_state \<Rightarrow> spawn_state" where
  "spawn_candidates e conc st now [] s = s"
| "spawn_candidates e conc st now (t # ts) s =
     (case spawn_one e conc st now t s of
        (True, s1) \<Rightarrow> s1 | (False, s1) \<Rightarrow> spawn_candidates e conc st now ts s1)"

text \<open>What a cycle does for one stage, up to the point where it waits for the tasks it started.\<close>

definition start_stage ::
    "poll_env \<Rightarrow> (string \<Rightarrow> bool \<times> nat) \<Rightarrow> coordinator_stage \<Rightarrow> string list \<Rightarrow> int \<Rightarrow> slots \<times> db \<Rightarrow> slots \<times> db" where
  "start_stage e conc st failed now = (\<lambda>(s, d).
     (let total = totalActive (stageSem s);
          n = min (available st (pe_globalMax e) (stageSem s)) (int (pe_globalMax e) - int total)
      in if pe_globalMax e \<le> total \<or> n \<le> 0 then (s, d)
         else
           (let ts = filter (\<lambda>t. taskId t \<notin> set failed)
                  (findCoordinatorTaskCandidates st (nat (candidate_window n)) now d);
                r = spawn_candidates e conc st now ts \<lparr>sp_slots = s, sp_db = d, sp_counts = []\<rparr>
            in (sp_slots r, sp_db r))))"

section \<open>Counting\<close>

lemma sem_count_set [simp]: "sem_count k (map_set k' n s) = (if k = k' then n else sem_count k s)"
  by (simp add: sem_count_def)

lemma totalActive_set:
  "distinct (map_keys s) \<Longrightarrow> totalActive (map_set k n s) + sem_count k s = totalActive s + n"
proof (induction s)
  case (Cons p s)
  have "map_of s k = None" if "fst p = k" using Cons.prems that by (auto simp: map_of_eq_None_iff)
  then show ?case using Cons by (cases p) (auto simp: totalActive_def sem_count_def)
qed (simp add: totalActive_def sem_count_def)

text \<open>The semaphores count the tasks that run.\<close>

definition counts_runs :: "('k semaphore) \<Rightarrow> (task_run \<Rightarrow> 'k option) \<Rightarrow> task_run list \<Rightarrow> bool" where
  "counts_runs s f rs \<longleftrightarrow> distinct (map_keys s) \<and> (\<forall>k. sem_count k s = length (filter (\<lambda>r. f r = Some k) rs))"

lemma counts_acquire:
  assumes "counts_runs s f rs" and "tryAcquire k cap s = (True, s')" and "f r = Some k"
  shows "counts_runs s' f (rs @ [r])"
  using assms by (auto simp: counts_runs_def tryAcquire_def distinct_map_set split: if_splits)

lemma counts_skip: "counts_runs s f rs \<Longrightarrow> f r = None \<Longrightarrow> counts_runs s f (rs @ [r])"
  by (simp add: counts_runs_def)

lemma length_filter_remove1:
  "r \<in> set rs \<Longrightarrow> length (filter P (remove1 r rs)) = (if P r then length (filter P rs) - 1 else length (filter P rs))"
proof (induction rs)
  case (Cons x rs)
  have "r \<in> set rs \<Longrightarrow> P r \<Longrightarrow> 0 < length (filter P rs)"
    by (rule length_pos_if_in_set [where x = r]) simp
  then show ?case using Cons by auto
qed simp

lemma counts_release:
  assumes "counts_runs s f rs" and "r \<in> set rs" and "f r = Some k"
  shows "counts_runs (sem_release k s) f (remove1 r rs)"
  using assms by (auto simp: counts_runs_def sem_release_def distinct_map_set length_filter_remove1)

lemma counts_keep: "counts_runs s f rs \<Longrightarrow> r \<in> set rs \<Longrightarrow> f r = None \<Longrightarrow> counts_runs s f (remove1 r rs)"
  by (simp add: counts_runs_def length_filter_remove1)

lemma acquire_release:
  assumes "counts_runs s f rs" and "tryAcquire k cap s = (True, s')"
  shows "counts_runs (sem_release k s') f rs \<and> totalActive (sem_release k s') = totalActive s"
proof -
  have s': "s' = map_set k (sem_count k s + 1) s" using assms(2) by (simp add: tryAcquire_def split: if_splits)
  have d: "distinct (map_keys s)" "distinct (map_keys s')"
    using assms(1) s' by (simp_all add: counts_runs_def distinct_map_set)
  show ?thesis using assms(1) s' totalActive_set [OF d(1), of k "sem_count k s + 1"]
      totalActive_set [OF d(2), of k "sem_count k s"]
    by (auto simp: counts_runs_def sem_release_def distinct_map_set)
qed

definition slots_ok :: "nat \<Rightarrow> slots \<Rightarrow> bool" where
  "slots_ok n s \<longleftrightarrow> counts_runs (stageSem s) (\<lambda>r. Some (run_stage r)) (runs s) \<and>
     counts_runs (profileSem s) run_key (runs s) \<and> totalActive (stageSem s) = length (runs s) \<and> length (runs s) \<le> n"

definition key_cap :: "poll_env \<Rightarrow> string \<Rightarrow> nat \<Rightarrow> bool" where
  "key_cap e k m \<longleftrightarrow> (\<forall>p st. runtimeProfileSemaphoreKey e p = Some k \<longrightarrow> readRuntimeProfileConcurrency e p st \<le> m)"

definition caps_ok :: "poll_env \<Rightarrow> slots \<Rightarrow> bool" where
  "caps_ok e s \<longleftrightarrow> (\<forall>k m. key_cap e k m \<longrightarrow> sem_count k (profileSem s) \<le> m)"

section \<open>What the steps keep\<close>

lemma start_task_result:
  assumes "start_task e st t key cap now (s, d) = (res, s', d')" and "slots_ok (pe_globalMax e) s"
  shows "slots_ok (pe_globalMax e) s'"
    and "runs s' = (if res = Started
       then runs s @ [\<lparr>run_task = taskId t, run_project = projectId t, run_stage = st, run_key = key\<rparr>] else runs s)"
    and "\<And>k. sem_count k (profileSem s') \<le> sem_count k (profileSem s) \<or> (key = Some k \<and> sem_count k (profileSem s') \<le> cap)"
proof -
  let ?run = "\<lparr>run_task = taskId t, run_project = projectId t, run_stage = st, run_key = key\<rparr>"
  note ok = assms(2) [unfolded slots_ok_def]
  have "slots_ok (pe_globalMax e) s' \<and> runs s' = (if res = Started then runs s @ [?run] else runs s) \<and>
      (\<forall>k. sem_count k (profileSem s') \<le> sem_count k (profileSem s) \<or> (key = Some k \<and> sem_count k (profileSem s') \<le> cap))"
  proof (cases "\<exists>d1 st1. \<not> key_full key cap s \<and> claimTask (taskId t) (pe_coordinator e) (pe_claimMs e) st now d = (d1, True) \<and>
      \<not> pe_globalMax e \<le> totalActive (stageSem s) \<and> tryAcquire st (pe_globalMax e) (stageSem s) = (True, st1)")
    case False
    then have "s' = s \<and> res \<noteq> Started"
      using assms(1) by (cases "tryAcquire st (pe_globalMax e) (stageSem s)")
        (auto simp: start_task_def Let_def split: if_splits prod.splits bool.splits)
    then show ?thesis using assms(2) by simp
  next
    case True
    then obtain d1 st1 where c: "\<not> key_full key cap s" "claimTask (taskId t) (pe_coordinator e) (pe_claimMs e) st now d = (d1, True)"
      "\<not> pe_globalMax e \<le> totalActive (stageSem s)" and st1: "tryAcquire st (pe_globalMax e) (stageSem s) = (True, st1)" by blast
    note stage = counts_acquire [OF ok [THEN conjunct1] st1, of ?run, simplified]
    have "st1 = map_set st (sem_count st (stageSem s) + 1) (stageSem s)"
      using st1 by (simp add: tryAcquire_def split: if_splits)
    then have total: "totalActive st1 = Suc (length (runs s))"
      using totalActive_set [of "stageSem s" st "sem_count st (stageSem s) + 1"] ok by (simp add: counts_runs_def)
    have room: "length (runs s) < pe_globalMax e" using c(3) ok by simp
    show ?thesis
    proof (cases key)
      case None
      then have "res = Started" "s' = s\<lparr>stageSem := st1, runs := runs s @ [?run]\<rparr>"
        using assms(1) c st1 by (auto simp: start_task_def Let_def)
      then show ?thesis using stage total room ok counts_skip [of "profileSem s" run_key "runs s" ?run] None
        by (simp add: slots_ok_def)
    next
      case (Some k)
      obtain b ps where ps: "tryAcquire k cap (profileSem s) = (b, ps)" by fastforce
      show ?thesis
      proof (cases b)
        case True
        then have r: "res = Started" "s' = s\<lparr>stageSem := st1, profileSem := ps, runs := runs s @ [?run]\<rparr>"
          using assms(1) c st1 Some ps by (auto simp: start_task_def Let_def)
        have "counts_runs ps run_key (runs s @ [?run])"
          using counts_acquire [of "profileSem s" run_key "runs s" k cap ps ?run] ok ps True Some by simp
        moreover have "sem_count j ps \<le> sem_count j (profileSem s) \<or> (j = k \<and> sem_count j ps \<le> cap)" for j
          using ps True by (auto simp: tryAcquire_def split: if_splits)
        ultimately show ?thesis using r stage total room Some by (auto simp: slots_ok_def)
      next
        case False
        then have "res = Passed_Over" "s' = s\<lparr>stageSem := sem_release st st1\<rparr>"
          using assms(1) c st1 Some ps by (auto simp: start_task_def Let_def)
        then show ?thesis using acquire_release [OF ok [THEN conjunct1] st1] ok by (simp add: slots_ok_def)
      qed
    qed
  qed
  then show "slots_ok (pe_globalMax e) s'"
    and "runs s' = (if res = Started then runs s @ [?run] else runs s)"
    and "\<And>k. sem_count k (profileSem s') \<le> sem_count k (profileSem s) \<or> (key = Some k \<and> sem_count k (profileSem s') \<le> cap)"
    by blast+
qed

lemma end_task_result:
  assumes "end_task e r now (s, d) = (s', d')" and "slots_ok n s" and "r \<in> set (runs s)"
  shows "slots_ok n s'" and "\<And>k. sem_count k (profileSem s') \<le> sem_count k (profileSem s)"
proof -
  note ok = assms(2) [unfolded slots_ok_def]
  have s': "s' = s\<lparr>stageSem := sem_release (run_stage r) (stageSem s),
      profileSem := (case run_key r of None \<Rightarrow> profileSem s | Some k \<Rightarrow> sem_release k (profileSem s)), runs := remove1 r (runs s)\<rparr>"
    using assms(1) by (simp add: end_task_def)
  have stage: "counts_runs (sem_release (run_stage r) (stageSem s)) (\<lambda>r. Some (run_stage r)) (remove1 r (runs s))"
    using counts_release [of "stageSem s" "\<lambda>r. Some (run_stage r)"] ok assms(3) by simp
  have profile: "counts_runs (case run_key r of None \<Rightarrow> profileSem s | Some k \<Rightarrow> sem_release k (profileSem s)) run_key (remove1 r (runs s))"
    using counts_release [of "profileSem s" run_key] counts_keep [of "profileSem s" run_key] ok assms(3)
    by (auto split: option.split)
  have "0 < length (filter (\<lambda>q. Some (run_stage q) = Some (run_stage r)) (runs s))"
    by (rule length_pos_if_in_set [where x = r]) (simp add: assms(3))
  then have pos: "0 < sem_count (run_stage r) (stageSem s)" using ok by (simp add: counts_runs_def)
  have "totalActive (sem_release (run_stage r) (stageSem s)) = length (runs s) - 1"
    using totalActive_set [of "stageSem s" "run_stage r" "sem_count (run_stage r) (stageSem s) - 1"] pos ok
    by (simp add: sem_release_def counts_runs_def)
  then show "slots_ok n s'" using stage profile ok assms(3) s' by (auto simp: slots_ok_def length_remove1)
  show "sem_count k (profileSem s') \<le> sem_count k (profileSem s)" for k
    using s' by (auto simp: sem_release_def split: option.split)
qed

text \<open>The invariant of the candidate loop: what it has begun since \<open>base\<close>, and how that is counted.\<close>

definition spawn_inv ::
    "poll_env \<Rightarrow> (string \<Rightarrow> bool \<times> nat) \<Rightarrow> coordinator_stage \<Rightarrow> task_run list \<Rightarrow> spawn_state \<Rightarrow> bool" where
  "spawn_inv e conc st base s \<longleftrightarrow> slots_ok (pe_globalMax e) (sp_slots s) \<and> caps_ok e (sp_slots s) \<and>
     (\<exists>new. runs (sp_slots s) = base @ new \<and> (\<forall>r\<in>set new. run_stage r = st) \<and>
        (\<forall>p. spawned_of p s = length (filter (\<lambda>r. run_project r = p) new)) \<and>
        (\<forall>p. length (filter (\<lambda>r. run_project r = p) new) \<le> snd (conc p)))"

lemma caps_step:
  assumes "caps_ok e s" and "key = runtimeProfileSemaphoreKey e p" and "cap = readRuntimeProfileConcurrency e p st"
    and "\<And>k. sem_count k (profileSem s') \<le> sem_count k (profileSem s) \<or> (key = Some k \<and> sem_count k (profileSem s') \<le> cap)"
  shows "caps_ok e s'"
  unfolding caps_ok_def
proof (intro allI impI)
  fix k m assume k: "key_cap e k m"
  then have "sem_count k (profileSem s) \<le> m" using assms(1) by (simp add: caps_ok_def)
  moreover have "cap \<le> m" if "key = Some k" using k assms(2,3) that by (simp add: key_cap_def)
  ultimately show "sem_count k (profileSem s') \<le> m" using assms(4) [of k] by fastforce
qed

lemma spawn_inv_db [simp]: "spawn_inv e conc st base (s\<lparr>sp_db := d\<rparr>) = spawn_inv e conc st base s"
  by (simp add: spawn_inv_def spawned_of_def)

lemma spawn_inv_idle:
  assumes "spawn_inv e conc st base s" and "slots_ok (pe_globalMax e) sl" and "caps_ok e sl" and "runs sl = runs (sp_slots s)"
  shows "spawn_inv e conc st base (s\<lparr>sp_slots := sl, sp_db := d\<rparr>)"
  using assms by (simp add: spawn_inv_def spawned_of_def)

lemma spawn_inv_begun:
  assumes "spawn_inv e conc st base s" and "slots_ok (pe_globalMax e) sl" and "caps_ok e sl"
    and "runs sl = runs (sp_slots s) @ [r]" and "run_stage r = st" and "spawned_of (run_project r) s < snd (conc (run_project r))"
  shows "spawn_inv e conc st base
    (s\<lparr>sp_slots := sl, sp_db := d, sp_counts := map_set (run_project r) (spawned_of (run_project r) s + 1) (sp_counts s)\<rparr>)"
proof -
  obtain new where new: "runs (sp_slots s) = base @ new" "\<forall>r\<in>set new. run_stage r = st"
    "\<forall>p. spawned_of p s = length (filter (\<lambda>r. run_project r = p) new)"
    "\<forall>p. length (filter (\<lambda>r. run_project r = p) new) \<le> snd (conc p)"
    using assms(1) unfolding spawn_inv_def by blast
  let ?s = "s\<lparr>sp_slots := sl, sp_db := d,
    sp_counts := map_set (run_project r) (spawned_of (run_project r) s + 1) (sp_counts s)\<rparr>"
  have "\<forall>p. spawned_of p ?s = length (filter (\<lambda>q. run_project q = p) (new @ [r]))"
    using new(3) by (simp add: spawned_of_def)
  moreover have "\<forall>p. length (filter (\<lambda>q. run_project q = p) (new @ [r])) \<le> snd (conc p)"
    using new(3,4) assms(6) by auto
  moreover have "runs (sp_slots ?s) = base @ (new @ [r])" "\<forall>q\<in>set (new @ [r]). run_stage q = st"
    using new(1,2) assms(4,5) by simp_all
  ultimately show ?thesis unfolding spawn_inv_def using assms(2,3) by fastforce
qed

lemma spawn_one_inv:
  assumes "spawn_one e conc st now t s = (b, s')" and inv: "spawn_inv e conc st base s"
  shows "spawn_inv e conc st base s'"
proof (cases "snd (conc (projectId t)) \<le> spawned_of (projectId t) s \<or>
    (\<not> fst (conc (projectId t)) \<and> hasActiveLockedTaskForProject (projectId t) now (sp_db s))")
  case True
  then have "s' = s" using assms(1) by (auto simp: spawn_one_def Let_def split: if_splits)
  then show ?thesis using inv by simp
next
  case go: False
  let ?rs = "runtimeStageForCoordinatorTask st t (sp_db s)"
  obtain d1 choice where prep: "pe_prepare e st ?rs t (sp_db s) = (d1, choice)" by fastforce
  show ?thesis
  proof (cases choice)
    case None
    then have "s' = s\<lparr>sp_db := d1\<rparr>" using assms(1) go prep by (auto simp: spawn_one_def Let_def)
    then show ?thesis using inv by simp
  next
    case (Some profile)
    let ?key = "runtimeProfileSemaphoreKey e profile" and ?cap = "readRuntimeProfileConcurrency e profile ?rs"
    obtain res sl d2 where st: "start_task e st t ?key ?cap now (sp_slots s, d1) = (res, sl, d2)" by (metis prod_cases3)
    have ok: "slots_ok (pe_globalMax e) (sp_slots s)" "caps_ok e (sp_slots s)" using inv by (simp_all add: spawn_inv_def)
    note r = start_task_result [OF st ok(1)]
    have caps: "caps_ok e sl" using caps_step [OF ok(2) refl refl] r(3) by blast
    show ?thesis
    proof (cases "res = Started")
      case False
      then have "s' = s\<lparr>sp_slots := sl, sp_db := d2\<rparr>"
        using assms(1) go prep Some st by (cases res) (auto simp: spawn_one_def Let_def)
      then show ?thesis using spawn_inv_idle [OF inv r(1) caps] r(2) False by simp
    next
      case True
      then have "s' = s\<lparr>sp_slots := sl, sp_db := d2,
          sp_counts := map_set (projectId t) (spawned_of (projectId t) s + 1) (sp_counts s)\<rparr>"
        using assms(1) go prep Some st by (auto simp: spawn_one_def Let_def)
      then show ?thesis using spawn_inv_begun [OF inv r(1) caps r(2) [unfolded if_P [OF True]]] go by simp
    qed
  qed
qed

lemma spawn_candidates_inv:
  "spawn_inv e conc st base s \<Longrightarrow> spawn_inv e conc st base (spawn_candidates e conc st now ts s)"
  by (induction ts arbitrary: s) (auto split: prod.split bool.split dest: spawn_one_inv)

lemma start_stage_inv:
  assumes "start_stage e conc st failed now (s, d) = (s', d')" and "slots_ok (pe_globalMax e) s" and "caps_ok e s"
  shows "slots_ok (pe_globalMax e) s' \<and> caps_ok e s' \<and> (\<exists>new. runs s' = runs s @ new \<and> (\<forall>r\<in>set new. run_stage r = st) \<and>
     (\<forall>p. length (filter (\<lambda>r. run_project r = p) new) \<le> snd (conc p)))"
proof -
  let ?s0 = "\<lparr>sp_slots = s, sp_db = d, sp_counts = []\<rparr>"
  have "spawn_inv e conc st (runs s) ?s0" using assms(2,3) by (simp add: spawn_inv_def spawned_of_def)
  note inv = spawn_candidates_inv [OF this, of now]
  consider "s' = s" | ts where "s' = sp_slots (spawn_candidates e conc st now ts ?s0)"
    using assms(1) by (auto simp: start_stage_def Let_def split: if_splits)
  then show ?thesis
  proof cases
    case 1
    then show ?thesis using assms(2,3) by simp
  next
    case 2
    then show ?thesis using inv [of ts] unfolding spawn_inv_def by blast
  qed
qed

section \<open>Overlapping cycles\<close>

inductive reachable_slots :: "poll_env \<Rightarrow> slots \<times> db \<Rightarrow> bool" for e where
  init: "reachable_slots e (no_slots, d)"
| stage: "reachable_slots e sd \<Longrightarrow> reachable_slots e (start_stage e conc st failed now sd)"
| ended: "reachable_slots e (s, d) \<Longrightarrow> r \<in> set (runs s) \<Longrightarrow> reachable_slots e (end_task e r now (s, d))"
| other: "reachable_slots e (s, d) \<Longrightarrow> reachable_slots e (s, d')"

lemma reachable_slots_ok:
  "reachable_slots e sd \<Longrightarrow> slots_ok (pe_globalMax e) (fst sd) \<and> caps_ok e (fst sd)"
proof (induction rule: reachable_slots.induct)
  case (init d)
  show ?case by (simp add: slots_ok_def caps_ok_def counts_runs_def no_slots_def totalActive_def sem_count_def)
next
  case (stage sd conc st failed now)
  obtain s d where sd: "sd = (s, d)" by fastforce
  obtain s' d' where step: "start_stage e conc st failed now (s, d) = (s', d')" by fastforce
  show ?case using start_stage_inv [OF step] stage.IH sd step by simp
next
  case (ended s d r now)
  obtain s' d' where step: "end_task e r now (s, d) = (s', d')" by fastforce
  have "caps_ok e s'" using ended.IH end_task_result(2) [OF step _ ended.hyps(2)] order_trans
    by (fastforce simp: caps_ok_def)
  then show ?case using end_task_result(1) [OF step _ ended.hyps(2)] ended.IH step by simp
qed simp


section \<open>Properties\<close>

text \<open>
  C12: However poll cycles overlap and whatever else writes the database, the semaphores count exactly the tasks
  that run: at most \<open>COORDINATOR_MAX_CONCURRENT_TASKS\<close> in all, and on a profile's endpoint never more than
  the limit that the profile was ever given.
\<close>

theorem slots_match_running_tasks:
  assumes "reachable_slots e (s, d)"
  shows "length (runs s) \<le> pe_globalMax e \<and> totalActive (stageSem s) = length (runs s) \<and>
    (\<forall>st. sem_count st (stageSem s) = length (filter (\<lambda>r. run_stage r = st) (runs s))) \<and>
    (\<forall>k. sem_count k (profileSem s) = length (filter (\<lambda>r. run_key r = Some k) (runs s))) \<and>
    (\<forall>k m. key_cap e k m \<longrightarrow> length (filter (\<lambda>r. run_key r = Some k) (runs s)) \<le> m)"
proof -
  have "slots_ok (pe_globalMax e) s" "caps_ok e s" using reachable_slots_ok [OF assms] by simp_all
  then show ?thesis by (simp add: slots_ok_def caps_ok_def counts_runs_def)
qed

text \<open>
  C26: A protected local model endpoint serves one task of a coordinator at a time: whatever profiles point at
  it, and however the poll cycles overlap, at most one running task holds its key.
\<close>

theorem protected_endpoint_runs_one_task:
  assumes "reachable_slots e (s, d)"
  shows "length (filter (\<lambda>r. run_key r = Some (''runtime-endpoint:'' @ ep)) (runs s)) \<le> 1"
proof -
  have "key_cap e (''runtime-endpoint:'' @ ep) 1"
    by (auto simp: key_cap_def runtimeProfileSemaphoreKey_def readRuntimeProfileConcurrency_def
        protectedLocalLlmEndpoint_def split: option.splits if_splits)
  moreover have "slots_ok (pe_globalMax e) s" "caps_ok e s" using reachable_slots_ok [OF assms] by simp_all
  ultimately show ?thesis by (simp add: slots_ok_def caps_ok_def counts_runs_def)
qed

text \<open>
  One stage of a cycle begins only tasks of that stage, and of each project at most as many as the
  project's concurrency: one when the project is not parallel or shares one branch checkout.
\<close>

theorem stage_start_respects_projects:
  assumes "reachable_slots e (s, d)" and "start_stage e conc st failed now (s, d) = (s', d')"
  shows "\<exists>new. runs s' = runs s @ new \<and> (\<forall>r\<in>set new. run_stage r = st) \<and>
    (\<forall>p. length (filter (\<lambda>r. run_project r = p) new) \<le> snd (conc p)) \<and>
    (\<forall>q p. conc = projectConcurrency q d \<and> \<not> fst (conc p) \<longrightarrow> length (filter (\<lambda>r. run_project r = p) new) \<le> 1)"
proof -
  have ok: "slots_ok (pe_globalMax e) s" "caps_ok e s" using reachable_slots_ok [OF assms(1)] by simp_all
  have serial: "snd (projectConcurrency q d p) = 1" if "\<not> fst (projectConcurrency q d p)" for q p
    using that by (auto simp: projectConcurrency_def split: option.splits if_splits)
  obtain new where new: "runs s' = runs s @ new" "\<forall>r\<in>set new. run_stage r = st"
    "\<forall>p. length (filter (\<lambda>r. run_project r = p) new) \<le> snd (conc p)"
    using start_stage_inv [OF assms(2) ok] by blast
  moreover have "length (filter (\<lambda>r. run_project r = p) new) \<le> 1"
    if "conc = projectConcurrency q d" "\<not> fst (conc p)" for q p
    using spec [OF new(3), of p] serial [of q p] that by simp
  ultimately show ?thesis by blast
qed

text \<open>Two tasks of a project that is not parallel wait for a planner: one starts.\<close>

definition demo_slots_db :: db where
  "demo_slots_db = empty_db\<lparr>tasks := [(blank_task ''a'')\<lparr>status := Planning\<rparr>, (blank_task ''b'')\<lparr>status := Planning\<rparr>]\<rparr>"

definition demo_poll :: poll_env where
  "demo_poll = \<lparr>pe_coordinator = ''c1'', pe_claimMs = 60000, pe_globalMax = 4,
     pe_prepare = (\<lambda>_ _ t d. (d, Some (Some \<lparr>sp_id = ''r'', sp_runtimeId = ''codex'',
       sp_baseUrl = Some ''http://llm:8003'', sp_options = None\<rparr>))),
     pe_url = (\<lambda>_. Some \<lparr>urlProtocol = ''http:'', urlHostname = ''llm'', urlPort = ''8003''\<rparr>),
     pe_number = (\<lambda>_. None)\<rparr>"

definition demo_conc :: "string \<Rightarrow> bool \<times> nat" where
  "demo_conc p = (False, 1)"

definition demo_started :: "slots \<times> db" where
  "demo_started = start_stage demo_poll demo_conc Planner [] 1000 (no_slots, demo_slots_db)"

lemma demo_started_runs: "map run_task (runs (fst demo_started)) = [''a'']"
  by code_simp

lemma demo_started_pair: "start_stage demo_poll demo_conc Planner [] 1000 (no_slots, demo_slots_db) = (fst demo_started, snd demo_started)"
  by (simp add: demo_started_def)

theorem slots_match_running_tasks_witness:
  "map run_task (runs (fst demo_started)) = [''a''] \<and> totalActive (stageSem (fst demo_started)) = 1 \<and>
   sem_count Planner (stageSem (fst demo_started)) = length (filter (\<lambda>r. run_stage r = Planner) (runs (fst demo_started)))"
proof -
  have "reachable_slots demo_poll (fst demo_started, snd demo_started)"
    using reachable_slots.stage [OF reachable_slots.init, of demo_poll demo_conc Planner "[]" 1000 demo_slots_db]
    by (simp add: demo_started_pair)
  note 1 = slots_match_running_tasks [OF this]
  have "length (runs (fst demo_started)) = 1" using arg_cong [OF demo_started_runs, of length] by simp
  then show ?thesis using 1 demo_started_runs by simp
qed

theorem protected_endpoint_runs_one_task_witness:
  "map run_key (runs (fst demo_started)) = [Some ''runtime-endpoint:http://llm:8003''] \<and>
   length (filter (\<lambda>r. run_key r = Some (''runtime-endpoint:'' @ ''http://llm:8003'')) (runs (fst demo_started))) \<le> 1"
proof -
  have "reachable_slots demo_poll (fst demo_started, snd demo_started)"
    using reachable_slots.stage [OF reachable_slots.init, of demo_poll demo_conc Planner "[]" 1000 demo_slots_db]
    by (simp add: demo_started_pair)
  moreover have "map run_key (runs (fst demo_started)) = [Some ''runtime-endpoint:http://llm:8003'']" by code_simp
  ultimately show ?thesis using protected_endpoint_runs_one_task by blast
qed

theorem stage_start_respects_projects_witness:
  "map run_task (runs (fst demo_started)) = [''a''] \<and> length (filter (\<lambda>r. run_project r = ''p'') (runs (fst demo_started))) \<le> 1"
proof -
  obtain new where "runs (fst demo_started) = new" "length (filter (\<lambda>r. run_project r = ''p'') new) \<le> snd (demo_conc ''p'')"
    using stage_start_respects_projects [OF reachable_slots.init demo_started_pair] by (auto simp: no_slots_def)
  then show ?thesis using demo_started_runs by (simp add: demo_conc_def)
qed

end
