(* ===== verification/Recovery_Options.thy ===== *)
theory Recovery_Options
  imports Stage_Policy Js_Text Js_Date
begin

text \<open>
  What a task remembers between two attempts of a stage: \<open>packages/agent/src/runtimeRecoveryOptions.ts\<close>. The
  column with the runtime options of a task is a JSON value, \<^term>\<open>None\<close> for null and for a text that is no
  JSON; the recovery state is one of its entries, the others are options of the runtime adapter. The keys of a
  JSON object are taken to be distinct from \<open>__proto__\<close>.
\<close>

definition AIF_RUNTIME_RECOVERY_OPTIONS_KEY :: string where
  "AIF_RUNTIME_RECOVERY_OPTIONS_KEY = ''__aifRuntimeRecovery''"

datatype fallback_reason = Context_Length_Reason | Transient_Error_Reason

fun fallback_reason_text :: "fallback_reason \<Rightarrow> string" where
  "fallback_reason_text Context_Length_Reason = ''context_length''"
| "fallback_reason_text Transient_Error_Reason = ''transient_runtime_error''"

record context_fallback =
  cf_stage :: string
  cf_profileId :: string
  cf_previousProfileId :: "string option"
  cf_reason :: fallback_reason
  cf_attempt :: int
  cf_createdAt :: string

text \<open>An absent object of failed profiles is the empty list.\<close>

record recovery_state =
  rs_fallback :: "context_fallback option"
  rs_failed :: "(string \<times> string list) list"

definition unique_ids :: "string list \<Rightarrow> string list" where
  "unique_ids vs = js_unique (filter (\<lambda>v. js_trim v \<noteq> []) vs)"

fun json_text_of :: "json option \<Rightarrow> string option" where
  "json_text_of (Some (JStr s)) = Some s"
| "json_text_of _ = None"

definition failed_entry :: "string \<times> json \<Rightarrow> (string \<times> string list) list" where
  "failed_entry = (\<lambda>(stage, v). case v of JArr vs \<Rightarrow> [(stage, unique_ids (json_strings vs))] | _ \<Rightarrow> [])"

definition read_fallback :: "(string \<times> json) list \<Rightarrow> context_fallback option" where
  "read_fallback raw =
     (case (json_text_of (map_of raw ''stage''), json_text_of (map_of raw ''profileId'')) of
        (Some stage, Some pid) \<Rightarrow>
          if js_trim pid = [] then None
          else Some \<lparr>cf_stage = stage, cf_profileId = pid,
            cf_previousProfileId = json_text_of (map_of raw ''previousProfileId''),
            cf_reason = (if map_of raw ''reason'' = Some (JStr ''transient_runtime_error'')
              then Transient_Error_Reason else Context_Length_Reason),
            cf_attempt = (case map_of raw ''attempt'' of Some (JNum (Fin q)) \<Rightarrow> max 1 (js_trunc q) | _ \<Rightarrow> 1),
            cf_createdAt = (case json_text_of (map_of raw ''createdAt'') of Some s \<Rightarrow> s | None \<Rightarrow> toISOString 0)\<rparr>
      | _ \<Rightarrow> None)"

definition readRecoveryState :: "(string \<times> json) list \<Rightarrow> recovery_state" where
  "readRecoveryState options =
     (let raw = asRecord (map_of options AIF_RUNTIME_RECOVERY_OPTIONS_KEY) in
      \<lparr>rs_fallback = read_fallback (asRecord (map_of raw ''contextFallback'')),
       rs_failed = concat (map failed_entry (asRecord (map_of raw ''failedContextProfileIds'')))\<rparr>)"

definition fallback_json :: "context_fallback \<Rightarrow> json" where
  "fallback_json f = JObj
     [(''stage'', JStr (cf_stage f)), (''profileId'', JStr (cf_profileId f)),
      (''previousProfileId'', case cf_previousProfileId f of None \<Rightarrow> JNull | Some p \<Rightarrow> JStr p),
      (''reason'', JStr (fallback_reason_text (cf_reason f))),
      (''attempt'', JNum (Fin (of_int (cf_attempt f)))), (''createdAt'', JStr (cf_createdAt f))]"

definition recovery_json :: "recovery_state \<Rightarrow> json" where
  "recovery_json s = JObj
     ((case rs_fallback s of None \<Rightarrow> [] | Some f \<Rightarrow> [(''contextFallback'', fallback_json f)]) @
      (if rs_failed s = [] then []
       else [(''failedContextProfileIds'', JObj (map (\<lambda>(k, vs). (k, JArr (map JStr vs))) (rs_failed s)))]))"

definition serializeRuntimeOptions :: "(string \<times> json) list \<Rightarrow> json option" where
  "serializeRuntimeOptions options = (if options = [] then None else Some (JObj options))"

definition withRecoveryState :: "json option \<Rightarrow> (recovery_state \<Rightarrow> recovery_state) \<Rightarrow> json option" where
  "withRecoveryState raw mutate =
     (let options = asRecord raw; s = mutate (readRecoveryState options) in
      serializeRuntimeOptions
        (if rs_fallback s \<noteq> None \<or> rs_failed s \<noteq> []
         then map_set AIF_RUNTIME_RECOVERY_OPTIONS_KEY (recovery_json s) options
         else map_delete AIF_RUNTIME_RECOVERY_OPTIONS_KEY options))"

definition splitRuntimeRecoveryOptions :: "json option \<Rightarrow> (string \<times> json) list option \<times> recovery_state" where
  "splitRuntimeRecoveryOptions raw =
     (let options = asRecord raw; others = map_delete AIF_RUNTIME_RECOVERY_OPTIONS_KEY options
      in (if others = [] then None else Some others, readRecoveryState options))"

definition readContextFallbackRuntimeOption :: "json option \<Rightarrow> runtime_stage \<Rightarrow> context_fallback option" where
  "readContextFallbackRuntimeOption raw stage =
     (case rs_fallback (snd (splitRuntimeRecoveryOptions raw)) of
        None \<Rightarrow> None | Some f \<Rightarrow> if cf_stage f = stage_key stage then Some f else None)"

definition failed_ids :: "recovery_state \<Rightarrow> runtime_stage \<Rightarrow> string list" where
  "failed_ids s stage = (case map_of (rs_failed s) (stage_key stage) of None \<Rightarrow> [] | Some vs \<Rightarrow> vs)"

definition readFailedContextProfileIds :: "json option \<Rightarrow> runtime_stage \<Rightarrow> string list" where
  "readFailedContextProfileIds raw stage = unique_ids (failed_ids (snd (splitRuntimeRecoveryOptions raw)) stage)"

definition add_failed :: "runtime_stage \<Rightarrow> string option \<Rightarrow> recovery_state \<Rightarrow> recovery_state" where
  "add_failed stage pid s = s\<lparr>rs_failed := map_set (stage_key stage)
     (unique_ids (failed_ids s stage @ (case pid of None \<Rightarrow> [] | Some p \<Rightarrow> [p]))) (rs_failed s)\<rparr>"

definition setContextFallbackRuntimeOption ::
    "json option \<Rightarrow> runtime_stage \<Rightarrow> string \<Rightarrow> string option \<Rightarrow> string option \<Rightarrow> fallback_reason \<Rightarrow> int \<Rightarrow> string \<Rightarrow> json option" where
  "setContextFallbackRuntimeOption raw stage pid previous failed reason n at_text =
     withRecoveryState raw (\<lambda>s. (add_failed stage failed s)\<lparr>rs_fallback := Some
       \<lparr>cf_stage = stage_key stage, cf_profileId = pid, cf_previousProfileId = previous, cf_reason = reason,
        cf_attempt = n, cf_createdAt = at_text\<rparr>\<rparr>)"

definition markContextProfileFailed :: "json option \<Rightarrow> runtime_stage \<Rightarrow> string option \<Rightarrow> json option" where
  "markContextProfileFailed raw stage pid =
     (if \<not> truthy pid then raw else withRecoveryState raw (add_failed stage pid))"

definition clearContextFallbackRuntimeOption :: "json option \<Rightarrow> runtime_stage \<Rightarrow> json option" where
  "clearContextFallbackRuntimeOption raw stage =
     withRecoveryState raw (\<lambda>s. case rs_fallback s of
        None \<Rightarrow> s
      | Some f \<Rightarrow> if cf_stage f = stage_key stage then s\<lparr>rs_fallback := None\<rparr> else s)"

section \<open>What is written is read back\<close>

lemma read_fallback_Nil [simp]: "read_fallback [] = None"
  by (simp add: read_fallback_def)

lemma map_delete_twice [simp]: "map_delete k (map_delete k m) = map_delete k m"
  by (simp add: map_delete_def)

lemma filter_js_unique: "filter P (js_unique vs) = js_unique (filter P vs)"
proof (induction vs)
  case (Cons a vs)
  have "filter P (filter (\<lambda>y. y \<noteq> a) (js_unique vs)) = filter (\<lambda>y. y \<noteq> a) (js_unique (filter P vs))"
    by (simp add: filter_filter conj_commute flip: Cons.IH)
  moreover have "filter (\<lambda>y. y \<noteq> a) (js_unique (filter P vs)) = js_unique (filter P vs)" if "\<not> P a"
    using that by (auto simp: filter_id_conv)
  ultimately show ?case by simp
qed simp

lemma js_unique_id: "distinct vs \<Longrightarrow> js_unique vs = vs"
  by (induction vs) (auto simp: filter_id_conv)

lemma unique_ids_idem [simp]: "unique_ids (unique_ids vs) = unique_ids vs"
  by (simp add: unique_ids_def filter_js_unique js_unique_id)

lemma set_unique_ids [simp]: "set (unique_ids vs) = {v \<in> set vs. js_trim v \<noteq> []}"
  by (auto simp: unique_ids_def)

lemma json_strings_JStr [simp]: "json_strings (map JStr vs) = vs"
  by (induction vs) simp_all

text \<open>The states that the reader answers.\<close>

definition state_ok :: "recovery_state \<Rightarrow> bool" where
  "state_ok s \<longleftrightarrow> (\<forall>(k, vs)\<in>set (rs_failed s). unique_ids vs = vs) \<and>
     (case rs_fallback s of None \<Rightarrow> True | Some f \<Rightarrow> js_trim (cf_profileId f) \<noteq> [] \<and> 1 \<le> cf_attempt f)"

lemma readRecoveryState_ok [simp]: "state_ok (readRecoveryState options)"
  by (auto simp: state_ok_def readRecoveryState_def Let_def failed_entry_def read_fallback_def
      split: option.splits json.splits jsnum.splits if_splits)

lemma js_trunc_of_int [simp]: "js_trunc (of_int n) = n"
  by (simp add: js_trunc_def)

lemma read_fallback_json:
  assumes "js_trim (cf_profileId f) \<noteq> []" and "1 \<le> cf_attempt f"
  shows "read_fallback (asRecord (Some (fallback_json f))) = Some f"
  using assms by (cases f; cases "cf_reason f"; cases "cf_previousProfileId f") (auto simp: read_fallback_def fallback_json_def)

lemma failed_entries_json:
  "\<forall>(k, vs)\<in>set m. unique_ids vs = vs \<Longrightarrow> concat (map failed_entry (map (\<lambda>(k, vs). (k, JArr (map JStr vs))) m)) = m"
  by (induction m) (auto simp: failed_entry_def)


lemma read_state_json:
  assumes "state_ok s" and "map_of options AIF_RUNTIME_RECOVERY_OPTIONS_KEY = Some (recovery_json s)"
  shows "readRecoveryState options = s"
proof -
  have failed: "concat (map failed_entry (map (\<lambda>(k, vs). (k, JArr (map JStr vs))) (rs_failed s))) = rs_failed s"
    using assms(1) by (intro failed_entries_json) (simp add: state_ok_def)
  have "read_fallback (asRecord (Some (fallback_json f))) = Some f" if "rs_fallback s = Some f" for f
    using assms(1) that by (intro read_fallback_json) (simp_all add: state_ok_def)
  then show ?thesis using failed assms(2)
    by (cases s; cases "rs_fallback s") (auto simp: readRecoveryState_def recovery_json_def Let_def)
qed

lemma read_no_state:
  "map_of options AIF_RUNTIME_RECOVERY_OPTIONS_KEY = None \<Longrightarrow> readRecoveryState options = \<lparr>rs_fallback = None, rs_failed = []\<rparr>"
  by (simp add: readRecoveryState_def Let_def read_fallback_def)

lemma map_delete_map_set [simp]: "map_delete k (map_set k v m) = map_delete k m"
  by (induction k v m rule: map_set.induct) (auto simp: map_delete_def)

lemma asRecord_serialize [simp]: "asRecord (serializeRuntimeOptions options) = options"
  by (simp add: serializeRuntimeOptions_def)

lemma written_state:
  assumes "state_ok (f (readRecoveryState (asRecord raw)))"
  shows "readRecoveryState (asRecord (withRecoveryState raw f)) = f (readRecoveryState (asRecord raw))"
    and "map_delete AIF_RUNTIME_RECOVERY_OPTIONS_KEY (asRecord (withRecoveryState raw f)) =
      map_delete AIF_RUNTIME_RECOVERY_OPTIONS_KEY (asRecord raw)"
proof -
  let ?s = "f (readRecoveryState (asRecord raw))"
  show "readRecoveryState (asRecord (withRecoveryState raw f)) = ?s"
  proof (cases "rs_fallback ?s \<noteq> None \<or> rs_failed ?s \<noteq> []")
    case True
    then show ?thesis using assms by (simp add: withRecoveryState_def Let_def read_state_json)
  next
    case False
    then have "?s = \<lparr>rs_fallback = None, rs_failed = []\<rparr>" by (cases ?s) simp
    moreover have "map_of (map_delete AIF_RUNTIME_RECOVERY_OPTIONS_KEY (asRecord raw)) AIF_RUNTIME_RECOVERY_OPTIONS_KEY = None"
      by simp
    ultimately show ?thesis by (simp add: withRecoveryState_def Let_def read_no_state)
  qed
  show "map_delete AIF_RUNTIME_RECOVERY_OPTIONS_KEY (asRecord (withRecoveryState raw f)) =
      map_delete AIF_RUNTIME_RECOVERY_OPTIONS_KEY (asRecord raw)"
    by (simp add: withRecoveryState_def Let_def)
qed

lemma stage_key_inject [simp]: "stage_key a = stage_key b \<longleftrightarrow> a = b"
  by (cases a; cases b) simp_all

lemma set_map_set_entries: "(k, v) \<in> set (map_set k' v' m) \<Longrightarrow> (k, v) \<in> set m \<or> (k, v) = (k', v')"
  by (induction k' v' m rule: map_set.induct) (auto split: if_splits)

lemma add_failed_ok: "state_ok s \<Longrightarrow> state_ok (add_failed stage pid s)"
  by (auto simp: state_ok_def add_failed_def dest!: set_map_set_entries)

lemma failed_ids_add:
  "failed_ids (add_failed stage pid s) stage' = (if stage' = stage
     then unique_ids (failed_ids s stage @ (case pid of None \<Rightarrow> [] | Some p \<Rightarrow> [p])) else failed_ids s stage')"
  by (simp add: failed_ids_def add_failed_def)

definition adapter_options :: "json option \<Rightarrow> (string \<times> json) list option" where
  "adapter_options raw = fst (splitRuntimeRecoveryOptions raw)"

lemma adapter_options_written:
  "state_ok (f (readRecoveryState (asRecord raw))) \<Longrightarrow> adapter_options (withRecoveryState raw f) = adapter_options raw"
  by (simp add: adapter_options_def splitRuntimeRecoveryOptions_def Let_def written_state(2))

lemma split_state [simp]: "snd (splitRuntimeRecoveryOptions raw) = readRecoveryState (asRecord raw)"
  by (simp add: splitRuntimeRecoveryOptions_def Let_def)

section \<open>Properties\<close>

text \<open>
  C34: A fallback that is stored is read back as it was stored, by its own stage only; the failed profile joins
  those of the stage, those of the other stages stay, and the options of the adapter are not touched.
\<close>

theorem fallback_is_read_back:
  assumes "js_trim pid \<noteq> []" and "1 \<le> n"
  shows "readContextFallbackRuntimeOption (setContextFallbackRuntimeOption raw stage pid previous failed reason n t) stage' =
      (if stage' = stage then Some \<lparr>cf_stage = stage_key stage, cf_profileId = pid, cf_previousProfileId = previous,
         cf_reason = reason, cf_attempt = n, cf_createdAt = t\<rparr> else None) \<and>
    set (readFailedContextProfileIds (setContextFallbackRuntimeOption raw stage pid previous failed reason n t) stage') =
      set (readFailedContextProfileIds raw stage') \<union> {p. stage' = stage \<and> failed = Some p \<and> js_trim p \<noteq> []} \<and>
    adapter_options (setContextFallbackRuntimeOption raw stage pid previous failed reason n t) = adapter_options raw"
proof -
  let ?f = "\<lambda>s. (add_failed stage failed s)\<lparr>rs_fallback := Some
       \<lparr>cf_stage = stage_key stage, cf_profileId = pid, cf_previousProfileId = previous, cf_reason = reason,
        cf_attempt = n, cf_createdAt = t\<rparr>\<rparr>"
  have ok: "state_ok (?f (readRecoveryState (asRecord raw)))"
    using assms add_failed_ok [OF readRecoveryState_ok, of stage failed "asRecord raw"] by (simp add: state_ok_def)
  have ids: "failed_ids (?f s) stage' = failed_ids (add_failed stage failed s) stage'" for s by (simp add: failed_ids_def)
  show ?thesis
    unfolding setContextFallbackRuntimeOption_def
    by (auto simp: readContextFallbackRuntimeOption_def readFailedContextProfileIds_def written_state(1) [of ?f, OF ok]
        adapter_options_written [of ?f, OF ok] ids failed_ids_add split: option.splits)
qed

theorem fallback_is_read_back_witness:
  "readContextFallbackRuntimeOption (setContextFallbackRuntimeOption None Stage_Planner ''q'' (Some ''p'') (Some ''p'')
      Context_Length_Reason 1 ''t'') Stage_Planner \<noteq> None \<and>
   set (readFailedContextProfileIds (setContextFallbackRuntimeOption None Stage_Planner ''q'' (Some ''p'') (Some ''p'')
      Context_Length_Reason 1 ''t'') Stage_Planner) = {''p''}"
proof -
  have 1: "js_trim ''q'' \<noteq> []" "js_trim ''p'' \<noteq> []" by code_simp+
  have 2: "readFailedContextProfileIds None Stage_Planner = []" by code_simp
  show ?thesis using fallback_is_read_back [OF 1(1), of 1 None Stage_Planner "Some ''p''" "Some ''p''"] 1(2) 2 by auto
qed

text \<open>
  Clearing removes the fallback of its own stage and nothing else.
\<close>

theorem clearing_keeps_the_rest:
  "readContextFallbackRuntimeOption (clearContextFallbackRuntimeOption raw stage) stage' =
     (if stage' = stage then None else readContextFallbackRuntimeOption raw stage') \<and>
   readFailedContextProfileIds (clearContextFallbackRuntimeOption raw stage) stage' = readFailedContextProfileIds raw stage' \<and>
   adapter_options (clearContextFallbackRuntimeOption raw stage) = adapter_options raw"
proof -
  let ?f = "\<lambda>s. case rs_fallback s of None \<Rightarrow> s
    | Some f \<Rightarrow> if cf_stage f = stage_key stage then s\<lparr>rs_fallback := None\<rparr> else s"
  have ok: "state_ok (?f (readRecoveryState (asRecord raw)))"
    using readRecoveryState_ok [of "asRecord raw"] by (auto simp: state_ok_def split: option.split)
  show ?thesis
    unfolding clearContextFallbackRuntimeOption_def
    by (auto simp: readContextFallbackRuntimeOption_def readFailedContextProfileIds_def written_state(1) [of ?f, OF ok]
        adapter_options_written [of ?f, OF ok] failed_ids_def split: option.splits)
qed

lemma mark_failed:
  assumes "pid \<noteq> []"
  shows "readContextFallbackRuntimeOption (markContextProfileFailed raw stage (Some pid)) stage' =
      readContextFallbackRuntimeOption raw stage'"
    and "set (readFailedContextProfileIds (markContextProfileFailed raw stage (Some pid)) stage') =
      set (readFailedContextProfileIds raw stage') \<union> {p. stage' = stage \<and> p = pid \<and> js_trim p \<noteq> []}"
    and "adapter_options (markContextProfileFailed raw stage (Some pid)) = adapter_options raw"
proof -
  let ?f = "add_failed stage (Some pid)"
  have ok: "state_ok (?f (readRecoveryState (asRecord raw)))" by (rule add_failed_ok) simp
  have raw: "markContextProfileFailed raw stage (Some pid) = withRecoveryState raw ?f"
    using assms by (simp add: markContextProfileFailed_def)
  have "rs_fallback (?f s) = rs_fallback s" for s by (simp add: add_failed_def)
  then show "readContextFallbackRuntimeOption (markContextProfileFailed raw stage (Some pid)) stage' =
      readContextFallbackRuntimeOption raw stage'"
    unfolding raw by (simp add: readContextFallbackRuntimeOption_def written_state(1) [of ?f, OF ok])
  show "set (readFailedContextProfileIds (markContextProfileFailed raw stage (Some pid)) stage') =
      set (readFailedContextProfileIds raw stage') \<union> {p. stage' = stage \<and> p = pid \<and> js_trim p \<noteq> []}"
    unfolding raw by (auto simp: readFailedContextProfileIds_def written_state(1) [of ?f, OF ok] failed_ids_add)
  show "adapter_options (markContextProfileFailed raw stage (Some pid)) = adapter_options raw"
    unfolding raw by (rule adapter_options_written [of ?f, OF ok])
qed

end
