(* ===== verification/Runtime_Profiles.thy ===== *)
theory Runtime_Profiles
  imports Stage_Policy Js_Text Provider_Meta
begin

text \<open>
  Runtime profiles and the one a stage runs on: the profile table, the project and application defaults, and
  the selection functions of \<open>packages/data/src/index.ts\<close>. The columns of headers and options hold the parsed
  objects. A usage event is kept with the columns the selection reads.
\<close>

datatype profile_mode = Mode_Task | Mode_Plan | Mode_Review | Mode_Chat
datatype stage_or_mode = Of_Stage runtime_stage | Of_Mode profile_mode

fun RUNTIME_STAGE_PROFILE_MODE :: "runtime_stage \<Rightarrow> profile_mode" where
  "RUNTIME_STAGE_PROFILE_MODE Stage_Implementer = Mode_Task"
| "RUNTIME_STAGE_PROFILE_MODE Stage_Reviewer = Mode_Review"
| "RUNTIME_STAGE_PROFILE_MODE Stage_Qa = Mode_Review"
| "RUNTIME_STAGE_PROFILE_MODE Stage_Security = Mode_Review"
| "RUNTIME_STAGE_PROFILE_MODE Stage_Chat = Mode_Chat"
| "RUNTIME_STAGE_PROFILE_MODE _ = Mode_Plan"

fun normalizeRuntimeStage :: "stage_or_mode \<Rightarrow> runtime_stage" where
  "normalizeRuntimeStage (Of_Stage s) = s"
| "normalizeRuntimeStage (Of_Mode Mode_Plan) = Stage_Planner"
| "normalizeRuntimeStage (Of_Mode Mode_Review) = Stage_Reviewer"
| "normalizeRuntimeStage (Of_Mode Mode_Chat) = Stage_Chat"
| "normalizeRuntimeStage (Of_Mode Mode_Task) = Stage_Implementer"

fun runtimeProfileModeForStage :: "stage_or_mode \<Rightarrow> profile_mode" where
  "runtimeProfileModeForStage (Of_Mode m) = m"
| "runtimeProfileModeForStage (Of_Stage s) = RUNTIME_STAGE_PROFILE_MODE s"

section \<open>The tables\<close>

record profile_row =
  pfId :: string
  pfProjectId :: "string option"
  pfName :: string
  pfRuntimeId :: string
  pfProviderId :: string
  pfTransport :: "string option"
  pfBaseUrl :: "string option"
  pfApiKeyEnvVar :: "string option"
  pfDefaultModel :: "string option"
  pfHeaders :: "(string \<times> string) list"
  pfOptions :: "(string \<times> json) list"
  pfEnabled :: bool
  pfLimitSnapshot :: "limit_snapshot option"
  pfLimitUpdatedAt :: "int option"
  pfCreatedAt :: int
  pfUpdatedAt :: int

record profile_usage =
  inputTokens :: int
  outputTokens :: int
  totalTokens :: int
  costUsd :: "rat option"

record usage_event =
  ueProfileId :: "string option"
  ueOutcome :: string
  ueUsage :: profile_usage
  ueCreatedAt :: int

record app_settings =
  saTask :: "string option"
  saPlan :: "string option"
  saReview :: "string option"
  saChat :: "string option"
  saUpdatedAt :: int

record profile_db =
  profiles :: "profile_row list"
  usageEvents :: "usage_event list"
  appSettings :: "app_settings option"

definition findRuntimeProfileById :: "string \<Rightarrow> profile_db \<Rightarrow> profile_row option" where
  "findRuntimeProfileById i pd = List.find (\<lambda>r. pfId r = i) (profiles pd)"

definition update_profiles :: "string \<Rightarrow> (profile_row \<Rightarrow> profile_row) \<Rightarrow> profile_db \<Rightarrow> profile_db" where
  "update_profiles i f pd = pd\<lparr>profiles := map (\<lambda>r. if pfId r = i then f r else r) (profiles pd)\<rparr>"

text \<open>The input of \<open>createRuntimeProfile\<close>; the id is drawn by the caller.\<close>

record profile_input =
  inProjectId :: "string option"
  inName :: string
  inRuntimeId :: string
  inProviderId :: string
  inTransport :: "string option"
  inBaseUrl :: "string option"
  inApiKeyEnvVar :: "string option"
  inDefaultModel :: "string option"
  inHeaders :: "(string \<times> string) list option"
  inOptions :: "(string \<times> json) list option"
  inEnabled :: "bool option"

definition given :: "'a \<Rightarrow> 'a option \<Rightarrow> 'a" where
  "given d v = (case v of None \<Rightarrow> d | Some x \<Rightarrow> x)"

definition createRuntimeProfile :: "string \<Rightarrow> profile_input \<Rightarrow> int \<Rightarrow> profile_db \<Rightarrow> profile_db" where
  "createRuntimeProfile i inp now pd = pd\<lparr>profiles := profiles pd @
     [\<lparr>pfId = i, pfProjectId = inProjectId inp, pfName = inName inp, pfRuntimeId = inRuntimeId inp,
       pfProviderId = inProviderId inp, pfTransport = inTransport inp, pfBaseUrl = inBaseUrl inp,
       pfApiKeyEnvVar = inApiKeyEnvVar inp, pfDefaultModel = inDefaultModel inp,
       pfHeaders = given [] (inHeaders inp), pfOptions = given [] (inOptions inp), pfEnabled = given True (inEnabled inp),
       pfLimitSnapshot = None, pfLimitUpdatedAt = None, pfCreatedAt = now, pfUpdatedAt = now\<rparr>]\<rparr>"

text \<open>The input of \<open>updateRuntimeProfile\<close>: \<^term>\<open>None\<close> is undefined, an inner \<^term>\<open>None\<close> is null.\<close>

record profile_patch =
  ptProjectId :: "string option option"
  ptName :: "string option"
  ptRuntimeId :: "string option"
  ptProviderId :: "string option"
  ptTransport :: "string option option"
  ptBaseUrl :: "string option option"
  ptApiKeyEnvVar :: "string option option"
  ptDefaultModel :: "string option option"
  ptHeaders :: "(string \<times> string) list option option"
  ptOptions :: "(string \<times> json) list option option"
  ptEnabled :: "bool option"

definition patched_profile :: "profile_patch \<Rightarrow> int \<Rightarrow> profile_row \<Rightarrow> profile_row" where
  "patched_profile p now r = r
     \<lparr>pfProjectId := given (pfProjectId r) (ptProjectId p), pfName := given (pfName r) (ptName p),
      pfRuntimeId := given (pfRuntimeId r) (ptRuntimeId p), pfProviderId := given (pfProviderId r) (ptProviderId p),
      pfTransport := given (pfTransport r) (ptTransport p), pfBaseUrl := given (pfBaseUrl r) (ptBaseUrl p),
      pfApiKeyEnvVar := given (pfApiKeyEnvVar r) (ptApiKeyEnvVar p),
      pfDefaultModel := given (pfDefaultModel r) (ptDefaultModel p),
      pfHeaders := given (pfHeaders r) (map_option (given []) (ptHeaders p)),
      pfOptions := given (pfOptions r) (map_option (given []) (ptOptions p)),
      pfEnabled := given (pfEnabled r) (ptEnabled p), pfUpdatedAt := now\<rparr>"

definition updateRuntimeProfile :: "string \<Rightarrow> profile_patch \<Rightarrow> int \<Rightarrow> profile_db \<Rightarrow> profile_db" where
  "updateRuntimeProfile i p now pd = update_profiles i (patched_profile p now) pd"

definition persistRuntimeProfileLimitSnapshot ::
    "bool \<Rightarrow> string \<Rightarrow> limit_snapshot \<Rightarrow> int \<Rightarrow> profile_db \<Rightarrow> string + profile_db" where
  "persistRuntimeProfileLimitSnapshot enabled i s now pd =
     (if \<not> enabled then Inr pd
      else case normalizeRuntimeLimitSnapshot s of
          Inl e \<Rightarrow> Inl e
        | Inr n \<Rightarrow> Inr (update_profiles i (\<lambda>r. r\<lparr>pfLimitSnapshot := Some n, pfLimitUpdatedAt := Some now\<rparr>) pd))"

definition clearRuntimeProfileLimitSnapshot :: "bool \<Rightarrow> string \<Rightarrow> int \<Rightarrow> profile_db \<Rightarrow> profile_db" where
  "clearRuntimeProfileLimitSnapshot enabled i now pd =
     (if \<not> enabled then pd else update_profiles i (\<lambda>r. r\<lparr>pfLimitSnapshot := None, pfLimitUpdatedAt := Some now\<rparr>) pd)"

definition deleteRuntimeProfile :: "string \<Rightarrow> profile_db \<Rightarrow> profile_db" where
  "deleteRuntimeProfile i pd = pd\<lparr>profiles := filter (\<lambda>r. pfId r \<noteq> i) (profiles pd)\<rparr>"

definition listRuntimeProfiles :: "string option \<Rightarrow> bool \<Rightarrow> bool \<Rightarrow> profile_db \<Rightarrow> profile_row list" where
  "listRuntimeProfiles pid includeGlobal enabledOnly pd =
     sort_key pfCreatedAt (filter (\<lambda>r.
       (truthy pid \<longrightarrow> pfProjectId r = pid \<or> (includeGlobal \<and> pfProjectId r = None)) \<and>
       (enabledOnly \<longrightarrow> pfEnabled r)) (profiles pd))"

definition isRuntimeProfileVisibleToProject :: "string \<Rightarrow> string option \<Rightarrow> profile_db \<Rightarrow> bool" where
  "isRuntimeProfileVisibleToProject pid i pd =
     (case i of None \<Rightarrow> True
      | Some k \<Rightarrow> (case findRuntimeProfileById k pd of None \<Rightarrow> False
         | Some r \<Rightarrow> pfProjectId r = None \<or> pfProjectId r = Some pid))"

definition isRuntimeProfileEligibleForAppDefaults :: "string option \<Rightarrow> profile_db \<Rightarrow> bool" where
  "isRuntimeProfileEligibleForAppDefaults i pd =
     (case i of None \<Rightarrow> True
      | Some k \<Rightarrow> (case findRuntimeProfileById k pd of None \<Rightarrow> False | Some r \<Rightarrow> pfProjectId r = None \<and> pfEnabled r))"

section \<open>Usage\<close>

definition success_events :: "string \<Rightarrow> profile_db \<Rightarrow> usage_event list" where
  "success_events i pd = filter (\<lambda>u. ueProfileId u = Some i \<and> ueOutcome u = ''success'') (usageEvents pd)"

text \<open>
  The newest successful run of each profile. The join is on the profile and the instant only, so an event of
  another outcome at that instant is joined as well; of several rows the first is taken.
\<close>

definition latest_usage :: "profile_db \<Rightarrow> string \<Rightarrow> (profile_usage \<times> int) option" where
  "latest_usage pd i =
     (case success_events i pd of
        [] \<Rightarrow> None
      | us \<Rightarrow> (let t = Max (set (map ueCreatedAt us)) in
          map_option (\<lambda>u. (ueUsage u, ueCreatedAt u))
            (List.find (\<lambda>u. ueProfileId u = Some i \<and> ueCreatedAt u = t) (usageEvents pd))))"

definition findLatestRuntimeProfileUsageByIds :: "string list \<Rightarrow> profile_db \<Rightarrow> (string \<times> (profile_usage \<times> int)) list" where
  "findLatestRuntimeProfileUsageByIds ids pd =
     concat (map (\<lambda>i. case latest_usage pd i of None \<Rightarrow> [] | Some u \<Rightarrow> [(i, u)])
       (js_unique (filter (\<lambda>i. i \<noteq> []) ids)))"

text \<open>What is answered of a profile: the row, with its last usage.\<close>

type_synonym profile_response = "profile_row \<times> (profile_usage \<times> int) option"

definition toRuntimeProfileResponse :: "profile_row \<Rightarrow> (profile_usage \<times> int) option \<Rightarrow> profile_response" where
  "toRuntimeProfileResponse r u = (r, u)"

definition getRuntimeProfileResponseById :: "string \<Rightarrow> profile_db \<Rightarrow> profile_response option" where
  "getRuntimeProfileResponseById i pd =
     map_option (\<lambda>r. toRuntimeProfileResponse r (map_of (findLatestRuntimeProfileUsageByIds [i] pd) i))
       (findRuntimeProfileById i pd)"

definition listRuntimeProfileResponses :: "string option \<Rightarrow> bool \<Rightarrow> bool \<Rightarrow> profile_db \<Rightarrow> profile_response list" where
  "listRuntimeProfileResponses pid includeGlobal enabledOnly pd =
     (let rows = listRuntimeProfiles pid includeGlobal enabledOnly pd;
          usage = findLatestRuntimeProfileUsageByIds (map pfId rows) pd
      in map (\<lambda>r. toRuntimeProfileResponse r (map_of usage (pfId r))) rows)"

section \<open>Defaults\<close>

definition empty_settings :: "int \<Rightarrow> app_settings" where
  "empty_settings now = \<lparr>saTask = None, saPlan = None, saReview = None, saChat = None, saUpdatedAt = now\<rparr>"

definition ensureAppSettingsRow :: "int \<Rightarrow> profile_db \<Rightarrow> profile_db \<times> app_settings" where
  "ensureAppSettingsRow now pd =
     (case appSettings pd of Some s \<Rightarrow> (pd, s)
      | None \<Rightarrow> (pd\<lparr>appSettings := Some (empty_settings now)\<rparr>, empty_settings now))"

definition updateAppSettings ::
    "string option option \<Rightarrow> string option option \<Rightarrow> string option option \<Rightarrow> string option option \<Rightarrow> int \<Rightarrow>
     profile_db \<Rightarrow> profile_db" where
  "updateAppSettings task plan review chat now pd =
     (let (pd1, s) = ensureAppSettingsRow now pd in
      pd1\<lparr>appSettings := Some (s\<lparr>saTask := given (saTask s) task, saPlan := given (saPlan s) plan,
        saReview := given (saReview s) review, saChat := given (saChat s) chat, saUpdatedAt := now\<rparr>)\<rparr>)"

definition updateProjectRuntimeDefaults ::
    "string \<Rightarrow> string option option \<Rightarrow> string option option \<Rightarrow> string option option \<Rightarrow> string option option \<Rightarrow> int \<Rightarrow>
     db \<Rightarrow> db" where
  "updateProjectRuntimeDefaults pid task plan review chat now d = d\<lparr>projects := map (\<lambda>p.
     if prId p \<noteq> pid then p
     else p\<lparr>defaultTaskRuntimeProfileId := given (defaultTaskRuntimeProfileId p) task,
       defaultPlanRuntimeProfileId := given (defaultPlanRuntimeProfileId p) plan,
       defaultReviewRuntimeProfileId := given (defaultReviewRuntimeProfileId p) review,
       defaultChatRuntimeProfileId := given (defaultChatRuntimeProfileId p) chat, prUpdatedAt := now\<rparr>) (projects d)\<rparr>"

definition getProjectRuntimeProfileId :: "project_row option \<Rightarrow> profile_mode \<Rightarrow> string option" where
  "getProjectRuntimeProfileId p m =
     (let task = Option.bind p defaultTaskRuntimeProfileId in
      case m of Mode_Chat \<Rightarrow> Option.bind p defaultChatRuntimeProfileId
      | Mode_Plan \<Rightarrow> orelse (Option.bind p defaultPlanRuntimeProfileId) task
      | Mode_Review \<Rightarrow> orelse (Option.bind p defaultReviewRuntimeProfileId) task
      | Mode_Task \<Rightarrow> task)"

definition app_candidates :: "app_settings \<Rightarrow> profile_mode \<Rightarrow> string option list" where
  "app_candidates s m =
     (case m of Mode_Chat \<Rightarrow> [saChat s] | Mode_Plan \<Rightarrow> [saPlan s, saTask s]
      | Mode_Review \<Rightarrow> [saReview s, saTask s] | Mode_Task \<Rightarrow> [saTask s])"

definition app_usable :: "profile_db \<Rightarrow> string option \<Rightarrow> bool" where
  "app_usable pd c = (truthy c \<and> (case findRuntimeProfileById (the c) pd of None \<Rightarrow> False
     | Some r \<Rightarrow> pfProjectId r = None \<and> pfEnabled r))"

definition getAppDefaultRuntimeProfileId :: "stage_or_mode \<Rightarrow> int \<Rightarrow> profile_db \<Rightarrow> profile_db \<times> string option" where
  "getAppDefaultRuntimeProfileId sm now pd =
     (let (pd1, s) = ensureAppSettingsRow now pd in
      (pd1, Option.bind (List.find (app_usable pd1) (js_unique (app_candidates s (runtimeProfileModeForStage sm)))) id))"

section \<open>The profile of a stage\<close>

datatype selection_source = Task_Override | Project_Default | System_Default | No_Source

record profile_selection =
  selSource :: selection_source
  selProfile :: "profile_response option"
  selTaskProfileId :: "string option"
  selProjectProfileId :: "string option"
  selSystemProfileId :: "string option"
  selStage :: runtime_stage
  selMode :: profile_mode

definition findProjectById :: "string \<Rightarrow> db \<Rightarrow> project_row option" where
  "findProjectById i d = List.find (\<lambda>p. prId p = i) (projects d)"

definition runtimeProfileAllowedForStage :: "(string \<Rightarrow> int option) \<Rightarrow> profile_row \<Rightarrow> runtime_stage \<Rightarrow> bool" where
  "runtimeProfileAllowedForStage dp r s = cd_allowed (evaluateRuntimeProfileStageCapability dp
     \<lparr>policyProfileId = Some (pfId r), policyRuntimeId = pfRuntimeId r, policyProviderId = pfProviderId r,
      policyOptions = Some (JObj (pfOptions r))\<rparr> s)"

definition usable_profile :: "(string \<Rightarrow> int option) \<Rightarrow> runtime_stage \<Rightarrow> profile_row option \<Rightarrow> bool" where
  "usable_profile dp s r = (case r of None \<Rightarrow> False | Some p \<Rightarrow> pfEnabled p \<and> runtimeProfileAllowedForStage dp p s)"

text \<open>The loop over the candidates; \<open>lookup\<close> reads the table or the rows read before.\<close>

fun first_usable ::
    "(string \<Rightarrow> int option) \<Rightarrow> runtime_stage \<Rightarrow> string set \<Rightarrow> (string \<Rightarrow> profile_row option) \<Rightarrow>
     (selection_source \<times> string option) list \<Rightarrow> selection_source \<times> profile_row option" where
  "first_usable dp s excluded lookup [] = (No_Source, None)"
| "first_usable dp s excluded lookup ((src, c) # cs) =
     (if \<not> truthy c \<or> the c \<in> excluded \<or> \<not> usable_profile dp s (lookup (the c))
      then first_usable dp s excluded lookup cs
      else (src, lookup (the c)))"

record select_input =
  siTaskId :: "string option"
  siProjectId :: "string option"
  siMode :: stage_or_mode
  siSystem :: "string option"

definition resolve_excluding ::
    "(string \<Rightarrow> int option) \<Rightarrow> string list \<Rightarrow> select_input \<Rightarrow> db \<Rightarrow> profile_db \<Rightarrow> profile_selection" where
  "resolve_excluding dp excluded inp d pd =
     (let s = normalizeRuntimeStage (siMode inp); m = runtimeProfileModeForStage (siMode inp);
          task = (if truthy (siTaskId inp) then findTaskById (the (siTaskId inp)) d else None);
          pid = orelse (siProjectId inp) (map_option projectId task);
          project = (if truthy pid then findProjectById (the pid) d else None);
          taskId' = Option.bind task runtimeProfileId; projectId' = getProjectRuntimeProfileId project m;
          chosen = first_usable dp s (set excluded) (\<lambda>i. findRuntimeProfileById i pd)
            [(Task_Override, taskId'), (Project_Default, projectId'), (System_Default, siSystem inp)]
      in \<lparr>selSource = fst chosen,
          selProfile = map_option (\<lambda>r. toRuntimeProfileResponse r
            (map_of (findLatestRuntimeProfileUsageByIds [pfId r] pd) (pfId r))) (snd chosen),
          selTaskProfileId = taskId', selProjectProfileId = projectId', selSystemProfileId = siSystem inp,
          selStage = s, selMode = m\<rparr>)"

definition resolveEffectiveRuntimeProfile ::
    "(string \<Rightarrow> int option) \<Rightarrow> select_input \<Rightarrow> db \<Rightarrow> profile_db \<Rightarrow> profile_selection" where
  "resolveEffectiveRuntimeProfile dp inp d pd = resolve_excluding dp [] inp d pd"

definition resolveEffectiveRuntimeProfileExcluding ::
    "(string \<Rightarrow> int option) \<Rightarrow> string list \<Rightarrow> select_input \<Rightarrow> db \<Rightarrow> profile_db \<Rightarrow> profile_selection" where
  "resolveEffectiveRuntimeProfileExcluding dp excluded inp d pd = resolve_excluding dp excluded inp d pd"

text \<open>
  The same for a list of tasks: the projects, profiles and usages are read at once, and each task is resolved
  against what was read. \<open>last_by\<close> is \<open>new Map(rows.map(...))\<close>.
\<close>

definition last_by :: "('a \<Rightarrow> string) \<Rightarrow> 'a list \<Rightarrow> string \<Rightarrow> 'a option" where
  "last_by key rows i = List.find (\<lambda>r. key r = i) (rev rows)"

definition task_candidates ::
    "stage_or_mode \<Rightarrow> string option \<Rightarrow> project_row option \<Rightarrow> task_row \<Rightarrow> (selection_source \<times> string option) list" where
  "task_candidates sm system project t =
     [(Task_Override, runtimeProfileId t),
      (Project_Default, getProjectRuntimeProfileId project (runtimeProfileModeForStage sm)), (System_Default, system)]"

definition resolveEffectiveRuntimeProfilesForTasks ::
    "(string \<Rightarrow> int option) \<Rightarrow> task_row list \<Rightarrow> stage_or_mode \<Rightarrow> string option \<Rightarrow> db \<Rightarrow> profile_db \<Rightarrow>
     (string \<times> profile_selection) list" where
  "resolveEffectiveRuntimeProfilesForTasks dp ts sm system d pd =
     (let s = normalizeRuntimeStage sm; m = runtimeProfileModeForStage sm;
          projectRows = filter (\<lambda>p. prId p \<in> set (map projectId ts)) (projects d);
          project = (\<lambda>t. last_by prId projectRows (projectId t));
          candidates = (\<lambda>t. task_candidates sm system (project t) t);
          stored = (\<lambda>t. candidates (the (last_by taskId ts (taskId t))));
          ids = js_unique (map the (filter truthy (map snd (concat (map candidates ts)))));
          profileRows = filter (\<lambda>r. pfId r \<in> set ids) (profiles pd);
          usage = findLatestRuntimeProfileUsageByIds ids pd
      in foldl (\<lambda>results t.
           let chosen = first_usable dp s {} (last_by pfId profileRows) (stored t);
               sel = \<lparr>selSource = fst chosen,
                 selProfile = map_option (\<lambda>r. toRuntimeProfileResponse r (map_of usage (pfId r))) (snd chosen),
                 selTaskProfileId = runtimeProfileId t, selProjectProfileId = getProjectRuntimeProfileId (project t) m,
                 selSystemProfileId = system, selStage = s, selMode = m\<rparr>
           in if snd chosen = None \<and> taskId t \<in> set (map_keys results) then results else map_set (taskId t) sel results) [] ts)"


section \<open>Lookups\<close>

lemma usage_lookup:
  "map_of (findLatestRuntimeProfileUsageByIds ids pd) i = (if i \<in> set ids \<and> i \<noteq> [] then latest_usage pd i else None)"
proof -
  have "map_of (concat (map (\<lambda>i. case latest_usage pd i of None \<Rightarrow> [] | Some u \<Rightarrow> [(i, u)]) js)) i =
      (if i \<in> set js then latest_usage pd i else None)" for js
    by (induction js) (auto split: option.split)
  then show ?thesis by (simp add: findLatestRuntimeProfileUsageByIds_def)
qed

lemma find_key_Some:
  "distinct (map key rows) \<Longrightarrow> List.find (\<lambda>r. key r = i) rows = Some r \<longleftrightarrow> r \<in> set rows \<and> key r = i"
  by (induction rows) (auto intro: rev_image_eqI)

lemma found_row: "List.find P rows = Some r \<Longrightarrow> r \<in> set rows \<and> P r"
  by (induction rows) (auto split: if_splits)

lemma last_by_eq:
  assumes "distinct (map key rows)"
  shows "last_by key rows i = List.find (\<lambda>r. key r = i) rows"
proof -
  have d: "distinct (map key (rev rows))" using assms by (simp add: rev_map [symmetric])
  show ?thesis
  proof (cases "List.find (\<lambda>r. key r = i) rows")
    case None
    then have "List.find (\<lambda>r. key r = i) (rev rows) = None" by (simp add: find_None_iff)
    then show ?thesis using None by (simp add: last_by_def)
  next
    case (Some r)
    then show ?thesis using find_key_Some [OF assms, of i r] find_key_Some [OF d, of i r] by (simp add: last_by_def)
  qed
qed

lemma find_filtered:
  assumes "distinct (map key rows)" and "i \<in> A"
  shows "last_by key (filter (\<lambda>r. key r \<in> A) rows) i = List.find (\<lambda>r. key r = i) rows"
proof -
  have "distinct (map key (filter (\<lambda>r. key r \<in> A) rows))" using assms(1) by (rule distinct_map_filter)
  note 1 = last_by_eq [OF this, of i]
  have "List.find (\<lambda>r. key r = i) (filter (\<lambda>r. key r \<in> A) rows) = List.find (\<lambda>r. key r = i) rows"
    using assms(2) by (induction rows) auto
  then show ?thesis using 1 by simp
qed


section \<open>Properties\<close>

definition selectable ::
    "(string \<Rightarrow> int option) \<Rightarrow> runtime_stage \<Rightarrow> string set \<Rightarrow> (string \<Rightarrow> profile_row option) \<Rightarrow> string option \<Rightarrow> bool" where
  "selectable dp s excluded lookup c \<longleftrightarrow> truthy c \<and> the c \<notin> excluded \<and> usable_profile dp s (lookup (the c))"

lemma first_usable_Some:
  assumes "first_usable dp s ex look cs = (src, Some r)"
  shows "\<exists>xs c ys. cs = xs @ (src, Some c) # ys \<and> look c = Some r \<and> selectable dp s ex look (Some c) \<and>
    (\<forall>x\<in>set xs. \<not> selectable dp s ex look (snd x))"
  using assms
proof (induction cs)
  case (Cons x cs)
  obtain src' c where x: "x = (src', c)" by fastforce
  show ?case
  proof (cases "selectable dp s ex look c")
    case True
    then have "src = src'" "c = Some (the c)" "look (the c) = Some r"
      using Cons.prems x by (auto simp: selectable_def truthy_def split: if_splits option.splits)
    then show ?thesis using True x by (intro exI [of _ "[]"] exI [of _ "the c"] exI [of _ cs]) simp
  next
    case False
    then have "first_usable dp s ex look cs = (src, Some r)"
      using Cons.prems x by (auto simp: selectable_def split: if_splits)
    then obtain xs c' ys where "cs = xs @ (src, Some c') # ys" "look c' = Some r" "selectable dp s ex look (Some c')"
      "\<forall>x\<in>set xs. \<not> selectable dp s ex look (snd x)" using Cons.IH by blast
    then show ?thesis using False x by (intro exI [of _ "x # xs"] exI [of _ c'] exI [of _ ys]) simp
  qed
qed simp

lemma first_usable_None:
  "snd (first_usable dp s ex look cs) = None \<Longrightarrow> x \<in> set cs \<Longrightarrow> \<not> selectable dp s ex look (snd x)"
  by (induction dp s ex look cs rule: first_usable.induct)
    (auto simp: selectable_def usable_profile_def split: if_splits option.splits)

text \<open>
  The profile of a stage. What the selection answers is enabled, may run the stage under the stage policy
  and is not excluded; it is the first such of the task's override, the project's default and the application's
  default, and no profile is answered only if none of the three is such.
\<close>

theorem selected_profile_is_first_usable:
  assumes "sel = resolveEffectiveRuntimeProfileExcluding dp excluded inp d pd"
    and "cs = [(Task_Override, selTaskProfileId sel), (Project_Default, selProjectProfileId sel),
      (System_Default, selSystemProfileId sel)]"
    and "able = selectable dp (selStage sel) (set excluded) (\<lambda>i. findRuntimeProfileById i pd)"
  shows "(case selProfile sel of
      None \<Rightarrow> (\<forall>c\<in>set cs. \<not> able (snd c))
    | Some (r, u) \<Rightarrow> r \<in> set (profiles pd) \<and> pfEnabled r \<and> runtimeProfileAllowedForStage dp r (selStage sel) \<and>
        pfId r \<notin> set excluded \<and>
        (\<exists>xs ys. cs = xs @ (selSource sel, Some (pfId r)) # ys \<and> (\<forall>c\<in>set xs. \<not> able (snd c))))"
proof -
  let ?look = "\<lambda>i. findRuntimeProfileById i pd"
  let ?c = "first_usable dp (selStage sel) (set excluded) ?look cs"
  have sel: "selSource sel = fst ?c" "map_option fst (selProfile sel) = snd ?c"
    using assms(1,2) by (simp_all add: resolveEffectiveRuntimeProfileExcluding_def resolve_excluding_def Let_def
        toRuntimeProfileResponse_def option.map_comp comp_def option.map_ident)
  show ?thesis
  proof (cases "selProfile sel")
    case None
    then show ?thesis using first_usable_None [of dp "selStage sel" "set excluded" ?look cs] sel(2) assms(3) by auto
  next
    case (Some p)
    obtain r u where p: "p = (r, u)" by fastforce
    have "?c = (selSource sel, Some r)" using sel Some p by (simp add: prod_eq_iff)
    from first_usable_Some [OF this] obtain xs c ys where c: "cs = xs @ (selSource sel, Some c) # ys" "?look c = Some r"
      "selectable dp (selStage sel) (set excluded) ?look (Some c)" "\<forall>x\<in>set xs. \<not> able (snd x)"
      using assms(3) by blast
    have "r \<in> set (profiles pd)" "pfId r = c" using c(2) by (auto simp: findRuntimeProfileById_def find_Some_iff)
    then show ?thesis using c Some p by (auto simp: selectable_def usable_profile_def)
  qed
qed

text \<open>The task's own profile is disabled and the project's default may not plan, so the application's default is taken.\<close>

definition demo_profile_row :: "string \<Rightarrow> profile_row" where
  "demo_profile_row i = \<lparr>pfId = i, pfProjectId = None, pfName = i, pfRuntimeId = ''codex'', pfProviderId = ''openai'',
     pfTransport = None, pfBaseUrl = None, pfApiKeyEnvVar = None, pfDefaultModel = None, pfHeaders = [], pfOptions = [],
     pfEnabled = True, pfLimitSnapshot = None, pfLimitUpdatedAt = None, pfCreatedAt = 0, pfUpdatedAt = 0\<rparr>"

definition demo_profiles :: profile_db where
  "demo_profiles = \<lparr>profiles = [(demo_profile_row ''r1'')\<lparr>pfEnabled := False\<rparr>,
       (demo_profile_row ''r2'')\<lparr>pfOptions := [(''stageCapabilities'', JObj [(''planner'', JBool False)])]\<rparr>,
       demo_profile_row ''r3''],
     usageEvents = [\<lparr>ueProfileId = Some ''r3'', ueOutcome = ''success'',
       ueUsage = \<lparr>inputTokens = 1, outputTokens = 2, totalTokens = 3, costUsd = None\<rparr>, ueCreatedAt = 5\<rparr>],
     appSettings = None\<rparr>"

definition demo_select_db :: db where
  "demo_select_db = empty_db\<lparr>projects := [\<lparr>prId = ''p'', parallelEnabled = False, autoQueueMode = False,
       defaultTaskRuntimeProfileId = Some ''r3'', defaultPlanRuntimeProfileId = Some ''r2'', defaultReviewRuntimeProfileId = None,
       defaultChatRuntimeProfileId = None, prUpdatedAt = 0\<rparr>],
     tasks := [(blank_task ''t'')\<lparr>runtimeProfileId := Some ''r1''\<rparr>, blank_task ''u'']\<rparr>"

definition demo_selection :: profile_selection where
  "demo_selection = resolveEffectiveRuntimeProfileExcluding (\<lambda>_. None) []
     \<lparr>siTaskId = Some ''t'', siProjectId = None, siMode = Of_Mode Mode_Plan, siSystem = Some ''r3''\<rparr> demo_select_db demo_profiles"

lemma demo_selected: "map_option (\<lambda>p. (pfId (fst p), snd p \<noteq> None)) (selProfile demo_selection) = Some (''r3'', True)"
  by code_simp

theorem selected_profile_is_first_usable_witness:
  "\<exists>r u. selProfile demo_selection = Some (r, u) \<and> pfId r = ''r3'' \<and> pfEnabled r \<and>
     runtimeProfileAllowedForStage (\<lambda>_. None) r (selStage demo_selection)"
proof -
  obtain r u where ru: "selProfile demo_selection = Some (r, u)" "pfId r = ''r3''" using demo_selected by fastforce
  from selected_profile_is_first_usable [OF demo_selection_def refl refl] show ?thesis using ru by auto
qed

lemma first_usable_cong:
  "(\<And>c. c \<in> set cs \<Longrightarrow> truthy (snd c) \<Longrightarrow> look (the (snd c)) = look' (the (snd c))) \<Longrightarrow>
   first_usable dp s ex look cs = first_usable dp s ex look' cs"
proof (induction cs)
  case (Cons x cs)
  obtain src c where x: "x = (src, c)" by fastforce
  have "truthy c \<Longrightarrow> look (the c) = look' (the c)" using Cons.prems [of x] x by simp
  then show ?case using Cons x by auto
qed simp

lemma first_usable_candidate:
  assumes "snd (first_usable dp s ex look cs) = Some r"
  shows "\<exists>c\<in>set cs. truthy (snd c) \<and> look (the (snd c)) = Some r"
proof -
  obtain src where "first_usable dp s ex look cs = (src, Some r)" using assms by (metis prod.collapse)
  from first_usable_Some [OF this] show ?thesis by (auto simp: selectable_def)
qed

text \<open>A fold that sets one key for each row, with the same value for rows of the same key.\<close>

lemma fold_set_lookup:
  assumes "\<And>t results. t \<in> set ts \<Longrightarrow> step results t = (if skip t \<and> key t \<in> set (map_keys results) then results else map_set (key t) (val t) results)"
    and "\<And>t t'. t \<in> set ts \<Longrightarrow> t' \<in> set ts \<Longrightarrow> key t = key t' \<Longrightarrow> val t = val t'"
    and "t \<in> set ts"
  shows "map_of (foldl step [] ts) (key t) = Some (val t)"
proof -
  have "\<forall>t\<in>set us. map_of (foldl step [] us) (key t) = Some (val t)" if "set us \<subseteq> set ts" for us
    using that
  proof (induction us rule: rev_induct)
    case (snoc u us)
    let ?m = "foldl step [] us"
    have keys: "set (map_keys (foldl step [] vs)) = key ` set vs" if "set vs \<subseteq> set ts" for vs
      using that
    proof (induction vs rule: rev_induct)
      case (snoc v vs)
      then have "v \<in> set ts" "set (map_keys (foldl step [] vs)) = key ` set vs" by simp_all
      then show ?case using assms(1) [of v "foldl step [] vs"] by auto
    qed simp
    have IH: "\<forall>t\<in>set us. map_of ?m (key t) = Some (val t)" using snoc by simp
    have u: "u \<in> set ts" using snoc.prems by simp
    have val: "val t = val u" if "t \<in> set us" "key t = key u" for t
      using assms(2) [of t u] that snoc.prems u by auto
    show ?case
    proof (cases "skip u \<and> key u \<in> set (map_keys ?m)")
      case True
      then obtain t' where "t' \<in> set us" "key t' = key u" using keys [of us] snoc.prems by auto
      then show ?thesis using True IH val assms(1) [OF u, of ?m] by auto
    next
      case False
      then show ?thesis using IH val assms(1) [OF u, of ?m] by auto
    qed
  qed simp
  then show ?thesis using assms(3) by blast
qed

text \<open>The tables that a batch loads answer for each row like the queries for one row.\<close>

lemma last_by_self:
  assumes "inj_on key (set ts)" and "t \<in> set ts"
  shows "last_by key ts (key t) = Some t"
proof -
  have "last_by key ts (key t) \<noteq> None" using assms(2) by (auto simp: last_by_def find_None_iff)
  then obtain t' where t': "last_by key ts (key t) = Some t'" by blast
  then have "t' \<in> set ts" "key t' = key t" by (auto simp: last_by_def dest: found_row)
  then have "t' = t" using assms by (auto dest: inj_onD)
  then show ?thesis using t' by simp
qed

lemma first_usable_listed:
  assumes "distinct (map pfId (profiles pd))" and listed: "\<And>c. c \<in> set cs \<Longrightarrow> truthy (snd c) \<Longrightarrow> the (snd c) \<in> set ids"
  shows "first_usable dp s {} (last_by pfId (filter (\<lambda>r. pfId r \<in> set ids) (profiles pd))) cs =
    first_usable dp s {} (\<lambda>i. findRuntimeProfileById i pd) cs"
proof (rule first_usable_cong)
  fix c assume "c \<in> set cs" "truthy (snd c)"
  then show "last_by pfId (filter (\<lambda>r. pfId r \<in> set ids) (profiles pd)) (the (snd c)) = findRuntimeProfileById (the (snd c)) pd"
    unfolding findRuntimeProfileById_def using listed by (intro find_filtered [OF assms(1)])
qed

lemma usage_listed:
  assumes "snd (first_usable dp s {} (\<lambda>i. findRuntimeProfileById i pd) cs) = Some r"
    and listed: "\<And>c. c \<in> set cs \<Longrightarrow> truthy (snd c) \<Longrightarrow> the (snd c) \<in> set ids"
  shows "map_of (findLatestRuntimeProfileUsageByIds ids pd) (pfId r) =
    map_of (findLatestRuntimeProfileUsageByIds [pfId r] pd) (pfId r)"
proof -
  obtain c where c: "c \<in> set cs" "truthy (snd c)" "findRuntimeProfileById (the (snd c)) pd = Some r"
    using first_usable_candidate [OF assms(1)] by blast
  have "pfId r = the (snd c)" using c(3) found_row unfolding findRuntimeProfileById_def by fastforce
  then have "pfId r \<in> set ids" using listed [OF c(1,2)] by (simp only:)
  then show ?thesis unfolding usage_lookup by (simp only: if_P list.set singletonI)
qed

text \<open>
  C33: Resolving many tasks at once agrees with resolving them one by one: for every task of the list the answer
  is the one the single selection gives, last usage included.
\<close>

theorem batch_selection_agrees:
  assumes "ids_distinct d" and "distinct (map prId (projects d))" and "distinct (map pfId (profiles pd))"
    and "set ts \<subseteq> set (tasks d)" and "t \<in> set ts" and "taskId t \<noteq> []" and "projectId t \<noteq> []"
  shows "map_of (resolveEffectiveRuntimeProfilesForTasks dp ts sm system d pd) (taskId t) =
    Some (resolveEffectiveRuntimeProfile dp \<lparr>siTaskId = Some (taskId t), siProjectId = None, siMode = sm, siSystem = system\<rparr> d pd)"
proof -
  let ?s = "normalizeRuntimeStage sm" and ?m = "runtimeProfileModeForStage sm"
  let ?project = "\<lambda>t. last_by prId (filter (\<lambda>p. prId p \<in> set (map projectId ts)) (projects d)) (projectId t)"
  let ?cs = "\<lambda>t. task_candidates sm system (?project t) t"
  let ?ids = "js_unique (map the (filter truthy (map snd (concat (map ?cs ts)))))"
  let ?usage = "findLatestRuntimeProfileUsageByIds ?ids pd"
  let ?chosen = "\<lambda>t. first_usable dp ?s {} (last_by pfId (filter (\<lambda>r. pfId r \<in> set ?ids) (profiles pd)))
    (?cs (the (last_by taskId ts (taskId t))))"
  let ?val = "\<lambda>t. \<lparr>selSource = fst (?chosen t),
    selProfile = map_option (\<lambda>r. toRuntimeProfileResponse r (map_of ?usage (pfId r))) (snd (?chosen t)),
    selTaskProfileId = runtimeProfileId t, selProjectProfileId = getProjectRuntimeProfileId (?project t) ?m,
    selSystemProfileId = system, selStage = ?s, selMode = ?m\<rparr>"
  have inj: "inj_on taskId (set ts)" using assms(1,4) by (auto simp: ids_distinct_def distinct_map intro: inj_on_subset)
  have project: "?project t = findProjectById (projectId t) d"
    unfolding findProjectById_def using assms(5) by (intro find_filtered [OF assms(2)]) auto
  have listed: "the (snd c) \<in> set ?ids" if "c \<in> set (?cs t)" "truthy (snd c)" for c
    using that assms(5) by force
  have chosen: "?chosen t = first_usable dp ?s {} (\<lambda>i. findRuntimeProfileById i pd) (?cs t)"
    unfolding last_by_self [OF inj assms(5)] option.sel by (rule first_usable_listed [OF assms(3) listed])
  have usage: "map_option (\<lambda>r. toRuntimeProfileResponse r (map_of ?usage (pfId r))) (snd (?chosen t)) =
      map_option (\<lambda>r. toRuntimeProfileResponse r (map_of (findLatestRuntimeProfileUsageByIds [pfId r] pd) (pfId r))) (snd (?chosen t))"
    using usage_listed [OF _ listed] unfolding chosen by (intro option.map_cong0) (simp only: elem_set)
  have find: "findTaskById (taskId t) d = Some t"
    using assms(1,4,5) find_key_Some [of taskId "tasks d" "taskId t" t] by (auto simp: findTaskById_def ids_distinct_def)
  have cs: "?cs t = [(Task_Override, runtimeProfileId t),
      (Project_Default, getProjectRuntimeProfileId (findProjectById (projectId t) d) ?m), (System_Default, system)]"
    by (simp only: task_candidates_def project)
  have "map_of (resolveEffectiveRuntimeProfilesForTasks dp ts sm system d pd) (taskId t) = Some (?val t)"
    unfolding resolveEffectiveRuntimeProfilesForTasks_def Let_def
    by (rule fold_set_lookup [where skip = "\<lambda>t. snd (?chosen t) = None"]) (use inj assms(5) in \<open>auto dest: inj_onD\<close>)
  also have "?val t = resolveEffectiveRuntimeProfile dp
      \<lparr>siTaskId = Some (taskId t), siProjectId = None, siMode = sm, siSystem = system\<rparr> d pd"
    using find assms(6,7) unfolding usage unfolding chosen cs unfolding project resolveEffectiveRuntimeProfile_def resolve_excluding_def Let_def
    by (simp add: truthy_def orelse_def del: first_usable.simps)
  finally show ?thesis .
qed

theorem batch_selection_agrees_witness:
  "map_of (resolveEffectiveRuntimeProfilesForTasks (\<lambda>_. None) (tasks demo_select_db) (Of_Mode Mode_Plan) (Some ''r3'')
      demo_select_db demo_profiles) ''t'' = Some demo_selection"
proof -
  have "ids_distinct demo_select_db" "distinct (map prId (projects demo_select_db))" "distinct (map pfId (profiles demo_profiles))"
    by (simp_all add: demo_select_db_def demo_profiles_def demo_profile_row_def ids_distinct_def blank_task_def empty_db_def)
  moreover have "(blank_task ''t'')\<lparr>runtimeProfileId := Some ''r1''\<rparr> \<in> set (tasks demo_select_db)" (is "?t \<in> _")
    by (simp add: demo_select_db_def)
  moreover have "taskId ?t = ''t''" "projectId ?t = ''p''" by (simp_all add: blank_task_def)
  ultimately show ?thesis
    using batch_selection_agrees [of demo_select_db demo_profiles "tasks demo_select_db" ?t "\<lambda>_. None" "Of_Mode Mode_Plan" "Some ''r3''"]
    by (simp add: demo_selection_def resolveEffectiveRuntimeProfile_def resolveEffectiveRuntimeProfileExcluding_def)
qed

end
