(* ===== verification/Profile_Routing.thy ===== *)
theory Profile_Routing
  imports Task_Slots Recovery_Options Runtime_Profiles Runtime_Limits Stage_Errors
begin

text \<open>
  Which runtime profile a candidate runs on: the fallback and routing functions of
  \<open>packages/agent/src/coordinator.ts\<close> and what \<open>pollAndProcess\<close> does with a candidate before it claims it. The
  runtime options of the tasks are a store of their own, and so are the one-shot fallbacks that
  \<open>packages/agent/src/subagentQuery.ts\<close> keeps in memory. The decision of the budget gate is a parameter.
\<close>

type_synonym stage_fallbacks = "((string \<times> runtime_stage) \<times> (string \<times> selection_source \<times> int)) list"

record routing_state =
  rs_db :: db
  rs_profiles :: profile_db
  rs_options :: "string \<Rightarrow> json option"
  rs_fallbacks :: stage_fallbacks

datatype budget_status = Budget_Allow | Budget_Warn | Budget_Override | Budget_Block

text \<open>The amounts are the texts that \<open>toFixed\<close> gives.\<close>

record budget_decision =
  bdStatus :: budget_status
  bdSignature :: string
  bdSpent :: string
  bdBudget :: string
  bdPercent :: string
  bdJustification :: string

record routing_env =
  rt_poll :: poll_env
  rt_date :: "string \<Rightarrow> int option"
  rt_limits :: bool
  rt_budget :: "task_row \<Rightarrow> runtime_stage \<Rightarrow> db \<Rightarrow> budget_decision"

section \<open>One-shot fallbacks of a stage\<close>

definition RUNTIME_STAGE_FALLBACK_TTL_MS :: int where
  "RUNTIME_STAGE_FALLBACK_TTL_MS = 5 * 60 * 1000"

definition setRuntimeStageFallbackProfile ::
    "string \<Rightarrow> runtime_stage \<Rightarrow> string option \<Rightarrow> selection_source \<Rightarrow> int \<Rightarrow> stage_fallbacks \<Rightarrow> stage_fallbacks" where
  "setRuntimeStageFallbackProfile i stage pid source now fs =
     (if truthy pid then map_set (i, stage) (the pid, source, now) fs else map_delete (i, stage) fs)"

definition getRuntimeStageFallbackProfile ::
    "string \<Rightarrow> runtime_stage \<Rightarrow> int \<Rightarrow> stage_fallbacks \<Rightarrow> stage_fallbacks \<times> (string \<times> selection_source) option" where
  "getRuntimeStageFallbackProfile i stage now fs =
     (case map_of fs (i, stage) of
        None \<Rightarrow> (fs, None)
      | Some (pid, source, t) \<Rightarrow>
          if RUNTIME_STAGE_FALLBACK_TTL_MS < now - t then (map_delete (i, stage) fs, None) else (fs, Some (pid, source)))"

section \<open>Capacity and endpoint of a profile\<close>

abbreviation resp_id :: "profile_response \<Rightarrow> string" where
  "resp_id p \<equiv> pfId (fst p)"

definition slot_of :: "profile_response \<Rightarrow> slot_profile" where
  "slot_of p = \<lparr>sp_id = resp_id p, sp_runtimeId = pfRuntimeId (fst p), sp_baseUrl = pfBaseUrl (fst p),
     sp_options = Some (JObj (pfOptions (fst p)))\<rparr>"

definition protectedLocalLlmEndpointPort :: "poll_env \<Rightarrow> slot_profile option \<Rightarrow> string option" where
  "protectedLocalLlmEndpointPort e p =
     (case Option.bind p raw_base_url of None \<Rightarrow> None
      | Some b \<Rightarrow> if b = [] then None else
          (case pe_url e b of None \<Rightarrow> None
           | Some u \<Rightarrow> if url_port u = ''8003'' \<or> url_port u = ''8005'' then Some (url_port u) else None))"

definition readProfileContextCapacity :: "poll_env \<Rightarrow> profile_response option \<Rightarrow> int option" where
  "readProfileContextCapacity e p =
     (case p of None \<Rightarrow> None
      | Some q \<Rightarrow> first_alias (read_positive_integer (pe_number e)) (pfOptions (fst q))
          [''contextWindow'', ''nCtx'', ''n_ctx'', ''maxContextTokens'', ''promptTokenBudget''])"

definition same_runtime :: "profile_response \<Rightarrow> profile_response \<Rightarrow> bool" where
  "same_runtime p q \<longleftrightarrow> pfRuntimeId (fst p) = pfRuntimeId (fst q) \<and> pfProviderId (fst p) = pfProviderId (fst q) \<and>
     pfTransport (fst p) = pfTransport (fst q)"

section \<open>Routing of audits\<close>

definition runtimeProfileSourceForTask :: "task_row \<Rightarrow> profile_response \<Rightarrow> selection_source" where
  "runtimeProfileSourceForTask t p =
     (if runtimeProfileId t = Some (resp_id p) then Task_Override
      else if truthy (pfProjectId (fst p)) then Project_Default else System_Default)"

definition audit_route_candidate :: "poll_env \<Rightarrow> profile_response \<Rightarrow> profile_response \<Rightarrow> bool" where
  "audit_route_candidate e cur p \<longleftrightarrow>
     resp_id p \<noteq> resp_id cur \<and> same_runtime p cur \<and>
     protectedLocalLlmEndpointPort e (Some (slot_of p)) = Some ''8005'' \<and>
     (case (readProfileContextCapacity e (Some cur), readProfileContextCapacity e (Some p)) of
        (Some c, Some n) \<Rightarrow> c \<le> n | _ \<Rightarrow> True)"

definition selectProtectedAuditEndpointProfile ::
    "poll_env \<Rightarrow> task_row \<Rightarrow> profile_response \<Rightarrow> profile_db \<Rightarrow> profile_response option" where
  "selectProtectedAuditEndpointProfile e t cur pd =
     (if protectedLocalLlmEndpointPort e (Some (slot_of cur)) \<noteq> Some ''8003'' then None
      else case sort_key (\<lambda>p. (if pfProjectId (fst p) = Some (projectId t) then 0 else 1 :: int,
             - given 0 (readProfileContextCapacity e (Some p))))
           (filter (audit_route_candidate e cur) (listRuntimeProfileResponses (Some (projectId t)) True True pd)) of
         [] \<Rightarrow> None | p # _ \<Rightarrow> Some p)"

definition audit_marker :: "string \<Rightarrow> string" where
  "audit_marker i = ''[runtime-route:audit-8005:'' @ i @ '']''"

definition logged :: "string \<Rightarrow> string \<Rightarrow> db \<Rightarrow> bool" where
  "logged i marker d = list_ex (\<lambda>(j, c, x). j = i \<and> js_includes x marker) (activity d)"

definition applyProtectedAuditEndpointRouting ::
    "poll_env \<Rightarrow> task_row \<Rightarrow> runtime_stage \<Rightarrow> profile_selection \<Rightarrow> int \<Rightarrow> routing_state \<Rightarrow> profile_selection \<times> routing_state" where
  "applyProtectedAuditEndpointRouting e t stage sel now s =
     (case selProfile sel of
        None \<Rightarrow> (sel, s)
      | Some cur \<Rightarrow>
          if stage \<noteq> Stage_Audit then (sel, s)
          else (case selectProtectedAuditEndpointProfile e t cur (rs_profiles s) of
             None \<Rightarrow> (sel, s)
           | Some p \<Rightarrow>
               (let source = runtimeProfileSourceForTask t p; marker = audit_marker (resp_id p) in
                (sel\<lparr>selSource := source, selProfile := Some p\<rparr>,
                 s\<lparr>rs_fallbacks := setRuntimeStageFallbackProfile (taskId t) stage (Some (resp_id p)) source now (rs_fallbacks s),
                   rs_db := (if logged (taskId t) marker (rs_db s) then rs_db s
                     else appendTaskActivityLog (taskId t) (stamped now (marker @
                       '' Protected audit runtime route: selectedProfile='' @ resp_id cur @ '' endpoint=8003 routedProfile='' @
                       resp_id p @ '' endpoint=8005'')) now (rs_db s))\<rparr>))))"

section \<open>Fallback to a larger context\<close>

definition getPreferredContextFallbackProfileIds ::
    "task_row \<Rightarrow> runtime_stage \<Rightarrow> int \<Rightarrow> db \<Rightarrow> profile_db \<Rightarrow> profile_db \<times> string list" where
  "getPreferredContextFallbackProfileIds t stage now d pd =
     (let project = findProjectById (projectId t) d;
          (pd1, planner) = getAppDefaultRuntimeProfileId (Of_Stage Stage_Planner) now pd;
          (pd2, reviewer) = getAppDefaultRuntimeProfileId (Of_Stage Stage_Reviewer) now pd1;
          (pd3, own) = getAppDefaultRuntimeProfileId (Of_Stage stage) now pd2
      in (pd3, js_unique (map the (filter truthy
           [Option.bind project defaultPlanRuntimeProfileId, Option.bind project defaultReviewRuntimeProfileId,
            planner, reviewer, Option.bind project defaultTaskRuntimeProfileId, own]))))"

definition isRuntimeProfileCompatibleForContextFallback ::
    "poll_env \<Rightarrow> profile_response option \<Rightarrow> string set \<Rightarrow> string set \<Rightarrow> profile_response \<Rightarrow> bool" where
  "isRuntimeProfileCompatibleForContextFallback e cur preferred failed p \<longleftrightarrow>
     pfEnabled (fst p) \<and> resp_id p \<notin> failed \<and>
     (case cur of None \<Rightarrow> True | Some c \<Rightarrow> (resp_id c \<noteq> [] \<longrightarrow> resp_id p \<noteq> resp_id c) \<and> same_runtime p c) \<and>
     (case (readProfileContextCapacity e cur, readProfileContextCapacity e (Some p)) of
        (Some c, Some n) \<Rightarrow> c < n
      | (None, None) \<Rightarrow> resp_id p \<in> preferred
      | (None, Some n) \<Rightarrow> True
      | (Some c, None) \<Rightarrow> False)"

definition selectContextFallbackProfile ::
    "poll_env \<Rightarrow> task_row \<Rightarrow> runtime_stage \<Rightarrow> profile_response option \<Rightarrow> string set \<Rightarrow> int \<Rightarrow> db \<Rightarrow> profile_db \<Rightarrow>
     profile_db \<times> profile_response option" where
  "selectContextFallbackProfile e t stage cur failed now d pd =
     (let (pd1, preferred) = getPreferredContextFallbackProfileIds t stage now d pd;
          ps = listRuntimeProfileResponses (Some (projectId t)) True True pd1;
          ordered = List.map_filter (last_by resp_id ps) preferred @ filter (\<lambda>p. resp_id p \<notin> set preferred) ps
      in (pd1, List.find (isRuntimeProfileCompatibleForContextFallback e cur (set preferred) failed) ordered))"

text \<open>The profile that failed: \<open>attempted\<close> is the one the error names.\<close>

definition resolveFailedRuntimeProfileForRecovery ::
    "string option \<Rightarrow> context_fallback option \<Rightarrow> profile_selection \<Rightarrow> profile_db \<Rightarrow>
     profile_response option \<times> string option" where
  "resolveFailedRuntimeProfileForRecovery attempted active sel pd =
     (let p = orelse (Option.bind attempted (\<lambda>i. if i = [] then None else getRuntimeProfileResponseById i pd))
            (orelse (Option.bind active (\<lambda>f. getRuntimeProfileResponseById (cf_profileId f) pd)) (selProfile sel))
      in (p, orelse attempted (orelse (map_option resp_id p) (map_option cf_profileId active))))"


section \<open>The fallback a task has stored\<close>

definition clearContextFallbackForTask :: "string \<Rightarrow> runtime_stage \<Rightarrow> int \<Rightarrow> routing_state \<Rightarrow> routing_state" where
  "clearContextFallbackForTask i stage now s =
     (let cleared = clearContextFallbackRuntimeOption (rs_options s i) stage in
      if findTaskById i (rs_db s) = None \<or> rs_options s i = None \<or> cleared = rs_options s i then s
      else s\<lparr>rs_options := (rs_options s)(i := cleared),
        rs_db := setTaskFields i (\<lambda>r. r\<lparr>updatedAt := now\<rparr>) now (rs_db s),
        rs_fallbacks := setRuntimeStageFallbackProfile i stage None No_Source now (rs_fallbacks s)\<rparr>)"

definition applyDurableRuntimeFallbackSelection ::
    "poll_env \<Rightarrow> task_row \<Rightarrow> runtime_stage \<Rightarrow> profile_selection \<Rightarrow> int \<Rightarrow> routing_state \<Rightarrow> profile_selection \<times> routing_state" where
  "applyDurableRuntimeFallbackSelection e t stage sel now s =
     (let raw = rs_options s (taskId t) in
      case readContextFallbackRuntimeOption raw stage of
        None \<Rightarrow> (sel, s)
      | Some f \<Rightarrow>
          (case (List.find (\<lambda>p. resp_id p = cf_profileId f)
                (listRuntimeProfileResponses (Some (projectId t)) True True (rs_profiles s)), selProfile sel) of
             (Some p, Some cur) \<Rightarrow>
               (let (pd1, preferred) = getPreferredContextFallbackProfileIds t stage now (rs_db s) (rs_profiles s);
                    s1 = s\<lparr>rs_profiles := pd1\<rparr>
                in if isRuntimeProfileCompatibleForContextFallback e (Some cur) (set preferred)
                        (set (readFailedContextProfileIds raw stage)) p
                   then (sel\<lparr>selSource := Task_Override, selProfile := Some p\<rparr>,
                     s1\<lparr>rs_fallbacks := setRuntimeStageFallbackProfile (taskId t) stage (Some (resp_id p)) Task_Override now
                       (rs_fallbacks s1)\<rparr>)
                   else (sel, clearContextFallbackForTask (taskId t) stage now s1))
           | _ \<Rightarrow> (sel, clearContextFallbackForTask (taskId t) stage now s)))"

section \<open>Blocking a candidate\<close>

definition expected_auto :: "task_row \<Rightarrow> bool option" where
  "expected_auto t = (if status t = Plan_Ready then Some (autoMode t) else None)"

definition move_blocked :: "task_row \<Rightarrow> bool \<times> moved" where
  "move_blocked t = (True, move_of t Blocked_External)"

definition candidate_gate :: "task_row \<Rightarrow> string \<Rightarrow> int option \<Rightarrow> int \<Rightarrow> limit_snapshot option \<Rightarrow> gate_input" where
  "candidate_gate t reason after count snapshot =
     \<lparr>g_taskId = taskId t, g_expectedProjectId = Some (projectId t), g_expectedStatus = status t,
      g_expectedAutoMode = expected_auto t, g_blockedFromStatus = status t, g_blockedReason = reason,
      g_retryAfter = after, g_retryCount = count, g_snapshot = snapshot\<rparr>"

definition appendRuntimeBudgetActivity ::
    "budget_decision \<Rightarrow> task_row \<Rightarrow> runtime_stage \<Rightarrow> int \<Rightarrow> db \<Rightarrow> (db \<times> (bool \<times> moved) list) \<times> bool" where
  "appendRuntimeBudgetActivity b t stage now d =
     (let money = ''spent='' @ [CHR 0x24] @ bdSpent b @ '' budget='' @ [CHR 0x24] @ bdBudget b;
          put = (\<lambda>x d. appendTaskActivityLog (taskId t) (stamped now x) now d) in
      case bdStatus b of
        Budget_Allow \<Rightarrow> ((d, []), False)
      | Budget_Warn \<Rightarrow>
          (let marker = ''[runtime-budget:'' @ bdSignature b @ '']'' in
           ((if logged (taskId t) marker d then d
             else put (marker @ '' Runtime budget warning before '' @ stage_key stage @ '': '' @ money @
               '' percent='' @ bdPercent b @ ''%'') d, []), False))
      | Budget_Override \<Rightarrow>
          ((put (''Runtime budget override before '' @ stage_key stage @ '': '' @ money @ '' justification='' @
              bdJustification b) d, []), False)
      | Budget_Block \<Rightarrow>
          (let (d1, applied) = blockTaskForRuntimeGateIfEligible
             (candidate_gate t (''Runtime budget exhausted before '' @ stage_key stage @ '': '' @ money @
                ''. Add task.runtimeOptions.runtimeBudgetOverride.justification to override.'') None (retryCount t) None) now d
           in if applied
              then ((put (''Runtime budget blocked task before '' @ stage_key stage @ '': '' @ money) d1, [move_blocked t]), True)
              else ((d1, []), False)))"

fun scope_key :: "limit_scope \<Rightarrow> string" where
  "scope_key Requests = ''requests''"
| "scope_key Tokens = ''tokens''"
| "scope_key Time_Scope = ''time''"
| "scope_key Spend = ''spend''"
| "scope_key Turn_Usage = ''turn_usage''"
| "scope_key Model_Usage = ''model_usage''"
| "scope_key Tool_Usage = ''tool_usage''"
| "scope_key Other_Scope = ''other''"

fun hint_key :: "hint_source \<Rightarrow> string" where
  "hint_key Snapshot_Reset_At = ''snapshot_reset_at''"
| "hint_key Snapshot_Retry_After = ''snapshot_retry_after''"
| "hint_key Window_Reset_At = ''window_reset_at''"
| "hint_key Window_Retry_After = ''window_retry_after''"
| "hint_key No_Hint = ''none''"

fun jsnum_text :: "jsnum \<Rightarrow> string" where
  "jsnum_text (Fin q) = js_number_text q"
| "jsnum_text NaN = ''NaN''"
| "jsnum_text PosInf = ''Infinity''"
| "jsnum_text NegInf = ''-Infinity''"

definition resolveRuntimeGateRetryAfter :: "gate_decision \<Rightarrow> int \<Rightarrow> int \<Rightarrow> string + int \<times> string" where
  "resolveRuntimeGateRetryAfter g count now =
     (case (hintResetAt (futureHint g), resetAtMs (futureHint g), isFuture (futureHint g)) of
        (Some _, Some t, True) \<Rightarrow> Inr (t, if hintSource (futureHint g) \<in> {Snapshot_Retry_After, Window_Retry_After}
          then ''retryAfterSeconds'' else ''resetAt'')
      | _ \<Rightarrow>
          (case hintRetryAfterSeconds (futureHint g) of
             Some q \<Rightarrow> if 0 \<le> q then (case date_text (of_int now + q * 1000) of
                 Inl x \<Rightarrow> Inl x | Inr _ \<Rightarrow> Inr (js_trunc (of_int now + q * 1000), ''retryAfterSeconds''))
               else Inr (now + getDeterministicBackoffMinutes count * 60000, ''deterministic_backoff'')
           | None \<Rightarrow> Inr (now + getDeterministicBackoffMinutes count * 60000, ''deterministic_backoff'')))"

definition buildRuntimeGateBlockedReason :: "gate_decision \<Rightarrow> string" where
  "buildRuntimeGateBlockedReason g =
     (let hint = ''hint='' @ hint_key (hintSource (futureHint g)) @ '')'';
          scope = (case violatedWindow g of Some w \<Rightarrow> scope_key (windowScope w)
            | None \<Rightarrow> (case Option.bind (gateSnapshot g) primaryScope of Some c \<Rightarrow> scope_key c | None \<Rightarrow> ''runtime''));
          pre = ''Coordinator pre-start runtime gate: '' @ scope in
      if gateReason g \<noteq> Exact_Threshold then pre @ '' limit still blocked ('' @ hint
      else (case violatedWindow g of
          None \<Rightarrow> pre @ '' threshold reached ('' @ hint
        | Some w \<Rightarrow>
            (case (percentRemaining w, orelse (windowWarningThreshold w) (Option.bind (gateSnapshot g) limitWarningThreshold)) of
               (Some p, Some th) \<Rightarrow> pre @ '' threshold reached ('' @ jsnum_text p @ ''% <= '' @ jsnum_text th @ ''%; '' @ hint
             | _ \<Rightarrow> pre @ '' threshold reached ('' @ hint)))"

fun coordinator_stage_key :: "coordinator_stage \<Rightarrow> string" where
  "coordinator_stage_key Requirements_Analyst = ''requirements-analyst''"
| "coordinator_stage_key Researcher = ''researcher''"
| "coordinator_stage_key Designer = ''designer''"
| "coordinator_stage_key Planner = ''planner''"
| "coordinator_stage_key Plan_Checker = ''plan-checker''"
| "coordinator_stage_key Implementer = ''implementer''"
| "coordinator_stage_key Reviewer = ''reviewer''"
| "coordinator_stage_key Qa_Stage = ''qa''"

fun selection_source_text :: "selection_source \<Rightarrow> string" where
  "selection_source_text Task_Override = ''task_override''"
| "selection_source_text Project_Default = ''project_default''"
| "selection_source_text System_Default = ''system_default''"
| "selection_source_text No_Source = ''none''"

definition proactivelyBlockTaskForRuntimeGate ::
    "task_row \<Rightarrow> coordinator_stage \<Rightarrow> profile_selection \<Rightarrow> gate_decision \<Rightarrow> int \<Rightarrow> db \<Rightarrow> string + db \<times> (bool \<times> moved) list" where
  "proactivelyBlockTaskForRuntimeGate t st sel g now d =
     (case resolveRuntimeGateRetryAfter g (retryCount t) now of
        Inl e \<Rightarrow> Inl e
      | Inr (after, source) \<Rightarrow>
     (case (case gateSnapshot g of None \<Rightarrow> Inr None | Some s \<Rightarrow> map_sum id Some (normalizeRuntimeLimitSnapshot s)) of
        Inl e \<Rightarrow> Inl e
      | Inr snapshot \<Rightarrow>
          (let (d1, applied) = blockTaskForRuntimeGateIfEligible
             (candidate_gate t (buildRuntimeGateBlockedReason g) (Some after) (retryCount t + 1) snapshot) now d
           in Inr (if applied
              then (appendTaskActivityLog (taskId t) (stamped now (''Coordinator runtime gate blocked task before '' @
                  coordinator_stage_key st @ '': profile='' @ (case selProfile sel of None \<Rightarrow> ''none'' | Some p \<Rightarrow> resp_id p) @
                  '' source='' @ selection_source_text (selSource sel) @ '' retryAfter='' @ toISOString after @
                  '' retryAfterSource='' @ source)) now d1, [move_blocked t])
              else (d1, [])))))"

definition buildNoImplementationCapableRuntimeReason :: "profile_selection \<Rightarrow> string" where
  "buildNoImplementationCapableRuntimeReason sel =
     (let part = (\<lambda>label i. if truthy i then [label @ the i] else []);
          configured = js_join '', '' (part ''task='' (selTaskProfileId sel) @ part ''project='' (selProjectProfileId sel) @
            part ''system='' (selSystemProfileId sel))
      in ''runtime_stage_not_capable: No implementation-capable runtime profile is configured. '' @
         ''Select a profile explicitly declared capable for tool-using implementation or pass a local '' @
         ''Qwen implementation canary before retry. configured='' @ (if configured = [] then ''none'' else configured))"

definition proactivelyBlockTaskForNoImplementationCapableRuntime ::
    "task_row \<Rightarrow> profile_selection \<Rightarrow> int \<Rightarrow> db \<Rightarrow> db \<times> (bool \<times> moved) list" where
  "proactivelyBlockTaskForNoImplementationCapableRuntime t sel now d =
     (let reason = buildNoImplementationCapableRuntimeReason sel;
          (d1, ms) = coordinator_updateTaskStatus (taskId t) Blocked_External
            (\<lambda>r. r\<lparr>blockedReason := Some reason, blockedFromStatus := Some (status t), retryAfter := None,
               retryCount := retryCount t, manualReviewRequired := False\<rparr>)
            (Some reason) (title t) (status t) now d
      in (appendTaskActivityLog (taskId t)
           (stamped now ''Coordinator blocked before implementer: no implementation-capable runtime profile configured'') now d1, ms))"


section \<open>A candidate before its claim\<close>

definition fallbackStagesForCoordinatorTask :: "coordinator_stage \<Rightarrow> task_row \<Rightarrow> db \<Rightarrow> runtime_stage list" where
  "fallbackStagesForCoordinatorTask st t d =
     (if st = Reviewer then [Stage_Reviewer, Stage_Security] else [runtimeStageForCoordinatorTask st t d])"

definition shouldBlockOnRuntimeLimit :: "runtime_stage \<Rightarrow> bool" where
  "shouldBlockOnRuntimeLimit s \<longleftrightarrow> s = Stage_Implementer \<or> s = Stage_Audit \<or> s = Stage_Synthesis"

definition runtimeSelectionHasConfiguredCandidates :: "profile_selection \<Rightarrow> bool" where
  "runtimeSelectionHasConfiguredCandidates sel \<longleftrightarrow>
     truthy (selTaskProfileId sel) \<or> truthy (selProjectProfileId sel) \<or> truthy (selSystemProfileId sel)"

definition gate_profile :: "profile_response \<Rightarrow> runtime_profile" where
  "gate_profile p = \<lparr>profileId = resp_id p, profileLimitSnapshot = pfLimitSnapshot (fst p)\<rparr>"

definition gate_of :: "routing_env \<Rightarrow> profile_selection \<Rightarrow> int \<Rightarrow> string + gate_decision" where
  "gate_of e sel now = evaluateRuntimeLimitGate (rt_date e) (rt_limits e) (map_option gate_profile (selProfile sel)) now"

definition stage_input :: "task_row \<Rightarrow> runtime_stage \<Rightarrow> string option \<Rightarrow> select_input" where
  "stage_input t stage system =
     \<lparr>siTaskId = Some (taskId t), siProjectId = Some (projectId t), siMode = Of_Stage stage, siSystem = system\<rparr>"

definition set_fallbacks :: "task_row \<Rightarrow> runtime_stage list \<Rightarrow> string option \<Rightarrow> selection_source \<Rightarrow> int \<Rightarrow> routing_state \<Rightarrow> routing_state" where
  "set_fallbacks t stages pid source now s =
     s\<lparr>rs_fallbacks := fold (\<lambda>stage. setRuntimeStageFallbackProfile (taskId t) stage pid source now) stages (rs_fallbacks s)\<rparr>"

text \<open>The profile before the limits are looked at: the selection, the stored fallback, the audit route.\<close>

definition choose_profile :: "routing_env \<Rightarrow> task_row \<Rightarrow> runtime_stage \<Rightarrow> int \<Rightarrow> routing_state \<Rightarrow> profile_selection \<times> routing_state" where
  "choose_profile e t stage now s =
     (let (pd1, system) = getAppDefaultRuntimeProfileId (Of_Stage stage) now (rs_profiles s);
          s1 = s\<lparr>rs_profiles := pd1\<rparr>;
          sel0 = resolveEffectiveRuntimeProfile (rt_date e) (stage_input t stage system) (rs_db s1) pd1;
          (sel1, s2) =
            (case readContextFallbackRuntimeOption (rs_options s1 (taskId t)) stage of
               None \<Rightarrow> (sel0, s1)
             | Some f \<Rightarrow>
                 (let (sel, s') = applyDurableRuntimeFallbackSelection (rt_poll e) t stage sel0 now s1 in
                  (sel, if map_option resp_id (selProfile sel) = Some (cf_profileId f)
                     then s'\<lparr>rs_db := appendTaskActivityLog (taskId t) (stamped now (''Runtime one-shot fallback before '' @
                       stage_key stage @ '': selectedProfile='' @ cf_profileId f @ '' previousProfile='' @
                       given ''none'' (cf_previousProfileId f))) now (rs_db s')\<rparr>
                     else s')))
      in applyProtectedAuditEndpointRouting (rt_poll e) t stage sel1 now s2)"

text \<open>The limit gate with its one fallback; the answer is the selection and the gate's decision about it.\<close>

definition gate_with_fallback ::
    "routing_env \<Rightarrow> coordinator_stage \<Rightarrow> task_row \<Rightarrow> runtime_stage \<Rightarrow> runtime_stage list \<Rightarrow> profile_selection \<Rightarrow> int \<Rightarrow> routing_state \<Rightarrow>
     string + (profile_selection \<times> gate_decision) \<times> routing_state" where
  "gate_with_fallback e st t stage stages sel now s =
     (case gate_of e sel now of
        Inl x \<Rightarrow> Inl x
      | Inr g \<Rightarrow>
          if \<not> gateBlocked g \<or> shouldBlockOnRuntimeLimit stage \<or> \<not> truthy (map_option resp_id (selProfile sel))
          then Inr ((sel, g), s)
          else
            (let cur = the (selProfile sel);
                 (pd1, system) = getAppDefaultRuntimeProfileId (Of_Stage stage) now (rs_profiles s);
                 s1 = s\<lparr>rs_profiles := pd1\<rparr>;
                 other = resolveEffectiveRuntimeProfileExcluding (rt_date e) [resp_id cur] (stage_input t stage system) (rs_db s1) pd1
             in case gate_of e other now of
                  Inl x \<Rightarrow> Inl x
                | Inr g2 \<Rightarrow>
                    (case selProfile other of
                       None \<Rightarrow> Inr ((sel, g), s1)
                     | Some p \<Rightarrow>
                         if gateBlocked g2 then Inr ((sel, g), s1)
                         else Inr ((other, g2),
                           (set_fallbacks t stages (Some (resp_id p)) (selSource other) now s1)\<lparr>rs_db :=
                             appendTaskActivityLog (taskId t) (stamped now (''Runtime gate fallback before '' @ stage_key stage @
                               '': blockedProfile='' @ resp_id cur @ '' blockedSource='' @ selection_source_text (selSource sel) @
                               '' selectedProfile='' @ resp_id p @ '' selectedSource='' @ selection_source_text (selSource other)))
                               now (rs_db s1)\<rparr>))))"

text \<open>The answer holds the profile the candidate is to run on, \<^term>\<open>None\<close> when it is passed over.\<close>

definition prepare_candidate ::
    "routing_env \<Rightarrow> coordinator_stage \<Rightarrow> task_row \<Rightarrow> int \<Rightarrow> routing_state \<Rightarrow>
     string + (routing_state \<times> (bool \<times> moved) list) \<times> profile_selection option" where
  "prepare_candidate e st t now s0 =
     (let stage = runtimeStageForCoordinatorTask st t (rs_db s0);
          stages = fallbackStagesForCoordinatorTask st t (rs_db s0);
          s1 = set_fallbacks t stages None No_Source now s0
      in case appendRuntimeBudgetActivity (rt_budget e t stage (rs_db s1)) t stage now (rs_db s1) of
           ((d1, ms), True) \<Rightarrow> Inr ((s1\<lparr>rs_db := d1\<rparr>, ms), None)
         | ((d1, ms), False) \<Rightarrow>
             (let (sel, s2) = choose_profile e t stage now (s1\<lparr>rs_db := d1\<rparr>) in
              if stage = Stage_Implementer \<and> selProfile sel = None \<and> runtimeSelectionHasConfiguredCandidates sel
              then (let (d2, ms') = proactivelyBlockTaskForNoImplementationCapableRuntime t sel now (rs_db s2)
                    in Inr ((s2\<lparr>rs_db := d2\<rparr>, ms @ ms'), None))
              else
                (case gate_with_fallback e st t stage stages sel now s2 of
                   Inl x \<Rightarrow> Inl x
                 | Inr ((sel', g), s3) \<Rightarrow>
                     if \<not> gateBlocked g then Inr ((s3, ms), Some sel')
                     else (case proactivelyBlockTaskForRuntimeGate t st sel' g now (rs_db s3) of
                         Inl x \<Rightarrow> Inl x
                       | Inr (d3, ms') \<Rightarrow> Inr ((s3\<lparr>rs_db := d3\<rparr>, ms @ ms'), None)))))"

text \<open>
  What the loop does with a candidate that its project has room for: the preparation and, for a candidate that is
  not blocked by it, the start. The first part of the answer is \<^term>\<open>None\<close> when the preparation ends it.
\<close>

definition start_candidate ::
    "routing_env \<Rightarrow> coordinator_stage \<Rightarrow> task_row \<Rightarrow> int \<Rightarrow> slots \<Rightarrow> routing_state \<Rightarrow>
     string + start_result option \<times> slots \<times> routing_state \<times> (bool \<times> moved) list" where
  "start_candidate e st t now sl s0 =
     (let stage = runtimeStageForCoordinatorTask st t (rs_db s0) in
      case prepare_candidate e st t now s0 of
        Inl x \<Rightarrow> Inl x
      | Inr ((s, ms), None) \<Rightarrow> Inr (None, sl, s, ms)
      | Inr ((s, ms), Some sel) \<Rightarrow>
          (let p = map_option slot_of (selProfile sel);
               (res, sl', d) = start_task (rt_poll e) st t (runtimeProfileSemaphoreKey (rt_poll e) p)
                 (readRuntimeProfileConcurrency (rt_poll e) p stage) now (sl, rs_db s)
           in Inr (Some res, sl', s\<lparr>rs_db := d\<rparr>, ms)))"

end
