(* ===== verification/Recovery_Delta.thy ===== *)
theory Recovery_Delta
  imports Guardrails Profile_Routing Review_Stage
begin

text \<open>
  The guard that stops a recovery from being repeated when nothing has changed since: the attempts at the stages
  of a task in \<open>packages/data/src/index.ts\<close>, and the signature of a recovery, its comparison with the recorded
  ones and its record in \<open>packages/agent/src/coordinator.ts\<close>.
\<close>

section \<open>Attempts at the stages of a task\<close>

record stage_artifact =
  sa_id :: string
  sa_taskId :: string
  sa_projectId :: string
  sa_stage :: string
  sa_kind :: string
  sa_label :: string
  sa_path :: "string option"
  sa_state :: string
  sa_attempt :: int
  sa_summary :: string
  sa_markdown :: "string option"
  sa_snapshotId :: "string option"
  sa_metadata :: json
  sa_createdAt :: int
  sa_updatedAt :: int

record artifact_attempt =
  ta_id :: string
  ta_artifactId :: string
  ta_taskId :: string
  ta_projectId :: string
  ta_stage :: string
  ta_kind :: string
  ta_attempt :: int
  ta_state :: string
  ta_outcome :: string
  ta_trustLevel :: string
  ta_summary :: string
  ta_markdown :: "string option"
  ta_snapshotId :: "string option"
  ta_metadata :: json
  ta_createdAt :: int

text \<open>\<^term>\<open>None\<close> is a property that is not given; an inner \<^term>\<open>None\<close> is null.\<close>

record attempt_input =
  ti_taskId :: string
  ti_stage :: string
  ti_kind :: string
  ti_label :: "string option"
  ti_path :: "string option option"
  ti_state :: "string option"
  ti_outcome :: "string option"
  ti_trustLevel :: "string option"
  ti_summary :: "string option"
  ti_markdown :: "string option option"
  ti_snapshotId :: "string option option"
  ti_metadata :: "json option"

text \<open>
  The tables of the recoveries beside those of the routing, and what the recoveries take from outside.
  \<open>rc_readAuditArtifact\<close> reads the file of an artifact under a root with the given branch, work tree and project root, and
  answers its text and where it was found.
\<close>

record recovery_db =
  rv :: routing_state
  rv_artifacts :: "stage_artifact list"
  rv_attempts :: "artifact_attempt list"

record recovery_env =
  rc_routing :: routing_env
  rc_host :: review_host
  rc_uuid :: "nat \<Rightarrow> string"
  rc_relative :: "string \<Rightarrow> string \<Rightarrow> string"
  rc_readAuditArtifact ::
    "string \<Rightarrow> artifact_row \<Rightarrow> string option \<Rightarrow> string option \<Rightarrow> string \<Rightarrow> string option \<times> string"
  rc_autoFallback :: bool

definition defaultOutcomeForTaskStageState :: "string \<Rightarrow> string" where
  "defaultOutcomeForTaskStageState s =
     (if s = ''accepted'' then ''supported''
      else if s = ''rejected'' \<or> s = ''missing'' then ''refuted''
      else if s = ''blocked'' then ''blocked''
      else if s = ''inconclusive'' then ''inconclusive''
      else if s = ''manual_exception'' then ''waived''
      else ''not_evaluated'')"

definition defaultTrustForTaskStageState :: "string \<Rightarrow> string" where
  "defaultTrustForTaskStageState s =
     (if s = ''accepted'' then ''trusted''
      else if s = ''expected'' \<or> s = ''manual_exception'' then ''weak'' else ''untrusted'')"

definition findCurrentTaskStageArtifact :: "string \<Rightarrow> string \<Rightarrow> string \<Rightarrow> recovery_db \<Rightarrow> stage_artifact option" where
  "findCurrentTaskStageArtifact i stage kind s =
     List.find (\<lambda>a. sa_taskId a = i \<and> sa_stage a = stage \<and> sa_kind a = kind) (rv_artifacts s)"

definition listTaskStageArtifactAttempts :: "string \<Rightarrow> recovery_db \<Rightarrow> artifact_attempt list" where
  "listTaskStageArtifactAttempts i s = sort_key ta_createdAt (filter (\<lambda>a. ta_taskId a = i) (rv_attempts s))"

definition recordTaskStageArtifactAttempt ::
    "(nat \<Rightarrow> string) \<Rightarrow> attempt_input \<Rightarrow> int \<Rightarrow> recovery_db \<Rightarrow> string + recovery_db" where
  "recordTaskStageArtifactAttempt uuid inp now s =
     (case findTaskById (ti_taskId inp) (rs_db (rv s)) of
        None \<Rightarrow> Inl ''Task not found''
      | Some t \<Rightarrow>
          (let st = given ''accepted'' (ti_state inp);
               outcome = given (defaultOutcomeForTaskStageState st) (ti_outcome inp);
               trust = given (defaultTrustForTaskStageState st) (ti_trustLevel inp);
               metadata = given (JObj []) (ti_metadata inp);
               n = length (rv_attempts s);
               current = findCurrentTaskStageArtifact (ti_taskId inp) (ti_stage inp) (ti_kind inp) s;
               artifactId' = (case current of Some a \<Rightarrow> sa_id a | None \<Rightarrow> uuid (2 * n + 1));
               number = (case current of Some a \<Rightarrow> sa_attempt a + 1 | None \<Rightarrow> 1)
           in Inr (s\<lparr>rv_artifacts := (case current of
                   Some a \<Rightarrow> map (\<lambda>x. if sa_id x \<noteq> sa_id a then x
                     else x\<lparr>sa_label := given (sa_label a) (ti_label inp), sa_path := given (sa_path a) (ti_path inp),
                       sa_state := st, sa_attempt := number,
                       sa_summary := given (sa_summary a) (map_option js_trim (ti_summary inp)),
                       sa_markdown := given (sa_markdown a) (ti_markdown inp),
                       sa_snapshotId := given (sa_snapshotId a) (ti_snapshotId inp),
                       sa_metadata := given (sa_metadata a) (ti_metadata inp), sa_updatedAt := now\<rparr>) (rv_artifacts s)
                 | None \<Rightarrow> rv_artifacts s @
                     [\<lparr>sa_id = artifactId', sa_taskId = taskId t, sa_projectId = projectId t, sa_stage = ti_stage inp,
                       sa_kind = ti_kind inp,
                       sa_label = given (map (\<lambda>c. if c = CHR ''_'' then CHR '' '' else c) (ti_kind inp)) (ti_label inp),
                       sa_path = given None (ti_path inp), sa_state = st, sa_attempt = number,
                       sa_summary = given [] (map_option js_trim (ti_summary inp)),
                       sa_markdown = given None (ti_markdown inp), sa_snapshotId = given None (ti_snapshotId inp),
                       sa_metadata = metadata, sa_createdAt = now, sa_updatedAt = now\<rparr>]),
               rv_attempts := rv_attempts s @
                 [\<lparr>ta_id = uuid (2 * n), ta_artifactId = artifactId', ta_taskId = taskId t, ta_projectId = projectId t,
                   ta_stage = ti_stage inp, ta_kind = ti_kind inp, ta_attempt = number, ta_state = st,
                   ta_outcome = outcome, ta_trustLevel = trust,
                   ta_summary = given [] (map_option js_trim (ti_summary inp)),
                   ta_markdown = given None (ti_markdown inp), ta_snapshotId = given None (ti_snapshotId inp),
                   ta_metadata = metadata, ta_createdAt = now\<rparr>]\<rparr>)))"

section \<open>The signature of a recovery\<close>

record delta_signature =
  dl_taskId :: string
  dl_stage :: string
  dl_category :: string
  dl_kind :: string
  dl_path :: "string option"
  dl_sha :: "string option"
  dl_validator :: "string option"
  dl_loop :: "string option"
  dl_family :: string
  dl_refs :: "string list"
  dl_snapshot :: "string option"
  dl_snapshotFp :: "string option"
  dl_failed :: "string option"

definition normalizeRuntimeRecoveryPath :: "string option \<Rightarrow> string option" where
  "normalizeRuntimeRecoveryPath v = map_option forward_slashes (normalizedString v)"

definition normalizeRuntimeRecoveryEvidenceRefs :: "text_host \<Rightarrow> string list \<Rightarrow> string list" where
  "normalizeRuntimeRecoveryEvidenceRefs h vs =
     js_sort (localeCompare h) (js_unique (filter (\<lambda>v. v \<noteq> []) (map js_trim vs)))"

definition sha256Json :: "review_host \<Rightarrow> json \<Rightarrow> string" where
  "sha256Json h v = rh_sha256 h (stableFingerprintJson (rh_text h) v)"

definition sourceSnapshotFingerprint :: "review_host \<Rightarrow> json option \<Rightarrow> string option" where
  "sourceSnapshotFingerprint h v = (case v of Some (JObj kvs) \<Rightarrow> Some (sha256Json h (JObj kvs)) | _ \<Rightarrow> None)"

record delta_input =
  di_stage :: string
  di_category :: string
  di_kind :: string
  di_path :: "string option"
  di_sha :: "string option"
  di_validator :: "string option"
  di_loop :: "string option"
  di_family :: string
  di_refs :: "string list"
  di_snapshot :: "string option"
  di_snapshotValue :: "json option"
  di_failed :: "string option"

definition buildRuntimeRecoveryDeltaSignature :: "review_host \<Rightarrow> task_row \<Rightarrow> delta_input \<Rightarrow> delta_signature" where
  "buildRuntimeRecoveryDeltaSignature h t i =
     \<lparr>dl_taskId = taskId t, dl_stage = di_stage i,
      dl_category = given ''unknown'' (normalizedString (Some (di_category i))),
      dl_kind = given ''runtime_recovery'' (normalizedString (Some (di_kind i))),
      dl_path = normalizeRuntimeRecoveryPath (di_path i), dl_sha = normalizedLower (di_sha i),
      dl_validator = normalizedLower (di_validator i), dl_loop = normalizedString (di_loop i),
      dl_family = given ''runtime_failure'' (normalizedString (Some (di_family i))),
      dl_refs = normalizeRuntimeRecoveryEvidenceRefs (rh_text h) (di_refs i),
      dl_snapshot = orelse (normalizedString (di_snapshot i)) (normalizedString (requirementsSnapshotId t)),
      dl_snapshotFp = sourceSnapshotFingerprint h (di_snapshotValue i), dl_failed = normalizedString (di_failed i)\<rparr>"

definition signature_json :: "delta_signature \<Rightarrow> json" where
  "signature_json g = JObj
     [(''taskId'', JStr (dl_taskId g)), (''stage'', JStr (dl_stage g)), (''runtimeCategory'', JStr (dl_category g)),
      (''recoveryKind'', JStr (dl_kind g)), (''artifactPath'', json_opt (dl_path g)), (''artifactSha'', json_opt (dl_sha g)),
      (''validatorFingerprint'', json_opt (dl_validator g)), (''toolLoopPattern'', json_opt (dl_loop g)),
      (''blockedReasonFamily'', JStr (dl_family g)), (''evidenceRefs'', JArr (map JStr (dl_refs g))),
      (''sourceSnapshotId'', json_opt (dl_snapshot g)), (''sourceSnapshotFingerprint'', json_opt (dl_snapshotFp g)),
      (''failedProfileId'', json_opt (dl_failed g))]"

definition runtimeRecoveryDeltaFingerprint :: "review_host \<Rightarrow> delta_signature \<Rightarrow> string" where
  "runtimeRecoveryDeltaFingerprint h g = sha256Json h (signature_json g)"

definition runtimeRecoveryDeltaFields :: "delta_signature \<Rightarrow> json" where
  "runtimeRecoveryDeltaFields g = JObj
     [(''artifactSha'', json_opt (dl_sha g)), (''validatorFingerprint'', json_opt (dl_validator g)),
      (''toolLoopPattern'', json_opt (dl_loop g)), (''blockedReasonFamily'', JStr (dl_family g)),
      (''evidenceRefs'', JArr (map JStr (dl_refs g))), (''sourceSnapshotId'', json_opt (dl_snapshot g)),
      (''sourceSnapshotFingerprint'', json_opt (dl_snapshotFp g))]"

definition text_field :: "(string \<times> json) list \<Rightarrow> string \<Rightarrow> string \<Rightarrow> string" where
  "text_field c key other = given other (json_text_of (map_of c key))"

definition read_signature :: "(string \<times> json) list \<Rightarrow> delta_signature" where
  "read_signature c =
     \<lparr>dl_taskId = text_field c ''taskId'' [], dl_stage = text_field c ''stage'' [],
      dl_category = text_field c ''runtimeCategory'' ''unknown'', dl_kind = text_field c ''recoveryKind'' ''runtime_recovery'',
      dl_path = json_text_of (map_of c ''artifactPath''), dl_sha = json_text_of (map_of c ''artifactSha''),
      dl_validator = json_text_of (map_of c ''validatorFingerprint''),
      dl_loop = json_text_of (map_of c ''toolLoopPattern''),
      dl_family = text_field c ''blockedReasonFamily'' ''runtime_failure'',
      dl_refs = (case map_of c ''evidenceRefs'' of Some (JArr vs) \<Rightarrow> json_strings vs | _ \<Rightarrow> []),
      dl_snapshot = json_text_of (map_of c ''sourceSnapshotId''),
      dl_snapshotFp = json_text_of (map_of c ''sourceSnapshotFingerprint''),
      dl_failed = json_text_of (map_of c ''failedProfileId'')\<rparr>"

definition readRuntimeRecoveryDeltaInput :: "json \<Rightarrow> delta_signature option" where
  "readRuntimeRecoveryDeltaInput v =
     (case jget ''runtimeRecoveryFingerprintInput'' v of Some (JObj c) \<Rightarrow> Some (read_signature c) | _ \<Rightarrow> None)"

section \<open>The decision\<close>

record delta_comparison =
  cm_artifactSha :: bool
  cm_validator :: bool
  cm_loop :: bool
  cm_family :: bool
  cm_refs :: bool
  cm_snapshot :: bool
  cm_matched :: "string option"

definition compareRuntimeRecoveryDeltaFields :: "review_host \<Rightarrow> delta_signature \<Rightarrow> delta_signature \<Rightarrow> delta_comparison" where
  "compareRuntimeRecoveryDeltaFields h g p =
     \<lparr>cm_artifactSha = (dl_sha g = dl_sha p), cm_validator = (dl_validator g = dl_validator p),
      cm_loop = (dl_loop g = dl_loop p), cm_family = (dl_family g = dl_family p),
      cm_refs = (stableFingerprintJson (rh_text h) (JArr (map JStr (dl_refs g))) =
        stableFingerprintJson (rh_text h) (JArr (map JStr (dl_refs p)))),
      cm_snapshot = (dl_snapshot g = dl_snapshot p \<and> dl_snapshotFp g = dl_snapshotFp p), cm_matched = None\<rparr>"

definition no_delta :: "delta_comparison \<Rightarrow> bool" where
  "no_delta c \<longleftrightarrow> cm_artifactSha c \<and> cm_validator c \<and> cm_loop c \<and> cm_family c \<and> cm_refs c \<and> cm_snapshot c"

record delta_decision =
  dd_allow :: bool
  dd_fingerprint :: string
  dd_input :: delta_signature
  dd_comparison :: delta_comparison

definition repeats :: "review_host \<Rightarrow> delta_signature \<Rightarrow> artifact_attempt \<Rightarrow> bool" where
  "repeats h g a \<longleftrightarrow> ta_stage a = ''runtime_recovery'' \<and> ta_kind a = ''delta_guard'' \<and>
     (case readRuntimeRecoveryDeltaInput (ta_metadata a) of
        None \<Rightarrow> False
      | Some p \<Rightarrow> dl_kind p = dl_kind g \<and> no_delta (compareRuntimeRecoveryDeltaFields h g p))"

definition evaluateRuntimeRecoveryDelta :: "review_host \<Rightarrow> delta_signature \<Rightarrow> recovery_db \<Rightarrow> delta_decision" where
  "evaluateRuntimeRecoveryDelta h g s =
     (case List.find (repeats h g) (listTaskStageArtifactAttempts (dl_taskId g) s) of
        Some a \<Rightarrow> \<lparr>dd_allow = False, dd_fingerprint = runtimeRecoveryDeltaFingerprint h g, dd_input = g,
          dd_comparison = (compareRuntimeRecoveryDeltaFields h g (the (readRuntimeRecoveryDeltaInput (ta_metadata a))))
            \<lparr>cm_matched := Some (ta_id a)\<rparr>\<rparr>
      | None \<Rightarrow> \<lparr>dd_allow = True, dd_fingerprint = runtimeRecoveryDeltaFingerprint h g, dd_input = g,
          dd_comparison = \<lparr>cm_artifactSha = False, cm_validator = False, cm_loop = False, cm_family = False,
            cm_refs = False, cm_snapshot = False, cm_matched = None\<rparr>\<rparr>)"

definition comparison_json :: "delta_comparison \<Rightarrow> json" where
  "comparison_json c = JObj
     [(''sameArtifactSha'', JBool (cm_artifactSha c)), (''sameValidatorFingerprint'', JBool (cm_validator c)),
      (''sameToolLoopPattern'', JBool (cm_loop c)), (''sameBlockedReasonFamily'', JBool (cm_family c)),
      (''sameEvidenceRefs'', JBool (cm_refs c)), (''sameSourceSnapshot'', JBool (cm_snapshot c)),
      (''matchedAttemptId'', json_opt (cm_matched c))]"

definition decision_metadata :: "delta_decision \<Rightarrow> json" where
  "decision_metadata x = JObj
     [(''runtimeRecoveryFingerprint'', JStr (dd_fingerprint x)),
      (''runtimeRecoveryFingerprintInput'', signature_json (dd_input x)),
      (''runtimeRecoveryDeltaFields'', runtimeRecoveryDeltaFields (dd_input x)),
      (''runtimeCategory'', JStr (dl_category (dd_input x))), (''recoveryKind'', JStr (dl_kind (dd_input x))),
      (''blockedReasonFamily'', JStr (dl_family (dd_input x))), (''deltaComparison'', comparison_json (dd_comparison x)),
      (''decision'', JStr (if dd_allow x then ''allow_recovery'' else ''fail_closed_no_delta''))]"

definition recordRuntimeRecoveryDeltaAttempt ::
    "recovery_env \<Rightarrow> string \<Rightarrow> delta_decision \<Rightarrow> string \<Rightarrow> string \<Rightarrow> int \<Rightarrow> recovery_db \<Rightarrow> string + recovery_db" where
  "recordRuntimeRecoveryDeltaAttempt e i x st summary now s =
     (let g = dd_input x in recordTaskStageArtifactAttempt (rc_uuid e)
       \<lparr>ti_taskId = i, ti_stage = ''runtime_recovery'', ti_kind = ''delta_guard'', ti_label = Some ''Runtime recovery delta guard'',
        ti_path = Some (Some (given (''runtime-recovery/'' @ dl_stage g @ ''/'' @ dl_category g) (dl_path g))),
        ti_state = Some st, ti_outcome = None, ti_trustLevel = None, ti_summary = Some summary, ti_markdown = None,
        ti_snapshotId = Some (dl_snapshot g), ti_metadata = Some (decision_metadata x)\<rparr> now s)"

section \<open>Guardrail events and status writes of the coordinator\<close>

definition guardrail_input :: "task_row \<Rightarrow> string \<Rightarrow> string option \<Rightarrow> guardrail_action \<Rightarrow> string \<Rightarrow> string option \<Rightarrow> string option \<Rightarrow> guardrail_event" where
  "guardrail_input t stage workflow action reason path fp =
     \<lparr>ge_taskId = Some (taskId t), ge_projectId = Some (projectId t), ge_stage = Some stage,
      ge_workflowKind = Some (given stage workflow), ge_runtimeProfileId = None, ge_runtimeId = None, ge_providerId = None,
      ge_toolName = None, ge_artifactPath = path, ge_fingerprint = None, ge_failureFingerprint = fp, ge_action = action,
      ge_reasonCode = reason\<rparr>"

definition lift_db :: "(db \<Rightarrow> db) \<Rightarrow> recovery_db \<Rightarrow> recovery_db" where
  "lift_db f s = s\<lparr>rv := (rv s)\<lparr>rs_db := f (rs_db (rv s))\<rparr>\<rparr>"

definition emitCoordinatorGuardrailEvent ::
    "recovery_env \<Rightarrow> string \<Rightarrow> task_row \<Rightarrow> string \<Rightarrow> string option \<Rightarrow> guardrail_action \<Rightarrow> string \<Rightarrow> string option \<Rightarrow>
     string option \<Rightarrow> bool \<Rightarrow> string option \<Rightarrow> int \<Rightarrow> recovery_db \<Rightarrow> string + recovery_db" where
  "emitCoordinatorGuardrailEvent e counter t stage workflow action reason path fp keep summary now s =
     (let ev = buildAgentGuardrailEvent (rc_relative e) None (guardrail_input t stage workflow action reason path fp);
          s1 = lift_db (appendTaskActivityLog (taskId t) (stamped now (formatAgentGuardrailActivityLine counter ev)) now) s
      in if \<not> keep then Inr s1
         else (case mapAgentGuardrailAttemptTrust (ge_action ev) of
            (st, outcome, trust) \<Rightarrow> recordTaskStageArtifactAttempt (rc_uuid e)
              \<lparr>ti_taskId = taskId t, ti_stage = given stage (ge_stage ev), ti_kind = ''guardrail_event'',
               ti_label = Some ''Guardrail event'', ti_path = Some (ge_artifactPath ev), ti_state = Some st,
               ti_outcome = Some outcome, ti_trustLevel = Some trust,
               ti_summary = Some (given (''Guardrail '' @ ge_reasonCode ev @ '' '' @ guardrail_action_text (ge_action ev) @ ''.'') summary),
               ti_markdown = None, ti_snapshotId = None,
               ti_metadata = Some (JObj [(''counter'', JStr counter), (''event'', event_json ev)])\<rparr> now s1))"

text \<open>
  \<open>updateTaskStatus\<close> with the runtime options among its fields; \<^term>\<open>None\<close> leaves them. A write to a cancelled
  task is dropped as a whole.
\<close>

definition status_write ::
    "string \<Rightarrow> task_status \<Rightarrow> (task_row \<Rightarrow> task_row) \<Rightarrow> json option option \<Rightarrow> string \<Rightarrow> string \<Rightarrow> task_status \<Rightarrow> int \<Rightarrow>
     recovery_db \<Rightarrow> recovery_db \<times> (bool \<times> moved) list" where
  "status_write i st extra options reason label frm now s =
     (let (d, ms) = coordinator_updateTaskStatus i st extra (Some reason) label frm now (rs_db (rv s)) in
      (s\<lparr>rv := (rv s)\<lparr>rs_db := d, rs_options := (case options of
            Some v \<Rightarrow> if ms = [] then rs_options (rv s) else (rs_options (rv s))(i := v)
          | None \<Rightarrow> rs_options (rv s))\<rparr>\<rparr>, ms))"

definition failClosedRuntimeRecoveryNoDelta ::
    "recovery_env \<Rightarrow> task_row \<Rightarrow> task_status \<Rightarrow> string \<Rightarrow> string \<Rightarrow> bool \<Rightarrow> delta_decision \<Rightarrow> json option option \<Rightarrow> int \<Rightarrow>
     recovery_db \<Rightarrow> string + recovery_db \<times> (bool \<times> moved) list" where
  "failClosedRuntimeRecoveryNoDelta e t frm label reason manual x options now s =
     (let i = taskId t; blocked = ''runtime_recovery_no_delta_fail_closed:'' @ reason;
          (s1, ms) = status_write i Blocked_External
            (\<lambda>r. r\<lparr>blockedReason := Some blocked, blockedFromStatus := Some frm, retryAfter := None, retryCount := retryCount t,
               reworkRequested := False, manualReviewRequired := manual\<rparr>) options blocked label frm now
            (lift_db (clearTaskRuntimeLimitSnapshot i now) s);
          s2 = lift_db (appendTaskActivityLog i (stamped now (''runtime_recovery_no_delta_fail_closed:'' @ dd_fingerprint x @
            ''; category='' @ dl_category (dd_input x) @ ''; recovery='' @ dl_kind (dd_input x) @ ''; reason='' @ reason)) now) s1
      in map_sum id (\<lambda>s3. (s3, ms))
           (emitCoordinatorGuardrailEvent e AGENT_RUNTIME_RECOVERY_NO_DELTA t ''runtime_recovery'' None Guard_Fail_Closed
             (''runtime_recovery_no_delta_'' @ reason) None (Some (dd_fingerprint x)) True
             (Some (''Runtime recovery failed closed with no delta: '' @ reason @ ''.'')) now s2))"

text \<open>
  The guard as every recovery uses it: a repeated recovery is recorded as rejected and fails closed, another is
  recorded with the state \<open>st\<close> and goes on. The answer of the second kind is the state to go on from.
\<close>

record guard_texts =
  gt_rejected :: string
  gt_allowed :: string
  gt_reason :: string
  gt_manual :: bool

definition delta_guard ::
    "recovery_env \<Rightarrow> task_row \<Rightarrow> delta_input \<Rightarrow> guard_texts \<Rightarrow> string \<Rightarrow> json option option \<Rightarrow> task_status \<Rightarrow> string \<Rightarrow> int \<Rightarrow>
     recovery_db \<Rightarrow> string + (recovery_db \<times> (bool \<times> moved) list) + recovery_db" where
  "delta_guard e t i texts st options frm label now s =
     (let x = evaluateRuntimeRecoveryDelta (rc_host e) (buildRuntimeRecoveryDeltaSignature (rc_host e) t i) s in
      if dd_allow x
      then (case recordRuntimeRecoveryDeltaAttempt e (taskId t) x st (gt_allowed texts) now s of
          Inl m \<Rightarrow> Inl m | Inr s1 \<Rightarrow> Inr (Inr s1))
      else (case recordRuntimeRecoveryDeltaAttempt e (taskId t) x ''rejected'' (gt_rejected texts) now s of
          Inl m \<Rightarrow> Inl m
        | Inr s1 \<Rightarrow> (case failClosedRuntimeRecoveryNoDelta e t frm label (gt_reason texts) (gt_manual texts) x options now s1 of
              Inl m \<Rightarrow> Inl m | Inr r \<Rightarrow> Inr (Inl r))))"

section \<open>What is recorded is read back\<close>

lemma json_text_of_opt [simp]: "json_text_of (Some (json_opt v)) = v"
  by (cases v) (simp_all add: json_opt_def)

lemma signature_read_back: "readRuntimeRecoveryDeltaInput (decision_metadata x) = Some (dd_input x)"
  by (simp add: readRuntimeRecoveryDeltaInput_def decision_metadata_def signature_json_def read_signature_def text_field_def
      given_def)

end
