(* ===== verification/Runtime_Recovery.thy ===== *)
theory Runtime_Recovery
  imports Recovery_Delta
begin

text \<open>
  The recoveries the coordinator tries when the runtime failed, before the general classifier:
  \<open>packages/agent/src/coordinator.ts\<close>, from a failure after a written report over an exhausted budget of repository
  inspection and an exceeded context to transient failures. Each answers whether it has handled the failure.
\<close>

type_synonym recovery_result = "(recovery_db \<times> (bool \<times> moved) list) \<times> bool"

record failed_stage =
  fs_task :: task_row
  fs_stage :: runtime_stage
  fs_label :: coordinator_stage
  fs_inProgress :: task_status
  fs_title :: string
  fs_error :: thrown

section \<open>Shared steps\<close>

definition latest_task :: "failed_stage \<Rightarrow> recovery_db \<Rightarrow> task_row" where
  "latest_task f s = given (fs_task f) (findTaskById (taskId (fs_task f)) (rs_db (rv s)))"

definition readRuntimeProviderMetaString :: "thrown \<Rightarrow> string \<Rightarrow> string option" where
  "readRuntimeProviderMetaString x key = meta_string (findRuntimeExecutionError x) key"

definition readAttemptedRuntimeProfileIdFromError :: "thrown \<Rightarrow> string option" where
  "readAttemptedRuntimeProfileIdFromError x = readRuntimeProviderMetaString x ''profileId''"

definition runtimeRecoveryToolLoopPattern :: "text_host \<Rightarrow> thrown \<Rightarrow> string option" where
  "runtimeRecoveryToolLoopPattern h x =
     (let get = readRuntimeProviderMetaString x in
      if get ''status'' \<noteq> Some ''repeated_tool_loop_blocked'' then None
      else Some (stableFingerprintJson h (JObj
        [(''status'', json_opt (get ''status'')), (''fingerprint'', json_opt (get ''fingerprint'')),
         (''toolName'', json_opt (get ''toolName'')), (''stage'', json_opt (get ''stage'')),
         (''targetPath'', json_opt (normalizeRuntimeRecoveryPath (orelse (get ''targetPath'') (get ''artifactPath''))))])))"

definition runtimeRecoveryBlockedReasonFamily :: "thrown \<Rightarrow> string \<Rightarrow> string" where
  "runtimeRecoveryBlockedReasonFamily x other = given other (readRuntimeProviderMetaString x ''status'')"

text \<open>The wait a runtime error asks for.\<close>

definition asks_to_wait :: "execution_meta \<Rightarrow> bool" where
  "asks_to_wait m \<longleftrightarrow> (case errResetAt m of None \<Rightarrow> False | Some (Text []) \<Rightarrow> False | Some _ \<Rightarrow> True) \<or> errRetryAfterSeconds m \<noteq> None"

definition resolved_selection :: "recovery_env \<Rightarrow> task_row \<Rightarrow> runtime_stage \<Rightarrow> int \<Rightarrow> recovery_db \<Rightarrow> recovery_db \<times> profile_selection" where
  "resolved_selection e t stage now s =
     (let (pd, system) = getAppDefaultRuntimeProfileId (Of_Stage stage) now (rs_profiles (rv s)) in
      (s\<lparr>rv := (rv s)\<lparr>rs_profiles := pd\<rparr>\<rparr>,
       resolveEffectiveRuntimeProfile (rt_date (rc_routing e)) (stage_input t stage system) (rs_db (rv s)) pd))"

definition select_fallback ::
    "recovery_env \<Rightarrow> task_row \<Rightarrow> runtime_stage \<Rightarrow> profile_response option \<Rightarrow> string list \<Rightarrow> int \<Rightarrow> recovery_db \<Rightarrow>
     recovery_db \<times> profile_response option" where
  "select_fallback e t stage cur failed now s =
     (let (pd, p) = selectContextFallbackProfile (rt_poll (rc_routing e)) t stage cur (set failed) now (rs_db (rv s)) (rs_profiles (rv s))
      in (s\<lparr>rv := (rv s)\<lparr>rs_profiles := pd\<rparr>\<rparr>, p))"

definition options_of :: "string \<Rightarrow> recovery_db \<Rightarrow> json option" where
  "options_of i s = rs_options (rv s) i"

text \<open>The task goes back into its stage at once.\<close>

definition retry_at_once ::
    "failed_stage \<Rightarrow> string \<Rightarrow> int \<Rightarrow> json option \<Rightarrow> string \<Rightarrow> int \<Rightarrow> recovery_db \<Rightarrow> recovery_db \<times> (bool \<times> moved) list" where
  "retry_at_once f reason n options line now s =
     (let i = taskId (fs_task f);
          (s1, ms) = status_write i (fs_inProgress f)
            (\<lambda>r. r\<lparr>blockedReason := Some reason, blockedFromStatus := None, retryAfter := None, retryCount := n,
               paused := False, reworkRequested := False, manualReviewRequired := False\<rparr>)
            (Some options) reason (fs_title f) (fs_inProgress f) now (lift_db (clearTaskRuntimeLimitSnapshot i now) s)
      in (lift_db (appendTaskActivityLog i (stamped now line) now) s1, ms))"

definition block_for_operator ::
    "failed_stage \<Rightarrow> string \<Rightarrow> int \<Rightarrow> bool \<Rightarrow> json option \<Rightarrow> string \<Rightarrow> int \<Rightarrow> recovery_db \<Rightarrow> recovery_db \<times> (bool \<times> moved) list" where
  "block_for_operator f reason n manual options line now s =
     (let i = taskId (fs_task f);
          (s1, ms) = status_write i Blocked_External
            (\<lambda>r. r\<lparr>blockedReason := Some reason, blockedFromStatus := Some (fs_inProgress f), retryAfter := None,
               retryCount := n, reworkRequested := False, manualReviewRequired := manual\<rparr>)
            (Some options) reason (fs_title f) (fs_inProgress f) now (lift_db (clearTaskRuntimeLimitSnapshot i now) s)
      in (lift_db (appendTaskActivityLog i (stamped now (line @ truncateReason reason)) now) s1, ms))"

definition recovery_input ::
    "string \<Rightarrow> string \<Rightarrow> string \<Rightarrow> string option \<Rightarrow> string option \<Rightarrow> string option \<Rightarrow> string \<Rightarrow> task_row \<Rightarrow> string option \<Rightarrow> delta_input" where
  "recovery_input stage cat kind path sha loop family t failed =
     \<lparr>di_stage = stage, di_category = cat, di_kind = kind, di_path = path, di_sha = sha, di_validator = None,
      di_loop = loop, di_family = family, di_refs = [], di_snapshot = requirementsSnapshotId t, di_snapshotValue = None,
      di_failed = failed\<rparr>"

section \<open>An exhausted budget of repository inspection\<close>

definition inspection_reason :: string where
  "inspection_reason = ''manual_review_required: repository_inspection_budget_exhausted; '' @
     ''repository inspection budget was exhausted and compact finalization did not produce a trusted report. '' @
     ''AIF will not retry with a full repository context or a larger fallback profile for this audit card.''"

definition handleRepositoryInspectionBudgetExhaustion ::
    "recovery_env \<Rightarrow> failed_stage \<Rightarrow> string \<Rightarrow> int \<Rightarrow> recovery_db \<Rightarrow> string + recovery_result" where
  "handleRepositoryInspectionBudgetExhaustion e f dir now s =
     (if \<not> isRepositoryInspectionBudgetExhaustionError (fs_error f) then Inr ((s, []), False)
      else
        (let re = findRuntimeExecutionError (fs_error f); t = latest_task f s; i = taskId t;
             cleared = clearContextFallbackRuntimeOption (options_of i s) (runtimeStageForCoordinatorTask (fs_label f) t (rs_db (rv s)))
         in case delta_guard e t (recovery_input (coordinator_stage_key (fs_label f)) ''repository_inspection_budget_exhaustion''
               ''repository_inspection_budget_exhaustion'' None None None ''repository_inspection_budget_exhaustion'' t
               (readAttemptedRuntimeProfileIdFromError (fs_error f)))
             \<lparr>gt_rejected = ''Repository-inspection exhaustion repeated with no runtime recovery delta.'',
              gt_allowed = ''Repository-inspection exhaustion observed for runtime recovery delta guard.'',
              gt_reason = ''repository_inspection_budget_exhaustion'', gt_manual = True\<rparr>
             ''inconclusive'' (Some cleared) (fs_inProgress f) (fs_title f) now s of
           Inl m \<Rightarrow> Inl m
         | Inr (Inl r) \<Rightarrow> Inr (r, True)
         | Inr (Inr s1) \<Rightarrow>
             (case terminalizeRoadmapSourceReportAsInconclusive (rc_host e) t dir (fs_inProgress f) (fs_title f)
                 ''repository_inspection_budget_exhausted'' inspection_reason (reviewIterationCount t) (autoReviewState t) None
                 [(''runtimeFailure'', JObj
                    [(''category'', json_opt (map_option (\<lambda>p. category_text (category (snd p))) re)),
                     (''providerMeta'', given JNull (map_option (\<lambda>p. errProviderMeta (snd p)) re)),
                     (''message'', json_opt (map_option (\<lambda>p. if length (fst p) \<le> 500 then fst p else take 497 (fst p) @ ''...'') re))])]
                 now (rs_db (rv s1)) of
                Inl m \<Rightarrow> Inl m
              | Inr ((d, ms), True) \<Rightarrow> Inr ((lift_db (\<lambda>_. d) s1, ms), True)
              | Inr ((d, ms), False) \<Rightarrow>
                  Inr (block_for_operator (f\<lparr>fs_task := t\<rparr>) inspection_reason (retryCount t) True cleared
                    ''Repository inspection budget exhaustion blocked without runtime fallback: '' now s1, True))))"

section \<open>An exceeded context\<close>

text \<open>What every recovery by another profile looks at first.\<close>

definition failed_profile ::
    "recovery_env \<Rightarrow> failed_stage \<Rightarrow> task_row \<Rightarrow> int \<Rightarrow> recovery_db \<Rightarrow>
     recovery_db \<times> context_fallback option \<times> profile_response option \<times> string option \<times> string list" where
  "failed_profile e f t now s =
     (let i = taskId t; active = readContextFallbackRuntimeOption (options_of i s) (fs_stage f);
          (s1, sel) = resolved_selection e t (fs_stage f) now s;
          (p, pid) = resolveFailedRuntimeProfileForRecovery (readAttemptedRuntimeProfileIdFromError (fs_error f)) active sel
            (rs_profiles (rv s1))
      in (s1, active, p, pid, js_unique (readFailedContextProfileIds (options_of i s) (fs_stage f) @
            (if truthy pid then [the pid] else []))))"

definition shown_ids :: "string list \<Rightarrow> string" where
  "shown_ids ids = (if js_join '', '' ids = [] then ''none'' else js_join '', '' ids)"

definition handleContextLengthRecovery :: "recovery_env \<Rightarrow> failed_stage \<Rightarrow> int \<Rightarrow> recovery_db \<Rightarrow> string + recovery_result" where
  "handleContextLengthRecovery e f now s =
     (if map_option (category \<circ> snd) (findRuntimeExecutionError (fs_error f)) \<noteq> Some Context_Length \<or>
         isRepositoryInspectionBudgetExhaustionError (fs_error f) then Inr ((s, []), False)
      else
        (let t = latest_task f s; i = taskId t; stage = fs_stage f; label = coordinator_stage_key (fs_label f);
             (s1, active, cur, pid, failed) = failed_profile e f t now s;
             cleared = clearContextFallbackRuntimeOption (options_of i s) stage
         in if \<not> rc_autoFallback e then
              Inr (block_for_operator (f\<lparr>fs_task := t\<rparr>)
                (''operator_input_required: Request exceeded the model context limit. '' @
                 ''Runtime auto fallback is disabled; select a larger compatible runtime profile for '' @ label @
                 '', or split/reduce the task scope before retry. '' @ ''Context-failed profiles: '' @ shown_ids failed @ ''.'')
                (retryCount t) False cleared ''Context overflow blocked without runtime fallback: '' now s1, True)
            else
              (case select_fallback e t stage cur failed now s1 of
                 (s2, Some p) \<Rightarrow>
                   (case delta_guard e t (recovery_input (stage_key stage) ''context_length'' ''context_fallback'' None None None
                         ''context_length'' t pid)
                       \<lparr>gt_rejected = ''Context fallback repeated with no runtime recovery delta.'',
                        gt_allowed = ''Context fallback allowed because runtime recovery delta was not repeated.'',
                        gt_reason = ''context_length'', gt_manual = False\<rparr>
                       ''accepted'' (Some cleared) (fs_inProgress f) (fs_title f) now s2 of
                      Inl m \<Rightarrow> Inl m
                    | Inr (Inl r) \<Rightarrow> Inr (r, True)
                    | Inr (Inr s3) \<Rightarrow>
                        Inr (retry_at_once (f\<lparr>fs_task := t\<rparr>)
                          (''Runtime context limit recovery: '' @ label @ '' exceeded the selected model context; '' @
                           ''retrying immediately with fallback runtime profile '' @ pfName (fst p) @ '' ('' @ resp_id p @ '').'')
                          (retryCount t + 1)
                          (setContextFallbackRuntimeOption (options_of i s) stage (resp_id p) pid pid Context_Length_Reason
                            (retryCount t + 1) (toISOString now))
                          (''Context overflow scheduled immediate one-shot runtime fallback: failedProfile='' @ given ''none'' pid @
                           '' selectedProfile='' @ resp_id p) now s3, True))
               | (s2, None) \<Rightarrow>
                   Inr (block_for_operator (f\<lparr>fs_task := t\<rparr>)
                     (''operator_input_required: Request exceeded the model context limit. '' @
                      ''Select a larger compatible runtime profile for '' @ label @ '', or split/reduce the task scope before retry. '' @
                      ''Context-failed profiles: '' @ shown_ids failed @ ''.'')
                     (retryCount t) False
                     (markContextProfileFailed (if active \<noteq> None then cleared else options_of i s) stage pid)
                     ''Context overflow requires operator input: '' now s2, True))))"

section \<open>Transient failures\<close>

definition TRANSIENT_RUNTIME_FALLBACK_CATEGORIES :: "rt_category set" where
  "TRANSIENT_RUNTIME_FALLBACK_CATEGORIES = {Transport, Stream_Failure, Timed_Out}"

definition AUDIT_REPORT_TIMEOUT_RECOVERY_MAX_RETRIES :: int where
  "AUDIT_REPORT_TIMEOUT_RECOVERY_MAX_RETRIES = 3"

definition AUDIT_REPORT_TRANSIENT_RECOVERY_CATEGORIES :: "rt_category set" where
  "AUDIT_REPORT_TRANSIENT_RECOVERY_CATEGORIES = {Transport, Stream_Failure}"

definition handleTransientRuntimeFallbackRecovery :: "recovery_env \<Rightarrow> failed_stage \<Rightarrow> int \<Rightarrow> recovery_db \<Rightarrow> string + recovery_result" where
  "handleTransientRuntimeFallbackRecovery e f now s =
     (case findRuntimeExecutionError (fs_error f) of
        None \<Rightarrow> Inr ((s, []), False)
      | Some (_, m) \<Rightarrow>
          if category m \<notin> TRANSIENT_RUNTIME_FALLBACK_CATEGORIES \<or> isRepositoryInspectionBudgetExhaustionError (fs_error f) \<or>
             asks_to_wait m \<or> \<not> rc_autoFallback e then Inr ((s, []), False)
          else
            (let t = latest_task f s; i = taskId t; stage = fs_stage f; label = coordinator_stage_key (fs_label f);
                 cat = category_text (category m); loop = runtimeRecoveryToolLoopPattern (rh_text (rc_host e)) (fs_error f);
                 family = runtimeRecoveryBlockedReasonFamily (fs_error f) cat;
                 (s1, active, cur, pid, failed) = failed_profile e f t now s
             in case select_fallback e t stage cur failed now s1 of
                  (s2, None) \<Rightarrow> Inr ((s2, []), False)
                | (s2, Some p) \<Rightarrow>
                    (case delta_guard e t (recovery_input (stage_key stage) cat ''transient_runtime_fallback'' None None loop family t pid)
                        \<lparr>gt_rejected = ''Transient runtime fallback repeated with no runtime recovery delta.'',
                         gt_allowed = ''Transient runtime fallback allowed because runtime recovery delta was not repeated.'',
                         gt_reason = family,
                         gt_manual = (taskIntent t = ''audit'' \<and> (loop \<noteq> None \<or>
                           map_option artifactRole (findRoadmapBatchArtifactByTaskId i (rs_db (rv s2))) = Some ''report''))\<rparr>
                        ''accepted'' (Some (clearContextFallbackRuntimeOption (options_of i s) stage)) (fs_inProgress f) (fs_title f) now s2 of
                       Inl x \<Rightarrow> Inl x
                     | Inr (Inl r) \<Rightarrow> Inr (r, True)
                     | Inr (Inr s3) \<Rightarrow>
                         Inr (retry_at_once (f\<lparr>fs_task := t\<rparr>)
                           (''Runtime transient '' @ cat @ '' recovery: '' @ label @ '' failed on the selected runtime profile; '' @
                            ''retrying immediately with fallback runtime profile '' @ pfName (fst p) @ '' ('' @ resp_id p @ '').'')
                           (retryCount t + 1)
                           (setContextFallbackRuntimeOption (options_of i s) stage (resp_id p) pid pid Transient_Error_Reason
                             (retryCount t + 1) (toISOString now))
                           (''Transient runtime failure scheduled immediate one-shot fallback: category='' @ cat @
                            '' failedProfile='' @ given ''none'' pid @ '' selectedProfile='' @ resp_id p) now s3, True))))"

definition selectAuditReportTimeoutRecoveryProfile ::
    "recovery_env \<Rightarrow> task_row \<Rightarrow> runtime_stage \<Rightarrow> context_fallback option \<Rightarrow> int \<Rightarrow> recovery_db \<Rightarrow>
     recovery_db \<times> profile_response option" where
  "selectAuditReportTimeoutRecoveryProfile e t stage active now s =
     (case active of
        Some a \<Rightarrow> (s, getRuntimeProfileResponseById (cf_profileId a) (rs_profiles (rv s)))
      | None \<Rightarrow>
          (let (s1, sel) = resolved_selection e t stage now s;
               (s2, p) = select_fallback e t stage (selProfile sel)
                 (readFailedContextProfileIds (options_of (taskId t) s) stage) now s1
           in (s2, orelse p (selProfile sel))))"

text \<open>The two recoveries of an audit report differ in the errors they take, the texts and the profile they remember as failed.\<close>

record report_texts =
  rp_kind :: string
  rp_cat :: string
  rp_family :: string
  rp_rejected :: string
  rp_allowed :: string
  rp_what :: "string \<Rightarrow> string"
  rp_line :: string
  rp_failedDefault :: bool

definition audit_report_recovery ::
    "recovery_env \<Rightarrow> failed_stage \<Rightarrow> report_texts \<Rightarrow> artifact_row \<Rightarrow> int \<Rightarrow> recovery_db \<Rightarrow> string + recovery_result" where
  "audit_report_recovery e f x a now s =
     (let t = latest_task f s; i = taskId t; stage = fs_stage f; n = retryCount t + 1 in
      if AUDIT_REPORT_TIMEOUT_RECOVERY_MAX_RETRIES < n then Inr ((s, []), False)
      else
        (let active = readContextFallbackRuntimeOption (options_of i s) stage;
             (s1, profile) = selectAuditReportTimeoutRecoveryProfile e t stage active now s;
             (s2, sel) = resolved_selection e t stage now s1;
             own = map_option resp_id (selProfile sel);
             pid = readAttemptedRuntimeProfileIdFromError (fs_error f)
         in case delta_guard e t (recovery_input (stage_key stage) (rp_cat x) (rp_kind x) (Some (artifactPath a)) (artifactContentSha a)
               None (rp_family x) t pid)
             \<lparr>gt_rejected = rp_rejected x, gt_allowed = rp_allowed x, gt_reason = rp_family x, gt_manual = True\<rparr>
             ''accepted'' (Some (clearContextFallbackRuntimeOption (options_of i s) stage)) (fs_inProgress f) (fs_title f) now s2 of
            Inl m \<Rightarrow> Inl m
          | Inr (Inl r) \<Rightarrow> Inr (r, True)
          | Inr (Inr s3) \<Rightarrow>
              Inr (retry_at_once (f\<lparr>fs_task := t\<rparr>)
                (rp_what x (coordinator_stage_key (fs_label f)) @ artifactPath a @
                 ''; retrying immediately with bounded source-audit scope and evidence budget.'') n
                (case profile of
                   Some p \<Rightarrow> if Some (resp_id p) \<noteq> own
                     then setContextFallbackRuntimeOption (options_of i s) stage (resp_id p)
                       (orelse (Option.bind active cf_previousProfileId) own)
                       (if rp_failedDefault x then orelse pid own else pid) Transient_Error_Reason n (toISOString now)
                     else options_of i s
                 | None \<Rightarrow> options_of i s)
                (rp_line x @ ''artifact='' @ artifactPath a @ '' failedProfile='' @ given ''none'' pid @ '' selectedProfile='' @
                 given ''current'' (map_option resp_id profile) @ '' retry='' @ string_of_int n @ ''/'' @
                 string_of_int AUDIT_REPORT_TIMEOUT_RECOVERY_MAX_RETRIES) now s3, True)))"

definition report_artifact :: "failed_stage \<Rightarrow> recovery_db \<Rightarrow> artifact_row option" where
  "report_artifact f s = (case findRoadmapBatchArtifactByTaskId (taskId (fs_task f)) (rs_db (rv s)) of
     Some a \<Rightarrow> if artifactRole a = ''report'' then Some a else None | None \<Rightarrow> None)"

definition handleAuditReportTimeoutRecovery :: "recovery_env \<Rightarrow> failed_stage \<Rightarrow> int \<Rightarrow> recovery_db \<Rightarrow> string + recovery_result" where
  "handleAuditReportTimeoutRecovery e f now s =
     (case (findRuntimeExecutionError (fs_error f), report_artifact f s) of
        (Some (_, m), Some a) \<Rightarrow>
          if category m \<noteq> Timed_Out \<or> isRepositoryInspectionBudgetExhaustionError (fs_error f) \<or> asks_to_wait m \<or>
             \<not> rc_autoFallback e then Inr ((s, []), False)
          else audit_report_recovery e f
            \<lparr>rp_kind = ''audit_report_timeout'', rp_cat = ''timeout'', rp_family = ''audit_report_timeout'',
             rp_rejected = ''Audit report timeout recovery repeated with no runtime recovery delta.'',
             rp_allowed = ''Audit report timeout recovery allowed because runtime recovery delta was not repeated.'',
             rp_what = (\<lambda>label. ''Runtime audit report timeout recovery: '' @ label @ '' timed out while producing ''),
             rp_line = ''Audit report timeout scheduled immediate bounded retry: '', rp_failedDefault = False\<rparr> a now s
      | _ \<Rightarrow> Inr ((s, []), False))"

definition handleAuditReportTransientRecovery :: "recovery_env \<Rightarrow> failed_stage \<Rightarrow> int \<Rightarrow> recovery_db \<Rightarrow> string + recovery_result" where
  "handleAuditReportTransientRecovery e f now s =
     (case (findRuntimeExecutionError (fs_error f), report_artifact f s) of
        (Some (_, m), Some a) \<Rightarrow>
          if category m \<notin> AUDIT_REPORT_TRANSIENT_RECOVERY_CATEGORIES \<or> asks_to_wait m \<or> \<not> rc_autoFallback e
          then Inr ((s, []), False)
          else (let cat = category_text (category m) in audit_report_recovery e f
            \<lparr>rp_kind = ''audit_report_transient'', rp_cat = cat,
             rp_family = runtimeRecoveryBlockedReasonFamily (fs_error f) cat,
             rp_rejected = ''Audit report transient recovery repeated with no runtime recovery delta.'',
             rp_allowed = ''Audit report transient recovery allowed because runtime recovery delta was not repeated.'',
             rp_what = (\<lambda>label. ''Runtime audit report transient '' @ cat @ '' recovery: '' @ label @ '' failed while producing ''),
             rp_line = ''Audit report transient recovery scheduled immediate bounded retry: category='' @ cat @ '' '',
             rp_failedDefault = True\<rparr> a now s)
      | _ \<Rightarrow> Inr ((s, []), False))"

section \<open>A failure after the report was written\<close>

definition has_text :: "string option \<times> string \<Rightarrow> bool" where
  "has_text file \<longleftrightarrow> truthy (map_option js_trim (fst file))"

text \<open>The live checkout is read first, and a branch only when it holds no report.\<close>

definition written_report :: "recovery_env \<Rightarrow> task_row \<Rightarrow> string \<Rightarrow> artifact_row \<Rightarrow> string option \<times> string" where
  "written_report e t dir a =
     (let tree = orelse (worktreePath t) (artifactWorktreePath a);
          live = rc_readAuditArtifact e dir a None tree dir
      in if \<not> has_text live \<and> (truthy (branchName t) \<or> truthy (artifactBranchName a))
         then rc_readAuditArtifact e dir a (orelse (branchName t) (artifactBranchName a)) tree dir
         else live)"

definition report_validation :: "evidence_result \<Rightarrow> json" where
  "report_validation r = given JNull (jget ''auditReportValidation'' (er_evidence r))"

definition manifest_refs :: "evidence_result \<Rightarrow> string list" where
  "manifest_refs r =
     (case jget ''evidenceRefs'' (given JNull (jget ''manifest'' (report_validation r))) of
        Some (JArr vs) \<Rightarrow> json_strings vs | _ \<Rightarrow> [])"

definition written_input :: "failed_stage \<Rightarrow> task_row \<Rightarrow> artifact_row \<Rightarrow> string \<Rightarrow> evidence_result \<Rightarrow> delta_input" where
  "written_input f t a cat r =
     \<lparr>di_stage = coordinator_stage_key (fs_label f), di_category = cat, di_kind = ''post_write_audit_artifact_failure'',
      di_path = Some (artifactPath a), di_sha = er_artifactSha r, di_validator = er_validationFingerprint r, di_loop = None,
      di_family = ''post_write_audit_artifact_failure'', di_refs = manifest_refs r,
      di_snapshot = orelse (er_sourceSnapshotId r) (requirementsSnapshotId t),
      di_snapshotValue = jget ''sourceSnapshot'' (report_validation r),
      di_failed = readAttemptedRuntimeProfileIdFromError (fs_error f)\<rparr>"

definition after_write_extra :: "string \<Rightarrow> evidence_extra" where
  "after_write_extra cat =
     \<lparr>ex_blockedReason = Some (''runtime_'' @ cat @ ''_after_audit_artifact_write: '' @
        ''model transport failed after writing an audit report; coordinator used deterministic validation before retrying.''),
      ex_reviewIterationCount = None, ex_fields = (\<lambda>r. r)\<rparr>"

text \<open>
  The guard is asked only when the written report is not in order. What the report is worth decides the rest: the completion
  evidence blocks the task or returns it to rework, and a report in order leaves the failure to the other recoveries.
\<close>

definition recoverWrittenAuditArtifactAfterRuntimeFailure ::
    "recovery_env \<Rightarrow> failed_stage \<Rightarrow> string \<Rightarrow> int \<Rightarrow> recovery_db \<Rightarrow> string + recovery_result" where
  "recoverWrittenAuditArtifactAfterRuntimeFailure e f dir now s =
     (let t = latest_task f s in
      case (findRuntimeExecutionError (fs_error f), findRoadmapBatchArtifactByTaskId (taskId t) (rs_db (rv s))) of
        (Some (_, m), Some a) \<Rightarrow>
          if fs_label f \<noteq> Implementer \<or>
             category m \<notin> {Timed_Out, Context_Length} \<union> AUDIT_REPORT_TRANSIENT_RECOVERY_CATEGORIES \<or> asks_to_wait m \<or>
             artifactRole a \<noteq> ''report'' \<or> \<not> has_text (written_report e t dir a) then Inr ((s, []), False)
          else
            (let cat = category_text (category m);
                 u = (if snd (written_report e t dir a) = ''project_root'' then t\<lparr>branchName := None, worktreePath := None\<rparr> else t);
                 r = rh_evidence (rc_host e) u dir False (rs_db (rv s))
             in case (if er_ok r then Inr (Inr s)
                 else delta_guard e t (written_input f t a cat r)
                   \<lparr>gt_rejected = ''Post-write audit artifact recovery repeated with no runtime recovery delta.'',
                    gt_allowed = ''Post-write audit artifact recovery allowed because runtime recovery delta was not repeated.'',
                    gt_reason = ''post_write_audit_artifact_failure'', gt_manual = True\<rparr>
                   ''accepted'' None (fs_inProgress f) (fs_title f) now s) of
                Inl x \<Rightarrow> Inl x
              | Inr (Inl q) \<Rightarrow> Inr (q, True)
              | Inr (Inr s1) \<Rightarrow>
                  (case blockTaskForCompletionEvidenceIfNeeded (rc_host e) u dir (fs_inProgress f) (fs_title f) False False
                      (after_write_extra cat) now (rs_db (rv s1)) of
                     Inl x \<Rightarrow> Inl x
                   | Inr ((d, ms), False) \<Rightarrow> Inr ((lift_db (\<lambda>_. d) s1, ms), False)
                   | Inr ((d, ms), True) \<Rightarrow>
                       Inr ((lift_db (\<lambda>_. appendTaskActivityLog (taskId t) (stamped now
                         (''Runtime failure after audit artifact write was converted to validation-guided audit recovery: category='' @
                          cat @ '' artifact='' @ artifactPath a)) now d) s1, ms), True)))
      | _ \<Rightarrow> Inr ((s, []), False))"

section \<open>The failure of a stage\<close>

text \<open>A failure that blocks is attributed to the profile the error names.\<close>

definition attribute_failure :: "failed_stage \<Rightarrow> error_recovery \<Rightarrow> int \<Rightarrow> db \<Rightarrow> db" where
  "attribute_failure f rec now d =
     (case (rec, findRuntimeExecutionError (fs_error f), readAttemptedRuntimeProfileIdFromError (fs_error f)) of
        (Blocked_Recovery b, Some (_, m), Some pid) \<Rightarrow>
          (let known = (\<lambda>key. redactProviderText (given ''unknown'' (readRuntimeProviderMetaString (fs_error f) key))) in
           appendTaskActivityLog (taskId (fs_task f)) (stamped now (''Runtime external failure attribution: category='' @
             category_text (category m) @ '' status='' @ known ''status'' @ '' failedProfile='' @ pid @ '' baseUrl='' @
             known ''baseUrl'' @ '' model='' @ known ''model'' @ '' retryAfter='' @
             (case rec_retryAfter b of None \<Rightarrow> ''none'' | Some t \<Rightarrow> toISOString t))) now d)
      | _ \<Rightarrow> d)"

text \<open>The next recovery is tried if the one before has not handled the failure.\<close>

definition or_try ::
    "(recovery_db \<Rightarrow> string + recovery_result) \<Rightarrow> (recovery_db \<Rightarrow> string + recovery_result) \<Rightarrow> recovery_db \<Rightarrow> string + recovery_result" where
  "or_try g h s = (case g s of Inl m \<Rightarrow> Inl m | Inr (r, True) \<Rightarrow> Inr (r, True) | Inr ((s1, ms), False) \<Rightarrow> h s1)"

definition runtime_recoveries :: "recovery_env \<Rightarrow> failed_stage \<Rightarrow> string \<Rightarrow> int \<Rightarrow> recovery_db \<Rightarrow> string + recovery_result" where
  "runtime_recoveries e f dir now =
     or_try (recoverWrittenAuditArtifactAfterRuntimeFailure e f dir now)
      (or_try (handleRepositoryInspectionBudgetExhaustion e f dir now)
        (or_try (handleContextLengthRecovery e f now)
          (or_try (handleAuditReportTimeoutRecovery e f now)
            (or_try (handleTransientRuntimeFallbackRecovery e f now) (handleAuditReportTransientRecovery e f now)))))"

text \<open>
  The rest of the handler, for a failure that is not one of plan quality, of a synthesis not ready or of an
  exhausted implementation. \<open>src\<close> is the status from which the stage was begun.
\<close>

definition handle_runtime_failure ::
    "recovery_env \<Rightarrow> bool \<Rightarrow> failed_stage \<Rightarrow> string \<Rightarrow> task_status \<Rightarrow> int \<Rightarrow> recovery_db \<Rightarrow> string + recovery_db \<times> (bool \<times> moved) list" where
  "handle_runtime_failure e limitsEnabled f dir src now s =
     (if (case findTaskById (taskId (fs_task f)) (rs_db (rv s)) of None \<Rightarrow> False | Some r \<Rightarrow> isOperatorCancelledTask r)
      then Inr (s, [])
      else case runtime_recoveries e f dir now s of
          Inl m \<Rightarrow> Inl m
        | Inr (r, True) \<Rightarrow> Inr r
        | Inr ((s1, _), False) \<Rightarrow>
            (let s2 = (if map_option (category \<circ> snd) (findRuntimeExecutionError (fs_error f)) = Some Context_Length then s1
                   else s1\<lparr>rv := clearContextFallbackForTask (taskId (fs_task f)) (fs_stage f) now (rv s1)\<rparr>);
                 inp = \<lparr>se_taskId = taskId (fs_task f), stageLabel = coordinator_stage_key (fs_label f), sourceStatus = src,
                   se_retryCount = retryCount (fs_task f), err = fs_error f\<rparr>
             in case classifyStageError (rt_date (rc_routing e)) limitsEnabled inp now (rs_db (rv s2)) of
                  Inl m \<Rightarrow> Inl m
                | Inr (rec, d) \<Rightarrow>
                    (case applyStageRecovery inp (fs_inProgress f) (fs_title f) rec now d of
                       Inl m \<Rightarrow> Inl m
                     | Inr (d', ms) \<Rightarrow> Inr (lift_db (\<lambda>_. attribute_failure f rec now d') s2, ms))))"

end
