(* ===== verification/Routing_Claims.thy ===== *)
theory Routing_Claims
  imports Profile_Routing
begin

text \<open>
  What the routing of candidates promises: the chosen profile is enabled and within its limits, replacements
  are compatible, fallbacks do not go on for ever, and a candidate is started, blocked, or left for
  want of a slot on its profile.
\<close>

section \<open>The row of a candidate\<close>

definition same_candidate :: "task_row \<Rightarrow> int \<Rightarrow> task_row \<Rightarrow> bool" where
  "same_candidate t now r \<longleftrightarrow> taskId r = taskId t \<and> status r = status t \<and> projectId r = projectId t \<and>
     autoMode r = autoMode t \<and> \<not> paused r \<and> lock_free now r"

definition waiting :: "task_row \<Rightarrow> int \<Rightarrow> db \<Rightarrow> bool" where
  "waiting t now d \<longleftrightarrow> status t \<noteq> Blocked_External \<and> ids_distinct d \<and> (\<exists>r\<in>set (executable_rows d). same_candidate t now r)"

definition blocked_in :: "string \<Rightarrow> db \<Rightarrow> bool" where
  "blocked_in i d \<longleftrightarrow> ids_distinct d \<and> (\<exists>r\<in>set (executable_rows d). taskId r = i \<and> status r = Blocked_External)"

lemma waiting_wrote:
  assumes "waiting t now d" and "wrote (taskId t) f d d'" and "\<And>r. same_candidate t now r \<Longrightarrow> same_candidate t now (f r)"
  shows "waiting t now d'"
proof -
  obtain r where r: "r \<in> set (executable_rows d)" "same_candidate t now r" using assms(1) by (auto simp: waiting_def)
  then have "f r \<in> set (executable_rows d')" using assms(2) by (force simp: wrote_def same_candidate_def)
  then show ?thesis using assms r by (auto simp: waiting_def wrote_def)
qed

lemma waiting_log:
  assumes "waiting t now d"
  shows "waiting t now (appendTaskActivityLog (taskId t) x now' d)"
proof (rule waiting_wrote [OF assms])
  show "wrote (taskId t) (\<lambda>r. normalizeOperatorInputHoldPatch (r\<lparr>lastHeartbeatAt := Some now', updatedAt := now'\<rparr>)) d
      (appendTaskActivityLog (taskId t) x now' d)"
    using assms by (intro wrote_activity) (simp add: waiting_def)
qed (use assms in \<open>auto simp: waiting_def same_candidate_def normalizeOperatorInputHoldPatch_def lock_free_def\<close>)

lemma waiting_touch:
  assumes "waiting t now d"
  shows "waiting t now (setTaskFields (taskId t) (\<lambda>r. r\<lparr>updatedAt := now'\<rparr>) now' d)"
proof (rule waiting_wrote [OF assms])
  show "wrote (taskId t) (\<lambda>r. normalizeOperatorInputHoldPatch (r\<lparr>updatedAt := now'\<rparr>)) d
      (setTaskFields (taskId t) (\<lambda>r. r\<lparr>updatedAt := now'\<rparr>) now' d)"
    using assms by (intro wrote_setTaskFields) (simp_all add: waiting_def)
qed (use assms in \<open>auto simp: waiting_def same_candidate_def normalizeOperatorInputHoldPatch_def lock_free_def\<close>)

lemma blocked_log:
  assumes "blocked_in i d"
  shows "blocked_in i (appendTaskActivityLog j x now d)"
proof -
  let ?f = "\<lambda>r. normalizeOperatorInputHoldPatch (r\<lparr>lastHeartbeatAt := Some now, updatedAt := now\<rparr>)"
  obtain r where r: "r \<in> set (executable_rows d)" "taskId r = i" "status r = Blocked_External"
    using assms by (auto simp: blocked_in_def)
  have w: "wrote j ?f d (appendTaskActivityLog j x now d)" using assms by (intro wrote_activity) (simp add: blocked_in_def)
  let ?q = "if taskId r = j then ?f r else r"
  have "?q \<in> set (executable_rows (appendTaskActivityLog j x now d))"
    using w r(1) by (force simp: wrote_def)
  moreover have "taskId ?q = i" "status ?q = Blocked_External" using r by (simp_all add: normalizeOperatorInputHoldPatch_def)
  ultimately show ?thesis using w unfolding blocked_in_def wrote_def by blast
qed

lemma blocked_by_gate:
  assumes "waiting t now d" and "blockTaskForRuntimeGateIfEligible (candidate_gate t reason after count snapshot) now d = (d1, applied)"
  shows "applied \<and> blocked_in (taskId t) d1"
proof -
  define g where "g = candidate_gate t reason after count snapshot"
  have g: "g_taskId g = taskId t" "g_expectedProjectId g = Some (projectId t)" "g_expectedStatus g = status t"
      "g_expectedAutoMode g = expected_auto t"
    by (simp_all add: g_def candidate_gate_def)
  let ?P = "\<lambda>r. taskId r = g_taskId g \<and> status r = g_expectedStatus g \<and> hierarchyRole r \<noteq> Container \<and> \<not> paused r \<and>
    lock_free now r \<and> (case g_expectedProjectId g of None \<Rightarrow> True | Some p \<Rightarrow> projectId r = p) \<and>
    (case g_expectedAutoMode g of None \<Rightarrow> True | Some a \<Rightarrow> autoMode r = a)"
  let ?f = "\<lambda>r. r\<lparr>status := Blocked_External, blockedFromStatus := Some (g_blockedFromStatus g),
               blockedReason := Some (g_blockedReason g), retryAfter := g_retryAfter g,
               retryCount := g_retryCount g, runtimeLimitSnapshot := g_snapshot g,
               runtimeLimitUpdatedAt := Some now, updatedAt := now\<rparr>"
  obtain r where r: "r \<in> set (executable_rows d)" "same_candidate t now r" and ids: "ids_distinct d"
    using assms(1) by (auto simp: waiting_def)
  have P: "?P r" using r g by (auto simp: same_candidate_def executable_rows_def expected_auto_def)
  have in_tasks: "r \<in> set (tasks d)" using r(1) by (simp add: executable_rows_def)
  have n: "filter ?P (tasks d) \<noteq> []" using P in_tasks unfolding filter_empty_conv by blast
  have e: "ids_distinct (fst (update_tasks ?P ?f d))" using ids by (simp add: ids_distinct_update)
  have "?f r \<in> set (executable_rows (fst (update_tasks ?P ?f d)))"
    using P r(1) by (subst executable_update) (auto simp: image_iff)
  then have "blocked_in (taskId t) (refreshAncestorRollups (Some (g_taskId g)) now (fst (update_tasks ?P ?f d)))"
    using e r(2) by (auto simp: blocked_in_def executable_rows_refreshAncestorRollups ids_distinct_refresh same_candidate_def
        intro!: bexI [of _ "?f r"])
  moreover have "d1 = refreshAncestorRollups (Some (g_taskId g)) now (fst (update_tasks ?P ?f d)) \<and> applied"
    using assms(2) [folded g_def] n by (simp add: blockTaskForRuntimeGateIfEligible_def case_prod_unfold Let_def)
  ultimately show ?thesis by simp
qed

lemma blocked_no_runtime:
  assumes "waiting t now d" and "proactivelyBlockTaskForNoImplementationCapableRuntime t sel now' d = (d1, ms)"
  shows "blocked_in (taskId t) d1"
proof -
  let ?reason = "buildNoImplementationCapableRuntimeReason sel"
  let ?f = "\<lambda>r. r\<lparr>blockedReason := Some ?reason, blockedFromStatus := Some (status t), retryAfter := None,
               retryCount := retryCount t, manualReviewRequired := False\<rparr>"
  obtain r where r: "r \<in> set (executable_rows d)" "same_candidate t now r" and ids: "ids_distinct d"
    using assms(1) by (auto simp: waiting_def)
  have "findTaskById (taskId t) d = Some r"
    using r ids by (auto simp: findTaskById_iff executable_rows_def same_candidate_def)
  then have c: "fst (coordinator_updateTaskStatus (taskId t) Blocked_External ?f (Some ?reason) (title t) (status t) now' d) =
      updateTaskStatus (taskId t) Blocked_External ?f now' d"
    using r(2) assms(1) by (simp add: coordinator_updateTaskStatus_def isOperatorCancelledTask_def same_candidate_def waiting_def)
  let ?g = "\<lambda>r. ?f (r\<lparr>status := Blocked_External, sessionId := None, lastHeartbeatAt := Some now', updatedAt := now'\<rparr>)"
  have w: "wrote (taskId t) (\<lambda>r. normalizeOperatorInputHoldPatch (?g r)) d (updateTaskStatus (taskId t) Blocked_External ?f now' d)"
    unfolding updateTaskStatus_def by (rule wrote_setTaskFields [OF ids]) simp_all
  then have "normalizeOperatorInputHoldPatch (?g r) \<in> set (executable_rows (updateTaskStatus (taskId t) Blocked_External ?f now' d))"
    using r by (force simp: wrote_def same_candidate_def)
  then have "blocked_in (taskId t) (updateTaskStatus (taskId t) Blocked_External ?f now' d)"
    using w r(2) by (auto simp: blocked_in_def wrote_def normalize_frame normalizeOperatorInputHoldPatch_def same_candidate_def
        intro!: bexI [of _ "normalizeOperatorInputHoldPatch (?g r)"])
  then show ?thesis using assms(2) c blocked_log
    by (auto simp: proactivelyBlockTaskForNoImplementationCapableRuntime_def Let_def split: prod.splits)
qed


section \<open>What routing keeps\<close>

lemma waiting_clear: "waiting t now (rs_db s) \<Longrightarrow> waiting t now (rs_db (clearContextFallbackForTask (taskId t) stage now' s))"
  by (simp add: clearContextFallbackForTask_def Let_def waiting_touch)

lemma waiting_durable:
  "waiting t now (rs_db s) \<Longrightarrow> waiting t now (rs_db (snd (applyDurableRuntimeFallbackSelection e t stage sel now' s)))"
  by (auto simp: applyDurableRuntimeFallbackSelection_def Let_def waiting_clear split: option.split prod.split)

lemma waiting_audit:
  "waiting t now (rs_db s) \<Longrightarrow> waiting t now (rs_db (snd (applyProtectedAuditEndpointRouting e t stage sel now' s)))"
  by (auto simp: applyProtectedAuditEndpointRouting_def Let_def waiting_log split: option.split)

lemma waiting_choose:
  assumes "waiting t now (rs_db s)"
  shows "waiting t now (rs_db (snd (choose_profile e t stage now' s)))"
  unfolding choose_profile_def Let_def case_prod_unfold
  by (rule waiting_audit) (auto simp: assms waiting_log waiting_durable split: option.split)

lemma waiting_gate:
  assumes "waiting t now (rs_db s)" and "gate_with_fallback e st t stage stages sel now' s = Inr (sg, s')"
  shows "waiting t now (rs_db s')"
  using assms by (auto simp: gate_with_fallback_def Let_def case_prod_unfold waiting_log set_fallbacks_def
      split: sum.splits if_splits option.splits)

lemma waiting_budget:
  assumes "waiting t now d" and "appendRuntimeBudgetActivity b t stage now d = ((d1, ms), blocked)"
  shows "if blocked then blocked_in (taskId t) d1 else waiting t now d1"
proof (cases "bdStatus b")
  case Budget_Block
  then show ?thesis using assms(2) blocked_by_gate [OF assms(1)]
    by (fastforce simp: appendRuntimeBudgetActivity_def Let_def intro: blocked_log split: prod.splits if_splits)
qed (use assms in \<open>auto simp: appendRuntimeBudgetActivity_def Let_def waiting_log split: if_splits\<close>)

lemma blocked_by_limits:
  assumes "waiting t now d" and "proactivelyBlockTaskForRuntimeGate t st sel g now d = Inr (d1, ms)"
  shows "blocked_in (taskId t) d1"
  using assms(2) blocked_by_gate [OF assms(1)]
  by (auto simp: proactivelyBlockTaskForRuntimeGate_def Let_def blocked_log split: prod.splits if_splits sum.splits)

lemma prepared_row:
  assumes "waiting t now (rs_db s0)" and "prepare_candidate e st t now s0 = Inr ((s, ms), choice)"
  shows "if choice = None then blocked_in (taskId t) (rs_db s) else waiting t now (rs_db s)"
proof -
  define s1 where "s1 = set_fallbacks t (fallbackStagesForCoordinatorTask st t (rs_db s0)) None No_Source now s0"
  define stage where "stage = runtimeStageForCoordinatorTask st t (rs_db s0)"
  have w1: "waiting t now (rs_db s1)" using assms(1) by (simp add: s1_def set_fallbacks_def)
  obtain d1 ms1 b where budget: "appendRuntimeBudgetActivity (rt_budget e t stage (rs_db s1)) t stage now (rs_db s1) = ((d1, ms1), b)"
    by (metis prod.exhaust)
  note wb = waiting_budget [OF w1 budget]
  obtain sel s2 where chosen: "choose_profile e t stage now (s1\<lparr>rs_db := d1\<rparr>) = (sel, s2)" by fastforce
  show ?thesis
  proof (cases b)
    case True
    then show ?thesis using assms(2) budget wb
      by (auto simp: prepare_candidate_def Let_def s1_def [symmetric] stage_def [symmetric])
  next
    case False
    then have w2: "waiting t now (rs_db s2)"
      using waiting_choose [of t now "s1\<lparr>rs_db := d1\<rparr>" e stage now] wb chosen by simp
    have limit: "blocked_in (taskId t) d'"
      if "gate_with_fallback e st t stage stages sel now s2 = Inr (sg, s')"
        "proactivelyBlockTaskForRuntimeGate t st sel' g now (rs_db s') = Inr (d', ms')" for stages sg s' sel' g d' ms'
      using blocked_by_limits [OF waiting_gate [OF w2 that(1)] that(2)] .
    show ?thesis using assms(2) budget chosen False
      by (auto simp: prepare_candidate_def Let_def s1_def [symmetric] stage_def [symmetric]
          split: prod.splits if_splits sum.splits dest: limit waiting_gate [OF w2] blocked_no_runtime [OF w2])
  qed
qed

text \<open>A candidate that waits is started unless a slot is missing.\<close>

lemma start_waiting:
  assumes "waiting t now d" and "start_task e st t key cap now (sl, d) = (res, sl', d')"
  shows "case res of
      Started \<Rightarrow> runs sl' = runs sl @ [\<lparr>run_task = taskId t, run_project = projectId t, run_stage = st, run_key = key\<rparr>] \<and>
        (\<exists>r. findTaskById (taskId t) d' = Some r \<and> lockedBy r = Some (pe_coordinator e) \<and> lockStage r = Some st)
    | Passed_Over \<Rightarrow> sl' = sl \<and> d' = d \<and> (\<exists>k. key = Some k \<and> cap \<le> sem_count k (profileSem sl))
    | Stage_Full \<Rightarrow> sl' = sl \<and>
        (pe_globalMax e \<le> totalActive (stageSem sl) \<or> pe_globalMax e \<le> sem_count st (stageSem sl)) \<and>
        (\<exists>r. findTaskById (taskId t) d' = Some r \<and> lockedBy r = None \<and> status r = status t)"
proof -
  let ?i = "taskId t"
  let ?claim = "\<lambda>r. r\<lparr>lockedBy := Some (pe_coordinator e), lockedUntil := Some (now + pe_claimMs e),
               coordinatorId := Some (pe_coordinator e), lockStage := Some st, lastHeartbeatAt := Some now, updatedAt := now\<rparr>"
  obtain r where r: "r \<in> set (tasks d)" "hierarchyRole r \<noteq> Container" "same_candidate t now r"
    using assms(1) by (auto simp: waiting_def executable_rows_def)
  have row: "findTaskById ?i d = Some r"
    using assms(1) r by (auto simp: waiting_def findTaskById_iff same_candidate_def)
  obtain d1 ok where c: "claimTask ?i (pe_coordinator e) (pe_claimMs e) st now d = (d1, ok)" by fastforce
  have "filter (\<lambda>r. taskId r = ?i \<and> hierarchyRole r \<noteq> Container \<and> lock_free now r) (tasks d) \<noteq> []"
    using r unfolding filter_empty_conv by (auto simp: same_candidate_def)
  then have ok: ok using c by (auto simp: claimTask_def update_tasks_def Let_def)
  have "d1 = fst (update_tasks (\<lambda>r. taskId r = ?i \<and> hierarchyRole r \<noteq> Container \<and> lock_free now r) ?claim d)"
    using c by (auto simp: claimTask_def case_prod_unfold Let_def)
  then have claimed: "findTaskById ?i d1 = Some (?claim r)"
    using row r by (simp add: findTaskById_update same_candidate_def)
  have freed: "findTaskById ?i (fst (releaseTaskClaim ?i (pe_coordinator e) now d1)) = Some (unlock now (?claim r))"
    using claimed r by (simp add: releaseTaskClaim_def case_prod_unfold Let_def findTaskById_update unlock_def same_candidate_def)
  show ?thesis
  proof (cases "key_full key cap sl")
    case True
    then show ?thesis using assms(2) by (auto simp: start_task_def key_full_def available_def split: option.splits)
  next
    case False
    show ?thesis
    proof (cases "pe_globalMax e \<le> totalActive (stageSem sl) \<or> pe_globalMax e \<le> sem_count st (stageSem sl)")
      case True
      then have "(res, sl', d') = (Stage_Full, sl, fst (releaseTaskClaim ?i (pe_coordinator e) now d1))"
        using assms(2) False c ok by (auto simp: start_task_def Let_def tryAcquire_def)
      then show ?thesis using True freed r(3) by (auto simp: unlock_def same_candidate_def)
    next
      case room: False
      then show ?thesis using assms(2) False c ok claimed
        by (auto simp: start_task_def Let_def tryAcquire_def key_full_def available_def split: option.splits)
    qed
  qed
qed

text \<open>
  C13: What becomes of a candidate that its project has room for. If its preparation ends it, it is blocked.
  Else it is started, and then it is claimed by this coordinator, unless a slot is missing: it is passed over only when the key of the profile it was given has no free slot left, and the stage is ended
  for all only when the slots of the stage or of the coordinator are used up. In both cases it is left
  unclaimed, with the status it had. A failed claim is never the reason. An error of the limit gate is the only
  other end.
\<close>

theorem candidate_is_started_blocked_or_lacks_a_slot:
  assumes "start_candidate e st t now sl s0 = Inr (res, sl', s, ms)" and "ids_distinct (rs_db s0)"
    and "t \<in> set (findCoordinatorTaskCandidates st n now (rs_db s0))"
  shows "\<exists>r. findTaskById (taskId t) (rs_db s) = Some r \<and>
    (case res of
       None \<Rightarrow> sl' = sl \<and> status r = Blocked_External
     | Some Started \<Rightarrow> lockedBy r = Some (pe_coordinator (rt_poll e)) \<and> lockStage r = Some st \<and>
         (\<exists>key. runs sl' = runs sl @ [\<lparr>run_task = taskId t, run_project = projectId t, run_stage = st, run_key = key\<rparr>])
     | Some Passed_Over \<Rightarrow> sl' = sl \<and> lock_free now r \<and> status r = status t \<and>
         (\<exists>sel k. prepare_candidate e st t now s0 = Inr ((s, ms), Some sel) \<and>
            runtimeProfileSemaphoreKey (rt_poll e) (map_option slot_of (selProfile sel)) = Some k \<and>
            readRuntimeProfileConcurrency (rt_poll e) (map_option slot_of (selProfile sel))
              (runtimeStageForCoordinatorTask st t (rs_db s0)) \<le> sem_count k (profileSem sl))
     | Some Stage_Full \<Rightarrow> sl' = sl \<and> lock_free now r \<and> status r = status t \<and>
         (pe_globalMax (rt_poll e) \<le> totalActive (stageSem sl) \<or> pe_globalMax (rt_poll e) \<le> sem_count st (stageSem sl)))"
proof -
  have "t \<in> set (tasks (rs_db s0))" "stageFilter st t" "hierarchyRole t \<noteq> Container" "\<not> paused t" "lock_free now t"
    using candidate_row [OF assms(3)] by simp_all
  then have w0: "waiting t now (rs_db s0)"
    using assms(2) by (cases st) (auto simp: waiting_def executable_rows_def same_candidate_def)
  obtain s1 choice where p: "prepare_candidate e st t now s0 = Inr ((s1, ms), choice)"
    using assms(1) by (auto simp: start_candidate_def Let_def split: sum.splits prod.splits option.splits)
  note end_row = prepared_row [OF w0 p]
  show ?thesis
  proof (cases choice)
    case None
    then have "res = None" "sl' = sl" "s = s1" using assms(1) p by (simp_all add: start_candidate_def Let_def)
    then show ?thesis using end_row None by (auto simp: blocked_in_def executable_rows_def findTaskById_iff)
  next
    case (Some sel)
    let ?p = "map_option slot_of (selProfile sel)"
    obtain res1 d1 where start: "start_task (rt_poll e) st t (runtimeProfileSemaphoreKey (rt_poll e) ?p)
        (readRuntimeProfileConcurrency (rt_poll e) ?p (runtimeStageForCoordinatorTask st t (rs_db s0))) now (sl, rs_db s1) =
        (res1, sl', d1)" and r: "res = Some res1" "s = s1\<lparr>rs_db := d1\<rparr>"
      using assms(1) p Some by (auto simp: start_candidate_def Let_def split: prod.splits)
    have w: "waiting t now (rs_db s1)" using end_row Some by simp
    then obtain q where q: "findTaskById (taskId t) (rs_db s1) = Some q" "same_candidate t now q"
      by (auto simp: waiting_def executable_rows_def findTaskById_iff same_candidate_def)
    show ?thesis using start_waiting [OF w start] r p Some q
      by (cases res1) (auto simp: same_candidate_def lock_free_def)
  qed
qed

section \<open>The profile a candidate is prepared with\<close>

text \<open>A profile that may be used: it is stored and enabled, and may run the stage or stands in for one that may.\<close>

definition admissible :: "(string \<Rightarrow> int option) \<Rightarrow> runtime_stage \<Rightarrow> profile_row list \<Rightarrow> profile_response \<Rightarrow> bool" where
  "admissible dp stage rows p \<longleftrightarrow> fst p \<in> set rows \<and> pfEnabled (fst p) \<and>
     (\<exists>q. fst q \<in> set rows \<and> pfEnabled (fst q) \<and> runtimeProfileAllowedForStage dp (fst q) stage \<and> same_runtime p q)"

definition admissible_sel :: "(string \<Rightarrow> int option) \<Rightarrow> runtime_stage \<Rightarrow> routing_state \<Rightarrow> profile_selection \<Rightarrow> bool" where
  "admissible_sel dp stage s sel \<longleftrightarrow> (\<forall>p. selProfile sel = Some p \<longrightarrow> admissible dp stage (profiles (rs_profiles s)) p)"

lemma same_runtime_refl [simp]: "same_runtime p p"
  by (simp add: same_runtime_def)

lemma same_runtime_trans: "same_runtime p q \<Longrightarrow> same_runtime q r \<Longrightarrow> same_runtime p r"
  by (simp add: same_runtime_def)

lemma admissible_replaced:
  "admissible dp stage rows q \<Longrightarrow> fst p \<in> set rows \<Longrightarrow> pfEnabled (fst p) \<Longrightarrow> same_runtime p q \<Longrightarrow> admissible dp stage rows p"
  unfolding admissible_def by (blast intro: same_runtime_trans)

lemma listed_profile:
  "p \<in> set (listRuntimeProfileResponses pid glob True pd) \<Longrightarrow> fst p \<in> set (profiles pd) \<and> pfEnabled (fst p)"
  by (auto simp: listRuntimeProfileResponses_def listRuntimeProfiles_def toRuntimeProfileResponse_def Let_def)

lemma default_keeps_profiles [simp]: "profiles (fst (getAppDefaultRuntimeProfileId sm now pd)) = profiles pd"
  by (simp add: getAppDefaultRuntimeProfileId_def ensureAppSettingsRow_def Let_def split: option.split)

lemma preferred_keeps_profiles [simp]: "profiles (fst (getPreferredContextFallbackProfileIds t stage now d pd)) = profiles pd"
  by (simp add: getPreferredContextFallbackProfileIds_def case_prod_unfold Let_def)

lemma resolved_admissible:
  assumes "sel = resolveEffectiveRuntimeProfileExcluding dp ex inp d pd" and "siMode inp = Of_Stage stage"
    and "selProfile sel = Some p" and "profiles pd = rows"
  shows "admissible dp stage rows p"
proof -
  have "selStage sel = stage"
    using assms(1,2) by (simp add: resolveEffectiveRuntimeProfileExcluding_def resolve_excluding_def Let_def)
  moreover obtain r u where p: "p = (r, u)" by fastforce
  let ?ex = "set ex" and ?look = "\<lambda>i. findRuntimeProfileById i pd"
  let ?cs = "[(Task_Override, selTaskProfileId sel), (Project_Default, selProjectProfileId sel), (System_Default, selSystemProfileId sel)]"
  have "snd (first_usable dp (selStage sel) ?ex ?look ?cs) = Some r"
    using assms(1,3) p by (auto simp: resolveEffectiveRuntimeProfileExcluding_def resolve_excluding_def Let_def
        toRuntimeProfileResponse_def)
  then obtain src where "first_usable dp (selStage sel) ?ex ?look ?cs = (src, Some r)" by (metis prod.collapse)
  from first_usable_Some [OF this] obtain c where c: "?look c = Some r" "selectable dp (selStage sel) ?ex ?look (Some c)"
    by blast
  have "r \<in> set (profiles pd)" using c(1) by (auto simp: findRuntimeProfileById_def find_Some_iff)
  moreover have "pfEnabled r" "runtimeProfileAllowedForStage dp r (selStage sel)"
    using c by (auto simp: selectable_def usable_profile_def)
  ultimately show ?thesis using p assms(4) unfolding admissible_def
    by (intro conjI exI [of _ p]) simp_all
qed

lemma clear_keeps_profiles [simp]: "rs_profiles (clearContextFallbackForTask i stage now s) = rs_profiles s"
  by (simp add: clearContextFallbackForTask_def Let_def)

lemma durable_admissible:
  assumes "admissible_sel dp stage s sel" and "applyDurableRuntimeFallbackSelection e t stage sel now s = (sel', s')"
  shows "admissible_sel dp stage s' sel' \<and> profiles (rs_profiles s') = profiles (rs_profiles s)"
proof (cases "readContextFallbackRuntimeOption (rs_options s (taskId t)) stage")
  case (Some f)
  note stored = this
  show ?thesis
  proof (cases "(List.find (\<lambda>p. resp_id p = cf_profileId f) (listRuntimeProfileResponses (Some (projectId t)) True True (rs_profiles s)), selProfile sel)")
    case (Pair p cur)
    show ?thesis
    proof (cases "p \<noteq> None \<and> cur \<noteq> None")
      case True
      then obtain q c where qc: "p = Some q" "cur = Some c" by auto
      then have q: "fst q \<in> set (profiles (rs_profiles s))" "pfEnabled (fst q)"
        using Pair listed_profile [of q] found_row by fastforce+
      have "admissible dp stage (profiles (rs_profiles s)) c"
        using assms(1) Pair qc unfolding admissible_sel_def by blast
      then have "same_runtime q c \<Longrightarrow> admissible dp stage (profiles (rs_profiles s)) q"
        by (rule admissible_replaced [OF _ q])
      then show ?thesis using assms stored Pair qc
        by (auto simp: applyDurableRuntimeFallbackSelection_def admissible_sel_def case_prod_unfold Let_def
            isRuntimeProfileCompatibleForContextFallback_def split: if_splits)
    next
      case False
      then show ?thesis using assms stored Pair
        by (auto simp: applyDurableRuntimeFallbackSelection_def admissible_sel_def Let_def split: option.splits)
    qed
  qed
qed (use assms in \<open>simp add: applyDurableRuntimeFallbackSelection_def\<close>)

lemma sorted_head_mem: "sort_key k xs = y # ys \<Longrightarrow> y \<in> set xs"
  by (metis list.set_intros(1) set_sort)

lemma audit_admissible:
  assumes "admissible_sel dp stage s sel" and "applyProtectedAuditEndpointRouting e t stage sel now s = (sel', s')"
  shows "admissible_sel dp stage s' sel' \<and> profiles (rs_profiles s') = profiles (rs_profiles s)"
proof -
  have "admissible dp stage (profiles (rs_profiles s)) p"
    if sel: "selProfile sel = Some cur" and p: "selectProtectedAuditEndpointProfile e t cur (rs_profiles s) = Some p" for cur p
  proof -
    let ?ps = "filter (audit_route_candidate e cur) (listRuntimeProfileResponses (Some (projectId t)) True True (rs_profiles s))"
    have "p \<in> set ?ps"
      using p by (auto simp: selectProtectedAuditEndpointProfile_def split: if_splits list.splits dest!: sorted_head_mem)
    then have r: "same_runtime p cur" "p \<in> set (listRuntimeProfileResponses (Some (projectId t)) True True (rs_profiles s))"
      by (auto simp: audit_route_candidate_def)
    have "admissible dp stage (profiles (rs_profiles s)) cur" using assms(1) sel unfolding admissible_sel_def by blast
    then show ?thesis using listed_profile [OF r(2)] r(1) by (blast intro: admissible_replaced)
  qed
  with assms show ?thesis
    by (auto simp: applyProtectedAuditEndpointRouting_def admissible_sel_def Let_def split: option.splits if_splits)
qed

lemma chosen_admissible:
  assumes "choose_profile e t stage now s = (sel, s')"
  shows "admissible_sel (rt_date e) stage s' sel \<and> profiles (rs_profiles s') = profiles (rs_profiles s)"
proof -
  define pd1 where "pd1 = fst (getAppDefaultRuntimeProfileId (Of_Stage stage) now (rs_profiles s))"
  define system where "system = snd (getAppDefaultRuntimeProfileId (Of_Stage stage) now (rs_profiles s))"
  define s1 where "s1 = s\<lparr>rs_profiles := pd1\<rparr>"
  define sel0 where "sel0 = resolveEffectiveRuntimeProfile (rt_date e) (stage_input t stage system) (rs_db s1) pd1"
  have "siMode (stage_input t stage system) = Of_Stage stage" by (simp add: stage_input_def)
  then have a0: "admissible_sel (rt_date e) stage s1 sel0"
    using resolved_admissible [of sel0 "rt_date e" "[]" "stage_input t stage system" "rs_db s1" pd1]
    by (auto simp: admissible_sel_def s1_def sel0_def resolveEffectiveRuntimeProfile_def resolveEffectiveRuntimeProfileExcluding_def)
  have p1: "profiles (rs_profiles s1) = profiles (rs_profiles s)" by (simp add: s1_def pd1_def)
  obtain sel1 s2 where d: "applyDurableRuntimeFallbackSelection (rt_poll e) t stage sel0 now s1 = (sel1, s2)" by fastforce
  note durable = durable_admissible [OF a0 d]
  have run: "choose_profile e t stage now s = (case readContextFallbackRuntimeOption (rs_options s1 (taskId t)) stage of
      None \<Rightarrow> applyProtectedAuditEndpointRouting (rt_poll e) t stage sel0 now s1
    | Some f \<Rightarrow> applyProtectedAuditEndpointRouting (rt_poll e) t stage sel1 now
        (if map_option resp_id (selProfile sel1) = Some (cf_profileId f)
         then s2\<lparr>rs_db := appendTaskActivityLog (taskId t) (stamped now (''Runtime one-shot fallback before '' @
              stage_key stage @ '': selectedProfile='' @ cf_profileId f @ '' previousProfile='' @
              given ''none'' (cf_previousProfileId f))) now (rs_db s2)\<rparr> else s2))"
    using d by (cases "readContextFallbackRuntimeOption (rs_options s1 (taskId t)) stage")
      (auto simp add: choose_profile_def Let_def case_prod_unfold s1_def sel0_def pd1_def system_def)
  have logged: "admissible_sel dp stage (s2\<lparr>rs_db := x\<rparr>) sel1 = admissible_sel dp stage s2 sel1" for x dp
    by (simp add: admissible_sel_def)
  show ?thesis
  proof (cases "readContextFallbackRuntimeOption (rs_options s1 (taskId t)) stage")
    case None
    then have "applyProtectedAuditEndpointRouting (rt_poll e) t stage sel0 now s1 = (sel, s')" using run assms by simp
    from audit_admissible [OF a0 this] show ?thesis using p1 by simp
  next
    case (Some f)
    let ?s = "if map_option resp_id (selProfile sel1) = Some (cf_profileId f)
         then s2\<lparr>rs_db := appendTaskActivityLog (taskId t) (stamped now (''Runtime one-shot fallback before '' @
              stage_key stage @ '': selectedProfile='' @ cf_profileId f @ '' previousProfile='' @
              given ''none'' (cf_previousProfileId f))) now (rs_db s2)\<rparr> else s2"
    have r: "applyProtectedAuditEndpointRouting (rt_poll e) t stage sel1 now ?s = (sel, s')" using run assms Some by simp
    have "admissible_sel (rt_date e) stage ?s sel1" using durable logged by simp
    from audit_admissible [OF this r] show ?thesis using durable p1 by (auto split: if_splits)
  qed
qed

lemma gated_admissible:
  assumes "admissible_sel (rt_date e) stage s sel" and "gate_with_fallback e st t stage stages sel now s = Inr ((sel', g), s')"
  shows "admissible_sel (rt_date e) stage s' sel' \<and> profiles (rs_profiles s') = profiles (rs_profiles s) \<and>
    gate_of e sel' now = Inr g \<and> (selProfile sel' = None \<longrightarrow> sel' = sel)"
proof -
  let ?pd = "fst (getAppDefaultRuntimeProfileId (Of_Stage stage) now (rs_profiles s))"
  have other: "admissible (rt_date e) stage (profiles (rs_profiles s)) p"
    if "selProfile (resolveEffectiveRuntimeProfileExcluding (rt_date e) ex (stage_input t stage system) d ?pd) = Some p" for ex system d p
    by (rule resolved_admissible [OF refl _ that]) (simp_all add: stage_input_def)
  show ?thesis using assms
    by (auto simp: gate_with_fallback_def admissible_sel_def case_prod_unfold Let_def set_fallbacks_def
        split: sum.splits if_splits option.splits intro: other)
qed

text \<open>
  C18: What a prepared candidate runs on. The profile is stored and enabled, the limit gate does not block it, and
  it may run the stage under the stage policy or has the runtime, provider and transport of an enabled profile
  that may. A candidate is prepared for implementation without a profile only if none is configured.
\<close>

theorem prepared_profile_is_admissible:
  assumes "prepare_candidate e st t now s0 = Inr ((s, ms), Some sel)"
    and "stage = runtimeStageForCoordinatorTask st t (rs_db s0)"
  shows "(\<exists>g. gate_of e sel now = Inr g \<and> \<not> gateBlocked g) \<and>
    (case selProfile sel of
       None \<Rightarrow> stage \<noteq> Stage_Implementer \<or> \<not> runtimeSelectionHasConfiguredCandidates sel
     | Some p \<Rightarrow> fst p \<in> set (profiles (rs_profiles s0)) \<and> pfEnabled (fst p) \<and>
         (\<exists>q. fst q \<in> set (profiles (rs_profiles s0)) \<and> pfEnabled (fst q) \<and>
            runtimeProfileAllowedForStage (rt_date e) (fst q) stage \<and> same_runtime p q))"
proof -
  define s1 where "s1 = set_fallbacks t (fallbackStagesForCoordinatorTask st t (rs_db s0)) None No_Source now s0"
  obtain d1 ms1 b where budget: "appendRuntimeBudgetActivity (rt_budget e t stage (rs_db s1)) t stage now (rs_db s1) = ((d1, ms1), b)"
    by (metis prod.exhaust)
  obtain sel0 s2 where chosen: "choose_profile e t stage now (s1\<lparr>rs_db := d1\<rparr>) = (sel0, s2)" by fastforce
  have b: "\<not> b" using assms budget by (auto simp: prepare_candidate_def Let_def s1_def)
  have "\<not> (stage = Stage_Implementer \<and> selProfile sel0 = None \<and> runtimeSelectionHasConfiguredCandidates sel0) \<and>
      (\<exists>g. gate_with_fallback e st t stage (fallbackStagesForCoordinatorTask st t (rs_db s0)) sel0 now s2 = Inr ((sel, g), s) \<and>
        \<not> gateBlocked g)"
    using assms budget chosen b
    by (auto simp: prepare_candidate_def Let_def s1_def [symmetric] split: prod.splits if_splits sum.splits)
  then obtain g where g: "gate_with_fallback e st t stage (fallbackStagesForCoordinatorTask st t (rs_db s0)) sel0 now s2 = Inr ((sel, g), s)"
      "\<not> gateBlocked g" "\<not> (stage = Stage_Implementer \<and> selProfile sel0 = None \<and> runtimeSelectionHasConfiguredCandidates sel0)"
    by blast
  note c = chosen_admissible [OF chosen]
  have "profiles (rs_profiles s2) = profiles (rs_profiles s0)" using c by (simp add: s1_def set_fallbacks_def)
  then show ?thesis using gated_admissible [OF conjunct1 [OF c] g(1)] g(2,3)
    by (auto simp: admissible_sel_def admissible_def split: option.split)
qed

section \<open>An example\<close>

definition demo_routing :: routing_env where
  "demo_routing = \<lparr>rt_poll = demo_poll, rt_date = (\<lambda>_. None), rt_limits = True,
     rt_budget = (\<lambda>_ _ _. \<lparr>bdStatus = Budget_Allow, bdSignature = [], bdSpent = [], bdBudget = [], bdPercent = [],
       bdJustification = []\<rparr>)\<rparr>"

definition demo_candidate :: task_row where
  "demo_candidate = (blank_task ''a'')\<lparr>status := Planning, runtimeProfileId := Some ''r3''\<rparr>"

definition demo_routing_state :: routing_state where
  "demo_routing_state = \<lparr>rs_db = empty_db\<lparr>tasks := [demo_candidate]\<rparr>, rs_profiles = demo_profiles, rs_options = (\<lambda>_. None), rs_fallbacks = []\<rparr>"

definition demo_prepared :: "string + (routing_state \<times> (bool \<times> moved) list) \<times> profile_selection option" where
  "demo_prepared = prepare_candidate demo_routing Planner demo_candidate 1000 demo_routing_state"

lemma demo_prepared_some: "(case demo_prepared of Inl x \<Rightarrow> False | Inr (s, None) \<Rightarrow> False | Inr (s, Some c) \<Rightarrow> selProfile c \<noteq> None)"
  by code_simp

lemma demo_prepared_profile: "\<exists>s ms c p. demo_prepared = Inr ((s, ms), Some c) \<and> selProfile c = Some p"
proof (cases demo_prepared)
  case (Inr r)
  obtain s ms c where r: "r = ((s, ms), c)" by (metis prod.exhaust)
  have some: "case c of None \<Rightarrow> False | Some c \<Rightarrow> selProfile c \<noteq> None"
    using demo_prepared_some unfolding Inr r by (cases c) simp_all
  then obtain c' p where c: "c = Some c'" "selProfile c' = Some p" by (cases c) auto
  have "demo_prepared = Inr ((s, ms), Some c')" using Inr r c(1) by (simp only:)
  with c(2) show ?thesis by blast
next
  case (Inl x)
  show ?thesis using demo_prepared_some unfolding Inl by simp
qed

lemma demo_candidate_found: "demo_candidate \<in> set (findCoordinatorTaskCandidates Planner 5 1000 (rs_db demo_routing_state))"
  by code_simp

definition demo_start :: "string + start_result option \<times> slots \<times> routing_state \<times> (bool \<times> moved) list" where
  "demo_start = start_candidate demo_routing Planner demo_candidate 1000 no_slots demo_routing_state"

lemma demo_started: "(case demo_start of Inl x \<Rightarrow> False | Inr (r, _) \<Rightarrow> r = Some Started)"
  by code_simp

theorem candidate_is_started_blocked_or_lacks_a_slot_witness:
  "\<exists>sl s ms r. demo_start = Inr (Some Started, sl, s, ms) \<and> findTaskById ''a'' (rs_db s) = Some r \<and> lockStage r = Some Planner"
proof -
  obtain sl s ms where st: "demo_start = Inr (Some Started, sl, s, ms)" using demo_started by (auto split: sum.splits)
  have "ids_distinct (rs_db demo_routing_state)" by code_simp
  from candidate_is_started_blocked_or_lacks_a_slot [OF st [unfolded demo_start_def] this demo_candidate_found]
  have "\<exists>r. findTaskById ''a'' (rs_db s) = Some r \<and> lockStage r = Some Planner"
    by (auto simp: demo_candidate_def blank_task_def)
  with st show ?thesis by blast
qed

theorem prepared_profile_is_admissible_witness:
  "\<exists>s ms c p. demo_prepared = Inr ((s, ms), Some c) \<and> selProfile c = Some p \<and> pfEnabled (fst p) \<and>
     (\<exists>g. gate_of demo_routing c 1000 = Inr g \<and> \<not> gateBlocked g)"
proof -
  obtain s ms c p where p: "demo_prepared = Inr ((s, ms), Some c)" "selProfile c = Some p" using demo_prepared_profile by blast
  from prepared_profile_is_admissible [OF p(1) [unfolded demo_prepared_def] refl] p(2)
  have "pfEnabled (fst p) \<and> (\<exists>g. gate_of demo_routing c 1000 = Inr g \<and> \<not> gateBlocked g)" by simp
  with p show ?thesis by blast
qed

end
