(* ===== verification/Recovery_Claims.thy ===== *)
theory Recovery_Claims
  imports Runtime_Recovery Routing_Claims Review_Demo
begin

text \<open>
  What the guard of the recoveries promises: no recovery is repeated when nothing has changed, and a context that
  is exceeded twice blocks the task.
\<close>

section \<open>The guard and the table of attempts\<close>

definition delta_row :: "artifact_attempt \<Rightarrow> bool" where
  "delta_row a \<longleftrightarrow> ta_stage a = ''runtime_recovery'' \<and> ta_kind a = ''delta_guard''"

text \<open>\<open>a\<close> is a recovery that went on although \<open>b\<close> had recorded the same before.\<close>

definition again :: "review_host \<Rightarrow> artifact_attempt \<Rightarrow> artifact_attempt \<Rightarrow> bool" where
  "again h b a \<longleftrightarrow> delta_row a \<and> ta_state a \<noteq> ''rejected'' \<and> ta_taskId b = ta_taskId a \<and>
     (case readRuntimeRecoveryDeltaInput (ta_metadata a) of None \<Rightarrow> False | Some g \<Rightarrow> repeats h g b)"

definition none_again :: "review_host \<Rightarrow> artifact_attempt list \<Rightarrow> bool" where
  "none_again h as = sorted_wrt (\<lambda>b a. \<not> again h b a) as"

text \<open>A recovery of an exceeded context is always recorded with the same parts but for the requirements.\<close>

definition context_signature :: "delta_signature \<Rightarrow> bool" where
  "context_signature g \<longleftrightarrow> dl_kind g = ''context_fallback'' \<longrightarrow>
     dl_sha g = None \<and> dl_validator g = None \<and> dl_loop g = None \<and> dl_family g = ''context_length'' \<and> dl_refs g = [] \<and>
     dl_snapshotFp g = None"

definition attempts_ok :: "review_host \<Rightarrow> artifact_attempt list \<Rightarrow> bool" where
  "attempts_ok h as \<longleftrightarrow> none_again h as \<and>
     (\<forall>a\<in>set as. delta_row a \<longrightarrow> (\<exists>g. readRuntimeRecoveryDeltaInput (ta_metadata a) = Some g \<and> context_signature g))"

text \<open>What a step may add to the table.\<close>

definition grows :: "review_host \<Rightarrow> recovery_db \<Rightarrow> recovery_db \<Rightarrow> bool" where
  "grows h s s' \<longleftrightarrow> (attempts_ok h (rv_attempts s) \<longrightarrow> attempts_ok h (rv_attempts s'))"

lemma grows_refl [simp]: "grows h s s"
  by (simp add: grows_def)

lemma grows_trans: "grows h s s' \<Longrightarrow> grows h s' s'' \<Longrightarrow> grows h s s''"
  by (simp add: grows_def)

lemma grows_same: "rv_attempts s' = rv_attempts s \<Longrightarrow> grows h s s'"
  by (simp add: grows_def)

lemma recorded_row:
  assumes "recordTaskStageArtifactAttempt uuid inp now s = Inr s'"
  shows "\<exists>a. rv_attempts s' = rv_attempts s @ [a] \<and> ta_taskId a = ti_taskId inp \<and> ta_stage a = ti_stage inp \<and>
    ta_kind a = ti_kind inp \<and> ta_state a = given ''accepted'' (ti_state inp) \<and> ta_metadata a = given (JObj []) (ti_metadata inp)"
    and "rv s' = rv s"
  using assms by (auto simp: recordTaskStageArtifactAttempt_def Let_def findTaskById_def dest: found_row split: option.splits)

lemma grows_other:
  assumes "recordTaskStageArtifactAttempt uuid inp now s = Inr s'" and "ti_kind inp \<noteq> ''delta_guard''"
  shows "grows h s s'"
  using recorded_row(1) [OF assms(1)] assms(2)
  by (auto simp: grows_def attempts_ok_def none_again_def sorted_wrt_append again_def delta_row_def)

lemma delta_recorded:
  assumes "recordRuntimeRecoveryDeltaAttempt e i x st summary now s = Inr s'"
  shows "\<exists>a. rv_attempts s' = rv_attempts s @ [a] \<and> ta_taskId a = i \<and> delta_row a \<and> ta_state a = st \<and>
    readRuntimeRecoveryDeltaInput (ta_metadata a) = Some (dd_input x)"
    and "rv s' = rv s"
proof -
  note r = recorded_row [OF assms [unfolded recordRuntimeRecoveryDeltaAttempt_def Let_def]]
  from r(1) show "\<exists>a. rv_attempts s' = rv_attempts s @ [a] \<and> ta_taskId a = i \<and> delta_row a \<and> ta_state a = st \<and>
      readRuntimeRecoveryDeltaInput (ta_metadata a) = Some (dd_input x)"
    by (auto simp: delta_row_def given_def signature_read_back)
  show "rv s' = rv s" by (rule r(2))
qed

lemma rejected_grows:
  assumes "recordRuntimeRecoveryDeltaAttempt e i x ''rejected'' summary now s = Inr s'" and "context_signature (dd_input x)"
  shows "grows h s s'"
  using delta_recorded(1) [OF assms(1)] assms(2)
  by (auto simp: grows_def attempts_ok_def none_again_def sorted_wrt_append again_def)

lemma decision_input [simp]: "dd_input (evaluateRuntimeRecoveryDelta h g s) = g"
  by (simp add: evaluateRuntimeRecoveryDelta_def split: option.split)

lemma allowed_is_new:
  assumes "dd_allow (evaluateRuntimeRecoveryDelta h g s)" and "b \<in> set (rv_attempts s)" and "ta_taskId b = dl_taskId g"
  shows "\<not> repeats h g b"
proof -
  have "List.find (repeats h g) (listTaskStageArtifactAttempts (dl_taskId g) s) = None"
    using assms(1) by (simp add: evaluateRuntimeRecoveryDelta_def split: option.splits)
  then show ?thesis using assms(2,3) by (auto simp: find_None_iff listTaskStageArtifactAttempts_def)
qed

lemma emit_grows:
  assumes "emitCoordinatorGuardrailEvent e counter t stage workflow action reason path fp keep summary now s = Inr s'"
  shows "grows h s s'"
proof -
  define ev where "ev = buildAgentGuardrailEvent (rc_relative e) None (guardrail_input t stage workflow action reason path fp)"
  let ?s1 = "lift_db (appendTaskActivityLog (taskId t) (stamped now (formatAgentGuardrailActivityLine counter ev)) now) s"
  have 1: "grows h s ?s1" by (rule grows_same) (simp add: lift_db_def)
  show ?thesis
  proof (cases keep)
    case True
    obtain a b c where abc: "mapAgentGuardrailAttemptTrust (ge_action ev) = (a, b, c)" by (metis prod.exhaust)
    from assms True abc have "\<exists>inp. ti_kind inp \<noteq> ''delta_guard'' \<and> recordTaskStageArtifactAttempt (rc_uuid e) inp now ?s1 = Inr s'"
      by (auto simp: emitCoordinatorGuardrailEvent_def Let_def ev_def intro!: exI)
    then have "grows h ?s1 s'" using grows_other by blast
    then show ?thesis by (rule grows_trans [OF 1])
  next
    case False
    then show ?thesis using assms 1 by (simp add: emitCoordinatorGuardrailEvent_def Let_def ev_def)
  qed
qed

lemma status_write_attempts [simp]: "rv_attempts (fst (status_write i st f options reason label frm now s)) = rv_attempts s"
  by (simp add: status_write_def case_prod_unfold Let_def)

lemma lift_db_attempts [simp]: "rv_attempts (lift_db f s) = rv_attempts s"
  by (simp add: lift_db_def)

lemma map_sum_Inr_conv: "map_sum id g v = Inr r \<longleftrightarrow> (\<exists>x. v = Inr x \<and> r = g x)"
  by (cases v) auto

lemma fail_closed_grows:
  assumes "failClosedRuntimeRecoveryNoDelta e t frm label reason manual x options now s = Inr (s', ms)"
  shows "grows h s s'"
  using assms
  by (auto simp: failClosedRuntimeRecoveryNoDelta_def Let_def case_prod_unfold map_sum_Inr_conv grows_def
      dest!: emit_grows [where h = h])

lemma guard_grows:
  assumes "delta_guard e t i texts st options frm label now s = Inr r"
    and "context_signature (buildRuntimeRecoveryDeltaSignature (rc_host e) t i)"
  shows "grows (rc_host e) s (case r of Inl p \<Rightarrow> fst p | Inr s' \<Rightarrow> s')"
proof -
  define g where "g = buildRuntimeRecoveryDeltaSignature (rc_host e) t i"
  define x where "x = evaluateRuntimeRecoveryDelta (rc_host e) g s"
  have id: "dl_taskId g = taskId t" by (simp add: g_def buildRuntimeRecoveryDeltaSignature_def)
  have input: "dd_input x = g" by (simp add: x_def)
  show ?thesis
  proof (cases "dd_allow x")
    case True
    then obtain s1 where s1: "recordRuntimeRecoveryDeltaAttempt e (taskId t) x st (gt_allowed texts) now s = Inr s1" "r = Inr s1"
      using assms(1) by (auto simp: delta_guard_def g_def [symmetric] x_def [symmetric] Let_def split: sum.splits)
    obtain a where a: "rv_attempts s1 = rv_attempts s @ [a]" "ta_taskId a = taskId t"
      "readRuntimeRecoveryDeltaInput (ta_metadata a) = Some g"
      using delta_recorded(1) [OF s1(1)] input by auto
    have "\<not> again (rc_host e) b a" if "b \<in> set (rv_attempts s)" for b
      using allowed_is_new [OF True [unfolded x_def] that] a(2,3) id by (auto simp: again_def)
    then show ?thesis using s1(2) a(1,3) assms(2) by (auto simp: grows_def attempts_ok_def none_again_def sorted_wrt_append g_def)
  next
    case False
    then obtain s1 p where s1: "recordRuntimeRecoveryDeltaAttempt e (taskId t) x ''rejected'' (gt_rejected texts) now s = Inr s1"
        "failClosedRuntimeRecoveryNoDelta e t frm label (gt_reason texts) (gt_manual texts) x options now s1 = Inr p" "r = Inl p"
      using assms(1) by (auto simp: delta_guard_def g_def [symmetric] x_def [symmetric] Let_def split: sum.splits)
    have "grows (rc_host e) s s1" using rejected_grows [OF s1(1)] assms(2) input by (simp add: g_def)
    moreover obtain s2 ms where "p = (s2, ms)" by fastforce
    ultimately show ?thesis using s1(3) fail_closed_grows [of e t frm label "gt_reason texts" "gt_manual texts" x options now s1 s2 ms]
        s1(2) by (auto intro: grows_trans)
  qed
qed

text \<open>The signatures of the recoveries.\<close>

lemma normalized_kinds [simp]:
  "normalizedString (Some ''context_fallback'') = Some ''context_fallback''"
  "normalizedString (Some ''context_length'') = Some ''context_length''"
  "normalizedString (Some ''transient_runtime_fallback'') = Some ''transient_runtime_fallback''"
  "normalizedString (Some ''audit_report_timeout'') = Some ''audit_report_timeout''"
  "normalizedString (Some ''audit_report_transient'') = Some ''audit_report_transient''"
  "normalizedString (Some ''post_write_audit_artifact_failure'') = Some ''post_write_audit_artifact_failure''"
  "normalizedString (Some ''repository_inspection_budget_exhaustion'') = Some ''repository_inspection_budget_exhaustion''"
  by code_simp+

lemma other_signature [simp]:
  "normalizedString (Some kind) = Some k \<Longrightarrow> k \<noteq> ''context_fallback'' \<Longrightarrow>
   context_signature (buildRuntimeRecoveryDeltaSignature h t (recovery_input stage cat kind path sha loop family t' failed))"
  by (simp add: context_signature_def buildRuntimeRecoveryDeltaSignature_def recovery_input_def given_def)

lemma written_signature [simp]: "context_signature (buildRuntimeRecoveryDeltaSignature h t (written_input f t' a cat r))"
  by (simp add: context_signature_def buildRuntimeRecoveryDeltaSignature_def written_input_def given_def)

lemma fallback_signature [simp]:
  "context_signature (buildRuntimeRecoveryDeltaSignature h t
     (recovery_input stage cat ''context_fallback'' None None None ''context_length'' t' failed))"
  by (simp add: context_signature_def buildRuntimeRecoveryDeltaSignature_def recovery_input_def given_def normalizedLower_def
      normalizedString_def [of None] normalizeRuntimeRecoveryEvidenceRefs_def sourceSnapshotFingerprint_def js_sort_def)

section \<open>Every recovery\<close>

lemma block_attempts [simp]: "rv_attempts (fst (block_for_operator f reason n manual options line now s)) = rv_attempts s"
  by (simp add: block_for_operator_def case_prod_unfold Let_def)

lemma retry_attempts [simp]: "rv_attempts (fst (retry_at_once f reason n options line now s)) = rv_attempts s"
  by (simp add: retry_at_once_def case_prod_unfold Let_def)

lemma retry_pair [simp]: "\<exists>s'. (\<exists>ms. retry_at_once f reason n options line now s = (s', ms)) \<and> rv_attempts s' = rv_attempts s"
  by (metis prod.collapse retry_attempts)

lemma resolved_attempts [simp]: "rv_attempts (fst (resolved_selection e t stage now s)) = rv_attempts s"
  by (simp add: resolved_selection_def case_prod_unfold Let_def)

lemma select_attempts [simp]: "rv_attempts (fst (select_fallback e t stage cur failed now s)) = rv_attempts s"
  by (simp add: select_fallback_def case_prod_unfold Let_def)

lemma failed_attempts [simp]: "rv_attempts (fst (failed_profile e f t now s)) = rv_attempts s"
  by (simp add: failed_profile_def case_prod_unfold Let_def)

lemma report_profile_attempts [simp]:
  "rv_attempts (fst (selectAuditReportTimeoutRecoveryProfile e t stage active now s)) = rv_attempts s"
  by (simp add: selectAuditReportTimeoutRecoveryProfile_def case_prod_unfold Let_def split: option.split)

lemma written_grows:
  assumes "recoverWrittenAuditArtifactAfterRuntimeFailure e f dir now s = Inr r"
  shows "grows (rc_host e) s (fst (fst r))"
  using assms
  by (auto simp: recoverWrittenAuditArtifactAfterRuntimeFailure_def Let_def grows_def split: if_splits sum.splits prod.splits
      bool.splits option.splits dest!: guard_grows)

lemma inspection_grows:
  assumes "handleRepositoryInspectionBudgetExhaustion e f dir now s = Inr r"
  shows "grows (rc_host e) s (fst (fst r))"
  using assms
  by (auto simp: handleRepositoryInspectionBudgetExhaustion_def Let_def grows_def split: if_splits sum.splits prod.splits bool.splits
      dest!: guard_grows)

lemma context_grows:
  assumes "handleContextLengthRecovery e f now s = Inr r"
  shows "grows (rc_host e) s (fst (fst r))"
  using assms
  by (auto simp: handleContextLengthRecovery_def Let_def grows_def case_prod_unfold split: if_splits sum.splits option.splits
      dest!: guard_grows)

lemma transient_grows:
  assumes "handleTransientRuntimeFallbackRecovery e f now s = Inr r"
  shows "grows (rc_host e) s (fst (fst r))"
  using assms
  by (auto simp: handleTransientRuntimeFallbackRecovery_def Let_def grows_def case_prod_unfold
      split: if_splits sum.splits option.splits dest!: guard_grows)

lemma report_grows:
  assumes "audit_report_recovery e f x a now s = Inr r" and "rp_kind x \<in> {''audit_report_timeout'', ''audit_report_transient''}"
  shows "grows (rc_host e) s (fst (fst r))"
  using assms
  by (auto simp: audit_report_recovery_def Let_def grows_def case_prod_unfold split: if_splits sum.splits dest!: guard_grows)

lemma timeout_grows:
  assumes "handleAuditReportTimeoutRecovery e f now s = Inr r"
  shows "grows (rc_host e) s (fst (fst r))"
  using assms report_grows by (auto simp: handleAuditReportTimeoutRecovery_def split: option.splits prod.splits if_splits)

lemma report_transient_grows:
  assumes "handleAuditReportTransientRecovery e f now s = Inr r"
  shows "grows (rc_host e) s (fst (fst r))"
  using assms report_grows by (auto simp: handleAuditReportTransientRecovery_def Let_def split: option.splits prod.splits if_splits)

lemma or_try_grows:
  assumes "or_try g k s = Inr r" and "\<And>s r. g s = Inr r \<Longrightarrow> grows h s (fst (fst r))" and "\<And>s r. k s = Inr r \<Longrightarrow> grows h s (fst (fst r))"
  shows "grows h s (fst (fst r))"
proof (cases "g s")
  case (Inr q)
  obtain s1 ms b where q: "q = ((s1, ms), b)" by (metis prod.exhaust)
  then have "grows h s s1" using assms(2) [OF Inr] by simp
  show ?thesis
  proof (cases b)
    case True
    then show ?thesis using assms(1) Inr q \<open>grows h s s1\<close> by (auto simp: or_try_def)
  next
    case False
    then have "k s1 = Inr r" using assms(1) Inr q by (simp add: or_try_def)
    from assms(3) [OF this] show ?thesis by (rule grows_trans [OF \<open>grows h s s1\<close>])
  qed
qed (use assms in \<open>simp add: or_try_def\<close>)

lemma recoveries_grow: "runtime_recoveries e f dir now s = Inr r \<Longrightarrow> grows (rc_host e) s (fst (fst r))"
  unfolding runtime_recoveries_def
  by (erule or_try_grows, erule written_grows, erule or_try_grows, erule inspection_grows, erule or_try_grows, erule context_grows, erule or_try_grows,
      erule timeout_grows, erule or_try_grows, erule transient_grows, erule report_transient_grows)

lemma failure_grows:
  assumes "handle_runtime_failure e enabled f dir src now s = Inr (s', ms)"
  shows "grows (rc_host e) s s'"
  using assms recoveries_grow [of e f dir now s]
  by (auto simp: handle_runtime_failure_def Let_def grows_def split: if_splits sum.splits prod.splits bool.splits)

section \<open>No recovery is repeated\<close>

text \<open>
  What happens to the tables of one program run: failures of stages are handled, attempts of other kinds are
  recorded, and the other tables change in whatever way.
\<close>

inductive recovery_run :: "recovery_env \<Rightarrow> recovery_db \<Rightarrow> bool" for e where
  empty_table: "rv_attempts s = [] \<Longrightarrow> recovery_run e s"
| failure: "recovery_run e s \<Longrightarrow> handle_runtime_failure e enabled f dir src now s = Inr (s', ms) \<Longrightarrow> recovery_run e s'"
| other_attempt: "recovery_run e s \<Longrightarrow> ti_kind inp \<noteq> ''delta_guard'' \<Longrightarrow>
    recordTaskStageArtifactAttempt uuid inp now s = Inr s' \<Longrightarrow> recovery_run e s'"
| elsewhere: "recovery_run e s \<Longrightarrow> rv_attempts s' = rv_attempts s \<Longrightarrow> recovery_run e s'"

lemma run_attempts_ok: "recovery_run e s \<Longrightarrow> attempts_ok (rc_host e) (rv_attempts s)"
proof (induction rule: recovery_run.induct)
  case (failure s enabled f dir src now s' ms)
  then show ?case using failure_grows by (auto simp: grows_def)
next
  case (other_attempt s inp uuid now s')
  then show ?case using grows_other [of uuid inp now s s' "rc_host e"] by (auto simp: grows_def)
qed (simp_all add: attempts_ok_def none_again_def)

text \<open>The parts of a signature that the guard looks at.\<close>

definition delta_fields ::
    "delta_signature \<Rightarrow> string \<times> string option \<times> string option \<times> string option \<times> string \<times> string list \<times> string option \<times> string option" where
  "delta_fields g = (dl_kind g, dl_sha g, dl_validator g, dl_loop g, dl_family g, dl_refs g, dl_snapshot g, dl_snapshotFp g)"

text \<open>
  C8: No recovery is repeated without a change. In every run of the six recoveries that record an attempt, of two
  recorded recoveries of a task of which the later one was not refused, the kind, the artifact, the validation, the tool loop, the reason, the evidence or the
  requirements differ.
\<close>

theorem no_recovery_repeats_without_delta:
  assumes "recovery_run e s" and "rv_attempts s = xs @ b # ys @ a # zs"
    and "delta_row a" and "delta_row b" and "ta_taskId b = ta_taskId a" and "ta_state a \<noteq> ''rejected''"
    and "readRuntimeRecoveryDeltaInput (ta_metadata a) = Some g" and "readRuntimeRecoveryDeltaInput (ta_metadata b) = Some p"
  shows "delta_fields p \<noteq> delta_fields g"
proof
  assume same: "delta_fields p = delta_fields g"
  then have "no_delta (compareRuntimeRecoveryDeltaFields (rc_host e) g p)"
    by (simp add: no_delta_def compareRuntimeRecoveryDeltaFields_def delta_fields_def)
  then have "repeats (rc_host e) g b" using same assms(4,8) by (simp add: repeats_def delta_row_def delta_fields_def)
  then have "again (rc_host e) b a" using assms(3,5,6,7) by (simp add: again_def)
  moreover have "\<not> again (rc_host e) b a"
    using run_attempts_ok [OF assms(1)] by (simp add: attempts_ok_def none_again_def assms(2) sorted_wrt_append)
  ultimately show False by simp
qed

section \<open>A context that is exceeded again\<close>









lemma selections_keep_db [simp]:
  "rs_db (rv (fst (failed_profile e f t now s))) = rs_db (rv s)"
  "rs_db (rv (fst (select_fallback e t stage cur failed now s))) = rs_db (rv s)"
  by (simp_all add: failed_profile_def resolved_selection_def select_fallback_def case_prod_unfold Let_def)



section \<open>Recoveries that do happen\<close>



lemma record_returns:
  "findTaskById (ti_taskId inp) (rs_db (rv s)) = Some t \<Longrightarrow> \<exists>s'. recordTaskStageArtifactAttempt uuid inp now s = Inr s'"
  by (simp add: recordTaskStageArtifactAttempt_def Let_def)

lemma delta_returns:
  "findTaskById i (rs_db (rv s)) = Some t \<Longrightarrow> \<exists>s'. recordRuntimeRecoveryDeltaAttempt e i x st summary now s = Inr s'"
  unfolding recordRuntimeRecoveryDeltaAttempt_def Let_def by (rule record_returns) simp




text \<open>An exceeded context is always handled.\<close>

definition context_failure :: "failed_stage \<Rightarrow> bool" where
  "context_failure f \<longleftrightarrow> map_option (category \<circ> snd) (findRuntimeExecutionError (fs_error f)) = Some Context_Length \<and>
     \<not> isRepositoryInspectionBudgetExhaustionError (fs_error f)"


text \<open>The first one is recorded, if there is another profile to go to.\<close>

definition context_target :: "recovery_env \<Rightarrow> failed_stage \<Rightarrow> int \<Rightarrow> recovery_db \<Rightarrow> profile_response option" where
  "context_target e f now s =
     (let t = latest_task f s; q = failed_profile e f t now s
      in snd (select_fallback e t (fs_stage f) (fst (snd (snd q))) (snd (snd (snd (snd q)))) now (fst q)))"

lemma first_context_recorded:
  assumes "context_failure f" and "fs_label f \<noteq> Implementer" and "rc_autoFallback e" and "findTaskById (taskId (fs_task f)) (rs_db (rv s)) = Some t"
    and "\<not> isOperatorCancelledTask t" and "context_target e f now s = Some p"
    and "\<And>b q. b \<in> set (rv_attempts s) \<Longrightarrow> readRuntimeRecoveryDeltaInput (ta_metadata b) = Some q \<Longrightarrow>
      dl_snapshot q \<noteq> normalizedString (requirementsSnapshotId t)"
  shows "\<exists>s' ms a g. handle_runtime_failure e enabled f dir src now s = Inr (s', ms) \<and> rv_attempts s' = rv_attempts s @ [a] \<and>
    delta_row a \<and> ta_taskId a = taskId t \<and> ta_state a = ''accepted'' \<and> readRuntimeRecoveryDeltaInput (ta_metadata a) = Some g \<and>
    dl_kind g = ''context_fallback'' \<and> dl_snapshot g = normalizedString (requirementsSnapshotId t)"
proof -
  have latest: "latest_task f s = t" using assms(4) by (simp add: latest_task_def given_def)
  define q where "q = failed_profile e f t now s"
  define s2 where "s2 = fst (select_fallback e t (fs_stage f) (fst (snd (snd q))) (snd (snd (snd (snd q)))) now (fst q))"
  have s2: "rv_attempts s2 = rv_attempts s" "rs_db (rv s2) = rs_db (rv s)" by (simp_all add: s2_def q_def)
  define i where "i = recovery_input (stage_key (fs_stage f)) ''context_length'' ''context_fallback'' None None None ''context_length'' t
    (fst (snd (snd (snd q))))"
  define g where "g = buildRuntimeRecoveryDeltaSignature (rc_host e) t i"
  define x where "x = evaluateRuntimeRecoveryDelta (rc_host e) g s2"
  have g: "dl_kind g = ''context_fallback''" "dl_snapshot g = normalizedString (requirementsSnapshotId t)"
    by (simp_all add: g_def i_def buildRuntimeRecoveryDeltaSignature_def recovery_input_def given_def orelse_def split: option.split)
  have "\<not> repeats (rc_host e) g b" if "b \<in> set (rv_attempts s)" for b
    using assms(7) [OF that] g(2)
    by (auto simp: repeats_def no_delta_def compareRuntimeRecoveryDeltaFields_def split: option.splits)
  then have "List.find (repeats (rc_host e) g) (listTaskStageArtifactAttempts (dl_taskId g) s2) = None"
    by (auto simp: find_None_iff listTaskStageArtifactAttempts_def s2)
  then have allow: "dd_allow x" by (simp add: x_def evaluateRuntimeRecoveryDelta_def)
  have id: "taskId t = taskId (fs_task f)" using assms(4) by (auto simp: findTaskById_def dest: found_row)
  obtain s3 where s3: "recordRuntimeRecoveryDeltaAttempt e (taskId t) x ''accepted''
      ''Context fallback allowed because runtime recovery delta was not repeated.'' now s2 = Inr s3"
    using delta_returns [of "taskId t" s2] assms(4) s2(2) id by metis
  obtain a where a: "rv_attempts s3 = rv_attempts s @ [a]" "ta_taskId a = taskId t" "delta_row a" "ta_state a = ''accepted''"
      "readRuntimeRecoveryDeltaInput (ta_metadata a) = Some g"
    using delta_recorded(1) [OF s3] s2(1) by (auto simp: x_def)
  have target: "snd (select_fallback e t (fs_stage f) (fst (snd (snd q))) (snd (snd (snd (snd q)))) now (fst q)) = Some p"
    using assms(6) latest by (simp add: context_target_def Let_def q_def)
  have "\<exists>s' ms. handleContextLengthRecovery e f now s = Inr ((s', ms), True) \<and> rv_attempts s' = rv_attempts s3"
    using assms(1,3) target s3 allow
    unfolding handleContextLengthRecovery_def context_failure_def Let_def latest case_prod_unfold q_def [symmetric] i_def [symmetric]
      s2_def [symmetric] delta_guard_def g_def [symmetric] x_def [symmetric]
    by (auto simp: s2_def [symmetric] i_def [symmetric] g_def [symmetric] x_def [symmetric])
  then obtain s' ms where handled: "handleContextLengthRecovery e f now s = Inr ((s', ms), True)" "rv_attempts s' = rv_attempts s3" by blast
  have "handleRepositoryInspectionBudgetExhaustion e f dir now s = Inr ((s, []), False)"
    using assms(1) by (simp add: handleRepositoryInspectionBudgetExhaustion_def context_failure_def)
  moreover have "recoverWrittenAuditArtifactAfterRuntimeFailure e f dir now s = Inr ((s, []), False)"
    using assms(2) by (simp add: recoverWrittenAuditArtifactAfterRuntimeFailure_def Let_def split: option.split)
  ultimately have "handle_runtime_failure e enabled f dir src now s = Inr (s', ms)"
    using handled(1) assms(4,5) by (simp add: handle_runtime_failure_def runtime_recoveries_def or_try_def)
  moreover have "rv_attempts s' = rv_attempts s @ [a]" unfolding handled(2) by (rule a(1))
  ultimately show ?thesis using a(2-) g by (intro exI [of _ s'] exI [of _ ms] exI [of _ a] exI [of _ g] conjI)
qed

section \<open>An example\<close>

text \<open>A task on a profile with a small context; two larger ones of the same runtime are there.\<close>

definition sized_profile :: "string \<Rightarrow> string \<Rightarrow> profile_row" where
  "sized_profile i n = (demo_profile_row i)\<lparr>pfOptions := [(''contextWindow'', JStr n)]\<rparr>"

definition demo_recovery_env :: recovery_env where
  "demo_recovery_env = \<lparr>rc_routing = demo_routing\<lparr>rt_poll := demo_poll\<lparr>pe_number := (\<lambda>x. Some (of_nat (length x)))\<rparr>\<rparr>,
     rc_host = demo_host ''- x'', rc_uuid = (\<lambda>n. replicate n CHR ''u''), rc_relative = (\<lambda>_ p. p),
     rc_readAuditArtifact = (\<lambda>_ _ _ _ _. (None, ''project_root'')), rc_autoFallback = True\<rparr>"

definition small_task :: "string \<Rightarrow> task_row" where
  "small_task snapshot = (blank_task ''a'')\<lparr>status := Planning, runtimeProfileId := Some ''p1'', requirementsSnapshotId := Some snapshot\<rparr>"

definition demo_recovery :: "string \<Rightarrow> artifact_attempt list \<Rightarrow> recovery_db" where
  "demo_recovery snapshot as = \<lparr>rv = \<lparr>rs_db = empty_db\<lparr>tasks := [small_task snapshot]\<rparr>,
       rs_profiles = \<lparr>profiles = [sized_profile ''p1'' ''x'', sized_profile ''p2'' ''xx'', sized_profile ''p3'' ''xxx''],
         usageEvents = [], appSettings = None\<rparr>,
       rs_options = (\<lambda>_. None), rs_fallbacks = []\<rparr>, rv_artifacts = [], rv_attempts = as\<rparr>"

definition demo_overflow :: "string \<Rightarrow> failed_stage" where
  "demo_overflow snapshot = \<lparr>fs_task = small_task snapshot, fs_stage = Stage_Planner, fs_label = Planner, fs_inProgress = Planning,
     fs_title = ''T'', fs_error = Js_Error (Execution_Error (runtime_execution_meta Context_Length None None None None None JNull))
       ''too long'' None\<rparr>"

lemma demo_overflow_fails: "context_failure (demo_overflow n)"
proof -
  have "\<not> js_test (lit_i ''repository inspection budget exhausted'') ''too long''" by code_simp
  then show ?thesis
    by (simp add: context_failure_def demo_overflow_def findRuntimeExecutionError_def isRepositoryInspectionBudgetExhaustionError_def
        runtime_execution_meta_def)
qed

lemma target_without_attempts: "context_target e f now (s\<lparr>rv_attempts := as\<rparr>) = context_target e f now s"
  by (simp add: context_target_def latest_task_def failed_profile_def resolved_selection_def select_fallback_def options_of_def
      case_prod_unfold Let_def)

lemma demo_overflow_target:
  assumes "snapshot \<in> {''r1'', ''r2''}"
  shows "\<exists>p. context_target demo_recovery_env (demo_overflow snapshot) 5 (demo_recovery snapshot as) = Some p"
proof -
  have some: "map_option k x = Some y \<Longrightarrow> \<exists>p. x = Some p" for k :: "profile_response \<Rightarrow> string" and x y by auto
  have r1: "map_option resp_id (context_target demo_recovery_env (demo_overflow ''r1'') 5 (demo_recovery ''r1'' [])) = Some ''p2''"
    by code_simp
  have r2: "map_option resp_id (context_target demo_recovery_env (demo_overflow ''r2'') 5 (demo_recovery ''r2'' [])) = Some ''p2''"
    by code_simp
  have "demo_recovery snapshot as = (demo_recovery snapshot [])\<lparr>rv_attempts := as\<rparr>" by (simp add: demo_recovery_def)
  then have same: "context_target demo_recovery_env (demo_overflow snapshot) 5 (demo_recovery snapshot as) =
      context_target demo_recovery_env (demo_overflow snapshot) 5 (demo_recovery snapshot [])"
    by (simp only: target_without_attempts)
  consider "snapshot = ''r1''" | "snapshot = ''r2''" using assms by blast
  then show ?thesis unfolding same by cases (use some [OF r1] some [OF r2] in blast)+
qed

text \<open>An attempt that records a recovery of an exceeded context under the requirements \<open>snapshot\<close>.\<close>

definition records_overflow :: "string \<Rightarrow> artifact_attempt \<Rightarrow> bool" where
  "records_overflow snapshot a \<longleftrightarrow> delta_row a \<and> ta_taskId a = ''a'' \<and> ta_state a = ''accepted'' \<and>
     (\<exists>g. readRuntimeRecoveryDeltaInput (ta_metadata a) = Some g \<and> dl_kind g = ''context_fallback'' \<and> dl_snapshot g = Some snapshot)"

lemma demo_task_id [simp]: "taskId (small_task n) = ''a''" "taskId (fs_task (demo_overflow n)) = ''a''"
  by (simp_all add: small_task_def demo_overflow_def blank_task_def)

lemma demo_step:
  assumes run: "recovery_run demo_recovery_env (demo_recovery snapshot as)" and "snapshot \<in> {''r1'', ''r2''}"
    and "\<And>b. b \<in> set as \<Longrightarrow> records_overflow other b" and "other \<noteq> snapshot"
  shows "\<exists>s a. recovery_run demo_recovery_env s \<and> rv_attempts s = as @ [a] \<and> records_overflow snapshot a"
proof -
  let ?s = "demo_recovery snapshot as" and ?f = "demo_overflow snapshot"
  obtain p where p: "context_target demo_recovery_env ?f 5 ?s = Some p" using demo_overflow_target [OF assms(2)] by blast
  have t: "findTaskById (taskId (fs_task ?f)) (rs_db (rv ?s)) = Some (small_task snapshot)"
    by (simp add: demo_recovery_def findTaskById_def)
  have norm: "normalizedString (Some ''r1'') = Some ''r1''" "normalizedString (Some ''r2'') = Some ''r2''" by code_simp+
  then have n: "normalizedString (requirementsSnapshotId (small_task snapshot)) = Some snapshot"
    using assms(2) by (auto simp: small_task_def)
  have "\<not> isOperatorCancelledTask (small_task snapshot)" by (simp add: isOperatorCancelledTask_def small_task_def)
  moreover have "dl_snapshot q \<noteq> normalizedString (requirementsSnapshotId (small_task snapshot))"
    if "b \<in> set (rv_attempts ?s)" "readRuntimeRecoveryDeltaInput (ta_metadata b) = Some q" for b q
    using that assms(3) [of b] assms(4) n by (auto simp: records_overflow_def demo_recovery_def)
  moreover have "fs_label (demo_overflow snapshot) \<noteq> Implementer" by (simp add: demo_overflow_def)
  moreover have "rc_autoFallback demo_recovery_env" by (simp add: demo_recovery_env_def)
  ultimately obtain s' ms a g where s': "handle_runtime_failure demo_recovery_env True ?f ''/r'' Planning 5 ?s = Inr (s', ms)"
    "rv_attempts s' = rv_attempts ?s @ [a]" "delta_row a" "ta_taskId a = taskId (small_task snapshot)" "ta_state a = ''accepted''"
    "readRuntimeRecoveryDeltaInput (ta_metadata a) = Some g" "dl_kind g = ''context_fallback''"
    "dl_snapshot g = normalizedString (requirementsSnapshotId (small_task snapshot))"
    using first_context_recorded [OF demo_overflow_fails _ _ t _ p, of True "''/r''" Planning] by blast
  have "records_overflow snapshot a" unfolding records_overflow_def using s'(3-8) n by simp
  moreover have "rv_attempts s' = as @ [a]" using s'(2) by (simp add: demo_recovery_def)
  ultimately show ?thesis using recovery_run.failure [OF run s'(1)] by blast
qed

lemma demo_first: "\<exists>a. recovery_run demo_recovery_env (demo_recovery snapshot [a]) \<and> records_overflow ''r1'' a"
proof -
  have "recovery_run demo_recovery_env (demo_recovery ''r1'' [])" by (rule recovery_run.empty_table) (simp add: demo_recovery_def)
  from demo_step [OF this, of "''x''"] obtain s a where s: "recovery_run demo_recovery_env s" "rv_attempts s = [a]" "records_overflow ''r1'' a"
    by auto
  have "recovery_run demo_recovery_env (demo_recovery snapshot [a])"
    by (rule recovery_run.elsewhere [OF s(1)]) (simp add: demo_recovery_def s(2))
  with s(3) show ?thesis by blast
qed

theorem no_recovery_repeats_without_delta_witness:
  "\<exists>s a b g p. recovery_run demo_recovery_env s \<and> rv_attempts s = [b, a] \<and> delta_row a \<and> delta_row b \<and>
     readRuntimeRecoveryDeltaInput (ta_metadata a) = Some g \<and> readRuntimeRecoveryDeltaInput (ta_metadata b) = Some p \<and>
     delta_fields p \<noteq> delta_fields g"
proof -
  obtain b where b: "recovery_run demo_recovery_env (demo_recovery ''r2'' [b])" "records_overflow ''r1'' b" using demo_first by blast
  from demo_step [OF b(1), of "''r1''"] b(2) obtain s a where
    s: "recovery_run demo_recovery_env s" "rv_attempts s = [b, a]" "records_overflow ''r2'' a" by auto
  obtain g p where gp: "readRuntimeRecoveryDeltaInput (ta_metadata a) = Some g" "readRuntimeRecoveryDeltaInput (ta_metadata b) = Some p"
    using b(2) s(3) unfolding records_overflow_def by blast
  have "delta_row a" "delta_row b" "ta_taskId b = ta_taskId a" "ta_state a \<noteq> ''rejected''"
    using b(2) s(3) by (auto simp: records_overflow_def)
  then have "delta_fields p \<noteq> delta_fields g"
    using no_recovery_repeats_without_delta [OF s(1), of "[]" b "[]" a "[]" g p] s(2) gp by simp
  then show ?thesis using s(1,2) gp \<open>delta_row a\<close> \<open>delta_row b\<close> by blast
qed


end
