(* ===== verification/Spec2Isabelle.thy ===== *)
theory Spec2Isabelle
  imports State_Machine Hierarchy_Invariant Task_Claims Endpoint_Leases Watchdog Plan_Layers Runtime_Limits Stage_Errors Review_Claims Review_Ends
    Rate_Limiter Runtime_Resolution Recovery_Claims
begin

text \<open>
  Verification development for \<open>aif-handoff\<close>: a hand-over board on which people put tasks and agents work
  on them. A coordinator process (\<open>packages/agent\<close>) polls the database (\<open>packages/data\<close>), claims tasks, runs
  the stages of a pipeline (planning, plan check, implementation, review, QA) through sub-agents on runtime
  profiles (\<open>packages/runtime\<close>), and moves the tasks on, back, or into a block; people act through the HTTP
  API and the MCP server. The rules that decide all this are in \<open>packages/shared\<close>.

  \<^bold>\<open>How the parts interact.\<close> The tables are the only state the components share, and here they are one record
  \<open>db\<close> (\<open>Aif_Types\<close>). An operation of the program is a function from the arguments, the instant \<open>now\<close> and the
  \<open>db\<close> to its answer and the new \<open>db\<close>. The coordinator frees stale claims and retries (\<open>Task_Claims\<close>,
  \<open>Watchdog\<close>), fills the pipeline (\<open>Auto_Queue\<close>), begins stages within its slots (\<open>Task_Slots\<close>), takes endpoint
  leases (\<open>Endpoint_Leases\<close>), and at the end of a stage follows the pipeline (\<open>Stage_Pipeline\<close>), recovers from
  an error (\<open>Stage_Errors\<close>), or lets the review gate decide (\<open>Review_Gate\<close>, \<open>Auto_Review\<close>, \<open>Review_Stage\<close>).
  Each status write goes through the field update of \<open>Task_Hierarchy\<close>, which rolls the change up to the
  parents and, for tasks of an audit batch, to the artifacts of \<open>Audit_Release\<close> and \<open>Roadmap_Artifacts\<close>.
  People's events go through \<open>State_Machine\<close>.

  \<^bold>\<open>Theories, in the order of import, and the code they model.\<close>
  \<^item> \<open>Aif_Prelude\<close>, \<open>Js_Regex\<close>, \<open>Js_Date\<close>, \<open>Js_Json\<close>, \<open>Js_Text\<close>: the parts of the language and its library the
    sources use (strings, maps in insertion order, backtracking regular expressions, \<open>toISOString\<close>,
    \<open>JSON.stringify\<close>), and generic lemmas.
  \<^item> \<open>Aif_Types\<close>: \<open>shared/src/types.ts\<close>, \<open>constants.ts\<close> and the rows of \<open>schema.ts\<close>.
  \<^item> \<open>State_Machine\<close>: \<open>shared/src/stateMachine.ts\<close>. Events, guards, patches; which statuses people's events
    can reach and which only the agents can; what cancelling keeps and loses.
  \<^item> \<open>Audit_Release\<close>, \<open>Roadmap_Artifacts\<close>, \<open>Failure_Families\<close>: the audit part of \<open>data/src/index.ts\<close>,
    \<open>auditCardDecision.ts\<close>, \<open>auditRoadmapContract.ts\<close>, \<open>auditFailureFingerprint.ts\<close>. When an artifact is
    trusted, in which order reports and the synthesis are released, how an artifact's state is rewritten,
    and when two failures are the same.
  \<^item> \<open>Task_Hierarchy\<close>, \<open>Hierarchy_Invariant\<close>: parents, depths, positions and roll-ups in \<open>data/src/index.ts\<close>
    (\<open>createTask\<close>, \<open>updateTask\<close>, \<open>deleteTask\<close>, \<open>setTaskFields\<close>). The invariant holds in every reachable
    database, and the ancestors of a written task agree with their children.
  \<^item> \<open>Lock_Table\<close>: the contract of a table of expiring locks, a locale with its exclusion theorem. \<open>Task_Claims\<close>
    (claims, candidates, backlog advance) and \<open>Endpoint_Leases\<close> (leases on runtime endpoints), both from
    \<open>data/src/index.ts\<close>, interpret it on their operations.
  \<^item> \<open>Watchdog\<close>: \<open>agent/src/taskWatchdog.ts\<close>. Retry, back-off and quarantine of stale tasks.
  \<^item> \<open>Auto_Queue\<close>: the scheduler and the auto-queue of \<open>agent/src/coordinator.ts\<close>, with
    \<open>shared/src/branchDependency.ts\<close>. The passes end, fill a pool up to the limit the code
    computes for it and no further, and leave no pool short.
  \<^item> \<open>Stage_Policy\<close>, \<open>Runtime_Resolution\<close>: \<open>shared/src/runtimeStagePolicy.ts\<close>, \<open>runtime/src/resolution.ts\<close>. Which
    profile may run a stage, within which limits, and with which key.
  \<^item> \<open>Stage_Pipeline\<close>, \<open>Task_Slots\<close>: the active pipeline, the semaphores and the candidate loop of
    \<open>pollAndProcess\<close>. Overlapping poll cycles are the relation \<open>reachable_slots\<close>.
  \<^item> \<open>Provider_Meta\<close>, \<open>Runtime_Limits\<close>: \<open>shared/src/runtimeLimitUtils.ts\<close>. What is kept of a provider's metadata,
    and when a profile is held back.
  \<^item> \<open>Stage_Errors\<close>: \<open>runtime/src/errors.ts\<close>, \<open>agent/src/errorClassifier.ts\<close>, \<open>stageErrorHandler.ts\<close> and their use in
    the coordinator. Which failures are retried, and that a failure never undoes a cancellation.
  \<^item> \<open>Plan_Layers\<close>: \<open>agent/src/planLayers.ts\<close>. Parsing of a plan and its layers.
  \<^item> \<open>Review_Contract\<close>, \<open>Review_Roles\<close>, \<open>Review_Report\<close>: the readers, the merge and the printer of
    \<open>agent/src/reviewContract.ts\<close>; \<open>Redacted_Text\<close>, \<open>Review_Merge\<close>, \<open>Review_Roundtrip\<close>, \<open>Review_Reread\<close> prove that
    the printed report is read back as it was merged and that no blocker is lost.
  \<^item> \<open>Review_Classifiers\<close>, \<open>Review_Gate\<close>, \<open>Gate_Outcomes\<close>, \<open>Review_Claims\<close>: \<open>agent/src/reviewGate.ts\<close> and what its
    answers promise.
  \<^item> \<open>Auto_Review\<close>, \<open>Review_Outcome\<close>, \<open>Review_Stage\<close>, \<open>Review_Loop\<close>, \<open>Review_Demo\<close>, \<open>Review_Ends\<close>:
    \<open>agent/src/autoReviewHandler.ts\<close> and the reviewer's branch of the stage function. The loop of review and
    rework ends, repeated failures fail closed, and a task is done only after an accepted review.
  \<^item> \<open>Rate_Limiter\<close>: \<open>mcp/src/middleware/rateLimit.ts\<close>.
  \<^item> \<open>Recovery_Options\<close>, \<open>Runtime_Profiles\<close>: \<open>agent/src/runtimeRecoveryOptions.ts\<close> and the runtime profiles of
    \<open>data/src/index.ts\<close>. The recovery state is kept in a task's runtime options and read back as written; the
    selection of a profile for one task and the one for many tasks agree.
  \<^item> \<open>Profile_Routing\<close>, \<open>Routing_Claims\<close>: what \<open>agent/src/coordinator.ts\<close> does with a candidate before it claims
    it: durable defaults, protected audit routes, the limit gate with its fallback, the budget. A prepared
    candidate is started, blocked, or left for want of a slot on its profile, and the profile it runs on is
    admissible.
  \<^item> \<open>Guardrails\<close>: \<open>shared/src/guardrailObservability.ts\<close>, the redaction of what guard rails log.
  \<^item> \<open>Recovery_Delta\<close>, \<open>Runtime_Recovery\<close>, \<open>Recovery_Claims\<close>: the recorded attempts of a stage
    (\<open>data/src/index.ts\<close>), the guard that compares a recovery with them, and the recoveries of the stage
    function that come before the general classifier (\<open>agent/src/coordinator.ts\<close>). Their state is a record
    \<open>recovery_db\<close>: the \<open>db\<close>, the columns of runtime options, the profiles, the attempts and the tables of one
    run of the coordinator. No recovery is repeated without a change, and a second overflow of the context
    blocks the task.

  \<^bold>\<open>Conventions.\<close> Instants are integers of milliseconds, one \<open>now\<close> per operation; a timestamp from outside is the
  text with its parsed value. \<open>null\<close> and \<open>undefined\<close> are \<^term>\<open>None\<close>, except where the code tells them apart.
  A thrown error is \<open>Inl\<close> of its text. A conditional \<open>UPDATE\<close> is \<open>update_tasks\<close>, which answers the count of
  changed rows; \<open>ORDER BY\<close> is a stable sort. JSON columns hold parsed values. Finite numbers of the language
  are integers or rationals: rounding of doubles is not modelled, nor are code units above 255 (so the
  Cyrillic alternatives of the patterns are left out). Environment settings are arguments. Broadcasts are
  returned as lists of moves; activity lines are appended to the table; log lines are left out.

  \<^bold>\<open>Loops.\<close> Recursions over a list or a text are structural or carry the length of the rest as their measure. A
  repetition of the regular-expression matcher is unfolded at most once for each character that remains, which is
  enough because a round that consumes nothing is not repeated. The climb that rolls a change up carries
  the visited ids, and its measure is the number of tasks not yet visited. The loops the code leaves unguarded
  (descendants, ancestors, filling a pool) are \<open>partial_function\<close>s whose value \<^term>\<open>None\<close> is not returning: the
  first two return under the hierarchy invariant (\<open>Hierarchy_Invariant\<close>), the third always (\<open>Auto_Queue\<close>). The
  loop of review and rework spans many polls; \<open>Review_Loop\<close> bounds the number of its rounds by the iteration
  limit, whatever the reviewers answer.

  \<^bold>\<open>Parameters.\<close> Code outside the repository, the file system and services are arguments: hashes, random ids,
  \<open>localeCompare\<close>, \<open>Date.parse\<close> and \<open>Number\<close> of free text, the URL parser, what git answers (\<open>git_view\<close>), the file of
  an artifact (\<open>rc_readAuditArtifact\<close>), the answers of models, the checks of evidence on disk (\<open>review_host\<close>, \<open>gate_env\<close>), the decision of the budget
  (\<open>rt_budget\<close>) and \<open>path.relative\<close>. The candidate loop of \<open>Task_Slots\<close> takes the preparation of a candidate as an
  argument (\<open>pe_prepare\<close>), because its theorems hold for every choice; \<open>prepare_candidate\<close> of \<open>Profile_Routing\<close> is
  the code's. No law is assumed of them unless a theorem states it.

  \<^bold>\<open>Not modelled.\<close> The sub-agents, prompts and hooks; the validators of report files, of plan quality and of
  completion evidence (pattern lists over files); two recoveries of the stage function (a plan of poor quality,
  the recovery pack of an exhausted implementation); roadmap generation; tool permissions; git work
  trees; the runtime adapters (clients of services, in part generated); migrations and the tables for chat, memory, warm-up, settings and metrics;
  request decoding of the API and the MCP tools; the web interface. Of the task table, the columns no modelled
  operation touches are left out. \<open>createTask\<close> and \<open>updateTask\<close> are modelled without the inference of the
  task's intent from its text.
\<close>

end
